(* ===== verification/Prelude.thy ===== *)
theory Prelude
  imports Main "HOL-Library.Word"
begin

text \<open>
  Shared vocabulary of the development: the fixed-width integers of the C++ sources as
  words, the error-free helpers on them, and the lemma collections that the component
  theories feed and use.

  A C++ expression over \<open>uint8_t\<close> or \<open>uint16_t\<close> operands is computed in
  \<open>int\<close> and cut back to the width of the variable it is assigned to.  Sums, differences
  and bit operations commute with that cut, so the model computes them directly at the width
  of the target (almost always 16 bits) and narrows with \<open>ucast\<close> where the source does.
\<close>

unbundle bit_operations_syntax

type_synonym u8 = "8 word"
type_synonym u16 = "16 word"
type_synonym u32 = "32 word"
type_synonym u64 = "64 word"

abbreviation w16 :: "u8 \<Rightarrow> u16" where
  "w16 b \<equiv> ucast b"

abbreviation lo8 :: "u16 \<Rightarrow> u8" where
  "lo8 v \<equiv> ucast v"

text \<open>The high byte of an address: the C++ \<open>a >> 8\<close>, an index into the page tables.\<close>

definition page_of :: "u16 \<Rightarrow> nat" where
  "page_of a = unat (drop_bit 8 a)"

text \<open>A C++ \<open>bool\<close> or comparison used as the integer 0 or 1.\<close>

definition b2w :: "bool \<Rightarrow> 'w::len word" where
  "b2w b = (if b then 1 else 0)"

lemma b2w_simps [simp]: "b2w True = 1" "b2w False = 0"
  by (simp_all add: b2w_def)

lemma b2w_eq_0 [simp]: "b2w P = 0 \<longleftrightarrow> \<not> P"
  by (simp add: b2w_def)

text \<open>Lemma collections: \<open>frame\<close> for what an operation leaves alone, \<open>pres\<close> for what it keeps.\<close>

named_theorems frame "fields an operation does not touch"
named_theorems pres "invariants an operation preserves"

subsection \<open>Words\<close>

text \<open>
  Two words are equal when their bits are; at the widths of the code this is a finite
  conjunction, which decides identities of masks and shifts by simplification.
\<close>

lemma u8_eq_bits:
  "(a :: u8) = b \<longleftrightarrow> (bit a 0 \<longleftrightarrow> bit b 0) \<and> (bit a 1 \<longleftrightarrow> bit b 1) \<and> (bit a 2 \<longleftrightarrow> bit b 2) \<and>
    (bit a 3 \<longleftrightarrow> bit b 3) \<and> (bit a 4 \<longleftrightarrow> bit b 4) \<and> (bit a 5 \<longleftrightarrow> bit b 5) \<and>
    (bit a 6 \<longleftrightarrow> bit b 6) \<and> (bit a 7 \<longleftrightarrow> bit b 7)" (is "_ \<longleftrightarrow> ?bits")
proof
  assume ?bits
  show "a = b"
  proof (rule bit_word_eqI)
    fix n assume "n < LENGTH(8)"
    then have "n \<in> {0, 1, 2, 3, 4, 5, 6, 7}" by auto
    then show "bit a n \<longleftrightarrow> bit b n"
      using \<open>?bits\<close> by (elim insertE emptyE) simp_all
  qed
qed simp

lemma u16_eq_bits:
  "(a :: u16) = b \<longleftrightarrow> (bit a 0 \<longleftrightarrow> bit b 0) \<and> (bit a 1 \<longleftrightarrow> bit b 1) \<and> (bit a 2 \<longleftrightarrow> bit b 2) \<and>
    (bit a 3 \<longleftrightarrow> bit b 3) \<and> (bit a 4 \<longleftrightarrow> bit b 4) \<and> (bit a 5 \<longleftrightarrow> bit b 5) \<and>
    (bit a 6 \<longleftrightarrow> bit b 6) \<and> (bit a 7 \<longleftrightarrow> bit b 7) \<and> (bit a 8 \<longleftrightarrow> bit b 8) \<and>
    (bit a 9 \<longleftrightarrow> bit b 9) \<and> (bit a 10 \<longleftrightarrow> bit b 10) \<and> (bit a 11 \<longleftrightarrow> bit b 11) \<and>
    (bit a 12 \<longleftrightarrow> bit b 12) \<and> (bit a 13 \<longleftrightarrow> bit b 13) \<and> (bit a 14 \<longleftrightarrow> bit b 14) \<and>
    (bit a 15 \<longleftrightarrow> bit b 15)" (is "_ \<longleftrightarrow> ?bits")
proof
  assume ?bits
  show "a = b"
  proof (rule bit_word_eqI)
    fix n assume "n < LENGTH(16)"
    then have "n \<in> {0, 1, 2, 3, 4, 5, 6, 7, 8, 9, 10, 11, 12, 13, 14, 15}"
      by (simp add: numeral_eq_Suc less_Suc_eq)
    then show "bit a n \<longleftrightarrow> bit b n"
      using \<open>?bits\<close> by (elim insertE emptyE) simp_all
  qed
qed simp

lemma u8_no_high_bit [simp]: "8 \<le> n \<Longrightarrow> \<not> bit (v :: u8) n"
  using bit_imp_le_length [of v n] by auto

lemma u16_no_high_bit [simp]: "16 \<le> n \<Longrightarrow> \<not> bit (v :: u16) n"
  using bit_imp_le_length [of v n] by auto

text \<open>The bundle that blasts a word identity: \<open>u8_eq_bits\<close> or \<open>u16_eq_bits\<close> plus these.\<close>

lemmas word_bits = bit_and_iff bit_or_iff bit_xor_iff bit_word_ucast_iff bit_ucast_iff
  bit_drop_bit_eq bit_push_bit_iff bit_not_iff bit_take_bit_iff

lemma unat_w16 [simp]: "unat (w16 b) = unat b"
proof -
  have "unat b < 2 ^ 8" using unsigned_less [of b] by simp
  then have "take_bit 16 (unat b) = unat b"
    by (intro take_bit_nat_eq_self) simp
  then show ?thesis by (simp add: unsigned_ucast_eq)
qed

lemma unat_lo8: "unat (lo8 v) = unat v mod 256"
  by (simp add: unsigned_ucast_eq take_bit_eq_mod)

lemma lo8_w16 [simp]: "lo8 (w16 b) = b"
  by (simp add: u8_eq_bits word_bits)

lemma w16_inject [simp]: "w16 a = w16 b \<longleftrightarrow> a = b"
  by (metis lo8_w16)

lemma lo8_and_FF [simp]: "lo8 (v AND 0xFF) = lo8 v"
  by (simp add: u8_eq_bits word_bits)

lemma u16_split_bytes: "w16 (lo8 v) OR push_bit 8 (w16 (lo8 (drop_bit 8 v))) = v"
  by (simp add: u16_eq_bits word_bits)

lemma lo8_join [simp]: "lo8 (w16 l OR push_bit 8 (w16 h)) = l"
  by (simp add: u8_eq_bits word_bits)

lemma hi8_join [simp]: "lo8 (drop_bit 8 (w16 l OR push_bit 8 (w16 h))) = h"
  by (simp add: u8_eq_bits word_bits)

lemma unat_u8_less [simp]: "unat (b :: u8) < 256"
  using unsigned_less [of b] by simp

lemma unat_u16_less [simp]: "unat (v :: u16) < 65536"
  using unsigned_less [of v] by simp

lemma page_of_less [simp]: "page_of a < 256"
proof -
  have "page_of a = unat a div 256"
    by (simp only: page_of_def unat_drop_bit_eq) (simp add: drop_bit_eq_div)
  then show ?thesis using unat_u16_less [of a] by (simp add: less_mult_imp_div_less)
qed

end
