(* ===== verification/Machine.thy ===== *)
theory Machine
  imports Prelude
begin

text \<open>
  The globals of the emulated machine that the processor works on
  (\<open>src/apple2/CPU.h\<close>, \<open>CPU.cpp\<close>, \<open>Memory.h\<close>, \<open>Apple2Types.h\<close>).

  The buffers of the C++ program are regions of an explicit store, because the memory unit
  aliases them: \<open>memwrite[page]\<close> may point into the 64K image the processor reads
  (\<open>mem\<close>) or into one of the banks behind it.  A pointer is a region and an offset.
  The record is extensible; the components that own more globals extend it.
\<close>

datatype region = MemImage | MemMain | MemAux | MemRom | CxRomInternal | CxRomPeripheral

type_synonym ptr = "region \<times> nat"

datatype apple2_type = A2TYPE_APPLE2 | A2TYPE_APPLE2PLUS | A2TYPE_APPLE2JPLUS
  | A2TYPE_CLONE_PRAVETS82 | A2TYPE_CLONE_PRAVETS8M | A2TYPE_CLONE_BASE64A
  | A2TYPE_APPLE2E | A2TYPE_APPLE2EENHANCED | A2TYPE_CLONE_PRAVETS8C | A2TYPE_CLONE_TK3000E

fun apple2_type_code :: "apple2_type \<Rightarrow> u8" where
  "apple2_type_code A2TYPE_APPLE2 = 0"
| "apple2_type_code A2TYPE_APPLE2PLUS = 1"
| "apple2_type_code A2TYPE_APPLE2JPLUS = 2"
| "apple2_type_code A2TYPE_CLONE_PRAVETS82 = 3"
| "apple2_type_code A2TYPE_CLONE_PRAVETS8M = 4"
| "apple2_type_code A2TYPE_CLONE_BASE64A = 5"
| "apple2_type_code A2TYPE_APPLE2E = 0x10"
| "apple2_type_code A2TYPE_APPLE2EENHANCED = 0x11"
| "apple2_type_code A2TYPE_CLONE_PRAVETS8C = 0x12"
| "apple2_type_code A2TYPE_CLONE_TK3000E = 0x13"

record cpu_registers =
  reg_a :: u8
  reg_x :: u8
  reg_y :: u8
  reg_ps :: u8
  reg_pc :: u16
  reg_sp :: u16
  is_jammed :: bool

record machine =
  regs :: cpu_registers
  cumulative_cycles :: u64
  cycles_submitted :: u32
  cycles_executed :: u32
  cycles_limit :: u32
  in_slice :: bool
  bm_irq :: u32
  bm_nmi :: u32
  nmi_flank :: bool
  current_apple2_type :: apple2_type
  mem_null :: bool
  heap :: "region \<Rightarrow> nat \<Rightarrow> u8"
  memdirty :: "nat \<Rightarrow> u8"
  memwrite :: "nat \<Rightarrow> ptr option"

definition is_apple2 :: "'a machine_scheme \<Rightarrow> bool" where
  "is_apple2 m = (apple2_type_code (current_apple2_type m) AND 0x10 = 0)"

text \<open>
  The signature of every I/O handler of the program (\<open>IoFunction\<close>): program counter,
  address, write flag, value written, cycles executed so far; it answers the byte read and may
  change any global.
\<close>

type_synonym 'a io_fun =
  "u16 \<Rightarrow> u16 \<Rightarrow> u8 \<Rightarrow> u8 \<Rightarrow> u32 \<Rightarrow> 'a machine_scheme \<Rightarrow> u8 \<times> 'a machine_scheme"

subsection \<open>Reading and writing the store\<close>

abbreviation rd :: "'a machine_scheme \<Rightarrow> nat \<Rightarrow> u8" where
  "rd m i \<equiv> heap m MemImage i"

text \<open>
  \<open>Util_Endian.h\<close>: two or four bytes at a pointer, low byte first.  The second byte is at
  the next address of the buffer, with no wrap at 64K.
\<close>

definition read_u16_le :: "(nat \<Rightarrow> u8) \<Rightarrow> nat \<Rightarrow> u16" where
  "read_u16_le p i = w16 (p i) OR push_bit 8 (w16 (p (i + 1)))"

definition read_u32_le :: "(nat \<Rightarrow> u8) \<Rightarrow> nat \<Rightarrow> u32" where
  "read_u32_le p i = ucast (p i) OR push_bit 8 (ucast (p (i + 1)))
     OR push_bit 16 (ucast (p (i + 2))) OR push_bit 24 (ucast (p (i + 3)))"

definition write_u16_le :: "(nat \<Rightarrow> u8) \<Rightarrow> nat \<Rightarrow> u16 \<Rightarrow> nat \<Rightarrow> u8" where
  "write_u16_le p i v = p(i := lo8 (v AND 0xFF), i + 1 := lo8 (drop_bit 8 v AND 0xFF))"

definition write_u32_le :: "(nat \<Rightarrow> u8) \<Rightarrow> nat \<Rightarrow> u32 \<Rightarrow> nat \<Rightarrow> u8" where
  "write_u32_le p i v = p(i := ucast (v AND 0xFF), i + 1 := ucast (drop_bit 8 v AND 0xFF),
     i + 2 := ucast (drop_bit 16 v AND 0xFF), i + 3 := ucast (drop_bit 24 v AND 0xFF))"

abbreviation rd16 :: "'a machine_scheme \<Rightarrow> nat \<Rightarrow> u16" where
  "rd16 m i \<equiv> read_u16_le (heap m MemImage) i"

definition store_at :: "ptr \<Rightarrow> nat \<Rightarrow> u8 \<Rightarrow> 'a machine_scheme \<Rightarrow> 'a machine_scheme" where
  "store_at p i v m =
     m\<lparr>heap := (heap m)(fst p := (heap m (fst p))(snd p + i := v))\<rparr>"

lemma store_at_frame [frame, simp]:
  "regs (store_at p i v m) = regs m"
  "cumulative_cycles (store_at p i v m) = cumulative_cycles m"
  "cycles_executed (store_at p i v m) = cycles_executed m"
  "cycles_submitted (store_at p i v m) = cycles_submitted m"
  "cycles_limit (store_at p i v m) = cycles_limit m"
  "in_slice (store_at p i v m) = in_slice m"
  "bm_irq (store_at p i v m) = bm_irq m"
  "bm_nmi (store_at p i v m) = bm_nmi m"
  "nmi_flank (store_at p i v m) = nmi_flank m"
  "current_apple2_type (store_at p i v m) = current_apple2_type m"
  "mem_null (store_at p i v m) = mem_null m"
  "memdirty (store_at p i v m) = memdirty m"
  "memwrite (store_at p i v m) = memwrite m"
  by (simp_all add: store_at_def)

lemma heap_store_at:
  "heap (store_at p i v m) r j = (if r = fst p \<and> j = snd p + i then v else heap m r j)"
  by (simp add: store_at_def)

lemma heap_store_at_same [simp]: "heap (store_at (r, k) i v m) r (k + i) = v"
  by (simp add: heap_store_at)

lemma store_at_commutes [simp]:
  "store_at p i v (regs_update f m) = regs_update f (store_at p i v m)"
  "store_at p i v (memdirty_update g m) = memdirty_update g (store_at p i v m)"
  by (simp_all add: store_at_def)

lemma read_write_u16_le: "read_u16_le (write_u16_le p i v) i = v"
  by (simp add: read_u16_le_def write_u16_le_def u16_eq_bits word_bits)

lemma is_apple2_code:
  "is_apple2 m \<longleftrightarrow> current_apple2_type m \<in> {A2TYPE_APPLE2, A2TYPE_APPLE2PLUS, A2TYPE_APPLE2JPLUS,
     A2TYPE_CLONE_PRAVETS82, A2TYPE_CLONE_PRAVETS8M, A2TYPE_CLONE_BASE64A}"
  by (cases "current_apple2_type m") (simp_all add: is_apple2_def)

end
