(* ===== verification/Cpu_Context.thy ===== *)
theory Cpu_Context
  imports Machine
begin

text \<open>
  The working state of the interpreter loop (\<open>CpuLoopContext\<close> of \<open>src/apple2/CPU.cpp\<close>)
  and the member functions the instructions are built from: flag packing, the stack, the bus
  accesses and the addressing modes.  The field \<open>mach\<close> stands for the globals, which the
  member functions read and write beside their own fields.

  The bus handler \<open>io\<close> (\<open>io_map_dispatch\<close> of \<open>Memory.cpp\<close>) is an argument here;
  the theory of the memory unit supplies it.
\<close>

abbreviation "AF_SIGN \<equiv> (0x80 :: u8)"
abbreviation "AF_OVERFLOW \<equiv> (0x40 :: u8)"
abbreviation "AF_RESERVED \<equiv> (0x20 :: u8)"
abbreviation "AF_BREAK \<equiv> (0x10 :: u8)"
abbreviation "AF_DECIMAL \<equiv> (0x08 :: u8)"
abbreviation "AF_INTERRUPT \<equiv> (0x04 :: u8)"
abbreviation "AF_ZERO \<equiv> (0x02 :: u8)"
abbreviation "AF_CARRY \<equiv> (0x01 :: u8)"

abbreviation "NMI_VECTOR_ADDR \<equiv> (0xFFFA :: nat)"
abbreviation "RESET_VECTOR_ADDR \<equiv> (0xFFFC :: nat)"
abbreviation "IRQ_VECTOR_ADDR \<equiv> (0xFFFE :: nat)"

abbreviation "STACK_BEGIN \<equiv> (0x0100 :: u16)"
abbreviation "STACK_END \<equiv> (0x01FF :: u16)"

record 'm cpu_ctx =
  c_addr :: u16
  c_base :: u16
  extra_cycles :: u16
  flagc :: u8
  flagn :: u8
  flagv :: u8
  flagz :: u8
  executed_cycles :: u32
  mach :: 'm

type_synonym 'a cpu = "'a machine_scheme cpu_ctx"

abbreviation A :: "'a cpu \<Rightarrow> u8" where "A c \<equiv> reg_a (regs (mach c))"
abbreviation X :: "'a cpu \<Rightarrow> u8" where "X c \<equiv> reg_x (regs (mach c))"
abbreviation Y :: "'a cpu \<Rightarrow> u8" where "Y c \<equiv> reg_y (regs (mach c))"
abbreviation PS :: "'a cpu \<Rightarrow> u8" where "PS c \<equiv> reg_ps (regs (mach c))"
abbreviation PC :: "'a cpu \<Rightarrow> u16" where "PC c \<equiv> reg_pc (regs (mach c))"
abbreviation SP :: "'a cpu \<Rightarrow> u16" where "SP c \<equiv> reg_sp (regs (mach c))"

abbreviation "set_a v \<equiv> mach_update (regs_update (reg_a_update (\<lambda>_. v)))"
abbreviation "set_x v \<equiv> mach_update (regs_update (reg_x_update (\<lambda>_. v)))"
abbreviation "set_y v \<equiv> mach_update (regs_update (reg_y_update (\<lambda>_. v)))"
abbreviation "set_ps v \<equiv> mach_update (regs_update (reg_ps_update (\<lambda>_. v)))"
abbreviation "set_pc v \<equiv> mach_update (regs_update (reg_pc_update (\<lambda>_. v)))"
abbreviation "set_sp v \<equiv> mach_update (regs_update (reg_sp_update (\<lambda>_. v)))"

definition is_io_addr :: "u16 \<Rightarrow> bool" where
  "is_io_addr a = (a AND 0xF000 = 0xC000)"

subsection \<open>Flags\<close>

definition set_nz :: "u16 \<Rightarrow> 'm cpu_ctx \<Rightarrow> 'm cpu_ctx" where
  "set_nz v c = c\<lparr>flagn := lo8 (v AND 0x80), flagz := b2w (v AND 0xFF = 0)\<rparr>"

definition set_z :: "u16 \<Rightarrow> 'm cpu_ctx \<Rightarrow> 'm cpu_ctx" where
  "set_z v c = c\<lparr>flagz := b2w (v AND 0xFF = 0)\<rparr>"

definition packed_ps :: "'a cpu \<Rightarrow> u8" where
  "packed_ps c = (PS c AND NOT (AF_CARRY OR AF_SIGN OR AF_OVERFLOW OR AF_ZERO))
     OR flagc c OR flagn c OR (if flagv c \<noteq> 0 then AF_OVERFLOW else 0)
     OR (if flagz c \<noteq> 0 then AF_ZERO else 0) OR AF_RESERVED OR AF_BREAK"

definition pack_ps :: "'a cpu \<Rightarrow> 'a cpu" where
  "pack_ps c = set_ps (packed_ps c) c"

definition unpack_ps :: "'a cpu \<Rightarrow> 'a cpu" where
  "unpack_ps c = c\<lparr>flagc := PS c AND AF_CARRY, flagn := PS c AND AF_SIGN,
     flagv := PS c AND AF_OVERFLOW, flagz := PS c AND AF_ZERO\<rparr>"

subsection \<open>Stack and bus\<close>

definition push :: "u8 \<Rightarrow> 'a cpu \<Rightarrow> 'a cpu" where
  "push v c =
     (let sp = SP c;
          c = mach_update (store_at (MemImage, 0) (unat sp) v) c;
          sp = sp - 1
      in set_sp (if sp < STACK_BEGIN then STACK_END else sp) c)"

definition pop :: "'a cpu \<Rightarrow> u8 \<times> 'a cpu" where
  "pop c =
     (let sp = (if SP c \<ge> STACK_END then STACK_BEGIN else SP c + 1);
          c = set_sp sp c
      in (rd (mach c) (unat sp), c))"

definition read_byte :: "'a io_fun \<Rightarrow> u16 \<Rightarrow> 'a cpu \<Rightarrow> u8 \<times> 'a cpu" where
  "read_byte io a c =
     (if is_io_addr a
      then let (v, m) = io (PC c) a 0 0 (executed_cycles c) (mach c) in (v, c\<lparr>mach := m\<rparr>)
      else (rd (mach c) (unat a), c))"

definition write_byte :: "'a io_fun \<Rightarrow> u16 \<Rightarrow> u8 \<Rightarrow> 'a cpu \<Rightarrow> 'a cpu" where
  "write_byte io a v c =
     (let c = c\<lparr>mach := (mach c)\<lparr>memdirty := (memdirty (mach c))(page_of a := 0xFF)\<rparr>\<rparr>
      in case memwrite (mach c) (page_of a) of
           Some page \<Rightarrow> mach_update (store_at page (unat (a AND 0xFF)) v) c
         | None \<Rightarrow>
             if is_io_addr a
             then let (_, m) = io (PC c) a 1 v (executed_cycles c) (mach c) in c\<lparr>mach := m\<rparr>
             else c)"

definition fetch_opcode :: "'a io_fun \<Rightarrow> 'a cpu \<Rightarrow> u8 \<times> 'a cpu" where
  "fetch_opcode io c =
     (let pc = PC c;
          (opcode, c) =
            (if is_io_addr pc
             then let (v, m) = io pc pc 0 0 (executed_cycles c) (mach c) in (v, c\<lparr>mach := m\<rparr>)
             else (rd (mach c) (unat pc), c))
      in (opcode, set_pc (PC c + 1) c))"

definition check_page_change :: "u16 \<Rightarrow> u16 \<Rightarrow> 'm cpu_ctx \<Rightarrow> 'm cpu_ctx" where
  "check_page_change b a c = (if (b XOR a) AND 0xFF00 \<noteq> 0 then c\<lparr>extra_cycles := 1\<rparr> else c)"

definition branch_taken :: "'a cpu \<Rightarrow> 'a cpu" where
  "branch_taken c =
     (let old_pc = PC c; c = set_pc (PC c + c_addr c) c
      in if (old_pc XOR PC c) AND 0xFF00 \<noteq> 0 then c\<lparr>extra_cycles := 2\<rparr>
         else c\<lparr>extra_cycles := 1\<rparr>)"

subsection \<open>Addressing modes\<close>

definition next_byte :: "'a cpu \<Rightarrow> u8 \<times> 'a cpu" where
  "next_byte c = (rd (mach c) (unat (PC c)), set_pc (PC c + 1) c)"

definition addr_imm :: "'a cpu \<Rightarrow> 'a cpu" where
  "addr_imm c = set_pc (PC c + 1) (c\<lparr>c_addr := PC c\<rparr>)"

definition addr_zpg :: "'a cpu \<Rightarrow> 'a cpu" where
  "addr_zpg c = (let (b, c) = next_byte c in c\<lparr>c_addr := w16 b\<rparr>)"

definition addr_zpgx :: "'a cpu \<Rightarrow> 'a cpu" where
  "addr_zpgx c = (let (b, c) = next_byte c in c\<lparr>c_addr := (w16 b + w16 (X c)) AND 0xFF\<rparr>)"

definition addr_zpgy :: "'a cpu \<Rightarrow> 'a cpu" where
  "addr_zpgy c = (let (b, c) = next_byte c in c\<lparr>c_addr := (w16 b + w16 (Y c)) AND 0xFF\<rparr>)"

definition addr_abs :: "'a cpu \<Rightarrow> 'a cpu" where
  "addr_abs c = set_pc (PC c + 2) (c\<lparr>c_addr := rd16 (mach c) (unat (PC c))\<rparr>)"

definition addr_absx :: "'a cpu \<Rightarrow> 'a cpu" where
  "addr_absx c =
     (let base = rd16 (mach c) (unat (PC c));
          ad = base + w16 (X c);
          c = set_pc (PC c + 2) (c\<lparr>c_base := base, c_addr := ad\<rparr>)
      in check_page_change base ad c)"

definition addr_absy :: "'a cpu \<Rightarrow> 'a cpu" where
  "addr_absy c =
     (let base = rd16 (mach c) (unat (PC c));
          ad = base + w16 (Y c);
          c = set_pc (PC c + 2) (c\<lparr>c_base := base, c_addr := ad\<rparr>)
      in check_page_change base ad c)"

definition addr_iabs_nmos :: "'a cpu \<Rightarrow> 'a cpu" where
  "addr_iabs_nmos c =
     (let base = rd16 (mach c) (unat (PC c));
          ad = (if base AND 0xFF = 0xFF
                then w16 (rd (mach c) (unat base))
                       + push_bit 8 (w16 (rd (mach c) (unat (base AND 0xFF00))))
                else rd16 (mach c) (unat base))
      in set_pc (PC c + 2) (c\<lparr>c_base := base, c_addr := ad\<rparr>))"

definition addr_iabs_cmos :: "'a cpu \<Rightarrow> 'a cpu" where
  "addr_iabs_cmos c =
     (let base = rd16 (mach c) (unat (PC c));
          c = c\<lparr>c_base := base, c_addr := rd16 (mach c) (unat base)\<rparr>;
          c = (if base AND 0xFF = 0xFF then c\<lparr>extra_cycles := 1\<rparr> else c)
      in set_pc (PC c + 2) c)"

definition addr_iabsx :: "'a cpu \<Rightarrow> 'a cpu" where
  "addr_iabsx c =
     set_pc (PC c + 2)
       (c\<lparr>c_addr := rd16 (mach c) (unat (rd16 (mach c) (unat (PC c))) + unat (X c))\<rparr>)"

definition zp_pointer :: "'a machine_scheme \<Rightarrow> u16 \<Rightarrow> u16" where
  "zp_pointer m b =
     (if b = 0xFF then w16 (rd m 0xFF) + push_bit 8 (w16 (rd m 0)) else rd16 m (unat b))"

definition addr_indx :: "'a cpu \<Rightarrow> 'a cpu" where
  "addr_indx c =
     (let (b, c) = next_byte c; base = (w16 b + w16 (X c)) AND 0xFF
      in c\<lparr>c_base := base, c_addr := zp_pointer (mach c) base\<rparr>)"

definition addr_indy :: "'a cpu \<Rightarrow> 'a cpu" where
  "addr_indy c =
     (let base = zp_pointer (mach c) (w16 (rd (mach c) (unat (PC c))));
          c = set_pc (PC c + 1) (c\<lparr>c_base := base\<rparr>);
          ad = base + w16 (Y c)
      in check_page_change base ad (c\<lparr>c_addr := ad\<rparr>))"

definition addr_izpg :: "'a cpu \<Rightarrow> 'a cpu" where
  "addr_izpg c =
     (let (b, c) = next_byte c; base = w16 b
      in c\<lparr>c_base := base, c_addr := zp_pointer (mach c) base\<rparr>)"

definition addr_rel :: "'a cpu \<Rightarrow> 'a cpu" where
  "addr_rel c = (let (b, c) = next_byte c in c\<lparr>c_addr := scast b\<rparr>)"

lemmas addr_defs = addr_imm_def addr_zpg_def addr_zpgx_def addr_zpgy_def addr_abs_def
  addr_absx_def addr_absy_def addr_iabs_nmos_def addr_iabs_cmos_def addr_iabsx_def
  addr_indx_def addr_indy_def addr_izpg_def addr_rel_def next_byte_def

subsection \<open>A concrete context\<close>

text \<open>
  A machine with cleared memory and every page below the I/O area writable, the processor
  about to run at 0x0803 with its stack pointer at the bottom of page one.  The witnesses
  of the processor theories evaluate on it.
\<close>

definition blank_machine :: machine where
  "blank_machine = \<lparr>regs = \<lparr>reg_a = 0, reg_x = 0, reg_y = 0, reg_ps = 0x30, reg_pc = 0x0803,
     reg_sp = 0x0100, is_jammed = False\<rparr>, cumulative_cycles = 0, cycles_submitted = 0,
     cycles_executed = 0, cycles_limit = 0, in_slice = False, bm_irq = 0, bm_nmi = 0,
     nmi_flank = False, current_apple2_type = A2TYPE_APPLE2E, mem_null = False,
     heap = (\<lambda>_ _. 0), memdirty = (\<lambda>_. 0),
     memwrite = (\<lambda>p. if p < 0xC0 then Some (MemImage, 256 * p) else None)\<rparr>"

definition blank_cpu :: "unit cpu" where
  "blank_cpu = \<lparr>c_addr = 0x2000, c_base = 0, extra_cycles = 0, flagc = 1, flagn = 0x80,
     flagv = 1, flagz = 0, executed_cycles = 0, mach = blank_machine\<rparr>"

definition idle_bus :: "'a io_fun" where
  "idle_bus pc a w v t m = (0, m)"

lemma read_byte_blank [simp]:
  "\<not> is_io_addr a \<Longrightarrow> read_byte io a c = (rd (mach c) (unat a), c)"
  by (simp add: read_byte_def)

lemmas blank_defs = blank_cpu_def blank_machine_def

end
