(* ===== verification/Cpu_Ops.thy ===== *)
theory Cpu_Ops
  imports Cpu_Context
begin

text \<open>
  The instruction bodies of the two processors: the \<open>op_*\<close> member functions of
  \<open>CpuLoopContext\<close> (\<open>src/apple2/CPU.cpp\<close>), one definition each, in the order of
  the source.  Operands are read before registers change, as the C++ sequencing has it; the
  bus handler \<open>io\<close> is passed to the instructions that touch memory.
\<close>

subsection \<open>Loads, stores and transfers\<close>

definition op_lda :: "'a io_fun \<Rightarrow> 'a cpu \<Rightarrow> 'a cpu" where
  "op_lda io c = (let (v, c) = read_byte io (c_addr c) c; c = set_a v c in set_nz (w16 (A c)) c)"

definition op_ldx :: "'a io_fun \<Rightarrow> 'a cpu \<Rightarrow> 'a cpu" where
  "op_ldx io c = (let (v, c) = read_byte io (c_addr c) c; c = set_x v c in set_nz (w16 (X c)) c)"

definition op_ldy :: "'a io_fun \<Rightarrow> 'a cpu \<Rightarrow> 'a cpu" where
  "op_ldy io c = (let (v, c) = read_byte io (c_addr c) c; c = set_y v c in set_nz (w16 (Y c)) c)"

definition op_sta :: "'a io_fun \<Rightarrow> 'a cpu \<Rightarrow> 'a cpu" where
  "op_sta io c = write_byte io (c_addr c) (A c) c"

definition op_stx :: "'a io_fun \<Rightarrow> 'a cpu \<Rightarrow> 'a cpu" where
  "op_stx io c = write_byte io (c_addr c) (X c) c"

definition op_sty :: "'a io_fun \<Rightarrow> 'a cpu \<Rightarrow> 'a cpu" where
  "op_sty io c = write_byte io (c_addr c) (Y c) c"

definition op_stz :: "'a io_fun \<Rightarrow> 'a cpu \<Rightarrow> 'a cpu" where
  "op_stz io c = write_byte io (c_addr c) 0 c"

definition op_tax :: "'a cpu \<Rightarrow> 'a cpu" where
  "op_tax c = (let c = set_x (A c) c in set_nz (w16 (X c)) c)"

definition op_txa :: "'a cpu \<Rightarrow> 'a cpu" where
  "op_txa c = (let c = set_a (X c) c in set_nz (w16 (A c)) c)"

definition op_tay :: "'a cpu \<Rightarrow> 'a cpu" where
  "op_tay c = (let c = set_y (A c) c in set_nz (w16 (Y c)) c)"

definition op_tya :: "'a cpu \<Rightarrow> 'a cpu" where
  "op_tya c = (let c = set_a (Y c) c in set_nz (w16 (A c)) c)"

definition op_tsx :: "'a cpu \<Rightarrow> 'a cpu" where
  "op_tsx c = (let c = set_x (lo8 (SP c AND 0xFF)) c in set_nz (w16 (X c)) c)"

definition op_txs :: "'a cpu \<Rightarrow> 'a cpu" where
  "op_txs c = set_sp (0x100 OR w16 (X c)) c"

subsection \<open>Logic, comparison\<close>

definition op_and :: "'a io_fun \<Rightarrow> 'a cpu \<Rightarrow> 'a cpu" where
  "op_and io c =
     (let (v, c) = read_byte io (c_addr c) c; c = set_a (A c AND v) c in set_nz (w16 (A c)) c)"

definition op_ora :: "'a io_fun \<Rightarrow> 'a cpu \<Rightarrow> 'a cpu" where
  "op_ora io c =
     (let (v, c) = read_byte io (c_addr c) c; c = set_a (A c OR v) c in set_nz (w16 (A c)) c)"

definition op_eor :: "'a io_fun \<Rightarrow> 'a cpu \<Rightarrow> 'a cpu" where
  "op_eor io c =
     (let (v, c) = read_byte io (c_addr c) c; c = set_a (A c XOR v) c in set_nz (w16 (A c)) c)"

definition op_bit :: "'a io_fun \<Rightarrow> 'a cpu \<Rightarrow> 'a cpu" where
  "op_bit io c =
     (let (v, c) = read_byte io (c_addr c) c
      in c\<lparr>flagz := b2w (A c AND v = 0), flagn := v AND 0x80, flagv := v AND 0x40\<rparr>)"

definition op_biti :: "'a io_fun \<Rightarrow> 'a cpu \<Rightarrow> 'a cpu" where
  "op_biti io c = (let (v, c) = read_byte io (c_addr c) c in c\<lparr>flagz := b2w (A c AND v = 0)\<rparr>)"

definition compare_reg :: "u8 \<Rightarrow> u16 \<Rightarrow> 'm cpu_ctx \<Rightarrow> 'm cpu_ctx" where
  "compare_reg r v c =
     (let c = c\<lparr>flagc := b2w (w16 r \<ge> v)\<rparr>; v = w16 r - v in set_nz v c)"

definition op_cmp :: "'a io_fun \<Rightarrow> 'a cpu \<Rightarrow> 'a cpu" where
  "op_cmp io c = (let (v, c) = read_byte io (c_addr c) c in compare_reg (A c) (w16 v) c)"

definition op_cpx :: "'a io_fun \<Rightarrow> 'a cpu \<Rightarrow> 'a cpu" where
  "op_cpx io c = (let (v, c) = read_byte io (c_addr c) c in compare_reg (X c) (w16 v) c)"

definition op_cpy :: "'a io_fun \<Rightarrow> 'a cpu \<Rightarrow> 'a cpu" where
  "op_cpy io c = (let (v, c) = read_byte io (c_addr c) c in compare_reg (Y c) (w16 v) c)"

subsection \<open>Shifts, rotates, increments\<close>

definition op_asla :: "'a cpu \<Rightarrow> 'a cpu" where
  "op_asla c =
     (let val = push_bit 1 (w16 (A c));
          c = c\<lparr>flagc := b2w (val > 0xFF)\<rparr>;
          c = set_nz val c
      in set_a (lo8 val) c)"

definition op_asl :: "'a io_fun \<Rightarrow> 'a cpu \<Rightarrow> 'a cpu" where
  "op_asl io c =
     (let (v, c) = read_byte io (c_addr c) c;
          val = push_bit 1 (w16 v);
          c = c\<lparr>flagc := b2w (val > 0xFF)\<rparr>;
          c = set_nz val c
      in write_byte io (c_addr c) (lo8 val) c)"

definition op_lsra :: "'a cpu \<Rightarrow> 'a cpu" where
  "op_lsra c =
     (let c = c\<lparr>flagc := A c AND 1, flagn := 0\<rparr>;
          c = set_a (drop_bit 1 (A c)) c
      in set_z (w16 (A c)) c)"

definition op_lsr :: "'a io_fun \<Rightarrow> 'a cpu \<Rightarrow> 'a cpu" where
  "op_lsr io c =
     (let (v, c) = read_byte io (c_addr c) c;
          c = c\<lparr>flagc := v AND 1, flagn := 0\<rparr>;
          val = drop_bit 1 (w16 v);
          c = set_z val c
      in write_byte io (c_addr c) (lo8 val) c)"

definition op_rola :: "'a cpu \<Rightarrow> 'a cpu" where
  "op_rola c =
     (let val = push_bit 1 (w16 (A c)) OR w16 (flagc c);
          c = c\<lparr>flagc := b2w (val > 0xFF)\<rparr>;
          c = set_a (lo8 (val AND 0xFF)) c
      in set_nz (w16 (A c)) c)"

definition op_rol :: "'a io_fun \<Rightarrow> 'a cpu \<Rightarrow> 'a cpu" where
  "op_rol io c =
     (let (v, c) = read_byte io (c_addr c) c;
          val = push_bit 1 (w16 v) OR w16 (flagc c);
          c = c\<lparr>flagc := b2w (val > 0xFF)\<rparr>;
          c = set_nz val c
      in write_byte io (c_addr c) (lo8 val) c)"

definition op_rora :: "'a cpu \<Rightarrow> 'a cpu" where
  "op_rora c =
     (let val = drop_bit 1 (w16 (A c)) OR (if flagc c \<noteq> 0 then 0x80 else 0);
          c = c\<lparr>flagc := A c AND 1\<rparr>;
          c = set_a (lo8 (val AND 0xFF)) c
      in set_nz (w16 (A c)) c)"

definition op_ror :: "'a io_fun \<Rightarrow> 'a cpu \<Rightarrow> 'a cpu" where
  "op_ror io c =
     (let (temp, c) = read_byte io (c_addr c) c;
          val = drop_bit 1 (w16 temp) OR (if flagc c \<noteq> 0 then 0x80 else 0);
          c = c\<lparr>flagc := temp AND 1\<rparr>;
          c = set_nz val c
      in write_byte io (c_addr c) (lo8 val) c)"

definition op_ina :: "'a cpu \<Rightarrow> 'a cpu" where
  "op_ina c = (let c = set_a (A c + 1) c in set_nz (w16 (A c)) c)"

definition op_dea :: "'a cpu \<Rightarrow> 'a cpu" where
  "op_dea c = (let c = set_a (A c - 1) c in set_nz (w16 (A c)) c)"

definition op_inc :: "'a io_fun \<Rightarrow> 'a cpu \<Rightarrow> 'a cpu" where
  "op_inc io c =
     (let (v, c) = read_byte io (c_addr c) c; val = w16 v + 1; c = set_nz val c
      in write_byte io (c_addr c) (lo8 val) c)"

definition op_dec :: "'a io_fun \<Rightarrow> 'a cpu \<Rightarrow> 'a cpu" where
  "op_dec io c =
     (let (v, c) = read_byte io (c_addr c) c; val = w16 v - 1; c = set_nz val c
      in write_byte io (c_addr c) (lo8 val) c)"

definition op_inx :: "'a cpu \<Rightarrow> 'a cpu" where
  "op_inx c = (let c = set_x (X c + 1) c in set_nz (w16 (X c)) c)"

definition op_dex :: "'a cpu \<Rightarrow> 'a cpu" where
  "op_dex c = (let c = set_x (X c - 1) c in set_nz (w16 (X c)) c)"

definition op_iny :: "'a cpu \<Rightarrow> 'a cpu" where
  "op_iny c = (let c = set_y (Y c + 1) c in set_nz (w16 (Y c)) c)"

definition op_dey :: "'a cpu \<Rightarrow> 'a cpu" where
  "op_dey c = (let c = set_y (Y c - 1) c in set_nz (w16 (Y c)) c)"

subsection \<open>Jumps, subroutines, interrupts\<close>

definition op_jmp :: "'a cpu \<Rightarrow> 'a cpu" where
  "op_jmp c = set_pc (c_addr c) c"

definition push_pc :: "'a cpu \<Rightarrow> 'a cpu" where
  "push_pc c =
     (let c = push (lo8 (drop_bit 8 (PC c))) c in push (lo8 (PC c AND 0xFF)) c)"

definition op_jsr :: "'a cpu \<Rightarrow> 'a cpu" where
  "op_jsr c = (let c = set_pc (PC c - 1) c; c = push_pc c in set_pc (c_addr c) c)"

definition pop_pc :: "'a cpu \<Rightarrow> 'a cpu" where
  "pop_pc c =
     (let (l, c) = pop c; c = set_pc (w16 l) c; (h, c) = pop c
      in set_pc (PC c OR push_bit 8 (w16 h)) c)"

definition op_rts :: "'a cpu \<Rightarrow> 'a cpu" where
  "op_rts c = (let c = pop_pc c in set_pc (PC c + 1) c)"

definition op_plp :: "'a cpu \<Rightarrow> 'a cpu" where
  "op_plp c = (let (v, c) = pop c in unpack_ps (set_ps (v OR AF_RESERVED OR AF_BREAK) c))"

definition op_rti :: "'a cpu \<Rightarrow> 'a cpu" where
  "op_rti c =
     (let (v, c) = pop c; c = unpack_ps (set_ps (v OR AF_RESERVED OR AF_BREAK) c) in pop_pc c)"

definition op_brk :: "bool \<Rightarrow> 'a cpu \<Rightarrow> 'a cpu" where
  "op_brk cmos c =
     (let c = set_pc (PC c + 1) c;
          c = push_pc c;
          c = pack_ps c;
          c = push (PS c) c;
          c = set_ps (PS c OR AF_INTERRUPT) c;
          c = (if cmos then set_ps (PS c AND NOT AF_DECIMAL) c else c)
      in set_pc (rd16 (mach c) IRQ_VECTOR_ADDR) c)"

definition op_hlt :: "'a cpu \<Rightarrow> 'a cpu" where
  "op_hlt c =
     (let c = mach_update (regs_update (is_jammed_update (\<lambda>_. True))) c in set_pc (PC c - 1) c)"

definition op_pha :: "'a cpu \<Rightarrow> 'a cpu" where
  "op_pha c = push (A c) c"

definition op_php :: "'a cpu \<Rightarrow> 'a cpu" where
  "op_php c = (let c = pack_ps c in push (PS c) c)"

definition op_phx :: "'a cpu \<Rightarrow> 'a cpu" where
  "op_phx c = push (X c) c"

definition op_phy :: "'a cpu \<Rightarrow> 'a cpu" where
  "op_phy c = push (Y c) c"

definition op_pla :: "'a cpu \<Rightarrow> 'a cpu" where
  "op_pla c = (let (v, c) = pop c; c = set_a v c in set_nz (w16 (A c)) c)"

definition op_plx :: "'a cpu \<Rightarrow> 'a cpu" where
  "op_plx c = (let (v, c) = pop c; c = set_x v c in set_nz (w16 (X c)) c)"

definition op_ply :: "'a cpu \<Rightarrow> 'a cpu" where
  "op_ply c = (let (v, c) = pop c; c = set_y v c in set_nz (w16 (Y c)) c)"

definition op_trb :: "'a io_fun \<Rightarrow> 'a cpu \<Rightarrow> 'a cpu" where
  "op_trb io c =
     (let (v, c) = read_byte io (c_addr c) c; c = c\<lparr>flagz := b2w (A c AND v = 0)\<rparr>
      in write_byte io (c_addr c) (v AND NOT (A c)) c)"

definition op_tsb :: "'a io_fun \<Rightarrow> 'a cpu \<Rightarrow> 'a cpu" where
  "op_tsb io c =
     (let (v, c) = read_byte io (c_addr c) c; c = c\<lparr>flagz := b2w (A c AND v = 0)\<rparr>
      in write_byte io (c_addr c) (v OR A c) c)"

end
