(* ===== verification/Cpu_Arith.thy ===== *)
theory Cpu_Arith
  imports Cpu_Ops
begin

text \<open>
  Addition and subtraction of both processors in binary and decimal mode, and the unofficial
  NMOS instructions (\<open>src/apple2/CPU.cpp\<close>, \<open>op_adc_nmos\<close> to \<open>op_xas\<close>).
  The source repeats the body of \<open>op_adc_nmos\<close> in \<open>op_rra\<close> and that of
  \<open>op_sbc_nmos\<close> in \<open>op_ins\<close>, on a 16-bit operand \<open>temp\<close>; the model
  writes each body once, with \<open>temp\<close> as its argument.
\<close>

subsection \<open>Addition\<close>

definition adc_nmos_body :: "u16 \<Rightarrow> 'a cpu \<Rightarrow> 'a cpu" where
  "adc_nmos_body temp c =
     (let a = w16 (A c); fc = w16 (flagc c) in
      if PS c AND AF_DECIMAL \<noteq> 0 then
        let val = a + temp + fc;
            c = c\<lparr>flagz := b2w (val AND 0xFF = 0), flagn := lo8 (val AND 0x80),
                  flagv := b2w ((a XOR val) AND 0x80 \<noteq> 0 \<and> (a XOR temp) AND 0x80 = 0)\<rparr>;
            low = (a AND 0x0F) + (temp AND 0x0F) + fc;
            low = (if low > 0x09 then low + 0x06 else low);
            high = drop_bit 4 a + drop_bit 4 temp + (if low > 0x0F then 1 else 0);
            high = (if high > 0x09 then high + 0x06 else high);
            c = c\<lparr>flagc := b2w (high > 0x0F)\<rparr>
        in set_a (lo8 (push_bit 4 high OR (low AND 0x0F))) c
      else
        let val = a + temp + fc;
            c = c\<lparr>flagc := b2w (val > 0xFF),
                  flagv := b2w (a AND 0x80 = temp AND 0x80 \<and> a AND 0x80 \<noteq> val AND 0x80)\<rparr>;
            c = set_a (lo8 (val AND 0xFF)) c
        in set_nz (w16 (A c)) c)"

definition op_adc_nmos :: "'a io_fun \<Rightarrow> 'a cpu \<Rightarrow> 'a cpu" where
  "op_adc_nmos io c = (let (v, c) = read_byte io (c_addr c) c in adc_nmos_body (w16 v) c)"

definition adc_cmos_body :: "u16 \<Rightarrow> 'a cpu \<Rightarrow> 'a cpu" where
  "adc_cmos_body temp c =
     (let a = w16 (A c); fc = w16 (flagc c);
          c = c\<lparr>flagv := b2w ((a XOR temp) AND 0x80 = 0)\<rparr>;
          (val, c) =
           (if PS c AND AF_DECIMAL \<noteq> 0 then
              let c = c\<lparr>extra_cycles := extra_cycles c + 1\<rparr>;
                  val = (a AND 0x0f) + (temp AND 0x0f) + fc;
                  val = (if val \<ge> 0x0A then 0x10 OR ((val + 6) AND 0x0f) else val);
                  val = val + ((a AND 0xf0) + (temp AND 0xf0))
              in if val \<ge> 0xA0 then
                   (val + 0x60, c\<lparr>flagc := 1, flagv := (if val \<ge> 0x180 then 0 else flagv c)\<rparr>)
                 else
                   (val, c\<lparr>flagc := 0, flagv := (if val < 0x80 then 0 else flagv c)\<rparr>)
            else
              let val = a + temp + fc
              in if val \<ge> 0x100 then
                   (val, c\<lparr>flagc := 1, flagv := (if val \<ge> 0x180 then 0 else flagv c)\<rparr>)
                 else
                   (val, c\<lparr>flagc := 0, flagv := (if val < 0x80 then 0 else flagv c)\<rparr>));
          c = set_a (lo8 (val AND 0xFF)) c
      in set_nz (w16 (A c)) c)"

definition op_adc_cmos :: "'a io_fun \<Rightarrow> 'a cpu \<Rightarrow> 'a cpu" where
  "op_adc_cmos io c = (let (v, c) = read_byte io (c_addr c) c in adc_cmos_body (w16 v) c)"

subsection \<open>Subtraction\<close>

definition sbc_nmos_body :: "u16 \<Rightarrow> 'a cpu \<Rightarrow> 'a cpu" where
  "sbc_nmos_body temp c =
     (let a = w16 (A c); borrow = (if flagc c = 0 then 1 else 0 :: u16) in
      if PS c AND AF_DECIMAL \<noteq> 0 then
        let val = a - temp - borrow;
            c = c\<lparr>flagn := lo8 (val AND 0x80),
                  flagv := b2w ((a XOR val) AND 0x80 \<noteq> 0 \<and> (a XOR temp) AND 0x80 \<noteq> 0),
                  flagz := b2w (val AND 0xFF = 0)\<rparr>;
            low = (a AND 0x0F) - (temp AND 0x0F) - borrow;
            low = (if low AND 0x10 \<noteq> 0 then low - 0x06 else low);
            high = drop_bit 4 a - drop_bit 4 temp - drop_bit 4 (low AND 0x10);
            high = (if high AND 0x10 \<noteq> 0 then high - 0x06 else high);
            c = c\<lparr>flagc := b2w (high AND 0x10 = 0)\<rparr>
        in set_a (lo8 (push_bit 4 high OR (low AND 0x0F))) c
      else
        let val = a - temp - borrow;
            c = c\<lparr>flagc := b2w (val < 0x100),
                  flagv := b2w (a AND 0x80 \<noteq> temp AND 0x80 \<and> a AND 0x80 \<noteq> val AND 0x80)\<rparr>;
            c = set_a (lo8 (val AND 0xFF)) c
        in set_nz (w16 (A c)) c)"

definition op_sbc_nmos :: "'a io_fun \<Rightarrow> 'a cpu \<Rightarrow> 'a cpu" where
  "op_sbc_nmos io c = (let (v, c) = read_byte io (c_addr c) c in sbc_nmos_body (w16 v) c)"

definition sbc_cmos_body :: "u16 \<Rightarrow> 'a cpu \<Rightarrow> 'a cpu" where
  "sbc_cmos_body temp c =
     (let a = w16 (A c); fc = w16 (flagc c);
          c = c\<lparr>flagv := lo8 ((a XOR temp) AND 0x80)\<rparr>;
          (val, c) =
           (if PS c AND AF_DECIMAL \<noteq> 0 then
              let c = c\<lparr>extra_cycles := extra_cycles c + 1\<rparr>;
                  temp2 = 0x0F + (a AND 0x0F) - (temp AND 0x0F) + fc;
                  (val, temp2) = (if temp2 < 0x10 then (0, temp2 - 0x06) else (0x10, temp2 - 0x10));
                  val = val + (0xF0 + (a AND 0xF0) - (temp AND 0xF0));
                  (val, c) =
                    (if val < 0x100 then
                       (val - 0x60, c\<lparr>flagc := 0, flagv := (if val < 0x80 then 0 else flagv c)\<rparr>)
                     else
                       (val, c\<lparr>flagc := 1, flagv := (if val \<ge> 0x180 then 0 else flagv c)\<rparr>))
              in (val + temp2, c)
            else
              let val = 0xff + a - temp + fc
              in if val < 0x100 then
                   (val, c\<lparr>flagc := 0, flagv := (if val < 0x80 then 0 else flagv c)\<rparr>)
                 else
                   (val, c\<lparr>flagc := 1, flagv := (if val \<ge> 0x180 then 0 else flagv c)\<rparr>));
          c = set_a (lo8 (val AND 0xFF)) c
      in set_nz (w16 (A c)) c)"

definition op_sbc_cmos :: "'a io_fun \<Rightarrow> 'a cpu \<Rightarrow> 'a cpu" where
  "op_sbc_cmos io c = (let (v, c) = read_byte io (c_addr c) c in sbc_cmos_body (w16 v) c)"

subsection \<open>Unofficial NMOS instructions\<close>

definition op_alr :: "'a io_fun \<Rightarrow> 'a cpu \<Rightarrow> 'a cpu" where
  "op_alr io c =
     (let (v, c) = read_byte io (c_addr c) c;
          c = set_a (A c AND v) c;
          c = c\<lparr>flagc := A c AND 1, flagn := 0\<rparr>;
          c = set_a (drop_bit 1 (A c)) c
      in set_z (w16 (A c)) c)"

definition op_anc :: "'a io_fun \<Rightarrow> 'a cpu \<Rightarrow> 'a cpu" where
  "op_anc io c =
     (let (v, c) = read_byte io (c_addr c) c;
          c = set_a (A c AND v) c;
          c = set_nz (w16 (A c)) c
      in c\<lparr>flagc := b2w (flagn c \<noteq> 0)\<rparr>)"

definition op_arr :: "'a io_fun \<Rightarrow> 'a cpu \<Rightarrow> 'a cpu" where
  "op_arr io c =
     (let (v, c) = read_byte io (c_addr c) c; temp = w16 (A c AND v) in
      if PS c AND AF_DECIMAL \<noteq> 0 then
        let val = drop_bit 1 (temp OR (if flagc c \<noteq> 0 then 0x100 else 0));
            c = c\<lparr>flagn := (if flagc c \<noteq> 0 then 0x80 else 0)\<rparr>;
            c = set_z val c;
            c = c\<lparr>flagv := lo8 ((val XOR temp) AND 0x40)\<rparr>;
            val = (if (val AND 0x0F) + (val AND 0x01) > 0x05
                   then (val AND 0xF0) OR ((val + 0x06) AND 0x0F) else val);
            (val, c) = (if (val AND 0xF0) + (val AND 0x10) > 0x50
                        then ((val AND 0x0F) OR ((val + 0x60) AND 0xF0), c\<lparr>flagc := 1\<rparr>)
                        else (val, c\<lparr>flagc := 0\<rparr>))
        in set_a (lo8 (val AND 0xFF)) c
      else
        let val = drop_bit 1 (temp OR (if flagc c \<noteq> 0 then 0x100 else 0));
            c = set_nz val c;
            c = c\<lparr>flagc := b2w (val AND 0x40 \<noteq> 0),
                  flagv := lo8 ((val AND 0x40) XOR push_bit 1 (val AND 0x20))\<rparr>
        in set_a (lo8 (val AND 0xFF)) c)"

definition op_aso :: "'a io_fun \<Rightarrow> 'a cpu \<Rightarrow> 'a cpu" where
  "op_aso io c =
     (let (v, c) = read_byte io (c_addr c) c;
          val = push_bit 1 (w16 v);
          c = c\<lparr>flagc := b2w (val > 0xFF)\<rparr>;
          c = write_byte io (c_addr c) (lo8 val) c;
          c = set_a (A c OR lo8 val) c
      in set_nz (w16 (A c)) c)"

definition high_plus_1 :: "u16 \<Rightarrow> u16" where
  "high_plus_1 base = (drop_bit 8 base + 1) AND 0xFF"

text \<open>The four stores whose high address byte is replaced by the value stored.\<close>

definition store_masked :: "'a io_fun \<Rightarrow> u16 \<Rightarrow> 'a cpu \<Rightarrow> 'a cpu" where
  "store_masked io val c =
     (let c = c\<lparr>c_addr := (c_addr c AND 0x00FF) OR push_bit 8 val\<rparr>
      in write_byte io (c_addr c) (lo8 val) c)"

definition op_axa :: "'a io_fun \<Rightarrow> 'a cpu \<Rightarrow> 'a cpu" where
  "op_axa io c = store_masked io (w16 (A c AND X c) AND high_plus_1 (c_base c)) c"

definition op_axs :: "'a io_fun \<Rightarrow> 'a cpu \<Rightarrow> 'a cpu" where
  "op_axs io c = write_byte io (c_addr c) (A c AND X c) c"

definition op_dcm :: "'a io_fun \<Rightarrow> 'a cpu \<Rightarrow> 'a cpu" where
  "op_dcm io c =
     (let (v, c) = read_byte io (c_addr c) c;
          val = w16 v - 1;
          c = write_byte io (c_addr c) (lo8 val) c
      in compare_reg (A c) val c)"

definition op_ins :: "'a io_fun \<Rightarrow> 'a cpu \<Rightarrow> 'a cpu" where
  "op_ins io c =
     (let (v, c) = read_byte io (c_addr c) c;
          val = w16 v + 1;
          c = write_byte io (c_addr c) (lo8 val) c
      in sbc_nmos_body val c)"

definition op_las :: "'a io_fun \<Rightarrow> 'a cpu \<Rightarrow> 'a cpu" where
  "op_las io c =
     (let (v, c) = read_byte io (c_addr c) c;
          val = v AND lo8 (SP c);
          c = set_sp (w16 val OR 0x100) (set_a val (set_x val c))
      in set_nz (w16 val) c)"

definition op_lax :: "'a io_fun \<Rightarrow> 'a cpu \<Rightarrow> 'a cpu" where
  "op_lax io c =
     (let (v, c) = read_byte io (c_addr c) c; c = set_a v (set_x v c) in set_nz (w16 (A c)) c)"

definition op_lse :: "'a io_fun \<Rightarrow> 'a cpu \<Rightarrow> 'a cpu" where
  "op_lse io c =
     (let (v, c) = read_byte io (c_addr c) c;
          c = c\<lparr>flagc := v AND 1\<rparr>;
          val = drop_bit 1 v;
          c = write_byte io (c_addr c) val c;
          c = set_a (A c XOR val) c
      in set_nz (w16 (A c)) c)"

definition op_oal :: "'a io_fun \<Rightarrow> 'a cpu \<Rightarrow> 'a cpu" where
  "op_oal io c =
     (let c = set_a (A c OR 0xEE) c;
          (v, c) = read_byte io (c_addr c) c;
          c = set_a (A c AND v) c;
          c = set_x (A c) c
      in set_nz (w16 (A c)) c)"

definition op_rla :: "'a io_fun \<Rightarrow> 'a cpu \<Rightarrow> 'a cpu" where
  "op_rla io c =
     (let (v, c) = read_byte io (c_addr c) c;
          val = push_bit 1 (w16 v) OR w16 (flagc c);
          c = c\<lparr>flagc := b2w (val > 0xFF)\<rparr>;
          c = write_byte io (c_addr c) (lo8 val) c;
          c = set_a (A c AND lo8 val) c
      in set_nz (w16 (A c)) c)"

definition op_rra :: "'a io_fun \<Rightarrow> 'a cpu \<Rightarrow> 'a cpu" where
  "op_rra io c =
     (let (temp, c) = read_byte io (c_addr c) c;
          val = drop_bit 1 (w16 temp) OR (if flagc c \<noteq> 0 then 0x80 else 0);
          c = c\<lparr>flagc := temp AND 1\<rparr>;
          c = write_byte io (c_addr c) (lo8 val) c
      in adc_nmos_body val c)"

definition op_sax :: "'a io_fun \<Rightarrow> 'a cpu \<Rightarrow> 'a cpu" where
  "op_sax io c =
     (let temp = w16 (A c AND X c);
          (v, c) = read_byte io (c_addr c) c;
          c = c\<lparr>flagc := b2w (temp \<ge> w16 v)\<rparr>;
          c = set_x (lo8 (temp - w16 v)) c
      in set_nz (w16 (X c)) c)"

definition op_say :: "'a io_fun \<Rightarrow> 'a cpu \<Rightarrow> 'a cpu" where
  "op_say io c = store_masked io (w16 (Y c) AND high_plus_1 (c_base c)) c"

definition op_tas :: "'a io_fun \<Rightarrow> 'a cpu \<Rightarrow> 'a cpu" where
  "op_tas io c =
     (let val = w16 (A c AND X c);
          c = set_sp (0x100 OR val) c
      in store_masked io (val AND high_plus_1 (c_base c)) c)"

definition op_xaa :: "'a io_fun \<Rightarrow> 'a cpu \<Rightarrow> 'a cpu" where
  "op_xaa io c =
     (let c = set_a (X c) c;
          (v, c) = read_byte io (c_addr c) c;
          c = set_a (A c AND v) c
      in set_nz (w16 (A c)) c)"

definition op_xas :: "'a io_fun \<Rightarrow> 'a cpu \<Rightarrow> 'a cpu" where
  "op_xas io c = store_masked io (w16 (X c) AND high_plus_1 (c_base c)) c"

subsection \<open>Flag instructions\<close>

definition op_clc :: "'m cpu_ctx \<Rightarrow> 'm cpu_ctx" where "op_clc c = c\<lparr>flagc := 0\<rparr>"
definition op_sec :: "'m cpu_ctx \<Rightarrow> 'm cpu_ctx" where "op_sec c = c\<lparr>flagc := 1\<rparr>"
definition op_clv :: "'m cpu_ctx \<Rightarrow> 'm cpu_ctx" where "op_clv c = c\<lparr>flagv := 0\<rparr>"
definition op_cli :: "'a cpu \<Rightarrow> 'a cpu" where "op_cli c = set_ps (PS c AND NOT AF_INTERRUPT) c"
definition op_sei :: "'a cpu \<Rightarrow> 'a cpu" where "op_sei c = set_ps (PS c OR AF_INTERRUPT) c"
definition op_cld :: "'a cpu \<Rightarrow> 'a cpu" where "op_cld c = set_ps (PS c AND NOT AF_DECIMAL) c"
definition op_sed :: "'a cpu \<Rightarrow> 'a cpu" where "op_sed c = set_ps (PS c OR AF_DECIMAL) c"
definition op_nop :: "'m cpu_ctx \<Rightarrow> 'm cpu_ctx" where "op_nop c = c"

subsection \<open>Interrupt entry\<close>

definition interrupt_entry :: "bool \<Rightarrow> nat \<Rightarrow> 'a cpu \<Rightarrow> 'a cpu" where
  "interrupt_entry cmos vector c =
     (let c = push_pc c;
          c = pack_ps c;
          c = push (PS c AND NOT AF_BREAK) c;
          c = set_ps (PS c OR AF_INTERRUPT) c;
          c = (if cmos then set_ps (PS c AND NOT AF_DECIMAL) c else c);
          c = set_pc (rd16 (mach c) vector) c
      in c\<lparr>executed_cycles := executed_cycles c + 7\<rparr>)"

definition check_nmi :: "bool \<Rightarrow> 'a cpu \<Rightarrow> 'a cpu" where
  "check_nmi cmos c =
     (let flank = nmi_flank (mach c); c = mach_update (nmi_flank_update (\<lambda>_. False)) c
      in if flank then interrupt_entry cmos NMI_VECTOR_ADDR c else c)"

definition check_irq :: "bool \<Rightarrow> 'a cpu \<Rightarrow> 'a cpu" where
  "check_irq cmos c =
     (if bm_irq (mach c) \<noteq> 0 \<and> PS c AND AF_INTERRUPT = 0
      then interrupt_entry cmos IRQ_VECTOR_ADDR c else c)"

end
