(* ===== verification/Cpu_Nmos.thy ===== *)
theory Cpu_Nmos
  imports Cpu_Arith
begin

text \<open>
  The dispatch table of the NMOS 6502 (\<open>opcodes_nmos\<close> in \<open>src/apple2/CPU.cpp\<close>):
  for every opcode the addressing mode followed by the instruction body, and the base cycle
  count.  The 256 entries of the source array are sixteen rows here, one per high nibble.
\<close>

datatype 'a opcode_desc = OpcodeDesc (handler: "'a cpu \<Rightarrow> 'a cpu") (base_cycles: u8)

definition branch_if_clear :: "('a cpu \<Rightarrow> u8) \<Rightarrow> 'a cpu \<Rightarrow> 'a cpu" where
  "branch_if_clear flag c = (if flag c = 0 then branch_taken c else c)"

definition branch_if_set :: "('a cpu \<Rightarrow> u8) \<Rightarrow> 'a cpu \<Rightarrow> 'a cpu" where
  "branch_if_set flag c = (if flag c \<noteq> 0 then branch_taken c else c)"

definition opcodes_nmos_0x :: "'a io_fun \<Rightarrow> 'a opcode_desc list" where
  "opcodes_nmos_0x io = [
     OpcodeDesc (op_brk False) 7,
     OpcodeDesc (op_ora io \<circ> addr_indx) 6,
     OpcodeDesc op_hlt 2,
     OpcodeDesc (op_aso io \<circ> addr_indx) 8,
     OpcodeDesc addr_zpg 3,
     OpcodeDesc (op_ora io \<circ> addr_zpg) 3,
     OpcodeDesc (op_asl io \<circ> addr_zpg) 5,
     OpcodeDesc (op_aso io \<circ> addr_zpg) 5,
     OpcodeDesc op_php 3,
     OpcodeDesc (op_ora io \<circ> addr_imm) 2,
     OpcodeDesc op_asla 2,
     OpcodeDesc (op_anc io \<circ> addr_imm) 2,
     OpcodeDesc addr_absx 4,
     OpcodeDesc (op_ora io \<circ> addr_abs) 4,
     OpcodeDesc (op_asl io \<circ> addr_abs) 6,
     OpcodeDesc (op_aso io \<circ> addr_abs) 6]"

definition opcodes_nmos_1x :: "'a io_fun \<Rightarrow> 'a opcode_desc list" where
  "opcodes_nmos_1x io = [
     OpcodeDesc (branch_if_clear flagn \<circ> addr_rel) 2,
     OpcodeDesc (op_ora io \<circ> addr_indy) 5,
     OpcodeDesc op_hlt 2,
     OpcodeDesc (op_aso io \<circ> addr_indy) 8,
     OpcodeDesc addr_zpgx 4,
     OpcodeDesc (op_ora io \<circ> addr_zpgx) 4,
     OpcodeDesc (op_asl io \<circ> addr_zpgx) 6,
     OpcodeDesc (op_aso io \<circ> addr_zpgx) 6,
     OpcodeDesc op_clc 2,
     OpcodeDesc (op_ora io \<circ> addr_absy) 4,
     OpcodeDesc op_nop 2,
     OpcodeDesc (op_aso io \<circ> addr_absy) 7,
     OpcodeDesc addr_absx 4,
     OpcodeDesc (op_ora io \<circ> addr_absx) 4,
     OpcodeDesc (op_asl io \<circ> addr_absx) 6,
     OpcodeDesc (op_aso io \<circ> addr_absx) 7]"

definition opcodes_nmos_2x :: "'a io_fun \<Rightarrow> 'a opcode_desc list" where
  "opcodes_nmos_2x io = [
     OpcodeDesc (op_jsr \<circ> addr_abs) 6,
     OpcodeDesc (op_and io \<circ> addr_indx) 6,
     OpcodeDesc op_hlt 2,
     OpcodeDesc (op_rla io \<circ> addr_indx) 8,
     OpcodeDesc (op_bit io \<circ> addr_zpg) 3,
     OpcodeDesc (op_and io \<circ> addr_zpg) 3,
     OpcodeDesc (op_rol io \<circ> addr_zpg) 5,
     OpcodeDesc (op_rla io \<circ> addr_zpg) 5,
     OpcodeDesc op_plp 4,
     OpcodeDesc (op_and io \<circ> addr_imm) 2,
     OpcodeDesc op_rola 2,
     OpcodeDesc (op_anc io \<circ> addr_imm) 2,
     OpcodeDesc (op_bit io \<circ> addr_abs) 4,
     OpcodeDesc (op_and io \<circ> addr_abs) 2,
     OpcodeDesc (op_rol io \<circ> addr_abs) 6,
     OpcodeDesc (op_rla io \<circ> addr_abs) 6]"

definition opcodes_nmos_3x :: "'a io_fun \<Rightarrow> 'a opcode_desc list" where
  "opcodes_nmos_3x io = [
     OpcodeDesc (branch_if_set flagn \<circ> addr_rel) 2,
     OpcodeDesc (op_and io \<circ> addr_indy) 5,
     OpcodeDesc op_hlt 2,
     OpcodeDesc (op_rla io \<circ> addr_indy) 8,
     OpcodeDesc addr_zpgx 4,
     OpcodeDesc (op_and io \<circ> addr_zpgx) 4,
     OpcodeDesc (op_rol io \<circ> addr_zpgx) 6,
     OpcodeDesc (op_rla io \<circ> addr_zpgx) 6,
     OpcodeDesc op_sec 2,
     OpcodeDesc (op_and io \<circ> addr_absy) 4,
     OpcodeDesc op_nop 2,
     OpcodeDesc (op_rla io \<circ> addr_absy) 7,
     OpcodeDesc addr_absx 4,
     OpcodeDesc (op_and io \<circ> addr_absx) 4,
     OpcodeDesc (op_rol io \<circ> addr_absx) 6,
     OpcodeDesc (op_rla io \<circ> addr_absx) 7]"

definition opcodes_nmos_4x :: "'a io_fun \<Rightarrow> 'a opcode_desc list" where
  "opcodes_nmos_4x io = [
     OpcodeDesc op_rti 6,
     OpcodeDesc (op_eor io \<circ> addr_indx) 6,
     OpcodeDesc op_hlt 2,
     OpcodeDesc (op_lse io \<circ> addr_indx) 8,
     OpcodeDesc addr_zpg 3,
     OpcodeDesc (op_eor io \<circ> addr_zpg) 3,
     OpcodeDesc (op_lsr io \<circ> addr_zpg) 5,
     OpcodeDesc (op_lse io \<circ> addr_zpg) 5,
     OpcodeDesc op_pha 3,
     OpcodeDesc (op_eor io \<circ> addr_imm) 2,
     OpcodeDesc op_lsra 2,
     OpcodeDesc (op_alr io \<circ> addr_imm) 2,
     OpcodeDesc (op_jmp \<circ> addr_abs) 3,
     OpcodeDesc (op_eor io \<circ> addr_abs) 4,
     OpcodeDesc (op_lsr io \<circ> addr_abs) 6,
     OpcodeDesc (op_lse io \<circ> addr_abs) 6]"

definition opcodes_nmos_5x :: "'a io_fun \<Rightarrow> 'a opcode_desc list" where
  "opcodes_nmos_5x io = [
     OpcodeDesc (branch_if_clear flagv \<circ> addr_rel) 2,
     OpcodeDesc (op_eor io \<circ> addr_indy) 5,
     OpcodeDesc op_hlt 2,
     OpcodeDesc (op_lse io \<circ> addr_indy) 8,
     OpcodeDesc addr_zpgx 4,
     OpcodeDesc (op_eor io \<circ> addr_zpgx) 4,
     OpcodeDesc (op_lsr io \<circ> addr_zpgx) 6,
     OpcodeDesc (op_lse io \<circ> addr_zpgx) 6,
     OpcodeDesc op_cli 2,
     OpcodeDesc (op_eor io \<circ> addr_absy) 4,
     OpcodeDesc op_nop 2,
     OpcodeDesc (op_lse io \<circ> addr_absy) 7,
     OpcodeDesc addr_absx 4,
     OpcodeDesc (op_eor io \<circ> addr_absx) 4,
     OpcodeDesc (op_lsr io \<circ> addr_absx) 6,
     OpcodeDesc (op_lse io \<circ> addr_absx) 7]"

definition opcodes_nmos_6x :: "'a io_fun \<Rightarrow> 'a opcode_desc list" where
  "opcodes_nmos_6x io = [
     OpcodeDesc op_rts 6,
     OpcodeDesc (op_adc_nmos io \<circ> addr_indx) 6,
     OpcodeDesc op_hlt 2,
     OpcodeDesc (op_rra io \<circ> addr_indx) 8,
     OpcodeDesc addr_zpg 3,
     OpcodeDesc (op_adc_nmos io \<circ> addr_zpg) 3,
     OpcodeDesc (op_ror io \<circ> addr_zpg) 5,
     OpcodeDesc (op_rra io \<circ> addr_zpg) 5,
     OpcodeDesc op_pla 4,
     OpcodeDesc (op_adc_nmos io \<circ> addr_imm) 2,
     OpcodeDesc op_rora 2,
     OpcodeDesc (op_arr io \<circ> addr_imm) 2,
     OpcodeDesc (op_jmp \<circ> addr_iabs_nmos) 6,
     OpcodeDesc (op_adc_nmos io \<circ> addr_abs) 4,
     OpcodeDesc (op_ror io \<circ> addr_abs) 6,
     OpcodeDesc (op_rra io \<circ> addr_abs) 6]"

definition opcodes_nmos_7x :: "'a io_fun \<Rightarrow> 'a opcode_desc list" where
  "opcodes_nmos_7x io = [
     OpcodeDesc (branch_if_set flagv \<circ> addr_rel) 2,
     OpcodeDesc (op_adc_nmos io \<circ> addr_indy) 5,
     OpcodeDesc op_hlt 2,
     OpcodeDesc (op_rra io \<circ> addr_indy) 8,
     OpcodeDesc addr_zpgx 4,
     OpcodeDesc (op_adc_nmos io \<circ> addr_zpgx) 4,
     OpcodeDesc (op_ror io \<circ> addr_zpgx) 6,
     OpcodeDesc (op_rra io \<circ> addr_zpgx) 6,
     OpcodeDesc op_sei 2,
     OpcodeDesc (op_adc_nmos io \<circ> addr_absy) 4,
     OpcodeDesc op_nop 2,
     OpcodeDesc (op_rra io \<circ> addr_absy) 7,
     OpcodeDesc addr_absx 4,
     OpcodeDesc (op_adc_nmos io \<circ> addr_absx) 4,
     OpcodeDesc (op_ror io \<circ> addr_absx) 6,
     OpcodeDesc (op_rra io \<circ> addr_absx) 7]"

definition opcodes_nmos_8x :: "'a io_fun \<Rightarrow> 'a opcode_desc list" where
  "opcodes_nmos_8x io = [
     OpcodeDesc addr_imm 2,
     OpcodeDesc (op_sta io \<circ> addr_indx) 6,
     OpcodeDesc addr_imm 2,
     OpcodeDesc (op_axs io \<circ> addr_indx) 6,
     OpcodeDesc (op_sty io \<circ> addr_zpg) 3,
     OpcodeDesc (op_sta io \<circ> addr_zpg) 3,
     OpcodeDesc (op_stx io \<circ> addr_zpg) 3,
     OpcodeDesc (op_axs io \<circ> addr_zpg) 3,
     OpcodeDesc op_dey 2,
     OpcodeDesc addr_imm 2,
     OpcodeDesc op_txa 2,
     OpcodeDesc (op_xaa io \<circ> addr_imm) 2,
     OpcodeDesc (op_sty io \<circ> addr_abs) 4,
     OpcodeDesc (op_sta io \<circ> addr_abs) 4,
     OpcodeDesc (op_stx io \<circ> addr_abs) 4,
     OpcodeDesc (op_axs io \<circ> addr_abs) 4]"

definition opcodes_nmos_9x :: "'a io_fun \<Rightarrow> 'a opcode_desc list" where
  "opcodes_nmos_9x io = [
     OpcodeDesc (branch_if_clear flagc \<circ> addr_rel) 2,
     OpcodeDesc (op_sta io \<circ> addr_indy) 6,
     OpcodeDesc op_hlt 2,
     OpcodeDesc (op_axa io \<circ> addr_indy) 6,
     OpcodeDesc (op_sty io \<circ> addr_zpgx) 4,
     OpcodeDesc (op_sta io \<circ> addr_zpgx) 4,
     OpcodeDesc (op_stx io \<circ> addr_zpgy) 4,
     OpcodeDesc (op_axs io \<circ> addr_zpgy) 4,
     OpcodeDesc op_tya 2,
     OpcodeDesc (op_sta io \<circ> addr_absy) 5,
     OpcodeDesc op_txs 2,
     OpcodeDesc (op_tas io \<circ> addr_absy) 5,
     OpcodeDesc (op_say io \<circ> addr_absx) 5,
     OpcodeDesc (op_sta io \<circ> addr_absx) 5,
     OpcodeDesc (op_xas io \<circ> addr_absy) 5,
     OpcodeDesc (op_axa io \<circ> addr_absy) 5]"

definition opcodes_nmos_Ax :: "'a io_fun \<Rightarrow> 'a opcode_desc list" where
  "opcodes_nmos_Ax io = [
     OpcodeDesc (op_ldy io \<circ> addr_imm) 2,
     OpcodeDesc (op_lda io \<circ> addr_indx) 6,
     OpcodeDesc (op_ldx io \<circ> addr_imm) 2,
     OpcodeDesc (op_lax io \<circ> addr_indx) 6,
     OpcodeDesc (op_ldy io \<circ> addr_zpg) 3,
     OpcodeDesc (op_lda io \<circ> addr_zpg) 3,
     OpcodeDesc (op_ldx io \<circ> addr_zpg) 3,
     OpcodeDesc (op_lax io \<circ> addr_zpg) 3,
     OpcodeDesc op_tay 2,
     OpcodeDesc (op_lda io \<circ> addr_imm) 2,
     OpcodeDesc op_tax 2,
     OpcodeDesc (op_oal io \<circ> addr_imm) 2,
     OpcodeDesc (op_ldy io \<circ> addr_abs) 4,
     OpcodeDesc (op_lda io \<circ> addr_abs) 4,
     OpcodeDesc (op_ldx io \<circ> addr_abs) 4,
     OpcodeDesc (op_lax io \<circ> addr_abs) 4]"

definition opcodes_nmos_Bx :: "'a io_fun \<Rightarrow> 'a opcode_desc list" where
  "opcodes_nmos_Bx io = [
     OpcodeDesc (branch_if_set flagc \<circ> addr_rel) 2,
     OpcodeDesc (op_lda io \<circ> addr_indy) 5,
     OpcodeDesc op_hlt 2,
     OpcodeDesc (op_lax io \<circ> addr_indy) 5,
     OpcodeDesc (op_ldy io \<circ> addr_zpgx) 4,
     OpcodeDesc (op_lda io \<circ> addr_zpgx) 4,
     OpcodeDesc (op_ldx io \<circ> addr_zpgy) 4,
     OpcodeDesc (op_lax io \<circ> addr_zpgy) 4,
     OpcodeDesc op_clv 2,
     OpcodeDesc (op_lda io \<circ> addr_absy) 4,
     OpcodeDesc op_tsx 2,
     OpcodeDesc (op_las io \<circ> addr_absy) 4,
     OpcodeDesc (op_ldy io \<circ> addr_absx) 4,
     OpcodeDesc (op_lda io \<circ> addr_absx) 4,
     OpcodeDesc (op_ldx io \<circ> addr_absy) 4,
     OpcodeDesc (op_lax io \<circ> addr_absy) 4]"

definition opcodes_nmos_Cx :: "'a io_fun \<Rightarrow> 'a opcode_desc list" where
  "opcodes_nmos_Cx io = [
     OpcodeDesc (op_cpy io \<circ> addr_imm) 2,
     OpcodeDesc (op_cmp io \<circ> addr_indx) 6,
     OpcodeDesc addr_imm 2,
     OpcodeDesc (op_dcm io \<circ> addr_indx) 8,
     OpcodeDesc (op_cpy io \<circ> addr_zpg) 3,
     OpcodeDesc (op_cmp io \<circ> addr_zpg) 3,
     OpcodeDesc (op_dec io \<circ> addr_zpg) 5,
     OpcodeDesc (op_dcm io \<circ> addr_zpg) 5,
     OpcodeDesc op_iny 2,
     OpcodeDesc (op_cmp io \<circ> addr_imm) 2,
     OpcodeDesc op_dex 2,
     OpcodeDesc (op_sax io \<circ> addr_imm) 2,
     OpcodeDesc (op_cpy io \<circ> addr_abs) 4,
     OpcodeDesc (op_cmp io \<circ> addr_abs) 4,
     OpcodeDesc (op_dec io \<circ> addr_abs) 5,
     OpcodeDesc (op_dcm io \<circ> addr_abs) 6]"

definition opcodes_nmos_Dx :: "'a io_fun \<Rightarrow> 'a opcode_desc list" where
  "opcodes_nmos_Dx io = [
     OpcodeDesc (branch_if_clear flagz \<circ> addr_rel) 2,
     OpcodeDesc (op_cmp io \<circ> addr_indy) 5,
     OpcodeDesc op_hlt 2,
     OpcodeDesc (op_dcm io \<circ> addr_indy) 8,
     OpcodeDesc addr_zpgx 4,
     OpcodeDesc (op_cmp io \<circ> addr_zpgx) 4,
     OpcodeDesc (op_dec io \<circ> addr_zpgx) 6,
     OpcodeDesc (op_dcm io \<circ> addr_zpgx) 6,
     OpcodeDesc op_cld 2,
     OpcodeDesc (op_cmp io \<circ> addr_absy) 4,
     OpcodeDesc op_nop 2,
     OpcodeDesc (op_dcm io \<circ> addr_absy) 7,
     OpcodeDesc addr_absx 4,
     OpcodeDesc (op_cmp io \<circ> addr_absx) 4,
     OpcodeDesc (op_dec io \<circ> addr_absx) 6,
     OpcodeDesc (op_dcm io \<circ> addr_absx) 7]"

definition opcodes_nmos_Ex :: "'a io_fun \<Rightarrow> 'a opcode_desc list" where
  "opcodes_nmos_Ex io = [
     OpcodeDesc (op_cpx io \<circ> addr_imm) 2,
     OpcodeDesc (op_sbc_nmos io \<circ> addr_indx) 6,
     OpcodeDesc addr_imm 2,
     OpcodeDesc (op_ins io \<circ> addr_indx) 8,
     OpcodeDesc (op_cpx io \<circ> addr_zpg) 3,
     OpcodeDesc (op_sbc_nmos io \<circ> addr_zpg) 3,
     OpcodeDesc (op_inc io \<circ> addr_zpg) 5,
     OpcodeDesc (op_ins io \<circ> addr_zpg) 5,
     OpcodeDesc op_inx 2,
     OpcodeDesc (op_sbc_nmos io \<circ> addr_imm) 2,
     OpcodeDesc op_nop 2,
     OpcodeDesc (op_sbc_nmos io \<circ> addr_imm) 2,
     OpcodeDesc (op_cpx io \<circ> addr_abs) 4,
     OpcodeDesc (op_sbc_nmos io \<circ> addr_abs) 4,
     OpcodeDesc (op_inc io \<circ> addr_abs) 6,
     OpcodeDesc (op_ins io \<circ> addr_abs) 6]"

definition opcodes_nmos_Fx :: "'a io_fun \<Rightarrow> 'a opcode_desc list" where
  "opcodes_nmos_Fx io = [
     OpcodeDesc (branch_if_set flagz \<circ> addr_rel) 2,
     OpcodeDesc (op_sbc_nmos io \<circ> addr_indy) 5,
     OpcodeDesc op_hlt 2,
     OpcodeDesc (op_ins io \<circ> addr_indy) 8,
     OpcodeDesc addr_zpgx 4,
     OpcodeDesc (op_sbc_nmos io \<circ> addr_zpgx) 4,
     OpcodeDesc (op_inc io \<circ> addr_zpgx) 6,
     OpcodeDesc (op_ins io \<circ> addr_zpgx) 6,
     OpcodeDesc op_sed 2,
     OpcodeDesc (op_sbc_nmos io \<circ> addr_absy) 4,
     OpcodeDesc op_nop 2,
     OpcodeDesc (op_ins io \<circ> addr_absy) 7,
     OpcodeDesc addr_absx 4,
     OpcodeDesc (op_sbc_nmos io \<circ> addr_absx) 4,
     OpcodeDesc (op_inc io \<circ> addr_absx) 6,
     OpcodeDesc (op_ins io \<circ> addr_absx) 7]"

definition opcodes_nmos :: "'a io_fun \<Rightarrow> 'a opcode_desc list" where
  "opcodes_nmos io =
     opcodes_nmos_0x io
     @ opcodes_nmos_1x io
     @ opcodes_nmos_2x io
     @ opcodes_nmos_3x io
     @ opcodes_nmos_4x io
     @ opcodes_nmos_5x io
     @ opcodes_nmos_6x io
     @ opcodes_nmos_7x io
     @ opcodes_nmos_8x io
     @ opcodes_nmos_9x io
     @ opcodes_nmos_Ax io
     @ opcodes_nmos_Bx io
     @ opcodes_nmos_Cx io
     @ opcodes_nmos_Dx io
     @ opcodes_nmos_Ex io
     @ opcodes_nmos_Fx io"

lemmas nmos_rows =
  opcodes_nmos_0x_def opcodes_nmos_1x_def opcodes_nmos_2x_def opcodes_nmos_3x_def
  opcodes_nmos_4x_def opcodes_nmos_5x_def opcodes_nmos_6x_def opcodes_nmos_7x_def
  opcodes_nmos_8x_def opcodes_nmos_9x_def opcodes_nmos_Ax_def opcodes_nmos_Bx_def
  opcodes_nmos_Cx_def opcodes_nmos_Dx_def opcodes_nmos_Ex_def opcodes_nmos_Fx_def

lemma length_nmos_rows:
  "length (opcodes_nmos_0x io) = 16"
  "length (opcodes_nmos_1x io) = 16"
  "length (opcodes_nmos_2x io) = 16"
  "length (opcodes_nmos_3x io) = 16"
  "length (opcodes_nmos_4x io) = 16"
  "length (opcodes_nmos_5x io) = 16"
  "length (opcodes_nmos_6x io) = 16"
  "length (opcodes_nmos_7x io) = 16"
  "length (opcodes_nmos_8x io) = 16"
  "length (opcodes_nmos_9x io) = 16"
  "length (opcodes_nmos_Ax io) = 16"
  "length (opcodes_nmos_Bx io) = 16"
  "length (opcodes_nmos_Cx io) = 16"
  "length (opcodes_nmos_Dx io) = 16"
  "length (opcodes_nmos_Ex io) = 16"
  "length (opcodes_nmos_Fx io) = 16"
  by (simp_all add: nmos_rows)

lemma length_opcodes_nmos [simp]: "length (opcodes_nmos io) = 256"
  by (simp add: opcodes_nmos_def length_nmos_rows)

end
