(* ===== verification/Cpu_Cmos.thy ===== *)
theory Cpu_Cmos
  imports Cpu_Nmos
begin

text \<open>
  The dispatch table of the CMOS 65C02 (\<open>opcodes_cmos\<close> in \<open>src/apple2/CPU.cpp\<close>),
  laid out as the NMOS table.
\<close>

definition opcodes_cmos_0x :: "'a io_fun \<Rightarrow> 'a opcode_desc list" where
  "opcodes_cmos_0x io = [
     OpcodeDesc (op_brk True) 7,
     OpcodeDesc (op_ora io \<circ> addr_indx) 6,
     OpcodeDesc addr_imm 2,
     OpcodeDesc op_nop 2,
     OpcodeDesc (op_tsb io \<circ> addr_zpg) 5,
     OpcodeDesc (op_ora io \<circ> addr_zpg) 3,
     OpcodeDesc (op_asl io \<circ> addr_zpg) 5,
     OpcodeDesc op_nop 2,
     OpcodeDesc op_php 3,
     OpcodeDesc (op_ora io \<circ> addr_imm) 2,
     OpcodeDesc op_asla 2,
     OpcodeDesc op_nop 2,
     OpcodeDesc (op_tsb io \<circ> addr_abs) 6,
     OpcodeDesc (op_ora io \<circ> addr_abs) 4,
     OpcodeDesc (op_asl io \<circ> addr_abs) 6,
     OpcodeDesc op_nop 2]"

definition opcodes_cmos_1x :: "'a io_fun \<Rightarrow> 'a opcode_desc list" where
  "opcodes_cmos_1x io = [
     OpcodeDesc (branch_if_clear flagn \<circ> addr_rel) 2,
     OpcodeDesc (op_ora io \<circ> addr_indy) 5,
     OpcodeDesc (op_ora io \<circ> addr_izpg) 5,
     OpcodeDesc op_nop 2,
     OpcodeDesc (op_trb io \<circ> addr_zpg) 5,
     OpcodeDesc (op_ora io \<circ> addr_zpgx) 4,
     OpcodeDesc (op_asl io \<circ> addr_zpgx) 6,
     OpcodeDesc op_nop 2,
     OpcodeDesc op_clc 2,
     OpcodeDesc (op_ora io \<circ> addr_absy) 4,
     OpcodeDesc op_ina 2,
     OpcodeDesc op_nop 2,
     OpcodeDesc (op_trb io \<circ> addr_abs) 6,
     OpcodeDesc (op_ora io \<circ> addr_absx) 4,
     OpcodeDesc (op_asl io \<circ> addr_absx) 6,
     OpcodeDesc op_nop 2]"

definition opcodes_cmos_2x :: "'a io_fun \<Rightarrow> 'a opcode_desc list" where
  "opcodes_cmos_2x io = [
     OpcodeDesc (op_jsr \<circ> addr_abs) 6,
     OpcodeDesc (op_and io \<circ> addr_indx) 6,
     OpcodeDesc addr_imm 2,
     OpcodeDesc op_nop 2,
     OpcodeDesc (op_bit io \<circ> addr_zpg) 3,
     OpcodeDesc (op_and io \<circ> addr_zpg) 3,
     OpcodeDesc (op_rol io \<circ> addr_zpg) 5,
     OpcodeDesc op_nop 2,
     OpcodeDesc op_plp 4,
     OpcodeDesc (op_and io \<circ> addr_imm) 2,
     OpcodeDesc op_rola 2,
     OpcodeDesc op_nop 2,
     OpcodeDesc (op_bit io \<circ> addr_abs) 4,
     OpcodeDesc (op_and io \<circ> addr_abs) 2,
     OpcodeDesc (op_rol io \<circ> addr_abs) 6,
     OpcodeDesc op_nop 2]"

definition opcodes_cmos_3x :: "'a io_fun \<Rightarrow> 'a opcode_desc list" where
  "opcodes_cmos_3x io = [
     OpcodeDesc (branch_if_set flagn \<circ> addr_rel) 2,
     OpcodeDesc (op_and io \<circ> addr_indy) 5,
     OpcodeDesc (op_and io \<circ> addr_izpg) 5,
     OpcodeDesc op_nop 2,
     OpcodeDesc (op_bit io \<circ> addr_zpgx) 4,
     OpcodeDesc (op_and io \<circ> addr_zpgx) 4,
     OpcodeDesc (op_rol io \<circ> addr_zpgx) 6,
     OpcodeDesc op_nop 2,
     OpcodeDesc op_sec 2,
     OpcodeDesc (op_and io \<circ> addr_absy) 4,
     OpcodeDesc op_dea 2,
     OpcodeDesc op_nop 2,
     OpcodeDesc (op_bit io \<circ> addr_absx) 4,
     OpcodeDesc (op_and io \<circ> addr_absx) 4,
     OpcodeDesc (op_rol io \<circ> addr_absx) 6,
     OpcodeDesc op_nop 2]"

definition opcodes_cmos_4x :: "'a io_fun \<Rightarrow> 'a opcode_desc list" where
  "opcodes_cmos_4x io = [
     OpcodeDesc op_rti 6,
     OpcodeDesc (op_eor io \<circ> addr_indx) 6,
     OpcodeDesc addr_imm 2,
     OpcodeDesc op_nop 2,
     OpcodeDesc addr_zpg 3,
     OpcodeDesc (op_eor io \<circ> addr_zpg) 3,
     OpcodeDesc (op_lsr io \<circ> addr_zpg) 5,
     OpcodeDesc op_nop 2,
     OpcodeDesc op_pha 3,
     OpcodeDesc (op_eor io \<circ> addr_imm) 2,
     OpcodeDesc op_lsra 2,
     OpcodeDesc op_nop 2,
     OpcodeDesc (op_jmp \<circ> addr_abs) 3,
     OpcodeDesc (op_eor io \<circ> addr_abs) 4,
     OpcodeDesc (op_lsr io \<circ> addr_abs) 6,
     OpcodeDesc op_nop 2]"

definition opcodes_cmos_5x :: "'a io_fun \<Rightarrow> 'a opcode_desc list" where
  "opcodes_cmos_5x io = [
     OpcodeDesc (branch_if_clear flagv \<circ> addr_rel) 2,
     OpcodeDesc (op_eor io \<circ> addr_indy) 5,
     OpcodeDesc (op_eor io \<circ> addr_izpg) 5,
     OpcodeDesc op_nop 2,
     OpcodeDesc addr_zpgx 4,
     OpcodeDesc (op_eor io \<circ> addr_zpgx) 4,
     OpcodeDesc (op_lsr io \<circ> addr_zpgx) 6,
     OpcodeDesc op_nop 2,
     OpcodeDesc op_cli 2,
     OpcodeDesc (op_eor io \<circ> addr_absy) 4,
     OpcodeDesc op_phy 3,
     OpcodeDesc op_nop 2,
     OpcodeDesc addr_absx 8,
     OpcodeDesc (op_eor io \<circ> addr_absx) 4,
     OpcodeDesc (op_lsr io \<circ> addr_absx) 6,
     OpcodeDesc op_nop 2]"

definition opcodes_cmos_6x :: "'a io_fun \<Rightarrow> 'a opcode_desc list" where
  "opcodes_cmos_6x io = [
     OpcodeDesc op_rts 6,
     OpcodeDesc (op_adc_cmos io \<circ> addr_indx) 6,
     OpcodeDesc addr_imm 2,
     OpcodeDesc op_nop 2,
     OpcodeDesc (op_stz io \<circ> addr_zpg) 3,
     OpcodeDesc (op_adc_cmos io \<circ> addr_zpg) 3,
     OpcodeDesc (op_ror io \<circ> addr_zpg) 5,
     OpcodeDesc op_nop 2,
     OpcodeDesc op_pla 4,
     OpcodeDesc (op_adc_cmos io \<circ> addr_imm) 2,
     OpcodeDesc op_rora 2,
     OpcodeDesc op_nop 2,
     OpcodeDesc (op_jmp \<circ> addr_iabs_cmos) 6,
     OpcodeDesc (op_adc_cmos io \<circ> addr_abs) 4,
     OpcodeDesc (op_ror io \<circ> addr_abs) 6,
     OpcodeDesc op_nop 2]"

definition opcodes_cmos_7x :: "'a io_fun \<Rightarrow> 'a opcode_desc list" where
  "opcodes_cmos_7x io = [
     OpcodeDesc (branch_if_set flagv \<circ> addr_rel) 2,
     OpcodeDesc (op_adc_cmos io \<circ> addr_indy) 5,
     OpcodeDesc (op_adc_cmos io \<circ> addr_izpg) 5,
     OpcodeDesc op_nop 2,
     OpcodeDesc (op_stz io \<circ> addr_zpgx) 4,
     OpcodeDesc (op_adc_cmos io \<circ> addr_zpgx) 4,
     OpcodeDesc (op_ror io \<circ> addr_zpgx) 6,
     OpcodeDesc op_nop 2,
     OpcodeDesc op_sei 2,
     OpcodeDesc (op_adc_cmos io \<circ> addr_absy) 4,
     OpcodeDesc op_ply 4,
     OpcodeDesc op_nop 2,
     OpcodeDesc (op_jmp \<circ> addr_iabsx) 6,
     OpcodeDesc (op_adc_cmos io \<circ> addr_absx) 4,
     OpcodeDesc (op_ror io \<circ> addr_absx) 6,
     OpcodeDesc op_nop 2]"

definition opcodes_cmos_8x :: "'a io_fun \<Rightarrow> 'a opcode_desc list" where
  "opcodes_cmos_8x io = [
     OpcodeDesc (branch_taken \<circ> addr_rel) 2,
     OpcodeDesc (op_sta io \<circ> addr_indx) 6,
     OpcodeDesc addr_imm 2,
     OpcodeDesc op_nop 2,
     OpcodeDesc (op_sty io \<circ> addr_zpg) 3,
     OpcodeDesc (op_sta io \<circ> addr_zpg) 3,
     OpcodeDesc (op_stx io \<circ> addr_zpg) 3,
     OpcodeDesc op_nop 2,
     OpcodeDesc op_dey 2,
     OpcodeDesc (op_biti io \<circ> addr_imm) 2,
     OpcodeDesc op_txa 2,
     OpcodeDesc op_nop 2,
     OpcodeDesc (op_sty io \<circ> addr_abs) 4,
     OpcodeDesc (op_sta io \<circ> addr_abs) 4,
     OpcodeDesc (op_stx io \<circ> addr_abs) 4,
     OpcodeDesc op_nop 2]"

definition opcodes_cmos_9x :: "'a io_fun \<Rightarrow> 'a opcode_desc list" where
  "opcodes_cmos_9x io = [
     OpcodeDesc (branch_if_clear flagc \<circ> addr_rel) 2,
     OpcodeDesc (op_sta io \<circ> addr_indy) 6,
     OpcodeDesc (op_sta io \<circ> addr_izpg) 5,
     OpcodeDesc op_nop 2,
     OpcodeDesc (op_sty io \<circ> addr_zpgx) 4,
     OpcodeDesc (op_sta io \<circ> addr_zpgx) 4,
     OpcodeDesc (op_stx io \<circ> addr_zpgy) 4,
     OpcodeDesc op_nop 2,
     OpcodeDesc op_tya 2,
     OpcodeDesc (op_sta io \<circ> addr_absy) 5,
     OpcodeDesc op_txs 2,
     OpcodeDesc op_nop 2,
     OpcodeDesc (op_stz io \<circ> addr_abs) 4,
     OpcodeDesc (op_sta io \<circ> addr_absx) 5,
     OpcodeDesc (op_stz io \<circ> addr_absx) 5,
     OpcodeDesc op_nop 2]"

definition opcodes_cmos_Ax :: "'a io_fun \<Rightarrow> 'a opcode_desc list" where
  "opcodes_cmos_Ax io = [
     OpcodeDesc (op_ldy io \<circ> addr_imm) 2,
     OpcodeDesc (op_lda io \<circ> addr_indx) 6,
     OpcodeDesc (op_ldx io \<circ> addr_imm) 2,
     OpcodeDesc op_nop 2,
     OpcodeDesc (op_ldy io \<circ> addr_zpg) 3,
     OpcodeDesc (op_lda io \<circ> addr_zpg) 3,
     OpcodeDesc (op_ldx io \<circ> addr_zpg) 3,
     OpcodeDesc op_nop 2,
     OpcodeDesc op_tay 2,
     OpcodeDesc (op_lda io \<circ> addr_imm) 2,
     OpcodeDesc op_tax 2,
     OpcodeDesc op_nop 2,
     OpcodeDesc (op_ldy io \<circ> addr_abs) 4,
     OpcodeDesc (op_lda io \<circ> addr_abs) 4,
     OpcodeDesc (op_ldx io \<circ> addr_abs) 4,
     OpcodeDesc op_nop 2]"

definition opcodes_cmos_Bx :: "'a io_fun \<Rightarrow> 'a opcode_desc list" where
  "opcodes_cmos_Bx io = [
     OpcodeDesc (branch_if_set flagc \<circ> addr_rel) 2,
     OpcodeDesc (op_lda io \<circ> addr_indy) 5,
     OpcodeDesc (op_lda io \<circ> addr_izpg) 5,
     OpcodeDesc op_nop 2,
     OpcodeDesc (op_ldy io \<circ> addr_zpgx) 4,
     OpcodeDesc (op_lda io \<circ> addr_zpgx) 4,
     OpcodeDesc (op_ldx io \<circ> addr_zpgy) 4,
     OpcodeDesc op_nop 2,
     OpcodeDesc op_clv 2,
     OpcodeDesc (op_lda io \<circ> addr_absy) 4,
     OpcodeDesc op_tsx 2,
     OpcodeDesc op_nop 2,
     OpcodeDesc (op_ldy io \<circ> addr_absx) 4,
     OpcodeDesc (op_lda io \<circ> addr_absx) 4,
     OpcodeDesc (op_ldx io \<circ> addr_absy) 4,
     OpcodeDesc op_nop 2]"

definition opcodes_cmos_Cx :: "'a io_fun \<Rightarrow> 'a opcode_desc list" where
  "opcodes_cmos_Cx io = [
     OpcodeDesc (op_cpy io \<circ> addr_imm) 2,
     OpcodeDesc (op_cmp io \<circ> addr_indx) 6,
     OpcodeDesc addr_imm 2,
     OpcodeDesc op_nop 2,
     OpcodeDesc (op_cpy io \<circ> addr_zpg) 3,
     OpcodeDesc (op_cmp io \<circ> addr_zpg) 3,
     OpcodeDesc (op_dec io \<circ> addr_zpg) 5,
     OpcodeDesc op_nop 2,
     OpcodeDesc op_iny 2,
     OpcodeDesc (op_cmp io \<circ> addr_imm) 2,
     OpcodeDesc op_dex 2,
     OpcodeDesc op_nop 2,
     OpcodeDesc (op_cpy io \<circ> addr_abs) 4,
     OpcodeDesc (op_cmp io \<circ> addr_abs) 4,
     OpcodeDesc (op_dec io \<circ> addr_abs) 5,
     OpcodeDesc op_nop 2]"

definition opcodes_cmos_Dx :: "'a io_fun \<Rightarrow> 'a opcode_desc list" where
  "opcodes_cmos_Dx io = [
     OpcodeDesc (branch_if_clear flagz \<circ> addr_rel) 2,
     OpcodeDesc (op_cmp io \<circ> addr_indy) 5,
     OpcodeDesc (op_cmp io \<circ> addr_izpg) 5,
     OpcodeDesc op_nop 2,
     OpcodeDesc addr_zpgx 4,
     OpcodeDesc (op_cmp io \<circ> addr_zpgx) 4,
     OpcodeDesc (op_dec io \<circ> addr_zpgx) 6,
     OpcodeDesc op_nop 2,
     OpcodeDesc op_cld 2,
     OpcodeDesc (op_cmp io \<circ> addr_absy) 4,
     OpcodeDesc op_phx 3,
     OpcodeDesc op_nop 2,
     OpcodeDesc addr_absx 4,
     OpcodeDesc (op_cmp io \<circ> addr_absx) 4,
     OpcodeDesc (op_dec io \<circ> addr_absx) 6,
     OpcodeDesc op_nop 2]"

definition opcodes_cmos_Ex :: "'a io_fun \<Rightarrow> 'a opcode_desc list" where
  "opcodes_cmos_Ex io = [
     OpcodeDesc (op_cpx io \<circ> addr_imm) 2,
     OpcodeDesc (op_sbc_cmos io \<circ> addr_indx) 6,
     OpcodeDesc addr_imm 2,
     OpcodeDesc op_nop 2,
     OpcodeDesc (op_cpx io \<circ> addr_zpg) 3,
     OpcodeDesc (op_sbc_cmos io \<circ> addr_zpg) 3,
     OpcodeDesc (op_inc io \<circ> addr_zpg) 5,
     OpcodeDesc op_nop 2,
     OpcodeDesc op_inx 2,
     OpcodeDesc (op_sbc_cmos io \<circ> addr_imm) 2,
     OpcodeDesc op_nop 2,
     OpcodeDesc op_nop 2,
     OpcodeDesc (op_cpx io \<circ> addr_abs) 4,
     OpcodeDesc (op_sbc_cmos io \<circ> addr_abs) 4,
     OpcodeDesc (op_inc io \<circ> addr_abs) 6,
     OpcodeDesc op_nop 2]"

definition opcodes_cmos_Fx :: "'a io_fun \<Rightarrow> 'a opcode_desc list" where
  "opcodes_cmos_Fx io = [
     OpcodeDesc (branch_if_set flagz \<circ> addr_rel) 2,
     OpcodeDesc (op_sbc_cmos io \<circ> addr_indy) 5,
     OpcodeDesc (op_sbc_cmos io \<circ> addr_izpg) 5,
     OpcodeDesc op_nop 2,
     OpcodeDesc addr_zpgx 4,
     OpcodeDesc (op_sbc_cmos io \<circ> addr_zpgx) 4,
     OpcodeDesc (op_inc io \<circ> addr_zpgx) 6,
     OpcodeDesc op_nop 2,
     OpcodeDesc op_sed 2,
     OpcodeDesc (op_sbc_cmos io \<circ> addr_absy) 4,
     OpcodeDesc op_plx 4,
     OpcodeDesc op_nop 2,
     OpcodeDesc addr_absx 4,
     OpcodeDesc (op_sbc_cmos io \<circ> addr_absx) 4,
     OpcodeDesc (op_inc io \<circ> addr_absx) 6,
     OpcodeDesc op_nop 2]"

definition opcodes_cmos :: "'a io_fun \<Rightarrow> 'a opcode_desc list" where
  "opcodes_cmos io =
     opcodes_cmos_0x io
     @ opcodes_cmos_1x io
     @ opcodes_cmos_2x io
     @ opcodes_cmos_3x io
     @ opcodes_cmos_4x io
     @ opcodes_cmos_5x io
     @ opcodes_cmos_6x io
     @ opcodes_cmos_7x io
     @ opcodes_cmos_8x io
     @ opcodes_cmos_9x io
     @ opcodes_cmos_Ax io
     @ opcodes_cmos_Bx io
     @ opcodes_cmos_Cx io
     @ opcodes_cmos_Dx io
     @ opcodes_cmos_Ex io
     @ opcodes_cmos_Fx io"

lemmas cmos_rows =
  opcodes_cmos_0x_def opcodes_cmos_1x_def opcodes_cmos_2x_def opcodes_cmos_3x_def
  opcodes_cmos_4x_def opcodes_cmos_5x_def opcodes_cmos_6x_def opcodes_cmos_7x_def
  opcodes_cmos_8x_def opcodes_cmos_9x_def opcodes_cmos_Ax_def opcodes_cmos_Bx_def
  opcodes_cmos_Cx_def opcodes_cmos_Dx_def opcodes_cmos_Ex_def opcodes_cmos_Fx_def

lemma length_cmos_rows:
  "length (opcodes_cmos_0x io) = 16"
  "length (opcodes_cmos_1x io) = 16"
  "length (opcodes_cmos_2x io) = 16"
  "length (opcodes_cmos_3x io) = 16"
  "length (opcodes_cmos_4x io) = 16"
  "length (opcodes_cmos_5x io) = 16"
  "length (opcodes_cmos_6x io) = 16"
  "length (opcodes_cmos_7x io) = 16"
  "length (opcodes_cmos_8x io) = 16"
  "length (opcodes_cmos_9x io) = 16"
  "length (opcodes_cmos_Ax io) = 16"
  "length (opcodes_cmos_Bx io) = 16"
  "length (opcodes_cmos_Cx io) = 16"
  "length (opcodes_cmos_Dx io) = 16"
  "length (opcodes_cmos_Ex io) = 16"
  "length (opcodes_cmos_Fx io) = 16"
  by (simp_all add: cmos_rows)

lemma length_opcodes_cmos [simp]: "length (opcodes_cmos io) = 256"
  by (simp add: opcodes_cmos_def length_cmos_rows)

end
