(* ===== verification/Cpu_Exec.thy ===== *)
theory Cpu_Exec
  imports Cpu_Cmos "HOL-Library.While_Combinator"
begin

text \<open>
  The interpreter loop and the interface of the processor (\<open>src/apple2/CPU.cpp\<close> from
  \<open>cpu_execute_loop\<close> on).  The \<open>do\<close>-\<open>while\<close> loop is a partial function: its
  value is \<open>None\<close> where the C++ loop does not end.
\<close>

subsection \<open>The loop\<close>

definition opcode_table :: "bool \<Rightarrow> 'a io_fun \<Rightarrow> 'a opcode_desc list" where
  "opcode_table cmos io = (if cmos then opcodes_cmos io else opcodes_nmos io)"

definition run_opcode :: "'a opcode_desc \<Rightarrow> 'a cpu \<Rightarrow> 'a cpu" where
  "run_opcode desc c =
     (let c = handler desc (c\<lparr>extra_cycles := 0\<rparr>)
      in c\<lparr>executed_cycles := executed_cycles c + (ucast (base_cycles desc) + ucast (extra_cycles c))\<rparr>)"

definition cpu_loop_body :: "bool \<Rightarrow> 'a io_fun \<Rightarrow> 'a cpu \<Rightarrow> 'a cpu" where
  "cpu_loop_body cmos io c =
     (let (opcode, c) = fetch_opcode io c;
          c = run_opcode (opcode_table cmos io ! unat opcode) c;
          c = pack_ps c;
          c = check_nmi cmos c
      in check_irq cmos c)"

partial_function (option) cpu_loop :: "bool \<Rightarrow> 'a io_fun \<Rightarrow> 'a cpu \<Rightarrow> 'a cpu option" where
  "cpu_loop cmos io c =
     (let c' = cpu_loop_body cmos io c
      in if executed_cycles c' < cycles_limit (mach c') then cpu_loop cmos io c' else Some c')"

definition loop_context :: "u32 \<Rightarrow> 'a machine_scheme \<Rightarrow> 'a cpu" where
  "loop_context start m =
     unpack_ps \<lparr>c_addr = 0, c_base = 0, extra_cycles = 0, flagc = 0, flagn = 0, flagv = 0,
       flagz = 0, executed_cycles = start, mach = m\<rparr>"

definition cpu_execute_loop ::
  "bool \<Rightarrow> 'a io_fun \<Rightarrow> u32 \<Rightarrow> 'a machine_scheme \<Rightarrow> (u32 \<times> 'a machine_scheme) option" where
  "cpu_execute_loop cmos io start m =
     map_option (\<lambda>c. (executed_cycles c, mach c)) (cpu_loop cmos io (loop_context start m))"

definition uses_cmos :: "'a machine_scheme \<Rightarrow> bool" where
  "uses_cmos m = (\<not> (is_apple2 m \<or> current_apple2_type m = A2TYPE_APPLE2E))"

definition internal_cpu_execute ::
  "'a io_fun \<Rightarrow> u32 \<Rightarrow> 'a machine_scheme \<Rightarrow> (u32 \<times> 'a machine_scheme) option" where
  "internal_cpu_execute io start m = cpu_execute_loop (uses_cmos m) io start m"

subsection \<open>Cycle accounting\<close>

definition cpu_add_cumulative_cycles :: "u32 \<Rightarrow> 'a machine_scheme \<Rightarrow> 'a machine_scheme" where
  "cpu_add_cumulative_cycles cycles m =
     m\<lparr>cumulative_cycles := cumulative_cycles m + ucast cycles\<rparr>"

definition cpu_calc_cycles :: "u32 \<Rightarrow> 'a machine_scheme \<Rightarrow> 'a machine_scheme" where
  "cpu_calc_cycles executed m =
     (let cycles = executed - cycles_executed m
      in m\<lparr>cycles_executed := cycles_executed m + cycles,
           cumulative_cycles := cumulative_cycles m + ucast cycles\<rparr>)"

definition cpu_get_cycles_this_frame ::
  "u32 \<Rightarrow> 'a machine_scheme \<Rightarrow> u32 \<times> 'a machine_scheme" where
  "cpu_get_cycles_this_frame executed m =
     (let m = cpu_calc_cycles executed m in (cycles_executed m, m))"

definition cpu_execute ::
  "'a io_fun \<Rightarrow> u32 \<Rightarrow> 'a machine_scheme \<Rightarrow> (u32 \<times> 'a machine_scheme) option" where
  "cpu_execute io total_cycles m =
     (let m = m\<lparr>cycles_submitted := total_cycles, cycles_executed := 0,
                cycles_limit := total_cycles\<rparr>
      in case internal_cpu_execute io 0 m of
           None \<Rightarrow> None
         | Some (executed, m) \<Rightarrow>
             let remaining = executed - cycles_executed m
             in Some (executed, m\<lparr>cumulative_cycles := cumulative_cycles m + ucast remaining\<rparr>))"

definition cpu_begin_frame :: "u32 \<Rightarrow> 'a machine_scheme \<Rightarrow> 'a machine_scheme" where
  "cpu_begin_frame frame m = m\<lparr>cycles_submitted := frame, cycles_executed := 0\<rparr>"

definition cpu_limit_cycles :: "u64 \<Rightarrow> 'a machine_scheme \<Rightarrow> 'a machine_scheme" where
  "cpu_limit_cycles at_cumulative m =
     (if \<not> in_slice m \<or> at_cumulative = 0xFFFFFFFFFFFFFFFF then m
      else
        let bound = ucast (cycles_executed m) :: u64;
            bound = (if at_cumulative > cumulative_cycles m
                     then bound + (at_cumulative - cumulative_cycles m) else bound)
        in if bound < ucast (cycles_limit m) then m\<lparr>cycles_limit := ucast bound\<rparr> else m)"

definition cpu_execute_slice ::
  "'a io_fun \<Rightarrow> u32 \<Rightarrow> u64 \<Rightarrow> 'a machine_scheme \<Rightarrow> (u32 \<times> 'a machine_scheme) option" where
  "cpu_execute_slice io frame until_cycle m =
     (let m = m\<lparr>in_slice := True\<rparr>;
          m = cpu_limit_cycles until_cycle (m\<lparr>cycles_limit := frame\<rparr>)
      in case internal_cpu_execute io (cycles_executed m) m of
           None \<Rightarrow> None
         | Some (executed, m) \<Rightarrow>
             let remaining = executed - cycles_executed m
             in Some (executed,
                  m\<lparr>cumulative_cycles := cumulative_cycles m + ucast remaining,
                    cycles_executed := executed, in_slice := False\<rparr>))"

definition cpu_step :: "'a io_fun \<Rightarrow> 'a machine_scheme \<Rightarrow> 'a machine_scheme option" where
  "cpu_step io m = map_option snd (cpu_execute io 0 m)"

subsection \<open>Interrupt lines\<close>

datatype irq_src = is_6522 | is_speech | is_ssc | is_mouse | is_slot1 | is_slot2 | is_slot3
  | is_slot4 | is_slot5 | is_slot6 | is_slot7

fun irq_src_code :: "irq_src \<Rightarrow> nat" where
  "irq_src_code is_6522 = 0"
| "irq_src_code is_speech = 1"
| "irq_src_code is_ssc = 2"
| "irq_src_code is_mouse = 3"
| "irq_src_code is_slot1 = 4"
| "irq_src_code is_slot2 = 5"
| "irq_src_code is_slot3 = 6"
| "irq_src_code is_slot4 = 7"
| "irq_src_code is_slot5 = 8"
| "irq_src_code is_slot6 = 9"
| "irq_src_code is_slot7 = 10"

definition irq_bit :: "irq_src \<Rightarrow> u32" where
  "irq_bit device = push_bit (irq_src_code device) 1"

definition cpu_irq_reset :: "'a machine_scheme \<Rightarrow> 'a machine_scheme" where
  "cpu_irq_reset m = m\<lparr>bm_irq := 0\<rparr>"

definition cpu_irq_assert :: "irq_src \<Rightarrow> 'a machine_scheme \<Rightarrow> 'a machine_scheme" where
  "cpu_irq_assert device m = m\<lparr>bm_irq := bm_irq m OR irq_bit device\<rparr>"

definition cpu_irq_deassert :: "irq_src \<Rightarrow> 'a machine_scheme \<Rightarrow> 'a machine_scheme" where
  "cpu_irq_deassert device m = m\<lparr>bm_irq := bm_irq m AND NOT (irq_bit device)\<rparr>"

definition cpu_nmi_reset :: "'a machine_scheme \<Rightarrow> 'a machine_scheme" where
  "cpu_nmi_reset m = m\<lparr>bm_nmi := 0, nmi_flank := False\<rparr>"

definition cpu_nmi_assert :: "irq_src \<Rightarrow> 'a machine_scheme \<Rightarrow> 'a machine_scheme" where
  "cpu_nmi_assert device m =
     (let m = (if bm_nmi m = 0 then m\<lparr>nmi_flank := True\<rparr> else m)
      in m\<lparr>bm_nmi := bm_nmi m OR irq_bit device\<rparr>)"

definition cpu_nmi_deassert :: "irq_src \<Rightarrow> 'a machine_scheme \<Rightarrow> 'a machine_scheme" where
  "cpu_nmi_deassert device m = m\<lparr>bm_nmi := bm_nmi m AND NOT (irq_bit device)\<rparr>"

subsection \<open>Reset, initialisation, snapshots, contexts\<close>

definition cpu_reset :: "'a machine_scheme \<Rightarrow> 'a machine_scheme" where
  "cpu_reset m =
     m\<lparr>regs := (regs m)
        \<lparr>reg_ps := (reg_ps (regs m) OR AF_INTERRUPT) AND NOT AF_DECIMAL,
         reg_pc := (if mem_null m then 0 else rd16 m RESET_VECTOR_ADDR),
         reg_sp := 0x0100 OR ((reg_sp (regs m) - 3) AND 0xFF),
         is_jammed := False\<rparr>\<rparr>"

definition cpu_initialize :: "'a machine_scheme \<Rightarrow> 'a machine_scheme" where
  "cpu_initialize m =
     (let m = m\<lparr>regs := (regs m)\<lparr>reg_a := 0xFF, reg_x := 0xFF, reg_y := 0xFF, reg_ps := 0xFF,
                 reg_sp := STACK_END\<rparr>\<rparr>
      in cpu_nmi_reset (cpu_irq_reset (cpu_reset m)))"

record ss_cpu6502 =
  ss_a :: u8
  ss_x :: u8
  ss_y :: u8
  ss_p :: u8
  ss_s :: u8
  ss_pc :: u16
  ss_cumulative_cycles :: u64

text \<open>
  Several machines may exist; \<open>active_cpu\<close> points at the instance the globals belong to,
  and \<open>cpu_set_active_context\<close> saves them there before it loads another one.
\<close>

record cpu_instance =
  ci_regs :: cpu_registers
  ci_cumulative_cycles :: u64
  ci_cycles_submitted :: u32
  ci_cycles_executed :: u32
  ci_bm_irq :: u32
  ci_bm_nmi :: u32
  ci_nmi_flank :: bool

record cpu_contexts =
  active_cpu :: nat
  instances :: "nat \<Rightarrow> cpu_instance"

definition save_globals :: "'a machine_scheme \<Rightarrow> cpu_instance" where
  "save_globals m =
     \<lparr>ci_regs = regs m, ci_cumulative_cycles = cumulative_cycles m,
      ci_cycles_submitted = cycles_submitted m, ci_cycles_executed = cycles_executed m,
      ci_bm_irq = bm_irq m, ci_bm_nmi = bm_nmi m, ci_nmi_flank = nmi_flank m\<rparr>"

definition load_globals :: "cpu_instance \<Rightarrow> 'a machine_scheme \<Rightarrow> 'a machine_scheme" where
  "load_globals i m =
     m\<lparr>regs := ci_regs i, cumulative_cycles := ci_cumulative_cycles i,
       cycles_submitted := ci_cycles_submitted i, cycles_executed := ci_cycles_executed i,
       bm_irq := ci_bm_irq i, bm_nmi := ci_bm_nmi i, nmi_flank := ci_nmi_flank i\<rparr>"

definition cpu_set_active_context ::
  "nat option \<Rightarrow> cpu_contexts \<times> 'a machine_scheme \<Rightarrow> cpu_contexts \<times> 'a machine_scheme" where
  "cpu_set_active_context context_ptr s =
     (case context_ptr of
        None \<Rightarrow> s
      | Some k \<Rightarrow>
          (let (cs, m) = s;
               cs = cs\<lparr>instances := (instances cs)(active_cpu cs := save_globals m)\<rparr>;
               cs = cs\<lparr>active_cpu := k\<rparr>
           in (cs, load_globals (instances cs k) m)))"

text \<open>Both snapshot functions also refresh the registers and the cycle count of the active instance.\<close>

definition sync_instance :: "'a machine_scheme \<Rightarrow> cpu_contexts \<Rightarrow> cpu_contexts" where
  "sync_instance m cs =
     cs\<lparr>instances := (instances cs)(active_cpu cs :=
        (instances cs (active_cpu cs))
          \<lparr>ci_regs := regs m, ci_cumulative_cycles := cumulative_cycles m\<rparr>)\<rparr>"

definition cpu_get_snapshot ::
  "bool \<Rightarrow> cpu_contexts \<times> 'a machine_scheme \<Rightarrow> u32 \<times> ss_cpu6502 option \<times> cpu_contexts" where
  "cpu_get_snapshot has_buffer s =
     (let (cs, m) = s in
      if \<not> has_buffer then (1, None, cs)
      else (0, Some \<lparr>ss_a = reg_a (regs m), ss_x = reg_x (regs m), ss_y = reg_y (regs m),
                ss_p = reg_ps (regs m) OR AF_RESERVED OR AF_BREAK,
                ss_s = lo8 (reg_sp (regs m) AND 0xff),
                ss_pc = reg_pc (regs m), ss_cumulative_cycles = cumulative_cycles m\<rparr>,
            sync_instance m cs))"

definition cpu_set_snapshot ::
  "ss_cpu6502 option \<Rightarrow> cpu_contexts \<times> 'a machine_scheme
     \<Rightarrow> u32 \<times> cpu_contexts \<times> 'a machine_scheme" where
  "cpu_set_snapshot snapshot s =
     (case snapshot of
        None \<Rightarrow> (1, s)
      | Some ss \<Rightarrow>
          (let (cs, m) = s;
               m = m\<lparr>regs := (regs m)\<lparr>reg_a := ss_a ss, reg_x := ss_x ss, reg_y := ss_y ss,
                       reg_ps := ss_p ss OR AF_RESERVED OR AF_BREAK,
                       reg_sp := w16 (ss_s ss) OR STACK_BEGIN,
                       reg_pc := ss_pc ss\<rparr>\<rparr>;
               m = cpu_nmi_reset (cpu_irq_reset m);
               m = m\<lparr>cumulative_cycles := ss_cumulative_cycles ss\<rparr>
           in (0, sync_instance m cs, m)))"

subsection \<open>The benchmark program\<close>

definition short_opcodes :: nat where "short_opcodes = 22"

definition bench_opcodes :: "u8 list" where
  "bench_opcodes = [
     0x06, 0x16, 0x24, 0x45, 0x48, 0x65, 0x68, 0x76, 0x84, 0x85, 0x86,
     0x91, 0x94, 0xA4, 0xA5, 0xA6, 0xB1, 0xB4, 0xC0, 0xC4, 0xC5, 0xE6,
     0x19, 0x6D, 0x8D, 0x99, 0x9D, 0xAD, 0xB9, 0xBD, 0xDD, 0xED, 0xEE]"

text \<open>\<open>*(mem + addr++) = v\<close>\<close>

definition poke :: "u8 \<Rightarrow> u16 \<times> 'a machine_scheme \<Rightarrow> u16 \<times> 'a machine_scheme" where
  "poke v s = (let (ad, m) = s in (ad + 1, store_at (MemImage, 0) (unat ad) v m))"

definition align_16 :: "u16 \<Rightarrow> u16" where
  "align_16 ad = while (\<lambda>ad. ad AND 0x0F \<noteq> 0) (\<lambda>ad. ad + 1) ad"

definition bench_step :: "nat \<Rightarrow> u16 \<times> 'a machine_scheme \<Rightarrow> u16 \<times> 'a machine_scheme" where
  "bench_step opcode s =
     (let s = poke (bench_opcodes ! opcode) (poke (bench_opcodes ! opcode) s);
          s = (if opcode \<ge> short_opcodes then poke 0 s else s);
          opcode = opcode + 1
      in if opcode \<ge> length bench_opcodes \<or> fst s AND 0x0F \<ge> 0x0B
         then let jump_low = (if opcode \<ge> length bench_opcodes then 0
                              else lo8 (push_bit 4 (drop_bit 4 (fst s) + 1)));
                  s = poke 0x03 (poke jump_low (poke 0x4C s))
              in (align_16 (fst s), snd s)
         else s)"

definition cpu_setup_benchmark :: "'a machine_scheme \<Rightarrow> 'a machine_scheme" where
  "cpu_setup_benchmark m =
     (let m = m\<lparr>regs := (regs m)\<lparr>reg_a := 0, reg_x := 0, reg_y := 0, reg_pc := 0x300,
                reg_sp := STACK_END\<rparr>\<rparr>
      in snd (fold bench_step [0..<length bench_opcodes] (0x300, m)))"

end
