(* ===== verification/Cpu_Bus.thy ===== *)
theory Cpu_Bus
  imports Cpu_Exec
begin

text \<open>
  What the processor relies on from the bus, and what every instruction keeps under it.

  The contract \<open>io_bus\<close> says what an I/O handler may do to the processor's own globals:
  it may reset the processor (a card can pull the reset line), but the stack pointer stays in
  page one; it may end the running slice early but never extends it; and it may bring the cycle
  counters up to the time it is given, never past it.  Under this contract
  each of the 512 table entries keeps the stack pointer in page one and the unpacked flags in
  range, and adds a bounded number of cycles.
\<close>

definition cycle_origin :: "'a machine_scheme \<Rightarrow> u64" where
  "cycle_origin m = cumulative_cycles m - ucast (cycles_executed m)"

definition sp_in_page_one :: "'a machine_scheme \<Rightarrow> bool" where
  "sp_in_page_one m \<longleftrightarrow> STACK_BEGIN \<le> reg_sp (regs m) \<and> reg_sp (regs m) \<le> STACK_END"

definition bus_rel :: "u32 \<Rightarrow> 'a machine_scheme \<Rightarrow> 'a machine_scheme \<Rightarrow> bool" where
  "bus_rel t m m' \<longleftrightarrow>
     (sp_in_page_one m \<longrightarrow> sp_in_page_one m') \<and> in_slice m' = in_slice m \<and> current_apple2_type m' = current_apple2_type m \<and>
     cycles_limit m' \<le> cycles_limit m \<and> (in_slice m \<or> cycles_limit m' = cycles_limit m) \<and>
     (cycles_executed m \<le> t \<longrightarrow>
        cycles_executed m \<le> cycles_executed m' \<and> cycles_executed m' \<le> t \<and>
        cycle_origin m' = cycle_origin m)"

lemma bus_rel_refl [simp]: "bus_rel t m m"
  by (simp add: bus_rel_def)

lemma bus_rel_trans: "bus_rel t m m' \<Longrightarrow> bus_rel t m' m'' \<Longrightarrow> bus_rel t m m''"
  by (auto simp: bus_rel_def)

locale io_bus =
  fixes io :: "'a io_fun"
  assumes io_rel: "bus_rel t m (snd (io pc a w v t m))"

definition ctx_ok :: "'a cpu \<Rightarrow> bool" where
  "ctx_ok c \<longleftrightarrow> sp_in_page_one (mach c) \<and> flagc c \<le> 1 \<and> (flagn c = 0 \<or> flagn c = 0x80)"

text \<open>
  What only the bus can change during an instruction: the cycle counters, the interrupt mask
  and every global of the components behind the processor.
\<close>

definition bus_side :: "'a machine_scheme \<Rightarrow> u64 \<times> u32 \<times> u32 \<times> bool \<times> u32 \<times> 'a" where
  "bus_side m = (cumulative_cycles m, cycles_executed m, cycles_limit m, in_slice m, bm_irq m,
                 machine.more m)"

definition access ::
  "'a io_fun \<Rightarrow> u32 \<Rightarrow> u64 \<times> u32 \<times> u32 \<times> bool \<times> u32 \<times> 'a \<Rightarrow> u64 \<times> u32 \<times> u32 \<times> bool \<times> u32 \<times> 'a \<Rightarrow> bool" where
  "access io t s s' \<longleftrightarrow>
     (\<exists>pc a w v m. s = bus_side m \<and> s' = bus_side (snd (io pc a w v t m)))"

definition ctx_rel :: "'a io_fun \<Rightarrow> 'a cpu \<Rightarrow> 'a cpu \<Rightarrow> bool" where
  "ctx_rel io c d \<longleftrightarrow>
     (access io (executed_cycles c))\<^sup>*\<^sup>* (bus_side (mach c)) (bus_side (mach d)) \<and>
     executed_cycles d = executed_cycles c \<and> in_slice (mach d) = in_slice (mach c) \<and>
     current_apple2_type (mach d) = current_apple2_type (mach c) \<and>
     cycles_limit (mach d) \<le> cycles_limit (mach c) \<and>
     (in_slice (mach c) \<or> cycles_limit (mach d) = cycles_limit (mach c)) \<and>
     (cycles_executed (mach c) \<le> executed_cycles c \<longrightarrow>
        cycles_executed (mach c) \<le> cycles_executed (mach d) \<and>
        cycles_executed (mach d) \<le> executed_cycles c \<and>
        cycle_origin (mach d) = cycle_origin (mach c)) \<and>
     (ctx_ok c \<longrightarrow> ctx_ok d)"

lemma ctx_rel_refl [simp, pres]: "ctx_rel io c c"
  by (simp add: ctx_rel_def)

lemma ctx_rel_trans: "ctx_rel io c d \<Longrightarrow> ctx_rel io d e \<Longrightarrow> ctx_rel io c e"
  by (auto simp: ctx_rel_def intro: rtranclp_trans)

lemma more_store_at [simp]: "machine.more (store_at p i v m) = machine.more m"
  by (simp add: store_at_def)

lemma bus_side_private [simp]:
  "bus_side (regs_update f m) = bus_side m" "bus_side (memdirty_update g m) = bus_side m"
  "bus_side (nmi_flank_update h m) = bus_side m" "bus_side (store_at p i v m) = bus_side m"
  by (simp_all add: bus_side_def)

text \<open>
  A predicate on the bus side of the machine that every access keeps survives any number of
  accesses.
\<close>

lemma accesses_keep:
  assumes "(access io t)\<^sup>*\<^sup>* (bus_side m) (bus_side m')"
    and side: "\<And>m m'. bus_side m = bus_side m' \<Longrightarrow> P m = P m'"
    and keep: "\<And>pc a w v m. P m \<Longrightarrow> P (snd (io pc a w v t m))"
    and "P m"
  shows "P m'"
proof -
  have "\<exists>m'. s = bus_side m' \<and> P m'" if "(access io t)\<^sup>*\<^sup>* (bus_side m) s" for s
    using that
  proof (induction rule: rtranclp_induct)
    case base
    with assms(4) show ?case by blast
  next
    case (step s s')
    from step.IH obtain m1 where m1: "s = bus_side m1" "P m1" by blast
    from step.hyps(2) obtain pc a w v m2
      where m2: "s = bus_side m2" "s' = bus_side (snd (io pc a w v t m2))"
      unfolding access_def by blast
    have "P m2" using side [of m1 m2] m1 m2(1) by simp
    with keep [of m2 pc a w v] m2(2) show ?case by blast
  qed
  from this [OF assms(1)] side show ?thesis by blast
qed

subsection \<open>The small steps instructions are made of\<close>

lemma and_1_le [simp]: "(v :: u8) AND 1 \<le> 1"
  by (rule word_and_le1)

lemma b2w_le [simp]: "(b2w P :: 'w::len word) \<le> 1"
  by (simp add: b2w_def)

lemma and_80_cases: "(v :: u8) AND 0x80 = 0 \<or> v AND 0x80 = 0x80"
  by (cases "bit v 7") (simp_all add: u8_eq_bits word_bits)

lemma lo8_and_80: "lo8 (v AND 0x80) = lo8 v AND 0x80"
  by (simp add: u8_eq_bits word_bits)

lemma page1_bounds: "(0x100 :: u16) \<le> 0x100 OR w16 x \<and> 0x100 OR w16 x \<le> 0x1FF"
proof -
  have "(0x100 OR w16 x) AND 0x1FF = 0x100 OR w16 x"
    by (simp add: u16_eq_bits word_bits)
  moreover have "(0x100 OR w16 x) AND 0x1FF \<le> (0x1FF :: u16)"
    by (rule word_and_le1)
  moreover have "(0x100 :: u16) \<le> 0x100 OR w16 x"
    by (rule le_word_or2)
  ultimately show ?thesis by simp
qed

lemma stack_dec:
  assumes "(0x100 :: u16) \<le> s" "s \<le> 0x1FF"
  shows "0x100 \<le> (if s - 1 < 0x100 then 0x1FF else s - 1)" (is ?lo)
    and "(if s - 1 < 0x100 then 0x1FF else s - 1) \<le> 0x1FF" (is ?hi)
proof -
  have "unat (s - 1) = unat s - 1"
    using assms(1) by (subst unat_sub) (auto simp: word_le_nat_alt)
  then show ?lo ?hi using assms by (auto simp: word_le_nat_alt word_less_nat_alt)
qed

lemma stack_inc:
  assumes "(0x100 :: u16) \<le> s" "s \<le> 0x1FF" "\<not> 0x1FF \<le> s"
  shows "0x100 \<le> s + 1" (is ?lo) and "s + 1 \<le> 0x1FF" (is ?hi)
proof -
  have "unat (s + 1) = unat s + 1"
    using assms(2) by (subst unat_add_lem [THEN iffD1]) (auto simp: word_le_nat_alt)
  then show ?lo ?hi using assms by (auto simp: word_le_nat_alt word_less_nat_alt)
qed

lemma ctx_rel_set_a [pres]: "ctx_rel io c d \<Longrightarrow> ctx_rel io c (set_a v d)"
  by (simp add: ctx_rel_def ctx_ok_def sp_in_page_one_def cycle_origin_def)

lemma ctx_rel_set_x [pres]: "ctx_rel io c d \<Longrightarrow> ctx_rel io c (set_x v d)"
  by (simp add: ctx_rel_def ctx_ok_def sp_in_page_one_def cycle_origin_def)

lemma ctx_rel_set_y [pres]: "ctx_rel io c d \<Longrightarrow> ctx_rel io c (set_y v d)"
  by (simp add: ctx_rel_def ctx_ok_def sp_in_page_one_def cycle_origin_def)

lemma ctx_rel_set_ps [pres]: "ctx_rel io c d \<Longrightarrow> ctx_rel io c (set_ps v d)"
  by (simp add: ctx_rel_def ctx_ok_def sp_in_page_one_def cycle_origin_def)

lemma ctx_rel_set_pc [pres]: "ctx_rel io c d \<Longrightarrow> ctx_rel io c (set_pc v d)"
  by (simp add: ctx_rel_def ctx_ok_def sp_in_page_one_def cycle_origin_def)

lemma ctx_rel_jammed [pres]:
  "ctx_rel io c d \<Longrightarrow> ctx_rel io c (mach_update (regs_update (is_jammed_update (\<lambda>_. v))) d)"
  by (simp add: ctx_rel_def ctx_ok_def sp_in_page_one_def cycle_origin_def)

lemma ctx_rel_set_sp [pres]: "ctx_rel io c d \<Longrightarrow> ctx_rel io c (set_sp (0x100 OR w16 v) d)"
  using page1_bounds [of v] by (simp add: ctx_rel_def ctx_ok_def sp_in_page_one_def cycle_origin_def)

lemma ctx_rel_set_sp' [pres]: "ctx_rel io c d \<Longrightarrow> ctx_rel io c (set_sp (w16 v OR 0x100) d)"
  by (subst or.commute) (rule ctx_rel_set_sp)

lemma ctx_rel_addr [pres]: "ctx_rel io c d \<Longrightarrow> ctx_rel io c (d\<lparr>c_addr := v\<rparr>)"
  by (simp add: ctx_rel_def ctx_ok_def)

lemma ctx_rel_base [pres]: "ctx_rel io c d \<Longrightarrow> ctx_rel io c (d\<lparr>c_base := v\<rparr>)"
  by (simp add: ctx_rel_def ctx_ok_def)

lemma ctx_rel_extra [pres]: "ctx_rel io c d \<Longrightarrow> ctx_rel io c (d\<lparr>extra_cycles := v\<rparr>)"
  by (simp add: ctx_rel_def ctx_ok_def)

lemma ctx_rel_flagv [pres]: "ctx_rel io c d \<Longrightarrow> ctx_rel io c (d\<lparr>flagv := v\<rparr>)"
  by (simp add: ctx_rel_def ctx_ok_def)

lemma ctx_rel_flagz [pres]: "ctx_rel io c d \<Longrightarrow> ctx_rel io c (d\<lparr>flagz := v\<rparr>)"
  by (simp add: ctx_rel_def ctx_ok_def)

lemma ctx_rel_flagc [pres]: "ctx_rel io c d \<Longrightarrow> v \<le> 1 \<Longrightarrow> ctx_rel io c (d\<lparr>flagc := v\<rparr>)"
  by (simp add: ctx_rel_def ctx_ok_def)

lemma ctx_rel_flagn [pres]:
  "ctx_rel io c d \<Longrightarrow> v = 0 \<or> v = 0x80 \<Longrightarrow> ctx_rel io c (d\<lparr>flagn := v\<rparr>)"
  by (simp add: ctx_rel_def ctx_ok_def)

lemma ctx_rel_if [pres]:
  "(P \<Longrightarrow> ctx_rel io c d) \<Longrightarrow> (\<not> P \<Longrightarrow> ctx_rel io c e) \<Longrightarrow> ctx_rel io c (if P then d else e)"
  by simp

lemma ctx_rel_set_nz [pres]: "ctx_rel io c d \<Longrightarrow> ctx_rel io c (set_nz v d)"
  unfolding set_nz_def lo8_and_80 by (intro pres and_80_cases)

lemma ctx_rel_set_z [pres]: "ctx_rel io c d \<Longrightarrow> ctx_rel io c (set_z v d)"
  unfolding set_z_def by (intro pres)

lemma ctx_rel_pack_ps [pres]: "ctx_rel io c d \<Longrightarrow> ctx_rel io c (pack_ps d)"
  unfolding pack_ps_def by (intro pres)

lemma ctx_rel_unpack_ps [pres]: "ctx_rel io c d \<Longrightarrow> ctx_rel io c (unpack_ps d)"
  unfolding unpack_ps_def by (intro pres and_80_cases and_1_le)

lemma ctx_rel_store [pres]: "ctx_rel io c d \<Longrightarrow> ctx_rel io c (mach_update (store_at p i v) d)"
  by (simp add: ctx_rel_def ctx_ok_def sp_in_page_one_def cycle_origin_def)

lemma ctx_rel_dirty [pres]:
  "ctx_rel io c d \<Longrightarrow> ctx_rel io c (d\<lparr>mach := (mach d)\<lparr>memdirty := x\<rparr>\<rparr>)"
  by (simp add: ctx_rel_def ctx_ok_def sp_in_page_one_def cycle_origin_def)

lemma ctx_rel_push [pres]: "ctx_rel io c d \<Longrightarrow> ctx_rel io c (push v d)"
  unfolding push_def Let_def
  using stack_dec [of "SP d"] by (simp add: ctx_rel_def ctx_ok_def sp_in_page_one_def cycle_origin_def)

lemma ctx_rel_pop [pres]: "ctx_rel io c d \<Longrightarrow> ctx_rel io c (snd (pop d))"
  unfolding pop_def Let_def
  using stack_inc [of "SP d"] by (auto simp: ctx_rel_def ctx_ok_def sp_in_page_one_def cycle_origin_def)

end
