(* ===== verification/Cpu_Invariant.thy ===== *)
theory Cpu_Invariant
  imports Cpu_Bus
begin

text \<open>
  Every addressing mode and every instruction body keeps \<open>ctx_rel\<close> under a lawful bus,
  and adds at most two extra cycles; so does each entry of the two dispatch tables.
\<close>

definition addr_like :: "'a io_fun \<Rightarrow> ('a cpu \<Rightarrow> 'a cpu) \<Rightarrow> bool" where
  "addr_like io f \<longleftrightarrow> (\<forall>c. ctx_rel io c (f c) \<and> (extra_cycles c = 0 \<longrightarrow> extra_cycles (f c) \<le> 1))"

definition op_like :: "'a io_fun \<Rightarrow> ('a cpu \<Rightarrow> 'a cpu) \<Rightarrow> bool" where
  "op_like io f \<longleftrightarrow> (\<forall>c. ctx_rel io c (f c) \<and> (extra_cycles c \<le> 1 \<longrightarrow> extra_cycles (f c) \<le> 2))"

definition desc_ok :: "'a io_fun \<Rightarrow> 'a opcode_desc \<Rightarrow> bool" where
  "desc_ok io d \<longleftrightarrow> 2 \<le> base_cycles d \<and> base_cycles d \<le> 8 \<and>
     (\<forall>c. ctx_rel io c (handler d c) \<and> (extra_cycles c = 0 \<longrightarrow> extra_cycles (handler d c) \<le> 2))"

lemma addr_likeI:
  "(\<And>c. ctx_rel io c (f c)) \<Longrightarrow> (\<And>c. extra_cycles c = 0 \<Longrightarrow> extra_cycles (f c) \<le> 1) \<Longrightarrow> addr_like io f"
  by (simp add: addr_like_def)

lemma op_likeI:
  assumes "\<And>c. ctx_rel io c (f c)" and "\<And>c. extra_cycles (f c) = extra_cycles c"
  shows "op_like io f"
proof -
  have "extra_cycles c \<le> 1 \<Longrightarrow> extra_cycles c \<le> 2" for c :: "'a cpu"
    by (erule order_trans) simp
  with assms show ?thesis by (simp add: op_like_def)
qed

lemma desc_ok_comp:
  "op_like io g \<Longrightarrow> addr_like io f \<Longrightarrow> 2 \<le> n \<Longrightarrow> n \<le> 8 \<Longrightarrow> desc_ok io (OpcodeDesc (g \<circ> f) n)"
  by (auto simp: desc_ok_def op_like_def addr_like_def intro: ctx_rel_trans)

lemma desc_ok_op: "op_like io g \<Longrightarrow> 2 \<le> n \<Longrightarrow> n \<le> 8 \<Longrightarrow> desc_ok io (OpcodeDesc g n)"
  by (auto simp: desc_ok_def op_like_def)

lemma desc_ok_addr: "addr_like io f \<Longrightarrow> 2 \<le> n \<Longrightarrow> n \<le> 8 \<Longrightarrow> desc_ok io (OpcodeDesc f n)"
  by (auto simp: desc_ok_def addr_like_def intro: order_trans [of _ "1 :: u16"])

subsection \<open>Frames of the small steps\<close>

lemma extra_simps [frame, simp]:
  "extra_cycles (set_nz v c) = extra_cycles c"
  "extra_cycles (set_z v c) = extra_cycles c"
  "extra_cycles (pack_ps d) = extra_cycles d"
  "extra_cycles (unpack_ps d) = extra_cycles d"
  "extra_cycles (push w d) = extra_cycles d"
  "extra_cycles (snd (pop d)) = extra_cycles d"
  "extra_cycles (snd (read_byte io a d)) = extra_cycles d"
  "extra_cycles (snd (next_byte d)) = extra_cycles d"
  "extra_cycles (write_byte io a w d) = extra_cycles d"
  "extra_cycles (compare_reg w v c) = extra_cycles c"
  by (simp_all add: set_nz_def set_z_def pack_ps_def unpack_ps_def push_def pop_def read_byte_def
      next_byte_def write_byte_def compare_reg_def Let_def split_def split: option.split)

lemma ctx_rel_next_byte [pres]: "ctx_rel io c d \<Longrightarrow> ctx_rel io c (snd (next_byte d))"
  unfolding next_byte_def snd_conv by (intro pres)

lemma ctx_rel_check_page [pres]: "ctx_rel io c d \<Longrightarrow> ctx_rel io c (check_page_change b a d)"
  unfolding check_page_change_def by (intro pres)

lemma ctx_rel_compare [pres]: "ctx_rel io c d \<Longrightarrow> ctx_rel io c (compare_reg r v d)"
  unfolding compare_reg_def Let_def by (intro pres b2w_le)

lemma ctx_rel_branch [pres]: "ctx_rel io c d \<Longrightarrow> ctx_rel io c (branch_taken d)"
  unfolding branch_taken_def Let_def by (intro pres)

lemma ctx_rel_push_pc [pres]: "ctx_rel io c d \<Longrightarrow> ctx_rel io c (push_pc d)"
  unfolding push_pc_def Let_def by (intro pres)

lemma ctx_rel_pop_pc [pres]: "ctx_rel io c d \<Longrightarrow> ctx_rel io c (pop_pc d)"
  unfolding pop_pc_def Let_def split_def by (intro pres)

lemma ctx_rel_snd_if [pres]:
  "(P \<Longrightarrow> ctx_rel io c (snd p)) \<Longrightarrow> (\<not> P \<Longrightarrow> ctx_rel io c (snd q)) \<Longrightarrow> ctx_rel io c (snd (if P then p else q))"
  by simp

lemma ctx_rel_snd_pair [pres]: "ctx_rel io c d \<Longrightarrow> ctx_rel io c (snd (v, d))"
  by simp

lemma ctx_rel_adc_nmos [pres]: "ctx_rel io c d \<Longrightarrow> ctx_rel io c (adc_nmos_body t d)"
  unfolding adc_nmos_body_def Let_def lo8_and_80 by (intro pres b2w_le and_80_cases)

lemma ctx_rel_sbc_nmos [pres]: "ctx_rel io c d \<Longrightarrow> ctx_rel io c (sbc_nmos_body t d)"
  unfolding sbc_nmos_body_def Let_def lo8_and_80 by (intro pres b2w_le and_80_cases)

lemma ctx_rel_adc_cmos [pres]: "ctx_rel io c d \<Longrightarrow> ctx_rel io c (adc_cmos_body t d)"
  unfolding adc_cmos_body_def Let_def split_def by (intro pres order_refl) (simp_all add: word_zero_le)

lemma ctx_rel_sbc_cmos [pres]: "ctx_rel io c d \<Longrightarrow> ctx_rel io c (sbc_cmos_body t d)"
  unfolding sbc_cmos_body_def Let_def split_def by (intro pres order_refl) (simp_all add: word_zero_le)

lemma extra_nmos_bodies [simp]:
  "extra_cycles (adc_nmos_body t d) = extra_cycles d"
  "extra_cycles (sbc_nmos_body t d) = extra_cycles d"
  by (simp_all add: adc_nmos_body_def sbc_nmos_body_def Let_def)

lemma extra_cmos_bodies [simp]:
  "extra_cycles (adc_cmos_body t d) =
     extra_cycles d + (if PS d AND AF_DECIMAL \<noteq> 0 then 1 else 0)"
  "extra_cycles (sbc_cmos_body t d) =
     extra_cycles d + (if PS d AND AF_DECIMAL \<noteq> 0 then 1 else 0)"
  by (simp_all add: adc_cmos_body_def sbc_cmos_body_def Let_def split_def)

subsection \<open>Addressing modes and register instructions\<close>

lemma ctx_rel_modes:
  "ctx_rel io c (addr_abs c)"
  "ctx_rel io c (addr_absx c)"
  "ctx_rel io c (addr_absy c)"
  "ctx_rel io c (addr_iabs_cmos c)"
  "ctx_rel io c (addr_iabs_nmos c)"
  "ctx_rel io c (addr_iabsx c)"
  "ctx_rel io c (addr_imm c)"
  "ctx_rel io c (addr_indx c)"
  "ctx_rel io c (addr_indy c)"
  "ctx_rel io c (addr_izpg c)"
  "ctx_rel io c (addr_rel c)"
  "ctx_rel io c (addr_zpg c)"
  "ctx_rel io c (addr_zpgx c)"
  "ctx_rel io c (addr_zpgy c)"
  by (unfold addr_defs Let_def split_def, (intro pres)+)

lemma extra_modes:
  assumes "extra_cycles c = 0"
  shows
  "extra_cycles (addr_abs c) \<le> 1"
  "extra_cycles (addr_absx c) \<le> 1"
  "extra_cycles (addr_absy c) \<le> 1"
  "extra_cycles (addr_iabs_cmos c) \<le> 1"
  "extra_cycles (addr_iabs_nmos c) \<le> 1"
  "extra_cycles (addr_iabsx c) \<le> 1"
  "extra_cycles (addr_imm c) \<le> 1"
  "extra_cycles (addr_indx c) \<le> 1"
  "extra_cycles (addr_indy c) \<le> 1"
  "extra_cycles (addr_izpg c) \<le> 1"
  "extra_cycles (addr_rel c) \<le> 1"
  "extra_cycles (addr_zpg c) \<le> 1"
  "extra_cycles (addr_zpgx c) \<le> 1"
  "extra_cycles (addr_zpgy c) \<le> 1"
  using assms by (simp_all add: addr_defs check_page_change_def Let_def split_def)

lemma addr_like_modes [pres]:
  "addr_like io addr_abs"
  "addr_like io addr_absx"
  "addr_like io addr_absy"
  "addr_like io addr_iabs_cmos"
  "addr_like io addr_iabs_nmos"
  "addr_like io addr_iabsx"
  "addr_like io addr_imm"
  "addr_like io addr_indx"
  "addr_like io addr_indy"
  "addr_like io addr_izpg"
  "addr_like io addr_rel"
  "addr_like io addr_zpg"
  "addr_like io addr_zpgx"
  "addr_like io addr_zpgy"
  by (rule addr_likeI, rule ctx_rel_modes, erule extra_modes)+

lemmas reg_op_defs =
  op_asla_def op_clc_def op_cld_def op_cli_def op_clv_def op_dea_def op_dex_def op_dey_def
  op_hlt_def op_ina_def op_inx_def op_iny_def op_jmp_def op_jsr_def op_lsra_def op_nop_def
  op_pha_def op_php_def op_phx_def op_phy_def op_pla_def op_plp_def op_plx_def op_ply_def
  op_rola_def op_rora_def op_rti_def op_rts_def op_sec_def op_sed_def op_sei_def op_tax_def
  op_tay_def op_tsx_def op_txa_def op_txs_def op_tya_def op_brk_def

lemmas io_op_defs =
  op_adc_cmos_def op_adc_nmos_def op_alr_def op_anc_def op_and_def op_arr_def op_asl_def
  op_aso_def op_axa_def op_axs_def op_bit_def op_biti_def op_cmp_def op_cpx_def op_cpy_def
  op_dcm_def op_dec_def op_eor_def op_inc_def op_ins_def op_las_def op_lax_def op_lda_def
  op_ldx_def op_ldy_def op_lse_def op_lsr_def op_oal_def op_ora_def op_rla_def op_rol_def
  op_ror_def op_rra_def op_sax_def op_say_def op_sbc_cmos_def op_sbc_nmos_def op_sta_def
  op_stx_def op_sty_def op_stz_def op_tas_def op_trb_def op_tsb_def op_xaa_def op_xas_def

lemma flagn_zero: "(0 :: u8) = 0 \<or> (0 :: u8) = 0x80"
  by simp

lemma flagn_if: "(if P then 0x80 else 0 :: u8) = 0 \<or> (if P then 0x80 else 0 :: u8) = 0x80"
  by simp

text \<open>The side conditions the flag updates leave.\<close>

lemmas flag_range = b2w_le and_1_le order_refl word_zero_le and_80_cases flagn_zero flagn_if

lemma ctx_rel_reg_ops:
  "ctx_rel io c (op_asla c)"
  "ctx_rel io c (op_clc c)"
  "ctx_rel io c (op_cld c)"
  "ctx_rel io c (op_cli c)"
  "ctx_rel io c (op_clv c)"
  "ctx_rel io c (op_dea c)"
  "ctx_rel io c (op_dex c)"
  "ctx_rel io c (op_dey c)"
  "ctx_rel io c (op_hlt c)"
  "ctx_rel io c (op_ina c)"
  "ctx_rel io c (op_inx c)"
  "ctx_rel io c (op_iny c)"
  "ctx_rel io c (op_jmp c)"
  "ctx_rel io c (op_jsr c)"
  "ctx_rel io c (op_lsra c)"
  "ctx_rel io c (op_nop c)"
  "ctx_rel io c (op_pha c)"
  "ctx_rel io c (op_php c)"
  "ctx_rel io c (op_phx c)"
  "ctx_rel io c (op_phy c)"
  "ctx_rel io c (op_pla c)"
  "ctx_rel io c (op_plp c)"
  "ctx_rel io c (op_plx c)"
  "ctx_rel io c (op_ply c)"
  "ctx_rel io c (op_rola c)"
  "ctx_rel io c (op_rora c)"
  "ctx_rel io c (op_rti c)"
  "ctx_rel io c (op_rts c)"
  "ctx_rel io c (op_sec c)"
  "ctx_rel io c (op_sed c)"
  "ctx_rel io c (op_sei c)"
  "ctx_rel io c (op_tax c)"
  "ctx_rel io c (op_tay c)"
  "ctx_rel io c (op_tsx c)"
  "ctx_rel io c (op_txa c)"
  "ctx_rel io c (op_txs c)"
  "ctx_rel io c (op_tya c)"
  "ctx_rel io c (op_brk cmos c)"
  by (unfold reg_op_defs Let_def split_def, (intro pres flag_range)+)

lemma extra_reg_ops:
  "extra_cycles (op_asla c) = extra_cycles c"
  "extra_cycles (op_clc c) = extra_cycles c"
  "extra_cycles (op_cld c) = extra_cycles c"
  "extra_cycles (op_cli c) = extra_cycles c"
  "extra_cycles (op_clv c) = extra_cycles c"
  "extra_cycles (op_dea c) = extra_cycles c"
  "extra_cycles (op_dex c) = extra_cycles c"
  "extra_cycles (op_dey c) = extra_cycles c"
  "extra_cycles (op_hlt c) = extra_cycles c"
  "extra_cycles (op_ina c) = extra_cycles c"
  "extra_cycles (op_inx c) = extra_cycles c"
  "extra_cycles (op_iny c) = extra_cycles c"
  "extra_cycles (op_jmp c) = extra_cycles c"
  "extra_cycles (op_jsr c) = extra_cycles c"
  "extra_cycles (op_lsra c) = extra_cycles c"
  "extra_cycles (op_nop c) = extra_cycles c"
  "extra_cycles (op_pha c) = extra_cycles c"
  "extra_cycles (op_php c) = extra_cycles c"
  "extra_cycles (op_phx c) = extra_cycles c"
  "extra_cycles (op_phy c) = extra_cycles c"
  "extra_cycles (op_pla c) = extra_cycles c"
  "extra_cycles (op_plp c) = extra_cycles c"
  "extra_cycles (op_plx c) = extra_cycles c"
  "extra_cycles (op_ply c) = extra_cycles c"
  "extra_cycles (op_rola c) = extra_cycles c"
  "extra_cycles (op_rora c) = extra_cycles c"
  "extra_cycles (op_rti c) = extra_cycles c"
  "extra_cycles (op_rts c) = extra_cycles c"
  "extra_cycles (op_sec c) = extra_cycles c"
  "extra_cycles (op_sed c) = extra_cycles c"
  "extra_cycles (op_sei c) = extra_cycles c"
  "extra_cycles (op_tax c) = extra_cycles c"
  "extra_cycles (op_tay c) = extra_cycles c"
  "extra_cycles (op_tsx c) = extra_cycles c"
  "extra_cycles (op_txa c) = extra_cycles c"
  "extra_cycles (op_txs c) = extra_cycles c"
  "extra_cycles (op_tya c) = extra_cycles c"
  "extra_cycles (op_brk cmos c) = extra_cycles c"
  by (simp_all add: reg_op_defs push_pc_def pop_pc_def Let_def split_def)

lemma op_like_regs [pres]:
  "op_like io op_asla"
  "op_like io op_clc"
  "op_like io op_cld"
  "op_like io op_cli"
  "op_like io op_clv"
  "op_like io op_dea"
  "op_like io op_dex"
  "op_like io op_dey"
  "op_like io op_hlt"
  "op_like io op_ina"
  "op_like io op_inx"
  "op_like io op_iny"
  "op_like io op_jmp"
  "op_like io op_jsr"
  "op_like io op_lsra"
  "op_like io op_nop"
  "op_like io op_pha"
  "op_like io op_php"
  "op_like io op_phx"
  "op_like io op_phy"
  "op_like io op_pla"
  "op_like io op_plp"
  "op_like io op_plx"
  "op_like io op_ply"
  "op_like io op_rola"
  "op_like io op_rora"
  "op_like io op_rti"
  "op_like io op_rts"
  "op_like io op_sec"
  "op_like io op_sed"
  "op_like io op_sei"
  "op_like io op_tax"
  "op_like io op_tay"
  "op_like io op_tsx"
  "op_like io op_txa"
  "op_like io op_txs"
  "op_like io op_tya"
  "op_like io (op_brk cmos)"
  by (rule op_likeI, rule ctx_rel_reg_ops, rule extra_reg_ops)+

lemma extra_branch: "extra_cycles (branch_taken c) \<le> 2"
  by (simp add: branch_taken_def Let_def)

lemma op_like_taken [pres]: "op_like io branch_taken"
  by (simp add: op_like_def extra_branch ctx_rel_branch)

lemma op_like_branch [pres]:
  fixes flag :: "'a cpu \<Rightarrow> u8"
  shows "op_like io (branch_if_clear flag)" "op_like io (branch_if_set flag)"
proof -
  have "extra_cycles c \<le> 1 \<Longrightarrow> extra_cycles c \<le> 2" for c :: "'a cpu"
    by (erule order_trans) simp
  then show "op_like io (branch_if_clear flag)" "op_like io (branch_if_set flag)"
    by (simp_all add: op_like_def branch_if_clear_def branch_if_set_def extra_branch ctx_rel_branch)
qed

context io_bus
begin

lemma ctx_rel_io: "ctx_rel io c (c\<lparr>mach := snd (io pc a w v (executed_cycles c) (mach c))\<rparr>)"
proof -
  have "access io (executed_cycles c) (bus_side (mach c))
      (bus_side (snd (io pc a w v (executed_cycles c) (mach c))))"
    unfolding access_def by blast
  then show ?thesis
    using io_rel [of "executed_cycles c" "mach c" pc a w v]
    by (auto simp: ctx_rel_def bus_rel_def ctx_ok_def)
qed

lemma ctx_rel_read [pres]: "ctx_rel io c d \<Longrightarrow> ctx_rel io c (snd (read_byte io a d))"
  unfolding read_byte_def Let_def split_def
  by (auto intro: ctx_rel_trans ctx_rel_io)

lemma ctx_rel_write [pres]:
  assumes "ctx_rel io c d"
  shows "ctx_rel io c (write_byte io a v d)"
proof -
  let ?d = "d\<lparr>mach := (mach d)\<lparr>memdirty := (memdirty (mach d))(page_of a := 0xFF)\<rparr>\<rparr>"
  have d: "ctx_rel io c ?d" by (intro pres assms)
  show ?thesis
  proof (cases "memwrite (mach d) (page_of a)")
    case (Some page)
    have "write_byte io a v d = mach_update (store_at page (unat (a AND 0xFF)) v) ?d"
      by (simp add: write_byte_def Some)
    then show ?thesis using d by (simp only: ctx_rel_store)
  next
    case None
    have "write_byte io a v d =
        (if is_io_addr a then ?d\<lparr>mach := snd (io (PC ?d) a 1 v (executed_cycles ?d) (mach ?d))\<rparr> else ?d)"
      by (simp add: write_byte_def None split_def)
    then show ?thesis using d ctx_rel_trans [OF d ctx_rel_io] by (simp only: split: if_split) blast
  qed
qed

lemma ctx_rel_fetch: "ctx_rel io c (snd (fetch_opcode io c))"
proof -
  let ?d = "if is_io_addr (PC c) then c\<lparr>mach := snd (io (PC c) (PC c) 0 0 (executed_cycles c) (mach c))\<rparr> else c"
  have "snd (fetch_opcode io c) = set_pc (PC ?d + 1) ?d"
    by (simp add: fetch_opcode_def Let_def split_def)
  then show ?thesis by (simp only:) (intro pres ctx_rel_io)
qed

lemma ctx_rel_store_masked [pres]: "ctx_rel io c d \<Longrightarrow> ctx_rel io c (store_masked io v d)"
  unfolding store_masked_def Let_def by (intro pres)

lemma ctx_rel_io_ops:
  "ctx_rel io c (op_adc_cmos io c)"
  "ctx_rel io c (op_adc_nmos io c)"
  "ctx_rel io c (op_alr io c)"
  "ctx_rel io c (op_anc io c)"
  "ctx_rel io c (op_and io c)"
  "ctx_rel io c (op_arr io c)"
  "ctx_rel io c (op_asl io c)"
  "ctx_rel io c (op_aso io c)"
  "ctx_rel io c (op_axa io c)"
  "ctx_rel io c (op_axs io c)"
  "ctx_rel io c (op_bit io c)"
  "ctx_rel io c (op_biti io c)"
  "ctx_rel io c (op_cmp io c)"
  "ctx_rel io c (op_cpx io c)"
  "ctx_rel io c (op_cpy io c)"
  "ctx_rel io c (op_dcm io c)"
  "ctx_rel io c (op_dec io c)"
  "ctx_rel io c (op_eor io c)"
  "ctx_rel io c (op_inc io c)"
  "ctx_rel io c (op_ins io c)"
  "ctx_rel io c (op_las io c)"
  "ctx_rel io c (op_lax io c)"
  "ctx_rel io c (op_lda io c)"
  "ctx_rel io c (op_ldx io c)"
  "ctx_rel io c (op_ldy io c)"
  "ctx_rel io c (op_lse io c)"
  "ctx_rel io c (op_lsr io c)"
  "ctx_rel io c (op_oal io c)"
  "ctx_rel io c (op_ora io c)"
  "ctx_rel io c (op_rla io c)"
  "ctx_rel io c (op_rol io c)"
  "ctx_rel io c (op_ror io c)"
  "ctx_rel io c (op_rra io c)"
  "ctx_rel io c (op_sax io c)"
  "ctx_rel io c (op_say io c)"
  "ctx_rel io c (op_sbc_cmos io c)"
  "ctx_rel io c (op_sbc_nmos io c)"
  "ctx_rel io c (op_sta io c)"
  "ctx_rel io c (op_stx io c)"
  "ctx_rel io c (op_sty io c)"
  "ctx_rel io c (op_stz io c)"
  "ctx_rel io c (op_tas io c)"
  "ctx_rel io c (op_trb io c)"
  "ctx_rel io c (op_tsb io c)"
  "ctx_rel io c (op_xaa io c)"
  "ctx_rel io c (op_xas io c)"
  by (unfold io_op_defs Let_def split_def, (intro pres flag_range)+)

lemma extra_io_ops:
  "extra_cycles (op_adc_nmos io c) = extra_cycles c"
  "extra_cycles (op_alr io c) = extra_cycles c"
  "extra_cycles (op_anc io c) = extra_cycles c"
  "extra_cycles (op_and io c) = extra_cycles c"
  "extra_cycles (op_arr io c) = extra_cycles c"
  "extra_cycles (op_asl io c) = extra_cycles c"
  "extra_cycles (op_aso io c) = extra_cycles c"
  "extra_cycles (op_axa io c) = extra_cycles c"
  "extra_cycles (op_axs io c) = extra_cycles c"
  "extra_cycles (op_bit io c) = extra_cycles c"
  "extra_cycles (op_biti io c) = extra_cycles c"
  "extra_cycles (op_cmp io c) = extra_cycles c"
  "extra_cycles (op_cpx io c) = extra_cycles c"
  "extra_cycles (op_cpy io c) = extra_cycles c"
  "extra_cycles (op_dcm io c) = extra_cycles c"
  "extra_cycles (op_dec io c) = extra_cycles c"
  "extra_cycles (op_eor io c) = extra_cycles c"
  "extra_cycles (op_inc io c) = extra_cycles c"
  "extra_cycles (op_ins io c) = extra_cycles c"
  "extra_cycles (op_las io c) = extra_cycles c"
  "extra_cycles (op_lax io c) = extra_cycles c"
  "extra_cycles (op_lda io c) = extra_cycles c"
  "extra_cycles (op_ldx io c) = extra_cycles c"
  "extra_cycles (op_ldy io c) = extra_cycles c"
  "extra_cycles (op_lse io c) = extra_cycles c"
  "extra_cycles (op_lsr io c) = extra_cycles c"
  "extra_cycles (op_oal io c) = extra_cycles c"
  "extra_cycles (op_ora io c) = extra_cycles c"
  "extra_cycles (op_rla io c) = extra_cycles c"
  "extra_cycles (op_rol io c) = extra_cycles c"
  "extra_cycles (op_ror io c) = extra_cycles c"
  "extra_cycles (op_rra io c) = extra_cycles c"
  "extra_cycles (op_sax io c) = extra_cycles c"
  "extra_cycles (op_say io c) = extra_cycles c"
  "extra_cycles (op_sbc_nmos io c) = extra_cycles c"
  "extra_cycles (op_sta io c) = extra_cycles c"
  "extra_cycles (op_stx io c) = extra_cycles c"
  "extra_cycles (op_sty io c) = extra_cycles c"
  "extra_cycles (op_stz io c) = extra_cycles c"
  "extra_cycles (op_tas io c) = extra_cycles c"
  "extra_cycles (op_trb io c) = extra_cycles c"
  "extra_cycles (op_tsb io c) = extra_cycles c"
  "extra_cycles (op_xaa io c) = extra_cycles c"
  "extra_cycles (op_xas io c) = extra_cycles c"
  by (simp_all add: io_op_defs store_masked_def Let_def split_def)

lemma op_like_io_ops [pres]:
  "op_like io (op_adc_nmos io)"
  "op_like io (op_alr io)"
  "op_like io (op_anc io)"
  "op_like io (op_and io)"
  "op_like io (op_arr io)"
  "op_like io (op_asl io)"
  "op_like io (op_aso io)"
  "op_like io (op_axa io)"
  "op_like io (op_axs io)"
  "op_like io (op_bit io)"
  "op_like io (op_biti io)"
  "op_like io (op_cmp io)"
  "op_like io (op_cpx io)"
  "op_like io (op_cpy io)"
  "op_like io (op_dcm io)"
  "op_like io (op_dec io)"
  "op_like io (op_eor io)"
  "op_like io (op_inc io)"
  "op_like io (op_ins io)"
  "op_like io (op_las io)"
  "op_like io (op_lax io)"
  "op_like io (op_lda io)"
  "op_like io (op_ldx io)"
  "op_like io (op_ldy io)"
  "op_like io (op_lse io)"
  "op_like io (op_lsr io)"
  "op_like io (op_oal io)"
  "op_like io (op_ora io)"
  "op_like io (op_rla io)"
  "op_like io (op_rol io)"
  "op_like io (op_ror io)"
  "op_like io (op_rra io)"
  "op_like io (op_sax io)"
  "op_like io (op_say io)"
  "op_like io (op_sbc_nmos io)"
  "op_like io (op_sta io)"
  "op_like io (op_stx io)"
  "op_like io (op_sty io)"
  "op_like io (op_stz io)"
  "op_like io (op_tas io)"
  "op_like io (op_trb io)"
  "op_like io (op_tsb io)"
  "op_like io (op_xaa io)"
  "op_like io (op_xas io)"
  by (rule op_likeI, rule ctx_rel_io_ops, rule extra_io_ops)+

lemma op_like_cmos_arith [pres]: "op_like io (op_adc_cmos io)" "op_like io (op_sbc_cmos io)"
proof -
  have le: "x \<le> 1 \<Longrightarrow> x + 1 \<le> 2 \<and> x \<le> 2" for x :: u16
    by unat_arith
  have "extra_cycles c \<le> 1 \<Longrightarrow> extra_cycles (op_adc_cmos io c) \<le> 2"
    and "extra_cycles c \<le> 1 \<Longrightarrow> extra_cycles (op_sbc_cmos io c) \<le> 2" for c
    using le by (simp_all add: op_adc_cmos_def op_sbc_cmos_def Let_def split_def)
  then show "op_like io (op_adc_cmos io)" "op_like io (op_sbc_cmos io)"
    by (auto simp: op_like_def ctx_rel_io_ops)
qed

lemmas desc_ok_rules = desc_ok_comp desc_ok_op desc_ok_addr op_like_io_ops op_like_cmos_arith
  op_like_regs op_like_taken op_like_branch addr_like_modes

lemma desc_ok_nmos_rows:
  "list_all (desc_ok io) (opcodes_nmos_0x io)"
  "list_all (desc_ok io) (opcodes_nmos_1x io)"
  "list_all (desc_ok io) (opcodes_nmos_2x io)"
  "list_all (desc_ok io) (opcodes_nmos_3x io)"
  "list_all (desc_ok io) (opcodes_nmos_4x io)"
  "list_all (desc_ok io) (opcodes_nmos_5x io)"
  "list_all (desc_ok io) (opcodes_nmos_6x io)"
  "list_all (desc_ok io) (opcodes_nmos_7x io)"
  "list_all (desc_ok io) (opcodes_nmos_8x io)"
  "list_all (desc_ok io) (opcodes_nmos_9x io)"
  "list_all (desc_ok io) (opcodes_nmos_Ax io)"
  "list_all (desc_ok io) (opcodes_nmos_Bx io)"
  "list_all (desc_ok io) (opcodes_nmos_Cx io)"
  "list_all (desc_ok io) (opcodes_nmos_Dx io)"
  "list_all (desc_ok io) (opcodes_nmos_Ex io)"
  "list_all (desc_ok io) (opcodes_nmos_Fx io)"
  by (simp_all add: nmos_rows desc_ok_rules)

lemma desc_ok_nmos: "list_all (desc_ok io) (opcodes_nmos io)"
  by (simp add: opcodes_nmos_def desc_ok_nmos_rows)

lemma desc_ok_cmos_rows:
  "list_all (desc_ok io) (opcodes_cmos_0x io)"
  "list_all (desc_ok io) (opcodes_cmos_1x io)"
  "list_all (desc_ok io) (opcodes_cmos_2x io)"
  "list_all (desc_ok io) (opcodes_cmos_3x io)"
  "list_all (desc_ok io) (opcodes_cmos_4x io)"
  "list_all (desc_ok io) (opcodes_cmos_5x io)"
  "list_all (desc_ok io) (opcodes_cmos_6x io)"
  "list_all (desc_ok io) (opcodes_cmos_7x io)"
  "list_all (desc_ok io) (opcodes_cmos_8x io)"
  "list_all (desc_ok io) (opcodes_cmos_9x io)"
  "list_all (desc_ok io) (opcodes_cmos_Ax io)"
  "list_all (desc_ok io) (opcodes_cmos_Bx io)"
  "list_all (desc_ok io) (opcodes_cmos_Cx io)"
  "list_all (desc_ok io) (opcodes_cmos_Dx io)"
  "list_all (desc_ok io) (opcodes_cmos_Ex io)"
  "list_all (desc_ok io) (opcodes_cmos_Fx io)"
  by (simp_all add: cmos_rows desc_ok_rules)

lemma desc_ok_cmos: "list_all (desc_ok io) (opcodes_cmos io)"
  by (simp add: opcodes_cmos_def desc_ok_cmos_rows)

end

end
