(* ===== verification/Cpu_Loop.thy ===== *)
theory Cpu_Loop
  imports Cpu_Invariant
begin

text \<open>
  The interpreter loop under a lawful bus: one turn keeps the invariant and spends between 2
  and 24 cycles, so the loop ends, and the cycle counters account for every cycle spent.
\<close>

subsection \<open>Time passing\<close>

definition time_rel :: "nat \<Rightarrow> 'a cpu \<Rightarrow> 'a cpu \<Rightarrow> bool" where
  "time_rel k c d \<longleftrightarrow>
     unat (executed_cycles d) = unat (executed_cycles c) + k \<and>
     in_slice (mach d) = in_slice (mach c) \<and>
     current_apple2_type (mach d) = current_apple2_type (mach c) \<and>
     cycles_limit (mach d) \<le> cycles_limit (mach c) \<and>
     (in_slice (mach c) \<or> cycles_limit (mach d) = cycles_limit (mach c)) \<and>
     (cycles_executed (mach c) \<le> executed_cycles c \<longrightarrow>
        cycles_executed (mach c) \<le> cycles_executed (mach d) \<and>
        cycles_executed (mach d) \<le> executed_cycles d \<and>
        cycle_origin (mach d) = cycle_origin (mach c)) \<and>
     (ctx_ok c \<longrightarrow> ctx_ok d)"

lemma time_rel_ctx: "ctx_rel io c d \<Longrightarrow> time_rel 0 c d"
  by (auto simp: time_rel_def ctx_rel_def)

lemma time_rel_trans:
  assumes "time_rel j c d" "time_rel k d e"
  shows "time_rel (j + k) c e"
  using assms unfolding time_rel_def by (auto intro: order_trans)

definition advance :: "u32 \<Rightarrow> 'a cpu \<Rightarrow> 'a cpu" where
  "advance n c = c\<lparr>executed_cycles := executed_cycles c + n\<rparr>"

lemma time_rel_advance:
  assumes "unat (executed_cycles c) + unat n < 2 ^ 32"
  shows "time_rel (unat n) c (advance n c)"
proof -
  have "unat (executed_cycles c + n) = unat (executed_cycles c) + unat n"
    using assms by (simp add: unat_add_lem [symmetric])
  then show ?thesis
    by (auto simp: time_rel_def advance_def ctx_ok_def word_le_nat_alt)
qed

subsection \<open>Interrupt entry\<close>

lemma interrupt_entry_rel:
  assumes "unat (executed_cycles c) + 7 < 2 ^ 32"
  shows "time_rel 7 c (interrupt_entry cmos vector c)"
proof -
  have d: "ctx_rel io c (let c = pack_ps (push_pc c); c = push (PS c AND NOT AF_BREAK) c;
      c = set_ps (PS c OR AF_INTERRUPT) c; c = (if cmos then set_ps (PS c AND NOT AF_DECIMAL) c else c)
      in set_pc (rd16 (mach c) vector) c)" (is "ctx_rel io c ?d")
    unfolding Let_def by (intro pres)
  have "interrupt_entry cmos vector c = advance 7 ?d"
    by (simp add: interrupt_entry_def advance_def Let_def)
  moreover have "unat (executed_cycles ?d) + unat (7 :: u32) < 2 ^ 32"
    using d assms by (simp add: ctx_rel_def)
  ultimately show ?thesis
    using time_rel_trans [OF time_rel_ctx [OF d] time_rel_advance [of ?d 7]] by simp
qed

lemma check_nmi_rel:
  assumes "unat (executed_cycles c) + 7 < 2 ^ 32"
  shows "\<exists>k \<le> 7. time_rel k c (check_nmi cmos c)"
proof -
  let ?d = "mach_update (nmi_flank_update (\<lambda>_. False)) c"
  have d: "time_rel 0 c ?d"
    by (auto simp: time_rel_def ctx_ok_def sp_in_page_one_def cycle_origin_def)
  have "time_rel 7 ?d (interrupt_entry cmos NMI_VECTOR_ADDR ?d)"
    by (rule interrupt_entry_rel) (use assms in simp)
  from time_rel_trans [OF d this] d show ?thesis
    by (cases "nmi_flank (mach c)") (auto simp: check_nmi_def Let_def)
qed

lemma check_irq_rel:
  assumes "unat (executed_cycles c) + 7 < 2 ^ 32"
  shows "\<exists>k \<le> 7. time_rel k c (check_irq cmos c)"
  using interrupt_entry_rel [OF assms, of cmos IRQ_VECTOR_ADDR] time_rel_ctx [OF ctx_rel_refl, of c]
  by (auto simp: check_irq_def)

lemma run_opcode_rel:
  assumes "desc_ok io d" and "unat (executed_cycles c) + 10 < 2 ^ 32"
  shows "\<exists>k. 2 \<le> k \<and> k \<le> 10 \<and> time_rel k c (run_opcode d c)"
proof -
  let ?c = "c\<lparr>extra_cycles := 0\<rparr>"
  let ?h = "handler d ?c"
  let ?n = "ucast (base_cycles d) + ucast (extra_cycles ?h) :: u32"
  from assms(1) have ok: "2 \<le> base_cycles d" "base_cycles d \<le> 8"
    and h: "ctx_rel io ?c ?h" and e: "extra_cycles ?h \<le> 2"
    by (auto simp: desc_ok_def)
  have u: "unat (ucast (base_cycles d) :: u32) = unat (base_cycles d)"
    "unat (ucast (extra_cycles ?h) :: u32) = unat (extra_cycles ?h)"
    by (simp_all add: unsigned_ucast_eq take_bit_nat_eq_self_iff
        order_less_trans [OF unat_u8_less] order_less_trans [OF unat_u16_less])
  have b: "2 \<le> unat (base_cycles d)" "unat (base_cycles d) \<le> 8" "unat (extra_cycles ?h) \<le> 2"
    using ok e by (simp_all add: word_le_nat_alt)
  have n: "unat ?n = unat (base_cycles d) + unat (extra_cycles ?h)"
    using b by (subst unat_add_lem [THEN iffD1]) (simp_all add: u)
  have c: "ctx_rel io c ?h"
    by (rule ctx_rel_trans [OF ctx_rel_extra [OF ctx_rel_refl] h])
  have "unat (executed_cycles ?h) + unat ?n < 2 ^ 32"
    using assms(2) b c by (simp add: n ctx_rel_def)
  then have "time_rel (unat ?n) c (advance ?n ?h)"
    using time_rel_trans [OF time_rel_ctx [OF c] time_rel_advance [of ?h ?n]] by simp
  moreover have "run_opcode d c = advance ?n ?h"
    by (simp add: run_opcode_def advance_def Let_def)
  ultimately show ?thesis
    using b by (intro exI [of _ "unat ?n"]) (simp add: n)
qed

subsection \<open>One turn of the loop\<close>

lemma time_rel_bound: "time_rel k c d \<Longrightarrow> unat (executed_cycles d) = unat (executed_cycles c) + k"
  by (simp add: time_rel_def)

context io_bus
begin

lemma desc_ok_table: "desc_ok io (opcode_table cmos io ! unat (opcode :: u8))"
proof -
  have "list_all (desc_ok io) (opcode_table cmos io)" "length (opcode_table cmos io) = 256"
    by (simp_all add: opcode_table_def desc_ok_nmos desc_ok_cmos)
  then show ?thesis by (simp add: list_all_length)
qed

lemma cpu_loop_body_rel:
  assumes "unat (executed_cycles c) + 24 < 2 ^ 32"
  shows "\<exists>k. 2 \<le> k \<and> k \<le> 24 \<and> time_rel k c (cpu_loop_body cmos io c)"
proof -
  obtain opc c1 where f: "fetch_opcode io c = (opc, c1)" by (cases "fetch_opcode io c")
  have t1: "time_rel 0 c c1"
    using ctx_rel_fetch [of c] time_rel_ctx by (simp add: f)
  let ?d = "opcode_table cmos io ! unat opc"
  obtain k where k: "2 \<le> k" "k \<le> 10" and t2: "time_rel k c1 (run_opcode ?d c1)"
    using run_opcode_rel [OF desc_ok_table, of c1] assms time_rel_bound [OF t1] by auto
  let ?c3 = "pack_ps (run_opcode ?d c1)"
  have t3: "time_rel k c ?c3"
    using time_rel_trans [OF time_rel_trans [OF t1 t2] time_rel_ctx [OF ctx_rel_pack_ps [OF ctx_rel_refl]]]
    by simp
  obtain j where j: "j \<le> 7" and t4: "time_rel j ?c3 (check_nmi cmos ?c3)"
    using check_nmi_rel [of ?c3] assms k time_rel_bound [OF t3] by auto
  have t5: "time_rel (k + j) c (check_nmi cmos ?c3)"
    by (rule time_rel_trans [OF t3 t4])
  obtain i where i: "i \<le> 7"
    and t6: "time_rel i (check_nmi cmos ?c3) (check_irq cmos (check_nmi cmos ?c3))"
    using check_irq_rel [of "check_nmi cmos ?c3"] assms k j time_rel_bound [OF t5] by auto
  have "cpu_loop_body cmos io c = check_irq cmos (check_nmi cmos ?c3)"
    by (simp add: cpu_loop_body_def f)
  with time_rel_trans [OF t5 t6] i j k show ?thesis by (intro exI [of _ "k + j + i"]) simp
qed

text \<open>
  Every access of a turn happens at the cycle count the turn began with: the interrupt entry
  reads its vector and pushes without touching the I/O area.
\<close>

lemma private_interrupts [simp]:
  "bus_side (mach (pack_ps c)) = bus_side (mach c)"
  "bus_side (mach (push b c)) = bus_side (mach c)"
  "bus_side (mach (push_pc c)) = bus_side (mach c)"
  "bus_side (mach (interrupt_entry cmos vector c)) = bus_side (mach c)"
  "bus_side (mach (check_nmi cmos c)) = bus_side (mach c)"
  "bus_side (mach (check_irq cmos c)) = bus_side (mach c)"
  by (simp_all add: pack_ps_def push_def push_pc_def interrupt_entry_def check_nmi_def
      check_irq_def Let_def)

lemma cpu_loop_body_accesses:
  "(access io (executed_cycles c))\<^sup>*\<^sup>* (bus_side (mach c)) (bus_side (mach (cpu_loop_body cmos io c)))"
proof -
  obtain opc c1 where f: "fetch_opcode io c = (opc, c1)" by (cases "fetch_opcode io c")
  have t1: "ctx_rel io c c1" using ctx_rel_fetch [of c] by (simp add: f)
  let ?d = "opcode_table cmos io ! unat opc" and ?c1 = "c1\<lparr>extra_cycles := 0\<rparr>"
  have h: "ctx_rel io ?c1 (handler ?d ?c1)"
    using desc_ok_table by (auto simp: desc_ok_def)
  have "bus_side (mach (cpu_loop_body cmos io c)) = bus_side (mach (handler ?d ?c1))"
    by (simp add: cpu_loop_body_def f run_opcode_def Let_def)
  moreover have "ctx_rel io c (handler ?d ?c1)"
    by (rule ctx_rel_trans [OF ctx_rel_trans [OF t1 ctx_rel_extra [OF ctx_rel_refl]] h])
  ultimately show ?thesis by (simp add: ctx_rel_def)
qed

subsection \<open>The loop ends\<close>

lemma cpu_loop_ends:
  assumes "unat (executed_cycles c) + 24 < 2 ^ 32" "unat (cycles_limit (mach c)) + 24 < 2 ^ 32"
  shows "\<exists>d k. cpu_loop cmos io c = Some d \<and> time_rel k c d \<and> 2 \<le> k \<and>
    cycles_limit (mach d) \<le> executed_cycles d \<and>
    unat (executed_cycles d) \<le> max (unat (executed_cycles c)) (unat (cycles_limit (mach c)) - 1) + 24"
  using assms
proof (induction "unat (cycles_limit (mach c)) - unat (executed_cycles c)" arbitrary: c rule: less_induct)
  case less
  obtain k where k: "2 \<le> k" "k \<le> 24" and t: "time_rel k c (cpu_loop_body cmos io c)" (is "time_rel k c ?d")
    using cpu_loop_body_rel [OF less.prems(1)] by blast
  have e: "unat (executed_cycles ?d) = unat (executed_cycles c) + k"
    and l: "unat (cycles_limit (mach ?d)) \<le> unat (cycles_limit (mach c))"
    using t by (auto simp: time_rel_def word_le_nat_alt)
  show ?case
  proof (cases "executed_cycles ?d < cycles_limit (mach ?d)")
    case True
    then have lt: "unat (executed_cycles ?d) < unat (cycles_limit (mach ?d))"
      by (simp add: word_less_nat_alt)
    obtain d j where d: "cpu_loop cmos io ?d = Some d" "time_rel j ?d d" "2 \<le> j"
      "cycles_limit (mach d) \<le> executed_cycles d"
      "unat (executed_cycles d) \<le> max (unat (executed_cycles ?d)) (unat (cycles_limit (mach ?d)) - 1) + 24"
      using less.hyps [of ?d] lt e l k less.prems by force
    have "cpu_loop cmos io c = Some d"
      using d(1) True by (subst cpu_loop.simps) (simp add: Let_def)
    moreover have "time_rel (k + j) c d" by (rule time_rel_trans [OF t d(2)])
    moreover have "unat (executed_cycles d) \<le> max (unat (executed_cycles c)) (unat (cycles_limit (mach c)) - 1) + 24"
      using d(5) lt l by simp
    ultimately show ?thesis using d(4) k by (intro exI [of _ d] exI [of _ "k + j"]) simp
  next
    case False
    then have "cpu_loop cmos io c = Some ?d"
      by (subst cpu_loop.simps) (simp add: Let_def)
    with t k e False show ?thesis
      by (intro exI [of _ ?d] exI [of _ k]) (simp add: not_less)
  qed
qed

subsection \<open>What the loop keeps\<close>

text \<open>
  A predicate on the bus side, indexed by the cycle count of the running turn, that every access
  keeps and that survives the start of another turn: it holds at the end for the count the last
  turn began with.
\<close>

lemma cpu_loop_keeps:
  assumes "unat (executed_cycles c) + 24 < 2 ^ 32" "unat (cycles_limit (mach c)) + 24 < 2 ^ 32"
    and "cpu_loop cmos io c = Some d" "P (executed_cycles c) (mach c)"
    and side: "\<And>t m m'. bus_side m = bus_side m' \<Longrightarrow> P t m = P t m'"
    and keep: "\<And>t pc a w v m. P t m \<Longrightarrow> P t (snd (io pc a w v t m))"
    and turn: "\<And>t t' m. P t m \<Longrightarrow> t \<le> t' \<Longrightarrow> t' < cycles_limit m \<Longrightarrow> P t' m"
  shows "\<exists>t \<le> executed_cycles d. unat (executed_cycles d) \<le> unat t + 24 \<and> P t (mach d)"
  using assms(1-4)
proof (induction "unat (cycles_limit (mach c)) - unat (executed_cycles c)" arbitrary: c rule: less_induct)
  case less
  let ?d = "cpu_loop_body cmos io c"
  obtain k where k: "2 \<le> k" "k \<le> 24" and t: "time_rel k c ?d"
    using cpu_loop_body_rel [OF less.prems(1)] by blast
  have e: "unat (executed_cycles ?d) = unat (executed_cycles c) + k"
    and l: "unat (cycles_limit (mach ?d)) \<le> unat (cycles_limit (mach c))"
    using t by (auto simp: time_rel_def word_le_nat_alt)
  have p: "P (executed_cycles c) (mach ?d)"
    by (rule accesses_keep [OF cpu_loop_body_accesses, where P = "P (executed_cycles c)",
          OF side keep less.prems(4)])
  show ?case
  proof (cases "executed_cycles ?d < cycles_limit (mach ?d)")
    case True
    then have lt: "unat (executed_cycles ?d) < unat (cycles_limit (mach ?d))"
      by (simp add: word_less_nat_alt)
    have "cpu_loop cmos io ?d = Some d"
      using less.prems(3) True by (subst (asm) cpu_loop.simps) (simp add: Let_def)
    moreover have "P (executed_cycles ?d) (mach ?d)"
      by (rule turn [OF p _ True]) (use e in \<open>simp add: word_le_nat_alt\<close>)
    ultimately show ?thesis
      using less.hyps [of ?d] lt e l k less.prems(1,2) by force
  next
    case False
    then have "d = ?d"
      using less.prems(3) by (subst (asm) cpu_loop.simps) (simp add: Let_def)
    with p e k show ?thesis
      by (intro exI [of _ "executed_cycles c"]) (simp add: word_le_nat_alt)
  qed
qed

end

end
