(* ===== verification/Cpu_Api.thy ===== *)
theory Cpu_Api
  imports Cpu_Loop
begin

text \<open>
  The interface functions of the processor under a lawful bus: a call returns, the cycle
  counters account for every cycle, slices of a frame add up, and the stack pointer never leaves
  page one.
\<close>

lemma u32_split:
  assumes "e \<le> (x :: u32)"
  shows "ucast e + ucast (x - e) = (ucast x :: u64)"
proof -
  have "uint (x - e) = uint x - uint e"
    using assms by (simp add: uint_minus_simple_alt [symmetric])
  then have "uint e + uint (x - e) = uint x" by simp
  then have "(word_of_int (uint e) :: u64) + word_of_int (uint (x - e)) = word_of_int (uint x)"
    by (metis of_int_add)
  then show ?thesis by (simp only: ucast_eq)
qed

lemma cycles_limit_decreases: "cycles_limit (cpu_limit_cycles t m) \<le> cycles_limit m"
proof -
  have "(ucast b :: u32) \<le> l" if "b < ucast l" for b :: u64 and l :: u32
  proof -
    have "unat (ucast b :: u32) \<le> unat b"
      by (simp add: unsigned_ucast_eq take_bit_nat_less_eq_self)
    also have "\<dots> < unat (ucast l :: u64)" using that by (simp add: word_less_nat_alt)
    also have "\<dots> \<le> unat l"
      by (simp add: unsigned_ucast_eq take_bit_nat_less_eq_self)
    finally show ?thesis by (simp add: word_le_nat_alt)
  qed
  then show ?thesis by (simp add: cpu_limit_cycles_def Let_def)
qed

lemma loop_context_simps [simp]:
  "executed_cycles (loop_context start m) = start"
  "mach (loop_context start m) = m"
  by (simp_all add: loop_context_def unpack_ps_def)

lemma loop_context_ok: "ctx_ok (loop_context start m) \<longleftrightarrow> sp_in_page_one m"
proof -
  have "reg_ps (regs m) AND 1 \<le> 1" by (rule word_and_le1)
  then show ?thesis
    using and_80_cases [of "reg_ps (regs m)"] by (auto simp: ctx_ok_def loop_context_def unpack_ps_def)
qed

lemma cpu_limit_cycles_frame:
  "cycles_executed (cpu_limit_cycles t m) = cycles_executed m"
  "cumulative_cycles (cpu_limit_cycles t m) = cumulative_cycles m"
  "regs (cpu_limit_cycles t m) = regs m"
  "in_slice (cpu_limit_cycles t m) = in_slice m"
  "current_apple2_type (cpu_limit_cycles t m) = current_apple2_type m"
  by (simp_all add: cpu_limit_cycles_def Let_def)

text \<open>What a run of the loop guarantees, in terms of the globals before and after.\<close>

definition run_rel :: "u32 \<Rightarrow> 'a machine_scheme \<Rightarrow> u32 \<Rightarrow> 'a machine_scheme \<Rightarrow> bool" where
  "run_rel start m e m' \<longleftrightarrow>
     unat start + 2 \<le> unat e \<and>
     unat e \<le> max (unat start) (unat (cycles_limit m) - 1) + 24 \<and>
     cycles_limit m' \<le> e \<and> in_slice m' = in_slice m \<and>
     cycles_limit m' \<le> cycles_limit m \<and> (in_slice m \<or> cycles_limit m' = cycles_limit m) \<and>
     current_apple2_type m' = current_apple2_type m \<and>
     (cycles_executed m \<le> start \<longrightarrow>
        cycles_executed m' \<le> e \<and> cycle_origin m' = cycle_origin m) \<and>
     (sp_in_page_one m \<longrightarrow> sp_in_page_one m')"

context io_bus
begin

lemma internal_cpu_execute_run:
  assumes "unat start + 24 < 2 ^ 32" "unat (cycles_limit m) + 24 < 2 ^ 32"
  shows "\<exists>e m'. internal_cpu_execute io start m = Some (e, m') \<and> run_rel start m e m'"
proof -
  let ?c = "loop_context start m"
  obtain d k where d: "cpu_loop (uses_cmos m) io ?c = Some d" "time_rel k ?c d" "2 \<le> k"
    "cycles_limit (mach d) \<le> executed_cycles d"
    "unat (executed_cycles d) \<le> max (unat start) (unat (cycles_limit m) - 1) + 24"
    using cpu_loop_ends [of ?c "uses_cmos m"] assms by auto
  have "internal_cpu_execute io start m = Some (executed_cycles d, mach d)"
    by (simp add: internal_cpu_execute_def cpu_execute_loop_def d)
  moreover have "ctx_ok d \<Longrightarrow> sp_in_page_one (mach d)" by (simp add: ctx_ok_def)
  then have "run_rel start m (executed_cycles d) (mach d)"
    using d(2-5) loop_context_ok [of start m] by (auto simp: run_rel_def time_rel_def)
  ultimately show ?thesis by blast
qed

lemma cpu_execute_run:
  assumes "\<not> in_slice m" "unat frame + 24 < 2 ^ 32"
  shows "\<exists>e m'. cpu_execute io frame m = Some (e, m') \<and>
    unat frame \<le> unat e \<and> 2 \<le> unat e \<and> unat e \<le> unat frame - 1 + 24 \<and>
    cumulative_cycles m' = cumulative_cycles m + ucast e \<and>
    (sp_in_page_one m \<longrightarrow> sp_in_page_one m')"
proof -
  let ?m = "m\<lparr>cycles_submitted := frame, cycles_executed := 0, cycles_limit := frame\<rparr>"
  obtain e m' where e: "internal_cpu_execute io 0 ?m = Some (e, m')" and r: "run_rel 0 ?m e m'"
    using internal_cpu_execute_run [of 0 ?m] assms by auto
  let ?m' = "m'\<lparr>cumulative_cycles := cumulative_cycles m' + ucast (e - cycles_executed m')\<rparr>"
  have x: "cpu_execute io frame m = Some (e, ?m')"
    by (simp add: cpu_execute_def Let_def e)
  have le: "cycles_executed m' \<le> e" and o: "cycle_origin m' = cumulative_cycles m"
    using r by (auto simp: run_rel_def cycle_origin_def)
  have "cumulative_cycles ?m' = cumulative_cycles m + ucast e"
    using u32_split [OF le] o by (simp add: cycle_origin_def algebra_simps)
  moreover have "unat frame \<le> unat e" "2 \<le> unat e" "unat e \<le> unat frame - 1 + 24"
    using r assms(1) by (auto simp: run_rel_def word_le_nat_alt)
  moreover have "sp_in_page_one m \<longrightarrow> sp_in_page_one ?m'"
    using r by (simp add: run_rel_def sp_in_page_one_def)
  ultimately show ?thesis by (intro exI [of _ e] exI [of _ ?m']) (simp add: x)
qed

lemma cpu_execute_slice_run:
  assumes "unat (cycles_executed m) + 24 < 2 ^ 32" "unat frame + 24 < 2 ^ 32"
  shows "\<exists>e m'. cpu_execute_slice io frame until m = Some (e, m') \<and>
    cycles_executed m' = e \<and> unat (cycles_executed m) + 2 \<le> unat e \<and>
    unat e \<le> max (unat (cycles_executed m)) (unat frame - 1) + 24 \<and>
    cycle_origin m' = cycle_origin m \<and> \<not> in_slice m' \<and>
    (sp_in_page_one m \<longrightarrow> sp_in_page_one m')"
proof -
  let ?m = "cpu_limit_cycles until (m\<lparr>in_slice := True, cycles_limit := frame\<rparr>)"
  have lim: "unat (cycles_limit ?m) \<le> unat frame"
    using cycles_limit_decreases [of until "m\<lparr>in_slice := True, cycles_limit := frame\<rparr>"]
    by (simp add: word_le_nat_alt)
  obtain e m' where e: "internal_cpu_execute io (cycles_executed ?m) ?m = Some (e, m')"
    and r: "run_rel (cycles_executed ?m) ?m e m'"
    using internal_cpu_execute_run [of "cycles_executed ?m" ?m] assms lim
    by (auto simp: cpu_limit_cycles_frame)
  let ?m' = "m'\<lparr>cumulative_cycles := cumulative_cycles m' + ucast (e - cycles_executed m'),
    cycles_executed := e, in_slice := False\<rparr>"
  have x: "cpu_execute_slice io frame until m = Some (e, ?m')"
    using e by (simp add: cpu_execute_slice_def Let_def)
  have le: "cycles_executed m' \<le> e" and o: "cycle_origin m' = cycle_origin m"
    using r by (auto simp: run_rel_def cycle_origin_def cpu_limit_cycles_frame)
  have "cycle_origin ?m' = cycle_origin m"
    using o by (simp add: cycle_origin_def u32_split [OF le, symmetric])
  moreover have "unat (cycles_executed m) + 2 \<le> unat e"
    "unat e \<le> max (unat (cycles_executed m)) (unat frame - 1) + 24"
    using r lim by (auto simp: run_rel_def cpu_limit_cycles_frame)
  moreover have "sp_in_page_one m \<longrightarrow> sp_in_page_one ?m'"
    using r by (simp add: run_rel_def sp_in_page_one_def cpu_limit_cycles_frame)
  ultimately show ?thesis by (intro exI [of _ e] exI [of _ ?m']) (simp add: x)
qed

end

end
