(* ===== verification/Cpu_Flow.thy ===== *)
theory Cpu_Flow
  imports Cpu_Api
begin

text \<open>
  Control flow: the stack of page one, subroutine call and return, interrupt entry and return.
\<close>

subsection \<open>The stack\<close>

definition sp_down :: "u16 \<Rightarrow> u16" where
  "sp_down s = (if s - 1 < STACK_BEGIN then STACK_END else s - 1)"

definition sp_up :: "u16 \<Rightarrow> u16" where
  "sp_up s = (if s \<ge> STACK_END then STACK_BEGIN else s + 1)"

lemma push_eq: "push v c = set_sp (sp_down (SP c)) (mach_update (store_at (MemImage, 0) (unat (SP c)) v) c)"
  by (simp add: push_def sp_down_def Let_def)

lemma pop_eq: "pop c = (rd (mach c) (unat (sp_up (SP c))), set_sp (sp_up (SP c)) c)"
  by (simp add: pop_def sp_up_def Let_def)

lemma page_one_unat: "sp_in_page_one m \<longleftrightarrow> 256 \<le> unat (reg_sp (regs m)) \<and> unat (reg_sp (regs m)) \<le> 511"
  by (simp add: sp_in_page_one_def word_le_nat_alt)

lemma unat_sp_down:
  assumes "256 \<le> unat s" "unat s \<le> 511"
  shows "unat (sp_down s) = (if unat s = 256 then 511 else unat s - 1)"
proof -
  have "unat (s - 1) = unat s - 1"
    using assms(1) by (subst unat_sub) (auto simp: word_le_nat_alt)
  then show ?thesis using assms by (auto simp: sp_down_def word_less_nat_alt)
qed

lemma unat_sp_up:
  assumes "256 \<le> unat s" "unat s \<le> 511"
  shows "unat (sp_up s) = (if unat s = 511 then 256 else unat s + 1)"
proof -
  have "unat (s + 1) = unat s + 1"
    using assms(2) by (subst unat_add_lem [THEN iffD1]) auto
  then show ?thesis using assms by (auto simp: sp_up_def word_le_nat_alt)
qed

lemma sp_up_down:
  assumes "256 \<le> unat s" "unat s \<le> 511"
  shows "sp_up (sp_down s) = s"
  using assms unat_sp_down [OF assms] unat_sp_up [of "sp_down s"]
  by (auto simp: word_unat_eq_iff split: if_splits)

lemma sp_ring:
  assumes "256 \<le> unat s" "unat s \<le> 511"
  shows "256 \<le> unat (sp_down s)" "unat (sp_down s) \<le> 511"
    "unat (sp_down s) \<noteq> unat s" "unat (sp_down (sp_down s)) \<noteq> unat s"
    "unat (sp_down (sp_down s)) \<noteq> unat (sp_down s)"
    "256 \<le> unat (sp_down (sp_down s))" "unat (sp_down (sp_down s)) \<le> 511"
  using assms unat_sp_down [OF assms] unat_sp_down [of "sp_down s"]
  by (auto split: if_splits)

lemma pop_push:
  assumes "sp_in_page_one (mach c)"
  shows "pop (push v c) = (v, mach_update (store_at (MemImage, 0) (unat (SP c)) v) c)"
proof -
  have "sp_up (sp_down (SP c)) = SP c"
    using assms by (simp add: page_one_unat sp_up_down)
  then show ?thesis by (simp add: pop_eq push_eq heap_store_at)
qed

subsection \<open>Subroutines\<close>

lemma join_bytes: "w16 (lo8 v) OR push_bit 8 (w16 (lo8 (drop_bit 8 v))) = v"
  by (rule u16_split_bytes)

lemma pop_pc_fields:
  "PC (pop_pc c) = w16 (rd (mach c) (unat (sp_up (SP c))))
     OR push_bit 8 (w16 (rd (mach c) (unat (sp_up (sp_up (SP c))))))"
  "SP (pop_pc c) = sp_up (sp_up (SP c))"
  "A (pop_pc c) = A c" "X (pop_pc c) = X c" "Y (pop_pc c) = Y c" "PS (pop_pc c) = PS c"
  "flagc (pop_pc c) = flagc c" "flagn (pop_pc c) = flagn c"
  "flagv (pop_pc c) = flagv c" "flagz (pop_pc c) = flagz c"
  "heap (mach (pop_pc c)) = heap (mach c)"
  by (simp_all add: pop_pc_def pop_eq Let_def)

lemma push_pc_fields:
  "SP (push_pc c) = sp_down (sp_down (SP c))"
  "PC (push_pc c) = PC c" "A (push_pc c) = A c" "X (push_pc c) = X c" "Y (push_pc c) = Y c"
  "PS (push_pc c) = PS c"
  "flagc (push_pc c) = flagc c" "flagn (push_pc c) = flagn c"
  "flagv (push_pc c) = flagv c" "flagz (push_pc c) = flagz c" "c_addr (push_pc c) = c_addr c"
  "heap (mach (push_pc c)) r i =
     (if r = MemImage \<and> i = unat (sp_down (SP c)) then lo8 (PC c)
      else if r = MemImage \<and> i = unat (SP c) then lo8 (drop_bit 8 (PC c))
      else heap (mach c) r i)"
  by (simp_all add: push_pc_def push_eq Let_def heap_store_at)

text \<open>
  C10. A subroutine that leaves the stack pointer and the two cells of its return address as
  \<open>JSR\<close> left them returns to the instruction after the call with the caller's stack
  pointer, wherever in page one the stack is, the wrap from 0x100 to 0x1FF included.
\<close>

theorem rts_returns_after_jsr:
  assumes "sp_in_page_one (mach c)"
    and "SP d = SP (op_jsr c)"
    and "rd (mach d) (unat (SP c)) = rd (mach (op_jsr c)) (unat (SP c))"
    and "rd (mach d) (unat (sp_down (SP c))) = rd (mach (op_jsr c)) (unat (sp_down (SP c)))"
  shows "PC (op_jsr c) = c_addr c \<and> PC (op_rts d) = PC c \<and> SP (op_rts d) = SP c"
proof -
  have b: "256 \<le> unat (SP c)" "unat (SP c) \<le> 511"
    using assms(1) by (simp_all add: page_one_unat)
  show ?thesis
    using assms(2-4) sp_ring(3) [OF b]
    by (simp add: op_jsr_def op_rts_def Let_def pop_pc_fields push_pc_fields
        sp_up_down [OF b] sp_up_down [OF sp_ring(1,2) [OF b]] u16_split_bytes)
qed

lemma rts_returns_after_jsr_witness:
  "PC (op_rts (op_inx (op_jsr blank_cpu))) = 0x0803 \<and> SP (op_rts (op_inx (op_jsr blank_cpu))) = 0x100"
proof -
  have "SP (op_inx c) = SP c" "heap (mach (op_inx c)) = heap (mach c)" for c :: "unit cpu"
    by (simp_all add: op_inx_def set_nz_def Let_def)
  then show ?thesis
    using rts_returns_after_jsr [of blank_cpu "op_inx (op_jsr blank_cpu)"]
    by (simp add: sp_in_page_one_def blank_defs)
qed

subsection \<open>Interrupts\<close>

lemma unpack_fields:
  "mach (unpack_ps c) = mach c" "flagc (unpack_ps c) = PS c AND AF_CARRY"
  "flagn (unpack_ps c) = PS c AND AF_SIGN" "flagv (unpack_ps c) = PS c AND AF_OVERFLOW"
  "flagz (unpack_ps c) = PS c AND AF_ZERO"
  by (simp_all add: unpack_ps_def)

lemma packed_ps_fixed: "packed_ps c AND 0x30 = 0x30"
  by (simp add: u8_eq_bits word_bits packed_ps_def)

lemma packed_ps_unbreak:
  "(packed_ps c AND NOT AF_BREAK) OR AF_RESERVED OR AF_BREAK = packed_ps c"
  by (simp add: u8_eq_bits word_bits packed_ps_def)

lemma interrupt_entry_fields:
  "SP (interrupt_entry cmos v c) = sp_down (sp_down (sp_down (SP c)))"
  "PS (interrupt_entry cmos v c) =
     (if cmos then (packed_ps c OR AF_INTERRUPT) AND NOT AF_DECIMAL
      else packed_ps c OR AF_INTERRUPT)"
  "PC (interrupt_entry cmos v c) =
     read_u16_le (heap (mach (interrupt_entry cmos v c)) MemImage) v"
  "heap (mach (interrupt_entry cmos v c)) r i =
     (if r = MemImage \<and> i = unat (sp_down (sp_down (SP c))) then packed_ps c AND NOT AF_BREAK
      else if r = MemImage \<and> i = unat (sp_down (SP c)) then lo8 (PC c)
      else if r = MemImage \<and> i = unat (SP c) then lo8 (drop_bit 8 (PC c))
      else heap (mach c) r i)"
  by (simp_all add: interrupt_entry_def pack_ps_def push_eq push_pc_fields packed_ps_def Let_def
      heap_store_at)

lemma rti_fields:
  "PC (op_rti d) = w16 (rd (mach d) (unat (sp_up (sp_up (SP d)))))
     OR push_bit 8 (w16 (rd (mach d) (unat (sp_up (sp_up (sp_up (SP d)))))))"
  "SP (op_rti d) = sp_up (sp_up (sp_up (SP d)))"
  "PS (op_rti d) = rd (mach d) (unat (sp_up (SP d))) OR AF_RESERVED OR AF_BREAK"
  "flagc (op_rti d) = PS (op_rti d) AND AF_CARRY"
  "flagn (op_rti d) = PS (op_rti d) AND AF_SIGN"
  "flagv (op_rti d) = PS (op_rti d) AND AF_OVERFLOW"
  "flagz (op_rti d) = PS (op_rti d) AND AF_ZERO"
  by (simp_all add: op_rti_def pop_eq Let_def pop_pc_fields unpack_fields)

lemma packed_carry:
  assumes "ctx_ok c"
  shows "packed_ps c AND AF_CARRY = flagc c" "packed_ps c AND AF_SIGN = flagn c"
proof -
  have "flagc c = 0 \<or> flagc c = 1"
    using assms by (auto simp: ctx_ok_def word_le_nat_alt word_unat_eq_iff)
  moreover have "flagn c = 0 \<or> flagn c = 0x80"
    using assms by (simp add: ctx_ok_def)
  ultimately show "packed_ps c AND AF_CARRY = flagc c" "packed_ps c AND AF_SIGN = flagn c"
    by (elim disjE; simp add: packed_ps_def u8_eq_bits word_bits)+
qed

lemma packed_overflow_zero:
  assumes "ctx_ok c"
  shows "packed_ps c AND AF_OVERFLOW = 0 \<longleftrightarrow> flagv c = 0" "packed_ps c AND AF_ZERO = 0 \<longleftrightarrow> flagz c = 0"
proof -
  have "flagc c = 0 \<or> flagc c = 1"
    using assms by (auto simp: ctx_ok_def word_le_nat_alt word_unat_eq_iff)
  moreover have "flagn c = 0 \<or> flagn c = 0x80"
    using assms by (simp add: ctx_ok_def)
  moreover have "(v AND 0x40 = 0) = (\<not> bit v 6)" "(v AND 2 = 0) = (\<not> bit v 1)" for v :: u8
    by (simp_all add: u8_eq_bits word_bits)
  ultimately show "packed_ps c AND AF_OVERFLOW = 0 \<longleftrightarrow> flagv c = 0"
      "packed_ps c AND AF_ZERO = 0 \<longleftrightarrow> flagz c = 0"
    by (elim disjE; simp add: packed_ps_def word_bits)+
qed

text \<open>
  C9. An interrupt is transparent.  Whatever the handler does, if it hands back the stack
  pointer and the three cells the interrupt entry pushed, \<open>RTI\<close> resumes at the
  interrupted instruction with the same stack pointer and all processor flags as they were,
  decimal and interrupt-disable included, although the entry cleared or set them.
\<close>

theorem rti_resumes_interrupted:
  assumes "ctx_ok c"
    and "SP d = SP (interrupt_entry cmos vector c)"
    and "\<And>i. i \<in> {unat (SP c), unat (sp_down (SP c)), unat (sp_down (sp_down (SP c)))} \<Longrightarrow>
           rd (mach d) i = rd (mach (interrupt_entry cmos vector c)) i"
  shows "PC (op_rti d) = PC c \<and> SP (op_rti d) = SP c \<and> PS (op_rti d) = packed_ps c \<and>
    flagc (op_rti d) = flagc c \<and> flagn (op_rti d) = flagn c \<and>
    (flagv (op_rti d) = 0 \<longleftrightarrow> flagv c = 0) \<and> (flagz (op_rti d) = 0 \<longleftrightarrow> flagz c = 0)"
proof -
  have b: "256 \<le> unat (SP c)" "unat (SP c) \<le> 511"
    using assms(1) by (simp_all add: ctx_ok_def page_one_unat)
  note r = sp_ring [OF b]
  have up: "sp_up (SP d) = sp_down (sp_down (SP c))" "sp_up (sp_down (sp_down (SP c))) = sp_down (SP c)"
      "sp_up (sp_down (SP c)) = SP c"
    using assms(2) by (simp_all add: interrupt_entry_fields sp_up_down [OF b]
        sp_up_down [OF r(1,2)] sp_up_down [OF r(6,7)])
  have cells: "rd (mach d) (unat (SP c)) = lo8 (drop_bit 8 (PC c))"
      "rd (mach d) (unat (sp_down (SP c))) = lo8 (PC c)"
      "rd (mach d) (unat (sp_down (sp_down (SP c)))) = packed_ps c AND NOT AF_BREAK"
    using r(3-5) by (simp_all add: assms(3) interrupt_entry_fields)
  have "PS (op_rti d) = packed_ps c"
    unfolding rti_fields up cells by (rule packed_ps_unbreak)
  then show ?thesis
    by (simp add: rti_fields(1,2,4-7) up cells u16_split_bytes packed_carry [OF assms(1)]
        packed_overflow_zero [OF assms(1)])
qed

lemma rti_resumes_interrupted_witness:
  "PC (op_rti (op_inx (interrupt_entry True IRQ_VECTOR_ADDR blank_cpu))) = 0x0803 \<and>
   PS (op_rti (op_inx (interrupt_entry True IRQ_VECTOR_ADDR blank_cpu))) = 0xF1"
proof -
  have "SP (op_inx c) = SP c" "heap (mach (op_inx c)) = heap (mach c)" for c :: "unit cpu"
    by (simp_all add: op_inx_def set_nz_def Let_def)
  then show ?thesis
    using rti_resumes_interrupted [of blank_cpu "op_inx (interrupt_entry True IRQ_VECTOR_ADDR blank_cpu)"
        True IRQ_VECTOR_ADDR]
    by (simp add: ctx_ok_def sp_in_page_one_def blank_defs packed_ps_def)
qed

end
