(* ===== verification/Cpu_Tables.thy ===== *)
theory Cpu_Tables
  imports Cpu_Exec
begin

text \<open>
  The regularity of the instruction set as a specification of the dispatch tables: for the
  opcode columns that the 6502 decodes field by field, the table entry is the instruction of the
  field \<open>a\<close> on the addressing mode of the field \<open>b\<close>, with the cycle count of
  the mode.
\<close>

definition alu_op :: "bool \<Rightarrow> 'a io_fun \<Rightarrow> nat \<Rightarrow> 'a cpu \<Rightarrow> 'a cpu" where
  "alu_op cmos io a = [op_ora io, op_and io, op_eor io, if cmos then op_adc_cmos io else op_adc_nmos io,
     op_sta io, op_lda io, op_cmp io, if cmos then op_sbc_cmos io else op_sbc_nmos io] ! a"

definition alu_mode :: "nat \<Rightarrow> 'a cpu \<Rightarrow> 'a cpu" where
  "alu_mode b = [addr_indx, addr_zpg, addr_imm, addr_abs, addr_indy, addr_zpgx, addr_absy, addr_absx] ! b"

definition alu_cycles :: "nat \<Rightarrow> nat \<Rightarrow> u8" where
  "alu_cycles a b = [6, 3, 2, 4, 5, 4, 4, 4] ! b + (if a = 4 \<and> b \<in> {4, 6, 7} then 1 else 0)"

definition rmw_op :: "'a io_fun \<Rightarrow> nat \<Rightarrow> 'a cpu \<Rightarrow> 'a cpu" where
  "rmw_op io a = [op_asl io, op_rol io, op_lsr io, op_ror io, op_stx io, op_ldx io, op_dec io, op_inc io] ! a"

definition branch_op :: "nat \<Rightarrow> 'a cpu \<Rightarrow> 'a cpu" where
  "branch_op a = (let flag = [flagn, flagv, flagc, flagz] ! (a div 2)
                  in if even a then branch_if_clear flag else branch_if_set flag)"

lemma less_8_cases: "a < (8 :: nat) \<Longrightarrow> a \<in> {0, 1, 2, 3, 4, 5, 6, 7}"
  by (simp add: numeral_eq_Suc less_Suc_eq)

lemmas nmos_lookup = opcodes_nmos_def nth_append length_nmos_rows nmos_rows
lemmas cmos_lookup = opcodes_cmos_def nth_append length_cmos_rows cmos_rows

lemma alu_nmos:
  assumes "a < 8" "b < 8" "(a, b) \<noteq> (4, 2)"
  shows "opcodes_nmos io ! (32 * a + 4 * b + 1) = OpcodeDesc (alu_op False io a \<circ> alu_mode b)
    (if (a, b) = (1, 3) then 2 else alu_cycles a b)"
  using less_8_cases [OF assms(1)] less_8_cases [OF assms(2)] assms(3)
  by (elim insertE emptyE; simp add: nmos_lookup alu_op_def alu_mode_def alu_cycles_def)

lemma alu_cmos:
  assumes "a < 8" "b < 8" "(a, b) \<noteq> (4, 2)"
  shows "opcodes_cmos io ! (32 * a + 4 * b + 1) = OpcodeDesc (alu_op True io a \<circ> alu_mode b)
    (if (a, b) = (1, 3) then 2 else alu_cycles a b)"
  using less_8_cases [OF assms(1)] less_8_cases [OF assms(2)] assms(3)
  by (elim insertE emptyE; simp add: cmos_lookup alu_op_def alu_mode_def alu_cycles_def)

text \<open>
  C16. On both processors the 63 documented entries of column 01 are regular: opcode
  \<open>aaabbb01\<close> is instruction \<open>a\<close> of ORA, AND, EOR, ADC, STA, LDA, CMP, SBC on
  addressing mode \<open>b\<close>, with the base cycles of the mode, one more for the indexed stores;
  the only irregular entry is AND absolute (0x2D), which is charged 2 cycles and not 4.
\<close>

theorem alu_column_regular:
  assumes "a < 8" "b < 8" "(a, b) \<noteq> (4, 2)"
  shows "opcode_table cmos io ! (32 * a + 4 * b + 1) =
    OpcodeDesc (alu_op cmos io a \<circ> alu_mode b) (if (a, b) = (1, 3) then 2 else alu_cycles a b)"
  by (cases cmos) (simp_all only: opcode_table_def if_True if_False alu_nmos [OF assms] alu_cmos [OF assms])

lemma alu_column_regular_witness:
  "opcode_table True idle_bus ! 0x7D = OpcodeDesc (op_adc_cmos idle_bus \<circ> addr_absx) 4"
  using alu_column_regular [of 3 7 True idle_bus] by (simp add: alu_op_def alu_mode_def alu_cycles_def)

text \<open>
  C17. Column 10 is regular on both processors as well: on the four memory modes
  \<open>aaabbb10\<close> is ASL, ROL, LSR, ROR, DEC or INC for 5 cycles in page zero and 6 elsewhere (only
  DEC absolute, 0xCE, is charged 5), and column 00 holds the eight branches at
  \<open>aaa10000\<close>: the flag of \<open>aa\<close>, the sense of the last bit, 2 cycles.
\<close>

theorem rmw_and_branches_regular:
  assumes "a < 8"
  shows "(a \<notin> {4, 5} \<longrightarrow> (\<forall>b \<in> {1, 3, 5, 7}. opcode_table cmos io ! (32 * a + 4 * b + 2) =
      OpcodeDesc (rmw_op io a \<circ> alu_mode b) (if b = 1 \<or> (a, b) = (6, 3) then 5 else 6))) \<and>
    opcode_table cmos io ! (32 * a + 16) = OpcodeDesc (branch_op a \<circ> addr_rel) 2"
  using less_8_cases [OF assms]
  by (cases cmos; elim insertE emptyE;
      simp add: opcode_table_def nmos_lookup cmos_lookup rmw_op_def alu_mode_def branch_op_def)

lemma rmw_and_branches_regular_witness:
  "opcode_table False (idle_bus :: unit io_fun) ! 0x36 = OpcodeDesc (op_rol idle_bus \<circ> addr_zpgx) 6 \<and>
   opcode_table True (idle_bus :: unit io_fun) ! 0xD0 = OpcodeDesc (branch_if_clear flagz \<circ> addr_rel) 2"
  using rmw_and_branches_regular [of 1 False "idle_bus :: unit io_fun"] rmw_and_branches_regular [of 6 True "idle_bus :: unit io_fun"]
  by (simp add: rmw_op_def alu_mode_def branch_op_def)

subsection \<open>Addressing\<close>

lemma same_page_iff: "((p XOR q) AND 0xFF00 = 0) \<longleftrightarrow> drop_bit 8 p = drop_bit 8 (q :: u16)"
  by (simp add: u16_eq_bits word_bits)

lemma page_carry:
  assumes "n < 65536" "x < (256 :: nat)"
  shows "(n + x) mod 65536 div 256 = n div 256 \<longleftrightarrow> n mod 256 + x < 256"
proof -
  define h l where "h = n div 256" and "l = n mod 256"
  have n: "n = 256 * h + l" by (simp add: h_def l_def)
  have b: "h < 256" "l < 256" using assms(1) by (auto simp: h_def l_def)
  have "(n + x) mod 65536 div 256 = (if l + x < 256 then h else (h + 1) mod 256)"
  proof (cases "l + x < 256")
    case True
    then show ?thesis using b n by simp
  next
    case False
    then have e: "n + x = 256 * (h + 1) + (l + x - 256)" using n by simp
    have "(n + x) mod 65536 div 256 = (n + x) div 256 mod 256"
      using mod_mult2_eq [of "n + x" 256 256] by simp
    also have "(n + x) div 256 = h + 1"
      unfolding e using False b assms(2) by simp
    finally show ?thesis using False by simp
  qed
  moreover have "(h + 1) mod 256 \<noteq> h" using b by (auto simp: mod_if)
  ultimately show ?thesis by (simp add: h_def l_def)
qed

lemma page_change_iff: "((b XOR (b + w16 x)) AND 0xFF00 = 0) \<longleftrightarrow> unat b mod 256 + unat x < 256"
proof -
  have "(b XOR (b + w16 x)) AND 0xFF00 = 0 \<longleftrightarrow> drop_bit 8 (b + w16 x) = drop_bit 8 b"
    using same_page_iff [of b "b + w16 x"] by auto
  also have "\<dots> \<longleftrightarrow> (unat b + unat x) mod 65536 div 256 = unat b div 256"
    by (simp only: word_unat_eq_iff unat_drop_bit_eq unat_word_ariths unat_w16) (simp add: drop_bit_eq_div)
  also have "\<dots> \<longleftrightarrow> unat b mod 256 + unat x < 256"
    by (rule page_carry) simp_all
  finally show ?thesis .
qed

lemma zp_index: "unat ((w16 b + w16 x) AND 0xFF) = (unat b + unat x) mod 256"
proof -
  have "unat (w16 b + w16 x) = unat b + unat x"
    using unat_u8_less [of b] unat_u8_less [of x]
    by (subst unat_add_lem [THEN iffD1]) (simp_all del: unat_u8_less)
  moreover have "(w16 b + w16 x) AND 0xFF = take_bit 8 (w16 b + w16 x)"
    by (simp only: take_bit_eq_mask) (simp add: mask_eq_exp_minus_1)
  ultimately show ?thesis
    by (simp only: unsigned_take_bit_eq) (simp add: take_bit_eq_mod)
qed

lemma zp_pointer_bytes:
  assumes "unat p < 256"
  shows "zp_pointer m p = w16 (rd m (unat p)) OR push_bit 8 (w16 (rd m ((unat p + 1) mod 256)))"
proof (cases "p = 0xFF")
  case True
  have "w16 l AND push_bit 8 (w16 h) = 0" for l h by (simp add: u16_eq_bits word_bits)
  then have "w16 l + push_bit 8 (w16 h) = w16 l OR push_bit 8 (w16 h)" for l h
    by (rule disjunctive_add_eq_or)
  with True show ?thesis by (simp add: zp_pointer_def)
next
  case False
  then have "unat p \<noteq> 255" using word_unat_eq_iff [of p "0xFF"] by simp
  with assms False show ?thesis by (simp add: zp_pointer_def read_u16_le_def)
qed

text \<open>
  Indexed addressing.  An absolute address plus an index wraps at 64K and costs one extra
  cycle exactly when the sum leaves the page of the base; a zero-page address plus an index stays
  in page zero; and the two bytes of an indexed indirect pointer are both read from page zero,
  the second one from 0x00 when the first is at 0xFF.
\<close>

theorem indexed_addressing:
  "unat (c_addr (addr_absx c)) = (unat (rd16 (mach c) (unat (PC c))) + unat (X c)) mod 65536 \<and>
   extra_cycles (addr_absx c) =
     (if unat (rd16 (mach c) (unat (PC c))) mod 256 + unat (X c) < 256 then extra_cycles c else 1) \<and>
   unat (c_addr (addr_zpgx c)) = (unat (rd (mach c) (unat (PC c))) + unat (X c)) mod 256 \<and>
   (let p = (unat (rd (mach c) (unat (PC c))) + unat (X c)) mod 256
    in c_addr (addr_indx c) =
         w16 (rd (mach c) p) OR push_bit 8 (w16 (rd (mach c) ((p + 1) mod 256))))"
proof -
  have "unat (c_addr (addr_absx c)) = (unat (rd16 (mach c) (unat (PC c))) + unat (X c)) mod 65536"
    by (simp add: addr_absx_def Let_def check_page_change_def unat_word_ariths)
  moreover have "extra_cycles (addr_absx c) =
     (if unat (rd16 (mach c) (unat (PC c))) mod 256 + unat (X c) < 256 then extra_cycles c else 1)"
    by (simp only: addr_absx_def Let_def check_page_change_def page_change_iff) simp
  moreover have "unat (c_addr (addr_zpgx c)) = (unat (rd (mach c) (unat (PC c))) + unat (X c)) mod 256"
    by (simp only: addr_zpgx_def Let_def next_byte_def prod.case) (simp add: zp_index)
  moreover have "c_addr (addr_indx c) = w16 (rd (mach c) p) OR push_bit 8 (w16 (rd (mach c) ((p + 1) mod 256)))"
    if "p = (unat (rd (mach c) (unat (PC c))) + unat (X c)) mod 256" for p
    using zp_pointer_bytes [of "(w16 (rd (mach c) (unat (PC c))) + w16 (X c)) AND 0xFF"
      "regs_update (reg_pc_update (\<lambda>_. PC c + 1)) (mach c)"]
    by (simp add: addr_indx_def Let_def next_byte_def zp_index that)
  ultimately show ?thesis by (simp add: Let_def)
qed

end
