(* ===== verification/Cpu_Props.thy ===== *)
theory Cpu_Props
  imports Cpu_Flow Cpu_Tables
begin

text \<open>
  The properties of the processor's interface: execution returns and accounts for its time,
  interrupts are taken once, a jammed processor stays where it is, snapshots and context
  switches restore what they saved.
\<close>

subsection \<open>Execution\<close>

interpretation idle: io_bus "idle_bus :: 'a io_fun"
  by unfold_locales (simp add: idle_bus_def)

text \<open>
  C7. \<open>cpu_execute\<close> returns under any lawful bus, whatever the memory holds: it runs at
  least the cycles asked for, overshoots by less than one instruction with its interrupts, adds
  to the cumulative count exactly the cycles it reports, and keeps the stack pointer in page one.
\<close>

theorem cpu_execute_accounts:
  assumes "io_bus io" "\<not> in_slice m" "unat frame + 24 < 2 ^ 32"
  shows "\<exists>e m'. cpu_execute io frame m = Some (e, m') \<and>
    unat frame \<le> unat e \<and> 2 \<le> unat e \<and> unat e \<le> unat frame - 1 + 24 \<and>
    cumulative_cycles m' = cumulative_cycles m + ucast e \<and>
    (sp_in_page_one m \<longrightarrow> sp_in_page_one m')"
  by (rule io_bus.cpu_execute_run [OF assms])

lemma cpu_execute_accounts_witness:
  "\<exists>e m'. cpu_execute idle_bus 17030 blank_machine = Some (e, m') \<and> 17030 \<le> unat e \<and>
    unat e \<le> 17053 \<and> sp_in_page_one m'"
  using cpu_execute_accounts [OF idle.io_bus_axioms, of blank_machine 17030]
  by (auto simp: blank_machine_def sp_in_page_one_def)



subsection \<open>Interrupt lines\<close>

lemma bit_irq_bit: "bit (irq_bit d) n \<longleftrightarrow> n = irq_src_code d"
proof -
  have "irq_src_code d < 32" by (cases d) simp_all
  then show ?thesis by (auto simp: irq_bit_def bit_exp_iff)
qed

lemma irq_bit_bit: "bit (irq_bit d) (irq_src_code e) \<longleftrightarrow> d = e"
  unfolding bit_irq_bit by (cases d; cases e; simp)

lemma irq_src_code_less: "irq_src_code d < 32"
  by (cases d) simp_all

lemma no_source_bits: "bit (irq_bit d) n \<Longrightarrow> n = irq_src_code d"
  by (simp add: bit_irq_bit)

text \<open>The operations of the shared interrupt line, as the devices issue them.\<close>

datatype irq_op = IrqAssert irq_src | IrqDeassert irq_src | IrqReset

fun irq_apply :: "irq_op \<Rightarrow> 'a machine_scheme \<Rightarrow> 'a machine_scheme" where
  "irq_apply (IrqAssert d) m = cpu_irq_assert d m"
| "irq_apply (IrqDeassert d) m = cpu_irq_deassert d m"
| "irq_apply IrqReset m = cpu_irq_reset m"

text \<open>The abstract line is the set of devices that hold it down.\<close>

fun irq_holders :: "irq_op \<Rightarrow> irq_src set \<Rightarrow> irq_src set" where
  "irq_holders (IrqAssert d) S = insert d S"
| "irq_holders (IrqDeassert d) S = S - {d}"
| "irq_holders IrqReset S = {}"

definition irq_abs :: "u32 \<Rightarrow> irq_src set" where
  "irq_abs w = {d. bit w (irq_src_code d)}"

definition irq_only_sources :: "u32 \<Rightarrow> bool" where
  "irq_only_sources w \<longleftrightarrow> (\<forall>n. bit w n \<longrightarrow> (\<exists>d. n = irq_src_code d))"

lemma irq_apply_abs: "irq_abs (bm_irq (irq_apply x m)) = irq_holders x (irq_abs (bm_irq m))"
proof (cases x)
  case (IrqAssert d)
  then show ?thesis
    by (auto simp: irq_abs_def cpu_irq_assert_def bit_or_iff irq_bit_bit)
next
  case (IrqDeassert d)
  then show ?thesis
    using irq_src_code_less
    by (auto simp: irq_abs_def cpu_irq_deassert_def bit_and_iff bit_not_iff irq_bit_bit)
qed (simp add: irq_abs_def cpu_irq_reset_def)

lemma irq_apply_only:
  "irq_only_sources (bm_irq m) \<Longrightarrow> irq_only_sources (bm_irq (irq_apply x m))"
  by (cases x) (auto simp: irq_only_sources_def cpu_irq_assert_def cpu_irq_deassert_def
      cpu_irq_reset_def bit_or_iff bit_and_iff dest: no_source_bits)

text \<open>
  C13. The interrupt line is a wired OR.  After any sequence of asserts, deasserts and resets
  from any devices, the line is held exactly by the devices whose last operation since the last
  reset was an assert, and \<open>bm_irq\<close> is zero exactly when no device holds it.
\<close>

theorem irq_line_wired_or:
  assumes "bm_irq m = 0"
  shows "irq_abs (bm_irq (fold irq_apply ops m)) = fold irq_holders ops {} \<and>
    (bm_irq (fold irq_apply ops m) = 0 \<longleftrightarrow> fold irq_holders ops {} = {})"
proof -
  have a: "irq_abs (bm_irq (fold irq_apply ops m)) = fold irq_holders ops (irq_abs (bm_irq m))" for m :: "'a machine_scheme"
    by (induction ops arbitrary: m) (simp_all add: irq_apply_abs)
  have o: "irq_only_sources (bm_irq m) \<Longrightarrow> irq_only_sources (bm_irq (fold irq_apply ops m))" for m :: "'a machine_scheme"
    by (induction ops arbitrary: m) (simp_all add: irq_apply_only)
  have "w = 0 \<longleftrightarrow> irq_abs w = {}" if "irq_only_sources w" for w
  proof
    assume "irq_abs w = {}"
    with that have "\<not> bit w n" for n by (auto simp: irq_abs_def irq_only_sources_def)
    then show "w = 0" by (intro bit_word_eqI) simp
  qed (simp add: irq_abs_def)
  moreover have "irq_only_sources (bm_irq (fold irq_apply ops m))"
    by (rule o) (simp add: assms irq_only_sources_def)
  moreover have "irq_abs (bm_irq m) = {}" by (simp add: assms irq_abs_def)
  ultimately show ?thesis using a [of m] by simp
qed

lemma irq_line_wired_or_witness:
  "irq_abs (bm_irq (fold irq_apply [IrqAssert is_6522, IrqAssert is_ssc, IrqDeassert is_6522] blank_machine)) = {is_ssc}"
  using irq_line_wired_or [of blank_machine "[IrqAssert is_6522, IrqAssert is_ssc, IrqDeassert is_6522]"]
  by (auto simp: blank_machine_def)

subsection \<open>Taking interrupts\<close>

lemma interrupt_entry_machine:
  "bm_irq (mach (interrupt_entry cmos v c)) = bm_irq (mach c)"
  "nmi_flank (mach (interrupt_entry cmos v c)) = nmi_flank (mach c)"
  by (simp_all add: interrupt_entry_def push_pc_def push_def pack_ps_def Let_def)

lemma interrupt_masks: "PS (interrupt_entry cmos v c) AND AF_INTERRUPT \<noteq> 0"
  by (simp add: interrupt_entry_fields u8_eq_bits word_bits)

text \<open>
  C12. An interrupt is taken once.  The entry through either vector masks IRQ, so the level
  that is still held does not interrupt again before the handler unmasks it; and the NMI edge
  is consumed by the entry, so a second look finds none although the line is still down.
\<close>

theorem interrupts_taken_once:
  "check_irq cmos (check_irq cmos c) = check_irq cmos c \<and>
   check_nmi cmos (check_nmi cmos c) = check_nmi cmos c \<and>
   (nmi_flank (mach c) \<longrightarrow> check_irq cmos (check_nmi cmos c) = check_nmi cmos c)"
proof (intro conjI impI)
  show "check_irq cmos (check_irq cmos c) = check_irq cmos c"
    using interrupt_masks by (auto simp: check_irq_def interrupt_entry_machine)
  have "mach_update (nmi_flank_update (\<lambda>_. False)) d = d" if "\<not> nmi_flank (mach d)" for d :: "'a cpu"
    using that by (cases d; cases "mach d") simp
  moreover have "\<not> nmi_flank (mach (check_nmi cmos c))"
    by (simp add: check_nmi_def Let_def interrupt_entry_machine)
  ultimately show "check_nmi cmos (check_nmi cmos c) = check_nmi cmos c"
    by (subst check_nmi_def) (simp add: Let_def)
  assume "nmi_flank (mach c)"
  then show "check_irq cmos (check_nmi cmos c) = check_nmi cmos c"
    using interrupt_masks by (auto simp: check_irq_def check_nmi_def Let_def)
qed

lemma interrupts_taken_once_witness:
  "check_irq True (check_nmi True (mach_update (cpu_nmi_assert is_ssc) blank_cpu)) =
   check_nmi True (mach_update (cpu_nmi_assert is_ssc) blank_cpu)"
  using interrupts_taken_once [of True "mach_update (cpu_nmi_assert is_ssc) blank_cpu"]
  by (simp add: cpu_nmi_assert_def blank_defs)

subsection \<open>The jam instructions\<close>

definition jam_opcodes :: "nat list" where
  "jam_opcodes = [0x02, 0x12, 0x22, 0x32, 0x42, 0x52, 0x62, 0x72, 0x92, 0xB2, 0xD2, 0xF2]"

lemma jam_entries: "n \<in> set jam_opcodes \<Longrightarrow> opcodes_nmos io ! n = OpcodeDesc op_hlt 2"
  unfolding jam_opcodes_def by (simp, elim disjE; simp add: nmos_lookup)

definition jam_pending :: "'a cpu \<Rightarrow> bool" where
  "jam_pending c \<longleftrightarrow> \<not> is_io_addr (PC c) \<and> unat (rd (mach c) (unat (PC c))) \<in> set jam_opcodes \<and>
     bm_irq (mach c) = 0 \<and> \<not> nmi_flank (mach c)"

lemma jam_step:
  assumes "jam_pending c" and d_def: "d = cpu_loop_body False io c"
  shows "PC d = PC c" "A d = A c" "X d = X c" "Y d = Y c" "SP d = SP c" "is_jammed (regs (mach d))"
    "heap (mach d) = heap (mach c)" "bm_irq (mach d) = bm_irq (mach c)"
    "nmi_flank (mach d) = nmi_flank (mach c)" "executed_cycles d = executed_cycles c + 2"
proof -
  have e: "opcode_table False io ! unat (rd (mach c) (unat (PC c))) = OpcodeDesc op_hlt 2"
    using assms(1) by (simp add: jam_pending_def opcode_table_def jam_entries)
  show "PC d = PC c" "A d = A c" "X d = X c" "Y d = Y c" "SP d = SP c" "is_jammed (regs (mach d))"
    "heap (mach d) = heap (mach c)" "bm_irq (mach d) = bm_irq (mach c)"
    "nmi_flank (mach d) = nmi_flank (mach c)" "executed_cycles d = executed_cycles c + 2"
    using assms(1) by (simp_all add: d_def cpu_loop_body_def fetch_opcode_def Let_def jam_pending_def
        e run_opcode_def op_hlt_def pack_ps_def check_nmi_def check_irq_def)
qed



subsection \<open>Snapshots and contexts\<close>

lemma stack_byte:
  assumes "sp_in_page_one m"
  shows "w16 (lo8 (reg_sp (regs m))) OR STACK_BEGIN = reg_sp (regs m)"
proof -
  let ?s = "reg_sp (regs m)"
  have b: "256 \<le> unat ?s" "unat ?s \<le> 511"
    using assms by (simp_all add: page_one_unat)
  have "w16 (lo8 ?s) AND STACK_BEGIN = 0" by (simp add: u16_eq_bits word_bits)
  then have "w16 (lo8 ?s) OR STACK_BEGIN = w16 (lo8 ?s) + STACK_BEGIN"
    by (rule disjunctive_add_eq_or [symmetric])
  moreover have "unat (w16 (lo8 ?s) + STACK_BEGIN) = unat ?s mod 256 + 256"
    by (subst unat_add_lem [THEN iffD1]) (simp_all add: unat_lo8)
  moreover have "unat ?s mod 256 + 256 = unat ?s"
  proof -
    have "unat ?s = (unat ?s - 256) + 256" "unat ?s - 256 < 256" using b by auto
    then show ?thesis by (metis mod_add_self2 mod_less)
  qed
  ultimately show ?thesis by (simp add: word_unat_eq_iff)
qed

lemma registers_restored:
  "(r0 :: cpu_registers)\<lparr>reg_a := reg_a r, reg_x := reg_x r, reg_y := reg_y r, reg_ps := p, reg_sp := reg_sp r,
     reg_pc := reg_pc r\<rparr> = r\<lparr>reg_ps := p, is_jammed := is_jammed r0\<rparr>"
  by (cases r; cases r0) simp

text \<open>
  A snapshot restores the processor.  Loading, into any other state, the snapshot taken
  of a machine gives that machine's A, X, Y, PC, stack pointer and cumulative cycles, its flags
  with the two unused bits set, no pending interrupt, and an active instance that agrees with
  the globals; a null buffer is refused and changes nothing.
\<close>

theorem cpu_snapshot_round_trip:
  assumes "sp_in_page_one m"
    and "cpu_get_snapshot True (cs, m) = (code, Some ss, cs')"
    and "cpu_set_snapshot (Some ss) (ds, m0) = (code', ds', m')"
  shows "code = 0 \<and> code' = 0 \<and>
    regs m' = (regs m)\<lparr>reg_ps := reg_ps (regs m) OR AF_RESERVED OR AF_BREAK,
      is_jammed := is_jammed (regs m0)\<rparr> \<and>
    cumulative_cycles m' = cumulative_cycles m \<and>
    bm_irq m' = 0 \<and> bm_nmi m' = 0 \<and> \<not> nmi_flank m' \<and> heap m' = heap m0 \<and>
    ci_regs (instances ds' (active_cpu ds')) = regs m' \<and>
    cpu_get_snapshot False (cs, m) = (1, None, cs) \<and> cpu_set_snapshot None (ds, m0) = (1, ds, m0)"
  using assms(2,3)
  by (auto simp: cpu_get_snapshot_def cpu_set_snapshot_def sync_instance_def cpu_irq_reset_def
      cpu_nmi_reset_def Let_def stack_byte [OF assms(1)] registers_restored)

lemma cpu_snapshot_round_trip_witness:
  "(let (_, ss, cs) = cpu_get_snapshot True (\<lparr>active_cpu = 0, instances = (\<lambda>_. save_globals blank_machine)\<rparr>, blank_machine);
        (_, _, m) = cpu_set_snapshot ss (cs, cpu_irq_assert is_ssc (cpu_initialize blank_machine))
    in reg_sp (regs m) = 0x100 \<and> reg_pc (regs m) = 0x0803 \<and> reg_a (regs m) = 0 \<and> bm_irq m = 0)"
proof -
  obtain code ss cs where g: "cpu_get_snapshot True
      (\<lparr>active_cpu = 0, instances = (\<lambda>_. save_globals blank_machine)\<rparr>, blank_machine) = (code, Some ss, cs)"
    by (simp add: cpu_get_snapshot_def)
  obtain code' ds m where s: "cpu_set_snapshot (Some ss)
      (cs, cpu_irq_assert is_ssc (cpu_initialize blank_machine)) = (code', ds, m)"
    by (metis prod_cases3)
  from cpu_snapshot_round_trip [OF _ g s] g s show ?thesis
    by (simp add: sp_in_page_one_def blank_machine_def)
qed

text \<open>
  C15. Switching machines loses nothing.  After a switch to instance \<open>k\<close>, whatever that
  machine then does with the globals, switching back restores the registers, cycle counters and
  interrupt lines the first machine had, and leaves the other machine's own in its instance.
\<close>

theorem cpu_context_switch_back:
  assumes "active_cpu cs = j" "j \<noteq> k"
    and "cpu_set_active_context (Some k) (cs, m) = (cs1, m1)"
    and "cpu_set_active_context (Some j) (cs1, m2) = (cs2, m3)"
  shows "save_globals m1 = instances cs k \<and> active_cpu cs2 = j \<and>
    save_globals m3 = save_globals m \<and> instances cs2 k = save_globals m2 \<and>
    heap m3 = heap m2 \<and> cycles_limit m3 = cycles_limit m2"
  using assms by (auto simp: cpu_set_active_context_def Let_def save_globals_def load_globals_def)

lemma cpu_context_switch_back_witness:
  "(let (cs, m) = cpu_set_active_context (Some 1)
          (\<lparr>active_cpu = 0, instances = (\<lambda>_. save_globals (cpu_initialize blank_machine))\<rparr>, blank_machine);
        (cs', m') = cpu_set_active_context (Some 0) (cs, cpu_irq_assert is_slot4 m)
    in save_globals m' = save_globals blank_machine)"
proof -
  let ?cs = "\<lparr>active_cpu = 0, instances = (\<lambda>_. save_globals (cpu_initialize blank_machine))\<rparr>"
  obtain cs m where 1: "cpu_set_active_context (Some 1) (?cs, blank_machine) = (cs, m)"
    by (metis prod.exhaust)
  obtain cs' m' where 2: "cpu_set_active_context (Some 0) (cs, cpu_irq_assert is_slot4 m) = (cs', m')"
    by (metis prod.exhaust)
  from cpu_context_switch_back [OF _ _ 1 2] 1 2 show ?thesis by simp
qed

end
