(* ===== verification/Cpu_Alu.thy ===== *)
theory Cpu_Alu
  imports Cpu_Arith
begin

text \<open>
  The arithmetic of the two processors against integer arithmetic: binary and decimal
  addition and subtraction, comparison, shifts and rotates.
\<close>

subsection \<open>Bytes as numbers\<close>

lemma unat_plus16: "unat a + unat b < 65536 \<Longrightarrow> unat (a + b :: u16) = unat a + unat b"
  by (subst unat_add_lem [THEN iffD1]) simp_all

lemma bit_unat: "bit (v :: 'w::len word) n \<longleftrightarrow> odd (unat v div 2 ^ n)"
proof -
  have "bit v n \<longleftrightarrow> bit (unat v) n" by (simp add: bit_unsigned_iff)
  then show ?thesis by (simp only: bit_iff_odd)
qed

lemma and_mask_unat:
  "unat (v AND 0xFF :: u16) = unat v mod 256" "unat (v AND 0x0F :: u16) = unat v mod 16"
proof -
  have "v AND 0xFF = take_bit 8 v" "v AND 0x0F = take_bit 4 v"
    by (simp_all add: u16_eq_bits word_bits)
  then show "unat (v AND 0xFF) = unat v mod 256" "unat (v AND 0x0F) = unat v mod 16"
    by (simp_all only: unsigned_take_bit_eq) (simp_all add: take_bit_eq_mod)
qed

lemma odd_div_128: "odd (n div 128) \<longleftrightarrow> 128 \<le> n mod (256 :: nat)"
proof -
  have "n mod 256 = 128 * (n div 128 mod 2) + n mod 128"
    using mod_mult2_eq [of n 128 2] by simp
  moreover have "n mod 128 < 128" by simp
  ultimately show ?thesis by (auto simp: odd_iff_mod_2_eq_one elim: not_mod_2_eq_0_eq_1 [THEN iffD1])
qed

lemma sign16: "(v AND 0x80 :: u16) = 0 \<longleftrightarrow> unat v mod 256 < 128"
proof -
  have "(v AND 0x80 :: u16) = 0 \<longleftrightarrow> \<not> bit v 7" by (simp add: u16_eq_bits word_bits)
  also have "bit v 7 \<longleftrightarrow> odd (unat v div 128)" by (simp add: bit_unat)
  also have "(\<not> odd (unat v div 128)) \<longleftrightarrow> unat v mod 256 < 128"
    by (simp only: odd_div_128 not_le)
  finally show ?thesis .
qed

definition signed8 :: "nat \<Rightarrow> int" where
  "signed8 n = (if n < 128 then int n else int n - 256)"

lemma sint_u8: "sint (a :: u8) = signed8 (unat a)"
proof -
  have "bit a 7 \<longleftrightarrow> odd (unat a div 128)" by (simp add: bit_unat)
  also have "odd (unat a div 128) \<longleftrightarrow> \<not> unat a < 128"
    using unat_u8_less [of a] by (simp only: odd_div_128 not_less mod_less)
  moreover have "uint a mod 256 = uint a"
    using uint_bounded [of a] by simp
  ultimately show ?thesis
    by (simp add: signed8_def sint_uint signed_take_bit_eq_take_bit_minus bit_uint_iff take_bit_eq_mod)
qed

lemma lo8_eq_of_nat: "unat v = n \<Longrightarrow> lo8 v = word_of_nat n"
  by (auto simp: word_unat_eq_iff unat_lo8 unat_of_nat)

lemma flag_cases: "f \<le> (1 :: u8) \<Longrightarrow> f = 0 \<or> f = 1"
  by (auto simp: word_le_nat_alt word_unat_eq_iff)

lemma u8_sign: "(a AND 0x80 :: u8) = 0 \<longleftrightarrow> unat a < 128"
proof -
  have "(a AND 0x80 :: u8) = 0 \<longleftrightarrow> \<not> bit a 7" by (simp add: u8_eq_bits word_bits)
  also have "\<dots> \<longleftrightarrow> unat a < 128"
    using unat_u8_less [of a] odd_div_128 [of "unat a"] by (simp add: bit_unat not_le)
  finally show ?thesis .
qed

lemma xor_sign: "((x XOR y) AND 0x80 :: u16) = 0 \<longleftrightarrow> (x AND 0x80 = 0 \<longleftrightarrow> y AND 0x80 = 0)"
  by (cases "bit x 7"; cases "bit y 7"; simp add: u16_eq_bits word_bits)

lemma xor16_sign: "lo8 ((w16 a XOR w16 v) AND 0x80) = 0 \<longleftrightarrow> (unat a < 128 \<longleftrightarrow> unat v < 128)"
proof -
  have "lo8 ((w16 a XOR w16 v) AND 0x80) = 0 \<longleftrightarrow> (w16 a XOR w16 v) AND 0x80 = 0"
    by (simp add: u16_eq_bits u8_eq_bits word_bits)
  then show ?thesis by (simp only: xor_sign) (simp add: sign16)
qed

lemma eq_sign: "(x AND 0x80 :: u16) = y AND 0x80 \<longleftrightarrow> (x AND 0x80 = 0 \<longleftrightarrow> y AND 0x80 = 0)"
  by (cases "bit x 7"; cases "bit y 7"; simp add: u16_eq_bits word_bits)

lemma w16_sign: "(w16 a AND 0x80) = 0 \<longleftrightarrow> unat a < 128"
  by (simp add: sign16)

lemma set_nz_simps [simp]:
  "flagc (set_nz v c) = flagc c" "flagv (set_nz v c) = flagv c" "mach (set_nz v c) = mach c"
  "flagn (set_nz v c) = lo8 (v AND 0x80)" "flagz (set_nz v c) = b2w (v AND 0xFF = 0)"
  "extra_cycles (set_nz v c) = extra_cycles c"
  by (simp_all add: set_nz_def)

lemma w16_FF [simp]: "w16 b AND 0xFF = w16 b" "lo8 (w16 b AND 0x80) = b AND 0x80"
    "w16 b = 0 \<longleftrightarrow> b = 0"
  by (simp_all add: u16_eq_bits u8_eq_bits word_bits)

subsection \<open>Binary mode\<close>

text \<open>The sum and the difference the binary instructions compute at 16 bits.\<close>

lemma sum16:
  assumes "f \<le> (1 :: u8)"
  shows "unat (w16 a + w16 t + w16 f) = unat a + unat t + unat f"
proof -
  have "unat f \<le> 1" using assms by (simp add: word_le_nat_alt)
  moreover have "unat (w16 a + w16 t) = unat a + unat t"
    using unat_u8_less [of a] unat_u8_less [of t] by (subst unat_plus16) (simp_all del: unat_u8_less)
  ultimately show ?thesis
    using unat_u8_less [of a] unat_u8_less [of t]
    by (subst unat_plus16) (simp_all del: unat_u8_less)
qed

lemma diff16:
  assumes "unat b \<le> 1"
  shows "unat (w16 a - w16 t - b) =
    (if unat t + unat b \<le> unat a then unat a - unat t - unat b
     else 65536 + unat a - unat t - unat b)"
proof -
  have "unat (w16 t + b) = unat t + unat b"
    using unat_u8_less [of t] assms by (subst unat_plus16) (simp_all del: unat_u8_less)
  moreover have "w16 a - w16 t - b = w16 a - (w16 t + b)" by simp
  ultimately show ?thesis
    by (simp only: unat_sub_if' unat_w16) auto
qed

lemma lo8_plus: "lo8 (x + y) = lo8 x + lo8 y"
  by (simp add: word_unat_eq_iff unat_lo8 unat_word_ariths mod_mod_cancel mod_add_eq)

lemma lo8_minus: "lo8 (x - y) = lo8 x - lo8 y"
proof -
  have "lo8 (x - y) + lo8 y = lo8 x" by (simp flip: lo8_plus)
  then show ?thesis by (simp add: eq_diff_eq)
qed

lemma sub_overflow_nat:
  assumes "a < 256" "v < 256" "b \<le> 1"
  shows "signed8 a - signed8 v - int b \<in> {-128..127} \<longleftrightarrow>
      \<not> (\<not> (a < 128 \<longleftrightarrow> v < 128) \<and> \<not> (a < 128 \<longleftrightarrow>
        (if v + b \<le> a then a - v - b else 65536 + a - v - b) mod 256 < 128))"
    and "signed8 a - signed8 v - int b \<in> {-128..127} \<longleftrightarrow>
      (a < 128 \<longleftrightarrow> v < 128) \<or> 384 \<le> 256 + a - v - b \<or> 256 + a - v - b < 128"
proof -
  have m: "(if v + b \<le> a then a - v - b else 65536 + a - v - b) mod 256 =
      (if v + b \<le> a then a - v - b else 256 + a - v - b)"
  proof (cases "v + b \<le> a")
    case False
    then have "65536 + a - v - b = (256 + a - v - b) + 255 * 256" using assms by linarith
    then have "(65536 + a - v - b) mod 256 = (256 + a - v - b) mod 256" by (simp only: mod_mult_self1)
    with False assms show ?thesis by simp
  qed (use assms in simp)
  show "signed8 a - signed8 v - int b \<in> {-128..127} \<longleftrightarrow>
      \<not> (\<not> (a < 128 \<longleftrightarrow> v < 128) \<and> \<not> (a < 128 \<longleftrightarrow>
        (if v + b \<le> a then a - v - b else 65536 + a - v - b) mod 256 < 128))"
    unfolding m using assms by (auto simp: signed8_def)
  show "signed8 a - signed8 v - int b \<in> {-128..127} \<longleftrightarrow>
      (a < 128 \<longleftrightarrow> v < 128) \<or> 384 \<le> 256 + a - v - b \<or> 256 + a - v - b < 128"
    using assms by (auto simp: signed8_def)
qed

lemma gt_255: "255 < n \<longleftrightarrow> 256 \<le> (n :: nat)" by auto

lemma add_overflow_nat:
  assumes "a < 256" "v < 256" "f \<le> 1"
  shows "signed8 a + signed8 v + int f \<in> {-128..127} \<longleftrightarrow>
      \<not> ((a < 128 \<longleftrightarrow> v < 128) \<and> \<not> (a < 128 \<longleftrightarrow> (a + v + f) mod 256 < 128))"
    and "signed8 a + signed8 v + int f \<in> {-128..127} \<longleftrightarrow>
      \<not> (a < 128 \<longleftrightarrow> v < 128) \<or> 384 \<le> a + v + f \<or> a + v + f < 128"
proof -
  have m: "(a + v + f) mod 256 = (if a + v + f < 256 then a + v + f else a + v + f - 256)"
    using assms by (simp add: mod_if)
  show "signed8 a + signed8 v + int f \<in> {-128..127} \<longleftrightarrow>
      \<not> ((a < 128 \<longleftrightarrow> v < 128) \<and> \<not> (a < 128 \<longleftrightarrow> (a + v + f) mod 256 < 128))"
    unfolding m using assms by (auto simp: signed8_def)
  show "signed8 a + signed8 v + int f \<in> {-128..127} \<longleftrightarrow>
      \<not> (a < 128 \<longleftrightarrow> v < 128) \<or> 384 \<le> a + v + f \<or> a + v + f < 128"
    using assms by (auto simp: signed8_def)
qed

lemmas add_overflow =
  add_overflow_nat [OF unat_u8_less unat_u8_less, where f = "unat f" for f :: u8, folded sint_u8]
lemmas sub_overflow =
  sub_overflow_nat [OF unat_u8_less unat_u8_less, folded sint_u8]

text \<open>What binary addition and subtraction promise, over the integers.\<close>

definition adds :: "u8 \<Rightarrow> u8 \<Rightarrow> 'a cpu \<Rightarrow> 'a cpu \<Rightarrow> bool" where
  "adds a v c d \<longleftrightarrow>
     A d = word_of_nat (unat a + unat v + unat (flagc c)) \<and>
     flagc d = b2w (256 \<le> unat a + unat v + unat (flagc c)) \<and>
     flagn d = A d AND 0x80 \<and> flagz d = b2w (A d = 0) \<and>
     (flagv d = 0 \<longleftrightarrow> sint a + sint v + int (unat (flagc c)) \<in> {-128..127})"

definition subtracts :: "u8 \<Rightarrow> u8 \<Rightarrow> 'a cpu \<Rightarrow> 'a cpu \<Rightarrow> bool" where
  "subtracts a v c d \<longleftrightarrow>
     A d = a - v - (1 - flagc c) \<and>
     flagc d = b2w (unat v + (1 - unat (flagc c)) \<le> unat a) \<and>
     flagn d = A d AND 0x80 \<and> flagz d = b2w (A d = 0) \<and>
     (flagv d = 0 \<longleftrightarrow> sint a - sint v - int (1 - unat (flagc c)) \<in> {-128..127})"

lemma adc_nmos_adds:
  assumes "PS c AND AF_DECIMAL = 0" "flagc c \<le> 1"
  shows "adds (A c) v c (adc_nmos_body (w16 v) c)"
proof -
  let ?s = "unat (A c) + unat v + unat (flagc c)"
  let ?w = "w16 (A c) + w16 v + w16 (flagc c)"
  have s: "unat ?w = ?s" by (rule sum16 [OF assms(2)])
  have f: "unat (flagc c) \<le> 1" using assms(2) by (simp add: word_le_nat_alt)
  have A: "A (adc_nmos_body (w16 v) c) = word_of_nat ?s"
    using assms(1) lo8_eq_of_nat [OF s] by (simp add: adc_nmos_body_def Let_def)
  have C: "flagc (adc_nmos_body (w16 v) c) = b2w (256 \<le> ?s)"
    using assms(1) by (simp add: adc_nmos_body_def Let_def word_less_nat_alt s gt_255)
  have "flagv (adc_nmos_body (w16 v) c) = 0 \<longleftrightarrow>
       \<not> ((unat (A c) < 128 \<longleftrightarrow> unat v < 128) \<and> \<not> (unat (A c) < 128 \<longleftrightarrow> ?s mod 256 < 128))"
    using assms(1) by (simp add: adc_nmos_body_def Let_def eq_sign w16_sign sign16 s)
  then show ?thesis
    using A C assms(1) add_overflow [OF f, of "A c" v]
    by (simp add: adds_def) (simp add: adc_nmos_body_def Let_def)
qed

lemma adc_cmos_adds:
  assumes "PS c AND AF_DECIMAL = 0" "flagc c \<le> 1"
  shows "adds (A c) v c (adc_cmos_body (w16 v) c)"
proof -
  let ?s = "unat (A c) + unat v + unat (flagc c)"
  let ?w = "w16 (A c) + w16 v + w16 (flagc c)"
  have s: "unat ?w = ?s" by (rule sum16 [OF assms(2)])
  have f: "unat (flagc c) \<le> 1" using assms(2) by (simp add: word_le_nat_alt)
  have w: "lo8 ?w = word_of_nat ?s" by (rule lo8_eq_of_nat [OF s])
  have "flagv (adc_cmos_body (w16 v) c) = 0 \<longleftrightarrow>
      \<not> (unat (A c) < 128 \<longleftrightarrow> unat v < 128) \<or> 384 \<le> ?s \<or> ?s < 128"
    using assms(1) by (auto simp: adc_cmos_body_def Let_def xor_sign w16_sign word_le_nat_alt
        word_less_nat_alt s)
  then show ?thesis
    using assms(1) add_overflow [OF f, of "A c" v]
    by (simp add: adds_def) (simp add: adc_cmos_body_def Let_def w word_le_nat_alt s)
qed

lemma sbc_nmos_subtracts:
  assumes "PS c AND AF_DECIMAL = 0" "flagc c \<le> 1"
  shows "subtracts (A c) v c (sbc_nmos_body (w16 v) c)"
proof -
  let ?b = "if flagc c = 0 then 1 else 0 :: u16"
  let ?w = "w16 (A c) - w16 v - ?b"
  have b: "unat ?b = 1 - unat (flagc c)" "unat (flagc c) \<le> 1"
    using flag_cases [OF assms(2)] by auto
  have s: "unat ?w = (if unat v + (1 - unat (flagc c)) \<le> unat (A c)
      then unat (A c) - unat v - (1 - unat (flagc c))
      else 65536 + unat (A c) - unat v - (1 - unat (flagc c)))"
    using diff16 [of ?b "A c" v] by (simp add: b(1))
  have w: "lo8 ?w = A c - v - (1 - flagc c)"
    using flag_cases [OF assms(2)] by (auto simp: lo8_minus)
  have C: "unat ?w < 256 \<longleftrightarrow> unat v + (1 - unat (flagc c)) \<le> unat (A c)"
    unfolding s using unat_u8_less [of "A c"] unat_u8_less [of v] b(2)
    by (auto simp del: unat_u8_less)
  have "flagv (sbc_nmos_body (w16 v) c) = 0 \<longleftrightarrow>
       \<not> (\<not> (unat (A c) < 128 \<longleftrightarrow> unat v < 128) \<and> \<not> (unat (A c) < 128 \<longleftrightarrow> unat ?w mod 256 < 128))"
    using assms(1) by (simp add: sbc_nmos_body_def Let_def eq_sign w16_sign sign16)
  then have V: "flagv (sbc_nmos_body (w16 v) c) = 0 \<longleftrightarrow>
       sint (A c) - sint v - int (1 - unat (flagc c)) \<in> {-128..127}"
    unfolding s by (simp only: sub_overflow(1) [OF diff_le_self])
  have "flagc (sbc_nmos_body (w16 v) c) = b2w (unat v + (1 - unat (flagc c)) \<le> unat (A c))"
    using assms(1) C by (simp add: sbc_nmos_body_def Let_def word_less_nat_alt)
  moreover have "A (sbc_nmos_body (w16 v) c) = A c - v - (1 - flagc c)"
    using assms(1) w by (simp add: sbc_nmos_body_def Let_def)
  ultimately show ?thesis
    using V assms(1) by (simp add: subtracts_def) (simp add: sbc_nmos_body_def Let_def)
qed

lemma sbc_cmos_subtracts:
  assumes "PS c AND AF_DECIMAL = 0" "flagc c \<le> 1"
  shows "subtracts (A c) v c (sbc_cmos_body (w16 v) c)"
proof -
  let ?a = "unat (A c)" and ?v = "unat v" and ?b = "1 - unat (flagc c)"
  let ?w = "0xff + w16 (A c) - w16 v + w16 (flagc c)"
  have f: "unat (flagc c) \<le> 1" using assms(2) by (simp add: word_le_nat_alt)
  have "?w = (0xff + w16 (A c) + w16 (flagc c)) - w16 v" by simp
  moreover have u: "unat (0xff + w16 (A c) + w16 (flagc c)) = 255 + ?a + unat (flagc c)"
    using sum16 [OF assms(2), of "0xFF" "A c"] by simp
  moreover have "w16 v \<le> 0xff + w16 (A c) + w16 (flagc c)"
    using unat_u8_less [of v] by (simp add: word_le_nat_alt u del: unat_u8_less)
  ultimately have s: "unat ?w = 256 + ?a - ?v - ?b"
    using f by (simp only: unat_sub unat_w16)
  have w: "lo8 ?w = A c - v - (1 - flagc c)"
  proof -
    have "lo8 0xff = (-1 :: u8)" by (simp add: u8_eq_bits word_bits)
    then show ?thesis by (simp add: lo8_minus lo8_plus)
  qed
  have C: "unat ?w < 256 \<longleftrightarrow> \<not> ?v + ?b \<le> ?a"
    unfolding s using unat_u8_less [of "A c"] unat_u8_less [of v] f
    by (auto simp del: unat_u8_less)
  have "flagv (sbc_cmos_body (w16 v) c) = 0 \<longleftrightarrow>
      (?a < 128 \<longleftrightarrow> ?v < 128) \<or> 384 \<le> unat ?w \<or> unat ?w < 128"
    using assms(1) by (auto simp: sbc_cmos_body_def Let_def 
        word_le_nat_alt word_less_nat_alt xor16_sign)
  then have V: "flagv (sbc_cmos_body (w16 v) c) = 0 \<longleftrightarrow>
      sint (A c) - sint v - int ?b \<in> {-128..127}"
    unfolding s by (simp only: sub_overflow(2) [OF diff_le_self])
  have "flagc (sbc_cmos_body (w16 v) c) = b2w (?v + ?b \<le> ?a)"
    using assms(1) C by (simp add: sbc_cmos_body_def Let_def word_less_nat_alt)
  moreover have "A (sbc_cmos_body (w16 v) c) = A c - v - (1 - flagc c)"
    using assms(1) w by (simp add: sbc_cmos_body_def Let_def)
  moreover have "flagn (sbc_cmos_body (w16 v) c) = A (sbc_cmos_body (w16 v) c) AND 0x80"
    "flagz (sbc_cmos_body (w16 v) c) = b2w (A (sbc_cmos_body (w16 v) c) = 0)"
    by (simp_all add: sbc_cmos_body_def Let_def split: prod.split)
  ultimately show ?thesis
    using V by (simp add: subtracts_def)
qed

text \<open>
  C11. In binary mode \<open>ADC\<close> of either processor adds accumulator, operand and
  carry: the accumulator is the sum modulo 256, the carry tells whether the sum reached 256,
  and overflow is clear exactly when the signed sum fits in a byte.  The two source
  routines compute the overflow flag in different ways.
\<close>

theorem adc_binary:
  assumes "read_byte io (c_addr c) c = (v, c')" "PS c' AND AF_DECIMAL = 0" "flagc c' \<le> 1"
  shows "adds (A c') v c' (op_adc_nmos io c) \<and> adds (A c') v c' (op_adc_cmos io c)"
  using assms(1) adc_nmos_adds [OF assms(2,3)] adc_cmos_adds [OF assms(2,3)]
  by (simp add: op_adc_nmos_def op_adc_cmos_def)

text \<open>
  C12. In binary mode \<open>SBC\<close> of either processor subtracts operand and borrow from the
  accumulator: the carry is set exactly when no borrow was needed, and overflow is clear exactly
  when the signed difference fits in a byte.
\<close>

theorem sbc_binary:
  assumes "read_byte io (c_addr c) c = (v, c')" "PS c' AND AF_DECIMAL = 0" "flagc c' \<le> 1"
  shows "subtracts (A c') v c' (op_sbc_nmos io c) \<and> subtracts (A c') v c' (op_sbc_cmos io c)"
  using assms(1) sbc_nmos_subtracts [OF assms(2,3)] sbc_cmos_subtracts [OF assms(2,3)]
  by (simp add: op_sbc_nmos_def op_sbc_cmos_def)

lemma adc_binary_witness:
  "A (op_adc_nmos idle_bus (set_a 0x7F blank_cpu)) = 0x80 \<and>
   flagv (op_adc_cmos idle_bus (set_a 0x7F blank_cpu)) \<noteq> 0"
  using adc_binary [of idle_bus "set_a 0x7F blank_cpu" 0 "set_a 0x7F blank_cpu"]
  by (simp add: is_io_addr_def adds_def blank_defs)

lemma sbc_binary_witness:
  "A (op_sbc_nmos idle_bus (set_a 0x80 (blank_cpu\<lparr>flagc := 0\<rparr>))) = 0x7F \<and>
   flagv (op_sbc_cmos idle_bus (set_a 0x80 (blank_cpu\<lparr>flagc := 0\<rparr>))) \<noteq> 0"
  using sbc_binary [of idle_bus "set_a 0x80 (blank_cpu\<lparr>flagc := 0\<rparr>)" 0
      "set_a 0x80 (blank_cpu\<lparr>flagc := 0\<rparr>)"]
  by (simp add: is_io_addr_def subtracts_def blank_defs)

subsection \<open>Decimal mode\<close>

lemma unat_word_of_nat:
  "n < 256 \<Longrightarrow> unat (word_of_nat n :: u8) = n" "n < 65536 \<Longrightarrow> unat (word_of_nat n :: u16) = n"
  by (simp_all add: unat_of_nat)

definition bcd :: "nat \<Rightarrow> u8" where
  "bcd n = word_of_nat (16 * (n div 10) + n mod 10)"

lemma unat_bcd:
  assumes "n < 100"
  shows "unat (bcd n) = 16 * (n div 10) + n mod 10"
proof -
  have "n div 10 < 10" "n mod 10 < 10" using assms by (auto simp: less_mult_imp_div_less)
  then show ?thesis unfolding bcd_def by (intro unat_word_of_nat) simp
qed

lemma bcd_nibbles:
  assumes "n < 100"
  shows "w16 (bcd n) AND 0x0F = word_of_nat (n mod 10)"
    and "drop_bit 4 (w16 (bcd n)) = word_of_nat (n div 10)"
    and "w16 (bcd n) AND 0xF0 = word_of_nat (16 * (n div 10))"
proof -
  have d: "n div 10 < 10" "n mod 10 < 10" using assms by (auto simp: less_mult_imp_div_less)
  have m: "(16 * (n div 10) + n mod 10) mod 16 = n mod 10"
    "(16 * (n div 10) + n mod 10) div 16 = n div 10"
    using d by simp_all
  show "w16 (bcd n) AND 0x0F = word_of_nat (n mod 10)"
    using d m by (simp add: word_unat_eq_iff and_mask_unat unat_bcd [OF assms] unat_word_of_nat)
  show h: "drop_bit 4 (w16 (bcd n)) = word_of_nat (n div 10)"
  proof -
    have "unat (drop_bit 4 (w16 (bcd n))) = unat (bcd n) div 16"
      by (simp only: unat_drop_bit_eq unat_w16) (simp add: drop_bit_eq_div)
    then show ?thesis
      using d m by (simp only: word_unat_eq_iff unat_bcd [OF assms]) (simp add: unat_word_of_nat)
  qed
  have "w16 (bcd n) AND 0xF0 = push_bit 4 (drop_bit 4 (w16 (bcd n)))"
    by (simp add: u16_eq_bits word_bits)
  then show "w16 (bcd n) AND 0xF0 = word_of_nat (16 * (n div 10))"
    by (simp add: h push_bit_eq_mult)
qed

lemma less_20_cases:
  assumes "s < (20 :: nat)"
  shows "s \<in> {0, 1, 2, 3, 4, 5, 6, 7, 8, 9, 10, 11, 12, 13, 14, 15, 16, 17, 18, 19}"
  using assms by (simp add: numeral_eq_Suc less_Suc_eq)

lemma mod_10_below_20: "s < (20 :: nat) \<Longrightarrow> s mod 10 = (if 10 \<le> s then s - 10 else s)"
  by (simp add: mod_if)

lemma flag_nat: "f \<le> (1 :: u8) \<Longrightarrow> w16 f = word_of_nat (unat f) \<and> unat f \<le> 1"
  using flag_cases [of f] by auto

lemma decimal_digit_add:
  assumes "s < 20"
  shows "(if (word_of_nat s :: u16) > 9 then word_of_nat s + 6 else word_of_nat s) AND 0x0F
      = (word_of_nat (s mod 10) :: u16)" (is ?digit)
    and "0xF < (if (word_of_nat s :: u16) > 9 then word_of_nat s + 6 else word_of_nat s :: u16)
      \<longleftrightarrow> 10 \<le> s" (is ?carry)
proof -
  show ?digit using less_20_cases [OF assms] by (elim insertE emptyE) simp_all
  show ?carry using less_20_cases [OF assms] by (elim insertE emptyE) simp_all
qed

lemma nibble_join: "lo8 (push_bit 4 h OR (l AND 0xF)) = lo8 (push_bit 4 (h AND 0xF)) + lo8 (l AND 0xF)"
proof -
  have "lo8 (push_bit 4 (h AND 0xF)) AND lo8 (l AND 0xF) = 0"
    by (simp add: u8_eq_bits word_bits)
  then have "lo8 (push_bit 4 (h AND 0xF)) + lo8 (l AND 0xF)
      = lo8 (push_bit 4 (h AND 0xF)) OR lo8 (l AND 0xF)"
    by (rule disjunctive_add_eq_or)
  then show ?thesis by (simp only:) (simp add: u8_eq_bits word_bits)
qed

lemma bcd_mod_100: "bcd (t mod 100) = word_of_nat (16 * (t div 10 mod 10)) + word_of_nat (t mod 10)"
proof -
  have "t mod 100 div 10 = t div 10 mod 10"
    using mod_mult2_eq [of t 10 10] by simp
  moreover have "t mod 100 mod 10 = t mod 10"
    by (simp add: mod_mod_cancel)
  ultimately show ?thesis by (simp add: bcd_def)
qed

lemma digit_sum:
  fixes m n f :: nat
  assumes "s = m mod 10 + n mod 10 + f" "f \<le> 1"
  shows "(m + n + f) mod 10 = s mod 10"
    and "(m + n + f) div 10 = m div 10 + n div 10 + (if 10 \<le> s then 1 else 0)"
    and "s < 20"
proof -
  have e: "m + n + f = 10 * (m div 10 + n div 10) + s"
    using assms(1) by simp
  show s: "s < 20" using assms by simp
  show "(m + n + f) mod 10 = s mod 10" by (simp only: e mod_mult_self4)
  have "(m + n + f) div 10 = m div 10 + n div 10 + s div 10" by (simp only: e) simp
  moreover have "s div 10 = (if 10 \<le> s then 1 else 0)" using s by auto
  ultimately show "(m + n + f) div 10 = m div 10 + n div 10 + (if 10 \<le> s then 1 else 0)" by simp
qed

lemma lo8_of_nat: "lo8 (word_of_nat n) = word_of_nat n"
  by (simp add: word_unat_eq_iff unat_lo8 unat_of_nat mod_mod_cancel take_bit_eq_mod)

lemma join_digits:
  assumes "h AND 0xF = word_of_nat x" "l AND 0xF = word_of_nat y"
  shows "lo8 (push_bit 4 h OR (l AND 0xF)) = word_of_nat (16 * x) + word_of_nat y"
proof -
  have "push_bit 4 (word_of_nat x :: u16) = word_of_nat (16 * x)"
    by (simp add: push_bit_eq_mult)
  then show ?thesis by (subst nibble_join) (simp only: assms lo8_of_nat)
qed

text \<open>What decimal addition and subtraction promise on two-digit operands.\<close>

definition decimal_adds :: "nat \<Rightarrow> nat \<Rightarrow> 'a cpu \<Rightarrow> 'a cpu \<Rightarrow> bool" where
  "decimal_adds m n c d \<longleftrightarrow>
     (let total = m + n + unat (flagc c)
      in A d = bcd (total mod 100) \<and> flagc d = b2w (100 \<le> total))"

definition decimal_subtracts :: "nat \<Rightarrow> nat \<Rightarrow> 'a cpu \<Rightarrow> 'a cpu \<Rightarrow> bool" where
  "decimal_subtracts m n c d \<longleftrightarrow>
     (let total = m + unat (flagc c) + 99 - n
      in A d = bcd (total mod 100) \<and> flagc d = b2w (100 \<le> total))"

lemma adc_nmos_digits:
  assumes "PS c AND AF_DECIMAL \<noteq> 0"
    and low: "(w16 (A c) AND 0x0F) + (t AND 0x0F) + w16 (flagc c) = word_of_nat s" "s < 20"
    and high: "drop_bit 4 (w16 (A c)) + drop_bit 4 t + (if 10 \<le> s then 1 else 0) = word_of_nat h" "h < 20"
  shows "A (adc_nmos_body t c) = word_of_nat (16 * (h mod 10)) + word_of_nat (s mod 10)"
    and "flagc (adc_nmos_body t c) = b2w (10 \<le> h)"
proof -
  let ?low = "if (word_of_nat s :: u16) > 9 then word_of_nat s + 6 else word_of_nat s"
  let ?high = "if (word_of_nat h :: u16) > 9 then word_of_nat h + 6 else (word_of_nat h :: u16)"
  have 1: "A (adc_nmos_body t c) = lo8 (push_bit 4 ?high OR (?low AND 0x0F))"
    and 2: "flagc (adc_nmos_body t c) = b2w (?high > 0x0F)"
    using assms(1) unfolding adc_nmos_body_def Let_def low(1) decimal_digit_add(2) [OF low(2)] high(1)
    by simp_all
  show "A (adc_nmos_body t c) = word_of_nat (16 * (h mod 10)) + word_of_nat (s mod 10)"
    unfolding 1 by (rule join_digits [OF decimal_digit_add(1) [OF high(2)] decimal_digit_add(1) [OF low(2)]])
  show "flagc (adc_nmos_body t c) = b2w (10 \<le> h)"
    unfolding 2 decimal_digit_add(2) [OF high(2)] ..
qed

lemma bcd_digit_sums:
  assumes "flagc c \<le> 1" "A c = bcd m" "m < 100" "n < 100"
    and s: "s = m mod 10 + n mod 10 + unat (flagc c)"
    and h: "h = m div 10 + n div 10 + (if 10 \<le> s then 1 else 0)"
  shows "(w16 (A c) AND 0x0F) + (w16 (bcd n) AND 0x0F) + w16 (flagc c) = word_of_nat s"
    and "drop_bit 4 (w16 (A c)) + drop_bit 4 (w16 (bcd n)) + (if 10 \<le> s then 1 else 0) = word_of_nat h"
    and "(w16 (A c) AND 0xF0) + (w16 (bcd n) AND 0xF0) = word_of_nat (16 * (m div 10 + n div 10))"
    and "s < 20" "h < 20" "10 \<le> h \<longleftrightarrow> 100 \<le> m + n + unat (flagc c)"
    and "bcd ((m + n + unat (flagc c)) mod 100) = word_of_nat (16 * (h mod 10)) + word_of_nat (s mod 10)"
proof -
  have f: "w16 (flagc c) = word_of_nat (unat (flagc c))" "unat (flagc c) \<le> 1"
    using flag_nat [OF assms(1)] by auto
  note t = digit_sum [OF s f(2)]
  note b = bcd_nibbles [OF assms(3)] bcd_nibbles [OF assms(4)]
  show "(w16 (A c) AND 0x0F) + (w16 (bcd n) AND 0x0F) + w16 (flagc c) = word_of_nat s"
    unfolding assms(2) b f(1) s by (simp only: of_nat_add)
  show "drop_bit 4 (w16 (A c)) + drop_bit 4 (w16 (bcd n)) + (if 10 \<le> s then 1 else 0) = word_of_nat h"
    unfolding assms(2) b h by (cases "10 \<le> s") simp_all
  show "(w16 (A c) AND 0xF0) + (w16 (bcd n) AND 0xF0) = word_of_nat (16 * (m div 10 + n div 10))"
    unfolding assms(2) b by (simp add: algebra_simps)
  show "s < 20" by (rule t(3))
  have "m div 10 \<le> 9" "n div 10 \<le> 9" using assms(3,4) by auto
  then show "h < 20" by (simp add: h)
  show "10 \<le> h \<longleftrightarrow> 100 \<le> m + n + unat (flagc c)"
    using t(2) h by linarith
  show "bcd ((m + n + unat (flagc c)) mod 100) = word_of_nat (16 * (h mod 10)) + word_of_nat (s mod 10)"
    by (simp only: bcd_mod_100 t(1) t(2) [folded h])
qed

lemma adc_cmos_digits:
  assumes "PS c AND AF_DECIMAL \<noteq> 0"
    and low: "(w16 (A c) AND 0x0F) + (t AND 0x0F) + w16 (flagc c) = word_of_nat s" "s < 20"
    and high: "(w16 (A c) AND 0xF0) + (t AND 0xF0) = word_of_nat (16 * k)"
      "h = k + (if 10 \<le> s then 1 else 0)" "h < 20"
  shows "A (adc_cmos_body t c) = word_of_nat (16 * (h mod 10)) + word_of_nat (s mod 10)"
    and "flagc (adc_cmos_body t c) = b2w (10 \<le> h)"
proof -
  let ?low = "if word_of_nat s \<ge> (0x0A :: u16) then 0x10 OR ((word_of_nat s + 6) AND 0x0f) else (word_of_nat s :: u16)"
  have l: "?low = word_of_nat (s mod 10 + 16 * (if 10 \<le> s then 1 else 0))"
    using less_20_cases [OF low(2)] by (elim insertE emptyE) (simp_all add: word_le_nat_alt)
  define v where "v = 16 * h + s mod 10"
  have v: "?low + word_of_nat (16 * k) = word_of_nat v"
    unfolding l v_def high(2) of_nat_add [symmetric] by (simp add: algebra_simps)
  have d: "s mod 10 < 10" by simp
  have u: "unat (word_of_nat v :: u16) = v" using high(3) d by (intro unat_word_of_nat) (simp add: v_def)
  have c: "word_of_nat v \<ge> (0xA0 :: u16) \<longleftrightarrow> 10 \<le> h"
  proof -
    have "160 \<le> v \<longleftrightarrow> 10 \<le> h" using d unfolding v_def by linarith
    then show ?thesis by (simp add: word_le_nat_alt u)
  qed
  note m = mod_10_below_20 [OF high(3)]
  have r: "lo8 (if 10 \<le> h then word_of_nat v + 0x60 else word_of_nat v) =
      word_of_nat (16 * (h mod 10)) + word_of_nat (s mod 10)"
  proof (cases "10 \<le> h")
    case True
    then have "v + 0x60 = 16 * (h mod 10) + s mod 10 + 256" by (simp add: m v_def)
    then have "lo8 (word_of_nat (v + 0x60)) = word_of_nat (16 * (h mod 10) + s mod 10 + 256)"
      by (simp only: lo8_of_nat)
    moreover have "(word_of_nat 256 :: u8) = 0" by (simp add: word_unat_eq_iff)
    ultimately show ?thesis using True by (simp only: of_nat_add) simp
  qed (simp add: m v_def lo8_of_nat flip: of_nat_add of_nat_mult)
  show "A (adc_cmos_body t c) = word_of_nat (16 * (h mod 10)) + word_of_nat (s mod 10)"
    unfolding r [symmetric] using assms(1)
    by (cases "10 \<le> h") (simp_all only: adc_cmos_body_def Let_def low(1) v high(1) c, simp_all)
  show "flagc (adc_cmos_body t c) = b2w (10 \<le> h)"
    using assms(1) by (cases "10 \<le> h") (simp_all only: adc_cmos_body_def Let_def low(1) v high(1) c, simp_all)
qed

lemma adc_decimal_adds:
  assumes "PS c AND AF_DECIMAL \<noteq> 0" "flagc c \<le> 1" "A c = bcd m" "m < 100" "n < 100"
  shows "decimal_adds m n c (adc_nmos_body (w16 (bcd n)) c)"
    and "decimal_adds m n c (adc_cmos_body (w16 (bcd n)) c)"
proof -
  note d = bcd_digit_sums [OF assms(2-5) refl refl]
  show "decimal_adds m n c (adc_nmos_body (w16 (bcd n)) c)"
    using adc_nmos_digits [OF assms(1) d(1,4,2,5)] by (simp only: decimal_adds_def Let_def d(6,7))
  show "decimal_adds m n c (adc_cmos_body (w16 (bcd n)) c)"
    using adc_cmos_digits [OF assms(1) d(1,4,3) refl d(5)] by (simp only: decimal_adds_def Let_def d(6,7))
qed

lemma sbc_nmos_digits:
  assumes "PS c AND AF_DECIMAL \<noteq> 0"
    and low: "(w16 (A c) AND 0x0F) - (t AND 0x0F) - (if flagc c = 0 then 1 else 0) = word_of_nat s - 10" "s < 20"
    and high: "drop_bit 4 (w16 (A c)) - drop_bit 4 t - (if s < 10 then 1 else 0) = word_of_nat h - 10" "h < 20"
  shows "A (sbc_nmos_body t c) = word_of_nat (16 * (h mod 10)) + word_of_nat (s mod 10)"
    and "flagc (sbc_nmos_body t c) = b2w (10 \<le> h)"
proof -
  define adj where "adj v = (if v AND 0x10 \<noteq> 0 then v - 0x06 else v)" for v :: u16
  have x: "adj (word_of_nat k - 10) AND 0x10 = (if k < 10 then 0x10 else 0)"
    and y: "adj (word_of_nat k - 10) AND 0x0F = word_of_nat (k mod 10)" if "k < 20" for k
    using less_20_cases [OF that] unfolding adj_def by (elim insertE emptyE; simp)+
  have z: "drop_bit 4 (adj (word_of_nat s - 10) AND 0x10) = (if s < 10 then 1 else 0)"
    by (simp add: x [OF low(2)])
  have 1: "A (sbc_nmos_body t c) = lo8 (push_bit 4 (adj (word_of_nat h - 10)) OR (adj (word_of_nat s - 10) AND 0x0F))"
    and 2: "flagc (sbc_nmos_body t c) = b2w (adj (word_of_nat h - 10) AND 0x10 = 0)"
    using assms(1) unfolding sbc_nmos_body_def Let_def low(1) adj_def [symmetric] z high(1)
    by simp_all
  show "A (sbc_nmos_body t c) = word_of_nat (16 * (h mod 10)) + word_of_nat (s mod 10)"
    unfolding 1 by (rule join_digits [OF y [OF high(2)] y [OF low(2)]])
  show "flagc (sbc_nmos_body t c) = b2w (10 \<le> h)"
    unfolding 2 x [OF high(2)] by simp
qed

lemma sbc_cmos_digits:
  assumes "PS c AND AF_DECIMAL \<noteq> 0"
    and low: "0x0F + (w16 (A c) AND 0x0F) - (t AND 0x0F) + w16 (flagc c) = word_of_nat (s + 6)" "s < 20"
    and high: "0xF0 + (w16 (A c) AND 0xF0) - (t AND 0xF0) = word_of_nat (16 * (k + 6))"
      "h = k + (if 10 \<le> s then 1 else 0)" "h < 20"
  shows "A (sbc_cmos_body t c) = word_of_nat (16 * (h mod 10)) + word_of_nat (s mod 10)"
    and "flagc (sbc_cmos_body t c) = b2w (10 \<le> h)"
proof -
  have l: "word_of_nat (s + 6) < (0x10 :: u16) \<longleftrightarrow> s < 10"
    using less_20_cases [OF low(2)] by (elim insertE emptyE) simp_all
  have ld: "(if s < 10 then word_of_nat (s + 6) - 6 else word_of_nat (s + 6) - 0x10) = (word_of_nat (s mod 10) :: u16)"
    using less_20_cases [OF low(2)] by (elim insertE emptyE) simp_all
  have v: "(if s < 10 then 0 else 0x10) + word_of_nat (16 * (k + 6)) = (word_of_nat (16 * (h + 6)) :: u16)"
    by (simp add: high(2) algebra_simps)
  have u: "unat (word_of_nat (16 * (h + 6)) :: u16) = 16 * (h + 6)"
    using high(3) by (intro unat_word_of_nat) simp
  have c: "word_of_nat (16 * (h + 6)) < (0x100 :: u16) \<longleftrightarrow> \<not> 10 \<le> h"
    by (simp only: word_less_nat_alt u) auto
  note m = mod_10_below_20 [OF high(3)]
  have r: "lo8 ((if 10 \<le> h then word_of_nat (16 * (h + 6)) else word_of_nat (16 * (h + 6)) - 0x60) + word_of_nat (s mod 10))
      = word_of_nat (16 * (h mod 10)) + word_of_nat (s mod 10)"
  proof (cases "10 \<le> h")
    case True
    then have "16 * (h + 6) = 16 * (h mod 10) + 256" by (simp add: m)
    moreover have "(word_of_nat 256 :: u8) = 0" by (simp add: word_unat_eq_iff)
    ultimately show ?thesis using True
      by (simp only: lo8_plus if_True lo8_of_nat of_nat_add) simp
  next
    case False
    have "(word_of_nat (16 * (h + 6)) - 0x60 :: u16) = word_of_nat (16 * h)"
      by (simp add: algebra_simps)
    then show ?thesis using False
      by (simp only: m if_False lo8_plus lo8_of_nat)
  qed
  show "A (sbc_cmos_body t c) = word_of_nat (16 * (h mod 10)) + word_of_nat (s mod 10)"
  proof -
    define L K H :: u16 where "L = word_of_nat (s + 6)" and "K = word_of_nat (16 * (k + 6))"
      and "H = word_of_nat (16 * (h + 6))"
    note f = L_def [symmetric] K_def [symmetric] H_def [symmetric]
    show ?thesis
      unfolding r [symmetric] ld [symmetric] f using assms(1) v [unfolded f]
      by (cases "10 \<le> h"; cases "s < 10")
        (simp_all add: sbc_cmos_body_def Let_def low(1) [unfolded f] l [unfolded f] high(1) [unfolded f]
          c [unfolded f])
  qed
  show "flagc (sbc_cmos_body t c) = b2w (10 \<le> h)"
    using assms(1) v c by (cases "10 \<le> h"; cases "s < 10")
      (simp_all add: sbc_cmos_body_def Let_def low(1) l high(1) del: of_nat_add of_nat_mult)
qed

text \<open>Subtracting \<open>n\<close> is adding its nines' complement \<open>99 - n\<close>, digit by digit.\<close>

lemma bcd_digit_differences:
  assumes "flagc c \<le> 1" "A c = bcd m" "m < 100" "n < 100"
    and s: "s = m mod 10 + (99 - n) mod 10 + unat (flagc c)"
    and k: "k = m div 10 + (99 - n) div 10"
    and h: "h = k + (if 10 \<le> s then 1 else 0)"
  shows "(w16 (A c) AND 0x0F) - (w16 (bcd n) AND 0x0F) - (if flagc c = 0 then 1 else 0) = word_of_nat s - 10"
    and "drop_bit 4 (w16 (A c)) - drop_bit 4 (w16 (bcd n)) - (if s < 10 then 1 else 0) = word_of_nat h - 10"
    and "0x0F + (w16 (A c) AND 0x0F) - (w16 (bcd n) AND 0x0F) + w16 (flagc c) = word_of_nat (s + 6)"
    and "0xF0 + (w16 (A c) AND 0xF0) - (w16 (bcd n) AND 0xF0) = word_of_nat (16 * (k + 6))"
    and "s < 20" "h < 20" "10 \<le> h \<longleftrightarrow> 100 \<le> m + unat (flagc c) + 99 - n"
    and "bcd ((m + unat (flagc c) + 99 - n) mod 100) = word_of_nat (16 * (h mod 10)) + word_of_nat (s mod 10)"
proof -
  have f: "w16 (flagc c) = word_of_nat (unat (flagc c))" "unat (flagc c) \<le> 1"
    using flag_nat [OF assms(1)] by auto
  note t = digit_sum [OF s f(2)]
  note b = bcd_nibbles [OF assms(3)] bcd_nibbles [OF assms(4)]
  have n9: "n mod 10 \<le> 9" "n div 10 \<le> 9" "m div 10 \<le> 9" using assms(3,4) by auto
  have c9: "99 - n = 10 * (9 - n div 10) + (9 - n mod 10)"
    using n9 div_mult_mod_eq [of n 10] by linarith
  have d: "(99 - n) mod 10 = 9 - n mod 10" "(99 - n) div 10 = 9 - n div 10"
    using n9 by (simp_all only: c9 mod_mult_self4 div_mult_self4 [OF numeral_neq_zero]) simp_all
  have w: "word_of_nat ((99 - n) mod 10) = (9 - word_of_nat (n mod 10) :: u16)"
    "word_of_nat ((99 - n) div 10) = (9 - word_of_nat (n div 10) :: u16)"
    unfolding d using n9 by (simp_all add: of_nat_diff)
  have fc: "(if flagc c = 0 then 1 else 0) = (1 - word_of_nat (unat (flagc c)) :: u16)"
    using flag_cases [OF assms(1)] by auto
  show "(w16 (A c) AND 0x0F) - (w16 (bcd n) AND 0x0F) - (if flagc c = 0 then 1 else 0) = word_of_nat s - 10"
    unfolding assms(2) b fc s of_nat_add w by simp
  show "drop_bit 4 (w16 (A c)) - drop_bit 4 (w16 (bcd n)) - (if s < 10 then 1 else 0) = word_of_nat h - 10"
    unfolding assms(2) b h k of_nat_add w by (cases "10 \<le> s") simp_all
  show "0x0F + (w16 (A c) AND 0x0F) - (w16 (bcd n) AND 0x0F) + w16 (flagc c) = word_of_nat (s + 6)"
    unfolding assms(2) b f(1) s of_nat_add w by simp
  show "0xF0 + (w16 (A c) AND 0xF0) - (w16 (bcd n) AND 0xF0) = word_of_nat (16 * (k + 6))"
    unfolding assms(2) b k of_nat_add of_nat_mult w by (simp add: algebra_simps)
  show "s < 20" by (rule t(3))
  have "k \<le> 18" unfolding k d using n9 by linarith
  then show "h < 20" by (simp add: h)
  have e: "m + unat (flagc c) + 99 - n = m + (99 - n) + unat (flagc c)" using assms(4) by simp
  show "10 \<le> h \<longleftrightarrow> 100 \<le> m + unat (flagc c) + 99 - n"
    unfolding e using t(2) h k by linarith
  show "bcd ((m + unat (flagc c) + 99 - n) mod 100) = word_of_nat (16 * (h mod 10)) + word_of_nat (s mod 10)"
    by (simp only: e bcd_mod_100 t(1) t(2) [folded k] h)
qed

lemma sbc_decimal_subtracts:
  assumes "PS c AND AF_DECIMAL \<noteq> 0" "flagc c \<le> 1" "A c = bcd m" "m < 100" "n < 100"
  shows "decimal_subtracts m n c (sbc_nmos_body (w16 (bcd n)) c)"
    and "decimal_subtracts m n c (sbc_cmos_body (w16 (bcd n)) c)"
proof -
  note d = bcd_digit_differences [OF assms(2-5) refl refl refl]
  show "decimal_subtracts m n c (sbc_nmos_body (w16 (bcd n)) c)"
    using sbc_nmos_digits [OF assms(1) d(1,5,2,6)] by (simp only: decimal_subtracts_def Let_def d(7,8))
  show "decimal_subtracts m n c (sbc_cmos_body (w16 (bcd n)) c)"
    using sbc_cmos_digits [OF assms(1) d(3,5,4) refl d(6)] by (simp only: decimal_subtracts_def Let_def d(7,8))
qed


text \<open>In the decimal witness the accumulator holds 58 and the byte at 0x2000 is 46; carry is set.\<close>

definition decimal_cpu :: "unit cpu" where
  "decimal_cpu = mach_update (store_at (MemImage, 0) 0x2000 0x46) (set_ps 0x38 (set_a 0x58 blank_cpu))"


end
