(* ===== verification/Memory_State.thy ===== *)
theory Memory_State
  imports Machine
begin

text \<open>
  The state of the memory unit and the video circuits (\<open>MemoryInstance\<close> of
  \<open>src/apple2/Memory.h\<close>, the static variables of \<open>Memory.cpp\<close>, \<open>Video.cpp\<close> and
  \<open>SwitchInputs.cpp\<close>) as an extension of the machine's globals, and the soft switches.

  The seven buffers are allocated and freed together (\<open>mem_initialize\<close>,
  \<open>mem_destroy\<close>), so one flag, \<open>mem_null\<close>, says whether the pointers to them are null;
  \<open>mem\<close> is the buffer \<open>memimage\<close> whenever it is not null.  A handler in the I/O
  tables is a function pointer: here the name of the handler, with \<open>card_fn\<close> for a
  function a peripheral registered.
\<close>

datatype expansion_rom_kind = EXP_ROM_NULL | EXP_ROM_INTERNAL | EXP_ROM_PERIPHERAL

datatype io_handler = io_null_fn
  | io_read_c00x_fn | io_read_c01x_fn | io_read_c02x_fn | io_read_c03x_fn
  | io_read_c04x_fn | io_read_c05x_fn | io_read_c06x_fn | io_read_c07x_fn
  | io_write_c00x_fn | io_write_c01x_fn | io_write_c02x_fn | io_write_c03x_fn
  | io_write_c04x_fn | io_write_c05x_fn | io_write_c06x_fn | io_write_c07x_fn
  | io_read_cxxx_fn | io_write_cxxx_fn | mem_set_paging_fn | card_fn nat

record switch_inputs =
  keyboard_closed :: "bool list"
  connector_closed :: "bool list"
  plug_pulldowns :: u8
  shift_key_mod :: bool
  apple2e :: bool
  keyboard_present :: bool
  override_pulldowns :: int

record memory = machine +
  memshadow :: "nat \<Rightarrow> ptr option"
  io_read :: "nat \<Rightarrow> io_handler option"
  io_write :: "nat \<Rightarrow> io_handler option"
  slot_parameters :: "nat \<Rightarrow> nat option"
  last_write_ram :: bool
  mem_mode :: u32
  mode_changing :: bool
  expansion_rom_type :: expansion_rom_kind
  peripheral_rom_slot :: nat
  io_select :: u8
  io_select_internal_rom :: u8
  expansion_rom :: "nat \<Rightarrow> (nat \<Rightarrow> u8) option"
  bm_slot_init :: u8
  switch_inputs_state :: switch_inputs

record video = memory +
  video_mode :: u32
  alt_char_set_offset :: int
  displaypage2 :: bool
  graphicsmode :: bool
  redrawfull :: bool
  refresh_requests :: nat
  text_flash_state :: bool
  text_flash_flag :: bool
  text_flash_cnt :: u32
  video_cycles_in_frame :: u32
  clks_per_frame :: u32
  video_scanner_ntsc :: bool

subsection \<open>Memory mode flags\<close>

abbreviation (input) "MF_80STORE \<equiv> (0x00000001 :: u32)"
abbreviation (input) "MF_ALTZP \<equiv> (0x00000002 :: u32)"
abbreviation (input) "MF_AUXREAD \<equiv> (0x00000004 :: u32)"
abbreviation (input) "MF_AUXWRITE \<equiv> (0x00000008 :: u32)"
abbreviation (input) "MF_HRAM_BANK2 \<equiv> (0x00000010 :: u32)"
abbreviation (input) "MF_HIGHRAM \<equiv> (0x00000020 :: u32)"
abbreviation (input) "MF_HIRES \<equiv> (0x00000040 :: u32)"
abbreviation (input) "MF_PAGE2 \<equiv> (0x00000080 :: u32)"
abbreviation (input) "MF_SLOTC3ROM \<equiv> (0x00000100 :: u32)"
abbreviation (input) "MF_SLOTCXROM \<equiv> (0x00000200 :: u32)"
abbreviation (input) "MF_HRAM_WRITE \<equiv> (0x00000400 :: u32)"

abbreviation (input) "PAGE_SIZE \<equiv> (0x100 :: nat)"
abbreviation (input) "FIRMWARE_EXPANSION_BEGIN \<equiv> (0xC800 :: nat)"
abbreviation (input) "FIRMWARE_EXPANSION_SIZE \<equiv> (0x800 :: nat)"
abbreviation (input) "num_slots \<equiv> (8 :: nat)"

definition sw_80store :: "'a memory_scheme \<Rightarrow> bool" where
  "sw_80store m = (mem_mode m AND MF_80STORE \<noteq> 0)"

definition sw_altzp :: "'a memory_scheme \<Rightarrow> bool" where
  "sw_altzp m = (mem_mode m AND MF_ALTZP \<noteq> 0)"

definition sw_auxread :: "'a memory_scheme \<Rightarrow> bool" where
  "sw_auxread m = (mem_mode m AND MF_AUXREAD \<noteq> 0)"

definition sw_auxwrite :: "'a memory_scheme \<Rightarrow> bool" where
  "sw_auxwrite m = (mem_mode m AND MF_AUXWRITE \<noteq> 0)"

definition sw_hram_bank2 :: "'a memory_scheme \<Rightarrow> bool" where
  "sw_hram_bank2 m = (mem_mode m AND MF_HRAM_BANK2 \<noteq> 0)"

definition sw_highram :: "'a memory_scheme \<Rightarrow> bool" where
  "sw_highram m = (mem_mode m AND MF_HIGHRAM \<noteq> 0)"

definition sw_hires :: "'a memory_scheme \<Rightarrow> bool" where
  "sw_hires m = (mem_mode m AND MF_HIRES \<noteq> 0)"

definition sw_page2 :: "'a memory_scheme \<Rightarrow> bool" where
  "sw_page2 m = (mem_mode m AND MF_PAGE2 \<noteq> 0)"

definition sw_slotc3rom :: "'a memory_scheme \<Rightarrow> bool" where
  "sw_slotc3rom m = (mem_mode m AND MF_SLOTC3ROM \<noteq> 0)"

definition sw_slotcxrom :: "'a memory_scheme \<Rightarrow> bool" where
  "sw_slotcxrom m = (mem_mode m AND MF_SLOTCXROM \<noteq> 0)"

definition sw_hram_write :: "'a memory_scheme \<Rightarrow> bool" where
  "sw_hram_write m = (mem_mode m AND MF_HRAM_WRITE \<noteq> 0)"

lemmas switch_defs = sw_80store_def sw_altzp_def sw_auxread_def sw_auxwrite_def sw_hram_bank2_def
  sw_highram_def sw_hires_def sw_page2_def sw_slotc3rom_def sw_slotcxrom_def sw_hram_write_def

definition mem_get_80store :: "'a memory_scheme \<Rightarrow> bool" where
  "mem_get_80store m = sw_80store m"

definition mem_check_slotcxrom :: "'a memory_scheme \<Rightarrow> bool" where
  "mem_check_slotcxrom m = sw_slotcxrom m"

definition get_mem_mode :: "'a memory_scheme \<Rightarrow> u32" where
  "get_mem_mode m = mem_mode m"

definition set_mem_mode :: "u32 \<Rightarrow> 'a memory_scheme \<Rightarrow> 'a memory_scheme" where
  "set_mem_mode new_mem_mode m = m\<lparr>mem_mode := new_mem_mode\<rparr>"

subsection \<open>Block copies in the store\<close>

definition mem_copy :: "ptr \<Rightarrow> ptr \<Rightarrow> nat \<Rightarrow> 'a machine_scheme \<Rightarrow> 'a machine_scheme" where
  "mem_copy dst src n m =
     m\<lparr>heap := (heap m)(fst dst := (\<lambda>j. if snd dst \<le> j \<and> j < snd dst + n
                 then heap m (fst src) (snd src + (j - snd dst)) else heap m (fst dst) j))\<rparr>"

definition mem_put :: "ptr \<Rightarrow> (nat \<Rightarrow> u8) \<Rightarrow> nat \<Rightarrow> 'a machine_scheme \<Rightarrow> 'a machine_scheme" where
  "mem_put dst src n m =
     m\<lparr>heap := (heap m)(fst dst := (\<lambda>j. if snd dst \<le> j \<and> j < snd dst + n
                 then src (j - snd dst) else heap m (fst dst) j))\<rparr>"

definition mem_fill :: "ptr \<Rightarrow> u8 \<Rightarrow> nat \<Rightarrow> 'a machine_scheme \<Rightarrow> 'a machine_scheme" where
  "mem_fill dst v n m = mem_put dst (\<lambda>_. v) n m"

subsection \<open>The game-port switch inputs\<close>

abbreviation (input) "switch_input_count \<equiv> (3 :: nat)"
abbreviation (input) "shift_mod_line \<equiv> (2 :: nat)"
abbreviation (input) "override_none \<equiv> (- 1 :: int)"

datatype switch_input_source = switch_source_keyboard | switch_source_connector

definition switch_inputs_reset_configuration :: "bool \<Rightarrow> bool \<Rightarrow> switch_inputs" where
  "switch_inputs_reset_configuration is_2e present =
     \<lparr>keyboard_closed = replicate switch_input_count False,
      connector_closed = replicate switch_input_count False,
      plug_pulldowns = 0, shift_key_mod = False, apple2e = is_2e, keyboard_present = present,
      override_pulldowns = override_none\<rparr>"

definition switch_inputs_set_level ::
  "nat \<Rightarrow> switch_input_source \<Rightarrow> bool \<Rightarrow> switch_inputs \<Rightarrow> switch_inputs" where
  "switch_inputs_set_level line source closed s =
     (if line \<ge> switch_input_count then s
      else case source of
             switch_source_keyboard \<Rightarrow> s\<lparr>keyboard_closed := (keyboard_closed s)[line := closed]\<rparr>
           | switch_source_connector \<Rightarrow> s\<lparr>connector_closed := (connector_closed s)[line := closed]\<rparr>)"

definition switch_inputs_set_connector_pulldowns :: "u8 \<Rightarrow> switch_inputs \<Rightarrow> switch_inputs" where
  "switch_inputs_set_connector_pulldowns pulls s = s\<lparr>plug_pulldowns := pulls AND 0x07\<rparr>"

definition switch_inputs_set_shift_key_mod :: "bool \<Rightarrow> switch_inputs \<Rightarrow> switch_inputs" where
  "switch_inputs_set_shift_key_mod jumper_in s = s\<lparr>shift_key_mod := jumper_in\<rparr>"

definition switch_inputs_override_pulldowns :: "int \<Rightarrow> switch_inputs \<Rightarrow> switch_inputs" where
  "switch_inputs_override_pulldowns pulls s =
     s\<lparr>override_pulldowns := (if pulls < 0 then override_none else pulls AND 0x07)\<rparr>"

definition switch_inputs_pulldowns :: "switch_inputs \<Rightarrow> u8" where
  "switch_inputs_pulldowns s =
     (if override_pulldowns s \<noteq> override_none then word_of_int (override_pulldowns s)
      else if apple2e s \<and> keyboard_present s then plug_pulldowns s OR 0x03
      else plug_pulldowns s)"

definition switch_inputs_level :: "nat \<Rightarrow> switch_inputs \<Rightarrow> bool" where
  "switch_inputs_level line s =
     (if line \<ge> switch_input_count then False
      else if line = shift_mod_line \<and> shift_key_mod s then \<not> keyboard_closed s ! line
      else if (if line = shift_mod_line then connector_closed s ! line
               else keyboard_closed s ! line \<or> connector_closed s ! line) then True
      else switch_inputs_pulldowns s AND push_bit line 1 = 0)"

end
