(* ===== verification/Video_Circuits.thy ===== *)
theory Video_Circuits
  imports Memory_State "HOL-Library.While_Combinator"
begin

text \<open>
  The video circuits the processor can observe (\<open>src/apple2/Video.cpp\<close>): mode soft
  switches, the scanner that decides which byte is on the floating bus, the blanking signals
  and the flash counter.  Drawing is not modelled: \<open>video_refresh_screen\<close> counts the
  requests for a redraw, which a worker thread may serve later; a redraw reads memory and
  clears only the renderer's own bit of the dirty flags.
\<close>

abbreviation (input) "VF_80COL \<equiv> (0x01 :: u32)"
abbreviation (input) "VF_DHIRES \<equiv> (0x02 :: u32)"
abbreviation (input) "VF_HIRES \<equiv> (0x04 :: u32)"
abbreviation (input) "VF_MASK2 \<equiv> (0x08 :: u32)"
abbreviation (input) "VF_MIXED \<equiv> (0x10 :: u32)"
abbreviation (input) "VF_PAGE2 \<equiv> (0x20 :: u32)"
abbreviation (input) "VF_TEXT \<equiv> (0x40 :: u32)"

abbreviation (input) "h_clock_0_state \<equiv> (0x18 :: int)"
abbreviation (input) "h_clocks \<equiv> (65 :: int)"
abbreviation (input) "h_pe_clock \<equiv> (40 :: int)"
abbreviation (input) "h_preset_clock \<equiv> (41 :: int)"
abbreviation (input) "ntsc_scan_lines \<equiv> (262 :: int)"
abbreviation (input) "pal_scan_lines \<equiv> (312 :: int)"
abbreviation (input) "v_line_0_state \<equiv> (0x100 :: int)"
abbreviation (input) "v_preset_line \<equiv> (256 :: int)"

definition video_get_sw_80col :: "'a video_scheme \<Rightarrow> bool" where
  "video_get_sw_80col m = (video_mode m AND VF_80COL \<noteq> 0)"

definition video_get_sw_dhires :: "'a video_scheme \<Rightarrow> bool" where
  "video_get_sw_dhires m = (video_mode m AND VF_DHIRES \<noteq> 0)"

definition video_get_sw_hires :: "'a video_scheme \<Rightarrow> bool" where
  "video_get_sw_hires m = (video_mode m AND VF_HIRES \<noteq> 0)"

definition video_get_sw_80store :: "'a video_scheme \<Rightarrow> bool" where
  "video_get_sw_80store m = (video_mode m AND VF_MASK2 \<noteq> 0)"

definition video_get_sw_mixed :: "'a video_scheme \<Rightarrow> bool" where
  "video_get_sw_mixed m = (video_mode m AND VF_MIXED \<noteq> 0)"

definition video_get_sw_page2 :: "'a video_scheme \<Rightarrow> bool" where
  "video_get_sw_page2 m = (video_mode m AND VF_PAGE2 \<noteq> 0)"

definition video_get_sw_text :: "'a video_scheme \<Rightarrow> bool" where
  "video_get_sw_text m = (video_mode m AND VF_TEXT \<noteq> 0)"

definition video_get_sw_alt_charset :: "'a video_scheme \<Rightarrow> bool" where
  "video_get_sw_alt_charset m = (alt_char_set_offset m \<noteq> 0)"

lemmas video_switch_defs = video_get_sw_80col_def video_get_sw_dhires_def video_get_sw_hires_def
  video_get_sw_80store_def video_get_sw_mixed_def video_get_sw_page2_def video_get_sw_text_def

subsection \<open>The scanner\<close>

definition frame_position :: "u32 \<Rightarrow> 'a video_scheme \<Rightarrow> int" where
  "frame_position executed m = uint ((video_cycles_in_frame m + executed) mod clks_per_frame m)"

definition h_state_at :: "int \<Rightarrow> int" where
  "h_state_at cycles =
     (let h_clock = (cycles + h_pe_clock) mod h_clocks;
          h_state = h_clock_0_state + h_clock
      in if h_clock \<ge> h_preset_clock then h_state - 1 else h_state)"

definition v_state_at :: "bool \<Rightarrow> int \<Rightarrow> int" where
  "v_state_at ntsc cycles =
     (let scan_lines = (if ntsc then ntsc_scan_lines else pal_scan_lines);
          v_line = cycles div h_clocks;
          v_state = v_line_0_state + v_line
      in if v_line \<ge> v_preset_line then v_state - scan_lines else v_state)"

definition state_bit :: "int \<Rightarrow> nat \<Rightarrow> int" where
  "state_bit s k = drop_bit k s AND 1"

definition address_sum :: "int \<Rightarrow> int \<Rightarrow> int" where
  "address_sum h v =
     (let addend1 = push_bit 5 (state_bit h 5) OR push_bit 4 (state_bit h 4)
                      OR push_bit 3 (state_bit h 3);
          addend2 = push_bit 6 (state_bit v 7) OR push_bit 5 (state_bit v 6)
                      OR push_bit 4 (state_bit v 7) OR push_bit 3 (state_bit v 6)
      in (0x68 + addend1 + addend2) AND 0x78)"

definition video_get_scanner_address :: "u32 \<Rightarrow> 'a video_scheme \<Rightarrow> u16 \<times> bool option" where
  "video_get_scanner_address executed m =
     (if clks_per_frame m = 0 then (0, None)
      else
        let cycles = frame_position executed m;
            hires = video_get_sw_hires m \<and> \<not> video_get_sw_text m;
            page2 = (if video_get_sw_page2 m then 1 else 0);
            n80Store = (if mem_get_80store m then 1 else 0);
            h_clock = (cycles + h_pe_clock) mod h_clocks;
            h = h_state_at cycles;
            v = v_state_at (video_scanner_ntsc m) cycles;
            hires = (if video_get_sw_hires m \<and> video_get_sw_mixed m
                         \<and> state_bit v 7 AND state_bit v 5 \<noteq> 0
                     then False else hires);
            second = page2 AND (1 XOR n80Store);
            address = state_bit h 0 OR push_bit 1 (state_bit h 1) OR push_bit 2 (state_bit h 2)
              OR address_sum h v
              OR push_bit 7 (state_bit v 3) OR push_bit 8 (state_bit v 4)
              OR push_bit 9 (state_bit v 5)
              OR push_bit 10 (if hires then state_bit v 0 else 1 XOR second)
              OR push_bit 11 (if hires then state_bit v 1 else second);
            address = (if hires then address OR push_bit 12 (state_bit v 2)
                            OR push_bit 13 (1 XOR second) OR push_bit 14 second
                       else if is_apple2 m \<and> h_pe_clock \<le> h_clock \<and> h_clock \<le> h_clocks - 1
                       then address OR push_bit 12 1 else address);
            vbl_bar = (state_bit v 7 AND state_bit v 6 = 0)
        in (word_of_int address, Some vbl_bar))"

definition video_get_vbl :: "u32 \<Rightarrow> 'a video_scheme \<Rightarrow> bool" where
  "video_get_vbl executed m =
     (if clks_per_frame m = 0 then False else frame_position executed m \<ge> 12480)"

text \<open>
  \<open>Memory.cpp\<close>: the byte the scanner is fetching is what an undriven read returns; the second
  form replaces its top bit.
\<close>

definition mem_read_floating_bus :: "u32 \<Rightarrow> 'a video_scheme \<Rightarrow> u8" where
  "mem_read_floating_bus executed m =
     (if mem_null m then 0xFF else rd m (unat (fst (video_get_scanner_address executed m))))"

definition mem_read_floating_bus_high :: "u8 \<Rightarrow> u32 \<Rightarrow> 'a video_scheme \<Rightarrow> u8" where
  "mem_read_floating_bus_high highbit executed m =
     (let r = (if mem_null m then 0xFF else rd m (unat (fst (video_get_scanner_address executed m))))
      in (r AND NOT 0x80) OR (if highbit \<noteq> 0 then 0x80 else 0))"

subsection \<open>Mode switches\<close>

definition video_refresh_screen :: "'a video_scheme \<Rightarrow> 'a video_scheme" where
  "video_refresh_screen m = m\<lparr>refresh_requests := refresh_requests m + 1\<rparr>"

definition video_check_mode :: "'a video_ext memory_ext io_fun" where
  "video_check_mode pc address write d executed m =
     (let address = address AND 0xFF in
      if address = 0x7F
      then (mem_read_floating_bus_high (if video_get_sw_dhires m then 1 else 0) executed m, m)
      else
        let result = (if address = 0x1A then video_get_sw_text m
                      else if address = 0x1B then video_get_sw_mixed m
                      else if address = 0x1D then video_get_sw_hires m
                      else if address = 0x1E then alt_char_set_offset m \<noteq> 0
                      else if address = 0x1F then video_get_sw_80col m
                      else False)
        in ((mem_read_floating_bus executed m AND 0x7F) OR (if result then 0x80 else 0), m))"

definition video_check_vbl :: "'a video_ext memory_ext io_fun" where
  "video_check_vbl pc address write d executed m =
     (let vbl_bar = (case snd (video_get_scanner_address executed m) of
                       None \<Rightarrow> False | Some b \<Rightarrow> b);
          r = mem_read_floating_bus executed m
      in ((r AND NOT 0x80) OR (if vbl_bar then 0x80 else 0), m))"

definition video_reset_state :: "'a video_scheme \<Rightarrow> 'a video_scheme" where
  "video_reset_state m =
     m\<lparr>alt_char_set_offset := 0, displaypage2 := False, video_mode := VF_TEXT,
       text_flash_state := False, text_flash_flag := False, text_flash_cnt := 0,
       redrawfull := True\<rparr>"

definition video_switch :: "u16 \<Rightarrow> 'a video_scheme \<Rightarrow> 'a video_scheme" where
  "video_switch address m =
     (let on = (\<lambda>flag. m\<lparr>video_mode := video_mode m OR flag\<rparr>);
          off = (\<lambda>flag. m\<lparr>video_mode := video_mode m AND NOT flag\<rparr>)
      in if address = 0x00 then off VF_MASK2
         else if address = 0x01 then on VF_MASK2
         else if address = 0x0C then (if \<not> is_apple2 m then off VF_80COL else m)
         else if address = 0x0D then (if \<not> is_apple2 m then on VF_80COL else m)
         else if address = 0x0E then (if \<not> is_apple2 m then m\<lparr>alt_char_set_offset := 0\<rparr> else m)
         else if address = 0x0F then (if \<not> is_apple2 m then m\<lparr>alt_char_set_offset := 256\<rparr> else m)
         else if address = 0x50 then off VF_TEXT
         else if address = 0x51 then on VF_TEXT
         else if address = 0x52 then off VF_MIXED
         else if address = 0x53 then on VF_MIXED
         else if address = 0x54 then off VF_PAGE2
         else if address = 0x55 then on VF_PAGE2
         else if address = 0x56 then off VF_HIRES
         else if address = 0x57 then on VF_HIRES
         else if address = 0x5E then (if \<not> is_apple2 m then on VF_DHIRES else m)
         else if address = 0x5F then (if \<not> is_apple2 m then off VF_DHIRES else m)
         else m)"

definition mode_signature :: "'a video_scheme \<Rightarrow> int" where
  "mode_signature m =
     alt_char_set_offset m + sint (video_mode m AND NOT (VF_MASK2 OR VF_PAGE2))"

definition video_set_mode :: "'a video_ext memory_ext io_fun" where
  "video_set_mode pc address write d executed m =
     (let address = address AND 0xFF;
          oldvalue = mode_signature m;
          m = video_switch address m;
          m = (if video_get_sw_80store m then m\<lparr>video_mode := video_mode m AND NOT VF_PAGE2\<rparr> else m);
          m = (if oldvalue \<noteq> mode_signature m
               then video_refresh_screen (m\<lparr>graphicsmode := \<not> video_get_sw_text m, redrawfull := True\<rparr>)
               else m);
          m = (if displaypage2 m \<noteq> video_get_sw_page2 m
               then video_refresh_screen (m\<lparr>displaypage2 := video_get_sw_page2 m, redrawfull := True\<rparr>)
               else m)
      in (mem_read_floating_bus executed m, m))"

subsection \<open>The frame\<close>

definition video_update_flash :: "'a video_scheme \<Rightarrow> 'a video_scheme" where
  "video_update_flash m =
     (let m = m\<lparr>text_flash_cnt := text_flash_cnt m + 1\<rparr>
      in if text_flash_cnt m = 60 div 6
         then let m = m\<lparr>text_flash_cnt := 0, text_flash_state := \<not> text_flash_state m\<rparr>
              in if video_get_sw_text m \<or> video_get_sw_mixed m then m\<lparr>text_flash_flag := True\<rparr> else m
         else m)"

definition video_end_frame :: "'a video_scheme \<Rightarrow> 'a video_scheme" where
  "video_end_frame m =
     video_update_flash (video_refresh_screen
       (m\<lparr>video_cycles_in_frame := video_cycles_in_frame m - clks_per_frame m\<rparr>))"

definition video_update_vbl :: "u32 \<Rightarrow> 'a video_scheme \<Rightarrow> 'a video_scheme option" where
  "video_update_vbl cycles_this_frame m =
     while_option (\<lambda>m. video_cycles_in_frame m \<ge> clks_per_frame m) video_end_frame
       (m\<lparr>video_cycles_in_frame := video_cycles_in_frame m + cycles_this_frame\<rparr>)"

subsection \<open>Snapshot\<close>

record ss_io_video =
  ss_alt_char_set :: u8
  ss_vid_mode :: u32

definition video_get_snapshot :: "'a video_scheme \<Rightarrow> ss_io_video" where
  "video_get_snapshot m =
     \<lparr>ss_alt_char_set = (if alt_char_set_offset m \<noteq> 0 then 1 else 0), ss_vid_mode = video_mode m\<rparr>"

definition video_set_snapshot :: "ss_io_video \<Rightarrow> 'a video_scheme \<Rightarrow> 'a video_scheme" where
  "video_set_snapshot ss m =
     (let m = m\<lparr>alt_char_set_offset := (if ss_alt_char_set ss = 0 then 0 else 256),
                video_mode := ss_vid_mode ss\<rparr>
      in m\<lparr>graphicsmode := \<not> video_get_sw_text m, displaypage2 := video_get_sw_page2 m\<rparr>)"

end
