(* ===== verification/Memory_Unit.thy ===== *)
theory Memory_Unit
  imports Video_Circuits Cpu_Exec
begin

text \<open>
  The memory unit (\<open>src/apple2/Memory.cpp\<close>): the page tables built from the mode flags,
  the soft switches that change them, the expansion ROM window, the I/O tables and the
  dispatcher the processor calls for addresses in \<open>C000-CFFF\<close>.

  The processor reads the 64K image \<open>mem\<close>.  \<open>memshadow[page]\<close> points at the page of the bank
  the image page stands for; when it changes, the image page is written back to the old bank
  if it is dirty and loaded from the new one.  \<open>memwrite[page]\<close> is where a write goes: into the
  image, into a bank that is not visible, or nowhere.
\<close>

subsection \<open>Page tables\<close>

definition mem_page :: "nat \<Rightarrow> ptr" where
  "mem_page page = (MemImage, page * PAGE_SIZE)"

definition aux_or_main :: "bool \<Rightarrow> nat \<Rightarrow> ptr" where
  "aux_or_main alt page = (if alt then MemAux else MemMain, page * PAGE_SIZE)"

definition set_pages :: "nat \<Rightarrow> nat \<Rightarrow> (nat \<Rightarrow> 'b) \<Rightarrow> (nat \<Rightarrow> 'b) \<Rightarrow> nat \<Rightarrow> 'b" where
  "set_pages lo hi g f = (\<lambda>page. if lo \<le> page \<and> page < hi then g page else f page)"

definition memwrite_initial :: "'a memory_scheme \<Rightarrow> 'a memory_scheme" where
  "memwrite_initial m =
     m\<lparr>memwrite := set_pages 0xC0 0xD0 (\<lambda>_. None)
                     (set_pages 0 0xC0 (\<lambda>page. Some (mem_page page)) (memwrite m))\<rparr>"

definition page_zero_tables :: "'a memory_scheme \<Rightarrow> 'a memory_scheme" where
  "page_zero_tables m =
     m\<lparr>memshadow := set_pages 0 2 (\<lambda>page. Some (aux_or_main (sw_altzp m) page)) (memshadow m)\<rparr>"

definition ram_tables :: "'a memory_scheme \<Rightarrow> 'a memory_scheme" where
  "ram_tables m =
     m\<lparr>memshadow := set_pages 2 0xC0 (\<lambda>page. Some (aux_or_main (sw_auxread m) page)) (memshadow m),
       memwrite := set_pages 2 0xC0
         (\<lambda>page. Some (if sw_auxread m = sw_auxwrite m then mem_page page
                       else aux_or_main (sw_auxwrite m) page)) (memwrite m)\<rparr>"

definition slot_rom_tables :: "'a memory_scheme \<Rightarrow> 'a memory_scheme" where
  "slot_rom_tables m =
     m\<lparr>memshadow := set_pages 0xC0 0xC8
         (\<lambda>page. let peripheral = (if page = 0xC3 then sw_slotc3rom m \<and> sw_slotcxrom m
                                   else sw_slotcxrom m)
                 in Some (if peripheral then CxRomPeripheral else CxRomInternal,
                          (page mod 16) * PAGE_SIZE)) (memshadow m)\<rparr>"

definition expansion_rom_tables :: "'a memory_scheme \<Rightarrow> 'a memory_scheme" where
  "expansion_rom_tables m =
     m\<lparr>memshadow := set_pages 0xC8 0xD0
         (\<lambda>page. Some (CxRomInternal, (page mod 16) * PAGE_SIZE)) (memshadow m)\<rparr>"

definition lc_ram :: "'a memory_scheme \<Rightarrow> nat \<Rightarrow> ptr" where
  "lc_ram m page =
     (let bankoffset = (if page < 0xE0 \<and> \<not> sw_hram_bank2 m then 0x1000 else 0)
      in (if sw_altzp m then MemAux else MemMain, page * PAGE_SIZE - bankoffset))"

definition language_card_tables :: "'a memory_scheme \<Rightarrow> 'a memory_scheme" where
  "language_card_tables m =
     m\<lparr>memshadow := set_pages 0xD0 0x100
         (\<lambda>page. Some (if sw_highram m then lc_ram m page
                       else (MemRom, (page - 0xD0) * PAGE_SIZE))) (memshadow m),
       memwrite := set_pages 0xD0 0x100
         (\<lambda>page. if \<not> sw_hram_write m then None
                 else if sw_highram m then Some (mem_page page)
                 else Some (lc_ram m page)) (memwrite m)\<rparr>"

definition display_tables :: "nat \<Rightarrow> nat \<Rightarrow> 'a memory_scheme \<Rightarrow> 'a memory_scheme" where
  "display_tables lo hi m =
     m\<lparr>memshadow := set_pages lo hi (\<lambda>page. Some (aux_or_main (sw_page2 m) page)) (memshadow m),
       memwrite := set_pages lo hi (\<lambda>page. Some (mem_page page)) (memwrite m)\<rparr>"

definition store80_tables :: "'a memory_scheme \<Rightarrow> 'a memory_scheme" where
  "store80_tables m =
     (if sw_80store m
      then let m = display_tables 0x04 0x08 m
           in if sw_hires m then display_tables 0x20 0x40 m else m
      else m)"

definition swap_page ::
  "bool \<Rightarrow> (nat \<Rightarrow> ptr option) \<Rightarrow> nat \<Rightarrow> 'a memory_scheme \<Rightarrow> 'a memory_scheme" where
  "swap_page initialize oldshadow page m =
     (if initialize \<or> oldshadow page \<noteq> memshadow m page
      then let m = (if \<not> initialize \<and> (memdirty m page AND 1 \<noteq> 0 \<or> page \<le> 1)
                    then let m = m\<lparr>memdirty := (memdirty m)(page := memdirty m page AND NOT 1)\<rparr>
                         in case oldshadow page of
                              None \<Rightarrow> m
                            | Some old \<Rightarrow> mem_copy old (mem_page page) PAGE_SIZE m
                    else m)
           in case memshadow m page of
                None \<Rightarrow> m
              | Some new \<Rightarrow> mem_copy (mem_page page) new PAGE_SIZE m
      else m)"

definition mem_update_paging :: "bool \<Rightarrow> bool \<Rightarrow> 'a memory_scheme \<Rightarrow> 'a memory_scheme" where
  "mem_update_paging initialize updatewriteonly m =
     (let oldshadow = (if \<not> (initialize \<or> updatewriteonly) then memshadow m else (\<lambda>_. None));
          m = (if initialize then memwrite_initial m else m);
          m = (if \<not> updatewriteonly then page_zero_tables m else m);
          m = ram_tables m;
          m = (if \<not> updatewriteonly then expansion_rom_tables (slot_rom_tables m) else m);
          m = language_card_tables m;
          m = store80_tables m
      in if \<not> updatewriteonly
         then fold (swap_page initialize oldshadow) [0..<0x100] m
         else m)"

definition reset_paging :: "bool \<Rightarrow> 'a memory_scheme \<Rightarrow> 'a memory_scheme" where
  "reset_paging initialize m =
     mem_update_paging initialize False
       (m\<lparr>last_write_ram := False,
          mem_mode := MF_HRAM_BANK2 OR MF_SLOTCXROM OR MF_HRAM_WRITE\<rparr>)"

definition mem_reset_paging :: "'a memory_scheme \<Rightarrow> 'a memory_scheme" where
  "mem_reset_paging m = reset_paging False m"

subsection \<open>Soft switches\<close>

definition mem_check_paging :: "'a video_ext memory_ext io_fun" where
  "mem_check_paging pc addr write val cycles m =
     (let addr = addr AND 0xFF;
          result = (if addr = 0x11 then sw_hram_bank2 m
                    else if addr = 0x12 then sw_highram m
                    else if addr = 0x13 then sw_auxread m
                    else if addr = 0x14 then sw_auxwrite m
                    else if addr = 0x15 then \<not> sw_slotcxrom m
                    else if addr = 0x16 then sw_altzp m
                    else if addr = 0x17 then sw_slotc3rom m
                    else if addr = 0x18 then sw_80store m
                    else if addr = 0x1C then sw_page2 m
                    else if addr = 0x1D then sw_hires m
                    else False)
      in ((mem_read_floating_bus cycles m AND 0x7F) OR (if result then 0x80 else 0x00), m))"

definition language_card_switch :: "u16 \<Rightarrow> 'a memory_scheme \<Rightarrow> 'a memory_scheme" where
  "language_card_switch addr m =
     (let writeram = (addr AND 1 \<noteq> 0);
          mode = mem_mode m AND NOT (MF_HRAM_BANK2 OR MF_HIGHRAM OR MF_HRAM_WRITE);
          m = m\<lparr>last_write_ram := True\<rparr>;
          mode = (if last_write_ram m \<and> writeram then mode OR MF_HRAM_WRITE else mode);
          mode = (if addr AND 8 = 0 then mode OR MF_HRAM_BANK2 else mode);
          mode = (if drop_bit 1 (addr AND 2) = addr AND 1 then mode OR MF_HIGHRAM else mode)
      in m\<lparr>mem_mode := mode, last_write_ram := writeram\<rparr>)"

definition aux_switch :: "u16 \<Rightarrow> u32 \<Rightarrow> u32" where
  "aux_switch addr mode =
     (if addr = 0x00 then mode AND NOT MF_80STORE
      else if addr = 0x01 then mode OR MF_80STORE
      else if addr = 0x02 then mode AND NOT MF_AUXREAD
      else if addr = 0x03 then mode OR MF_AUXREAD
      else if addr = 0x04 then mode AND NOT MF_AUXWRITE
      else if addr = 0x05 then mode OR MF_AUXWRITE
      else if addr = 0x06 then mode OR MF_SLOTCXROM
      else if addr = 0x07 then mode AND NOT MF_SLOTCXROM
      else if addr = 0x08 then mode AND NOT MF_ALTZP
      else if addr = 0x09 then mode OR MF_ALTZP
      else if addr = 0x0A then mode AND NOT MF_SLOTC3ROM
      else if addr = 0x0B then mode OR MF_SLOTC3ROM
      else if addr = 0x54 then mode AND NOT MF_PAGE2
      else if addr = 0x55 then mode OR MF_PAGE2
      else if addr = 0x56 then mode AND NOT MF_HIRES
      else if addr = 0x57 then mode OR MF_HIRES
      else mode)"

definition switch_mode :: "u16 \<Rightarrow> 'a memory_scheme \<Rightarrow> 'a memory_scheme" where
  "switch_mode addr m =
     (if 0x80 \<le> addr \<and> addr \<le> 0x8F then language_card_switch addr m
      else if \<not> is_apple2 m then m\<lparr>mem_mode := aux_switch addr (mem_mode m)\<rparr>
      else m)"

text \<open>
  A program that switches writing and is about to switch reading (its next instruction is
  \<open>STA C002/C003\<close> or \<open>STA C004/C005\<close>) has its page tables updated only by the second switch.
\<close>

definition switch_follows :: "u16 \<Rightarrow> u16 \<Rightarrow> 'a memory_scheme \<Rightarrow> bool" where
  "switch_follows pc addr m =
     (let next = read_u32_le (heap m MemImage) (unat pc) AND 0x00FFFEFF
      in (4 \<le> addr \<and> addr \<le> 5 \<and> pc \<le> 0xFFFC \<and> next = 0x00C0028D) \<or>
         (0x80 \<le> addr \<and> addr \<le> 0x8F \<and> pc \<le> 0xFFFC \<and> (next = 0x00C0048D \<or> next = 0x00C0028D)))"

definition disable_internal_rom :: "'a memory_scheme \<Rightarrow> 'a memory_scheme" where
  "disable_internal_rom m =
     (let m = mem_fill (CxRomPeripheral, FIRMWARE_EXPANSION_SIZE) 0 FIRMWARE_EXPANSION_SIZE m;
          m = mem_fill (MemImage, FIRMWARE_EXPANSION_BEGIN) 0 FIRMWARE_EXPANSION_SIZE m
      in m\<lparr>expansion_rom_type := EXP_ROM_NULL\<rparr>)"

definition enable_internal_rom :: "'a memory_scheme \<Rightarrow> 'a memory_scheme" where
  "enable_internal_rom m =
     (mem_copy (MemImage, FIRMWARE_EXPANSION_BEGIN) (CxRomInternal, FIRMWARE_EXPANSION_SIZE)
        FIRMWARE_EXPANSION_SIZE m)\<lparr>expansion_rom_type := EXP_ROM_INTERNAL,
        peripheral_rom_slot := 0\<rparr>"

definition switch_slot_rom :: "u32 \<Rightarrow> 'a memory_scheme \<Rightarrow> 'a memory_scheme" where
  "switch_slot_rom lastmemmode m =
     (if lastmemmode AND MF_SLOTCXROM \<noteq> mem_mode m AND MF_SLOTCXROM
      then if sw_slotcxrom m then (disable_internal_rom m)\<lparr>peripheral_rom_slot := 0\<rparr>
           else enable_internal_rom m
      else m)"

definition mem_set_paging :: "'a video_ext memory_ext io_fun" where
  "mem_set_paging pc addr write val cycles m =
     (let addr = addr AND 0xFF;
          lastmemmode = mem_mode m;
          m = switch_mode addr m
      in if switch_follows pc addr m
         then (if write \<noteq> 0 then 0 else mem_read_floating_bus_high 1 cycles m,
               m\<lparr>mode_changing := True\<rparr>)
         else
           let m = (if lastmemmode \<noteq> mem_mode m \<or> mode_changing m
                    then mem_update_paging False False
                           (switch_slot_rom lastmemmode (m\<lparr>mode_changing := False\<rparr>))
                    else m)
           in if addr \<le> 1 \<or> 0x54 \<le> addr \<and> addr \<le> 0x57
              then video_set_mode pc addr write val cycles m
              else (if write \<noteq> 0 then 0 else mem_read_floating_bus cycles m, m))"

end
