(* ===== verification/Memory_Io.thy ===== *)
theory Memory_Io
  imports Memory_Unit
begin

text \<open>
  The I/O page and the slot ROM pages (\<open>src/apple2/Memory.cpp\<close>): the handlers of
  \<open>C000-C07F\<close>, the expansion ROM logic, registration, the dispatcher, memory pointers,
  initialization, reset and the snapshot.

  A handler a peripheral registered is a number; \<open>cards\<close>, an argument of the dispatcher,
  gives its function.  The exceptions the dispatcher catches can only come from such a
  function; a \<open>card\<close> that answers is one that did not throw.
\<close>

definition io_null :: "'a video_ext memory_ext io_fun" where
  "io_null pc addr write val cycles m =
     (if write = 0 then mem_read_floating_bus cycles m else 0, m)"

definition io_annunciator :: "'a video_ext memory_ext io_fun" where
  "io_annunciator pc addr write val cycles m = (0, m)"

definition io_read_c00x :: "'a video_ext memory_ext io_fun" where
  "io_read_c00x pc addr write d executed m = (if is_apple2 m then 0x7F else 0x00, m)"

definition io_write_c00x :: "'a video_ext memory_ext io_fun" where
  "io_write_c00x pc addr write d executed m =
     (if addr AND 0x0F \<le> 0x0B then mem_set_paging pc addr write d executed m
      else video_set_mode pc addr write d executed m)"

definition io_read_c01x :: "'a video_ext memory_ext io_fun" where
  "io_read_c01x pc addr write d executed m =
     (if is_apple2 m then (mem_read_floating_bus executed m, m)
      else let low = addr AND 0x0F
           in if low = 0 then (0, m)
              else if low \<le> 8 then mem_check_paging pc addr write d executed m
              else if low = 9 then video_check_vbl pc addr write d executed m
              else if low \<le> 0xB then video_check_mode pc addr write d executed m
              else if low \<le> 0xD then mem_check_paging pc addr write d executed m
              else video_check_mode pc addr write d executed m)"

definition io_write_c01x :: "'a video_ext memory_ext io_fun" where
  "io_write_c01x pc addr write d executed m = (mem_read_floating_bus executed m, m)"

definition io_read_c02x :: "'a video_ext memory_ext io_fun" where
  "io_read_c02x pc addr write d executed m = (mem_read_floating_bus executed m, m)"

definition io_write_c02x :: "'a video_ext memory_ext io_fun" where
  "io_write_c02x pc addr write d executed m = (0, m)"

definition io_read_c03x :: "'a video_ext memory_ext io_fun" where
  "io_read_c03x pc addr write d executed m = (mem_read_floating_bus executed m, m)"

definition io_write_c03x :: "'a video_ext memory_ext io_fun" where
  "io_write_c03x pc addr write d executed m = (mem_read_floating_bus executed m, m)"

definition io_read_c04x :: "'a video_ext memory_ext io_fun" where
  "io_read_c04x pc addr write d executed m = (mem_read_floating_bus executed m, m)"

definition io_write_c04x :: "'a video_ext memory_ext io_fun" where
  "io_write_c04x pc addr write d executed m = (0, m)"

definition io_access_c05x :: "'a video_ext memory_ext io_fun" where
  "io_access_c05x pc addr write d executed m =
     (let low = addr AND 0x0F
      in if low \<le> 3 then video_set_mode pc addr write d executed m
         else if low \<le> 7 then mem_set_paging pc addr write d executed m
         else if low \<le> 0xD then io_annunciator pc addr write d executed m
         else video_set_mode pc addr write d executed m)"

definition io_read_c05x :: "'a video_ext memory_ext io_fun" where
  "io_read_c05x pc addr write d executed m = io_access_c05x pc addr write d executed m"

definition io_write_c05x :: "'a video_ext memory_ext io_fun" where
  "io_write_c05x pc addr write d executed m = io_access_c05x pc addr write d executed m"

definition io_read_c06x :: "'a video_ext memory_ext io_fun" where
  "io_read_c06x pc addr write d executed m =
     (let input = unat (addr AND 0x07)
      in if input = 0 then io_null pc addr write d executed m
         else
           let bus = mem_read_floating_bus executed m AND 0x7F
           in (if input < 4
               then if switch_inputs_level (input - 1) (switch_inputs_state m) then bus OR 0x80 else bus
               else bus OR 0x80, m))"

definition io_write_c06x :: "'a video_ext memory_ext io_fun" where
  "io_write_c06x pc addr write d executed m = io_null pc addr write d executed m"

definition io_read_c07x :: "'a video_ext memory_ext io_fun" where
  "io_read_c07x pc addr write d executed m =
     (if addr AND 0xF = 0xF then video_check_mode pc addr write d executed m
      else io_null pc addr write d executed m)"

definition io_write_c07x :: "'a video_ext memory_ext io_fun" where
  "io_write_c07x pc addr write d executed m =
     (if addr AND 0xF = 0xF then video_check_mode pc addr write d executed m
      else io_null pc addr write d executed m)"

definition io_read_c0xx :: "io_handler list" where
  "io_read_c0xx =
     [io_read_c00x_fn, io_read_c01x_fn, io_read_c02x_fn, io_read_c03x_fn,
      io_read_c04x_fn, io_read_c05x_fn, io_read_c06x_fn, io_read_c07x_fn]"

definition io_write_c0xx :: "io_handler list" where
  "io_write_c0xx =
     [io_write_c00x_fn, io_write_c01x_fn, io_write_c02x_fn, io_write_c03x_fn,
      io_write_c04x_fn, io_write_c05x_fn, io_write_c06x_fn, io_write_c07x_fn]"

subsection \<open>Expansion ROM\<close>

definition access_cfff :: "'a memory_scheme \<Rightarrow> 'a memory_scheme" where
  "access_cfff m =
     (let m = m\<lparr>io_select := 0, io_select_internal_rom := 0, peripheral_rom_slot := 0\<rparr>
      in if sw_slotcxrom m then disable_internal_rom m else m)"

definition slot_selected :: "u16 \<Rightarrow> 'a memory_scheme \<Rightarrow> 'a memory_scheme" where
  "slot_selected address m =
     (let slot = unat (drop_bit 8 address AND 0xF)
      in if slot < num_slots
         then if slot \<noteq> 3 \<and> expansion_rom m slot \<noteq> None
              then m\<lparr>io_select := io_select m OR push_bit slot 1\<rparr>
              else if sw_slotc3rom m \<and> expansion_rom m slot \<noteq> None
              then m\<lparr>io_select := io_select m OR push_bit slot 1\<rparr>
              else if \<not> sw_slotc3rom m then m\<lparr>io_select_internal_rom := 1\<rparr>
              else m
         else m)"

definition first_selected :: "u8 \<Rightarrow> nat" where
  "first_selected select =
     (case filter (\<lambda>slot. select AND push_bit slot 1 \<noteq> 0) [1..<num_slots] of
        [] \<Rightarrow> num_slots | slot # _ \<Rightarrow> slot)"

definition enable_peripheral_rom :: "'a memory_scheme \<Rightarrow> 'a memory_scheme" where
  "enable_peripheral_rom m =
     (let slot = first_selected (io_select m)
      in if slot < num_slots \<and> peripheral_rom_slot m \<noteq> slot
         then case expansion_rom m slot of
                None \<Rightarrow> m
              | Some rom \<Rightarrow>
                  let m = mem_put (CxRomPeripheral, FIRMWARE_EXPANSION_SIZE) rom FIRMWARE_EXPANSION_SIZE m;
                      m = (if mem_null m then m
                           else mem_put (MemImage, FIRMWARE_EXPANSION_BEGIN) rom FIRMWARE_EXPANSION_SIZE m)
                  in m\<lparr>expansion_rom_type := EXP_ROM_PERIPHERAL, peripheral_rom_slot := slot\<rparr>
         else m)"

definition strobe_internal_rom :: "bool \<Rightarrow> 'a memory_scheme \<Rightarrow> 'a memory_scheme" where
  "strobe_internal_rom strobe m =
     (if io_select_internal_rom m \<noteq> 0 \<and> strobe \<and> expansion_rom_type m \<noteq> EXP_ROM_INTERNAL
      then enable_internal_rom m else m)"

definition in_slot_rom :: "u16 \<Rightarrow> bool" where
  "in_slot_rom address = (0xC100 \<le> address \<and> address \<le> 0xC7FF)"

definition io_strobe :: "u16 \<Rightarrow> bool" where
  "io_strobe address = (0xC800 \<le> address \<and> address \<le> 0xCFFF)"

definition access_slots :: "u16 \<Rightarrow> 'a memory_scheme \<Rightarrow> 'a memory_scheme" where
  "access_slots address m =
     (if is_apple2 m \<or> sw_slotcxrom m
      then let m = (if in_slot_rom address then slot_selected address m else m)
           in if io_select m \<noteq> 0 \<and> io_strobe address then enable_peripheral_rom m
              else strobe_internal_rom (io_strobe address) m
      else m)"

definition access_internal :: "u16 \<Rightarrow> 'a memory_scheme \<Rightarrow> 'a memory_scheme" where
  "access_internal address m =
     (if \<not> is_apple2 m \<and> \<not> sw_slotcxrom m
      then strobe_internal_rom (io_strobe address)
             (if in_slot_rom address then m\<lparr>io_select_internal_rom := 1\<rparr> else m)
      else m)"

definition io_read_cxxx :: "'a video_ext memory_ext io_fun" where
  "io_read_cxxx pc address write v executed m =
     (let m = (if address = 0xCFFF then access_cfff m else m);
          m = access_internal address (access_slots address m)
      in if expansion_rom_type m = EXP_ROM_NULL \<and> 0xC800 \<le> address
         then io_null pc address write v executed m
         else (if mem_null m then mem_read_floating_bus executed m else rd m (unat address), m))"

definition io_write_cxxx :: "'a video_ext memory_ext io_fun" where
  "io_write_cxxx pc address write v executed m = (0, m)"

subsection \<open>Registration\<close>

definition init_io_handlers :: "'a memory_scheme \<Rightarrow> 'a memory_scheme" where
  "init_io_handlers m =
     m\<lparr>bm_slot_init := 0,
       io_read := (\<lambda>i. if i < 0x80 then Some (io_read_c0xx ! (i div 16))
                       else if 256 \<le> i \<and> i < 256 + 16 then Some io_read_cxxx_fn
                       else if i < 512 then Some io_null_fn else io_read m i),
       io_write := (\<lambda>i. if i < 0x80 then Some (io_write_c0xx ! (i div 16))
                        else if 256 \<le> i \<and> i < 256 + 16 then Some io_write_cxxx_fn
                        else if i < 512 then Some io_null_fn else io_write m i),
       io_select := 0, io_select_internal_rom := 0, expansion_rom_type := EXP_ROM_NULL,
       peripheral_rom_slot := 0,
       expansion_rom := (\<lambda>slot. if slot < num_slots then None else expansion_rom m slot)\<rparr>"

definition mem_pre_initialize :: "'a memory_scheme \<Rightarrow> 'a memory_scheme" where
  "mem_pre_initialize m = init_io_handlers m"

definition register_io_handler ::
  "nat \<Rightarrow> io_handler option \<Rightarrow> io_handler option \<Rightarrow> io_handler option \<Rightarrow> io_handler option \<Rightarrow>
   nat option \<Rightarrow> (nat \<Rightarrow> u8) option \<Rightarrow> 'a memory_scheme \<Rightarrow> 'a memory_scheme" where
  "register_io_handler slot io_read_c0 io_write_c0 io_read_cx io_write_cx slot_parameter rom m =
     (if slot \<ge> num_slots then m
      else
        let m = m\<lparr>bm_slot_init := bm_slot_init m OR push_bit slot 1,
                  slot_parameters := (slot_parameters m)(slot := slot_parameter)\<rparr>;
            index = 0x80 + slot * 16;
            m = m\<lparr>io_read := set_pages index (index + 16) (\<lambda>_. io_read_c0) (io_read m),
                  io_write := set_pages index (index + 16) (\<lambda>_. io_write_c0) (io_write m)\<rparr>
        in if slot = 0 then m
           else m\<lparr>io_read := (io_read m)(256 + slot :=
                    Some (case io_read_cx of None \<Rightarrow> io_read_cxxx_fn | Some h \<Rightarrow> h)),
                  io_write := (io_write m)(256 + slot :=
                    Some (case io_write_cx of None \<Rightarrow> io_write_cxxx_fn | Some h \<Rightarrow> h)),
                  expansion_rom := (expansion_rom m)(slot := rom)\<rparr>)"

definition register_direct_io_handler ::
  "u16 \<Rightarrow> io_handler option \<Rightarrow> io_handler option \<Rightarrow> 'a memory_scheme \<Rightarrow> 'a memory_scheme" where
  "register_direct_io_handler addr read write m =
     (if addr AND 0xFF00 \<noteq> 0xC000 then m
      else
        let index = unat (addr AND 0xFF);
            m = (case read of None \<Rightarrow> m | Some h \<Rightarrow> m\<lparr>io_read := (io_read m)(index := Some h)\<rparr>)
        in case write of None \<Rightarrow> m | Some h \<Rightarrow> m\<lparr>io_write := (io_write m)(index := Some h)\<rparr>)"

definition mem_get_slot_parameters :: "nat \<Rightarrow> 'a memory_scheme \<Rightarrow> nat option" where
  "mem_get_slot_parameters slot m = (if slot \<ge> num_slots then None else slot_parameters m slot)"

subsection \<open>Dispatch\<close>

definition run_handler ::
  "(nat \<Rightarrow> 'a video_ext memory_ext io_fun) \<Rightarrow> io_handler \<Rightarrow> 'a video_ext memory_ext io_fun" where
  "run_handler cards h =
     (case h of io_null_fn \<Rightarrow> io_null
      | io_read_c00x_fn \<Rightarrow> io_read_c00x
      | io_read_c01x_fn \<Rightarrow> io_read_c01x
      | io_read_c02x_fn \<Rightarrow> io_read_c02x
      | io_read_c03x_fn \<Rightarrow> io_read_c03x
      | io_read_c04x_fn \<Rightarrow> io_read_c04x
      | io_read_c05x_fn \<Rightarrow> io_read_c05x
      | io_read_c06x_fn \<Rightarrow> io_read_c06x
      | io_read_c07x_fn \<Rightarrow> io_read_c07x
      | io_write_c00x_fn \<Rightarrow> io_write_c00x
      | io_write_c01x_fn \<Rightarrow> io_write_c01x
      | io_write_c02x_fn \<Rightarrow> io_write_c02x
      | io_write_c03x_fn \<Rightarrow> io_write_c03x
      | io_write_c04x_fn \<Rightarrow> io_write_c04x
      | io_write_c05x_fn \<Rightarrow> io_write_c05x
      | io_write_c06x_fn \<Rightarrow> io_write_c06x
      | io_write_c07x_fn \<Rightarrow> io_write_c07x
      | io_read_cxxx_fn \<Rightarrow> io_read_cxxx
      | io_write_cxxx_fn \<Rightarrow> io_write_cxxx
      | mem_set_paging_fn \<Rightarrow> mem_set_paging
      | card_fn n \<Rightarrow> cards n)"

definition call_table ::
  "(nat \<Rightarrow> 'a video_ext memory_ext io_fun) \<Rightarrow> nat \<Rightarrow> 'a video_ext memory_ext io_fun" where
  "call_table cards index pc addr write val cycles m =
     (case (if write \<noteq> 0 then io_write m index else io_read m index) of
        None \<Rightarrow> io_null pc addr write val cycles m
      | Some h \<Rightarrow> run_handler cards h pc addr write val cycles m)"

definition io_map_dispatch ::
  "(nat \<Rightarrow> 'a video_ext memory_ext io_fun) \<Rightarrow> 'a video_ext memory_ext io_fun" where
  "io_map_dispatch cards pc addr write val cycles m =
     (if addr < 0xC000 \<or> addr > 0xCFFF then io_null pc addr write val cycles m
      else if addr AND 0xFF00 = 0xC000
      then call_table cards (unat (addr AND 0xFF)) pc addr write val cycles m
      else
        let page = unat (drop_bit 8 addr AND 0x0F)
        in if \<not> is_apple2 m \<and> (\<not> sw_slotcxrom m \<or> page = 3 \<and> \<not> sw_slotc3rom m)
           then (if write \<noteq> 0 then io_write_cxxx pc addr write val cycles m
                 else io_read_cxxx pc addr write val cycles m)
           else call_table cards (256 + page) pc addr write val cycles m)"

subsection \<open>Pointers into the banks\<close>

definition mem_get_aux_ptr :: "u16 \<Rightarrow> 'a memory_scheme \<Rightarrow> ptr" where
  "mem_get_aux_ptr addr m =
     (if memshadow m (unat (drop_bit 8 addr)) = Some (MemAux, unat (addr AND 0xFF00))
      then (MemImage, unat addr) else (MemAux, unat addr))"

definition mem_get_main_ptr :: "u16 \<Rightarrow> 'a memory_scheme \<Rightarrow> ptr" where
  "mem_get_main_ptr addr m =
     (if memshadow m (unat (drop_bit 8 addr)) = Some (MemMain, unat (addr AND 0xFF00))
      then (MemImage, unat addr) else (MemMain, unat addr))"

definition mem_get_bank_ptr :: "nat \<Rightarrow> 'a memory_scheme \<Rightarrow> ptr option" where
  "mem_get_bank_ptr bank m =
     (if bank = 0 then (if mem_null m then None else Some (MemMain, 0))
      else if bank = 1 then (if mem_null m then None else Some (MemAux, 0))
      else None)"

definition mem_refresh_cx_page :: "int \<Rightarrow> 'a memory_scheme \<Rightarrow> 'a memory_scheme" where
  "mem_refresh_cx_page slot m =
     (if slot < 1 \<or> slot > 7 \<or> mem_null m then m
      else
        let page = 0xC0 + nat slot;
            store = (CxRomPeripheral, nat slot * PAGE_SIZE)
        in if memshadow m page \<noteq> Some store then m
           else mem_copy (mem_page page) store PAGE_SIZE m)"

definition mem_is_addr_code_memory :: "u16 \<Rightarrow> 'a memory_scheme \<Rightarrow> bool" where
  "mem_is_addr_code_memory addr m =
     (if addr < 0xC000 \<or> addr > 0xCFFF then True
      else if addr < 0xC100 then False
      else if \<not> is_apple2 m \<and> sw_slotcxrom m then True
      else if \<not> is_apple2 m \<and> \<not> sw_slotc3rom m \<and> drop_bit 8 addr = 0xC3 then True
      else if addr \<le> 0xC7FF
      then bm_slot_init m AND push_bit (unat (drop_bit 8 addr AND 0x7)) 1 \<noteq> 0
      else if expansion_rom_type m = EXP_ROM_NULL
      then io_select m \<noteq> 0 \<or> io_select_internal_rom m \<noteq> 0
      else True)"

subsection \<open>Initialization, reset, snapshot\<close>

definition mem_destroy :: "'a memory_scheme \<Rightarrow> 'a memory_scheme" where
  "mem_destroy m =
     m\<lparr>mem_null := True,
       memwrite := (\<lambda>page. if page < 256 then None else memwrite m page),
       memshadow := (\<lambda>page. if page < 256 then None else memshadow m page)\<rparr>"

definition reset_pattern :: "bool \<Rightarrow> nat \<Rightarrow> u8" where
  "reset_pattern striped byte = (if striped \<and> byte < 0xC000 \<and> byte mod 4 < 2 then 0xFF else 0)"

definition mem_reset :: "bool \<Rightarrow> 'a memory_scheme \<Rightarrow> 'a memory_scheme" where
  "mem_reset striped m =
     (let m = m\<lparr>memshadow := (\<lambda>page. if page < 256 then None else memshadow m page),
                memwrite := (\<lambda>page. if page < 256 then None else memwrite m page)\<rparr>;
          m = mem_fill (MemAux, 0) 0 0x10000 m;
          m = mem_put (MemMain, 0) (reset_pattern striped) 0x10000 m
      in cpu_initialize (reset_paging True m))"

definition choose_rom ::
  "u8 list \<Rightarrow> (apple2_type \<Rightarrow> u8 list option) \<Rightarrow> 'a machine_scheme \<Rightarrow> u8 list option" where
  "choose_rom custom embedded m =
     (let n = length custom
      in if custom \<noteq> []
         then if n = 0x4000 then Some custom
              else if n = 0x3000 then Some custom
              else if n > 0x3000
              then if n \<ge> 0x4000 \<and> current_apple2_type m \<in> {A2TYPE_APPLE2E, A2TYPE_APPLE2EENHANCED,
                        A2TYPE_CLONE_PRAVETS8C, A2TYPE_CLONE_TK3000E}
                   then Some (drop (n - 0x4000) custom)
                   else Some (drop (n - 0x3000) custom)
              else None
         else embedded (current_apple2_type m))"

definition mem_initialize ::
  "bool \<Rightarrow> u8 list \<Rightarrow> (apple2_type \<Rightarrow> u8 list option) \<Rightarrow> 'a memory_scheme \<Rightarrow>
   int \<times> 'a memory_scheme" where
  "mem_initialize striped custom embedded m =
     (let m = mem_destroy m
      in case choose_rom custom embedded m of
           None \<Rightarrow> (- 1, m)
         | Some rom \<Rightarrow>
             let m = m\<lparr>mem_null := False, memdirty := (\<lambda>_. 0)\<rparr>;
                 m = mem_fill (CxRomInternal, 0) 0 0x1000 m;
                 m = mem_fill (CxRomPeripheral, 0) 0 0x1000 m;
                 m = mem_fill (MemRom, 0) 0 0x5000 m;
                 m = mem_fill (MemImage, 0) 0 0x10000 m;
                 (rom, m) = (if length rom = 0x4000
                             then (drop 0x1000 rom, mem_put (CxRomInternal, 0) (\<lambda>i. rom ! i) 0x1000 m)
                             else (rom, m));
                 m = mem_put (MemRom, 0) (\<lambda>i. rom ! i) 0x3000 m;
                 m = register_io_handler 0 (Some mem_set_paging_fn) (Some mem_set_paging_fn)
                       None None None None m
             in (0, mem_reset striped m))"

record ss_base_memory =
  ss_mem_mode :: u32
  ss_last_write_ram :: u8
  ss_mem_main :: "nat \<Rightarrow> u8"
  ss_mem_aux :: "nat \<Rightarrow> u8"

definition read_page_wise ::
  "(u16 \<Rightarrow> 'a memory_scheme \<Rightarrow> ptr) \<Rightarrow> 'a memory_scheme \<Rightarrow> nat \<Rightarrow> u8" where
  "read_page_wise get m i =
     (let (r, base) = get (of_nat (i div PAGE_SIZE * PAGE_SIZE)) m in heap m r (base + i mod PAGE_SIZE))"

definition mem_get_snapshot :: "'a memory_scheme \<Rightarrow> ss_base_memory" where
  "mem_get_snapshot m =
     \<lparr>ss_mem_mode = mem_mode m, ss_last_write_ram = (if last_write_ram m then 1 else 0),
      ss_mem_main = read_page_wise mem_get_main_ptr m,
      ss_mem_aux = read_page_wise mem_get_aux_ptr m\<rparr>"

definition mem_set_snapshot :: "ss_base_memory \<Rightarrow> 'a memory_scheme \<Rightarrow> 'a memory_scheme" where
  "mem_set_snapshot ss m =
     (let m = m\<lparr>mem_mode := ss_mem_mode ss, last_write_ram := (ss_last_write_ram ss \<noteq> 0)\<rparr>;
          m = mem_put (MemMain, 0) (ss_mem_main ss) 0x10000 m;
          m = mem_put (MemAux, 0) (ss_mem_aux ss) 0x10000 m;
          m = m\<lparr>mode_changing := False\<rparr>
      in mem_update_paging True False m)"

end
