(* ===== verification/Peripheral_State.thy ===== *)
theory Peripheral_State
  imports Video_Circuits Memory_Io
begin

text \<open>
  The state of the peripheral manager and of the byte sinks behind the cards
  (\<open>src/apple2/peripherals/Peripheral.cpp\<close>) as a further extension of the machine's globals.

  A card is a descriptor (\<open>Peripheral\<close>) whose entry points are code of their own; the manager
  reaches them through pointers, some of which may be null.  The entry points of all cards are a
  parameter, \<open>card_code\<close>: a function from descriptors to what the pointer holds.  An instance
  (\<open>void*\<close>) and an I/O handler of a card are numbers that only the card can interpret.
  A C++ exception out of a card's I/O handler is \<open>None\<close>; the manager logs it and goes on.
\<close>

abbreviation (input) "no_event \<equiv> (0xFFFFFFFFFFFFFFFF :: u64)"
abbreviation (input) "io_direct_count \<equiv> (128 :: nat)"
abbreviation (input) "linapple_abi_version \<equiv> (1 :: int)"
abbreviation (input) "peripheral_cmd_max_data \<equiv> (512 :: nat)"
abbreviation (input) "peripheral_target_id_size \<equiv> (32 :: nat)"
abbreviation (input) "max_peripheral_name \<equiv> (32 :: nat)"

datatype peripheral_status = peripheral_ok | peripheral_error | peripheral_incompatible | peripheral_busy

record descriptor =
  api_id :: string
  api_name :: string
  abi_version :: int
  compatible_slots :: u8
  default_slot :: int

record active_peripheral =
  ap_api :: descriptor
  ap_instance :: "nat option"
  ap_slot :: int
  read_c0 :: "nat option"
  write_c0 :: "nat option"
  read_cx :: "nat option"
  write_cx :: "nat option"
  ap_expansion_rom :: "(nat \<Rightarrow> u8) option"
  event_cycle :: u64

record direct_io_handler =
  dio_addr :: u16
  dio_read :: "nat option"
  dio_write :: "nat option"
  dio_strobe :: "nat option"
  dio_instance :: "nat option"

record queued_command =
  cmd_slot :: int
  cmd_id :: u32
  cmd_target :: string
  cmd_data :: "u8 list"

subsection \<open>Byte sinks\<close>

datatype sink_kind = peripheral_sink_printer | peripheral_sink_serial | unknown_sink

record serial_line =
  baud :: u32
  data_bits :: u8
  parity :: u8
  stop_half_bits :: u8
  dtr :: u8
  rts :: u8
  brk :: u8

record sink_record =
  sink_slot :: int
  sink_kind :: sink_kind
  sink_opened :: bool
  line_sent :: bool
  sink_line :: serial_line

text \<open>
  The frontend's vtable: which members are not null.  What it is called with is the trace; what
  it answers is a parameter of the operations that ask.
\<close>

record byte_sink =
  has_open :: bool
  has_write :: bool
  has_ready :: bool
  has_close :: bool
  has_tick :: bool
  has_read :: bool
  has_set_line :: bool
  has_get_lines :: bool

datatype sink_event = SinkOpened int sink_kind | SinkWritten int u8 | SinkAsked int | SinkClosed int
  | SinkTicked | SinkRead int | SinkLine int serial_line | SinkLinesAsked int

text \<open>
  \<open>clock_hz\<close> is the integer part of \<open>current_clk_6502\<close>, a double: the one use of it here
  divides by an integer constant and truncates, which the fraction cannot change.  A card object
  allocated with \<open>new\<close> is the number \<open>fresh_instance\<close>.
\<close>

record peripherals = video +
  active_peripherals :: "active_peripheral list list"
  activity_state :: "bool list"
  activity_seen :: "bool list"
  next_event_cycle :: u64
  direct_io_handlers :: "direct_io_handler list"
  command_queue :: "queued_command list"
  sink_records :: "sink_record list"
  current_sink :: "byte_sink option"
  sink_trace :: "sink_event list"
  clock_hz :: u32
  fresh_instance :: nat
  full_speed :: bool
  user_turbo :: bool
  disk_turbo_enabled :: bool
  emulation_speed :: u32
  running :: bool

text \<open>The entry points of the cards; \<open>None\<close> is a null pointer.\<close>

record 'm card_code =
  card_init :: "descriptor \<Rightarrow> int \<Rightarrow> 'm \<Rightarrow> nat option \<times> 'm"
  card_reset :: "descriptor \<Rightarrow> (nat option \<Rightarrow> 'm \<Rightarrow> 'm) option"
  card_shutdown :: "descriptor \<Rightarrow> (nat option \<Rightarrow> 'm \<Rightarrow> 'm) option"
  card_think :: "descriptor \<Rightarrow> (nat option \<Rightarrow> u32 \<Rightarrow> 'm \<Rightarrow> 'm) option"
  card_on_vblank :: "descriptor \<Rightarrow> (nat option \<Rightarrow> bool \<Rightarrow> 'm \<Rightarrow> 'm) option"
  card_command :: "descriptor \<Rightarrow> (nat option \<Rightarrow> u32 \<Rightarrow> u8 list \<Rightarrow> 'm \<Rightarrow> 'm) option"
  card_query :: "descriptor \<Rightarrow> (nat option \<Rightarrow> u32 \<Rightarrow> 'm \<Rightarrow> peripheral_status \<times> u8 list) option"
  card_save_state :: "descriptor \<Rightarrow> (nat option \<Rightarrow> 'm \<Rightarrow> u8 list) option"
  card_load_state :: "descriptor \<Rightarrow> (nat option \<Rightarrow> u8 list \<Rightarrow> 'm \<Rightarrow> peripheral_status \<times> 'm) option"
  card_io :: "nat \<Rightarrow> nat option \<Rightarrow> u16 \<Rightarrow> u16 \<Rightarrow> u8 \<Rightarrow> u8 \<Rightarrow> u32 \<Rightarrow> 'm \<Rightarrow> u8 option \<times> 'm"
  card_strobe :: "nat \<Rightarrow> nat option \<Rightarrow> 'm \<Rightarrow> 'm"

type_synonym 'a host = "'a peripherals_ext video_ext memory_ext machine_scheme"

subsection \<open>The sink operations\<close>

definition sink_call :: "sink_event \<Rightarrow> 'a peripherals_scheme \<Rightarrow> 'a peripherals_scheme" where
  "sink_call c m = m\<lparr>sink_trace := sink_trace m @ [c]\<rparr>"

definition put_record :: "nat \<Rightarrow> sink_record \<Rightarrow> 'a peripherals_scheme \<Rightarrow> 'a peripherals_scheme" where
  "put_record k r m = m\<lparr>sink_records := (sink_records m)[k := r]\<rparr>"

text \<open>A token is the address of one of the seven records: here its index.\<close>

definition sink_of_token :: "nat option \<Rightarrow> nat option" where
  "sink_of_token token = (case token of None \<Rightarrow> None | Some k \<Rightarrow> if k < 7 then Some k else None)"

definition sink_close_record :: "nat \<Rightarrow> 'a peripherals_scheme \<Rightarrow> 'a peripherals_scheme" where
  "sink_close_record k m =
     (let r = sink_records m ! k in
      if \<not> sink_opened r then m
      else
        let m = (case current_sink m of
                   Some b \<Rightarrow> if has_close b then sink_call (SinkClosed (sink_slot r)) m else m
                 | None \<Rightarrow> m)
        in put_record k (r\<lparr>sink_opened := False\<rparr>) m)"

definition sink_attach :: "nat \<Rightarrow> 'a peripherals_scheme \<Rightarrow> bool \<times> 'a peripherals_scheme" where
  "sink_attach k m =
     (case current_sink m of None \<Rightarrow> (False, m)
      | Some b \<Rightarrow>
          let r = sink_records m ! k in
          if sink_opened r then (True, m)
          else
            let m = (if has_open b then sink_call (SinkOpened (sink_slot r) (sink_kind r)) m else m);
                m = put_record k (r\<lparr>sink_opened := True\<rparr>) m;
                m = (if line_sent r \<and> has_set_line b
                     then sink_call (SinkLine (sink_slot r) (sink_line r)) m else m)
            in (True, m))"

definition sink_kind_is_known :: "sink_kind \<Rightarrow> bool" where
  "sink_kind_is_known kind = (kind = peripheral_sink_printer \<or> kind = peripheral_sink_serial)"

definition host_sink_open ::
  "int \<Rightarrow> sink_kind \<Rightarrow> 'a peripherals_scheme \<Rightarrow> nat option \<times> 'a peripherals_scheme" where
  "host_sink_open slot kind m =
     (if slot < 1 \<or> slot > 7 \<or> \<not> sink_kind_is_known kind then (None, m)
      else
        let k = nat (slot - 1); r = sink_records m ! k in
        if sink_opened r \<and> sink_kind r \<noteq> kind then (None, m)
        else (Some k, put_record k (r\<lparr>sink_slot := slot, sink_kind := kind\<rparr>) m))"

definition host_sink_write :: "nat option \<Rightarrow> u8 \<Rightarrow> 'a peripherals_scheme \<Rightarrow> 'a peripherals_scheme" where
  "host_sink_write token byte m =
     (case sink_of_token token of None \<Rightarrow> m
      | Some k \<Rightarrow>
          (case sink_attach k m of (attached, m) \<Rightarrow>
             (case current_sink m of
                Some b \<Rightarrow> if attached \<and> has_write b
                          then sink_call (SinkWritten (sink_slot (sink_records m ! k)) byte) m else m
              | None \<Rightarrow> m)))"

definition host_sink_ready ::
  "(sink_event list \<Rightarrow> bool) \<Rightarrow> nat option \<Rightarrow> 'a peripherals_scheme \<Rightarrow> bool \<times> 'a peripherals_scheme" where
  "host_sink_ready answer token m =
     (case sink_of_token token of None \<Rightarrow> (False, m)
      | Some k \<Rightarrow>
          (case sink_attach k m of (attached, m) \<Rightarrow>
             (case current_sink m of
                Some b \<Rightarrow>
                  if attached \<and> has_ready b
                  then let m = sink_call (SinkAsked (sink_slot (sink_records m ! k))) m
                       in (answer (sink_trace m), m)
                  else (False, m)
              | None \<Rightarrow> (False, m))))"

definition host_sink_close :: "nat option \<Rightarrow> 'a peripherals_scheme \<Rightarrow> 'a peripherals_scheme" where
  "host_sink_close token m =
     (case sink_of_token token of None \<Rightarrow> m
      | Some k \<Rightarrow>
          let m = sink_close_record k m
          in put_record k ((sink_records m ! k)\<lparr>line_sent := False\<rparr>) m)"

definition host_sink_read ::
  "(sink_event list \<Rightarrow> u8 option) \<Rightarrow> nat option \<Rightarrow> 'a peripherals_scheme \<Rightarrow>
   u8 option \<times> 'a peripherals_scheme" where
  "host_sink_read answer token m =
     (case sink_of_token token of None \<Rightarrow> (None, m)
      | Some k \<Rightarrow>
          (case sink_attach k m of (attached, m) \<Rightarrow>
             (case current_sink m of
                Some b \<Rightarrow>
                  if attached \<and> has_read b
                  then let m = sink_call (SinkRead (sink_slot (sink_records m ! k))) m
                       in (answer (sink_trace m), m)
                  else (None, m)
              | None \<Rightarrow> (None, m))))"

definition host_sink_set_line ::
  "nat option \<Rightarrow> serial_line option \<Rightarrow> 'a peripherals_scheme \<Rightarrow> 'a peripherals_scheme" where
  "host_sink_set_line token line m =
     (case (sink_of_token token, line) of
        (Some k, Some l) \<Rightarrow>
          let r = sink_records m ! k;
              m = put_record k (r\<lparr>sink_line := l, line_sent := True\<rparr>) m;
              was_open = sink_opened r
          in (case sink_attach k m of (attached, m) \<Rightarrow>
                (case current_sink m of
                   Some b \<Rightarrow> if attached \<and> was_open \<and> has_set_line b
                             then sink_call (SinkLine (sink_slot r) l) m else m
                 | None \<Rightarrow> m))
      | _ \<Rightarrow> m)"

definition host_sink_get_lines ::
  "(sink_event list \<Rightarrow> u8 option) \<Rightarrow> nat option \<Rightarrow> 'a peripherals_scheme \<Rightarrow>
   u8 option \<times> 'a peripherals_scheme" where
  "host_sink_get_lines answer token m =
     (case sink_of_token token of None \<Rightarrow> (None, m)
      | Some k \<Rightarrow>
          (case sink_attach k m of (attached, m) \<Rightarrow>
             (case current_sink m of
                Some b \<Rightarrow>
                  if attached \<and> has_get_lines b
                  then let m = sink_call (SinkLinesAsked (sink_slot (sink_records m ! k))) m
                       in (answer (sink_trace m), m)
                  else (None, m)
              | None \<Rightarrow> (None, m))))"

definition linapple_set_byte_sink ::
  "byte_sink option \<Rightarrow> 'a peripherals_scheme \<Rightarrow> byte_sink option \<times> 'a peripherals_scheme" where
  "linapple_set_byte_sink vtable m =
     (let previous = current_sink m;
          m = fold sink_close_record [0..<7] m
      in (previous, m\<lparr>current_sink := vtable\<rparr>))"

definition sink_tick :: "'a peripherals_scheme \<Rightarrow> 'a peripherals_scheme" where
  "sink_tick m =
     (case current_sink m of
        Some b \<Rightarrow> if has_tick b then sink_call SinkTicked m else m
      | None \<Rightarrow> m)"

end
