(* ===== verification/Peripheral_Host.thy ===== *)
theory Peripheral_Host
  imports Peripheral_State
begin

text \<open>
  The bridges that carry an access of the processor to the cards, the host interface a card
  calls, and the device events (\<open>src/apple2/peripherals/Peripheral.cpp\<close>).

  A loop over the cards of a slot runs over the list as it is when the loop starts: a card may
  not add or remove cards from inside its handlers.
\<close>

subsection \<open>Bridges\<close>

text \<open>
  The handler of an address is tried on each card of the slot in turn; a card without one, or
  one that throws, passes the access on.
\<close>

type_synonym ('a, 'r) io_call = "u16 \<Rightarrow> u16 \<Rightarrow> u8 \<Rightarrow> u8 \<Rightarrow> u32 \<Rightarrow> 'a host \<Rightarrow> 'r"

fun try_handlers ::
  "'a host card_code \<Rightarrow> (nat option \<times> nat option) list \<Rightarrow> ('a, u8 option \<times> 'a host) io_call" where
  "try_handlers cc [] pc addr w d t m = (None, m)"
| "try_handlers cc ((None, inst) # hs) pc addr w d t m = try_handlers cc hs pc addr w d t m"
| "try_handlers cc ((Some h, inst) # hs) pc addr w d t m =
     (case card_io cc h inst pc addr w d t m of
        (Some v, m) \<Rightarrow> (Some v, m)
      | (None, m) \<Rightarrow> try_handlers cc hs pc addr w d t m)"

definition answer_or_null ::
  "u8 option \<times> 'a host \<Rightarrow> ('a, u8 \<times> 'a host) io_call" where
  "answer_or_null r pc addr w d t m0 =
     (case r of (Some v, m) \<Rightarrow> (v, m) | (None, m) \<Rightarrow> io_null pc addr w d t m)"

definition slot_bridge ::
  "'a host card_code \<Rightarrow> (active_peripheral \<Rightarrow> nat option) \<Rightarrow> nat \<Rightarrow> ('a, u8 \<times> 'a host) io_call" where
  "slot_bridge cc field slot pc addr w d t m =
     (let m = cpu_calc_cycles t m;
          hs = map (\<lambda>ap. (field ap, ap_instance ap)) (active_peripherals m ! slot)
      in answer_or_null (try_handlers cc hs pc addr w d t m) pc addr w d t m)"

definition slot_read_c0_bridge :: "'a host card_code \<Rightarrow> ('a, u8 \<times> 'a host) io_call" where
  "slot_read_c0_bridge cc pc addr = slot_bridge cc read_c0 (unat (drop_bit 4 (addr AND 0x70))) pc addr"

definition slot_write_c0_bridge :: "'a host card_code \<Rightarrow> ('a, u8 \<times> 'a host) io_call" where
  "slot_write_c0_bridge cc pc addr = slot_bridge cc write_c0 (unat (drop_bit 4 (addr AND 0x70))) pc addr"

definition slot_read_cx_bridge :: "'a host card_code \<Rightarrow> ('a, u8 \<times> 'a host) io_call" where
  "slot_read_cx_bridge cc pc addr = slot_bridge cc read_cx (unat (drop_bit 8 addr AND 7)) pc addr"

definition slot_write_cx_bridge :: "'a host card_code \<Rightarrow> ('a, u8 \<times> 'a host) io_call" where
  "slot_write_cx_bridge cc pc addr = slot_bridge cc write_cx (unat (drop_bit 8 addr AND 7)) pc addr"

definition dispatch_direct_io_strobe ::
  "'a host card_code \<Rightarrow> u16 \<Rightarrow> 'a host \<Rightarrow> bool \<times> 'a host" where
  "dispatch_direct_io_strobe cc addr m =
     (case find (\<lambda>h. dio_addr h = addr \<and> dio_strobe h \<noteq> None) (direct_io_handlers m) of
        None \<Rightarrow> (False, m)
      | Some h \<Rightarrow> (True, card_strobe cc (the (dio_strobe h)) (dio_instance h) m))"

definition direct_bridge ::
  "'a host card_code \<Rightarrow> (direct_io_handler \<Rightarrow> nat option) \<Rightarrow> ('a, u8 \<times> 'a host) io_call" where
  "direct_bridge cc field pc addr w d t m =
     (let m = cpu_calc_cycles t m in
      case dispatch_direct_io_strobe cc addr m of
        (True, m) \<Rightarrow> io_null pc addr w d t m
      | (False, m) \<Rightarrow>
          let hs = map (\<lambda>h. (field h, dio_instance h))
                     (filter (\<lambda>h. dio_addr h = addr) (direct_io_handlers m))
          in answer_or_null (try_handlers cc hs pc addr w d t m) pc addr w d t m)"

definition direct_io_read_bridge :: "'a host card_code \<Rightarrow> ('a, u8 \<times> 'a host) io_call" where
  "direct_io_read_bridge cc = direct_bridge cc dio_read"

definition direct_io_write_bridge :: "'a host card_code \<Rightarrow> ('a, u8 \<times> 'a host) io_call" where
  "direct_io_write_bridge cc = direct_bridge cc dio_write"

text \<open>The six bridges as the functions the memory unit's tables can name.\<close>

abbreviation (input) "slot_read_c0_fn \<equiv> card_fn 0"
abbreviation (input) "slot_write_c0_fn \<equiv> card_fn 1"
abbreviation (input) "slot_read_cx_fn \<equiv> card_fn 2"
abbreviation (input) "slot_write_cx_fn \<equiv> card_fn 3"
abbreviation (input) "direct_read_fn \<equiv> card_fn 4"
abbreviation (input) "direct_write_fn \<equiv> card_fn 5"

definition bridges ::
  "'a host card_code \<Rightarrow> nat \<Rightarrow> ('a, u8 \<times> 'a host) io_call" where
  "bridges cc n =
     (if n = 0 then slot_read_c0_bridge cc
      else if n = 1 then slot_write_c0_bridge cc
      else if n = 2 then slot_read_cx_bridge cc
      else if n = 3 then slot_write_cx_bridge cc
      else if n = 4 then direct_io_read_bridge cc
      else if n = 5 then direct_io_write_bridge cc
      else io_null)"

subsection \<open>Host interface\<close>

definition valid_slot :: "int \<Rightarrow> bool" where
  "valid_slot slot \<longleftrightarrow> 0 \<le> slot \<and> slot < int num_slots"

definition slot_sources :: "irq_src list" where
  "slot_sources = [is_slot1, is_slot2, is_slot3, is_slot4, is_slot5, is_slot6, is_slot7]"

definition host_assert_irq :: "int \<Rightarrow> bool \<Rightarrow> 'a machine_scheme \<Rightarrow> 'a machine_scheme" where
  "host_assert_irq slot level m =
     (if slot < 1 \<or> slot > 7 then m
      else let src = slot_sources ! nat (slot - 1)
           in if level then cpu_irq_assert src m else cpu_irq_deassert src m)"

definition set_slot ::
  "nat \<Rightarrow> active_peripheral list \<Rightarrow> 'a peripherals_scheme \<Rightarrow> 'a peripherals_scheme" where
  "set_slot k aps m = m\<lparr>active_peripherals := (active_peripherals m)[k := aps]\<rparr>"

definition register_bridges ::
  "nat \<Rightarrow> active_peripheral \<Rightarrow> 'a peripherals_scheme \<Rightarrow> 'a peripherals_scheme" where
  "register_bridges k ap =
     register_io_handler k (map_option (\<lambda>_. slot_read_c0_fn) (read_c0 ap))
       (map_option (\<lambda>_. slot_write_c0_fn) (write_c0 ap))
       (map_option (\<lambda>_. slot_read_cx_fn) (read_cx ap))
       (map_option (\<lambda>_. slot_write_cx_fn) (write_cx ap))
       (ap_instance ap) (ap_expansion_rom ap)"

definition host_register_io ::
  "int \<Rightarrow> nat option \<Rightarrow> nat option \<Rightarrow> nat option \<Rightarrow> nat option \<Rightarrow>
   'a peripherals_scheme \<Rightarrow> 'a peripherals_scheme" where
  "host_register_io slot rc wc rx wx m =
     (if \<not> valid_slot slot then m
      else
        let k = nat slot; aps = active_peripherals m ! k in
        if aps = [] then m
        else
          let ap = (last aps)\<lparr>read_c0 := rc, write_c0 := wc, read_cx := rx, write_cx := wx\<rparr>
          in register_bridges k ap (set_slot k (butlast aps @ [ap]) m))"

definition host_register_cx_rom ::
  "int \<Rightarrow> (nat \<Rightarrow> u8) option \<Rightarrow> 'a memory_scheme \<Rightarrow> 'a memory_scheme" where
  "host_register_cx_rom slot rom m =
     (case rom of None \<Rightarrow> m
      | Some p \<Rightarrow>
          if slot < 1 \<or> slot > 7 \<or> mem_null m then m
          else mem_refresh_cx_page slot (mem_put (CxRomPeripheral, nat slot * 256) p 256 m))"

definition host_register_expansion_rom ::
  "int \<Rightarrow> (nat \<Rightarrow> u8) option \<Rightarrow> 'a peripherals_scheme \<Rightarrow> 'a peripherals_scheme" where
  "host_register_expansion_rom slot rom m =
     (if \<not> valid_slot slot then m
      else
        let k = nat slot; aps = active_peripherals m ! k in
        if aps = [] then m
        else
          let ap = (last aps)\<lparr>ap_expansion_rom := rom\<rparr>
          in register_bridges k ap (set_slot k (butlast aps @ [ap]) m))"

definition host_register_direct_io ::
  "nat option \<Rightarrow> u16 \<Rightarrow> nat option \<Rightarrow> nat option \<Rightarrow> 'a peripherals_scheme \<Rightarrow> 'a peripherals_scheme" where
  "host_register_direct_io inst addr reader writer m =
     (if length (direct_io_handlers m) \<ge> io_direct_count then m
      else
        let m = m\<lparr>direct_io_handlers := direct_io_handlers m @
              [\<lparr>dio_addr = addr, dio_read = reader, dio_write = writer, dio_strobe = None, dio_instance = inst\<rparr>]\<rparr>
        in register_direct_io_handler addr (map_option (\<lambda>_. direct_read_fn) reader)
             (map_option (\<lambda>_. direct_write_fn) writer) m)"

definition host_register_direct_io_strobe ::
  "nat option \<Rightarrow> u16 \<Rightarrow> nat option \<Rightarrow> 'a peripherals_scheme \<Rightarrow> 'a peripherals_scheme" where
  "host_register_direct_io_strobe inst addr strobe m =
     (if length (direct_io_handlers m) \<ge> io_direct_count then m
      else
        let m = m\<lparr>direct_io_handlers := direct_io_handlers m @
              [\<lparr>dio_addr = addr, dio_read = None, dio_write = None, dio_strobe = strobe, dio_instance = inst\<rparr>]\<rparr>
        in register_direct_io_handler addr (Some direct_read_fn) (Some direct_write_fn) m)"

datatype peripheral_machine = peripheral_machine_apple2 | peripheral_machine_apple2_plus
  | peripheral_machine_apple2e

definition host_get_machine :: "'a machine_scheme \<Rightarrow> peripheral_machine" where
  "host_get_machine m =
     (if apple2_type_code (current_apple2_type m) AND 0x10 \<noteq> 0 then peripheral_machine_apple2e
      else if current_apple2_type m = A2TYPE_APPLE2 then peripheral_machine_apple2
      else peripheral_machine_apple2_plus)"

definition host_get_frame_cycles :: "'a video_scheme \<Rightarrow> u32" where
  "host_get_frame_cycles m = (if clks_per_frame m \<noteq> 0 then clks_per_frame m else 17030)"

definition host_get_cycles :: "'a machine_scheme \<Rightarrow> u64" where
  "host_get_cycles m = cumulative_cycles m"

definition host_notify_activity_changed ::
  "int \<Rightarrow> bool \<Rightarrow> 'a peripherals_scheme \<Rightarrow> 'a peripherals_scheme" where
  "host_notify_activity_changed slot active m =
     (if \<not> valid_slot slot then m
      else
        let m = m\<lparr>activity_state := (activity_state m)[nat slot := active]\<rparr>
        in if active then m\<lparr>activity_seen := (activity_seen m)[nat slot := True]\<rparr> else m)"

subsection \<open>Device events\<close>

definition recompute_next_event_cycle :: "'a peripherals_scheme \<Rightarrow> 'a peripherals_scheme" where
  "recompute_next_event_cycle m =
     m\<lparr>next_event_cycle :=
         fold (\<lambda>ap next. min next (event_cycle ap)) (concat (active_peripherals m)) no_event\<rparr>"

definition map_cards ::
  "(active_peripheral \<Rightarrow> active_peripheral) \<Rightarrow> 'a peripherals_scheme \<Rightarrow> 'a peripherals_scheme" where
  "map_cards f m = m\<lparr>active_peripherals := map (map f) (active_peripherals m)\<rparr>"

definition clear_all_events :: "'a peripherals_scheme \<Rightarrow> 'a peripherals_scheme" where
  "clear_all_events m = (map_cards (event_cycle_update (\<lambda>_. no_event)) m)\<lparr>next_event_cycle := no_event\<rparr>"

text \<open>The first card with the instance, in the order of the slots.\<close>

fun update_first :: "('x \<Rightarrow> bool) \<Rightarrow> ('x \<Rightarrow> 'x) \<Rightarrow> 'x list \<Rightarrow> 'x list option" where
  "update_first P f [] = None"
| "update_first P f (x # xs) =
     (if P x then Some (f x # xs) else map_option ((#) x) (update_first P f xs))"

fun update_first_slot :: "('x \<Rightarrow> bool) \<Rightarrow> ('x \<Rightarrow> 'x) \<Rightarrow> 'x list list \<Rightarrow> 'x list list option" where
  "update_first_slot P f [] = None"
| "update_first_slot P f (xs # xss) =
     (case update_first P f xs of
        Some ys \<Rightarrow> Some (ys # xss)
      | None \<Rightarrow> map_option ((#) xs) (update_first_slot P f xss))"

definition host_schedule_event ::
  "nat option \<Rightarrow> u64 \<Rightarrow> 'a peripherals_scheme \<Rightarrow> 'a peripherals_scheme" where
  "host_schedule_event inst at_cycle m =
     (if inst = None then m
      else case update_first_slot (\<lambda>ap. ap_instance ap = inst)
             (event_cycle_update (\<lambda>_. if at_cycle = 0 then no_event else at_cycle))
             (active_peripherals m) of
        None \<Rightarrow> m
      | Some aps \<Rightarrow>
          let m = recompute_next_event_cycle (m\<lparr>active_peripherals := aps\<rparr>)
          in cpu_limit_cycles (next_event_cycle m) m)"

definition peripheral_next_event_cycle :: "'a peripherals_scheme \<Rightarrow> u64" where
  "peripheral_next_event_cycle m = next_event_cycle m"

definition run_think :: "'a host card_code \<Rightarrow> u32 \<Rightarrow> active_peripheral \<Rightarrow> 'a host \<Rightarrow> 'a host" where
  "run_think cc cycles ap m =
     (case card_think cc (ap_api ap) of None \<Rightarrow> m | Some think \<Rightarrow> think (ap_instance ap) cycles m)"

definition due_cards :: "u64 \<Rightarrow> 'a peripherals_scheme \<Rightarrow> active_peripheral list" where
  "due_cards now m = filter (\<lambda>ap. event_cycle ap \<le> now) (concat (active_peripherals m))"

definition clear_due :: "u64 \<Rightarrow> 'a peripherals_scheme \<Rightarrow> 'a peripherals_scheme" where
  "clear_due now =
     map_cards (\<lambda>ap. if event_cycle ap \<le> now then ap\<lparr>event_cycle := no_event\<rparr> else ap)"

definition peripheral_service_events :: "'a host card_code \<Rightarrow> u64 \<Rightarrow> 'a host \<Rightarrow> 'a host" where
  "peripheral_service_events cc now m =
     (if next_event_cycle m > now then m
      else recompute_next_event_cycle (fold (run_think cc 0) (due_cards now m) (clear_due now m)))"

end
