(* ===== verification/Peripheral_Manager.thy ===== *)
theory Peripheral_Manager
  imports Peripheral_Host
begin

text \<open>
  Registering and removing cards, the command queue, the calls the core makes on every batch of
  cycles, and the manifest of a save state
  (\<open>src/apple2/peripherals/Peripheral.cpp\<close>).  The queue's mutex is not modelled: an
  operation on the queue is one step.
\<close>

subsection \<open>The registry of built-in cards\<close>

text \<open>C strings are compared as bytes; \<open>strcmp(a, b) > 0\<close>.\<close>

fun string_greater :: "string \<Rightarrow> string \<Rightarrow> bool" where
  "string_greater as [] = (as \<noteq> [])"
| "string_greater [] (b # bs) = False"
| "string_greater (a # as) (b # bs) = (if a = b then string_greater as bs else (of_char a :: nat) > of_char b)"

definition peripheral_register_builtin ::
  "descriptor option \<Rightarrow> descriptor list \<Rightarrow> descriptor list" where
  "peripheral_register_builtin api registry =
     (case api of None \<Rightarrow> registry
      | Some d \<Rightarrow> takeWhile (\<lambda>a. string_greater (api_id a) (api_id d)) registry @ d #
                  dropWhile (\<lambda>a. string_greater (api_id a) (api_id d)) registry)"

subsection \<open>Registration\<close>

definition new_peripheral :: "descriptor \<Rightarrow> int \<Rightarrow> active_peripheral" where
  "new_peripheral api slot =
     \<lparr>ap_api = api, ap_instance = None, ap_slot = slot, read_c0 = None, write_c0 = None,
      read_cx = None, write_cx = None, ap_expansion_rom = None, event_cycle = no_event\<rparr>"

definition peripheral_register ::
  "'a host card_code \<Rightarrow> descriptor option \<Rightarrow> int \<Rightarrow> 'a host \<Rightarrow> int \<times> 'a host" where
  "peripheral_register cc api slot m =
     (case api of None \<Rightarrow> (- 1, m)
      | Some d \<Rightarrow>
          if \<not> valid_slot slot then (- 1, m)
          else if abi_version d \<noteq> linapple_abi_version then (- 1, m)
          else if compatible_slots d AND push_bit (nat slot) 1 = 0 then (- 1, m)
          else
            let k = nat slot in
            if slot \<noteq> 0 \<and> active_peripherals m ! k \<noteq> [] then (- 1, m)
            else
              let m = set_slot k (active_peripherals m ! k @ [new_peripheral d slot]) m
              in case card_init cc d slot m of
                   (None, m) \<Rightarrow> (- 1, set_slot k (butlast (active_peripherals m ! k)) m)
                 | (Some inst, m) \<Rightarrow>
                     let aps = active_peripherals m ! k
                     in (0, set_slot k (butlast aps @ [(last aps)\<lparr>ap_instance := Some inst\<rparr>]) m))"

definition remove_direct_io_handlers_for_instance ::
  "nat option \<Rightarrow> 'a peripherals_scheme \<Rightarrow> 'a peripherals_scheme" where
  "remove_direct_io_handlers_for_instance inst m =
     (if inst = None then m
      else
        let gone = filter (\<lambda>h. dio_instance h = inst) (direct_io_handlers m);
            m = fold (\<lambda>h. register_direct_io_handler (dio_addr h) None None) gone m
        in m\<lparr>direct_io_handlers := filter (\<lambda>h. dio_instance h \<noteq> inst) (direct_io_handlers m)\<rparr>)"

definition shut_down :: "'a host card_code \<Rightarrow> active_peripheral \<Rightarrow> 'a host \<Rightarrow> 'a host" where
  "shut_down cc ap m =
     (case card_shutdown cc (ap_api ap) of None \<Rightarrow> m | Some f \<Rightarrow> f (ap_instance ap) m)"

definition peripheral_unregister :: "'a host card_code \<Rightarrow> int \<Rightarrow> 'a host \<Rightarrow> int \<times> 'a host" where
  "peripheral_unregister cc slot m =
     (if \<not> valid_slot slot then (- 1, m)
      else
        let k = nat slot;
            m = fold (\<lambda>ap m. shut_down cc ap (remove_direct_io_handlers_for_instance (ap_instance ap) m))
                  (active_peripherals m ! k) m;
            m = recompute_next_event_cycle (set_slot k [] m);
            m = register_io_handler k None None None None None None m;
            m = (if 1 \<le> slot \<and> slot \<le> 7 \<and> \<not> mem_null m
                 then mem_refresh_cx_page slot (mem_fill (CxRomPeripheral, k * 256) 0 256 m) else m)
        in (0, m))"

definition clear_all_peripherals :: "'a host card_code \<Rightarrow> 'a host \<Rightarrow> 'a host" where
  "clear_all_peripherals cc m =
     (let m = fold (\<lambda>h. register_direct_io_handler (dio_addr h) None None) (direct_io_handlers m) m;
          m = m\<lparr>direct_io_handlers := []\<rparr>;
          m = fold (\<lambda>k m.
                let m = m\<lparr>activity_state := (activity_state m)[k := False],
                          activity_seen := (activity_seen m)[k := False]\<rparr>
                in set_slot k [] (fold (shut_down cc) (active_peripherals m ! k) m))
              [0..<num_slots] m;
          m = m\<lparr>next_event_cycle := no_event\<rparr>
      in fold (\<lambda>k m. let m = sink_close_record k m
                     in put_record k ((sink_records m ! k)\<lparr>line_sent := False\<rparr>) m) [0..<7] m)"

subsection \<open>Commands\<close>

definition push_command :: "queued_command \<Rightarrow> 'a peripherals_scheme \<Rightarrow> 'a peripherals_scheme" where
  "push_command cmd m = m\<lparr>command_queue := command_queue m @ [cmd]\<rparr>"

definition peripheral_command ::
  "int \<Rightarrow> u32 \<Rightarrow> u8 list option \<Rightarrow> nat \<Rightarrow> 'a peripherals_scheme \<Rightarrow>
   peripheral_status \<times> 'a peripherals_scheme" where
  "peripheral_command slot cid data n m =
     (if \<not> valid_slot slot \<or> n > peripheral_cmd_max_data \<or> n > 0 \<and> data = None
      then (peripheral_error, m)
      else (peripheral_ok, push_command
              \<lparr>cmd_slot = slot, cmd_id = cid, cmd_target = [],
               cmd_data = (if n > 0 then take n (the data) else [])\<rparr> m))"

definition peripheral_by_id :: "int \<Rightarrow> string option \<Rightarrow> 'a peripherals_scheme \<Rightarrow> active_peripheral option" where
  "peripheral_by_id slot pid m =
     (case pid of None \<Rightarrow> None
      | Some i \<Rightarrow> if \<not> valid_slot slot then None
                  else find (\<lambda>ap. api_id (ap_api ap) = i) (active_peripherals m ! nat slot))"

definition peripheral_present :: "int \<Rightarrow> string option \<Rightarrow> 'a peripherals_scheme \<Rightarrow> bool" where
  "peripheral_present slot pid m = (peripheral_by_id slot pid m \<noteq> None)"

definition peripheral_slot_of :: "string option \<Rightarrow> 'a peripherals_scheme \<Rightarrow> int" where
  "peripheral_slot_of pid m =
     (case pid of None \<Rightarrow> - 1
      | Some i \<Rightarrow>
          (case find (\<lambda>slot. peripheral_by_id (int slot) (Some i) m \<noteq> None) [0..<num_slots] of
             None \<Rightarrow> - 1 | Some slot \<Rightarrow> int slot))"

definition peripheral_command_by_id ::
  "int \<Rightarrow> string option \<Rightarrow> u32 \<Rightarrow> u8 list option \<Rightarrow> nat \<Rightarrow> 'a peripherals_scheme \<Rightarrow>
   peripheral_status \<times> 'a peripherals_scheme" where
  "peripheral_command_by_id slot pid cid data n m =
     (case pid of None \<Rightarrow> (peripheral_error, m)
      | Some i \<Rightarrow>
          if \<not> valid_slot slot \<or> n > peripheral_cmd_max_data \<or> n > 0 \<and> data = None
          then (peripheral_error, m)
          else if length i \<ge> peripheral_target_id_size then (peripheral_error, m)
          else if peripheral_by_id slot (Some i) m = None then (peripheral_error, m)
          else (peripheral_ok, push_command
                  \<lparr>cmd_slot = slot, cmd_id = cid, cmd_target = take (peripheral_target_id_size - 1) i,
                   cmd_data = (if n > 0 then take n (the data) else [])\<rparr> m))"

definition deliver_to :: "'a host card_code \<Rightarrow> queued_command \<Rightarrow> active_peripheral \<Rightarrow> 'a host \<Rightarrow> 'a host" where
  "deliver_to cc cmd ap m =
     (case card_command cc (ap_api ap) of None \<Rightarrow> m
      | Some f \<Rightarrow>
          if cmd_target cmd \<noteq> [] \<and> api_id (ap_api ap) \<noteq> cmd_target cmd then m
          else f (ap_instance ap) (cmd_id cmd) (cmd_data cmd) m)"

definition deliver :: "'a host card_code \<Rightarrow> queued_command \<Rightarrow> 'a host \<Rightarrow> 'a host" where
  "deliver cc cmd m =
     (if valid_slot (cmd_slot cmd)
      then fold (deliver_to cc cmd) (active_peripherals m ! nat (cmd_slot cmd)) m else m)"

definition peripheral_drain_command_queue :: "'a host card_code \<Rightarrow> 'a host \<Rightarrow> 'a host" where
  "peripheral_drain_command_queue cc m =
     fold (deliver cc) (command_queue m) (m\<lparr>command_queue := []\<rparr>)"

subsection \<open>The calls of the core\<close>

definition for_cards ::
  "(active_peripheral \<Rightarrow> 'a host \<Rightarrow> 'a host) \<Rightarrow> 'a host \<Rightarrow> 'a host" where
  "for_cards f m = fold (\<lambda>k m. fold f (active_peripherals m ! k) m) [0..<num_slots] m"

definition peripheral_manager_init :: "'a host card_code \<Rightarrow> 'a host \<Rightarrow> 'a host" where
  "peripheral_manager_init cc m = clear_all_peripherals cc (m\<lparr>command_queue := []\<rparr>)"

definition peripheral_manager_reset :: "'a host card_code \<Rightarrow> 'a host \<Rightarrow> 'a host" where
  "peripheral_manager_reset cc m =
     (let m = clear_all_events m; m = m\<lparr>activity_seen := replicate num_slots False\<rparr>
      in for_cards (\<lambda>ap m. case card_reset cc (ap_api ap) of
                             None \<Rightarrow> m | Some f \<Rightarrow> f (ap_instance ap) m) m)"

definition peripheral_manager_shutdown :: "'a host card_code \<Rightarrow> 'a host \<Rightarrow> 'a host" where
  "peripheral_manager_shutdown cc m =
     (clear_all_peripherals cc m)\<lparr>activity_state := replicate num_slots False,
        activity_seen := replicate num_slots False, command_queue := [], direct_io_handlers := []\<rparr>"

definition peripheral_manager_think :: "'a host card_code \<Rightarrow> u32 \<Rightarrow> 'a host \<Rightarrow> 'a host" where
  "peripheral_manager_think cc cycles m =
     for_cards (run_think cc cycles) (sink_tick (peripheral_drain_command_queue cc m))"

definition peripheral_manager_on_vblank :: "'a host card_code \<Rightarrow> bool \<Rightarrow> 'a host \<Rightarrow> 'a host" where
  "peripheral_manager_on_vblank cc vblank =
     for_cards (\<lambda>ap m. case card_on_vblank cc (ap_api ap) of
                         None \<Rightarrow> m | Some f \<Rightarrow> f (ap_instance ap) vblank m)"

definition peripheral_is_any_active :: "'a peripherals_scheme \<Rightarrow> bool" where
  "peripheral_is_any_active m = list_ex id (activity_state m)"

definition peripheral_activity_poll :: "int \<Rightarrow> 'a peripherals_scheme \<Rightarrow> bool \<times> 'a peripherals_scheme" where
  "peripheral_activity_poll slot m =
     (if \<not> valid_slot slot then (False, m)
      else (activity_seen m ! nat slot, m\<lparr>activity_seen := (activity_seen m)[nat slot := False]\<rparr>))"

subsection \<open>Queries and the manifest\<close>

definition peripheral_query_by_id ::
  "'a host card_code \<Rightarrow> int \<Rightarrow> string option \<Rightarrow> u32 \<Rightarrow> 'a host \<Rightarrow> peripheral_status \<times> u8 list" where
  "peripheral_query_by_id cc slot pid cid m =
     (case peripheral_by_id slot pid m of None \<Rightarrow> (peripheral_error, [])
      | Some ap \<Rightarrow> (case card_query cc (ap_api ap) of None \<Rightarrow> (peripheral_error, [])
                     | Some f \<Rightarrow> f (ap_instance ap) cid m))"

fun first_answer ::
  "'a host card_code \<Rightarrow> u32 \<Rightarrow> active_peripheral list \<Rightarrow> 'a host \<Rightarrow> peripheral_status \<times> u8 list" where
  "first_answer cc cid [] m = (peripheral_error, [])"
| "first_answer cc cid (ap # aps) m =
     (case card_query cc (ap_api ap) of None \<Rightarrow> first_answer cc cid aps m
      | Some f \<Rightarrow> (let r = f (ap_instance ap) cid m
                   in if fst r \<noteq> peripheral_incompatible then r else first_answer cc cid aps m))"

definition peripheral_query ::
  "'a host card_code \<Rightarrow> int \<Rightarrow> u32 \<Rightarrow> 'a host \<Rightarrow> peripheral_status \<times> u8 list" where
  "peripheral_query cc slot cid m =
     (if \<not> valid_slot slot then (peripheral_error, [])
      else first_answer cc cid (active_peripherals m ! nat slot) m)"

record peripheral_info =
  info_name :: string
  info_version :: u32

definition peripheral_get_manifest :: "'a peripherals_scheme \<Rightarrow> peripheral_info list" where
  "peripheral_get_manifest m =
     map (\<lambda>aps. case aps of [] \<Rightarrow> \<lparr>info_name = [], info_version = 0\<rparr>
                 | ap # _ \<Rightarrow> \<lparr>info_name = take (max_peripheral_name - 1) (api_name (ap_api ap)),
                              info_version = word_of_int (abi_version (ap_api ap))\<rparr>)
       (active_peripherals m)"

definition peripheral_verify_manifest :: "peripheral_info list option \<Rightarrow> 'a peripherals_scheme \<Rightarrow> bool" where
  "peripheral_verify_manifest manifest m =
     (case manifest of None \<Rightarrow> False
      | Some infos \<Rightarrow>
          list_all2 (\<lambda>pi aps. if info_name pi = [] then aps = []
                               else list_ex (\<lambda>ap. api_name (ap_api ap) = info_name pi) aps)
            infos (active_peripherals m))"

definition peripheral_save_state :: "'a host card_code \<Rightarrow> int \<Rightarrow> 'a host \<Rightarrow> u8 list" where
  "peripheral_save_state cc slot m =
     (if \<not> valid_slot slot then []
      else case active_peripherals m ! nat slot of [] \<Rightarrow> []
           | ap # _ \<Rightarrow> (case card_save_state cc (ap_api ap) of None \<Rightarrow> []
                         | Some f \<Rightarrow> f (ap_instance ap) m))"

definition peripheral_load_state ::
  "'a host card_code \<Rightarrow> int \<Rightarrow> u8 list option \<Rightarrow> 'a host \<Rightarrow> peripheral_status \<times> 'a host" where
  "peripheral_load_state cc slot buffer m =
     (case buffer of None \<Rightarrow> (peripheral_error, m)
      | Some b \<Rightarrow>
          if \<not> valid_slot slot then (peripheral_error, m)
          else case active_peripherals m ! nat slot of [] \<Rightarrow> (peripheral_incompatible, m)
               | ap # _ \<Rightarrow> (case card_load_state cc (ap_api ap) of
                               None \<Rightarrow> (peripheral_incompatible, m)
                             | Some f \<Rightarrow> f (ap_instance ap) b m))"

end
