(* ===== verification/Core_Session.thy ===== *)
theory Core_Session
  imports Peripheral_Manager Cpu_Exec
begin

text \<open>
  The core's run loop and its resets (\<open>src/core/LinAppleCore.cpp\<close>): a batch of cycles cut
  into slices at the cycles cards asked to be woken at, full-speed runs, and the inputs the
  frontend sets.  The frontend's callbacks, the tick counter behind the log lines and the BASIC
  live sync are left out.  A call that does not return is \<open>None\<close>.
\<close>

definition linapple_reset_soft :: "'a memory_scheme \<Rightarrow> 'a memory_scheme" where
  "linapple_reset_soft m = cpu_reset (if \<not> is_apple2 m then mem_reset_paging m else m)"

definition linapple_reset_hard :: "bool \<Rightarrow> 'a host card_code \<Rightarrow> 'a host \<Rightarrow> 'a host" where
  "linapple_reset_hard striped cc m =
     peripheral_manager_reset cc (cpu_reset (video_reset_state (mem_reset striped m)))"

definition host_reset_system :: "'a host card_code \<Rightarrow> 'a host \<Rightarrow> 'a host" where
  "host_reset_system cc m = peripheral_manager_reset cc (linapple_reset_soft m)"

subsection \<open>A batch of cycles\<close>

definition machine_bus :: "'a host card_code \<Rightarrow> ('a, u8 \<times> 'a host) io_call" where
  "machine_bus cc = io_map_dispatch (bridges cc)"

definition service_now :: "'a host card_code \<Rightarrow> 'a host \<Rightarrow> 'a host" where
  "service_now cc m = peripheral_service_events cc (cumulative_cycles m) m"

definition run_slice :: "'a host card_code \<Rightarrow> u32 \<Rightarrow> 'a host \<Rightarrow> (u32 \<times> 'a host) option" where
  "run_slice cc cycles m =
     (let m = service_now cc m
      in cpu_execute_slice (machine_bus cc) cycles (peripheral_next_event_cycle m) m)"

partial_function (option) run_slices ::
  "'a host card_code \<Rightarrow> u32 \<Rightarrow> 'a host \<Rightarrow> (u32 \<times> 'a host) option" where
  "run_slices cc cycles m =
     Option.bind (run_slice cc cycles m)
       (\<lambda>(executed, m). if executed < cycles then run_slices cc cycles m else Some (executed, m))"

definition internal_run_cycles ::
  "'a host card_code \<Rightarrow> u32 \<Rightarrow> 'a host \<Rightarrow> (u32 \<times> 'a host) option" where
  "internal_run_cycles cc cycles m =
     (if cycles = 0 then Some (0, m)
      else Option.bind (run_slices cc cycles (cpu_begin_frame cycles m))
        (\<lambda>(executed, m). map_option (Pair executed)
           (video_update_vbl executed (peripheral_manager_think cc executed m))))"

subsection \<open>Full speed\<close>

abbreviation (input) "full_speed_disk_iterations \<equiv> (100 :: nat)"
abbreviation (input) "emulation_speed_max \<equiv> (40 :: u32)"
abbreviation (input) "emulation_speed_min \<equiv> (0 :: u32)"
abbreviation (input) "emulation_speed_normal \<equiv> (10 :: u32)"

definition is_disk_turbo :: "'a peripherals_scheme \<Rightarrow> bool" where
  "is_disk_turbo m = (disk_turbo_enabled m \<and> peripheral_is_any_active m)"

definition is_user_turbo :: "'a peripherals_scheme \<Rightarrow> bool" where
  "is_user_turbo m = (user_turbo m \<or> emulation_speed m \<ge> emulation_speed_max)"

definition should_run_full_speed :: "'a peripherals_scheme \<Rightarrow> bool \<times> 'a peripherals_scheme" where
  "should_run_full_speed m =
     (let turbo = is_disk_turbo m \<or> is_user_turbo m in (turbo, m\<lparr>full_speed := turbo\<rparr>))"

fun full_speed_loop ::
  "'a host card_code \<Rightarrow> bool \<Rightarrow> u32 \<Rightarrow> nat \<Rightarrow> u32 \<Rightarrow> 'a host \<Rightarrow> (u32 \<times> 'a host) option" where
  "full_speed_loop cc disk_turbo cycles 0 executed m = Some (executed, m)"
| "full_speed_loop cc disk_turbo cycles (Suc i) executed m =
     Option.bind (internal_run_cycles cc cycles m)
       (\<lambda>(e, m). if disk_turbo \<and> \<not> peripheral_is_any_active m then Some (executed + e, m)
                 else full_speed_loop cc disk_turbo cycles i (executed + e) m)"

definition run_frame_cycles ::
  "'a host card_code \<Rightarrow> u32 \<Rightarrow> 'a host \<Rightarrow> (u32 \<times> 'a host) option" where
  "run_frame_cycles cc cycles m =
     (case should_run_full_speed m of (turbo, m) \<Rightarrow>
        if \<not> turbo then internal_run_cycles cc cycles m
        else full_speed_loop cc (is_disk_turbo m) cycles full_speed_disk_iterations 0 m)"

definition linapple_run_frame ::
  "'a host card_code \<Rightarrow> u32 \<Rightarrow> 'a host \<Rightarrow> (u32 \<times> 'a host) option" where
  "linapple_run_frame cc cycles m =
     (if \<not> running m then Some (0, m)
      else map_option (apsnd (peripheral_manager_on_vblank cc True)) (run_frame_cycles cc cycles m))"

definition linapple_set_speed :: "u32 \<Rightarrow> 'a peripherals_scheme \<Rightarrow> 'a peripherals_scheme" where
  "linapple_set_speed speed m = m\<lparr>emulation_speed := min speed emulation_speed_max\<rparr>"

definition linapple_speed_increase :: "'a peripherals_scheme \<Rightarrow> u32 \<times> 'a peripherals_scheme" where
  "linapple_speed_increase m =
     (let s = min (emulation_speed m + 2) emulation_speed_max in (s, m\<lparr>emulation_speed := s\<rparr>))"

definition linapple_speed_decrease :: "'a peripherals_scheme \<Rightarrow> u32 \<times> 'a peripherals_scheme" where
  "linapple_speed_decrease m =
     (let m = (if emulation_speed m > emulation_speed_min
               then m\<lparr>emulation_speed := emulation_speed m - 1\<rparr> else m)
      in (emulation_speed m, m))"

definition linapple_speed_reset :: "'a peripherals_scheme \<Rightarrow> u32 \<times> 'a peripherals_scheme" where
  "linapple_speed_reset m = (emulation_speed_normal, m\<lparr>emulation_speed := emulation_speed_normal\<rparr>)"

definition linapple_set_turbo :: "bool \<Rightarrow> 'a peripherals_scheme \<Rightarrow> 'a peripherals_scheme" where
  "linapple_set_turbo turbo m = m\<lparr>user_turbo := turbo\<rparr>"

definition linapple_toggle_turbo :: "'a peripherals_scheme \<Rightarrow> bool \<times> 'a peripherals_scheme" where
  "linapple_toggle_turbo m = (\<not> user_turbo m, m\<lparr>user_turbo := \<not> user_turbo m\<rparr>)"

definition linapple_set_disk_turbo :: "bool \<Rightarrow> 'a peripherals_scheme \<Rightarrow> bool \<times> 'a peripherals_scheme" where
  "linapple_set_disk_turbo enabled m =
     (disk_turbo_enabled m, m\<lparr>disk_turbo_enabled := enabled\<rparr>)"

subsection \<open>Inputs\<close>

definition linapple_set_modifiers ::
  "bool \<Rightarrow> bool \<Rightarrow> bool \<Rightarrow> bool \<Rightarrow> 'a memory_scheme \<Rightarrow> 'a memory_scheme" where
  "linapple_set_modifiers shift ctrl open_apple solid_apple m =
     m\<lparr>switch_inputs_state :=
         switch_inputs_set_level 2 switch_source_keyboard shift
           (switch_inputs_set_level 1 switch_source_keyboard solid_apple
             (switch_inputs_set_level 0 switch_source_keyboard open_apple (switch_inputs_state m)))\<rparr>"

definition linapple_set_game_switch :: "nat \<Rightarrow> bool \<Rightarrow> 'a memory_scheme \<Rightarrow> 'a memory_scheme" where
  "linapple_set_game_switch line down m =
     m\<lparr>switch_inputs_state := switch_inputs_set_level line switch_source_connector down (switch_inputs_state m)\<rparr>"

definition linapple_set_game_pulldowns :: "u8 \<Rightarrow> 'a memory_scheme \<Rightarrow> 'a memory_scheme" where
  "linapple_set_game_pulldowns pulls m =
     m\<lparr>switch_inputs_state := switch_inputs_set_connector_pulldowns pulls (switch_inputs_state m)\<rparr>"

definition linapple_set_shift_key_mod :: "bool \<Rightarrow> 'a memory_scheme \<Rightarrow> 'a memory_scheme" where
  "linapple_set_shift_key_mod jumper_in m =
     m\<lparr>switch_inputs_state := switch_inputs_set_shift_key_mod jumper_in (switch_inputs_state m)\<rparr>"

end
