(* ===== verification/Memory_Map.thy ===== *)
theory Memory_Map
  imports Memory_Io
begin

text \<open>
  What the memory unit promises.  The memory map of the machine is a function of the mode
  flags: which bank page is visible on each of the 256 pages, and which bank page a write
  reaches.  The relation \<open>holds v m c\<close> says that the image, the banks and the dirty flags of
  \<open>m\<close> together represent the bank contents \<open>c\<close> while the image shows the pages \<open>v\<close>: the image
  page has the current bytes, and a bank page has them too unless a page that shows it may have
  been written since.  Updating the page tables keeps \<open>c\<close> and changes only what is visible.
\<close>

subsection \<open>The memory map\<close>

definition has :: "u32 \<Rightarrow> u32 \<Rightarrow> bool" where
  "has mode flag = (mode AND flag \<noteq> 0)"

definition slot_pages :: "nat set" where
  "slot_pages = {0xC0..<0xD0}"

definition display_page :: "u32 \<Rightarrow> nat \<Rightarrow> bool" where
  "display_page mode p = (4 \<le> p \<and> p < 8 \<or> has mode MF_HIRES \<and> 0x20 \<le> p \<and> p < 0x40)"

definition language_card_page :: "u32 \<Rightarrow> nat \<Rightarrow> ptr" where
  "language_card_page mode p =
     (if has mode MF_ALTZP then MemAux else MemMain,
      if p < 0xE0 \<and> \<not> has mode MF_HRAM_BANK2 then p * 256 - 0x1000 else p * 256)"

definition visible_page :: "u32 \<Rightarrow> nat \<Rightarrow> ptr" where
  "visible_page mode p =
     (if p < 2 then aux_or_main (has mode MF_ALTZP) p
      else if p < 0xC0 then
        aux_or_main (if has mode MF_80STORE \<and> display_page mode p then has mode MF_PAGE2
                     else has mode MF_AUXREAD) p
      else if p < 0xC8 then
        (if has mode MF_SLOTCXROM \<and> (p = 0xC3 \<longrightarrow> has mode MF_SLOTC3ROM)
         then CxRomPeripheral else CxRomInternal, (p mod 16) * 256)
      else if p < 0xD0 then (CxRomInternal, (p mod 16) * 256)
      else if has mode MF_HIGHRAM then language_card_page mode p
      else (MemRom, (p - 0xD0) * 256))"

definition write_page :: "u32 \<Rightarrow> nat \<Rightarrow> ptr option" where
  "write_page mode p =
     (if p < 2 then Some (aux_or_main (has mode MF_ALTZP) p)
      else if p < 0xC0 then
        Some (aux_or_main (if has mode MF_80STORE \<and> display_page mode p then has mode MF_PAGE2
                           else has mode MF_AUXWRITE) p)
      else if p < 0xD0 then None
      else if has mode MF_HRAM_WRITE then Some (language_card_page mode p)
      else None)"

definition tables_for :: "u32 \<Rightarrow> 'a memory_scheme \<Rightarrow> bool" where
  "tables_for mode m \<longleftrightarrow>
     (\<forall>p < 256. memshadow m p = Some (visible_page mode p) \<and>
        memwrite m p = map_option (\<lambda>w. if w = visible_page mode p then mem_page p else w)
                         (write_page mode p))"

lemma sw_has:
  "sw_80store m = has (mem_mode m) MF_80STORE" "sw_altzp m = has (mem_mode m) MF_ALTZP"
  "sw_auxread m = has (mem_mode m) MF_AUXREAD" "sw_auxwrite m = has (mem_mode m) MF_AUXWRITE"
  "sw_hram_bank2 m = has (mem_mode m) MF_HRAM_BANK2" "sw_highram m = has (mem_mode m) MF_HIGHRAM"
  "sw_hires m = has (mem_mode m) MF_HIRES" "sw_page2 m = has (mem_mode m) MF_PAGE2"
  "sw_slotc3rom m = has (mem_mode m) MF_SLOTC3ROM" "sw_slotcxrom m = has (mem_mode m) MF_SLOTCXROM"
  "sw_hram_write m = has (mem_mode m) MF_HRAM_WRITE"
  by (simp_all add: switch_defs has_def)

text \<open>Two different pages never show the same bank page, whatever the modes they were set up in.\<close>

lemma visible_page_cases:
  assumes "p < 256" "p \<notin> slot_pages"
  shows "visible_page mode p \<in> {(MemMain, p * 256), (MemAux, p * 256)} \<or>
    0xD0 \<le> p \<and> visible_page mode p = (MemRom, (p - 0xD0) * 256) \<or>
    0xD0 \<le> p \<and> p < 0xE0 \<and> visible_page mode p \<in> {(MemMain, (p - 16) * 256), (MemAux, (p - 16) * 256)}"
  using assms
  by (auto simp: visible_page_def aux_or_main_def language_card_page_def slot_pages_def
      diff_mult_distrib)

lemma visible_page_distinct:
  assumes "p < 256" "q < 256" "p \<noteq> q" "p \<notin> slot_pages" "q \<notin> slot_pages"
  shows "visible_page mode p \<noteq> visible_page mode' q"
  using visible_page_cases [OF assms(1,4), of mode] visible_page_cases [OF assms(2,5), of mode']
    assms(3-5)
  by (elim disjE conjE insertE; simp add: slot_pages_def; arith?)

subsection \<open>Building the page tables\<close>

definition update_tables :: "'a memory_scheme \<Rightarrow> 'a memory_scheme" where
  "update_tables m =
     store80_tables (language_card_tables (expansion_rom_tables (slot_rom_tables
       (ram_tables (page_zero_tables m)))))"

lemma mem_update_paging_eq:
  "mem_update_paging initialize False m =
     fold (swap_page initialize (if initialize then (\<lambda>_. None) else memshadow m)) [0..<256]
       (update_tables (if initialize then memwrite_initial m else m))"
  by (simp add: mem_update_paging_def update_tables_def Let_def)

lemmas table_defs = page_zero_tables_def ram_tables_def slot_rom_tables_def
  expansion_rom_tables_def language_card_tables_def store80_tables_def display_tables_def
  memwrite_initial_def

lemma update_tables_frame [simp]:
  "heap (update_tables m) = heap m" "memdirty (update_tables m) = memdirty m"
  "mem_mode (update_tables m) = mem_mode m" "regs (update_tables m) = regs m"
  "mode_changing (update_tables m) = mode_changing m"
  "mem_null (update_tables m) = mem_null m" "last_write_ram (update_tables m) = last_write_ram m"
  "io_read (update_tables m) = io_read m" "io_write (update_tables m) = io_write m"
  by (simp_all add: update_tables_def table_defs Let_def)

definition fixed_entries :: "'a memory_scheme \<Rightarrow> bool" where
  "fixed_entries m \<longleftrightarrow> memwrite m 0 = Some (mem_page 0) \<and> memwrite m 1 = Some (mem_page 1) \<and>
     (\<forall>p \<in> slot_pages. memwrite m p = None)"

lemma fixed_entries_tables: "tables_for mode m \<Longrightarrow> fixed_entries m"
  by (auto simp: tables_for_def fixed_entries_def slot_pages_def write_page_def visible_page_def)

lemma fixed_entries_initial: "fixed_entries (memwrite_initial m)"
  by (auto simp: fixed_entries_def memwrite_initial_def set_pages_def slot_pages_def)

lemma update_tables_shadow:
  assumes "p < 256"
  shows "memshadow (update_tables m) p = Some (visible_page (mem_mode m) p)"
  using assms
  by (auto simp: update_tables_def table_defs set_pages_def visible_page_def display_page_def
      lc_ram_def language_card_page_def sw_has Let_def)

lemma aux_or_main_eq [simp]: "aux_or_main a p = aux_or_main b p \<longleftrightarrow> a = b"
  by (auto simp: aux_or_main_def)

lemma memwrite_store80:
  "memwrite (store80_tables m) p =
     (if has (mem_mode m) MF_80STORE \<and> display_page (mem_mode m) p then Some (mem_page p)
      else memwrite m p)"
  by (auto simp: store80_tables_def display_tables_def set_pages_def display_page_def sw_has Let_def)

lemma memwrite_language_card:
  "memwrite (language_card_tables m) p =
     (if 0xD0 \<le> p \<and> p < 0x100
      then if \<not> has (mem_mode m) MF_HRAM_WRITE then None
           else if has (mem_mode m) MF_HIGHRAM then Some (mem_page p)
           else Some (language_card_page (mem_mode m) p)
      else memwrite m p)"
  by (simp add: language_card_tables_def set_pages_def lc_ram_def language_card_page_def sw_has)

lemma memwrite_ram:
  "memwrite (ram_tables m) p =
     (if 2 \<le> p \<and> p < 0xC0
      then Some (if has (mem_mode m) MF_AUXREAD = has (mem_mode m) MF_AUXWRITE then mem_page p
                 else aux_or_main (has (mem_mode m) MF_AUXWRITE) p)
      else memwrite m p)"
  by (simp add: ram_tables_def set_pages_def sw_has)

lemma tables_mode:
  "mem_mode (language_card_tables m) = mem_mode m" "mem_mode (expansion_rom_tables m) = mem_mode m"
  "mem_mode (slot_rom_tables m) = mem_mode m" "mem_mode (ram_tables m) = mem_mode m"
  "mem_mode (page_zero_tables m) = mem_mode m"
  "memwrite (expansion_rom_tables m) = memwrite m" "memwrite (slot_rom_tables m) = memwrite m"
  "memwrite (page_zero_tables m) = memwrite m"
  by (simp_all add: table_defs)

lemma update_tables_write:
  assumes "p < 256" "fixed_entries m"
  shows "memwrite (update_tables m) p =
    map_option (\<lambda>w. if w = visible_page (mem_mode m) p then mem_page p else w)
      (write_page (mem_mode m) p)"
proof -
  have table: "memwrite (update_tables m) p =
     (if has (mem_mode m) MF_80STORE \<and> display_page (mem_mode m) p then Some (mem_page p)
      else if 0xD0 \<le> p
      then if \<not> has (mem_mode m) MF_HRAM_WRITE then None
           else if has (mem_mode m) MF_HIGHRAM then Some (mem_page p)
           else Some (language_card_page (mem_mode m) p)
      else if 2 \<le> p \<and> p < 0xC0
      then Some (if has (mem_mode m) MF_AUXREAD = has (mem_mode m) MF_AUXWRITE then mem_page p
                 else aux_or_main (has (mem_mode m) MF_AUXWRITE) p)
      else memwrite m p)"
    using assms(1)
    by (simp add: update_tables_def memwrite_store80 memwrite_language_card memwrite_ram tables_mode)
  have display: "display_page (mem_mode m) p \<Longrightarrow> 2 \<le> p \<and> p < 0xC0"
    by (auto simp: display_page_def)
  consider "p = 0 \<or> p = 1" | "2 \<le> p" "p < 0xC0" | "0xC0 \<le> p" "p < 0xD0" | "0xD0 \<le> p"
    by linarith
  then show ?thesis
  proof cases
    case 1
    then have "memwrite m p = Some (mem_page p)" and "\<not> 0xD0 \<le> p" "\<not> 2 \<le> p" "p < 2"
      using assms(2) by (auto simp: fixed_entries_def)
    with display show ?thesis
      unfolding table by (simp add: visible_page_def write_page_def)
  next
    case 2
    then have v: "visible_page (mem_mode m) p =
        aux_or_main (if has (mem_mode m) MF_80STORE \<and> display_page (mem_mode m) p
                     then has (mem_mode m) MF_PAGE2 else has (mem_mode m) MF_AUXREAD) p"
      and w: "write_page (mem_mode m) p =
        Some (aux_or_main (if has (mem_mode m) MF_80STORE \<and> display_page (mem_mode m) p
                     then has (mem_mode m) MF_PAGE2 else has (mem_mode m) MF_AUXWRITE) p)"
      by (simp_all add: visible_page_def write_page_def)
    from 2 have t: "memwrite (update_tables m) p =
        (if has (mem_mode m) MF_80STORE \<and> display_page (mem_mode m) p then Some (mem_page p)
         else Some (if has (mem_mode m) MF_AUXREAD = has (mem_mode m) MF_AUXWRITE then mem_page p
                    else aux_or_main (has (mem_mode m) MF_AUXWRITE) p))"
      by (simp add: table)
    show ?thesis unfolding t v w by auto
  next
    case 3
    with assms(2) display show ?thesis
      unfolding table by (auto simp: write_page_def fixed_entries_def slot_pages_def)
  next
    case 4
    with display show ?thesis
      unfolding table by (auto simp: visible_page_def write_page_def language_card_page_def)
  qed
qed

lemma update_tables_for: "fixed_entries m \<Longrightarrow> tables_for (mem_mode m) (update_tables m)"
  by (simp add: tables_for_def update_tables_shadow update_tables_write)

end
