(* ===== verification/Memory_Refine.thy ===== *)
theory Memory_Refine
  imports Memory_Map
begin

text \<open>
  The memory unit implements its memory map: the representation relation \<open>holds\<close>, and the
  proof that swapping pages, writing through the tables and switching modes keep it.
\<close>

type_synonym contents = "region \<Rightarrow> nat \<Rightarrow> u8"

definition ram_pages :: "nat set" where
  "ram_pages = {0..<0x100} - slot_pages"

definition bank_page :: "ptr \<Rightarrow> bool" where
  "bank_page P \<longleftrightarrow> fst P \<in> {MemMain, MemAux, MemRom} \<and> snd P mod 256 = 0 \<and> snd P < 0x10000"

definition clean :: "'a machine_scheme \<Rightarrow> nat \<Rightarrow> bool" where
  "clean m q \<longleftrightarrow> 2 \<le> q \<and> memdirty m q AND 1 = 0"

definition page_is :: "'a machine_scheme \<Rightarrow> ptr \<Rightarrow> contents \<Rightarrow> ptr \<Rightarrow> bool" where
  "page_is m P c Q \<longleftrightarrow> (\<forall>i < 256. heap m (fst P) (snd P + i) = c (fst Q) (snd Q + i))"

definition holds :: "(nat \<Rightarrow> ptr) \<Rightarrow> 'a machine_scheme \<Rightarrow> contents \<Rightarrow> bool" where
  "holds v m c \<longleftrightarrow>
     (\<forall>p \<in> ram_pages. page_is m (mem_page p) c (v p)) \<and>
     (\<forall>P. bank_page P \<longrightarrow> (\<forall>q \<in> ram_pages. v q = P \<longrightarrow> clean m q) \<longrightarrow> page_is m P c P)"

lemma holds_image: "holds v m c \<Longrightarrow> p \<in> ram_pages \<Longrightarrow> page_is m (mem_page p) c (v p)"
  by (simp add: holds_def)

lemma holds_bank:
  "holds v m c \<Longrightarrow> bank_page P \<Longrightarrow> (\<And>q. q \<in> ram_pages \<Longrightarrow> v q = P \<Longrightarrow> clean m q) \<Longrightarrow> page_is m P c P"
  unfolding holds_def by blast

lemma visible_bank_page: "p \<in> ram_pages \<Longrightarrow> bank_page (visible_page mode p)"
  using visible_page_cases [of p mode]
  by (auto simp: bank_page_def ram_pages_def slot_pages_def)

lemma visible_inj:
  "p \<in> ram_pages \<Longrightarrow> q \<in> ram_pages \<Longrightarrow> visible_page mode p = visible_page mode' q \<Longrightarrow> p = q"
  using visible_page_distinct [of p q mode mode'] by (auto simp: ram_pages_def)

subsection \<open>Aligned copies\<close>

lemma aligned_disjoint:
  assumes "bank_page P" "bank_page Q" "P \<noteq> Q" "i < 256" "fst P = fst Q"
  shows "\<not> (snd Q \<le> snd P + i \<and> snd P + i < snd Q + 256)"
proof
  assume *: "snd Q \<le> snd P + i \<and> snd P + i < snd Q + 256"
  obtain a b where "snd P = 256 * a" "snd Q = 256 * b"
    using assms(1,2) unfolding bank_page_def by (metis mod_0_imp_dvd dvd_def)
  with * assms(4) have "a = b" by auto
  with \<open>snd P = 256 * a\<close> \<open>snd Q = 256 * b\<close> assms(3,5) show False
    by (simp add: prod_eq_iff)
qed

lemma heap_copy_in: "i < n \<Longrightarrow> heap (mem_copy d s n m) (fst d) (snd d + i) = heap m (fst s) (snd s + i)"
  by (simp add: mem_copy_def)

lemma heap_copy_out:
  "r \<noteq> fst d \<or> \<not> (snd d \<le> j \<and> j < snd d + n) \<Longrightarrow> heap (mem_copy d s n m) r j = heap m r j"
  unfolding mem_copy_def by auto

lemma bank_page_region: "bank_page P \<Longrightarrow> fst P \<noteq> MemImage"
  by (auto simp: bank_page_def)

lemma fst_mem_page [simp]: "fst (mem_page p) = MemImage" and snd_mem_page [simp]: "snd (mem_page p) = p * 256"
  by (simp_all add: mem_page_def)

lemma page_is_cong:
  "(\<And>i. i < 256 \<Longrightarrow> heap m (fst P) (snd P + i) = heap m' (fst P') (snd P' + i)) \<Longrightarrow>
   page_is m P c R = page_is m' P' c R"
  unfolding page_is_def by metis

lemma page_is_copy_in: "page_is (mem_copy d s 256 m) d c R = page_is m s c R"
  by (rule page_is_cong) (rule heap_copy_in)

lemma page_is_copy_region: "fst P \<noteq> fst d \<Longrightarrow> page_is (mem_copy d s 256 m) P c R = page_is m P c R"
  by (rule page_is_cong) (simp add: heap_copy_out)

lemma page_is_copy_bank:
  assumes "bank_page P" "bank_page Q" "P \<noteq> Q"
  shows "page_is (mem_copy Q s 256 m) P c R = page_is m P c R"
proof (rule page_is_cong)
  show "heap (mem_copy Q s 256 m) (fst P) (snd P + i) = heap m (fst P) (snd P + i)" if "i < 256" for i
    using aligned_disjoint [OF assms that] by (intro heap_copy_out) blast
qed

lemma page_is_copy_image:
  assumes "p \<noteq> q"
  shows "page_is (mem_copy (mem_page p) s 256 m) (mem_page q) c R = page_is m (mem_page q) c R"
proof (rule page_is_cong)
  have "p < q \<or> q < p" using assms by linarith
  then show "heap (mem_copy (mem_page p) s 256 m) (fst (mem_page q)) (snd (mem_page q) + i) =
      heap m (fst (mem_page q)) (snd (mem_page q) + i)" if "i < 256" for i
    using that by (intro heap_copy_out) auto
qed

lemma mem_copy_frame [simp]:
  "memdirty (mem_copy d s n m) = memdirty m" "memwrite (mem_copy d s n m) = memwrite m"
  "memshadow (mem_copy d s n m') = memshadow m'" "mem_mode (mem_copy d s n m') = mem_mode m'"
  "regs (mem_copy d s n m) = regs m" "mode_changing (mem_copy d s n m') = mode_changing m'"
  "io_read (mem_copy d s n m') = io_read m'" "io_write (mem_copy d s n m') = io_write m'"
  by (simp_all add: mem_copy_def)

lemma clean_mem_copy [simp]: "clean (mem_copy d s n m) q = clean m q"
  by (simp add: clean_def)

subsection \<open>Swapping pages\<close>

lemma and_not_1: "(v AND - 2) AND (1 :: u8) = 0"
proof -
  have "(v AND NOT 1) AND (1 :: u8) = 0"
    by (simp only: u8_eq_bits) (simp add: word_bits)
  then show ?thesis by simp
qed

lemma swap_page_frame [simp]:
  "memshadow (swap_page ini old p m) = memshadow m" "memwrite (swap_page ini old p m) = memwrite m"
  "mem_mode (swap_page ini old p m) = mem_mode m" "regs (swap_page ini old p m) = regs m"
  "mode_changing (swap_page ini old p m) = mode_changing m"
  "io_read (swap_page ini old p m) = io_read m" "io_write (swap_page ini old p m) = io_write m"
  by (simp_all add: swap_page_def Let_def split: option.splits)

lemma swap_page_frames [simp]:
  "memshadow (fold (swap_page ini old) ps m) = memshadow m"
  "memwrite (fold (swap_page ini old) ps m) = memwrite m"
  "mem_mode (fold (swap_page ini old) ps m) = mem_mode m"
  "mode_changing (fold (swap_page ini old) ps m) = mode_changing m"
  "io_read (fold (swap_page ini old) ps m) = io_read m"
  "io_write (fold (swap_page ini old) ps m) = io_write m"
  by (induction ps arbitrary: m) simp_all

definition write_back :: "nat \<Rightarrow> ptr \<Rightarrow> 'a memory_scheme \<Rightarrow> 'a memory_scheme" where
  "write_back p old m =
     (if memdirty m p AND 1 \<noteq> 0 \<or> p \<le> 1
      then mem_copy old (mem_page p) 256 (m\<lparr>memdirty := (memdirty m)(p := memdirty m p AND NOT 1)\<rparr>)
      else m)"

lemma swap_page_changed:
  assumes "old p = Some P" "memshadow m p = Some Q" "P \<noteq> Q"
  shows "swap_page False old p m = mem_copy (mem_page p) Q 256 (write_back p P m)"
  using assms by (simp add: swap_page_def write_back_def)

lemma swap_page_same: "old p = memshadow m p \<Longrightarrow> swap_page False old p m = m"
  by (simp add: swap_page_def)

lemma page_is_dirty [simp]: "page_is (m\<lparr>memdirty := d\<rparr>) P c Q = page_is m P c Q"
  by (simp add: page_is_def)

lemma write_back_page:
  assumes "bank_page P" "page_is m (mem_page p) c P" "clean m p \<Longrightarrow> page_is m P c P"
  shows "page_is (write_back p P m) P c P"
  using assms by (auto simp: write_back_def page_is_copy_in clean_def)

lemma write_back_other:
  "bank_page P \<Longrightarrow> bank_page R \<Longrightarrow> R \<noteq> P \<Longrightarrow> page_is (write_back p P m) R c S = page_is m R c S"
  by (simp add: write_back_def page_is_copy_bank)

lemma write_back_image:
  "bank_page P \<Longrightarrow> page_is (write_back p P m) (mem_page q) c S = page_is m (mem_page q) c S"
  using bank_page_region [of P] by (simp add: write_back_def page_is_copy_region)

lemma write_back_clean:
  "clean (write_back p P m) q \<longleftrightarrow> clean m q \<or> q = p \<and> 2 \<le> q"
  by (auto simp: write_back_def clean_def and_not_1)

lemma swap_step:
  assumes "holds v m c" "p \<in> ram_pages"
    and "old p = Some (v p)" "memshadow m p = Some Q" "bank_page Q" "\<And>q. q \<in> ram_pages \<Longrightarrow> bank_page (v q)"
    and distinct: "\<And>q. q \<in> ram_pages \<Longrightarrow> q \<noteq> p \<Longrightarrow> v q \<noteq> Q"
    and inj: "\<And>q. q \<in> ram_pages \<Longrightarrow> q \<noteq> p \<Longrightarrow> v q \<noteq> v p"
  shows "holds (v(p := Q)) (swap_page False old p m) c"
proof (cases "v p = Q")
  case True
  with assms(1,3,4) show ?thesis by (metis fun_upd_triv swap_page_same)
next
  case False
  let ?w = "write_back p (v p) m" and ?m = "mem_copy (mem_page p) Q 256 (write_back p (v p) m)"
  have vp: "bank_page (v p)" using assms(2,6) by simp
  have regions: "fst (mem_page p) \<noteq> fst P" if "bank_page P" for P
    using bank_page_region [OF that] by (metis fst_mem_page)
  have old_page: "page_is ?w (v p) c (v p)"
    using vp assms(1,2) inj by (intro write_back_page holds_image holds_bank [OF assms(1)]) auto
  have new_page: "page_is ?w Q c Q"
    using assms(1,5) distinct False vp
    by (subst write_back_other) (auto intro!: holds_bank [OF assms(1)])
  have "page_is ?m (mem_page q) c ((v(p := Q)) q)" if "q \<in> ram_pages" for q
  proof (cases "q = p")
    case True
    with new_page show ?thesis by (simp add: page_is_copy_in)
  next
    case other: False
    then have "page_is ?m (mem_page q) c (v q) = page_is m (mem_page q) c (v q)"
      using vp by (simp add: page_is_copy_image write_back_image)
    with other holds_image [OF assms(1) that] show ?thesis by simp
  qed
  moreover have "page_is ?m P c P"
    if P: "bank_page P" and cl: "\<forall>q \<in> ram_pages. (v(p := Q)) q = P \<longrightarrow> clean ?m q" for P
  proof -
    have "page_is ?w P c P"
    proof (cases "P = v p \<or> P = Q")
      case True
      with old_page new_page show ?thesis by auto
    next
      case other: False
      have "clean m q" if "q \<in> ram_pages" "v q = P" for q
      proof -
        from that other have "q \<noteq> p" by auto
        with cl that have "clean ?m q" by simp
        with \<open>q \<noteq> p\<close> show ?thesis by (simp add: write_back_clean)
      qed
      then have "page_is m P c P" by (rule holds_bank [OF assms(1) P])
      with other show ?thesis using P vp by (simp add: write_back_other)
    qed
    moreover have "page_is ?m P c P = page_is ?w P c P"
      using regions [OF P] by (intro page_is_copy_region) simp
    ultimately show ?thesis by simp
  qed
  ultimately have "holds (v(p := Q)) ?m c" by (simp add: holds_def)
  with assms(3,4) False show ?thesis by (simp add: swap_page_changed)
qed

text \<open>A slot page is never part of the banks: swapping it changes neither side.\<close>

lemma slot_page_visible: "p \<in> slot_pages \<Longrightarrow> fst (visible_page mode p) \<in> {CxRomInternal, CxRomPeripheral}"
  by (auto simp: visible_page_def slot_pages_def)

lemma swap_slot_step:
  assumes "holds v m c" "p \<notin> ram_pages" "2 \<le> p"
    and "old p = Some P" "fst P \<in> {CxRomInternal, CxRomPeripheral}"
    and "memshadow m p = Some Q"
  shows "holds v (swap_page False old p m) c"
proof (cases "P = Q")
  case True
  with assms show ?thesis by (simp add: swap_page_same)
next
  case False
  let ?w = "write_back p P m"
  have other: "page_is ?w R c S = page_is m R c S" if "fst R \<notin> {CxRomInternal, CxRomPeripheral}" for R S
  proof -
    have "fst R \<noteq> fst P" using that assms(5) by auto
    then show ?thesis by (simp add: write_back_def page_is_copy_region)
  qed
  have cleans: "clean ?w q = clean m q" if "q \<in> ram_pages" for q
    using that assms(2) by (auto simp: write_back_def clean_def)
  have "page_is (mem_copy (mem_page p) Q 256 ?w) (mem_page q) c S = page_is m (mem_page q) c S"
    if "q \<in> ram_pages" for q S
    using that assms(2) other [of "mem_page q"] by (subst page_is_copy_image) auto
  moreover have "page_is (mem_copy (mem_page p) Q 256 ?w) R c S = page_is m R c S"
    if "bank_page R" for R S
  proof -
    have "fst R \<notin> {CxRomInternal, CxRomPeripheral}" "fst R \<noteq> MemImage"
      using that by (auto simp: bank_page_def)
    then show ?thesis using other by (simp add: page_is_copy_region)
  qed
  ultimately have "holds v (mem_copy (mem_page p) Q 256 ?w) c"
    using assms(1) by (simp add: holds_def cleans)
  with assms False show ?thesis by (simp add: swap_page_changed)
qed

definition shown_upto :: "nat \<Rightarrow> u32 \<Rightarrow> u32 \<Rightarrow> nat \<Rightarrow> ptr" where
  "shown_upto n mode mode' q = visible_page (if q < n then mode' else mode) q"

lemma shown_upto_Suc:
  "q \<in> ram_pages \<Longrightarrow> shown_upto (Suc n) mode mode' q =
     ((shown_upto n mode mode')(n := visible_page mode' n)) q"
  by (auto simp: shown_upto_def)

lemma holds_cong: "(\<And>q. q \<in> ram_pages \<Longrightarrow> v q = w q) \<Longrightarrow> holds v m c = holds w m c"
  by (simp add: holds_def)

lemma slot_or_ram: "p < 256 \<Longrightarrow> p \<in> ram_pages \<or> p \<in> slot_pages"
  by (auto simp: ram_pages_def)

lemma swap_pages:
  assumes "holds (visible_page mode) m c" "n \<le> 256"
    and old: "\<And>p. p < 256 \<Longrightarrow> old p = Some (visible_page mode p)"
    and new: "\<And>p. p < 256 \<Longrightarrow> memshadow m p = Some (visible_page mode' p)"
  shows "holds (shown_upto n mode mode') (fold (swap_page False old) [0..<n] m) c"
  using \<open>n \<le> 256\<close>
proof (induction n)
  case 0
  have "shown_upto 0 mode mode' = visible_page mode" by (rule ext) (simp add: shown_upto_def)
  with assms(1) show ?case by simp
next
  case (Suc n)
  let ?m = "fold (swap_page False old) [0..<n] m" and ?v = "shown_upto n mode mode'"
  have n: "n < 256" and IH: "holds ?v ?m c" using Suc by simp_all
  have shadow: "memshadow ?m n = Some (visible_page mode' n)" using new [OF n] by simp
  have "holds (shown_upto (Suc n) mode mode') (swap_page False old n ?m) c"
  proof (cases "n \<in> ram_pages")
    case True
    have "holds (?v(n := visible_page mode' n)) (swap_page False old n ?m) c"
    proof (rule swap_step [OF IH True _ shadow])
      show "old n = Some (?v n)" by (simp add: shown_upto_def old [OF n])
      show "bank_page (visible_page mode' n)" by (rule visible_bank_page [OF True])
      show "bank_page (?v q)" if "q \<in> ram_pages" for q
        unfolding shown_upto_def by (rule visible_bank_page [OF that])
      show "?v q \<noteq> visible_page mode' n" if "q \<in> ram_pages" "q \<noteq> n" for q
        unfolding shown_upto_def using visible_inj [OF that(1) True] that(2) by blast
      show "?v q \<noteq> ?v n" if "q \<in> ram_pages" "q \<noteq> n" for q
        unfolding shown_upto_def using visible_inj [OF that(1) True] that(2) by blast
    qed
    then show ?thesis by (subst holds_cong [OF shown_upto_Suc])
  next
    case False
    with slot_or_ram [OF n] have slot: "n \<in> slot_pages" by simp
    have "holds ?v (swap_page False old n ?m) c"
    proof (rule swap_slot_step [OF IH False])
      show "2 \<le> n" using slot by (simp add: slot_pages_def)
      show "old n = Some (visible_page mode n)" by (rule old [OF n])
      show "fst (visible_page mode n) \<in> {CxRomInternal, CxRomPeripheral}"
        by (rule slot_page_visible [OF slot])
      show "memshadow ?m n = Some (visible_page mode' n)" by (rule shadow)
    qed
    moreover have "?v q = shown_upto (Suc n) mode mode' q" if "q \<in> ram_pages" for q
      using that False by (auto simp: shown_upto_def less_Suc_eq)
    ultimately show ?thesis by (simp cong: holds_cong)
  qed
  then show ?case by simp
qed

definition represents :: "u32 \<Rightarrow> 'a memory_scheme \<Rightarrow> contents \<Rightarrow> bool" where
  "represents mode m c \<longleftrightarrow> tables_for mode m \<and> holds (visible_page mode) m c"

lemma page_is_heap_cong: "heap m = heap m' \<Longrightarrow> page_is m P c Q = page_is m' P c Q"
  by (simp add: page_is_def)

lemma holds_heap_cong:
  "heap m = heap m' \<Longrightarrow> memdirty m = memdirty m' \<Longrightarrow> holds v m c = holds v m' c"
  by (simp add: holds_def page_is_def clean_def)

lemma tables_for_cong:
  "memshadow m = memshadow m' \<Longrightarrow> memwrite m = memwrite m' \<Longrightarrow> tables_for mode m = tables_for mode m'"
  by (simp add: tables_for_def)

lemma update_paging_represents:
  assumes "represents mode m c"
  shows "represents (mem_mode m) (mem_update_paging False False m) c"
proof -
  let ?u = "update_tables m"
  have tables: "tables_for mode m" and holds: "holds (visible_page mode) m c"
    using assms by (simp_all add: represents_def)
  have eq: "mem_update_paging False False m = fold (swap_page False (memshadow m)) [0..<256] ?u"
    by (simp add: mem_update_paging_eq)
  have "holds (visible_page mode) ?u c"
    using holds by (subst holds_heap_cong [where m' = m]) simp_all
  then have "holds (shown_upto 256 mode (mem_mode m)) (mem_update_paging False False m) c"
    unfolding eq using tables
    by (intro swap_pages) (auto simp: tables_for_def update_tables_shadow)
  then have "holds (visible_page (mem_mode m)) (mem_update_paging False False m) c"
    by (subst (asm) holds_cong [where w = "visible_page (mem_mode m)"])
      (auto simp: shown_upto_def ram_pages_def)
  moreover have "tables_for (mem_mode m) (mem_update_paging False False m)"
    using update_tables_for [OF fixed_entries_tables [OF tables]]
    unfolding eq by (subst tables_for_cong [where m' = ?u]) simp_all
  ultimately show ?thesis by (simp add: represents_def)
qed

text \<open>Initializing forgets the image and shows the banks as they are.\<close>

lemma initial_swap:
  assumes "\<And>p. p < 256 \<Longrightarrow> memshadow m p = Some (visible_page mode p)" "n \<le> 256"
  shows "(\<forall>p \<in> ram_pages. p < n \<longrightarrow>
             page_is (fold (swap_page True old) [0..<n] m) (mem_page p) (heap m) (visible_page mode p)) \<and>
         (\<forall>P. fst P \<noteq> MemImage \<longrightarrow>
             page_is (fold (swap_page True old) [0..<n] m) P (heap m) P)"
  using \<open>n \<le> 256\<close>
proof (induction n)
  case 0
  show ?case by (simp add: page_is_def)
next
  case (Suc n)
  let ?m = "fold (swap_page True old) [0..<n] m"
  have step: "fold (swap_page True old) [0..<Suc n] m =
      mem_copy (mem_page n) (visible_page mode n) 256 ?m"
    using assms(1) [of n] Suc.prems by (simp add: swap_page_def)
  have IH: "\<forall>p \<in> ram_pages. p < n \<longrightarrow> page_is ?m (mem_page p) (heap m) (visible_page mode p)"
    "\<forall>P. fst P \<noteq> MemImage \<longrightarrow> page_is ?m P (heap m) P" using Suc by auto
  have "page_is (mem_copy (mem_page n) (visible_page mode n) 256 ?m) (mem_page p) (heap m)
          (visible_page mode p)" if "p \<in> ram_pages" "p < Suc n" for p
  proof (cases "p = n")
    case True
    have "fst (visible_page mode p) \<noteq> MemImage"
      using that(1) by (intro bank_page_region visible_bank_page)
    with IH(2) have "page_is ?m (visible_page mode p) (heap m) (visible_page mode p)" by blast
    with True show ?thesis by (simp add: page_is_copy_in)
  next
    case False
    with IH(1) that show ?thesis by (simp add: page_is_copy_image)
  qed
  moreover have "page_is (mem_copy (mem_page n) (visible_page mode n) 256 ?m) P (heap m) P"
    if "fst P \<noteq> MemImage" for P
  proof -
    have "page_is ?m P (heap m) P" using IH(2) that by blast
    with that show ?thesis by (simp add: page_is_copy_region)
  qed
  ultimately show ?case unfolding step by blast
qed

lemma initialize_represents:
  "represents (mem_mode m) (mem_update_paging True False m) (heap m)"
proof -
  let ?u = "update_tables (memwrite_initial m)"
  have mode: "mem_mode (memwrite_initial m) = mem_mode m" "heap (memwrite_initial m) = heap m"
    by (simp_all add: memwrite_initial_def)
  have eq: "mem_update_paging True False m = fold (swap_page True (\<lambda>_. None)) [0..<256] ?u"
    by (simp add: mem_update_paging_eq)
  have shadow: "memshadow ?u p = Some (visible_page (mem_mode m) p)" if "p < 256" for p
    using update_tables_shadow [OF that, of "memwrite_initial m"] by (simp add: mode)
  note init = initial_swap [of ?u "mem_mode m" 256 "\<lambda>_. None", OF shadow]
  have "holds (visible_page (mem_mode m)) (mem_update_paging True False m) (heap m)"
    unfolding eq holds_def
  proof (intro conjI ballI allI impI)
    show "page_is (fold (swap_page True (\<lambda>_. None)) [0..<256] ?u) (mem_page p) (heap m)
            (visible_page (mem_mode m) p)" if "p \<in> ram_pages" for p
      using init that by (simp add: mode ram_pages_def)
    show "page_is (fold (swap_page True (\<lambda>_. None)) [0..<256] ?u) P (heap m) P"
      if "bank_page P" for P
      using init bank_page_region [OF that] by (simp only: mode update_tables_frame order_refl) blast
  qed
  moreover have "tables_for (mem_mode m) (mem_update_paging True False m)"
    using update_tables_for [OF fixed_entries_initial, of m]
    unfolding eq by (subst tables_for_cong [where m' = ?u]) (simp_all add: mode)
  ultimately show ?thesis by (simp add: represents_def)
qed

end
