(* ===== verification/Memory_Model.thy ===== *)
theory Memory_Model
  imports Memory_Refine Cpu_Bus
begin

text \<open>
  The memory unit as a program sees it: an abstract state of two modes and the contents of the
  banks, and the steps a bus access may make in it.  \<open>wanted\<close> is the mode the soft switches
  stand at; \<open>shown\<close> is the mode the visible pages stand for, which lags behind between the
  two halves of a deferred switch.
\<close>

record map_state =
  shown :: u32
  wanted :: u32
  banks :: contents

definition put_byte :: "ptr \<Rightarrow> nat \<Rightarrow> u8 \<Rightarrow> contents \<Rightarrow> contents" where
  "put_byte w i v c = c(fst w := (c (fst w))(snd w + i := v))"

definition map_read :: "map_state \<Rightarrow> u16 \<Rightarrow> u8" where
  "map_read st a = (let (r, base) = visible_page (shown st) (page_of a)
                    in banks st r (base + unat (a AND 0xFF)))"

definition map_write :: "u16 \<Rightarrow> u8 \<Rightarrow> map_state \<Rightarrow> map_state" where
  "map_write a v st =
     (case write_page (shown st) (page_of a) of
        None \<Rightarrow> st
      | Some w \<Rightarrow> st\<lparr>banks := put_byte w (unat (a AND 0xFF)) v (banks st)\<rparr>)"

definition language_card_mode :: "u16 \<Rightarrow> u32 \<Rightarrow> u32" where
  "language_card_mode low mode =
     (mode AND NOT (MF_HRAM_BANK2 OR MF_HIGHRAM OR MF_HRAM_WRITE))
       OR (if bit low 0 then MF_HRAM_WRITE else 0) OR (if bit low 3 then 0 else MF_HRAM_BANK2)
       OR (if bit low 0 = bit low 1 then MF_HIGHRAM else 0)"

definition next_mode :: "bool \<Rightarrow> u16 \<Rightarrow> u32 \<Rightarrow> u32" where
  "next_mode apple2 low mode =
     (if 0x80 \<le> low \<and> low \<le> 0x8F then language_card_mode low mode
      else if apple2 then mode else aux_switch low mode)"

inductive io_step :: "bool \<Rightarrow> u16 \<Rightarrow> map_state \<Rightarrow> map_state \<Rightarrow> bool" for apple2 a where
  other: "io_step apple2 a st st"
| switch: "mode = next_mode apple2 (a AND 0xFF) (wanted st) \<Longrightarrow>
     io_step apple2 a st (st\<lparr>shown := mode, wanted := mode\<rparr>)"
| deferred: "low = a AND 0xFF \<Longrightarrow> low \<in> {4, 5} \<or> 0x80 \<le> low \<and> low \<le> 0x8F \<Longrightarrow>
     io_step apple2 a st (st\<lparr>wanted := next_mode apple2 low (wanted st)\<rparr>)"

inductive_cases io_step_elim: "io_step apple2 a st st'"

definition models :: "'a memory_scheme \<Rightarrow> map_state \<Rightarrow> bool" where
  "models m st \<longleftrightarrow> represents (shown st) m (banks st) \<and> mem_mode m = wanted st \<and>
     (mode_changing m \<or> shown st = wanted st)"

subsection \<open>Reading\<close>

lemma page_of_div: "page_of a = unat a div 256"
  by (simp only: page_of_def unat_drop_bit_eq) (simp add: drop_bit_eq_div)

lemma unat_page_split: "unat (a :: u16) = page_of a * 256 + unat (a AND 0xFF)"
proof -
  have "unat a = unat a div 256 * 256 + unat a mod 256" by simp
  moreover have "unat (a AND 0xFF) = unat a mod 256"
  proof -
    have "a AND 0xFF = w16 (lo8 a)" by (simp add: u16_eq_bits word_bits)
    then show ?thesis by (simp add: unat_lo8)
  qed
  ultimately show ?thesis by (simp add: page_of_div)
qed

lemma page_offset [simp]: "unat ((a :: u16) AND 0xFF) < 256"
proof -
  have "a AND 0xFF \<le> 0xFF" by (rule word_and_le1)
  then show ?thesis by (simp add: word_le_nat_alt)
qed

lemma ram_page: "page_of a \<in> ram_pages \<longleftrightarrow> \<not> is_io_addr a"
proof -
  have "is_io_addr a \<longleftrightarrow> drop_bit 12 a = 0xC"
    by (simp add: is_io_addr_def u16_eq_bits word_bits) 
  also have "\<dots> \<longleftrightarrow> unat (drop_bit 12 a) = 12"
    by (simp only: word_unat_eq_iff) simp
  also have "\<dots> \<longleftrightarrow> unat a div 4096 = 12"
    by (simp only: unat_drop_bit_eq) (simp add: drop_bit_eq_div)
  also have "\<dots> \<longleftrightarrow> page_of a \<in> slot_pages"
  proof -
    have "unat a div 4096 = page_of a div 16"
      by (simp add: page_of_div flip: div_mult2_eq)
    then show ?thesis unfolding slot_pages_def by auto
  qed
  finally show ?thesis by (auto simp: ram_pages_def)
qed

lemma models_read:
  assumes "models m st" "\<not> is_io_addr a"
  shows "rd m (unat a) = map_read st a"
proof -
  have "page_of a \<in> ram_pages" using assms(2) by (simp add: ram_page)
  with assms(1) have "page_is m (mem_page (page_of a)) (banks st) (visible_page (shown st) (page_of a))"
    by (simp add: models_def represents_def holds_image)
  then show ?thesis
    by (simp add: page_is_def map_read_def case_prod_beta unat_page_split [of a])
qed

subsection \<open>Writing\<close>

lemma write_page_cases:
  assumes "p \<in> ram_pages" "write_page mode p = Some w"
  shows "bank_page w" and "q \<in> ram_pages \<Longrightarrow> q \<noteq> p \<Longrightarrow> visible_page mode' q \<noteq> w"
proof -
  have "w \<in> {(MemMain, p * 256), (MemAux, p * 256)} \<or>
      0xD0 \<le> p \<and> p < 0xE0 \<and> w \<in> {(MemMain, (p - 16) * 256), (MemAux, (p - 16) * 256)}"
    using assms
    by (auto simp: write_page_def aux_or_main_def language_card_page_def diff_mult_distrib
        split: if_splits)
  then show "bank_page w"
    using assms(1) by (auto simp: bank_page_def ram_pages_def slot_pages_def)
  show "visible_page mode' q \<noteq> w" if "q \<in> ram_pages" "q \<noteq> p"
  proof
    assume "visible_page mode' q = w"
    with \<open>w \<in> _ \<or> _\<close> have same: "visible_page mode' q \<in> {(MemMain, p * 256), (MemAux, p * 256)} \<or>
        0xD0 \<le> p \<and> p < 0xE0 \<and> visible_page mode' q \<in> {(MemMain, (p - 16) * 256), (MemAux, (p - 16) * 256)}"
      by simp
    have "q < 256" "q \<notin> slot_pages" "p < 256" "p \<notin> slot_pages"
      using that(1) assms(1) by (auto simp: ram_pages_def)
    from visible_page_cases [OF this(1,2), of mode'] same that(2) this(2,4) show False
      by (elim disjE conjE insertE emptyE; simp add: slot_pages_def; linarith)
  qed
qed

lemma page_is_put_other:
  assumes "bank_page Q" "bank_page w" "Q \<noteq> w" "i < 256"
  shows "page_is m P (put_byte w i v c) Q = page_is m P c Q"
proof -
  have "put_byte w i v c (fst Q) (snd Q + k) = c (fst Q) (snd Q + k)" if "k < 256" for k
    using aligned_disjoint [OF assms(1-3) that] assms(4) by (auto simp: put_byte_def)
  then show ?thesis by (simp add: page_is_def)
qed

lemma page_is_put_same:
  assumes "page_is m P c w" "i < 256"
  shows "page_is (store_at P i v m) P (put_byte w i v c) w"
  using assms by (simp add: page_is_def put_byte_def heap_store_at)

lemma page_is_store_region: "fst P \<noteq> fst Q \<Longrightarrow> page_is (store_at Q i v m) P c R = page_is m P c R"
  by (simp add: page_is_def heap_store_at)

lemma page_is_store_bank:
  assumes "bank_page P" "bank_page Q" "P \<noteq> Q" "i < 256"
  shows "page_is (store_at Q i v m) P c R = page_is m P c R"
proof (rule page_is_cong)
  show "heap (store_at Q i v m) (fst P) (snd P + k) = heap m (fst P) (snd P + k)" if "k < 256" for k
    using aligned_disjoint [OF assms(1-3) that] assms(4) by (auto simp: heap_store_at)
qed

lemma page_is_store_image:
  assumes "p \<noteq> q" "i < 256"
  shows "page_is (store_at (mem_page p) i v m) (mem_page q) c R = page_is m (mem_page q) c R"
proof (rule page_is_cong)
  have "p < q \<or> q < p" using assms by linarith
  then show "heap (store_at (mem_page p) i v m) (fst (mem_page q)) (snd (mem_page q) + k) =
      heap m (fst (mem_page q)) (snd (mem_page q) + k)" if "k < 256" for k
    using that assms(2) by (auto simp: heap_store_at)
qed

lemma holds_store_visible:
  assumes "holds v m c" "p \<in> ram_pages" "i < 256" "\<not> clean m p"
    and banks: "\<And>q. q \<in> ram_pages \<Longrightarrow> bank_page (v q)"
    and inj: "\<And>q. q \<in> ram_pages \<Longrightarrow> q \<noteq> p \<Longrightarrow> v q \<noteq> v p"
  shows "holds v (store_at (mem_page p) i b m) (put_byte (v p) i b c)"
  unfolding holds_def
proof (intro conjI ballI allI impI)
  show "page_is (store_at (mem_page p) i b m) (mem_page q) (put_byte (v p) i b c) (v q)"
    if "q \<in> ram_pages" for q
  proof (cases "q = p")
    case True
    then show ?thesis using page_is_put_same [OF holds_image [OF assms(1,2)] assms(3)] by simp
  next
    case False
    have "page_is m (mem_page q) c (v q)" by (rule holds_image [OF assms(1) that])
    with False show ?thesis
      using assms(3) banks that assms(2) inj by (simp add: page_is_store_image page_is_put_other)
  qed
  show "page_is (store_at (mem_page p) i b m) P (put_byte (v p) i b c) P"
    if P: "bank_page P" and cl: "\<forall>q \<in> ram_pages. v q = P \<longrightarrow> clean (store_at (mem_page p) i b m) q" for P
  proof -
    have cl': "\<And>q. q \<in> ram_pages \<Longrightarrow> v q = P \<Longrightarrow> clean m q"
      using cl by (simp add: clean_def)
    then have "v p \<noteq> P" using assms(2,4) by blast
    moreover have "page_is m P c P" using assms(1) P cl' by (rule holds_bank)
    ultimately show ?thesis
      using P assms(3) banks [OF assms(2)] bank_page_region [OF P]
      by (simp add: page_is_store_region page_is_put_other)
  qed
qed

lemma holds_store_hidden:
  assumes "holds v m c" "bank_page w" "i < 256"
    and banks: "\<And>q. q \<in> ram_pages \<Longrightarrow> bank_page (v q)"
    and hidden: "\<And>q. q \<in> ram_pages \<Longrightarrow> v q \<noteq> w"
  shows "holds v (store_at w i b m) (put_byte w i b c)"
  unfolding holds_def
proof (intro conjI ballI allI impI)
  show "page_is (store_at w i b m) (mem_page q) (put_byte w i b c) (v q)" if "q \<in> ram_pages" for q
  proof -
    have "fst (mem_page q) \<noteq> fst w" using bank_page_region [OF assms(2)] by simp
    then show ?thesis
      using holds_image [OF assms(1) that] banks [OF that] hidden [OF that] assms(2,3)
      by (simp add: page_is_store_region page_is_put_other)
  qed
  show "page_is (store_at w i b m) P (put_byte w i b c) P"
    if P: "bank_page P" and cl: "\<forall>q \<in> ram_pages. v q = P \<longrightarrow> clean (store_at w i b m) q" for P
  proof -
    have *: "page_is m P c P"
      using cl by (intro holds_bank [OF assms(1) P]) (simp add: clean_def)
    show ?thesis
    proof (cases "P = w")
      case True
      with page_is_put_same [OF * assms(3)] show ?thesis by simp
    next
      case False
      with * show ?thesis using P assms(2,3) by (simp add: page_is_store_bank page_is_put_other)
    qed
  qed
qed

lemma store_at_memory [simp]:
  "memshadow (store_at P i v m) = memshadow m" "mem_mode (store_at P i v m) = mem_mode m"
  "mode_changing (store_at P i v m) = mode_changing m" "io_read (store_at P i v m) = io_read m"
  "io_write (store_at P i v m) = io_write m"
  by (simp_all add: store_at_def)

lemma holds_more_dirty: "holds v m c \<Longrightarrow> holds v (m\<lparr>memdirty := (memdirty m)(p := 0xFF)\<rparr>) c"
  unfolding holds_def by (auto simp: clean_def split: if_splits)

lemma tables_write:
  "tables_for mode m \<Longrightarrow> memwrite m (page_of a) =
     map_option (\<lambda>w. if w = visible_page mode (page_of a) then mem_page (page_of a) else w)
       (write_page mode (page_of a))"
  by (simp add: tables_for_def)

lemma visible_inj' [simp]:
  "q \<in> ram_pages \<Longrightarrow> p \<in> ram_pages \<Longrightarrow> q \<noteq> p \<Longrightarrow> visible_page mode q \<noteq> visible_page mode p"
  using visible_inj by blast

lemma models_store:
  assumes "models m st" "\<not> is_io_addr a"
  defines "d \<equiv> m\<lparr>memdirty := (memdirty m)(page_of a := 0xFF)\<rparr>"
  shows "models (case memwrite m (page_of a) of
             Some page \<Rightarrow> store_at page (unat (a AND 0xFF)) v d | None \<Rightarrow> d) (map_write a v st)"
proof -
  have p: "page_of a \<in> ram_pages" using assms(2) by (simp add: ram_page)
  have tables: "tables_for (shown st) m" and h: "holds (visible_page (shown st)) d (banks st)"
    and mode: "mem_mode m = wanted st" "mode_changing m \<or> shown st = wanted st"
    using assms(1) holds_more_dirty [of "visible_page (shown st)" m] unfolding d_def
    by (auto simp: models_def represents_def)
  have tables_d: "tables_for (shown st) (store_at P i v d)" "tables_for (shown st) d" for P i
    using tables by (auto simp: d_def cong: tables_for_cong)
  have mode_d: "mem_mode d = wanted st" "mode_changing d = mode_changing m"
    using mode by (simp_all add: d_def)
  have dirty: "\<not> clean d (page_of a)" by (simp add: d_def clean_def)
  show ?thesis
  proof (cases "write_page (shown st) (page_of a)")
    case None
    then show ?thesis
      using tables_write [OF tables, of a] tables_d h mode mode_d
      by (simp add: map_write_def models_def represents_def)
  next
    case (Some w)
    note target = tables_write [OF tables, of a, unfolded Some, simplified]
    show ?thesis
    proof (cases "w = visible_page (shown st) (page_of a)")
      case True
      have "holds (visible_page (shown st)) (store_at (mem_page (page_of a)) (unat (a AND 0xFF)) v d)
          (put_byte w (unat (a AND 0xFF)) v (banks st))"
        unfolding True by (rule holds_store_visible [OF h p _ dirty]) (simp_all add: visible_bank_page p)
      then show ?thesis
        using True Some target tables_d mode mode_d
        by (simp add: map_write_def models_def represents_def)
    next
      case False
      have hidden: "visible_page (shown st) q \<noteq> w" if "q \<in> ram_pages" for q
        using that False write_page_cases(2) [OF p Some that, of "shown st"] by (cases "q = page_of a") auto
      have "holds (visible_page (shown st)) (store_at w (unat (a AND 0xFF)) v d)
          (put_byte w (unat (a AND 0xFF)) v (banks st))"
        by (rule holds_store_hidden [OF h write_page_cases(1) [OF p Some]])
          (simp_all add: visible_bank_page hidden)
      then show ?thesis
        using False Some target tables_d mode mode_d
        by (simp add: map_write_def models_def represents_def)
    qed
  qed
qed

lemma models_frame_regs [simp]: "models (regs_update f m) st = models m st"
  by (simp add: models_def represents_def holds_def page_is_def clean_def tables_for_def)

lemma models_write_byte:
  assumes "models (mach c) st" "\<not> is_io_addr a"
  shows "models (mach (write_byte io a v c)) (map_write a v st)"
  using models_store [OF assms, of v] assms(2)
  by (auto simp: write_byte_def Let_def split: option.splits)

lemma models_push:
  assumes "models (mach c) st" "sp_in_page_one (mach c)"
  shows "models (mach (push v c)) (map_write (SP c) v st)"
proof -
  have page: "page_of (SP c) = 1"
    using assms(2) by (auto simp: sp_in_page_one_def page_of_div word_le_nat_alt)
  then have p: "page_of (SP c) \<in> ram_pages" by (simp add: ram_pages_def slot_pages_def)
  have "holds (visible_page (shown st)) (store_at (mem_page 1) (unat (SP c AND 0xFF)) v (mach c))
      (put_byte (visible_page (shown st) 1) (unat (SP c AND 0xFF)) v (banks st))"
    using assms(1) p unfolding page
    by (intro holds_store_visible) (auto simp: models_def represents_def clean_def visible_bank_page)
  then have "models (store_at (mem_page 1) (unat (SP c AND 0xFF)) v (mach c))
      (st\<lparr>banks := put_byte (visible_page (shown st) 1) (unat (SP c AND 0xFF)) v (banks st)\<rparr>)"
    using assms(1) by (auto simp: models_def represents_def cong: tables_for_cong)
  moreover have "store_at (MemImage, 0) (unat (SP c)) v (mach c) =
      store_at (mem_page 1) (unat (SP c AND 0xFF)) v (mach c)"
    using unat_page_split [of "SP c"] by (simp add: store_at_def page del: One_nat_def)
  moreover have "mach (push v c) =
      regs_update (reg_sp_update (\<lambda>_. if SP c - 1 < STACK_BEGIN then STACK_END else SP c - 1))
        (store_at (MemImage, 0) (unat (SP c)) v (mach c))"
    by (simp add: push_def Let_def)
  moreover have "map_write (SP c) v st =
      st\<lparr>banks := put_byte (visible_page (shown st) 1) (unat (SP c AND 0xFF)) v (banks st)\<rparr>"
    using page by (simp add: map_write_def write_page_def visible_page_def)
  ultimately show ?thesis by simp
qed

subsection \<open>I/O accesses\<close>

text \<open>
  Outside the banks and the pages that show them a handler may write what it likes.
\<close>

definition same_memory :: "'a memory_scheme \<Rightarrow> 'a memory_scheme \<Rightarrow> bool" where
  "same_memory m m' \<longleftrightarrow> memshadow m' = memshadow m \<and> memwrite m' = memwrite m \<and>
     memdirty m' = memdirty m \<and> mem_mode m' = mem_mode m \<and> mode_changing m' = mode_changing m \<and>
     is_apple2 m' = is_apple2 m \<and> io_read m' = io_read m \<and> io_write m' = io_write m \<and>
     (\<forall>p \<in> ram_pages. \<forall>c R. page_is m' (mem_page p) c R = page_is m (mem_page p) c R) \<and>
     (\<forall>P. bank_page P \<longrightarrow> (\<forall>c R. page_is m' P c R = page_is m P c R))"

lemma same_memory_refl [simp]: "same_memory m m"
  by (simp add: same_memory_def)

lemma same_memory_trans: "same_memory m m' \<Longrightarrow> same_memory m' m'' \<Longrightarrow> same_memory m m''"
  by (simp add: same_memory_def)

lemma same_memory_heap:
  "heap m' = heap m \<Longrightarrow> memshadow m' = memshadow m \<Longrightarrow> memwrite m' = memwrite m \<Longrightarrow>
   memdirty m' = memdirty m \<Longrightarrow> mem_mode m' = mem_mode m \<Longrightarrow> mode_changing m' = mode_changing m \<Longrightarrow>
   current_apple2_type m' = current_apple2_type m \<Longrightarrow> io_read m' = io_read m \<Longrightarrow>
   io_write m' = io_write m \<Longrightarrow> same_memory m m'"
  by (simp add: same_memory_def page_is_def is_apple2_def)

lemma same_memory_holds: "same_memory m m' \<Longrightarrow> holds v m' c = holds v m c"
  by (simp add: same_memory_def holds_def clean_def del: split_paired_All)

lemma same_memory_represents: "same_memory m m' \<Longrightarrow> represents mode m' c = represents mode m c"
  by (simp add: represents_def same_memory_holds) (simp add: same_memory_def tables_for_def)

lemma models_same: "same_memory m m' \<Longrightarrow> models m st \<Longrightarrow> models m' st"
  by (simp add: models_def same_memory_represents) (simp add: same_memory_def)

lemma same_memory_put:
  assumes "fst d \<in> {CxRomInternal, CxRomPeripheral} \<or> d = (MemImage, 0xC800)"
  shows "same_memory m (mem_put d s 0x800 m)"
proof -
  have "heap (mem_put d s 0x800 m) MemImage (p * 256 + i) = heap m MemImage (p * 256 + i)"
    if "p \<in> ram_pages" "i < 256" for p i
  proof -
    have "p < 0xC8 \<or> 0xD0 \<le> p" using that(1) by (auto simp: ram_pages_def slot_pages_def)
    with assms that(2) show ?thesis by (auto simp: mem_put_def)
  qed
  moreover have "heap (mem_put d s 0x800 m) (fst P) j = heap m (fst P) j" if "bank_page P" for P j
    using assms that by (auto simp: mem_put_def bank_page_def)
  ultimately show ?thesis
    by (simp add: same_memory_def page_is_def) (simp add: mem_put_def is_apple2_def)
qed

lemma mem_copy_as_put: "mem_copy d s n m = mem_put d (\<lambda>i. heap m (fst s) (snd s + i)) n m"
  by (simp add: mem_copy_def mem_put_def)

lemma same_memory_disable [intro]: "same_memory m (disable_internal_rom m)"
proof -
  have "same_memory m (mem_fill (MemImage, 0xC800) 0 0x800 (mem_fill (CxRomPeripheral, 0x800) 0 0x800 m))"
    unfolding mem_fill_def
    by (rule same_memory_trans [OF same_memory_put same_memory_put]) simp_all
  then show ?thesis
    unfolding disable_internal_rom_def Let_def
    by (rule same_memory_trans) (rule same_memory_heap; simp)
qed

lemma same_memory_enable [intro]: "same_memory m (enable_internal_rom m)"
proof -
  have "same_memory m (mem_copy (MemImage, 0xC800) (CxRomInternal, 0x800) 0x800 m)"
    unfolding mem_copy_as_put by (rule same_memory_put) simp
  then show ?thesis
    unfolding enable_internal_rom_def by (rule same_memory_trans) (rule same_memory_heap; simp)
qed

lemma same_memory_switch_slot_rom: "same_memory m (switch_slot_rom mode m)"
proof -
  have "same_memory m (disable_internal_rom m\<lparr>peripheral_rom_slot := 0\<rparr>)"
    by (rule same_memory_trans [OF same_memory_disable]) (rule same_memory_heap; simp)
  then show ?thesis by (simp add: switch_slot_rom_def same_memory_enable)
qed

lemma memory_truncate_video [simp]:
  "memory.truncate (m\<lparr>video_mode := a\<rparr>) = memory.truncate m"
  "memory.truncate (m\<lparr>alt_char_set_offset := b\<rparr>) = memory.truncate m"
  "memory.truncate (m\<lparr>displaypage2 := c\<rparr>) = memory.truncate m"
  "memory.truncate (m\<lparr>graphicsmode := c\<rparr>) = memory.truncate m"
  "memory.truncate (m\<lparr>redrawfull := c\<rparr>) = memory.truncate m"
  "memory.truncate (m\<lparr>refresh_requests := d\<rparr>) = memory.truncate m"
  by (simp_all add: memory.truncate_def)

lemma video_switch_memory [simp]: "memory.truncate (video_switch a m) = memory.truncate m"
  unfolding video_switch_def Let_def
  by (simp only: if_distrib [of memory.truncate] memory_truncate_video if_cancel)

lemma video_set_mode_memory: "memory.truncate (snd (video_set_mode pc a w v t m)) = memory.truncate m"
  unfolding video_set_mode_def Let_def video_refresh_screen_def
  by (simp only: snd_conv if_distrib [of memory.truncate] memory_truncate_video video_switch_memory if_cancel)

lemma same_memory_truncate: "memory.truncate m' = memory.truncate m \<Longrightarrow> same_memory m m'"
  by (rule same_memory_heap) (simp_all add: memory.truncate_def)

lemma video_set_mode_same: "same_memory m (snd (video_set_mode pc a w v t m))"
  by (rule same_memory_truncate) (rule video_set_mode_memory)

lemma models_update:
  assumes "models m st" "same_memory (m\<lparr>mem_mode := mode, last_write_ram := l, mode_changing := False\<rparr>) m'"
  shows "models (mem_update_paging False False m') (st\<lparr>shown := mode, wanted := mode\<rparr>)"
proof -
  have "represents (shown st) m (banks st)" using assms(1) by (simp add: models_def)
  then have "represents (shown st) m' (banks st)"
    unfolding same_memory_represents [OF assms(2)]
    by (simp add: represents_def tables_for_def holds_def clean_def page_is_def)
  from update_paging_represents [OF this] show ?thesis
    using assms by (simp add: models_def same_memory_def mem_update_paging_eq)
qed

lemma switch_mode_next:
  "\<exists>l. switch_mode low m = m\<lparr>mem_mode := next_mode (is_apple2 m) low (mem_mode m), last_write_ram := l\<rparr>"
proof (cases "0x80 \<le> low \<and> low \<le> 0x8F")
  case True
  have bits: "(low AND 1 \<noteq> 0) = bit low 0" "(low AND 8 = 0) = (\<not> bit low 3)"
    "(drop_bit 1 (low AND 2) = low AND 1) = (bit low 1 = bit low 0)"
    by (auto simp: u16_eq_bits word_bits)
  from True show ?thesis
    by (intro exI [where x = "bit low 0"])
      (unfold switch_mode_def language_card_switch_def Let_def bits,
        auto simp: next_mode_def language_card_mode_def or.assoc)
next
  case False
  have same: "m = m\<lparr>mem_mode := mem_mode m, last_write_ram := last_write_ram m\<rparr>"
    "m\<lparr>mem_mode := k\<rparr> = m\<lparr>mem_mode := k, last_write_ram := last_write_ram m\<rparr>" for k
    by (cases m; simp)+
  show ?thesis
  proof (cases "is_apple2 m")
    case True
    then have "switch_mode low m = m" "next_mode (is_apple2 m) low (mem_mode m) = mem_mode m"
      unfolding switch_mode_def next_mode_def if_not_P [OF False] by simp_all
    with same(1) show ?thesis by (intro exI [of _ "last_write_ram m"]) simp
  next
    case other: False
    then have "switch_mode low m = m\<lparr>mem_mode := aux_switch low (mem_mode m)\<rparr>"
        "next_mode (is_apple2 m) low (mem_mode m) = aux_switch low (mem_mode m)"
      unfolding switch_mode_def next_mode_def if_not_P [OF False] by simp_all
    with same(2) show ?thesis by (intro exI [of _ "last_write_ram m"]) simp
  qed
qed

lemma is_apple2_simps [simp]:
  "is_apple2 (m\<lparr>mem_mode := a\<rparr>) = is_apple2 m" "is_apple2 (m\<lparr>last_write_ram := b\<rparr>) = is_apple2 m"
  "is_apple2 (m\<lparr>mode_changing := b\<rparr>) = is_apple2 m"
  by (simp_all add: is_apple2_def)

lemma switch_follows_low: "switch_follows pc low m \<Longrightarrow> low \<in> {4, 5} \<or> 0x80 \<le> low \<and> low \<le> 0x8F"
proof -
  assume "switch_follows pc low m"
  then have "4 \<le> low \<and> low \<le> 5 \<or> 0x80 \<le> low \<and> low \<le> 0x8F"
    by (auto simp: switch_follows_def Let_def)
  moreover have "low \<in> {4, 5}" if "4 \<le> low" "low \<le> 5"
    using that by (auto simp: word_le_nat_alt word_unat_eq_iff)
  ultimately show ?thesis by blast
qed

lemma models_set_paging:
  assumes "models m st"
  shows "\<exists>st'. io_step (is_apple2 m) a st st' \<and> models (snd (mem_set_paging pc a w v t m)) st'"
proof -
  let ?low = "a AND 0xFF" let ?mode = "next_mode (is_apple2 m) (a AND 0xFF) (mem_mode m)"
  obtain l where l: "switch_mode ?low m = m\<lparr>mem_mode := ?mode, last_write_ram := l\<rparr>"
    using switch_mode_next [of ?low m] by blast
  have wanted: "mem_mode m = wanted st" using assms by (simp add: models_def)
  let ?m = "m\<lparr>mem_mode := ?mode, last_write_ram := l\<rparr>"
  show ?thesis
  proof (cases "switch_follows pc ?low ?m")
    case True
    then have "io_step (is_apple2 m) a st (st\<lparr>wanted := ?mode\<rparr>)"
      unfolding wanted by (intro io_step.deferred switch_follows_low) simp_all
    moreover have "models (?m\<lparr>mode_changing := True\<rparr>) (st\<lparr>wanted := ?mode\<rparr>)"
      using assms by (simp add: models_def represents_def holds_def page_is_def clean_def tables_for_def)
    ultimately show ?thesis using True by (auto simp: mem_set_paging_def Let_def l)
  next
    case False
    define n where "n = (if mem_mode m \<noteq> ?mode \<or> mode_changing m
        then mem_update_paging False False (switch_slot_rom (mem_mode m) (?m\<lparr>mode_changing := False\<rparr>))
        else ?m)"
    have "models n (st\<lparr>shown := ?mode, wanted := ?mode\<rparr>)"
    proof (cases "mem_mode m \<noteq> ?mode \<or> mode_changing m")
      case True
      have "same_memory (m\<lparr>mem_mode := ?mode, last_write_ram := l, mode_changing := False\<rparr>)
          (switch_slot_rom (mem_mode m) (?m\<lparr>mode_changing := False\<rparr>))"
        by (rule same_memory_switch_slot_rom)
      with True models_update [OF assms this] show ?thesis by (simp add: n_def)
    next
      case unchanged: False
      then have "st\<lparr>shown := ?mode, wanted := ?mode\<rparr> = st"
        using assms by (auto simp: models_def)
      moreover have "same_memory m n" using unchanged by (intro same_memory_heap) (simp_all add: n_def)
      ultimately show ?thesis using models_same [OF _ assms] by simp
    qed
    moreover have "snd (mem_set_paging pc a w v t m) =
        (if ?low \<le> 1 \<or> 0x54 \<le> ?low \<and> ?low \<le> 0x57 then snd (video_set_mode pc ?low w v t n) else n)"
      using False by (simp add: mem_set_paging_def Let_def l n_def)
    then have "same_memory n (snd (mem_set_paging pc a w v t m))"
      by (simp add: video_set_mode_same)
    ultimately have "models (snd (mem_set_paging pc a w v t m)) (st\<lparr>shown := ?mode, wanted := ?mode\<rparr>)"
      by (rule models_same [rotated])
    moreover have "io_step (is_apple2 m) a st (st\<lparr>shown := ?mode, wanted := ?mode\<rparr>)"
      unfolding wanted by (rule io_step.switch) (rule refl)
    ultimately show ?thesis by blast
  qed
qed

lemma same_memory_access_cfff: "same_memory m (access_cfff m)"
proof -
  have "same_memory m (m\<lparr>io_select := 0, io_select_internal_rom := 0, peripheral_rom_slot := 0\<rparr>)"
    by (rule same_memory_heap; simp)
  then show ?thesis
    by (auto simp: access_cfff_def Let_def intro: same_memory_trans)
qed

lemma same_memory_slot_selected: "same_memory m (slot_selected a m)"
  by (rule same_memory_heap; simp add: slot_selected_def Let_def)

lemma same_memory_enable_peripheral: "same_memory m (enable_peripheral_rom m)"
proof -
  have put: "same_memory m (mem_put (CxRomPeripheral, 0x800) rom 0x800 m)"
    "same_memory m (mem_put (MemImage, 0xC800) rom 0x800 m)" for m :: "'a memory_scheme" and rom
    by (rule same_memory_put; simp)+
  have tail: "same_memory m (m\<lparr>expansion_rom_type := k, peripheral_rom_slot := j\<rparr>)"
    for m :: "'a memory_scheme" and k j
    by (rule same_memory_heap; simp)
  show ?thesis
    unfolding enable_peripheral_rom_def Let_def
    by (auto split: option.split intro: same_memory_trans [OF put(1)]
        same_memory_trans [OF same_memory_trans [OF put(1) put(2)]] tail)
qed

lemma same_memory_strobe: "same_memory m (strobe_internal_rom s m)"
  by (simp add: strobe_internal_rom_def same_memory_enable)

lemma same_memory_access_slots: "same_memory m (access_slots a m)"
proof -
  define s where "s = (if in_slot_rom a then slot_selected a m else m)"
  have "same_memory m s" by (simp add: s_def same_memory_slot_selected)
  then show ?thesis
    unfolding access_slots_def s_def [symmetric] Let_def
    by (auto intro: same_memory_trans same_memory_enable_peripheral same_memory_strobe)
qed

lemma same_memory_access_internal: "same_memory m (access_internal a m)"
proof -
  have "same_memory m (m\<lparr>io_select_internal_rom := 1\<rparr>)" by (rule same_memory_heap; simp)
  then show ?thesis
    by (auto simp: access_internal_def intro: same_memory_trans same_memory_strobe)
qed

lemma snd_io_read_cxxx:
  "snd (io_read_cxxx pc a w v t m) =
     access_internal a (access_slots a (if a = 0xCFFF then access_cfff m else m))"
  unfolding io_read_cxxx_def Let_def io_null_def by (simp only: if_distrib [of snd] snd_conv if_cancel)

lemma same_memory_cxxx: "same_memory m (snd (io_read_cxxx pc a w v t m))"
proof -
  have "same_memory m (if a = 0xCFFF then access_cfff m else m)"
    by (simp add: same_memory_access_cfff)
  then show ?thesis
    unfolding snd_io_read_cxxx
    by (rule same_memory_trans [OF _ same_memory_trans [OF same_memory_access_slots
            same_memory_access_internal]])
qed

subsection \<open>Every handler makes a lawful step\<close>

definition map_lawful :: "'a video_ext memory_ext io_fun \<Rightarrow> bool" where
  "map_lawful h \<longleftrightarrow> (\<forall>pc a w v t m st. models m st \<longrightarrow>
     (\<exists>st'. io_step (is_apple2 m) a st st' \<and> models (snd (h pc a w v t m)) st'))"

lemma map_lawfulI [intro]: "(\<And>pc a w v t m. same_memory m (snd (h pc a w v t m))) \<Longrightarrow> map_lawful h"
  unfolding map_lawful_def by (meson io_step.other models_same)

lemma map_lawfulD:
  "map_lawful h \<Longrightarrow> models m st \<Longrightarrow>
   \<exists>st'. io_step (is_apple2 m) a st st' \<and> models (snd (h pc a w v t m)) st'"
  by (simp add: map_lawful_def)

lemma lawful_set_paging: "map_lawful mem_set_paging"
  unfolding map_lawful_def using models_set_paging by blast

lemma quiet_handlers:
  "snd (io_null pc a w v t m) = m"
  "snd (io_read_c00x pc a w v t m) = m"
  "snd (io_read_c01x pc a w v t m) = m"
  "snd (io_write_c01x pc a w v t m) = m"
  "snd (io_read_c02x pc a w v t m) = m"
  "snd (io_write_c02x pc a w v t m) = m"
  "snd (io_read_c03x pc a w v t m) = m"
  "snd (io_write_c03x pc a w v t m) = m"
  "snd (io_read_c04x pc a w v t m) = m"
  "snd (io_write_c04x pc a w v t m) = m"
  "snd (io_read_c06x pc a w v t m) = m"
  "snd (io_write_c06x pc a w v t m) = m"
  "snd (io_read_c07x pc a w v t m) = m"
  "snd (io_write_c07x pc a w v t m) = m"
  "snd (io_write_cxxx pc a w v t m) = m"
  "snd (io_annunciator pc a w v t m) = m"
  by (simp_all add: io_null_def io_read_c00x_def io_read_c01x_def io_write_c01x_def io_read_c02x_def
      io_write_c02x_def io_read_c03x_def io_write_c03x_def io_read_c04x_def
      io_write_c04x_def io_read_c06x_def io_write_c06x_def io_read_c07x_def
      io_write_c07x_def io_write_cxxx_def io_annunciator_def mem_check_paging_def
      video_check_mode_def video_check_vbl_def Let_def)

lemma lawful_if:
  "map_lawful h \<Longrightarrow> map_lawful k \<Longrightarrow>
   map_lawful (\<lambda>pc a w v t m. if P a then h pc a w v t m else k pc a w v t m)"
  unfolding map_lawful_def by auto

lemma lawful_quiet: "(\<And>pc a w v t m. snd (h pc a w v t m) = m) \<Longrightarrow> map_lawful h"
  by (rule map_lawfulI) simp

lemma lawful_video_set_mode: "map_lawful video_set_mode"
  by (rule map_lawfulI) (rule video_set_mode_same)

lemma lawful_write_c00x: "map_lawful io_write_c00x"
  unfolding io_write_c00x_def [abs_def]
  by (intro lawful_if lawful_set_paging lawful_video_set_mode)

lemma lawful_c05x: "map_lawful io_access_c05x"
  unfolding io_access_c05x_def [abs_def] Let_def
  by (intro lawful_if lawful_set_paging lawful_video_set_mode lawful_quiet quiet_handlers)

lemma lawful_c05x': "map_lawful io_read_c05x" "map_lawful io_write_c05x"
  unfolding io_read_c05x_def [abs_def] io_write_c05x_def [abs_def] by (rule lawful_c05x)+

lemma lawful_cxxx: "map_lawful io_read_cxxx"
  by (rule map_lawfulI) (rule same_memory_cxxx)

lemma lawful_run_handler:
  "(\<And>n. map_lawful (cards n)) \<Longrightarrow> map_lawful (run_handler cards h)"
  by (cases h)
    (simp_all add: run_handler_def lawful_c05x lawful_c05x' lawful_write_c00x lawful_cxxx
      lawful_set_paging lawful_quiet quiet_handlers)

lemma models_dispatch:
  assumes "\<And>n. map_lawful (cards n)" "models m st"
  shows "\<exists>st'. io_step (is_apple2 m) a st st' \<and>
           models (snd (io_map_dispatch cards pc a w v t m)) st'"
proof -
  have null: "\<exists>st'. io_step (is_apple2 m) a st st' \<and> models (snd (io_null pc a w v t m)) st'"
    and wr: "\<exists>st'. io_step (is_apple2 m) a st st' \<and> models (snd (io_write_cxxx pc a w v t m)) st'"
    and rd: "\<exists>st'. io_step (is_apple2 m) a st st' \<and> models (snd (io_read_cxxx pc a w v t m)) st'"
    using map_lawfulD [OF _ assms(2)] lawful_cxxx lawful_quiet quiet_handlers by blast+
  have call: "\<exists>st'. io_step (is_apple2 m) a st st' \<and>
      models (snd (call_table cards i pc a w v t m)) st'" for i
  proof (cases "if w \<noteq> 0 then io_write m i else io_read m i")
    case None
    with null show ?thesis by (simp add: call_table_def)
  next
    case (Some h)
    from assms(1) have "map_lawful (run_handler cards h)" by (rule lawful_run_handler)
    from map_lawfulD [OF this assms(2)] Some show ?thesis by (simp add: call_table_def)
  qed
  show ?thesis
    unfolding io_map_dispatch_def Let_def using null wr rd call
    by (simp only: split: if_split) blast
qed

end
