(* ===== verification/Memory_Bus.thy ===== *)
theory Memory_Bus
  imports Memory_Model Cpu_Api
begin

text \<open>
  The memory unit meets the processor's bus contract: no handler of the motherboard touches
  the processor's registers or cycle counters, so \<open>io_map_dispatch\<close> is a lawful bus whenever
  the functions the cards registered are.  The locale \<open>motherboard\<close> states what is asked of
  the cards, and the contract of the processor is a consequence.
\<close>

text \<open>
  What the motherboard's own handlers leave alone: the processor's globals, and everything that
  belongs to components behind the memory unit and the video circuits (the cards).
\<close>

definition cpu_view ::
  "'a video_scheme \<Rightarrow> cpu_registers \<times> u64 \<times> u32 \<times> u32 \<times> bool \<times> apple2_type \<times> u32 \<times> 'a" where
  "cpu_view m = (regs m, cumulative_cycles m, cycles_executed m, cycles_limit m, in_slice m,
                 current_apple2_type m, clks_per_frame m, video.more m)"

lemma bus_rel_view: "cpu_view m' = cpu_view m \<Longrightarrow> bus_rel t m m'"
  by (simp add: bus_rel_def cpu_view_def sp_in_page_one_def cycle_origin_def)

lemma cpu_view_memory [simp]:
  "cpu_view (m\<lparr>memshadow := a\<rparr>) = cpu_view m" "cpu_view (m\<lparr>io_select := b\<rparr>) = cpu_view m"
  "cpu_view (m\<lparr>mem_mode := c\<rparr>) = cpu_view m" "cpu_view (m\<lparr>mode_changing := d\<rparr>) = cpu_view m"
  "cpu_view (m\<lparr>last_write_ram := e\<rparr>) = cpu_view m"
  "cpu_view (m\<lparr>io_select_internal_rom := b\<rparr>) = cpu_view m"
  "cpu_view (m\<lparr>peripheral_rom_slot := f\<rparr>) = cpu_view m"
  "cpu_view (m\<lparr>expansion_rom_type := g\<rparr>) = cpu_view m"
  by (simp_all add: cpu_view_def)

lemma cpu_view_machine [simp]:
  "cpu_view (m\<lparr>heap := h\<rparr>) = cpu_view m" "cpu_view (m\<lparr>memwrite := w\<rparr>) = cpu_view m"
  "cpu_view (m\<lparr>memdirty := d\<rparr>) = cpu_view m"
  by (simp_all add: cpu_view_def)

lemma cpu_view_copies [simp]:
  "cpu_view (mem_copy d s n m) = cpu_view m" "cpu_view (mem_put d f n m) = cpu_view m"
  "cpu_view (mem_fill d v n m) = cpu_view m"
  by (simp_all add: mem_copy_def mem_put_def mem_fill_def cpu_view_def)

lemma cpu_view_swap [simp]: "cpu_view (swap_page ini old p m) = cpu_view m"
  by (simp add: swap_page_def Let_def split: option.split)

lemma cpu_view_swaps [simp]: "cpu_view (fold (swap_page ini old) ps m) = cpu_view m"
  by (induction ps arbitrary: m) simp_all

lemma cpu_view_update_tables [simp]: "cpu_view (update_tables m) = cpu_view m"
  by (simp add: update_tables_def table_defs Let_def cpu_view_def)

lemma cpu_view_update_paging [simp]: "cpu_view (mem_update_paging False False m) = cpu_view m"
  by (simp add: mem_update_paging_eq)

lemma cpu_view_switch_mode [simp]: "cpu_view (switch_mode a m) = cpu_view m"
  by (simp add: switch_mode_def language_card_switch_def Let_def)

lemma cpu_view_truncate:
  "memory.truncate m' = memory.truncate m \<Longrightarrow> clks_per_frame m' = clks_per_frame m \<Longrightarrow>
   video.more m' = video.more m \<Longrightarrow> cpu_view m' = cpu_view m"
  by (simp add: memory.truncate_def cpu_view_def)

lemma more_video_switch [simp]:
  "video.more (video_switch a m) = video.more m" "clks_per_frame (video_switch a m) = clks_per_frame m"
  by (simp_all add: video_switch_def Let_def)

lemma more_refresh [simp]:
  "video.more (video_refresh_screen m) = video.more m"
  "clks_per_frame (video_refresh_screen m) = clks_per_frame m"
  by (simp_all add: video_refresh_screen_def)

lemma more_video_set_mode:
  "clks_per_frame (snd (video_set_mode pc a w v t m)) = clks_per_frame m"
  "video.more (snd (video_set_mode pc a w v t m)) = video.more m"
  by (simp_all add: video_set_mode_def Let_def)

lemma cpu_view_video_set_mode [simp]: "cpu_view (snd (video_set_mode pc a w v t m)) = cpu_view m"
  by (rule cpu_view_truncate [OF video_set_mode_memory more_video_set_mode])

lemma cpu_view_roms [simp]:
  "cpu_view (disable_internal_rom m) = cpu_view m" "cpu_view (enable_internal_rom m) = cpu_view m"
  by (simp_all add: disable_internal_rom_def enable_internal_rom_def Let_def)

lemma cpu_view_switch_slot_rom [simp]: "cpu_view (switch_slot_rom mode m) = cpu_view m"
  by (simp add: switch_slot_rom_def)

lemma cpu_view_set_paging [simp]: "cpu_view (snd (mem_set_paging pc a w v t m)) = cpu_view m"
  unfolding mem_set_paging_def Let_def by simp

lemma cpu_view_write_c00x [simp]: "cpu_view (snd (io_write_c00x pc a w v t m)) = cpu_view m"
  by (simp add: io_write_c00x_def)

lemma cpu_view_c05x [simp]: "cpu_view (snd (io_access_c05x pc a w v t m)) = cpu_view m"
  by (simp add: io_access_c05x_def Let_def quiet_handlers)

lemma cpu_view_c05x' [simp]:
  "cpu_view (snd (io_read_c05x pc a w v t m)) = cpu_view m"
  "cpu_view (snd (io_write_c05x pc a w v t m)) = cpu_view m"
  by (simp_all add: io_read_c05x_def io_write_c05x_def)

lemma cpu_view_slots [simp]: "cpu_view (slot_selected a m) = cpu_view m"
  by (simp add: slot_selected_def Let_def)

lemma cpu_view_peripheral [simp]: "cpu_view (enable_peripheral_rom m) = cpu_view m"
  by (simp add: enable_peripheral_rom_def Let_def split: option.split)

lemma cpu_view_strobe [simp]: "cpu_view (strobe_internal_rom s m) = cpu_view m"
  by (simp add: strobe_internal_rom_def)

lemma cpu_view_cxxx [simp]: "cpu_view (snd (io_read_cxxx pc a w v t m)) = cpu_view m"
  by (simp add: snd_io_read_cxxx access_internal_def access_slots_def access_cfff_def Let_def)

subsection \<open>The board and its cards\<close>

locale motherboard =
  fixes cards :: "nat \<Rightarrow> 'a video_ext memory_ext io_fun"
  assumes cards_bus: "io_bus (cards n)"
begin

text \<open>
  A relation to the state before an access that the motherboard's own handlers cannot break, and
  no card's function breaks, holds after any access.
\<close>

lemma handler_related:
  assumes "\<And>m'. cpu_view m' = cpu_view m \<Longrightarrow> Q m'" "\<And>n. Q (snd (cards n pc a w v t m))"
  shows "Q (snd (run_handler cards h pc a w v t m))"
  by (cases h) (simp_all add: run_handler_def quiet_handlers assms)

lemma dispatch_related:
  assumes "\<And>m'. cpu_view m' = cpu_view m \<Longrightarrow> Q m'" "\<And>n. Q (snd (cards n pc a w v t m))"
  shows "Q (snd (io_map_dispatch cards pc a w v t m))"
proof -
  have own: "Q m" "Q (snd (io_null pc a w v t m))" "Q (snd (io_read_cxxx pc a w v t m))"
    "Q (snd (io_write_cxxx pc a w v t m))"
    by (simp_all add: assms(1) quiet_handlers)
  have "Q (snd (run_handler cards h pc a w v t m))" for h
    using handler_related [of m Q] assms by blast
  then have call: "Q (snd (call_table cards i pc a w v t m))" for i
    using own(2) unfolding call_table_def
    by (cases "if w \<noteq> 0 then io_write m i else io_read m i") (simp_all only: option.case)
  have either: "Q (snd (if b then x else y))" if "Q (snd x)" "Q (snd y)" for b x y
    using that by simp
  show ?thesis
    unfolding io_map_dispatch_def Let_def by (intro either own call)
qed

lemma handler_bus: "bus_rel t m (snd (run_handler cards h pc a w v t m))"
  by (rule handler_related) (simp_all add: bus_rel_view io_bus.io_rel [OF cards_bus])

lemma dispatch_bus: "bus_rel t m (snd (io_map_dispatch cards pc a w v t m))"
  by (rule dispatch_related) (simp_all add: bus_rel_view io_bus.io_rel [OF cards_bus])

end

sublocale motherboard \<subseteq> bus: io_bus "io_map_dispatch cards"
  by unfold_locales (rule dispatch_bus)

end
