(* ===== verification/Card_Contract.thy ===== *)
theory Card_Contract
  imports Core_Session Memory_Bus
begin

text \<open>
  What the core relies on from the cards, and what follows for the run loop: an event is
  serviced at the first instruction boundary at or after its cycle.

  The contract (locale \<open>slot_cards\<close>) asks of every entry point of every card the one relation
  \<open>card_step\<close>: it may do to the processor what any bus handler may, and it schedules its
  events no earlier than the current cycle, through the host interface, so that the cached next
  event stays below every card's event and the running slice ends in time for it.
\<close>

subsection \<open>Events and the running slice\<close>

definition events_from :: "u64 \<Rightarrow> 'a peripherals_scheme \<Rightarrow> bool" where
  "events_from b m \<longleftrightarrow> (\<forall>aps \<in> set (active_peripherals m). \<forall>ap \<in> set aps. b \<le> event_cycle ap)"

definition events_bounded :: "'a peripherals_scheme \<Rightarrow> bool" where
  "events_bounded m \<longleftrightarrow> events_from (next_event_cycle m) m"

definition limit_covers :: "'a peripherals_scheme \<Rightarrow> bool" where
  "limit_covers m \<longleftrightarrow>
     (in_slice m \<longrightarrow> unat (cumulative_cycles m) + (unat (cycles_limit m) - unat (cycles_executed m))
        \<le> max (unat (next_event_cycle m)) (unat (cumulative_cycles m)))"

definition young :: "'a machine_scheme \<Rightarrow> bool" where
  "young m \<longleftrightarrow> unat (cycle_origin m) < 2 ^ 62"

definition card_step :: "'a peripherals_scheme \<Rightarrow> 'a peripherals_scheme \<Rightarrow> bool" where
  "card_step m m' \<longleftrightarrow> bus_rel (cycles_executed m) m m' \<and> clks_per_frame m' = clks_per_frame m \<and>
     (young m \<longrightarrow>
        (events_bounded m \<longrightarrow> events_bounded m' \<and>
           min (next_event_cycle m) (cumulative_cycles m) \<le> next_event_cycle m') \<and>
        (\<forall>b \<le> cumulative_cycles m. events_from b m \<longrightarrow> events_from b m') \<and>
        (limit_covers m \<longrightarrow> limit_covers m'))"

lemma card_step_refl [simp]: "card_step m m"
  by (simp add: card_step_def)

lemma card_step_clock:
  assumes "card_step m m'"
  shows "cycles_executed m' = cycles_executed m" "cycle_origin m' = cycle_origin m"
    "cumulative_cycles m' = cumulative_cycles m" "young m' = young m" "in_slice m' = in_slice m"
    "clks_per_frame m' = clks_per_frame m"
proof -
  show 1: "cycles_executed m' = cycles_executed m" and 2: "cycle_origin m' = cycle_origin m"
    and "in_slice m' = in_slice m" and "clks_per_frame m' = clks_per_frame m"
    using assms by (auto simp: card_step_def bus_rel_def)
  show "young m' = young m" using 2 by (simp add: young_def)
  have "cycle_origin n + ucast (cycles_executed n) = cumulative_cycles n" for n :: "'b machine_scheme"
    by (simp add: cycle_origin_def)
  from this [of m] this [of m'] 1 2 show "cumulative_cycles m' = cumulative_cycles m" by simp
qed

lemma card_step_trans:
  assumes "card_step m m'" "card_step m' m''"
  shows "card_step m m''"
proof -
  note clock = card_step_clock [OF assms(1)]
  have "bus_rel (cycles_executed m) m m''"
    using assms clock(1) by (auto simp: card_step_def intro: bus_rel_trans)
  moreover have "min (next_event_cycle m) (cumulative_cycles m) \<le> next_event_cycle m''"
    if "min (next_event_cycle m) (cumulative_cycles m) \<le> next_event_cycle m'"
      "min (next_event_cycle m') (cumulative_cycles m) \<le> next_event_cycle m''"
    using that by (auto simp: min_def split: if_splits)
  ultimately show ?thesis
    using assms clock unfolding card_step_def by auto
qed

lemma card_step_fold:
  "(\<And>x m. x \<in> set xs \<Longrightarrow> card_step m (f x m)) \<Longrightarrow> card_step m (fold f xs m)"
  by (induction xs arbitrary: m) (auto intro: card_step_trans)

text \<open>A step that touches neither the processor's clock nor the cards.\<close>

lemma card_step_quiet:
  assumes "cpu_view m' = cpu_view m" shows "card_step m m'"
  using assms bus_rel_view [OF assms]
  by (cases m; cases m') (simp add: card_step_def cpu_view_def events_from_def events_bounded_def limit_covers_def)

locale slot_cards =
  fixes cc :: "'a host card_code"
  assumes io_step: "card_step m (snd (card_io cc h inst pc a w d (cycles_executed m) m))"
    and strobe_step: "card_step m (card_strobe cc h inst m)"
    and think_step: "card_think cc api = Some think \<Longrightarrow> card_step m (think inst n m)"
    and command_step: "card_command cc api = Some command \<Longrightarrow> card_step m (command inst cid data m)"
    and vblank_step: "card_on_vblank cc api = Some on_vblank \<Longrightarrow> card_step m (on_vblank inst v m)"


subsection \<open>The clock during an access\<close>

lemma unat_clock:
  assumes "young m"
  shows "unat (cumulative_cycles m) = unat (cycle_origin m) + unat (cycles_executed m)"
proof -
  have "cumulative_cycles m = cycle_origin m + ucast (cycles_executed m)"
    by (simp add: cycle_origin_def)
  moreover have "unat (ucast (cycles_executed m) :: u64) = unat (cycles_executed m)"
    by (simp add: unsigned_ucast_eq take_bit_nat_eq_self_iff order_less_trans [OF unsigned_less])
  moreover have "unat (cycles_executed m) < 2 ^ 32"
    using unsigned_less [of "cycles_executed m"] by simp
  ultimately show ?thesis
    using assms by (simp add: young_def unat_add_lem [THEN iffD1])
qed

lemma calc_cycles_clock:
  "cycles_executed (cpu_calc_cycles t m) = t"
  "in_slice (cpu_calc_cycles t m) = in_slice m"
  "cycles_limit (cpu_calc_cycles t m) = cycles_limit m"
  "next_event_cycle (cpu_calc_cycles t p) = next_event_cycle p"
  "active_peripherals (cpu_calc_cycles t p) = active_peripherals p"
  "clks_per_frame (cpu_calc_cycles t v) = clks_per_frame v"
  by (simp_all add: cpu_calc_cycles_def Let_def)

lemma calc_cycles_origin:
  assumes "cycles_executed m \<le> t"
  shows "cycle_origin (cpu_calc_cycles t m) = cycle_origin m"
  using u32_split [OF assms] by (simp add: cycle_origin_def cpu_calc_cycles_def Let_def algebra_simps)

lemma calc_cycles_bus: "bus_rel t m (cpu_calc_cycles t m)"
  using calc_cycles_origin [of m t]
  by (auto simp: bus_rel_def calc_cycles_clock sp_in_page_one_def)
    (simp_all add: cpu_calc_cycles_def Let_def)

subsection \<open>Watching a slice\<close>

text \<open>
  During the turn of the loop that began at cycle \<open>t\<close> of the frame: no event is overdue, and
  the slice ends by the next event's cycle.
\<close>

definition watch :: "nat \<Rightarrow> u32 \<Rightarrow> 'a peripherals_scheme \<Rightarrow> bool" where
  "watch origin t m \<longleftrightarrow> in_slice m \<and> cycles_executed m \<le> t \<and> unat (cycle_origin m) = origin \<and>
     0 < clks_per_frame m \<and> young m \<and> limit_covers m \<and> events_bounded m \<and> origin + unat t \<le> unat (next_event_cycle m)"

lemma watch_calc:
  assumes "watch origin t m"
  shows "watch origin t (cpu_calc_cycles t m)"
proof -
  let ?m = "cpu_calc_cycles t m"
  have t: "cycles_executed m \<le> t" and y: "young m" using assms by (auto simp: watch_def)
  note origin = calc_cycles_origin [OF t]
  have y': "young ?m" using y by (simp add: young_def origin)
  have le: "unat (cycles_executed m) \<le> unat t" using t by (simp add: word_le_nat_alt)
  have "limit_covers ?m"
    using assms le unat_clock [OF y] unat_clock [OF y']
    by (auto simp: watch_def limit_covers_def calc_cycles_clock origin)
  moreover have "events_bounded ?m"
    using assms by (simp add: watch_def events_bounded_def events_from_def calc_cycles_clock)
  ultimately show ?thesis
    using assms y' by (simp add: watch_def calc_cycles_clock origin)
qed

lemma watch_card:
  assumes "watch origin t m" "cycles_executed m = t" "card_step m m'"
  shows "watch origin t m'"
proof -
  note clock = card_step_clock [OF assms(3)]
  have y: "young m" using assms(1) by (simp add: watch_def)
  have "min (next_event_cycle m) (cumulative_cycles m) \<le> next_event_cycle m'"
    using assms(1,3) y by (simp add: card_step_def watch_def)
  moreover have "unat (cumulative_cycles m) = origin + unat t"
    using unat_clock [OF y] assms by (simp add: watch_def)
  moreover have "origin + unat t \<le> unat (next_event_cycle m)"
    using assms(1) by (simp add: watch_def)
  ultimately have "origin + unat t \<le> unat (next_event_cycle m')"
    by (auto simp: min_def word_le_nat_alt split: if_splits)
  then show ?thesis
    using assms clock by (auto simp: watch_def card_step_def young_def)
qed

lemma watch_turn:
  assumes "watch origin t m" "t \<le> t'" "t' < cycles_limit m"
  shows "watch origin t' m"
proof -
  have "unat (cycles_executed m) \<le> unat t" "unat t \<le> unat t'" "unat t' < unat (cycles_limit m)"
    using assms by (auto simp: watch_def word_le_nat_alt word_less_nat_alt)
  moreover have "unat (cumulative_cycles m) = origin + unat (cycles_executed m)"
    using assms(1) unat_clock [of m] by (simp add: watch_def)
  ultimately have "origin + unat t' \<le> unat (next_event_cycle m)"
    using assms(1) by (auto simp: watch_def limit_covers_def)
  then show ?thesis using assms by (auto simp: watch_def)
qed

lemma watch_side: "bus_side m = bus_side m' \<Longrightarrow> watch origin t m = watch origin t m'"
  by (cases m; cases m') (simp add: bus_side_def watch_def cycle_origin_def young_def limit_covers_def
      events_bounded_def events_from_def)

lemma watch_view: "cpu_view m' = cpu_view m \<Longrightarrow> watch origin t m' = watch origin t m"
  by (cases m; cases m') (simp add: cpu_view_def watch_def cycle_origin_def young_def limit_covers_def
      events_bounded_def events_from_def)

context slot_cards
begin

lemma try_handlers_step:
  "cycles_executed m = t \<Longrightarrow> card_step m (snd (try_handlers cc hs pc a w d t m))"
proof (induction hs arbitrary: m)
  case (Cons h hs)
  obtain f inst where h: "h = (f, inst)" by (cases h)
  show ?case
  proof (cases f)
    case None
    with Cons h show ?thesis by simp
  next
    case (Some g)
    obtain r m1 where r: "card_io cc g inst pc a w d t m = (r, m1)"
      by (cases "card_io cc g inst pc a w d t m")
    have step: "card_step m m1"
      using io_step [of m g inst pc a w d] r Cons.prems by simp
    with Cons.IH [of m1] card_step_clock(1) [OF step] Cons.prems Some h r show ?thesis
      by (auto split: option.split intro: card_step_trans)
  qed
qed simp

lemma answer_step:
  "card_step m (snd r) \<Longrightarrow> card_step m (snd (answer_or_null r pc a w d t m0))"
  by (simp add: answer_or_null_def case_prod_beta quiet_handlers split: option.split)

lemma bridge_step:
  "card_step (cpu_calc_cycles t m) (snd (bridges cc n pc a w d t m)) \<or> snd (bridges cc n pc a w d t m) = m"
proof -
  let ?m = "cpu_calc_cycles t m"
  have slot: "card_step ?m (snd (slot_bridge cc field k pc a w d t m))" for field k
    unfolding slot_bridge_def Let_def
    by (intro answer_step try_handlers_step) (simp add: calc_cycles_clock)
  have direct: "card_step ?m (snd (direct_bridge cc field pc a w d t m))" for field
  proof (cases "find (\<lambda>h. dio_addr h = a \<and> dio_strobe h \<noteq> None) (direct_io_handlers ?m)")
    case None
    then show ?thesis
      unfolding direct_bridge_def Let_def dispatch_direct_io_strobe_def
      by (simp only: option.case prod.case bool.case)
        (intro answer_step try_handlers_step, simp add: calc_cycles_clock)
  next
    case (Some h)
    then show ?thesis
      by (simp add: direct_bridge_def Let_def dispatch_direct_io_strobe_def quiet_handlers strobe_step)
  qed
  show ?thesis
    unfolding bridges_def slot_read_c0_bridge_def slot_write_c0_bridge_def slot_read_cx_bridge_def
      slot_write_cx_bridge_def direct_io_read_bridge_def direct_io_write_bridge_def
    using slot direct by (simp add: quiet_handlers)
qed

lemma bridge_bus: "bus_rel t m (snd (bridges cc n pc a w d t m))"
  using bridge_step [of t m n pc a w d]
proof
  assume "card_step (cpu_calc_cycles t m) (snd (bridges cc n pc a w d t m))"
  then have "bus_rel t (cpu_calc_cycles t m) (snd (bridges cc n pc a w d t m))"
    by (simp add: card_step_def calc_cycles_clock)
  with calc_cycles_bus show ?thesis by (rule bus_rel_trans)
qed simp

lemma bridge_watch: "watch origin t m \<Longrightarrow> watch origin t (snd (bridges cc n pc a w d t m))"
  using bridge_step [of t m n pc a w d]
  by (elim disjE) (rule watch_card [OF watch_calc], assumption, simp add: calc_cycles_clock,
    assumption, simp only:)

end

sublocale slot_cards \<subseteq> board: motherboard "bridges cc"
  by unfold_locales (rule bridge_bus)

context slot_cards
begin

lemma machine_bus_watch:
  assumes "watch origin t m"
  shows "watch origin t (snd (machine_bus cc pc a w d t m))"
  unfolding machine_bus_def
  by (rule board.dispatch_related [where Q = "watch origin t"])
    (simp only: watch_view assms, rule bridge_watch [OF assms])

end

subsection \<open>A slice\<close>

lemma limit_cycles_state [simp]:
  "next_event_cycle (cpu_limit_cycles u m) = next_event_cycle m"
  "active_peripherals (cpu_limit_cycles u m) = active_peripherals m"
  "clks_per_frame (cpu_limit_cycles u v) = clks_per_frame v"
  by (simp_all add: cpu_limit_cycles_def Let_def)

lemma limit_cycles_origin [simp]:
  "cycle_origin (cpu_limit_cycles u m) = cycle_origin m" "young (cpu_limit_cycles u m) = young m"
  by (simp_all add: cycle_origin_def young_def cpu_limit_cycles_frame)

lemma unat_add_64: "unat a + unat b < 2 ^ 64 \<Longrightarrow> unat (a + b :: u64) = unat a + unat b"
  by (simp add: unat_add_lem [THEN iffD1])

lemma limit_cycles_bound:
  assumes "in_slice m" "young m" "next_event_cycle m \<noteq> no_event"
  shows "unat (cycles_limit (cpu_limit_cycles (next_event_cycle m) m))
    \<le> unat (cycles_executed m) + (unat (next_event_cycle m) - unat (cumulative_cycles m))"
proof -
  let ?e = "ucast (cycles_executed m) :: u64" and ?n = "next_event_cycle m" and ?c = "cumulative_cycles m"
  let ?b = "if ?n > ?c then ?e + (?n - ?c) else ?e"
  have e: "unat ?e = unat (cycles_executed m)"
    by (simp add: unsigned_ucast_eq take_bit_nat_eq_self_iff order_less_trans [OF unsigned_less])
  have sub: "unat (?n - ?c) = unat ?n - unat ?c" if "?c \<le> ?n" by (rule unat_sub [OF that])
  have "unat ?c = unat (cycle_origin m) + unat ?e" using unat_clock [OF assms(2)] e by simp
  moreover have "unat ?n < 2 ^ 64" by (rule order_less_le_trans [OF unsigned_less]) simp
  moreover have "unat ?e < 2 ^ 32" using e unsigned_less [of "cycles_executed m"] by simp
  ultimately have small: "unat ?e + (unat ?n - unat ?c) < 2 ^ 64" by simp
  have b: "unat ?b = unat (cycles_executed m) + (unat ?n - unat ?c)"
  proof (cases "?c < ?n")
    case True
    then have "unat (?n - ?c) = unat ?n - unat ?c" by (intro sub) simp
    with unat_add_64 [of ?e "?n - ?c"] small True e show ?thesis by simp
  next
    case False
    then have "unat ?n \<le> unat ?c" by (simp add: word_less_nat_alt)
    with False e show ?thesis by simp
  qed
  have "unat (cycles_limit (cpu_limit_cycles ?n m)) \<le> unat ?b"
  proof (cases "?b < ucast (cycles_limit m)")
    case True
    have "unat (ucast ?b :: u32) \<le> unat ?b"
      by (simp add: unsigned_ucast_eq take_bit_nat_less_eq_self)
    moreover have "cycles_limit (cpu_limit_cycles ?n m) = ucast ?b"
      using True assms(1,3) by (simp only: cpu_limit_cycles_def Let_def if_False if_True simp_thms) simp
    ultimately show ?thesis by simp
  next
    case False
    then have "cycles_limit (cpu_limit_cycles ?n m) = cycles_limit m"
      by (simp only: cpu_limit_cycles_def Let_def if_False if_cancel)
    moreover have "unat (ucast (cycles_limit m) :: u64) = unat (cycles_limit m)"
      by (simp add: unsigned_ucast_eq take_bit_nat_eq_self_iff order_less_trans [OF unsigned_less])
    ultimately show ?thesis using False by (simp add: word_less_nat_alt)
  qed
  with b show ?thesis by simp
qed

lemma limit_cycles_covers:
  assumes "in_slice m" "young m"
  shows "limit_covers (cpu_limit_cycles (next_event_cycle m) m)"
proof -
  let ?m = "cpu_limit_cycles (next_event_cycle m) m"
  note clock = unat_clock [OF assms(2)]
  show ?thesis
  proof (cases "next_event_cycle m = no_event")
    case True
    have "unat (cycles_limit ?m) < 2 ^ 32" "unat (cycles_executed m) < 2 ^ 32"
      using unsigned_less [of "cycles_limit ?m"] unsigned_less [of "cycles_executed m"] by simp_all
    moreover have "unat (cycle_origin m) < 2 ^ 62" using assms(2) by (simp add: young_def)
    ultimately have "unat (cumulative_cycles m) + unat (cycles_limit ?m) \<le> unat (next_event_cycle m)"
      using clock by (simp add: True)
    then have "unat (cumulative_cycles m) + (unat (cycles_limit ?m) - unat (cycles_executed m))
        \<le> unat (next_event_cycle m)" by linarith
    then show ?thesis by (simp add: limit_covers_def cpu_limit_cycles_frame max.coboundedI1)
  next
    case False
    from limit_cycles_bound [OF assms False] show ?thesis
      by (auto simp: limit_covers_def cpu_limit_cycles_frame)
  qed
qed

lemma slice_start:
  assumes "in_slice m" "0 < clks_per_frame m" "young m" "events_bounded m"
    "unat (cumulative_cycles m) \<le> unat (next_event_cycle m)"
  shows "watch (unat (cycle_origin m)) (cycles_executed m) (cpu_limit_cycles (next_event_cycle m) m)"
  using limit_cycles_covers [OF assms(1,3)] assms unat_clock [OF assms(3)]
    by (simp add: watch_def cpu_limit_cycles_frame events_bounded_def events_from_def)

text \<open>Between batches and at every service point: no event is more than 24 cycles overdue.\<close>

definition on_time :: "'a peripherals_scheme \<Rightarrow> bool" where
  "on_time m \<longleftrightarrow> events_bounded m \<and> unat (cumulative_cycles m) \<le> unat (next_event_cycle m) + 24"

context slot_cards
begin

lemma slice_on_time:
  assumes "cpu_execute_slice (machine_bus cc) frame (next_event_cycle m) m = Some (e, m')"
    and "young m" "events_bounded m" "unat (cumulative_cycles m) \<le> unat (next_event_cycle m)"
    and "0 < clks_per_frame m"
    and "unat (cycles_executed m) + 24 < 2 ^ 32" "unat frame + 24 < 2 ^ 32"
  shows "on_time m' \<and> young m' \<and> 0 < clks_per_frame m'"
proof -
  let ?slice = "m\<lparr>in_slice := True, cycles_limit := frame\<rparr>"
  let ?m = "cpu_limit_cycles (next_event_cycle ?slice) ?slice"
  let ?O = "unat (cycle_origin m)"
  have "young ?slice" "events_bounded ?slice" "cycle_origin ?slice = cycle_origin m"
    using assms(2,3) by (simp_all add: young_def cycle_origin_def events_bounded_def events_from_def)
  with slice_start [of ?slice] assms(4,5) have w: "watch ?O (cycles_executed ?m) ?m"
    by (simp only: cpu_limit_cycles_frame) simp
  obtain d where d: "cpu_loop (uses_cmos ?m) (machine_bus cc) (loop_context (cycles_executed ?m) ?m) = Some d"
    and m': "e = executed_cycles d" "m' = (mach d)\<lparr>cumulative_cycles := cumulative_cycles (mach d)
        + ucast (e - cycles_executed (mach d)), cycles_executed := e, in_slice := False\<rparr>"
    using assms(1)
    by (auto simp: cpu_execute_slice_def internal_cpu_execute_def cpu_execute_loop_def Let_def
        split: option.splits)
  have lim: "unat (cycles_limit ?m) + 24 < 2 ^ 32"
    using cycles_limit_decreases [of "next_event_cycle ?slice" ?slice] assms(7) by (simp add: word_le_nat_alt)
  let ?c = "loop_context (cycles_executed ?m) ?m"
  have start: "unat (executed_cycles ?c) + 24 < 2 ^ 32" "unat (cycles_limit (mach ?c)) + 24 < 2 ^ 32"
    "watch ?O (executed_cycles ?c) (mach ?c)"
    using assms(6) lim w by (simp_all add: cpu_limit_cycles_frame)
  have "\<exists>t \<le> executed_cycles d. unat (executed_cycles d) \<le> unat t + 24 \<and> watch ?O t (mach d)"
    by (rule board.bus.cpu_loop_keeps [where P = "watch ?O", OF start(1,2) d [unfolded machine_bus_def]
          start(3)]) (erule watch_side, erule machine_bus_watch [unfolded machine_bus_def],
        erule (2) watch_turn)
  then obtain t where t: "t \<le> executed_cycles d" "unat (executed_cycles d) \<le> unat t + 24"
    "watch ?O t (mach d)" by blast
  have y: "young (mach d)" and le: "cycles_executed (mach d) \<le> executed_cycles d"
    using t by (auto simp: watch_def)
  have origin: "cycle_origin m' = cycle_origin (mach d)"
    using m' by (simp add: cycle_origin_def u32_split [OF le, symmetric])
  then have y': "young m'" using y by (simp add: young_def)
  have "unat (cumulative_cycles m') = ?O + unat (executed_cycles d)"
    using unat_clock [OF y'] m' t(3) origin by (simp add: watch_def)
  moreover have "next_event_cycle m' = next_event_cycle (mach d)" "events_bounded m' = events_bounded (mach d)"
    "clks_per_frame m' = clks_per_frame (mach d)"
    using m' by (simp_all add: events_bounded_def events_from_def)
  ultimately show ?thesis
    using t y' by (auto simp: on_time_def watch_def)
qed

end

subsection \<open>Servicing events\<close>

lemma fold_min:
  "fold (\<lambda>ap next. min next (event_cycle ap)) aps (b :: u64) \<le> b \<and>
   (\<forall>ap \<in> set aps. fold (\<lambda>ap next. min next (event_cycle ap)) aps b \<le> event_cycle ap) \<and>
   (\<forall>c. c \<le> b \<longrightarrow> (\<forall>ap \<in> set aps. c \<le> event_cycle ap) \<longrightarrow>
      c \<le> fold (\<lambda>ap next. min next (event_cycle ap)) aps b)"
proof (induction aps arbitrary: b)
  case (Cons ap aps)
  from Cons.IH [of "min b (event_cycle ap)"] show ?case by (auto simp: min_def split: if_splits)
qed simp

lemma recompute_frame [simp]:
  "active_peripherals (recompute_next_event_cycle m) = active_peripherals m"
  "cumulative_cycles (recompute_next_event_cycle m) = cumulative_cycles m"
  "cycles_executed (recompute_next_event_cycle m) = cycles_executed m"
  "cycles_limit (recompute_next_event_cycle m) = cycles_limit m"
  "in_slice (recompute_next_event_cycle m) = in_slice m"
  "regs (recompute_next_event_cycle m) = regs m"
  "current_apple2_type (recompute_next_event_cycle m) = current_apple2_type m"
  "clks_per_frame (recompute_next_event_cycle m) = clks_per_frame m"
  by (simp_all add: recompute_next_event_cycle_def)

lemma no_event_max: "(b :: u64) \<le> no_event"
  by (simp add: word_le_nat_alt)
    (use unsigned_less [of b, where ?'a = nat] in simp)

lemma recompute_bounded: "events_bounded (recompute_next_event_cycle m)"
  using fold_min [of "concat (active_peripherals m)" no_event]
  by (auto simp: events_bounded_def events_from_def recompute_next_event_cycle_def)

lemma recompute_from:
  assumes "events_from b m" shows "b \<le> next_event_cycle (recompute_next_event_cycle m)"
  using fold_min [of "concat (active_peripherals m)" no_event] assms no_event_max [of b]
  by (auto simp: events_from_def recompute_next_event_cycle_def)

lemma recompute_eq_from: "events_from b (recompute_next_event_cycle m) = events_from b m"
  by (simp add: events_from_def)

lemma clear_due_from: "events_from now (clear_due now m)"
  using no_event_max by (auto simp: events_from_def clear_due_def map_cards_def)

lemma clear_due_frame [simp]:
  "cumulative_cycles (clear_due now m) = cumulative_cycles m"
  "cycles_executed (clear_due now m) = cycles_executed m"
  "in_slice (clear_due now m) = in_slice m"
  "clks_per_frame (clear_due now m) = clks_per_frame m"
  "young (clear_due now m) = young m"
  by (simp_all add: clear_due_def map_cards_def young_def cycle_origin_def)

context slot_cards
begin

lemma run_think_step: "card_step m (run_think cc n ap m)"
  by (simp add: run_think_def think_step split: option.split)

lemma service_now_result:
  assumes "young m" "events_bounded m"
  shows "events_bounded (service_now cc m)"
    and "cumulative_cycles m \<le> next_event_cycle (service_now cc m)"
    and "cumulative_cycles (service_now cc m) = cumulative_cycles m"
    and "cycles_executed (service_now cc m) = cycles_executed m"
    and "in_slice (service_now cc m) = in_slice m" and "young (service_now cc m)"
    and "clks_per_frame (service_now cc m) = clks_per_frame m"
proof -
  let ?now = "cumulative_cycles m" and ?c = "clear_due (cumulative_cycles m) m"
  let ?m = "fold (run_think cc 0) (due_cards ?now m) ?c"
  have step: "card_step ?c ?m" by (rule card_step_fold) (rule run_think_step)
  note clock = card_step_clock [OF step]
  have from_now: "events_from ?now ?m"
    using step assms(1) clear_due_from by (auto simp: card_step_def)
  show "events_bounded (service_now cc m)" "?now \<le> next_event_cycle (service_now cc m)"
    "cumulative_cycles (service_now cc m) = ?now"
    "cycles_executed (service_now cc m) = cycles_executed m"
    "in_slice (service_now cc m) = in_slice m"
    "clks_per_frame (service_now cc m) = clks_per_frame m"
    using assms clock recompute_bounded recompute_from [OF from_now]
    by (auto simp: service_now_def peripheral_service_events_def)
  then show "young (service_now cc m)"
    using assms(1) by (simp add: young_def cycle_origin_def)
qed

end

subsection \<open>Scheduling through the host interface\<close>

lemma card_step_same:
  assumes "regs m' = regs m" "cumulative_cycles m' = cumulative_cycles m"
    "cycles_executed m' = cycles_executed m" "cycles_limit m' = cycles_limit m"
    "in_slice m' = in_slice m" "current_apple2_type m' = current_apple2_type m"
    "next_event_cycle m' = next_event_cycle m" "active_peripherals m' = active_peripherals m"
    "clks_per_frame m' = clks_per_frame m"
  shows "card_step m m'"
  using assms
  by (simp add: card_step_def bus_rel_def sp_in_page_one_def cycle_origin_def events_bounded_def
      events_from_def limit_covers_def)

lemma update_first_all:
  "update_first P f xs = Some ys \<Longrightarrow> (\<forall>x \<in> set xs. Q x) \<Longrightarrow> (\<And>x. Q (f x)) \<Longrightarrow> \<forall>y \<in> set ys. Q y"
  by (induction xs arbitrary: ys) (auto split: if_splits)

lemma update_first_slot_all:
  "update_first_slot P f xss = Some yss \<Longrightarrow> (\<forall>xs \<in> set xss. \<forall>x \<in> set xs. Q x) \<Longrightarrow> (\<And>x. Q (f x)) \<Longrightarrow>
   \<forall>ys \<in> set yss. \<forall>y \<in> set ys. Q y"
proof (induction xss arbitrary: yss)
  case (Cons xs xss)
  show ?case
  proof (cases "update_first P f xs")
    case None
    with Cons.prems Cons.IH show ?thesis by (auto split: option.splits)
  next
    case (Some ys)
    with Cons.prems update_first_all [OF Some, of Q] show ?thesis by auto
  qed
qed simp

lemma limit_cycles_step: "bus_rel t m (cpu_limit_cycles u m)"
  using cycles_limit_decreases [of u m]
  by (auto simp: bus_rel_def cpu_limit_cycles_frame sp_in_page_one_def cycle_origin_def
      cpu_limit_cycles_def Let_def)

lemma schedule_step:
  assumes "young m \<Longrightarrow> at_cycle = 0 \<or> cumulative_cycles m \<le> at_cycle"
  shows "card_step m (host_schedule_event inst at_cycle m)"
proof (cases "inst = None \<or> update_first_slot (\<lambda>ap. ap_instance ap = inst)
    (event_cycle_update (\<lambda>_. if at_cycle = 0 then no_event else at_cycle)) (active_peripherals m) = None")
  case True
  then show ?thesis by (auto simp: host_schedule_event_def)
next
  case False
  let ?at = "if at_cycle = 0 then no_event else at_cycle"
  obtain aps where u: "update_first_slot (\<lambda>ap. ap_instance ap = inst) (event_cycle_update (\<lambda>_. ?at))
      (active_peripherals m) = Some aps" using False by blast
  define n where "n = recompute_next_event_cycle (m\<lparr>active_peripherals := aps\<rparr>)"
  have h: "host_schedule_event inst at_cycle m = cpu_limit_cycles (next_event_cycle n) n"
    using False u by (auto simp: host_schedule_event_def n_def Let_def)
  have same: "regs n = regs m" "cumulative_cycles n = cumulative_cycles m"
    "cycles_executed n = cycles_executed m" "cycles_limit n = cycles_limit m" "in_slice n = in_slice m"
    "current_apple2_type n = current_apple2_type m" "active_peripherals n = aps"
    "clks_per_frame n = clks_per_frame m"
    by (simp_all add: n_def)
  have from_b: "events_from b n" if "young m" "b \<le> cumulative_cycles m" "events_from b m" for b
  proof -
    have "b \<le> ?at" using that(2) assms [OF that(1)] no_event_max [of b] by auto
    with update_first_slot_all [OF u, of "\<lambda>ap. b \<le> event_cycle ap"] that(3) show ?thesis
      by (simp add: events_from_def same)
  qed
  have next_n: "min (next_event_cycle m) (cumulative_cycles m) \<le> next_event_cycle n"
    if "young m" "events_bounded m"
  proof -
    let ?b = "min (next_event_cycle m) (cumulative_cycles m)"
    have "events_from ?b m" using that(2) by (auto simp: events_bounded_def events_from_def min_le_iff_disj)
    then have "events_from ?b n" using that(1) by (intro from_b) simp_all
    then have "events_from ?b (m\<lparr>active_peripherals := aps\<rparr>)" by (simp add: events_from_def same)
    then show ?thesis unfolding n_def by (rule recompute_from)
  qed
  have young: "young n = young m" by (simp add: young_def cycle_origin_def same)
  have covers: "limit_covers (cpu_limit_cycles (next_event_cycle n) n)" if "young m"
    using limit_cycles_covers [of n] that young
    by (cases "in_slice n") (auto simp: limit_covers_def cpu_limit_cycles_frame)
  have "bus_rel (cycles_executed m) n (cpu_limit_cycles (next_event_cycle n) n)"
    by (rule limit_cycles_step)
  moreover have "bus_rel (cycles_executed m) m n"
    by (simp add: bus_rel_def same sp_in_page_one_def cycle_origin_def)
  ultimately have "bus_rel (cycles_executed m) m (cpu_limit_cycles (next_event_cycle n) n)"
    by (rule bus_rel_trans [rotated])
  moreover have "events_bounded n" unfolding n_def by (rule recompute_bounded)
  ultimately show ?thesis
    unfolding h using covers from_b next_n same
    by (simp add: card_step_def events_bounded_def events_from_def)
qed

subsection \<open>A batch of cycles\<close>

text \<open>
  The states of a batch in which events are about to be serviced: the first, and those after each
  slice that has not completed the batch.
\<close>

inductive service_point ::
  "'a host card_code \<Rightarrow> u32 \<Rightarrow> 'a host \<Rightarrow> 'a host \<Rightarrow> bool" for cc cycles m where
  first: "service_point cc cycles m m"
| after_slice: "service_point cc cycles m m1 \<Longrightarrow> run_slice cc cycles m1 = Some (e, m2) \<Longrightarrow>
    e < cycles \<Longrightarrow> service_point cc cycles m m2"

inductive_cases service_point_elim: "service_point cc cycles m m'"

definition in_batch :: "u32 \<Rightarrow> u64 \<Rightarrow> 'a peripherals_scheme \<Rightarrow> bool" where
  "in_batch cycles origin m \<longleftrightarrow> young m \<and> on_time m \<and> \<not> in_slice m \<and> 0 < clks_per_frame m \<and> cycle_origin m = origin \<and>
     cycles_executed m < cycles"

context slot_cards
begin

lemma run_slice_in_batch:
  assumes "in_batch cycles origin m" "unat cycles + 24 < 2 ^ 32"
  shows "\<exists>e m'. run_slice cc cycles m = Some (e, m') \<and> cycles_executed m' = e \<and>
    unat (cycles_executed m) + 2 \<le> unat e \<and> unat e < unat cycles + 24 \<and>
    young m' \<and> on_time m' \<and> \<not> in_slice m' \<and> 0 < clks_per_frame m' \<and> cycle_origin m' = origin \<and>
    (sp_in_page_one (service_now cc m) \<longrightarrow> sp_in_page_one m')"
proof -
  let ?m = "service_now cc m"
  have y: "young m" and b: "events_bounded m" and l: "unat (cycles_executed m) < unat cycles"
    using assms(1) by (auto simp: in_batch_def on_time_def word_less_nat_alt)
  note s = service_now_result [OF y b]
  have small: "unat (cycles_executed ?m) + 24 < 2 ^ 32" using l assms(2) s(4) by simp
  obtain e m' where r: "cpu_execute_slice (machine_bus cc) cycles (next_event_cycle ?m) ?m = Some (e, m')"
    "cycles_executed m' = e" "unat (cycles_executed ?m) + 2 \<le> unat e"
    "unat e \<le> max (unat (cycles_executed ?m)) (unat cycles - 1) + 24"
    "cycle_origin m' = cycle_origin ?m" "\<not> in_slice m'"
    "sp_in_page_one ?m \<longrightarrow> sp_in_page_one m'"
    using board.bus.cpu_execute_slice_run [OF small assms(2), of "next_event_cycle ?m"]
    by (auto simp: machine_bus_def)
  have "on_time m' \<and> young m' \<and> 0 < clks_per_frame m'"
    by (rule slice_on_time [OF r(1) s(6) s(1)])
      (use s small assms in \<open>simp_all add: word_le_nat_alt in_batch_def\<close>)
  moreover have "cycle_origin ?m = origin"
    using s(3,4) assms(1) by (simp add: in_batch_def cycle_origin_def)
  ultimately show ?thesis
    using r l s(4) by (auto simp: run_slice_def peripheral_next_event_cycle_def)
qed

lemma service_points_in_batch:
  assumes "service_point cc cycles m m'" "in_batch cycles origin m" "unat cycles + 24 < 2 ^ 32"
  shows "in_batch cycles origin m'"
  using assms(1)
proof (induction rule: service_point.induct)
  case first
  show ?case by (rule assms(2))
next
  case (after_slice m1 e m2)
  then show ?case
    using run_slice_in_batch [OF after_slice.IH assms(3)] by (auto simp: in_batch_def)
qed

lemma run_slices_complete:
  assumes "in_batch cycles origin m" "unat cycles + 24 < 2 ^ 32"
  shows "\<exists>e m'. run_slices cc cycles m = Some (e, m') \<and> cycles_executed m' = e \<and>
    unat cycles \<le> unat e \<and> unat e < unat cycles + 24 \<and>
    young m' \<and> on_time m' \<and> \<not> in_slice m' \<and> 0 < clks_per_frame m' \<and> cycle_origin m' = origin"
  using assms(1)
proof (induction "unat cycles - unat (cycles_executed m)" arbitrary: m rule: less_induct)
  case less
  obtain e m' where r: "run_slice cc cycles m = Some (e, m')" "cycles_executed m' = e"
    "unat (cycles_executed m) + 2 \<le> unat e" "unat e < unat cycles + 24"
    "young m'" "on_time m'" "\<not> in_slice m'" "0 < clks_per_frame m'" "cycle_origin m' = origin"
    using run_slice_in_batch [OF less.prems assms(2)] by blast
  show ?case
  proof (cases "e < cycles")
    case True
    then have "in_batch cycles origin m'" using r by (simp add: in_batch_def)
    moreover have "unat cycles - unat (cycles_executed m') < unat cycles - unat (cycles_executed m)"
      using True r by (simp add: word_less_nat_alt)
    ultimately show ?thesis
      using less.hyps [of m'] r(1) True by (subst run_slices.simps) simp
  next
    case False
    with r show ?thesis by (subst run_slices.simps) (simp add: word_less_nat_alt)
  qed
qed

end

end
