(* ===== verification/Keyboard.thy ===== *)
theory Keyboard
  imports Card_Contract
begin

text \<open>
  The keyboard on the motherboard (\<open>src/apple2/peripherals/keyboard/Keyboard.cpp\<close>): the
  encoder's latch and strobe, the held keys, and the auto-repeat of the IIe and the REPT
  oscillator of the II, both timed by device events.

  \<open>held\<close> is the used part of the fixed array.  A command's bytes are the C structure in its
  little-endian layout.
\<close>

abbreviation (input) "key_strobe_bit \<equiv> (0x80 :: u8)"
abbreviation (input) "key_code_mask \<equiv> (0x7F :: u8)"
abbreviation (input) "held_key_capacity \<equiv> (16 :: nat)"
abbreviation (input) "repeat_delay_frames \<equiv> (32 :: u64)"
abbreviation (input) "repeat_phase_frames \<equiv> (16 :: u64)"
abbreviation (input) "repeat_period_frames \<equiv> (4 :: u64)"

record keyboard =
  current_latch :: u8
  strobe :: bool
  held :: "u32 list"
  rept_down :: bool
  next_strobe :: u64
  kb_machine :: peripheral_machine

record keyboards = peripherals +
  kbd :: "nat \<Rightarrow> keyboard"

type_synonym 'a kb_host = "'a keyboards_ext host"

definition update_kbd :: "nat \<Rightarrow> (keyboard \<Rightarrow> keyboard) \<Rightarrow> 'a keyboards_scheme \<Rightarrow> 'a keyboards_scheme" where
  "update_kbd i f m = m\<lparr>kbd := (kbd m)(i := f (kbd m i))\<rparr>"

definition new_keyboard :: "peripheral_machine \<Rightarrow> keyboard" where
  "new_keyboard machine =
     \<lparr>current_latch = 0, strobe = False, held = [], rept_down = False, next_strobe = 0,
      kb_machine = machine\<rparr>"

subsection \<open>Held keys\<close>

definition any_key_down :: "keyboard \<Rightarrow> bool" where
  "any_key_down k = (held k \<noteq> [])"

definition hold_key :: "u32 \<Rightarrow> keyboard \<Rightarrow> keyboard" where
  "hold_key host_key k =
     (if host_key \<in> set (held k) then k
      else
        let k = (if length (held k) = held_key_capacity then k\<lparr>held := tl (held k)\<rparr> else k)
        in k\<lparr>held := held k @ [host_key]\<rparr>)"

definition let_go_key :: "u32 \<Rightarrow> keyboard \<Rightarrow> keyboard" where
  "let_go_key host_key k = k\<lparr>held := remove1 host_key (held k)\<rparr>"

subsection \<open>Timing\<close>

definition frame_cycles :: "'a video_scheme \<Rightarrow> u64" where
  "frame_cycles m = (let cycles = host_get_frame_cycles m in if cycles \<noteq> 0 then ucast cycles else 17030)"

definition rept_period :: "nat \<Rightarrow> 'a keyboards_scheme \<Rightarrow> u64" where
  "rept_period i m =
     (let rate = (if kb_machine (kbd m i) = peripheral_machine_apple2 then 10 else 15);
          period = ucast (clock_hz m div rate)
      in if period \<noteq> 0 then period else 1)"

definition arm :: "nat \<Rightarrow> u64 \<Rightarrow> 'a keyboards_scheme \<Rightarrow> 'a keyboards_scheme" where
  "arm i at_cycle m =
     host_schedule_event (Some i) at_cycle (update_kbd i (next_strobe_update (\<lambda>_. at_cycle)) m)"

definition disarm :: "nat \<Rightarrow> 'a keyboards_scheme \<Rightarrow> 'a keyboards_scheme" where
  "disarm i m = host_schedule_event (Some i) 0 (update_kbd i (next_strobe_update (\<lambda>_. 0)) m)"

definition auto_repeat_cycle :: "u64 \<Rightarrow> u64 \<Rightarrow> u64" where
  "auto_repeat_cycle now frame =
     (let press_frame = now div frame;
          phase = (repeat_phase_frames - press_frame mod repeat_phase_frames) mod repeat_phase_frames
      in (press_frame + repeat_delay_frames + phase) * frame)"

definition arm_auto_repeat :: "nat \<Rightarrow> 'a keyboards_scheme \<Rightarrow> 'a keyboards_scheme" where
  "arm_auto_repeat i m = arm i (auto_repeat_cycle (host_get_cycles m) (frame_cycles m)) m"

definition arm_rept :: "nat \<Rightarrow> 'a keyboards_scheme \<Rightarrow> 'a keyboards_scheme" where
  "arm_rept i m = arm i (host_get_cycles m + rept_period i m) m"

definition catch_up :: "u64 \<Rightarrow> u64 \<Rightarrow> u64 \<Rightarrow> u64 option" where
  "catch_up now period n = while_option (\<lambda>n. n \<le> now) (\<lambda>n. n + period) (n + period)"

definition repeat_strobe :: "nat \<Rightarrow> u64 \<Rightarrow> u64 \<Rightarrow> 'a keyboards_scheme \<Rightarrow> 'a keyboards_scheme" where
  "repeat_strobe i now period m =
     (let m = update_kbd i (strobe_update (\<lambda>_. True)) m;
          n = the (catch_up now period (next_strobe (kbd m i)));
          m = update_kbd i (next_strobe_update (\<lambda>_. n)) m
      in host_schedule_event (Some i) n m)"

subsection \<open>Accesses\<close>

definition latched :: "bool \<Rightarrow> keyboard \<Rightarrow> u8" where
  "latched high k =
     (let d = current_latch k AND key_code_mask in if high then d OR key_strobe_bit else d)"

definition keyboard_io_read_data :: "nat \<Rightarrow> 'a keyboards_scheme \<Rightarrow> u8 \<times> 'a keyboards_scheme" where
  "keyboard_io_read_data i m = (latched (strobe (kbd m i)) (kbd m i), m)"

definition keyboard_io_strobe_apple2e :: "nat \<Rightarrow> 'a keyboards_scheme \<Rightarrow> u8 \<times> 'a keyboards_scheme" where
  "keyboard_io_strobe_apple2e i m =
     (let m = update_kbd i (strobe_update (\<lambda>_. False)) m
      in (latched (any_key_down (kbd m i)) (kbd m i), m))"

definition keyboard_io_strobe_apple2 ::
  "nat \<Rightarrow> u32 \<Rightarrow> 'a keyboards_scheme \<Rightarrow> u8 \<times> 'a keyboards_scheme" where
  "keyboard_io_strobe_apple2 i executed m =
     (let m = update_kbd i (strobe_update (\<lambda>_. False)) m in (mem_read_floating_bus executed m, m))"

abbreviation (input) "kb_read_data_fn \<equiv> (16 :: nat)"
abbreviation (input) "kb_strobe_2e_fn \<equiv> (17 :: nat)"
abbreviation (input) "kb_strobe_2_fn \<equiv> (18 :: nat)"

definition keyboard_io ::
  "nat \<Rightarrow> nat option \<Rightarrow> u16 \<Rightarrow> u16 \<Rightarrow> u8 \<Rightarrow> u8 \<Rightarrow> u32 \<Rightarrow> 'a kb_host \<Rightarrow> u8 option \<times> 'a kb_host" where
  "keyboard_io h inst pc addr w d t m =
     (case inst of None \<Rightarrow> (Some 0, m)
      | Some i \<Rightarrow>
          if h = kb_read_data_fn then apfst Some (keyboard_io_read_data i m)
          else if h = kb_strobe_2e_fn then apfst Some (keyboard_io_strobe_apple2e i m)
          else if h = kb_strobe_2_fn then apfst Some (keyboard_io_strobe_apple2 i t m)
          else (None, m))"

subsection \<open>Entry points\<close>

definition keyboard_abi_init :: "descriptor \<Rightarrow> int \<Rightarrow> 'a kb_host \<Rightarrow> nat option \<times> 'a kb_host" where
  "keyboard_abi_init api slot m =
     (let i = fresh_instance m;
          m = m\<lparr>fresh_instance := i + 1\<rparr>;
          machine = host_get_machine m;
          m = update_kbd i (\<lambda>_. new_keyboard machine) m;
          m = fold (\<lambda>a. host_register_direct_io (Some i) (word_of_nat a) (Some kb_read_data_fn) None)
                [0xC000..<0xC010] m;
          m = (if machine = peripheral_machine_apple2e
               then fold (\<lambda>a. host_register_direct_io (Some i) (word_of_nat a) None (Some kb_strobe_2e_fn))
                      [0xC011..<0xC020]
                      (host_register_direct_io (Some i) 0xC010 (Some kb_strobe_2e_fn) (Some kb_strobe_2e_fn) m)
               else fold (\<lambda>a. host_register_direct_io (Some i) (word_of_nat a) (Some kb_strobe_2_fn)
                                (Some kb_strobe_2_fn)) [0xC010..<0xC020] m)
      in (Some i, m))"

definition keyboard_abi_reset :: "nat option \<Rightarrow> 'a kb_host \<Rightarrow> 'a kb_host" where
  "keyboard_abi_reset inst m =
     (case inst of None \<Rightarrow> m
      | Some i \<Rightarrow> disarm i (update_kbd i (\<lambda>k. k\<lparr>current_latch := 0, strobe := False, held := [],
                                                  rept_down := False\<rparr>) m))"

definition keyboard_abi_think :: "nat option \<Rightarrow> u32 \<Rightarrow> 'a kb_host \<Rightarrow> 'a kb_host" where
  "keyboard_abi_think inst cycles m =
     (case inst of None \<Rightarrow> m
      | Some i \<Rightarrow>
          let k = kbd m i; now = host_get_cycles m in
          if next_strobe k = 0 then m
          else if now < next_strobe k then m
          else if kb_machine k = peripheral_machine_apple2e
          then if \<not> any_key_down k then disarm i m
               else repeat_strobe i now (repeat_period_frames * frame_cycles m) m
          else if \<not> rept_down k \<or> \<not> any_key_down k then disarm i m
          else repeat_strobe i now (rept_period i m) m)"

definition press_key :: "nat \<Rightarrow> u32 \<Rightarrow> u8 \<Rightarrow> 'a keyboards_scheme \<Rightarrow> 'a keyboards_scheme" where
  "press_key i host_key code m =
     (let machine = kb_machine (kbd m i);
          code = (if machine \<noteq> peripheral_machine_apple2e \<and> code \<ge> 0x61 \<and> code \<le> 0x7A
                  then code - 0x61 + 0x41 else code);
          m = update_kbd i (\<lambda>k. hold_key host_key (k\<lparr>current_latch := code, strobe := True\<rparr>)) m
      in if machine = peripheral_machine_apple2e then arm_auto_repeat i m
         else if rept_down (kbd m i) then arm_rept i m else m)"

definition release_key :: "nat \<Rightarrow> u32 \<Rightarrow> 'a keyboards_scheme \<Rightarrow> 'a keyboards_scheme" where
  "release_key i host_key m =
     (let m = update_kbd i (let_go_key host_key) m
      in if \<not> any_key_down (kbd m i) then disarm i m else m)"

definition set_rept :: "nat \<Rightarrow> bool \<Rightarrow> 'a keyboards_scheme \<Rightarrow> 'a keyboards_scheme" where
  "set_rept i down m =
     (let m = update_kbd i (rept_down_update (\<lambda>_. down)) m; k = kbd m i in
      if kb_machine k = peripheral_machine_apple2e then m
      else if \<not> down then disarm i m
      else if any_key_down k then arm_rept i m
      else if kb_machine k = peripheral_machine_apple2 then update_kbd i (strobe_update (\<lambda>_. True)) m
      else m)"

abbreviation (input) "subsystem_keyboard \<equiv> (0x00010000 :: u32)"

definition cmd_is_mine :: "u32 \<Rightarrow> u32 \<Rightarrow> bool" where
  "cmd_is_mine cid subsystem =
     (let owner = cid AND 0xFFFF0000 in owner = subsystem \<or> owner = 0)"

definition keyboard_abi_command ::
  "nat option \<Rightarrow> u32 \<Rightarrow> u8 list \<Rightarrow> 'a kb_host \<Rightarrow> peripheral_status \<times> 'a kb_host" where
  "keyboard_abi_command inst cid data m =
     (case inst of None \<Rightarrow> (peripheral_error, m)
      | Some i \<Rightarrow>
          if \<not> cmd_is_mine cid subsystem_keyboard then (peripheral_incompatible, m)
          else if cid = subsystem_keyboard OR 0x0009
          then if length data \<noteq> 12 then (peripheral_error, m)
               else if data ! 4 > key_code_mask then (peripheral_error, m)
               else (peripheral_ok,
                     let host_key = read_u32_le (\<lambda>j. data ! j) 0
                     in if data ! 5 = 0 then release_key i host_key m
                        else press_key i host_key (data ! 4) m)
          else if cid = subsystem_keyboard OR 0x000A
          then if data \<noteq> [] then (peripheral_error, m)
               else (peripheral_ok, disarm i (update_kbd i (held_update (\<lambda>_. [])) m))
          else if cid = subsystem_keyboard OR 0x000B
          then if length data \<noteq> 1 then (peripheral_error, m)
               else (peripheral_ok, set_rept i (data ! 0 \<noteq> 0) m)
          else (peripheral_incompatible, m))"

record keyboard_save_state =
  ks_version :: u32
  ks_struct_size :: u32
  ks_repeat_key :: u32
  ks_current_latch :: u8
  ks_strobe :: u8
  ks_caps_lock :: u8
  ks_auto_repeat_enabled :: u8

definition keyboard_abi_save_state :: "nat \<Rightarrow> 'a keyboards_scheme \<Rightarrow> keyboard_save_state" where
  "keyboard_abi_save_state i m =
     \<lparr>ks_version = 1, ks_struct_size = 552, ks_repeat_key = 0xFFFFFFFF,
      ks_current_latch = current_latch (kbd m i), ks_strobe = (if strobe (kbd m i) then 1 else 0),
      ks_caps_lock = 1, ks_auto_repeat_enabled = 1\<rparr>"

definition keyboard_abi_load_state ::
  "nat option \<Rightarrow> keyboard_save_state option \<Rightarrow> 'a keyboards_scheme \<Rightarrow> peripheral_status \<times> 'a keyboards_scheme" where
  "keyboard_abi_load_state inst buffer m =
     (case (inst, buffer) of
        (Some i, Some ss) \<Rightarrow>
          if ks_version ss \<noteq> 1 \<or> ks_struct_size ss \<noteq> 552 then (peripheral_error, m)
          else (peripheral_ok, disarm i (update_kbd i (\<lambda>k. k\<lparr>current_latch := ks_current_latch ss AND key_code_mask,
                  strobe := (ks_strobe ss \<noteq> 0), held := [], rept_down := False\<rparr>) m))
      | _ \<Rightarrow> (peripheral_error, m))"

definition keyboard_peripheral :: descriptor where
  "keyboard_peripheral =
     \<lparr>api_id = ''linapple.keyboard'', api_name = ''Keyboard'', abi_version = 1,
      compatible_slots = 0x01, default_slot = 0\<rparr>"

text \<open>
  The descriptor's table of entry points.  The save-state buffers above are the frame's fields,
  so the two byte-level entries are left out of the table.
\<close>

definition keyboard_code :: "'a kb_host card_code" where
  "keyboard_code =
     \<lparr>card_init = keyboard_abi_init, card_reset = (\<lambda>_. Some keyboard_abi_reset),
      card_shutdown = (\<lambda>_. Some (\<lambda>_ m. m)), card_think = (\<lambda>_. Some keyboard_abi_think),
      card_on_vblank = (\<lambda>_. None),
      card_command = (\<lambda>_. Some (\<lambda>inst cid data m. snd (keyboard_abi_command inst cid data m))),
      card_query = (\<lambda>_. Some (\<lambda>_ _ _. (peripheral_incompatible, []))),
      card_save_state = (\<lambda>_. None), card_load_state = (\<lambda>_. None),
      card_io = keyboard_io, card_strobe = (\<lambda>_ _ m. m)\<rparr>"

end
