(* ===== verification/Keyboard_Props.thy ===== *)
theory Keyboard_Props
  imports Keyboard
begin

text \<open>
  The keyboard meets the cards' contract, and what its registers and its auto-repeat do.
\<close>

subsection \<open>Catching up\<close>

lemma catch_up_steps:
  fixes now period n :: u64
  assumes "0 < period" "unat now + unat period < 2 ^ 64" "unat n \<le> unat now + unat period"
  shows "\<exists>n' k. while_option (\<lambda>n. n \<le> now) (\<lambda>n. n + period) n = Some n' \<and> now < n' \<and>
    unat n' = unat n + k * unat period \<and> unat n' \<le> unat now + unat period"
  using assms(3)
proof (induction "unat now + unat period - unat n" arbitrary: n rule: less_induct)
  case less
  show ?case
  proof (cases "n \<le> now")
    case True
    have p: "0 < unat period" using assms(1) by (simp add: word_less_nat_alt)
    have le: "unat n \<le> unat now" using True by (simp add: word_le_nat_alt)
    then have s: "unat (n + period) = unat n + unat period"
      using assms(2) by (intro unat_add_64) simp
    have "\<exists>n' k. while_option (\<lambda>n. n \<le> now) (\<lambda>n. n + period) (n + period) = Some n' \<and> now < n' \<and>
      unat n' = unat (n + period) + k * unat period \<and> unat n' \<le> unat now + unat period"
      by (rule less.hyps) (use s le p in simp_all)
    then obtain n' k where "while_option (\<lambda>n. n \<le> now) (\<lambda>n. n + period) (n + period) = Some n'"
      "now < n'" "unat n' = unat (n + period) + k * unat period" "unat n' \<le> unat now + unat period"
      by blast
    with True s show ?thesis
      by (intro exI [of _ n'] exI [of _ "Suc k"], subst while_option_unfold) simp
  next
    case False
    with less.prems show ?thesis
      by (intro exI [of _ n] exI [of _ 0], subst while_option_unfold) simp
  qed
qed

lemma catch_up_result:
  assumes "0 < period" "unat now + unat period < 2 ^ 64" "n \<le> now"
  shows "\<exists>n' k. catch_up now period n = Some n' \<and> now < n' \<and>
    unat n' = unat n + Suc k * unat period \<and> unat n' \<le> unat now + unat period"
proof -
  have le: "unat n \<le> unat now" using assms(3) by (simp add: word_le_nat_alt)
  then have s: "unat (n + period) = unat n + unat period"
    using assms(2) by (intro unat_add_64) simp
  from catch_up_steps [OF assms(1,2), of "n + period"] le s show ?thesis
    by (fastforce simp: catch_up_def)
qed

subsection \<open>The contract\<close>

lemma update_kbd_step [simp]: "card_step m (update_kbd i f m)"
  by (rule card_step_same) (simp_all add: update_kbd_def)

lemma update_kbd_clock [simp]:
  "cumulative_cycles (update_kbd i f m) = cumulative_cycles m"
  "clock_hz (update_kbd i f m) = clock_hz m" "frame_cycles (update_kbd i f m) = frame_cycles m"
  "kbd (update_kbd i f m) i = f (kbd m i)" "young (update_kbd i f m) = young m"
  by (simp_all add: update_kbd_def frame_cycles_def host_get_frame_cycles_def young_def cycle_origin_def)

lemma arm_step:
  "(young m \<Longrightarrow> at_cycle = 0 \<or> cumulative_cycles m \<le> at_cycle) \<Longrightarrow> card_step m (arm i at_cycle m)"
  unfolding arm_def by (rule card_step_trans [OF update_kbd_step schedule_step]) simp

lemma disarm_step [simp]: "card_step m (disarm i m)"
  unfolding disarm_def by (rule card_step_trans [OF update_kbd_step schedule_step]) simp

lemma unat_ucast_64 [simp]: "unat (ucast (w :: u32) :: u64) = unat w"
  by (simp add: unsigned_ucast_eq take_bit_nat_eq_self_iff order_less_trans [OF unsigned_less])

lemma unat_u32: "unat (w :: u32) < 2 ^ 32"
  by (rule order_less_le_trans [OF unsigned_less]) simp

lemma ucast_64_eq_0 [simp]: "ucast (w :: u32) = (0 :: u64) \<longleftrightarrow> w = 0"
  using unat_ucast_64 [of w] by (metis unat_eq_zero)

lemma frame_cycles_range: "0 < unat (frame_cycles m)" "unat (frame_cycles m) < 2 ^ 32"
  using unat_u32 [of "clks_per_frame m"]
  by (auto simp: frame_cycles_def host_get_frame_cycles_def Let_def unat_gt_0)

lemma rept_period_range: "0 < unat (rept_period i m)" "unat (rept_period i m) < 2 ^ 32"
proof -
  have "unat (ucast (clock_hz m div r) :: u64) < 2 ^ 32" for r
    using unat_u32 [of "clock_hz m div r"] by simp
  then show "unat (rept_period i m) < 2 ^ 32" "0 < unat (rept_period i m)"
    by (auto simp: rept_period_def Let_def unat_gt_0)
qed

lemma unat_mult_64: "unat a * unat b < 2 ^ 64 \<Longrightarrow> unat (a * b :: u64) = unat a * unat b"
  by (simp add: unat_mult_lem [THEN iffD1])

lemma phase_16:
  fixes p :: nat
  shows "16 dvd p + 32 + (16 - p mod 16) mod 16"
proof -
  define q r where "q = p div 16" and "r = p mod 16"
  have p: "p = 16 * q + r" and r: "r < 16" by (simp_all add: q_def r_def)
  show ?thesis
  proof (cases "r = 0")
    case True
    then show ?thesis by (simp add: p)
  next
    case False
    have "p mod 16 = r" by (simp add: r_def)
    moreover from False r have "(16 - r) mod 16 = 16 - r" by simp
    moreover have "16 * q + r + 32 + (16 - r) = 16 * (q + 3)" using r by simp
    ultimately show ?thesis by (simp only: p) simp
  qed
qed

lemma auto_repeat_bounds:
  assumes "0 < unat f" "unat f < 2 ^ 32" "unat now < 2 ^ 63"
  shows "\<exists>frame. unat (auto_repeat_cycle now f) = frame * unat f \<and> 16 dvd frame \<and>
    unat now div unat f + 32 \<le> frame \<and> frame < unat now div unat f + 48"
proof -
  define p where "p = unat now div unat f"
  define ph where "ph = (16 - p mod 16) mod 16"
  have p: "unat (now div f) = p" "p \<le> unat now" by (simp_all add: p_def unat_div_distrib)
  have m: "unat ((now div f) mod 16) = p mod 16" by (simp add: unat_mod_distrib p)
  have "p mod 16 < 16" by simp
  then have "(now div f) mod 16 \<le> 16" using m by (simp add: word_le_nat_alt)
  then have s: "unat (16 - (now div f) mod 16) = 16 - p mod 16" by (simp add: unat_sub m)
  have phase: "unat ((16 - (now div f) mod 16) mod 16) = ph"
    by (simp add: unat_mod_distrib s ph_def)
  have ph: "ph < 16" by (simp add: ph_def)
  have sum1: "unat (now div f + 32) = p + 32"
    using p assms(3) by (subst unat_add_64) simp_all
  have sum: "unat (now div f + 32 + (16 - (now div f) mod 16) mod 16) = p + 32 + ph"
    using p assms(3) ph by (subst unat_add_64) (simp_all add: sum1 phase)
  have "p * unat f \<le> unat now" by (simp add: p_def)
  moreover have "(32 + ph) * unat f \<le> 48 * 2 ^ 32" using ph assms(2) by (intro mult_mono) auto
  ultimately have "(p + 32 + ph) * unat f < 2 ^ 64"
    using assms(3) by (simp add: algebra_simps)
  then have "unat (auto_repeat_cycle now f) = (p + 32 + ph) * unat f"
    unfolding auto_repeat_cycle_def Let_def by (subst unat_mult_64) (simp_all only: sum)
  then show ?thesis
    using ph phase_16 [of p] by (intro exI [of _ "p + 32 + ph"]) (simp add: p_def ph_def)
qed

lemma young_cycles: "young m \<Longrightarrow> unat (cumulative_cycles m) < 2 ^ 63"
  using unat_clock [of m] unat_u32 [of "cycles_executed m"] by (simp add: young_def)

lemma arm_auto_repeat_step [simp]: "card_step m (arm_auto_repeat i m)"
  unfolding arm_auto_repeat_def
proof (rule arm_step)
  assume "young m"
  let ?f = "frame_cycles m" and ?now = "cumulative_cycles m"
  obtain frame where f: "unat (auto_repeat_cycle ?now ?f) = frame * unat ?f"
    "unat ?now div unat ?f + 32 \<le> frame"
    using auto_repeat_bounds [OF frame_cycles_range young_cycles [OF \<open>young m\<close>], of m] by blast
  have "unat ?now < (unat ?now div unat ?f + 1) * unat ?f"
    using frame_cycles_range(1) [of m] by (metis Suc_eq_plus1 dividend_less_times_div mult.commute mult_Suc)
  also have "\<dots> \<le> frame * unat ?f" using f(2) by (intro mult_right_mono) auto
  finally show "auto_repeat_cycle (host_get_cycles m) ?f = 0 \<or>
      ?now \<le> auto_repeat_cycle (host_get_cycles m) ?f"
    using f(1) by (simp add: host_get_cycles_def word_le_nat_alt)
qed

lemma arm_rept_step [simp]: "card_step m (arm_rept i m)"
  unfolding arm_rept_def
proof (rule arm_step)
  assume "young m"
  have "unat (cumulative_cycles m + rept_period i m) = unat (cumulative_cycles m) + unat (rept_period i m)"
    using young_cycles [OF \<open>young m\<close>] rept_period_range [of i m] by (intro unat_add_64) simp
  then show "host_get_cycles m + rept_period i m = 0 \<or>
      cumulative_cycles m \<le> host_get_cycles m + rept_period i m"
    by (simp add: host_get_cycles_def word_le_nat_alt)
qed

lemma repeat_strobe_step:
  assumes "next_strobe (kbd m i) \<le> cumulative_cycles m" "0 < unat period" "unat period < 2 ^ 62"
  shows "card_step m (repeat_strobe i (cumulative_cycles m) period m)"
proof -
  let ?now = "cumulative_cycles m"
  let ?k = "update_kbd i (strobe_update (\<lambda>_. True)) m"
  let ?n = "the (catch_up ?now period (next_strobe (kbd ?k i)))"
  let ?k' = "update_kbd i (next_strobe_update (\<lambda>_. ?n)) ?k"
  have "?now \<le> ?n" if "young m"
  proof -
    have "unat ?now + unat period < 2 ^ 64" using young_cycles [OF that] assms(3) by simp
    moreover have "0 < period" using assms(2) by (simp add: word_less_nat_alt)
    ultimately obtain n where "catch_up ?now period (next_strobe (kbd m i)) = Some n" "?now < n"
      using catch_up_result [of period ?now "next_strobe (kbd m i)"] assms(1) by blast
    then show ?thesis by simp
  qed
  then have "young ?k' \<Longrightarrow> ?n = 0 \<or> cumulative_cycles ?k' \<le> ?n" by simp
  then have "card_step ?k' (host_schedule_event (Some i) ?n ?k')" by (rule schedule_step)
  then have "card_step m (host_schedule_event (Some i) ?n ?k')"
    by (rule card_step_trans [OF update_kbd_step card_step_trans [OF update_kbd_step]])
  then show ?thesis unfolding repeat_strobe_def Let_def .
qed

lemma think_step: "card_step m (keyboard_abi_think inst n m)"
proof (cases inst)
  case (Some i)
  have "unat (repeat_period_frames * frame_cycles m) = 4 * unat (frame_cycles m)"
    using frame_cycles_range [of m] by (subst unat_mult_64) simp_all
  then have p: "0 < unat (repeat_period_frames * frame_cycles m)"
    "unat (repeat_period_frames * frame_cycles m) < 2 ^ 62"
    using frame_cycles_range [of m] by simp_all
  have "unat (rept_period i m) < 2 ^ 62" using rept_period_range [of i m] by simp
  with p rept_period_range(1) [of i m] show ?thesis
    using repeat_strobe_step [of m i] Some
    by (auto simp: keyboard_abi_think_def Let_def host_get_cycles_def not_less)
qed (simp add: keyboard_abi_think_def)

lemma press_key_step: "card_step m (press_key i k c m)"
  unfolding press_key_def Let_def
  by (auto intro: card_step_trans [OF update_kbd_step] arm_auto_repeat_step arm_rept_step)

lemma release_key_step: "card_step m (release_key i k m)"
  unfolding release_key_def Let_def by (auto intro: card_step_trans [OF update_kbd_step disarm_step])

lemma set_rept_step: "card_step m (set_rept i d m)"
  unfolding set_rept_def Let_def
  by (auto intro: card_step_trans [OF update_kbd_step] disarm_step arm_rept_step update_kbd_step)

lemma command_step: "card_step m (snd (keyboard_abi_command inst cid data m))"
proof (cases inst)
  case (Some i)
  have "card_step m (disarm i (update_kbd i (held_update (\<lambda>_. [])) m))"
    by (rule card_step_trans [OF update_kbd_step disarm_step])
  then show ?thesis
    by (simp add: keyboard_abi_command_def Some Let_def press_key_step release_key_step set_rept_step)
qed (simp add: keyboard_abi_command_def)

lemma keyboard_io_step: "card_step m (snd (keyboard_io h inst pc a w d t m))"
  by (simp add: keyboard_io_def keyboard_io_read_data_def keyboard_io_strobe_apple2e_def
      keyboard_io_strobe_apple2_def Let_def split: option.split)

interpretation kb: slot_cards "keyboard_code :: 'a kb_host card_code"
  by unfold_locales
    (auto simp: keyboard_code_def think_step command_step keyboard_io_step)

end
