(* ===== verification/Memory_Props.thy ===== *)
theory Memory_Props
  imports Memory_Bus Cpu_Props
begin

text \<open>
  The properties of the memory unit: the traffic of the processor refines the memory map, the
  board is a lawful bus for the processor, reset shows the banks, snapshots and expansion ROM.
\<close>

interpretation bare: motherboard "\<lambda>_. io_null :: 'a video_ext memory_ext io_fun"
  by unfold_locales (simp add: bus_rel_view quiet_handlers)

subsection \<open>Bus traffic\<close>

datatype bus_event = Load u16 | Store u16 u8 | Push u8 | Pull

fun run_event :: "'a io_fun \<Rightarrow> bus_event \<Rightarrow> 'a cpu \<Rightarrow> 'a cpu" where
  "run_event io (Load a) c = snd (read_byte io a c)"
| "run_event io (Store a v) c = write_byte io a v c"
| "run_event io (Push v) c = push v c"
| "run_event io Pull c = snd (pop c)"

inductive map_event :: "bool \<Rightarrow> u16 \<Rightarrow> bus_event \<Rightarrow> map_state \<Rightarrow> map_state \<Rightarrow> bool" for apple2 sp where
  load: "\<not> is_io_addr a \<Longrightarrow> map_event apple2 sp (Load a) st st"
| load_io: "is_io_addr a \<Longrightarrow> io_step apple2 a st st' \<Longrightarrow> map_event apple2 sp (Load a) st st'"
| store: "\<not> is_io_addr a \<Longrightarrow> map_event apple2 sp (Store a v) st (map_write a v st)"
| store_io: "is_io_addr a \<Longrightarrow> io_step apple2 a st st' \<Longrightarrow> map_event apple2 sp (Store a v) st st'"
| push: "map_event apple2 sp (Push v) st (map_write sp v st)"
| pull: "map_event apple2 sp Pull st st"

inductive_cases map_event_elims: "map_event apple2 sp (Load a) st st'"
  "map_event apple2 sp (Store a v) st st'" "map_event apple2 sp (Push v) st st'"
  "map_event apple2 sp Pull st st'"

inductive explained :: "'a io_fun \<Rightarrow> 'a cpu \<Rightarrow> map_state \<Rightarrow> bus_event list \<Rightarrow> map_state \<Rightarrow> bool" for io where
  silent: "explained io c st [] st"
| event: "map_event (is_apple2 (mach c)) (SP c) e st st1 \<Longrightarrow>
    explained io (run_event io e c) st1 es st2 \<Longrightarrow> explained io c st (e # es) st2"

lemma models_dirty:
  "models m st \<Longrightarrow> models (m\<lparr>memdirty := (memdirty m)(p := 0xFF)\<rparr>) st"
  using holds_more_dirty by (auto simp: models_def represents_def cong: tables_for_cong)

lemma memwrite_io:
  assumes "models m st" "is_io_addr a"
  shows "memwrite m (page_of a) = None"
proof -
  have "page_of a \<in> slot_pages"
    using assms(2) ram_page [of a] by (auto simp: ram_pages_def)
  then show ?thesis
    using assms(1) tables_write [of "shown st" m a]
    by (auto simp: models_def represents_def write_page_def slot_pages_def)
qed

context motherboard
begin

lemma event_ok: "ctx_ok c \<Longrightarrow> ctx_ok (run_event (io_map_dispatch cards) e c)"
proof (cases e)
  assume "ctx_ok c"
  moreover case (Load a)
  ultimately show ?thesis
    using bus.ctx_rel_read [of c c a] by (simp add: ctx_rel_def)
next
  assume "ctx_ok c"
  moreover case (Store a v)
  ultimately show ?thesis
    using bus.ctx_rel_write [of c c a v] by (simp add: ctx_rel_def)
next
  assume "ctx_ok c"
  moreover case (Push v)
  ultimately show ?thesis
    using ctx_rel_push [of "io_map_dispatch cards" c c v] by (simp add: ctx_rel_def)
next
  assume "ctx_ok c"
  moreover case Pull
  ultimately show ?thesis
    using ctx_rel_pop [of "io_map_dispatch cards" c c] by (simp add: ctx_rel_def)
qed

lemma event_explained:
  assumes "\<And>n. map_lawful (cards n)" "models (mach c) st" "ctx_ok c"
  shows "\<exists>st'. map_event (is_apple2 (mach c)) (SP c) e st st' \<and>
           models (mach (run_event (io_map_dispatch cards) e c)) st'"
proof (cases e)
  case (Load a)
  show ?thesis
  proof (cases "is_io_addr a")
    case True
    obtain st' where "io_step (is_apple2 (mach c)) a st st'"
      "models (snd (io_map_dispatch cards (PC c) a 0 0 (executed_cycles c) (mach c))) st'"
      using models_dispatch [of cards, OF assms(1,2)] by blast
    with True Load show ?thesis by (auto simp: read_byte_def case_prod_beta intro: load_io)
  next
    case False
    with Load assms(2) show ?thesis by (auto simp: read_byte_def intro: load)
  qed
next
  case (Store a v)
  show ?thesis
  proof (cases "is_io_addr a")
    case True
    let ?d = "(mach c)\<lparr>memdirty := (memdirty (mach c))(page_of a := 0xFF)\<rparr>"
    have "models ?d st" by (rule models_dirty [OF assms(2)])
    from models_dispatch [of cards, OF assms(1) this] obtain st' where "io_step (is_apple2 ?d) a st st'"
      "models (snd (io_map_dispatch cards (PC c) a 1 v (executed_cycles c) ?d)) st'" by blast
    with True Store memwrite_io [OF assms(2) True] show ?thesis
      by (auto simp: write_byte_def case_prod_beta is_apple2_def intro: store_io)
  next
    case False
    with models_write_byte [OF assms(2) False] Store show ?thesis by (auto intro: store)
  qed
next
  case (Push v)
  with models_push [OF assms(2)] assms(3) show ?thesis by (auto simp: ctx_ok_def intro: push)
next
  case Pull
  with assms(2) show ?thesis by (auto simp: pop_def Let_def intro: pull)
qed

lemma traffic_explained:
  assumes "\<And>n. map_lawful (cards n)" "models (mach c) st" "ctx_ok c"
  shows "\<exists>st'. explained (io_map_dispatch cards) c st es st' \<and>
           models (mach (fold (run_event (io_map_dispatch cards)) es c)) st'"
  using assms(2,3)
proof (induction es arbitrary: c st)
  case Nil
  then show ?case by (auto intro: silent)
next
  case (Cons e es)
  obtain st1 where e: "map_event (is_apple2 (mach c)) (SP c) e st st1"
    and m: "models (mach (run_event (io_map_dispatch cards) e c)) st1"
    using event_explained [OF assms(1) Cons.prems] by blast
  from Cons.IH [OF m event_ok [OF Cons.prems(2)]] e show ?case by (auto intro: event)
qed

end

subsection \<open>Reset\<close>

abbreviation (input) "INITIAL_MODE \<equiv> (MF_HRAM_BANK2 OR MF_SLOTCXROM OR MF_HRAM_WRITE)"

definition initial_map :: "contents \<Rightarrow> map_state" where
  "initial_map c = \<lparr>shown = INITIAL_MODE, wanted = INITIAL_MODE, banks = c\<rparr>"

lemma reset_paging_models: "models (reset_paging True m) (initial_map (heap m))"
  using initialize_represents [of "m\<lparr>last_write_ram := False, mem_mode := INITIAL_MODE\<rparr>"]
  by (simp add: reset_paging_def models_def initial_map_def mem_update_paging_eq memwrite_initial_def)

lemma cpu_initialize_regs:
  "\<exists>r. cpu_initialize m = m\<lparr>regs := r, bm_irq := 0, bm_nmi := 0, nmi_flank := False\<rparr> \<and>
       reg_pc r = (if mem_null m then 0 else rd16 m RESET_VECTOR_ADDR) \<and> reg_sp r = 0x01FC \<and>
       reg_ps r = 0xF7 \<and> \<not> is_jammed r"
  by (rule exI [of _ "regs (cpu_initialize m)"])
    (simp add: cpu_initialize_def cpu_reset_def cpu_irq_reset_def cpu_nmi_reset_def Let_def)

lemma models_interrupts [simp]:
  "models (m\<lparr>regs := r, bm_irq := i, bm_nmi := n, nmi_flank := f\<rparr>) st = models m st"
  by (simp add: models_def represents_def holds_def page_is_def clean_def tables_for_def)

lemma mem_null_update [simp]:
  "mem_null (mem_update_paging True False m) = mem_null m"
proof -
  have "mem_null (swap_page ini old p m) = mem_null m" for ini old p and m :: "'a memory_scheme"
    by (simp add: swap_page_def mem_copy_def Let_def split: option.split)
  then have "mem_null (fold (swap_page ini old) ps m) = mem_null m" for ini old ps and m :: "'a memory_scheme"
    by (induction ps arbitrary: m) simp_all
  then show ?thesis by (simp add: mem_update_paging_eq) (simp add: memwrite_initial_def)
qed

lemma heap_mem_put:
  "heap (mem_put d f n m) r j =
     (if r = fst d \<and> snd d \<le> j \<and> j < snd d + n then f (j - snd d) else heap m r j)"
  by (simp add: mem_put_def)

lemma mem_put_frame [simp]:
  "mem_null (mem_put d f n m) = mem_null m"
  by (simp add: mem_put_def)

lemma choose_rom_destroy: "choose_rom custom embedded (mem_destroy m) = choose_rom custom embedded m"
proof -
  have "current_apple2_type (mem_destroy m) = current_apple2_type m" by (simp add: mem_destroy_def)
  then show ?thesis by (simp only: choose_rom_def)
qed

lemma vector_visible:
  assumes "models m st" "shown st = INITIAL_MODE" "0xFF00 \<le> i" "i < 0x10000"
  shows "rd m i = banks st MemRom (i - 0xD000)"
proof -
  have "(0xFF :: nat) \<in> ram_pages" by (simp add: ram_pages_def slot_pages_def)
  then have "page_is m (mem_page 0xFF) (banks st) (visible_page (shown st) 0xFF)"
    using assms(1) by (simp add: models_def represents_def holds_image)
  moreover obtain k where k: "i = 0xFF00 + k" "k < 256"
    using assms(3,4) by (metis add_less_cancel_left le_Suc_ex numeral_plus_numeral add_num_simps)
  moreover have "visible_page (shown st) 0xFF = (MemRom, 0x2F00)"
    using assms(2) by (simp add: visible_page_def has_def)
  ultimately show ?thesis by (simp add: page_is_def)
qed

lemma mem_reset_models:
  fixes m :: "'a memory_scheme" and striped :: bool
  assumes "\<not> mem_null m"
  defines "c \<equiv> (heap m)(MemAux := (\<lambda>i. if i < 0x10000 then 0 else heap m MemAux i),
      MemMain := (\<lambda>i. if i < 0x10000 then reset_pattern striped i else heap m MemMain i))"
  shows "models (mem_reset striped m) (initial_map c) \<and>
    reg_pc (regs (mem_reset striped m)) = read_u16_le (heap m MemRom) 0x2FFC \<and>
    reg_sp (regs (mem_reset striped m)) = 0x01FC"
proof -
  define n where "n = mem_put (MemMain, 0) (reset_pattern striped) 0x10000 (mem_fill (MemAux, 0) 0 0x10000
    (m\<lparr>memshadow := (\<lambda>page. if page < 256 then None else memshadow m page),
       memwrite := (\<lambda>page. if page < 256 then None else memwrite m page)\<rparr>))"
  have heap: "heap n = c" and null: "\<not> mem_null n"
    using assms(1) by (simp_all add: fun_eq_iff n_def c_def mem_fill_def heap_mem_put)
  have reset: "mem_reset striped m = cpu_initialize (reset_paging True n)"
    by (simp add: mem_reset_def n_def Let_def)
  have models: "models (reset_paging True n) (initial_map c)"
    using reset_paging_models [of n] by (simp add: heap)
  have null': "\<not> mem_null (reset_paging True n)" using null by (simp add: reset_paging_def)
  obtain r where r: "cpu_initialize (reset_paging True n) =
      (reset_paging True n)\<lparr>regs := r, bm_irq := 0, bm_nmi := 0, nmi_flank := False\<rparr>"
    "reg_pc r = rd16 (reset_paging True n) 0xFFFC" "reg_sp r = 0x01FC"
    using cpu_initialize_regs [of "reset_paging True n"] null' by auto
  have "rd (reset_paging True n) 0xFFFC = heap m MemRom 0x2FFC"
    "rd (reset_paging True n) 0xFFFD = heap m MemRom 0x2FFD"
    using vector_visible [OF models, of "0xFFFC"] vector_visible [OF models, of "0xFFFD"]
    by (simp_all add: initial_map_def c_def)
  then have "rd16 (reset_paging True n) 0xFFFC = read_u16_le (heap m MemRom) 0x2FFC"
    by (simp add: read_u16_le_def)
  with r models show ?thesis by (simp add: reset)
qed

definition blank_board :: "unit video_scheme" where
  "blank_board =
     \<lparr>regs = regs blank_machine, cumulative_cycles = 0, cycles_submitted = 0, cycles_executed = 0,
      cycles_limit = 0, in_slice = False, bm_irq = 0, bm_nmi = 0, nmi_flank = False,
      current_apple2_type = A2TYPE_APPLE2E, mem_null = True, heap = (\<lambda>_ _. 0),
      memdirty = (\<lambda>_. 0), memwrite = (\<lambda>_. None), memshadow = (\<lambda>_. None),
      io_read = (\<lambda>_. None), io_write = (\<lambda>_. None), slot_parameters = (\<lambda>_. None),
      last_write_ram = False, mem_mode = 0, mode_changing = False,
      expansion_rom_type = EXP_ROM_NULL, peripheral_rom_slot = 0, io_select = 0,
      io_select_internal_rom = 0, expansion_rom = (\<lambda>_. None), bm_slot_init = 0,
      switch_inputs_state = switch_inputs_reset_configuration True True,
      video_mode = VF_TEXT, alt_char_set_offset = 0, displaypage2 = False, graphicsmode = False,
      redrawfull = True, refresh_requests = 0, text_flash_state = False, text_flash_flag = False,
      text_flash_cnt = 0, video_cycles_in_frame = 0, clks_per_frame = 17030,
      video_scanner_ntsc = True\<rparr>"

text \<open>
  C5. Initialization.  When a ROM of 12K or 16K is found, \<open>mem_initialize\<close> succeeds and
  leaves a machine whose memory map is the initial one, with auxiliary memory cleared, main
  memory striped below the I/O page when asked for, the last 12K of the ROM behind the language
  card, and a processor that starts at the ROM's reset vector.  Without a ROM it fails with -1
  and leaves no buffer.
\<close>

theorem mem_initialize_ready:
  assumes "\<And>rom. choose_rom custom embedded m = Some rom \<Longrightarrow> length rom = 0x3000 \<or> length rom = 0x4000"
  shows "case choose_rom custom embedded m of
      None \<Rightarrow> fst (mem_initialize striped custom embedded m) = - 1 \<and>
              mem_null (snd (mem_initialize striped custom embedded m))
    | Some rom \<Rightarrow> \<exists>m' c. mem_initialize striped custom embedded m = (0, m') \<and>
        models m' (initial_map c) \<and> (\<forall>i < 0x10000. c MemAux i = 0) \<and>
        (\<forall>i < 0x10000. c MemMain i = reset_pattern striped i) \<and>
        (\<forall>i < 0x3000. c MemRom i = rom ! (length rom - 0x3000 + i)) \<and>
        reg_pc (regs m') = w16 (rom ! (length rom - 4)) OR push_bit 8 (w16 (rom ! (length rom - 3)))"
proof (cases "choose_rom custom embedded m")
  case None
  then show ?thesis by (simp add: mem_initialize_def choose_rom_destroy) (simp add: mem_destroy_def)
next
  case (Some rom)
  then have chosen: "choose_rom custom embedded (mem_destroy m) = Some rom"
    by (simp add: choose_rom_destroy)
  have len: "length rom = 0x3000 \<or> length rom = 0x4000" using assms [OF Some] .
  define offset where "offset = length rom - 0x3000"
  define b where "b = mem_fill (MemImage, 0) 0 0x10000 (mem_fill (MemRom, 0) 0 0x5000
    (mem_fill (CxRomPeripheral, 0) 0 0x1000 (mem_fill (CxRomInternal, 0) 0 0x1000
      ((mem_destroy m)\<lparr>mem_null := False, memdirty := (\<lambda>_. 0)\<rparr>))))"
  define x where "x = (if length rom = 0x4000 then mem_put (CxRomInternal, 0) (\<lambda>i. rom ! i) 0x1000 b else b)"
  define y where "y = register_io_handler 0 (Some mem_set_paging_fn) (Some mem_set_paging_fn)
    None None None None (mem_put (MemRom, 0) (\<lambda>i. drop offset rom ! i) 0x3000 x)"
  have init: "mem_initialize striped custom embedded m = (0, mem_reset striped y)"
    using len by (auto simp: mem_initialize_def chosen y_def x_def b_def offset_def Let_def simp del: nth_drop)
  have "heap y = heap (mem_put (MemRom, 0) (\<lambda>i. drop offset rom ! i) 0x3000 x)"
    by (simp add: y_def register_io_handler_def)
  then have rom: "heap y MemRom i = rom ! (offset + i)" if "i < 0x3000" for i
    using that len by (simp add: mem_put_def offset_def)
  have "\<not> mem_null x" by (simp add: x_def b_def mem_fill_def mem_put_def)
  then have "\<not> mem_null y" by (simp add: y_def register_io_handler_def mem_put_def)
  from mem_reset_models [OF this, where striped = striped] have reset:
    "models (mem_reset striped y) (initial_map ((heap y)
       (MemAux := (\<lambda>i. if i < 0x10000 then 0 else heap y MemAux i),
        MemMain := (\<lambda>i. if i < 0x10000 then reset_pattern striped i else heap y MemMain i))))"
    "reg_pc (regs (mem_reset striped y)) = read_u16_le (heap y MemRom) 0x2FFC" by simp_all
  have "offset + 0x2FFC = length rom - 4" "offset + 0x2FFD = length rom - 3"
    using len by (auto simp: offset_def)
  then have "read_u16_le (heap y MemRom) 0x2FFC =
      w16 (rom ! (length rom - 4)) OR push_bit 8 (w16 (rom ! (length rom - 3)))"
    by (simp add: read_u16_le_def rom)
  with reset init rom Some show ?thesis
    by (auto simp: offset_def intro!: exI)
qed

lemma mem_initialize_ready_witness:
  "\<exists>m' c. mem_initialize True (replicate 0x3000 0xEA) (\<lambda>_. None) blank_board = (0, m') \<and>
     models m' (initial_map c) \<and> c MemMain 1 = 0xFF \<and> c MemMain 2 = 0 \<and> reg_pc (regs m') = 0xEAEA"
proof -
  have rom: "choose_rom (replicate 0x3000 0xEA) (\<lambda>_. None) blank_board = Some (replicate 0x3000 0xEA)"
    by (simp add: choose_rom_def)
  have nth: "replicate 0x3000 (0xEA :: u8) ! 0x2FFC = 0xEA" "replicate 0x3000 (0xEA :: u8) ! 0x2FFD = 0xEA"
    by (simp_all only: nth_replicate)
  from mem_initialize_ready [of "replicate 0x3000 0xEA" "\<lambda>_. None" blank_board True] obtain m' c where
    "mem_initialize True (replicate 0x3000 0xEA) (\<lambda>_. None) blank_board = (0, m')"
    "models m' (initial_map c)" "\<forall>i < 0x10000. c MemMain i = reset_pattern True i"
    "reg_pc (regs m') = w16 (replicate 0x3000 0xEA ! 0x2FFC) OR push_bit 8 (w16 (replicate 0x3000 0xEA ! 0x2FFD))"
    unfolding rom by auto
  then show ?thesis by (simp only: nth) (auto simp: reset_pattern_def intro!: exI)
qed

subsection \<open>The processor on the board\<close>

text \<open>
  C3. The traffic of the processor refines the memory map.  From any state that represents a
  map, after any sequence of loads, stores, pushes and pulls of the processor through
  \<open>io_map_dispatch\<close>, the machine represents a map that the same sequence explains: stores
  reach the bank the map says and no other, an I/O access leaves the map alone or performs its
  soft switch, at once or deferred, and every load outside the I/O area reads what the map
  shows.
\<close>

theorem memory_traffic_refines_map:
  assumes "\<And>n. io_bus (cards n)" "\<And>n. map_lawful (cards n)" "models (mach c) st" "ctx_ok c"
  shows "\<exists>st'. explained (io_map_dispatch cards) c st es st' \<and>
    models (mach (fold (run_event (io_map_dispatch cards)) es c)) st' \<and>
    (\<forall>a. \<not> is_io_addr a \<longrightarrow>
       fst (read_byte (io_map_dispatch cards) a (fold (run_event (io_map_dispatch cards)) es c))
         = map_read st' a)"
proof -
  have board: "motherboard cards" using assms(1) by unfold_locales (simp add: io_bus.io_rel)
  from motherboard.traffic_explained [OF board assms(2-4), of es] obtain st' where
    "explained (io_map_dispatch cards) c st es st'"
    "models (mach (fold (run_event (io_map_dispatch cards)) es c)) st'" by blast
  with models_read [OF this(2)] show ?thesis by (auto simp: read_byte_def)
qed

definition board_cpu :: "unit video_scheme cpu_ctx" where
  "board_cpu = \<lparr>c_addr = 0, c_base = 0, extra_cycles = 0, flagc = 0, flagn = 0, flagv = 0,
     flagz = 0, executed_cycles = 0, mach = mem_reset True (blank_board\<lparr>mem_null := False\<rparr>)\<rparr>"

lemma board_cpu_models: "\<exists>c. models (mach board_cpu) (initial_map c) \<and> ctx_ok board_cpu"
  using mem_reset_models [of "blank_board\<lparr>mem_null := False\<rparr>" True]
  by (auto simp: board_cpu_def ctx_ok_def sp_in_page_one_def)

lemma memory_traffic_refines_map_witness:
  "\<exists>c st'. explained (io_map_dispatch (\<lambda>_. io_null)) board_cpu (initial_map c)
        [Store 0xC005 1, Store 0x2000 7, Push 3, Load 0xC054] st' \<and>
      models (mach (fold (run_event (io_map_dispatch (\<lambda>_. io_null)))
        [Store 0xC005 1, Store 0x2000 7, Push 3, Load 0xC054] board_cpu)) st'"
proof -
  obtain c where c: "models (mach board_cpu) (initial_map c)" "ctx_ok board_cpu"
    using board_cpu_models by blast
  have "io_bus (io_null :: unit video_ext memory_ext io_fun)" by (rule bare.cards_bus)
  moreover have "map_lawful (io_null :: unit video_ext memory_ext io_fun)"
    by (rule lawful_quiet) (rule quiet_handlers)
  ultimately show ?thesis
    using memory_traffic_refines_map [of "\<lambda>_. io_null", OF _ _ c] by blast
qed

text \<open>
  C4. The machine runs.  With the memory unit's dispatcher as its bus and cards that keep the
  contract, a frame of the processor always returns and its accounts balance, from any state
  of memory, page tables and soft switches.
\<close>

theorem machine_runs:
  assumes "\<And>n. io_bus (cards n)" "\<not> in_slice m" "unat frame + 24 < 2 ^ 32"
  shows "\<exists>e m'. cpu_execute (io_map_dispatch cards) frame m = Some (e, m') \<and>
    unat frame \<le> unat e \<and> unat e \<le> unat frame - 1 + 24 \<and>
    cumulative_cycles m' = cumulative_cycles m + ucast e \<and>
    (sp_in_page_one m \<longrightarrow> sp_in_page_one m')"
proof -
  have "motherboard cards" using assms(1) by unfold_locales (simp add: io_bus.io_rel)
  then have "io_bus (io_map_dispatch cards)"
    by (intro io_bus.intro motherboard.dispatch_bus)
  from io_bus.cpu_execute_run [OF this assms(2,3)] show ?thesis by blast
qed

lemma machine_runs_witness:
  "\<exists>e m'. cpu_execute (io_map_dispatch (\<lambda>_. io_null)) 17030 (blank_board\<lparr>mem_null := False\<rparr>) = Some (e, m') \<and>
     17030 \<le> unat e \<and> unat e \<le> 17053"
  using machine_runs [of "\<lambda>_. io_null" "blank_board\<lparr>mem_null := False\<rparr>" 17030] bare.cards_bus
  by (auto simp: blank_board_def)

subsection \<open>Snapshot\<close>

lemma page_word:
  assumes "i < 0x10000"
  shows "unat (of_nat (i div 256 * 256) :: u16) = i div 256 * 256"
    and "unat (drop_bit 8 (of_nat (i div 256 * 256) :: u16)) = i div 256"
    and "unat ((of_nat (i div 256 * 256) :: u16) AND 0xFF00) = i div 256 * 256"
proof -
  let ?w = "of_nat (i div 256 * 256) :: u16"
  have "take_bit 16 (i div 256 * 256) = i div 256 * 256"
    using assms by (intro take_bit_nat_eq_self) simp
  then show u: "unat ?w = i div 256 * 256" unfolding unsigned_of_nat by simp
  show d: "unat (drop_bit 8 ?w) = i div 256"
    using page_of_div [of ?w] unfolding page_of_def u by simp
  have "?w = push_bit 8 (of_nat (i div 256))" by (simp add: push_bit_eq_mult)
  then have "?w AND 0xFF00 = ?w"
    by (simp only:) (simp add: u16_eq_bits word_bits)
  then show "unat (?w AND 0xFF00) = i div 256 * 256" using u by (simp only:)
qed

lemma read_main:
  assumes "i < 0x10000"
  shows "read_page_wise mem_get_main_ptr m i =
    (if memshadow m (i div 256) = Some (MemMain, i div 256 * 256) then rd m i else heap m MemMain i)"
  using page_word [OF assms] by (simp add: read_page_wise_def mem_get_main_ptr_def)

lemma read_aux:
  assumes "i < 0x10000"
  shows "read_page_wise mem_get_aux_ptr m i =
    (if memshadow m (i div 256) = Some (MemAux, i div 256 * 256) then rd m i else heap m MemAux i)"
  using page_word [OF assms] by (simp add: read_page_wise_def mem_get_aux_ptr_def)

definition bank1_live :: "u32 \<Rightarrow> region \<Rightarrow> bool" where
  "bank1_live mode r \<longleftrightarrow> has mode MF_HIGHRAM \<and> \<not> has mode MF_HRAM_BANK2 \<and>
     r = (if has mode MF_ALTZP then MemAux else MemMain)"

lemma shown_elsewhere:
  assumes "visible_page mode q = (r, k * 256)" "q \<in> ram_pages" "r \<in> {MemMain, MemAux}" "q \<noteq> k"
  shows "bank1_live mode r \<and> k \<in> slot_pages"
  using assms
  by (auto simp: visible_page_def aux_or_main_def language_card_page_def bank1_live_def
      ram_pages_def slot_pages_def split: if_splits)

lemma snapshot_byte:
  assumes "models m st" "i < 0x10000" "r \<in> {MemMain, MemAux}"
    and "\<not> (bank1_live (shown st) r \<and> 0xC000 \<le> i \<and> i < 0xD000)"
  shows "(if memshadow m (i div 256) = Some (r, i div 256 * 256) then rd m i else heap m r i) = banks st r i"
proof -
  let ?k = "i div 256"
  have k: "?k < 256" "i = ?k * 256 + i mod 256" "i mod 256 < 256" using assms(2) by auto
  have h: "holds (visible_page (shown st)) m (banks st)" and t: "tables_for (shown st) m"
    using assms(1) by (simp_all add: models_def represents_def)
  have shadow: "memshadow m ?k = Some (visible_page (shown st) ?k)" using t k(1) by (simp add: tables_for_def)
  show ?thesis
  proof (cases "visible_page (shown st) ?k = (r, ?k * 256)")
    case True
    have "?k \<in> ram_pages"
      using True assms(3) slot_page_visible [of ?k "shown st"] slot_or_ram [OF k(1)] by auto
    from holds_image [OF h this] True
    have "\<forall>j < 256. rd m (?k * 256 + j) = banks st r (?k * 256 + j)" by (simp add: page_is_def)
    from this [rule_format, OF k(3)] True show ?thesis by (simp add: shadow)
  next
    case False
    have "page_is m (r, ?k * 256) (banks st) (r, ?k * 256)"
    proof (rule holds_bank [OF h])
      show "bank_page (r, ?k * 256)" using assms(2,3) by (auto simp: bank_page_def)
      show "clean m q" if "q \<in> ram_pages" "visible_page (shown st) q = (r, ?k * 256)" for q
      proof -
        have "q \<noteq> ?k" using that False by auto
        from shown_elsewhere [OF that(2,1) assms(3) this] assms(4) show ?thesis
          by (auto simp: slot_pages_def)
      qed
    qed
    then have "\<forall>j < 256. heap m r (?k * 256 + j) = banks st r (?k * 256 + j)" by (simp add: page_is_def)
    from this [rule_format, OF k(3)] False show ?thesis by (simp add: shadow)
  qed
qed

lemma snapshot_stale:
  assumes "models m st" "bank1_live (shown st) r" "0xC000 \<le> i" "i < 0xD000"
  shows "memshadow m (i div 256) \<noteq> Some (r, i div 256 * 256)"
proof -
  have "i div 256 < 0xD0" "0xC0 \<le> i div 256" using assms(3,4) by auto
  then have k: "i div 256 < 256" "i div 256 \<in> slot_pages" by (simp_all add: slot_pages_def)
  then have "memshadow m (i div 256) = Some (visible_page (shown st) (i div 256))"
    using assms(1) by (simp add: models_def represents_def tables_for_def)
  with slot_page_visible [OF k(2), of "shown st"] assms(2) show ?thesis
    by (auto simp: bank1_live_def)
qed

lemma mem_set_snapshot_models:
  "models (mem_set_snapshot ss m) \<lparr>shown = ss_mem_mode ss, wanted = ss_mem_mode ss,
     banks = (heap m)
       (MemMain := (\<lambda>i. if i < 0x10000 then ss_mem_main ss i else heap m MemMain i),
        MemAux := (\<lambda>i. if i < 0x10000 then ss_mem_aux ss i else heap m MemAux i))\<rparr> \<and>
   last_write_ram (mem_set_snapshot ss m) = (ss_last_write_ram ss \<noteq> 0)"
proof -
  define n where "n = (mem_put (MemAux, 0) (ss_mem_aux ss) 0x10000 (mem_put (MemMain, 0) (ss_mem_main ss) 0x10000
    (m\<lparr>mem_mode := ss_mem_mode ss, last_write_ram := (ss_last_write_ram ss \<noteq> 0)\<rparr>)))\<lparr>mode_changing := False\<rparr>"
  have "heap n = (heap m)
       (MemMain := (\<lambda>i. if i < 0x10000 then ss_mem_main ss i else heap m MemMain i),
        MemAux := (\<lambda>i. if i < 0x10000 then ss_mem_aux ss i else heap m MemAux i))"
    by (simp add: fun_eq_iff n_def heap_mem_put)
  moreover have "mem_mode n = ss_mem_mode ss" "last_write_ram n = (ss_last_write_ram ss \<noteq> 0)"
    by (simp_all add: n_def mem_put_def)
  moreover have "last_write_ram (swap_page ini old p k) = last_write_ram k" for ini old p and k :: "'a memory_scheme"
    by (simp add: swap_page_def mem_copy_def Let_def split: option.split)
  then have "last_write_ram (fold (swap_page ini old) ps k) = last_write_ram k" for ini old ps and k :: "'a memory_scheme"
    by (induction ps arbitrary: k) simp_all
  moreover have "mem_set_snapshot ss m = mem_update_paging True False n"
    unfolding mem_set_snapshot_def n_def Let_def ..
  ultimately show ?thesis
    using initialize_represents [of n]
    by (simp add: models_def mem_update_paging_eq memwrite_initial_def)
qed

text \<open>
  C6. A snapshot of memory.  Taken of a machine that represents a memory map and restored into
  any other, it makes that machine represent a map with the same mode and the same contents of
  main and auxiliary memory, with one exception: while bank 1 of the language card is switched
  in, the 4K behind it are saved as they were when it was switched in (the bank's stale store),
  not as they are.
\<close>

theorem memory_snapshot_round_trip:
  assumes "models m st" "shown st = wanted st"
  shows "\<exists>c. models (mem_set_snapshot (mem_get_snapshot m) m2)
               \<lparr>shown = shown st, wanted = shown st, banks = c\<rparr> \<and>
    last_write_ram (mem_set_snapshot (mem_get_snapshot m) m2) = last_write_ram m \<and>
    (\<forall>r \<in> {MemMain, MemAux}. \<forall>i < 0x10000.
       c r i = (if bank1_live (shown st) r \<and> 0xC000 \<le> i \<and> i < 0xD000 then heap m r i else banks st r i))"
proof -
  define c where "c = (heap m2)
       (MemMain := (\<lambda>i. if i < 0x10000 then ss_mem_main (mem_get_snapshot m) i else heap m2 MemMain i),
        MemAux := (\<lambda>i. if i < 0x10000 then ss_mem_aux (mem_get_snapshot m) i else heap m2 MemAux i))"
  have mode: "ss_mem_mode (mem_get_snapshot m) = shown st"
    "(ss_last_write_ram (mem_get_snapshot m) \<noteq> 0) = last_write_ram m"
    using assms by (simp_all add: mem_get_snapshot_def models_def)
  have byte: "c r i = (if bank1_live (shown st) r \<and> 0xC000 \<le> i \<and> i < 0xD000 then heap m r i
      else banks st r i)" if "r \<in> {MemMain, MemAux}" "i < 0x10000" for r i
  proof -
    have "c r i = (if memshadow m (i div 256) = Some (r, i div 256 * 256) then rd m i else heap m r i)"
      using that by (auto simp: c_def mem_get_snapshot_def read_main read_aux)
    with snapshot_byte [OF assms(1) that(2,1)] snapshot_stale [OF assms(1), of r i] show ?thesis
      by auto
  qed
  show ?thesis
    using mem_set_snapshot_models [of "mem_get_snapshot m" m2] byte
    unfolding mode c_def [symmetric] by blast
qed

lemma memory_snapshot_round_trip_witness:
  "\<exists>c st. models (mem_set_snapshot (mem_get_snapshot (mach board_cpu)) blank_board)
     \<lparr>shown = shown st, wanted = shown st, banks = c\<rparr> \<and> models (mach board_cpu) st \<and>
     c MemMain 0x300 = banks st MemMain 0x300"
proof -
  obtain b where b: "models (mach board_cpu) (initial_map b)" using board_cpu_models by blast
  have "\<not> bank1_live (shown (initial_map b)) MemMain" and same: "shown (initial_map b) = wanted (initial_map b)"
    by (simp_all add: initial_map_def bank1_live_def has_def)
  moreover obtain c where c: "models (mem_set_snapshot (mem_get_snapshot (mach board_cpu)) blank_board)
      \<lparr>shown = shown (initial_map b), wanted = shown (initial_map b), banks = c\<rparr>"
    "\<forall>r \<in> {MemMain, MemAux}. \<forall>i < 0x10000. c r i = (if bank1_live (shown (initial_map b)) r \<and>
       0xC000 \<le> i \<and> i < 0xD000 then heap (mach board_cpu) r i else banks (initial_map b) r i)"
    using memory_snapshot_round_trip [OF b same, of blank_board] by blast
  ultimately have "c MemMain 0x300 = banks (initial_map b) MemMain 0x300" by auto
  with b c(1) show ?thesis by blast
qed

end
