(* ===== verification/Video_Props.thy ===== *)
theory Video_Props
  imports Memory_Props
begin

text \<open>
  The video circuits: the two blanking signals agree with the scan line, the scanner fetches
  the byte that is displayed, and the frame counter catches up.
\<close>

subsection \<open>Bits of the counters\<close>

lemma state_bit_div: "state_bit s k = s div 2 ^ k mod 2"
  by (simp add: state_bit_def drop_bit_eq_div and_one_eq)

lemma state_bit_cases: "state_bit s k = 0 \<or> state_bit s k = 1"
  unfolding state_bit_div by presburger

lemma bits_and: "a = 0 \<or> a = 1 \<Longrightarrow> b = 0 \<or> b = 1 \<Longrightarrow> ((a :: int) AND b \<noteq> 0) = (a = 1 \<and> b = 1)"
  by auto

lemma quarter_bound: "0 \<le> t \<Longrightarrow> t < 64 \<Longrightarrow> r \<le> 3 \<Longrightarrow> (r = 3) = (192 \<le> 64 * r + t)" for t r :: int
  by linarith

lemma high_bits: "(s div 128 mod 2 = 1 \<and> s div 64 mod 2 = 1) = (192 \<le> s mod 256)" for s :: int
proof -
  define q where "q = s div 64"
  have "s div 128 = q div 2"
    by (simp add: q_def zdiv_zmult2_eq [symmetric])
  then have "(s div 128 mod 2 = 1 \<and> s div 64 mod 2 = 1) = (q div 2 mod 2 = 1 \<and> q mod 2 = 1)"
    by (simp add: q_def)
  also have "\<dots> = (q mod 4 = 3)" by presburger
  also have "\<dots> = (192 \<le> 64 * (q mod 4) + s mod 64)"
    by (rule quarter_bound) simp_all
  also have "64 * (q mod 4) + s mod 64 = s mod 256"
    using zmod_zmult2_eq [of 4 s 64] by (simp add: q_def)
  finally show ?thesis .
qed

lemma blanking_bits: "(state_bit s 7 AND state_bit s 6 = 0) = (s mod 256 < 192)"
proof -
  have "state_bit s 7 = s div 128 mod 2" "state_bit s 6 = s div 64 mod 2"
    by (simp_all add: state_bit_div)
  then have "(state_bit s 7 AND state_bit s 6 \<noteq> 0) = (192 \<le> s mod 256)"
    using bits_and [OF state_bit_cases state_bit_cases, of s 7 s 6] high_bits [of s] by (simp only:)
  then show ?thesis by (meson not_le)
qed

definition standard_frame :: "'a video_scheme \<Rightarrow> bool" where
  "standard_frame m \<longleftrightarrow> clks_per_frame m = (if video_scanner_ntsc m then 17030 else 20280)"

definition scan_line :: "u32 \<Rightarrow> 'a video_scheme \<Rightarrow> int" where
  "scan_line executed m = frame_position executed m div 65"

lemma frame_position_bounds:
  assumes "standard_frame m"
  shows "0 \<le> frame_position executed m"
    and "frame_position executed m < (if video_scanner_ntsc m then 17030 else 20280)"
proof -
  have "frame_position executed m = uint (video_cycles_in_frame m + executed) mod uint (clks_per_frame m)"
    unfolding frame_position_def uint_mod ..
  moreover have "uint (clks_per_frame m) = (if video_scanner_ntsc m then 17030 else 20280)"
    using assms by (simp add: standard_frame_def)
  ultimately show "0 \<le> frame_position executed m"
    "frame_position executed m < (if video_scanner_ntsc m then 17030 else 20280)" by auto
qed

lemma scan_line_blank:
  assumes "standard_frame m"
  shows "(v_state_at (video_scanner_ntsc m) (frame_position executed m) mod 256 < 192) =
    (scan_line executed m < 192)"
proof -
  let ?l = "scan_line executed m"
  have "0 \<le> ?l" "?l < (if video_scanner_ntsc m then 262 else 312)"
    using frame_position_bounds [OF assms, of executed] by (auto simp: scan_line_def)
  then show ?thesis
    by (auto simp: v_state_at_def Let_def simp flip: scan_line_def)
qed

lemma blanking_position:
  assumes "standard_frame m"
  shows "(12480 \<le> frame_position executed m) = (192 \<le> scan_line executed m)"
  unfolding scan_line_def by auto

subsection \<open>Vertical blanking\<close>

lemma bit_7_written:
  fixes r :: u8
  shows "(((r AND NOT 0x80) OR (if b then 0x80 else 0)) AND 0x80 \<noteq> 0) = b"
proof -
  have "bit (((r AND NOT 0x80) OR (if b then 0x80 else 0)) AND 0x80) 7 = b"
    by (simp add: bit_simps)
  moreover have "(r AND NOT 0x80) AND 0x80 = 0"
    by (simp add: and.assoc)
  ultimately show ?thesis by (cases b) (auto simp del: bit_numeral_Bit0_iff)
qed

text \<open>
  C23. The two vertical blanking signals of the program agree.  With the frame length the scanner
  is built for, bit 7 of \<open>$C019\<close>, which \<open>video_check_vbl\<close> takes from the scanner's vertical
  counter bits, is set exactly on the 192 visible scan lines, and \<open>video_get_vbl\<close>, which
  compares the frame position with 12480, reports exactly the other lines.
\<close>

theorem vertical_blanking_agrees:
  assumes "standard_frame m"
  shows "(fst (video_check_vbl pc address write d executed m) AND 0x80 \<noteq> 0)
           = (scan_line executed m < 192)
         \<and> video_get_vbl executed m = (192 \<le> scan_line executed m)"
proof -
  have frame: "clks_per_frame m \<noteq> 0"
    using assms by (auto simp: standard_frame_def)
  let ?v = "v_state_at (video_scanner_ntsc m) (frame_position executed m)"
  have "snd (video_get_scanner_address executed m) = Some (state_bit ?v 7 AND state_bit ?v 6 = 0)"
    using frame by (simp add: video_get_scanner_address_def Let_def)
  then have "snd (video_get_scanner_address executed m) = Some (scan_line executed m < 192)"
    by (simp add: blanking_bits scan_line_blank [OF assms])
  then show ?thesis
    using frame bit_7_written
    by (auto simp only: video_check_vbl_def video_get_vbl_def blanking_position [OF assms]
        Let_def fst_conv option.case if_False)
qed

lemma end_frame_effect [simp]:
  "video_cycles_in_frame (video_end_frame m) = video_cycles_in_frame m - clks_per_frame m"
  "clks_per_frame (video_end_frame m) = clks_per_frame m"
  "refresh_requests (video_end_frame m) = refresh_requests m + 1"
  by (simp_all add: video_end_frame_def video_update_flash_def video_refresh_screen_def Let_def)

lemma frame_division:
  fixes c f :: u32
  assumes "f \<le> c" "0 < f"
  shows "(c - f) mod f = c mod f" and "unat (c div f) = Suc (unat ((c - f) div f))"
proof -
  have sub: "unat (c - f) = unat c - unat f"
    using assms(1) by (rule unat_sub)
  have pos: "0 < unat f" "unat f \<le> unat c"
    using assms by (auto simp: unat_gt_0 word_le_nat_alt)
  show "(c - f) mod f = c mod f"
    using pos by (simp add: word_unat_eq_iff unat_mod_distrib sub le_mod_geq)
  show "unat (c div f) = Suc (unat ((c - f) div f))"
    using pos by (simp add: unat_div_distrib sub le_div_geq)
qed

lemma frame_loop:
  assumes "0 < clks_per_frame m" "unat (video_cycles_in_frame m div clks_per_frame m) = k"
  shows "\<exists>m'. while_option (\<lambda>m. video_cycles_in_frame m \<ge> clks_per_frame m) video_end_frame m = Some m'
      \<and> video_cycles_in_frame m' = video_cycles_in_frame m mod clks_per_frame m
      \<and> refresh_requests m' = refresh_requests m + k"
  using assms
proof (induction k arbitrary: m)
  case 0
  then have "video_cycles_in_frame m < clks_per_frame m"
    by (auto simp: unat_div_distrib word_less_nat_alt div_eq_0_iff unat_eq_zero)
  moreover from this have "video_cycles_in_frame m mod clks_per_frame m = video_cycles_in_frame m"
    by (simp add: word_unat_eq_iff unat_mod_distrib word_less_nat_alt)
  ultimately show ?case
    by (subst while_option_unfold) (simp add: not_le [symmetric] del: not_le)
next
  case (Suc k)
  have le: "clks_per_frame m \<le> video_cycles_in_frame m"
    using Suc.prems by (metis div_less nat.simps(3) not_less unat_div_distrib word_less_nat_alt)
  note parts = frame_division [OF le Suc.prems(1)]
  obtain m' where "while_option (\<lambda>m. video_cycles_in_frame m \<ge> clks_per_frame m) video_end_frame
      (video_end_frame m) = Some m'"
    "video_cycles_in_frame m' = video_cycles_in_frame m mod clks_per_frame m"
    "refresh_requests m' = Suc (refresh_requests m) + k"
    using Suc.IH [of "video_end_frame m"] Suc.prems parts by auto
  then show ?case
    using le by (subst while_option_unfold) auto
qed

lemma vertical_blanking_agrees_witness:
  "(fst (video_check_vbl 0 0xC019 0 0 12480 blank_board) AND 0x80 \<noteq> 0) = (scan_line 12480 blank_board < 192) \<and>
     video_get_vbl 12480 blank_board"
proof -
  have line: "scan_line 12480 blank_board = 192"
    by (simp add: scan_line_def frame_position_def blank_board_def)
  have "standard_frame blank_board" by (simp add: standard_frame_def blank_board_def)
  from vertical_blanking_agrees [OF this, of 0 "0xC019" 0 0 12480] show ?thesis by (simp add: line)
qed

text \<open>
  C27. The frame counter catches up.  However many cycles a batch reports, \<open>video_update_vbl\<close>
  ends, leaves the position within the frame as the remainder, and asks for one refresh per
  completed frame.
\<close>

theorem frame_counter_catches_up:
  assumes "0 < clks_per_frame m"
  shows "\<exists>m'. video_update_vbl n m = Some m'
      \<and> video_cycles_in_frame m' = (video_cycles_in_frame m + n) mod clks_per_frame m
      \<and> refresh_requests m' =
          refresh_requests m + unat ((video_cycles_in_frame m + n) div clks_per_frame m)"
  using frame_loop [of "m\<lparr>video_cycles_in_frame := video_cycles_in_frame m + n\<rparr>"] assms
  by (simp add: video_update_vbl_def)

lemma blank_frame:
  "video_cycles_in_frame blank_board = 0" "clks_per_frame blank_board = 17030"
  "refresh_requests blank_board = 0"
  by (simp_all add: blank_board_def)

lemma frame_counter_catches_up_witness:
  "\<exists>m'. video_update_vbl 40000 blank_board = Some m' \<and> video_cycles_in_frame m' = 5940 \<and>
     refresh_requests m' = 2"
proof -
  have "\<exists>m'. video_update_vbl 40000 blank_board = Some m' \<and> video_cycles_in_frame m' = 5940 \<and>
     refresh_requests m' = Suc (Suc 0)"
    using frame_counter_catches_up [of blank_board 40000] by (simp add: blank_frame)
  then show ?thesis by (simp only: numeral_2_eq_2)
qed

end
