(* ===== verification/Session_Props.thy ===== *)
theory Session_Props
  imports Keyboard_Props Video_Props
begin

text \<open>
  The run loop of the core with lawful cards: batches and frames end, their accounts balance,
  and no card is woken more than an instruction late.
\<close>

subsection \<open>Between batches\<close>

definition rested :: "'a peripherals_scheme \<Rightarrow> bool" where
  "rested m \<longleftrightarrow> on_time m \<and> \<not> in_slice m \<and> 0 < clks_per_frame m \<and>
     unat (cycles_executed m) \<le> unat (cumulative_cycles m)"

lemma rested_young:
  assumes "rested m" "unat (cumulative_cycles m) < 2 ^ 62"
  shows "young m"
proof -
  have "(ucast (cycles_executed m) :: u64) \<le> cumulative_cycles m"
    using assms(1) by (simp add: rested_def word_le_nat_alt)
  then have "unat (cycle_origin m) \<le> unat (cumulative_cycles m)"
    by (simp add: cycle_origin_def unat_sub)
  with assms(2) show ?thesis by (simp add: young_def)
qed

lemma young_executed: "young m \<Longrightarrow> unat (cycles_executed m) \<le> unat (cumulative_cycles m)"
  by (simp add: unat_clock)

lemma rested_view: "cpu_view m' = cpu_view m \<Longrightarrow> rested m' = rested m"
  by (cases m; cases m') (simp add: cpu_view_def rested_def on_time_def events_bounded_def events_from_def)

lemma rested_card_step:
  assumes "card_step m m'" "rested m" "young m"
  shows "rested m' \<and> cumulative_cycles m' = cumulative_cycles m"
proof -
  note clock = card_step_clock [OF assms(1)]
  have "min (next_event_cycle m) (cumulative_cycles m) \<le> next_event_cycle m'" "events_bounded m'"
    using assms by (auto simp: card_step_def rested_def on_time_def)
  moreover have "unat (cumulative_cycles m) \<le> unat (min (next_event_cycle m) (cumulative_cycles m)) + 24"
    using assms(2) by (auto simp: rested_def on_time_def min_def)
  ultimately have "unat (cumulative_cycles m) \<le> unat (next_event_cycle m') + 24"
    by (simp add: word_le_nat_alt)
  with \<open>events_bounded m'\<close> assms(2) show ?thesis
    by (simp add: rested_def on_time_def clock)
qed

lemma begin_frame_in_batch:
  assumes "rested m" "unat (cumulative_cycles m) < 2 ^ 62" "0 < cycles"
  shows "in_batch cycles (cumulative_cycles m) (cpu_begin_frame cycles m)"
  using assms
  by (simp add: in_batch_def rested_def on_time_def cpu_begin_frame_def young_def cycle_origin_def
      events_bounded_def events_from_def)

lemma end_frame_view [simp]: "cpu_view (video_end_frame m) = cpu_view m"
  by (simp add: cpu_view_def video_end_frame_def video_update_flash_def video_refresh_screen_def Let_def)

lemma update_vbl_view:
  assumes "0 < clks_per_frame m"
  shows "\<exists>m'. video_update_vbl n m = Some m' \<and> cpu_view m' = cpu_view m"
proof -
  obtain m' where m': "video_update_vbl n m = Some m'"
    using frame_loop [of "m\<lparr>video_cycles_in_frame := video_cycles_in_frame m + n\<rparr>"] assms
    by (auto simp: video_update_vbl_def)
  have "cpu_view m' = cpu_view m"
    by (rule while_option_rule [where P = "\<lambda>x. cpu_view x = cpu_view m", OF _ m' [unfolded video_update_vbl_def]])
      (simp only: end_frame_view, simp add: cpu_view_def)
  with m' show ?thesis by blast
qed

context slot_cards
begin

lemma think_step_all: "card_step m (peripheral_manager_think cc n m)"
proof -
  have deliver: "card_step x (deliver cc c x)" for c x
    unfolding deliver_def
    by (auto intro!: card_step_fold simp: deliver_to_def command_step split: option.split)
  have "card_step m (peripheral_drain_command_queue cc m)"
    unfolding peripheral_drain_command_queue_def
    by (rule card_step_trans [OF card_step_same card_step_fold]) (simp_all add: deliver)
  moreover have "card_step x (sink_tick x)" for x
    by (rule card_step_same) (simp_all add: sink_tick_def sink_call_def split: option.split)
  moreover have "card_step x (for_cards (run_think cc n) x)" for x
    unfolding for_cards_def by (intro card_step_fold run_think_step)
  ultimately show ?thesis
    unfolding peripheral_manager_think_def by (blast intro: card_step_trans)
qed

lemma vblank_step_all: "card_step m (peripheral_manager_on_vblank cc v m)"
  unfolding peripheral_manager_on_vblank_def for_cards_def
  by (intro card_step_fold) (simp add: vblank_step split: option.split)

lemma batch_runs:
  assumes "rested m" "unat (cumulative_cycles m) < 2 ^ 62" "unat cycles + 24 < 2 ^ 32"
  shows "\<exists>e m'. internal_run_cycles cc cycles m = Some (e, m') \<and> rested m' \<and>
    unat cycles \<le> unat e \<and> unat e < unat cycles + 24 \<and>
    unat (cumulative_cycles m') = unat (cumulative_cycles m) + unat e"
proof (cases "cycles = 0")
  case True
  with assms(1) show ?thesis by (simp add: internal_run_cycles_def)
next
  case False
  then have "in_batch cycles (cumulative_cycles m) (cpu_begin_frame cycles m)"
    using assms by (intro begin_frame_in_batch) (simp_all add: word_gt_0)
  from run_slices_complete [OF this assms(3)] obtain e m1 where
    r: "run_slices cc cycles (cpu_begin_frame cycles m) = Some (e, m1)" "cycles_executed m1 = e"
      "unat cycles \<le> unat e" "unat e < unat cycles + 24" "young m1" "rested m1"
      "cycle_origin m1 = cumulative_cycles m"
    by (auto simp: rested_def young_executed)
  let ?m2 = "peripheral_manager_think cc e m1"
  have m2: "rested ?m2" "cumulative_cycles ?m2 = cumulative_cycles m1"
    using rested_card_step [OF think_step_all r(6,5)] by simp_all
  obtain m3 where m3: "video_update_vbl e ?m2 = Some m3" "cpu_view m3 = cpu_view ?m2"
    using update_vbl_view m2(1) unfolding rested_def by blast
  have "cumulative_cycles m3 = cumulative_cycles m1"
    using m3(2) m2(2) by (simp add: cpu_view_def)
  moreover have "rested m3" using rested_view [OF m3(2)] m2(1) by simp
  moreover have "internal_run_cycles cc cycles m = Some (e, m3)"
    using False r(1) m3(1) by (simp add: internal_run_cycles_def)
  ultimately show ?thesis
    using r unat_clock [OF r(5)] by simp
qed

lemma full_speed_runs:
  assumes "rested m" "unat (cumulative_cycles m) + n * 2 ^ 32 < 2 ^ 62" "unat cycles + 24 < 2 ^ 32"
  shows "\<exists>e m'. full_speed_loop cc disk cycles n s m = Some (e, m') \<and> rested m' \<and>
    unat (cumulative_cycles m') \<le> unat (cumulative_cycles m) + n * 2 ^ 32"
  using assms(1,2)
proof (induction n arbitrary: m s)
  case (Suc n)
  have "unat (cumulative_cycles m) < 2 ^ 62" using Suc.prems by simp
  then obtain e m1 where b: "internal_run_cycles cc cycles m = Some (e, m1)" "rested m1"
    "unat (cumulative_cycles m1) = unat (cumulative_cycles m) + unat e"
    using batch_runs [OF Suc.prems(1) _ assms(3)] by blast
  have le: "unat (cumulative_cycles m1) \<le> unat (cumulative_cycles m) + 2 ^ 32"
    using unat_u32 [of e] b(3) by simp
  then have "unat (cumulative_cycles m1) + n * 2 ^ 32 < 2 ^ 62" using Suc.prems by simp
  then obtain e' m' where "full_speed_loop cc disk cycles n (s + e) m1 = Some (e', m')" "rested m'"
    "unat (cumulative_cycles m') \<le> unat (cumulative_cycles m1) + n * 2 ^ 32"
    using Suc.IH [OF b(2), of "s + e"] by blast
  with b le show ?case by auto
qed simp

lemma frame_runs:
  assumes "rested m" "unat (cumulative_cycles m) < 2 ^ 61" "unat cycles + 24 < 2 ^ 32"
  shows "\<exists>e m'. linapple_run_frame cc cycles m = Some (e, m') \<and> rested m' \<and>
    unat (cumulative_cycles m') \<le> unat (cumulative_cycles m) + 100 * 2 ^ 32 \<and>
    (running m \<and> \<not> fst (should_run_full_speed m) \<longrightarrow> unat cycles \<le> unat e \<and> unat e < unat cycles + 24 \<and>
       unat (cumulative_cycles m') = unat (cumulative_cycles m) + unat e)"
proof (cases "running m")
  case False
  with assms(1) show ?thesis by (simp add: linapple_run_frame_def)
next
  case True
  let ?turbo = "fst (should_run_full_speed m)" and ?m = "snd (should_run_full_speed m)"
  have m: "rested ?m" "cumulative_cycles ?m = cumulative_cycles m"
    using assms(1) by (simp_all add: should_run_full_speed_def rested_def on_time_def events_bounded_def
        events_from_def Let_def)
  have "\<exists>e m'. run_frame_cycles cc cycles m = Some (e, m') \<and> rested m' \<and>
    unat (cumulative_cycles m') \<le> unat (cumulative_cycles m) + 100 * 2 ^ 32 \<and>
    (\<not> ?turbo \<longrightarrow> unat cycles \<le> unat e \<and> unat e < unat cycles + 24 \<and>
       unat (cumulative_cycles m') = unat (cumulative_cycles m) + unat e)"
  proof (cases ?turbo)
    case True
    have "unat (cumulative_cycles ?m) + full_speed_disk_iterations * 2 ^ 32 < 2 ^ 62"
      using assms(2) m(2) by simp
    from full_speed_runs [OF m(1) this assms(3), of "is_disk_turbo ?m" 0] True m(2) show ?thesis
      by (auto simp: run_frame_cycles_def case_prod_beta)
  next
    case False
    have "unat (cumulative_cycles ?m) < 2 ^ 62" using assms(2) m(2) by simp
    from batch_runs [OF m(1) this assms(3)] obtain e m' where "internal_run_cycles cc cycles ?m = Some (e, m')"
      "rested m'" "unat cycles \<le> unat e" "unat e < unat cycles + 24"
      "unat (cumulative_cycles m') = unat (cumulative_cycles m) + unat e" unfolding m(2) by blast
    moreover have "unat e < 2 ^ 32" by (rule unat_u32)
    ultimately show ?thesis using False by (auto simp: run_frame_cycles_def case_prod_beta)
  qed
  then obtain e m1 where r: "run_frame_cycles cc cycles m = Some (e, m1)" "rested m1"
    "unat (cumulative_cycles m1) \<le> unat (cumulative_cycles m) + 100 * 2 ^ 32"
    "\<not> ?turbo \<longrightarrow> unat cycles \<le> unat e \<and> unat e < unat cycles + 24 \<and>
       unat (cumulative_cycles m1) = unat (cumulative_cycles m) + unat e" by blast
  have "young m1" using r(2,3) assms(2) by (intro rested_young) simp_all
  from rested_card_step [OF vblank_step_all r(2) this] r True show ?thesis
    by (auto simp: linapple_run_frame_def)
qed

end

subsection \<open>The properties, on the keyboard's machine\<close>

text \<open>A running IIe with the keyboard in slot 0.\<close>

definition blank_host :: "unit keyboards_scheme" where
  "blank_host =
     \<lparr>regs = regs blank_machine, cumulative_cycles = 0, cycles_submitted = 0, cycles_executed = 0,
      cycles_limit = 0, in_slice = False, bm_irq = 0, bm_nmi = 0, nmi_flank = False,
      current_apple2_type = A2TYPE_APPLE2E, mem_null = True, heap = (\<lambda>_ _. 0),
      memdirty = (\<lambda>_. 0), memwrite = (\<lambda>_. None), memshadow = (\<lambda>_. None),
      io_read = (\<lambda>_. None), io_write = (\<lambda>_. None), slot_parameters = (\<lambda>_. None),
      last_write_ram = False, mem_mode = 0, mode_changing = False,
      expansion_rom_type = EXP_ROM_NULL, peripheral_rom_slot = 0, io_select = 0,
      io_select_internal_rom = 0, expansion_rom = (\<lambda>_. None), bm_slot_init = 0,
      switch_inputs_state = switch_inputs_reset_configuration True True,
      video_mode = VF_TEXT, alt_char_set_offset = 0, displaypage2 = False, graphicsmode = False,
      redrawfull = True, refresh_requests = 0, text_flash_state = False, text_flash_flag = False,
      text_flash_cnt = 0, video_cycles_in_frame = 0, clks_per_frame = 17030, video_scanner_ntsc = True,
      active_peripherals = [(new_peripheral keyboard_peripheral 0)\<lparr>ap_instance := Some 0\<rparr>] # replicate 7 [],
      activity_state = replicate 8 False, activity_seen = replicate 8 False,
      next_event_cycle = no_event, direct_io_handlers = [], command_queue = [],
      sink_records = replicate 7 \<lparr>sink_slot = 0, sink_kind = peripheral_sink_printer, sink_opened = False,
        line_sent = False, sink_line = \<lparr>baud = 0, data_bits = 0, parity = 0, stop_half_bits = 0,
          dtr = 0, rts = 0, brk = 0\<rparr>\<rparr>,
      current_sink = None, sink_trace = [], clock_hz = 1020484, fresh_instance = 1,
      full_speed = False, user_turbo = False, disk_turbo_enabled = True, emulation_speed = 10,
      running = True, kbd = (\<lambda>_. new_keyboard peripheral_machine_apple2e)\<rparr>"

lemma blank_host_rested: "rested blank_host"
  by (simp add: rested_def on_time_def events_bounded_def events_from_def blank_host_def new_peripheral_def)

text \<open>
  C1. The emulator's frame always returns.  With lawful cards, from any state between batches,
  \<open>linapple_run_frame\<close> ends: the slices of a batch, the scanner's catching up and, at full speed,
  the hundred batches all terminate; outside full speed the frame runs at least the cycles asked
  for and fewer than 24 more, and the machine's clock advances by exactly the cycles reported.
  The state it leaves is again one between batches, so frames can be chained until the 64-bit clock
  passes its (unreachable) bound.
\<close>

theorem frame_returns:
  assumes "slot_cards cc" "rested m" "unat (cumulative_cycles m) < 2 ^ 61" "unat cycles + 24 < 2 ^ 32"
  shows "\<exists>e m'. linapple_run_frame cc cycles m = Some (e, m') \<and> rested m' \<and>
    unat (cumulative_cycles m') \<le> unat (cumulative_cycles m) + 100 * 2 ^ 32 \<and>
    (running m \<and> \<not> fst (should_run_full_speed m) \<longrightarrow> unat cycles \<le> unat e \<and> unat e < unat cycles + 24 \<and>
       unat (cumulative_cycles m') = unat (cumulative_cycles m) + unat e)"
  by (rule slot_cards.frame_runs [OF assms])

lemma frame_returns_witness:
  "\<exists>e m'. linapple_run_frame keyboard_code 17030 blank_host = Some (e, m') \<and>
     17030 \<le> unat e \<and> unat e < 17054 \<and> unat (cumulative_cycles m') = unat e"
proof -
  have run: "running blank_host" "\<not> fst (should_run_full_speed blank_host)" "cumulative_cycles blank_host = 0"
    by (simp_all add: blank_host_def should_run_full_speed_def is_disk_turbo_def is_user_turbo_def
        peripheral_is_any_active_def list_ex_iff)
  have "unat (cumulative_cycles blank_host) < 2 ^ 61" "unat (17030 :: u32) + 24 < 2 ^ 32"
    by (simp_all add: run)
  from frame_returns [OF kb.slot_cards_axioms blank_host_rested this] run show ?thesis by auto
qed

text \<open>
  C2. Device events are serviced on time.  Within a batch begun between batches with lawful
  cards, whenever the core comes to service events no card's event is more than the longest
  instruction's 24 cycles overdue, although handlers schedule events in the middle of slices, in
  the middle of instructions; servicing then leaves no event overdue, and the cached next event is a
  lower bound of them all.
\<close>

theorem events_on_time:
  assumes "slot_cards cc" "rested m" "unat (cumulative_cycles m) < 2 ^ 62" "0 < cycles"
    and "unat cycles + 24 < 2 ^ 32"
    and "service_point cc cycles (cpu_begin_frame cycles m) m'"
  shows "(\<forall>aps \<in> set (active_peripherals m'). \<forall>ap \<in> set aps.
             unat (cumulative_cycles m') \<le> unat (event_cycle ap) + 24) \<and>
         (\<forall>aps \<in> set (active_peripherals (service_now cc m')). \<forall>ap \<in> set aps.
             cumulative_cycles m' \<le> next_event_cycle (service_now cc m') \<and>
             next_event_cycle (service_now cc m') \<le> event_cycle ap)"
proof -
  have "in_batch cycles (cumulative_cycles m) m'"
    by (rule slot_cards.service_points_in_batch [OF assms(1,6) begin_frame_in_batch [OF assms(2-4)] assms(5)])
  then have m': "young m'" "on_time m'" by (simp_all add: in_batch_def)
  note serviced = slot_cards.service_now_result [OF assms(1) m'(1)]
  show ?thesis
    using m'(2) serviced(1,2) unfolding on_time_def events_bounded_def events_from_def word_le_nat_alt
    by (meson add_le_mono1 order_trans)
qed

text \<open>An event due at cycle 5, found at cycle 10.\<close>

definition due_host :: "unit keyboards_scheme" where
  "due_host = blank_host\<lparr>cumulative_cycles := 10, next_event_cycle := 5,
     active_peripherals := [(new_peripheral keyboard_peripheral 0)\<lparr>ap_instance := Some 0, event_cycle := 5\<rparr>]
       # replicate 7 []\<rparr>"

lemma events_on_time_witness:
  "\<not> events_from 10 due_host \<and> events_from 10 (service_now keyboard_code (cpu_begin_frame 100 due_host))"
proof -
  have due: "rested due_host" "cumulative_cycles due_host = 10"
    by (simp_all add: rested_def on_time_def events_bounded_def events_from_def due_host_def blank_host_def
        new_peripheral_def)
  have clock: "cumulative_cycles (cpu_begin_frame 100 due_host) = 10"
    by (simp add: cpu_begin_frame_def due)
  have "unat (cumulative_cycles due_host) < 2 ^ 62" "0 < (100 :: u32)" "unat (100 :: u32) + 24 < 2 ^ 32"
    by (simp_all add: due)
  from events_on_time [OF kb.slot_cards_axioms due(1) this service_point.first]
  have "events_from 10 (service_now keyboard_code (cpu_begin_frame 100 due_host))"
    unfolding clock events_from_def by (meson order_trans)
  moreover have "\<not> events_from 10 due_host" by (simp add: events_from_def due_host_def)
  ultimately show ?thesis by blast
qed

end
