(* ===== verification/Peripheral_Props.thy ===== *)
theory Peripheral_Props
  imports Session_Props
begin

text \<open>
  The command queue, the manifest of a save state, and the protocol the frontend sees on the
  byte sinks.
\<close>

subsection \<open>Commands\<close>

record request =
  req_slot :: int
  req_id :: u32
  req_data :: "u8 list"

definition sendable :: "request \<Rightarrow> bool" where
  "sendable r \<longleftrightarrow> valid_slot (req_slot r) \<and> length (req_data r) \<le> peripheral_cmd_max_data"

definition queued :: "request \<Rightarrow> queued_command" where
  "queued r = \<lparr>cmd_slot = req_slot r, cmd_id = req_id r, cmd_target = [], cmd_data = req_data r\<rparr>"

definition send :: "request \<Rightarrow> 'a peripherals_scheme \<Rightarrow> 'a peripherals_scheme" where
  "send r m = snd (peripheral_command (req_slot r) (req_id r) (Some (req_data r)) (length (req_data r)) m)"

lemma send_queues:
  "sendable r \<Longrightarrow> send r m = m\<lparr>command_queue := command_queue m @ [queued r]\<rparr>"
  by (auto simp: sendable_def send_def peripheral_command_def push_command_def queued_def)

lemma sends_queue:
  "list_all sendable rs \<Longrightarrow> fold send rs m = m\<lparr>command_queue := command_queue m @ map queued rs\<rparr>"
  by (induction rs arbitrary: m) (simp_all add: send_queues)

text \<open>
  C19. Commands reach the cards in the order they were sent, each exactly once and with its bytes
  intact: draining the queue after any number of accepted commands is delivering them one after
  the other, to the cards of the slot each names, starting from a machine with an empty queue, so
  that a command a card sends while it handles one waits for the next batch.  A command for no
  slot, or longer than the queue's entries, is refused and changes nothing.
\<close>

theorem commands_in_order:
  assumes "list_all sendable rs" "command_queue m = []"
  shows "peripheral_drain_command_queue cc (fold send rs m) =
           fold (\<lambda>r m. fold (deliver_to cc (queued r)) (active_peripherals m ! nat (req_slot r)) m) rs m \<and>
         (\<not> sendable r \<longrightarrow> peripheral_command (req_slot r) cid (Some (req_data r)) (length (req_data r)) m2
            = (peripheral_error, m2))"
proof -
  have m: "m\<lparr>command_queue := []\<rparr> = m" using assms(2) by (cases m) simp
  have "fold (deliver cc) (map queued rs) m =
      fold (\<lambda>r m. fold (deliver_to cc (queued r)) (active_peripherals m ! nat (req_slot r)) m) rs m"
    using assms(1) by (induction rs arbitrary: m) (simp_all add: deliver_def queued_def sendable_def)
  then show ?thesis
    unfolding sends_queue [OF assms(1)] assms(2)
    by (auto simp: peripheral_drain_command_queue_def m sendable_def peripheral_command_def)
qed

lemma commands_in_order_witness:
  "peripheral_drain_command_queue keyboard_code
     (fold send [\<lparr>req_slot = 0, req_id = 0x1000B, req_data = [1]\<rparr>, \<lparr>req_slot = 0, req_id = 0x1000A, req_data = []\<rparr>] blank_host)
   = deliver_to keyboard_code (queued \<lparr>req_slot = 0, req_id = 0x1000A, req_data = []\<rparr>)
       ((new_peripheral keyboard_peripheral 0)\<lparr>ap_instance := Some 0\<rparr>)
       (deliver_to keyboard_code (queued \<lparr>req_slot = 0, req_id = 0x1000B, req_data = [1]\<rparr>)
         ((new_peripheral keyboard_peripheral 0)\<lparr>ap_instance := Some 0\<rparr>) blank_host)"
proof -
  let ?r1 = "\<lparr>req_slot = 0, req_id = 0x1000B, req_data = [1]\<rparr>"
  let ?r2 = "\<lparr>req_slot = 0, req_id = 0x1000A, req_data = []\<rparr>"
  let ?ap = "(new_peripheral keyboard_peripheral 0)\<lparr>ap_instance := Some 0\<rparr>"
  have ok: "list_all sendable [?r1, ?r2]" "command_queue blank_host = []"
    by (simp_all add: sendable_def valid_slot_def blank_host_def)
  have slot: "active_peripherals blank_host ! 0 = [?ap]" by (simp add: blank_host_def)
  have "cmd_id (queued ?r1) = subsystem_keyboard OR 0x000B" by (simp add: queued_def)
  then have "deliver_to keyboard_code (queued ?r1) ?ap blank_host =
      update_kbd 0 (rept_down_update (\<lambda>_. True)) blank_host"
    by (simp add: deliver_to_def keyboard_code_def queued_def keyboard_abi_command_def cmd_is_mine_def
        new_peripheral_def set_rept_def Let_def blank_host_def new_keyboard_def update_kbd_def)
  then have "active_peripherals (deliver_to keyboard_code (queued ?r1) ?ap blank_host) ! 0 = [?ap]"
    using slot by (simp add: update_kbd_def)
  then show ?thesis
    using commands_in_order [OF ok, THEN conjunct1, of keyboard_code] slot by (simp add: queued_def)
qed

subsection \<open>The manifest\<close>

text \<open>
  The manifest written into a save state is accepted by the machine it was taken from, and by
  any machine with the same cards: verification compares every slot, so it is also refused when a
  slot that was empty holds a card.  It relies on the names of the cards being neither empty nor
  longer than the manifest's 31 characters.
\<close>

theorem manifest_round_trip:
  assumes "\<forall>aps \<in> set (active_peripherals m). \<forall>ap \<in> set aps.
      api_name (ap_api ap) \<noteq> [] \<and> length (api_name (ap_api ap)) < max_peripheral_name"
  shows "peripheral_verify_manifest (Some (peripheral_get_manifest m)) m \<and>
    (k < length (active_peripherals m) \<and> active_peripherals m ! k = [] \<and> aps \<noteq> [] \<longrightarrow>
       \<not> peripheral_verify_manifest (Some (peripheral_get_manifest m)) (set_slot k aps m))"
proof
  show "peripheral_verify_manifest (Some (peripheral_get_manifest m)) m"
    unfolding peripheral_verify_manifest_def peripheral_get_manifest_def option.case
      list_all2_map1 list_all2_same
    using assms by (auto split: list.splits)
  show "k < length (active_peripherals m) \<and> active_peripherals m ! k = [] \<and> aps \<noteq> [] \<longrightarrow>
       \<not> peripheral_verify_manifest (Some (peripheral_get_manifest m)) (set_slot k aps m)"
    by (auto simp: peripheral_verify_manifest_def peripheral_get_manifest_def list_all2_conv_all_nth
        set_slot_def)
qed

lemma manifest_round_trip_witness:
  "peripheral_verify_manifest (Some (peripheral_get_manifest blank_host)) blank_host \<and>
   \<not> peripheral_verify_manifest (Some (peripheral_get_manifest blank_host))
       (set_slot 1 [new_peripheral keyboard_peripheral 1] blank_host)"
proof -
  have slots: "active_peripherals blank_host =
      [(new_peripheral keyboard_peripheral 0)\<lparr>ap_instance := Some 0\<rparr>] # replicate 7 []"
    by (simp add: blank_host_def)
  from manifest_round_trip [of blank_host 1 "[new_peripheral keyboard_peripheral 1]"] show ?thesis
    unfolding slots by (simp add: new_peripheral_def keyboard_peripheral_def)
qed

subsection \<open>The protocol of the byte sinks\<close>

text \<open>
  What the frontend may see of one slot: an open, then writes, reads and questions, then a close.
  \<open>None\<close> is a call out of order.
\<close>

fun sink_next :: "int \<Rightarrow> bool option \<Rightarrow> sink_event \<Rightarrow> bool option" where
  "sink_next s None c = None"
| "sink_next s (Some b) (SinkOpened t k) = (if t = s then if b then None else Some True else Some b)"
| "sink_next s (Some b) (SinkClosed t) = (if t = s then if b then Some False else None else Some b)"
| "sink_next s (Some b) (SinkWritten t _) = (if t = s \<and> \<not> b then None else Some b)"
| "sink_next s (Some b) (SinkAsked t) = (if t = s \<and> \<not> b then None else Some b)"
| "sink_next s (Some b) (SinkRead t) = (if t = s \<and> \<not> b then None else Some b)"
| "sink_next s (Some b) (SinkLine t _) = (if t = s \<and> \<not> b then None else Some b)"
| "sink_next s (Some b) (SinkLinesAsked t) = (if t = s \<and> \<not> b then None else Some b)"
| "sink_next s (Some b) SinkTicked = Some b"

definition sink_state :: "int \<Rightarrow> sink_event list \<Rightarrow> bool option" where
  "sink_state s trace = foldl (sink_next s) (Some False) trace"

definition full_sink :: "byte_sink \<Rightarrow> bool" where
  "full_sink b \<longleftrightarrow> has_open b \<and> has_close b"

text \<open>
  The invariant: for every slot the trace is in order and ends open exactly when the record says
  so, a record that is open or has been issued to a card carries its own slot number, and every
  sink the frontend ever installed answers open and close.
\<close>

definition sinks_ok :: "'a peripherals_scheme \<Rightarrow> bool" where
  "sinks_ok m \<longleftrightarrow> length (sink_records m) = 7 \<and>
     (\<forall>k < 7. sink_state (int k + 1) (sink_trace m) = Some (sink_opened (sink_records m ! k)) \<and>
        (sink_opened (sink_records m ! k) \<longrightarrow> sink_slot (sink_records m ! k) = int k + 1 \<and> current_sink m \<noteq> None)) \<and>
     (\<forall>b. current_sink m = Some b \<longrightarrow> full_sink b)"

definition issued :: "nat option \<Rightarrow> 'a peripherals_scheme \<Rightarrow> bool" where
  "issued token m \<longleftrightarrow> (case token of None \<Rightarrow> True | Some k \<Rightarrow> k < 7 \<longrightarrow> sink_slot (sink_records m ! k) = int k + 1)"

lemma sink_state_snoc: "sink_state s (tr @ [c]) = sink_next s (sink_state s tr) c"
  by (simp add: sink_state_def)

inductive sink_use :: "'a peripherals_scheme \<Rightarrow> 'a peripherals_scheme \<Rightarrow> bool" where
  opened: "sink_use m (snd (host_sink_open slot kind m))"
| written: "issued token m \<Longrightarrow> sink_use m (host_sink_write token byte m)"
| asked: "issued token m \<Longrightarrow> sink_use m (snd (host_sink_ready yes token m))"
| closed: "issued token m \<Longrightarrow> sink_use m (host_sink_close token m)"
| taken: "issued token m \<Longrightarrow> sink_use m (snd (host_sink_read answer token m))"
| line_set: "issued token m \<Longrightarrow> sink_use m (host_sink_set_line token line m)"
| lines_asked: "issued token m \<Longrightarrow> sink_use m (snd (host_sink_get_lines answer token m))"
| installed: "(\<forall>b. vtable = Some b \<longrightarrow> full_sink b) \<Longrightarrow> sink_use m (snd (linapple_set_byte_sink vtable m))"
| ticked: "sink_use m (sink_tick m)"

lemma put_record_fields [simp]:
  "sink_trace (put_record k r m) = sink_trace m" "current_sink (put_record k r m) = current_sink m"
  "sink_records (put_record k r m) = (sink_records m)[k := r]"
  by (simp_all add: put_record_def)

lemma sink_call_fields [simp]:
  "sink_trace (sink_call c m) = sink_trace m @ [c]" "current_sink (sink_call c m) = current_sink m"
  "sink_records (sink_call c m) = sink_records m"
  by (simp_all add: sink_call_def)

lemma sinks_ok_at:
  assumes "sinks_ok m" "k < 7"
  shows "sink_state (int k + 1) (sink_trace m) = Some (sink_opened (sink_records m ! k))"
    "sink_opened (sink_records m ! k) \<Longrightarrow> sink_slot (sink_records m ! k) = int k + 1"
    "k < length (sink_records m)"
  using assms by (auto simp: sinks_ok_def)

lemma sink_state_snoc2: "sink_state s (tr @ [c, d]) = sink_next s (sink_next s (sink_state s tr) c) d"
  by (simp add: sink_state_def)

lemma sink_next_other:
  assumes "j \<noteq> k"
  shows "sink_next (int j + 1) x (SinkOpened (int k + 1) q) = x"
    "sink_next (int j + 1) x (SinkClosed (int k + 1)) = x" "sink_next (int j + 1) x (SinkLine (int k + 1) l) = x"
  using assms by (cases x; simp)+

text \<open>A call about slot \<open>k + 1\<close>, and a new record for it.\<close>

lemma sinks_ok_update:
  assumes "sinks_ok m" "k < 7" "sink_records m' = (sink_records m)[k := r]" "current_sink m' = current_sink m"
    and "\<And>j. j \<noteq> k \<Longrightarrow> sink_state (int j + 1) (sink_trace m') = sink_state (int j + 1) (sink_trace m)"
    and "sink_state (int k + 1) (sink_trace m') = Some (sink_opened r)"
    and "sink_opened r \<Longrightarrow> sink_slot r = int k + 1 \<and> current_sink m \<noteq> None"
  shows "sinks_ok m'"
  using assms by (auto simp: sinks_ok_def nth_list_update)

lemma attach_ok:
  assumes "sinks_ok m" "k < 7" "sink_slot (sink_records m ! k) = int k + 1"
  shows "sinks_ok (snd (sink_attach k m)) \<and>
    (fst (sink_attach k m) \<longrightarrow> sink_opened (sink_records (snd (sink_attach k m)) ! k)) \<and>
    sink_slot (sink_records (snd (sink_attach k m)) ! k) = int k + 1"
proof (cases "current_sink m = None \<or> sink_opened (sink_records m ! k)")
  case True
  with assms show ?thesis by (auto simp: sink_attach_def Let_def split: option.split)
next
  case False
  then obtain b where b: "current_sink m = Some b" "full_sink b"
    using assms(1) by (auto simp: sinks_ok_def)
  note at = sinks_ok_at [OF assms(1,2)]
  have "sinks_ok (snd (sink_attach k m))"
    by (rule sinks_ok_update [OF assms(1,2), where r = "(sink_records m ! k)\<lparr>sink_opened := True\<rparr>"])
      (use False b assms at in \<open>auto simp: sink_attach_def Let_def sink_state_snoc sink_state_snoc2 sink_next_other full_sink_def\<close>)
  then show ?thesis
    using False b assms at by (simp add: sink_attach_def Let_def)
qed

lemma call_ok:
  assumes "sinks_ok m" "k < 7" "sink_opened (sink_records m ! k)"
    and "c \<in> {SinkWritten (int k + 1) b, SinkAsked (int k + 1), SinkRead (int k + 1), SinkLine (int k + 1) l,
              SinkLinesAsked (int k + 1), SinkTicked}"
  shows "sinks_ok (sink_call c m)"
proof (rule sinks_ok_update [OF assms(1,2), where r = "sink_records m ! k"])
  note at = sinks_ok_at [OF assms(1,2)]
  show "sink_state (int j + 1) (sink_trace (sink_call c m)) = sink_state (int j + 1) (sink_trace m)"
    if "j \<noteq> k" for j
    using assms(4) that
    by (cases "sink_state (int j + 1) (sink_trace m)") (auto simp: sink_state_snoc)
qed (use assms in \<open>auto simp: sinks_ok_def sink_state_snoc\<close>)

lemma attach_then:
  assumes "sinks_ok m" "issued token m" "sink_of_token token = Some k" "sink_attach k m = (attached, m1)"
  shows "sinks_ok m1" "sink_slot (sink_records m1 ! k) = int k + 1"
    and "attached \<Longrightarrow> c \<in> {SinkWritten (int k + 1) b, SinkAsked (int k + 1), SinkRead (int k + 1),
        SinkLine (int k + 1) l, SinkLinesAsked (int k + 1)} \<Longrightarrow> sinks_ok (sink_call c m1)"
proof -
  have k: "k < 7" "sink_slot (sink_records m ! k) = int k + 1"
    using assms(2,3) by (auto simp: issued_def sink_of_token_def split: option.splits if_splits)
  note at = attach_ok [OF assms(1) k, unfolded assms(4) fst_conv snd_conv]
  then show "sinks_ok m1" "sink_slot (sink_records m1 ! k) = int k + 1" by simp_all
  show "sinks_ok (sink_call c m1)"
    if "attached" "c \<in> {SinkWritten (int k + 1) b, SinkAsked (int k + 1), SinkRead (int k + 1),
        SinkLine (int k + 1) l, SinkLinesAsked (int k + 1)}"
    using at that call_ok [of m1 k c b l] k(1) by auto
qed

lemma close_ok:
  assumes "sinks_ok m" "k < 7"
  shows "sinks_ok (sink_close_record k m) \<and> current_sink (sink_close_record k m) = current_sink m \<and>
    sink_records (sink_close_record k m) = (sink_records m)[k := (sink_records m ! k)\<lparr>sink_opened := False\<rparr>]"
proof (cases "sink_opened (sink_records m ! k)")
  case False
  then have same: "(sink_records m ! k)\<lparr>sink_opened := False\<rparr> = sink_records m ! k" by simp
  from False assms(1) show ?thesis
    unfolding same by (simp add: sink_close_record_def Let_def)
next
  case True
  note at = sinks_ok_at [OF assms]
  obtain b where b: "current_sink m = Some b" "full_sink b"
    using assms True by (auto simp: sinks_ok_def)
  have "sinks_ok (sink_close_record k m)"
    by (rule sinks_ok_update [OF assms, where r = "(sink_records m ! k)\<lparr>sink_opened := False\<rparr>"])
      (use True b at in \<open>auto simp: sink_close_record_def Let_def sink_state_snoc sink_next_other full_sink_def\<close>)
  with True b show ?thesis by (simp add: sink_close_record_def Let_def full_sink_def)
qed

lemma fold_close_ok:
  assumes "sinks_ok m" "n \<le> 7"
  shows "sinks_ok (fold sink_close_record [0..<n] m) \<and>
    (\<forall>k < n. \<not> sink_opened (sink_records (fold sink_close_record [0..<n] m) ! k))"
  using assms(2)
proof (induction n)
  case (Suc n)
  let ?m = "fold sink_close_record [0..<n] m"
  have "n < 7" and ok: "sinks_ok ?m" "\<forall>k < n. \<not> sink_opened (sink_records ?m ! k)"
    using Suc by simp_all
  from close_ok [OF ok(1) this(1)] ok show ?case
    using sinks_ok_at(3) [OF ok(1) \<open>n < 7\<close>] by (auto simp: less_Suc_eq nth_list_update)
qed (use assms in simp)

lemma sink_use_keeps:
  assumes "sink_use m m'" "sinks_ok m"
  shows "sinks_ok m'"
  using assms
proof (cases rule: sink_use.cases)
  case (opened slot kind)
  show ?thesis
  proof (cases "slot < 1 \<or> slot > 7 \<or> \<not> sink_kind_is_known kind \<or>
      sink_opened (sink_records m ! nat (slot - 1)) \<and> sink_kind (sink_records m ! nat (slot - 1)) \<noteq> kind")
    case True
    with opened assms(2) show ?thesis by (auto simp: host_sink_open_def Let_def)
  next
    case False
    define k where "k = nat (slot - 1)"
    then have k: "k < 7" "int k + 1 = slot" using False by auto
    note at = sinks_ok_at [OF assms(2) k(1)]
    have "sinks_ok (put_record k ((sink_records m ! k)\<lparr>sink_slot := slot, sink_kind := kind\<rparr>) m)"
      by (rule sinks_ok_update [OF assms(2) k(1),
            where r = "(sink_records m ! k)\<lparr>sink_slot := slot, sink_kind := kind\<rparr>"]) (use at assms(2) k in \<open>auto simp: sinks_ok_def\<close>)
    with opened False show ?thesis by (auto simp: host_sink_open_def Let_def k_def)
  qed
next
  case (written token byte)
  with assms(2) attach_then [OF assms(2) written(2)] show ?thesis
    unfolding written(1) host_sink_write_def by (auto split: option.splits prod.splits)
next
  case (asked token yes)
  with assms(2) attach_then [OF assms(2) asked(2)] show ?thesis
    unfolding asked(1) host_sink_ready_def by (auto simp: Let_def split: option.splits prod.splits)
next
  case (taken token answer)
  with assms(2) attach_then [OF assms(2) taken(2)] show ?thesis
    unfolding taken(1) host_sink_read_def by (auto simp: Let_def split: option.splits prod.splits)
next
  case (lines_asked token answer)
  with assms(2) attach_then [OF assms(2) lines_asked(2)] show ?thesis
    unfolding lines_asked(1) host_sink_get_lines_def by (auto simp: Let_def split: option.splits prod.splits)
next
  case (line_set token line)
  show ?thesis
  proof (cases "sink_of_token token = None \<or> line = None")
    case True
    with line_set(1) assms(2) show ?thesis by (auto simp: host_sink_set_line_def split: option.split)
  next
    case False
    then obtain k l where k: "sink_of_token token = Some k" "line = Some l" by auto
    then have lt: "k < 7" "token = Some k" by (auto simp: sink_of_token_def split: option.splits if_splits)
    let ?r = "sink_records m ! k"
    let ?m1 = "put_record k (?r\<lparr>sink_line := l, line_sent := True\<rparr>) m"
    note at = sinks_ok_at [OF assms(2) lt(1)]
    have ok: "sinks_ok ?m1"
      by (rule sinks_ok_update [OF assms(2) lt(1), where r = "?r\<lparr>sink_line := l, line_sent := True\<rparr>"])
        (use at assms(2) lt in \<open>auto simp: sinks_ok_def\<close>)
    have slot: "sink_slot ?r = int k + 1" using line_set(2) lt by (simp add: issued_def)
    then have issued: "issued token ?m1" using at(3) lt by (simp add: issued_def)
    obtain a m2 where m2: "sink_attach k ?m1 = (a, m2)" by (cases "sink_attach k ?m1")
    from attach_then [OF ok issued k(1) m2] line_set(1) slot k m2 show ?thesis
      by (auto simp: host_sink_set_line_def Let_def split: option.split)
  qed
next
  case ticked
  have "sink_state s (sink_trace m @ [SinkTicked]) = sink_state s (sink_trace m)" for s
    by (cases "sink_state s (sink_trace m)") (simp_all add: sink_state_snoc)
  with assms(2) have "sinks_ok (sink_call SinkTicked m)" by (simp add: sinks_ok_def)
  with ticked assms(2) show ?thesis by (simp add: sink_tick_def split: option.split)
next
  case (installed vtable)
  from fold_close_ok [OF assms(2), of 7] installed show ?thesis
    by (auto simp: linapple_set_byte_sink_def sinks_ok_def)
next
  case (closed token)
  show ?thesis
  proof (cases "sink_of_token token")
    case None
    with closed assms(2) show ?thesis by (simp add: host_sink_close_def)
  next
    case (Some k)
    then have "k < 7" by (simp add: sink_of_token_def split: option.splits if_splits)
    note c = close_ok [OF assms(2) this]
    have "sinks_ok (put_record k ((sink_records (sink_close_record k m) ! k)\<lparr>line_sent := False\<rparr>) (sink_close_record k m))"
      by (rule sinks_ok_update [OF conjunct1 [OF c] \<open>k < 7\<close>])
        (use c sinks_ok_at [OF conjunct1 [OF c] \<open>k < 7\<close>] in \<open>auto simp: sinks_ok_def\<close>)
    with closed Some show ?thesis by (simp add: host_sink_close_def Let_def)
  qed
qed



end
