(* ===== verification/Keyboard_Behaviour.thy ===== *)
theory Keyboard_Behaviour
  imports Session_Props
begin

text \<open>
  What a program and a typist see of the keyboard: the latch and strobe, the held keys, the
  timing of the auto-repeat, the agreement of the keyboard's own deadline with the event the
  core holds for it, and the save state.
\<close>

subsection \<open>Scheduling leaves the keyboards alone\<close>

lemma kbd_recompute [simp]: "kbd (recompute_next_event_cycle m) = kbd m"
  by (simp add: recompute_next_event_cycle_def)

lemma kbd_limit [simp]: "kbd (cpu_limit_cycles u m) = kbd m"
  by (simp add: cpu_limit_cycles_def Let_def)

lemma kbd_schedule [simp]: "kbd (host_schedule_event inst at_cycle m) = kbd m"
  by (simp add: host_schedule_event_def Let_def split: option.split)

lemma kbd_arm [simp]: "kbd (arm i t m) = (kbd m)(i := (kbd m i)\<lparr>next_strobe := t\<rparr>)"
  by (simp add: arm_def update_kbd_def)

lemma kbd_disarm [simp]: "kbd (disarm i m) = (kbd m)(i := (kbd m i)\<lparr>next_strobe := 0\<rparr>)"
  by (simp add: disarm_def update_kbd_def)

lemma kbd_update [simp]: "kbd (update_kbd i f m) = (kbd m)(i := f (kbd m i))"
  by (simp add: update_kbd_def)

lemma kbd_auto_repeat [simp]:
  "kbd (arm_auto_repeat i m) = (kbd m)(i := (kbd m i)\<lparr>next_strobe := auto_repeat_cycle (cumulative_cycles m) (frame_cycles m)\<rparr>)"
  by (simp add: arm_auto_repeat_def host_get_cycles_def)

lemma kbd_rept [simp]:
  "kbd (arm_rept i m) = (kbd m)(i := (kbd m i)\<lparr>next_strobe := cumulative_cycles m + rept_period i m\<rparr>)"
  by (simp add: arm_rept_def host_get_cycles_def)

lemma kbd_clear_due [simp]: "kbd (clear_due now m) = kbd m"
  by (simp add: clear_due_def map_cards_def)

lemma hold_key_fields [simp]:
  "current_latch (hold_key h k) = current_latch k" "strobe (hold_key h k) = strobe k"
  "rept_down (hold_key h k) = rept_down k" "next_strobe (hold_key h k) = next_strobe k"
  "kb_machine (hold_key h k) = kb_machine k" "any_key_down (hold_key h k)"
  by (auto simp: hold_key_def any_key_down_def Let_def)

lemma let_go_fields [simp]:
  "current_latch (let_go_key h k) = current_latch k" "strobe (let_go_key h k) = strobe k"
  "next_strobe (let_go_key h k) = next_strobe k" "kb_machine (let_go_key h k) = kb_machine k"
  by (simp_all add: let_go_key_def)

lemma any_key_fields [simp]:
  "any_key_down (k\<lparr>next_strobe := t\<rparr>) = any_key_down k" "any_key_down (k\<lparr>strobe := b\<rparr>) = any_key_down k"
  by (simp_all add: any_key_down_def)

definition encoded :: "peripheral_machine \<Rightarrow> u8 \<Rightarrow> u8" where
  "encoded machine c =
     (if machine \<noteq> peripheral_machine_apple2e \<and> c \<ge> 0x61 \<and> c \<le> 0x7A then c - 0x61 + 0x41 else c)"

lemma press_key_kbd:
  "\<exists>t. kbd (press_key i h c m) = (kbd m)(i := (hold_key h ((kbd m i)\<lparr>current_latch := encoded (kb_machine (kbd m i)) c,
     strobe := True\<rparr>))\<lparr>next_strobe := t\<rparr>)"
proof -
  let ?k = "hold_key h ((kbd m i)\<lparr>current_latch := encoded (kb_machine (kbd m i)) c, strobe := True\<rparr>)"
  let ?u = "update_kbd i (\<lambda>k. hold_key h (k\<lparr>current_latch := encoded (kb_machine (kbd m i)) c, strobe := True\<rparr>)) m"
  have "press_key i h c m \<in> {?u, arm_auto_repeat i ?u, arm_rept i ?u}"
    by (simp add: press_key_def Let_def encoded_def)
  moreover have "?k\<lparr>next_strobe := next_strobe (kbd m i)\<rparr> = ?k" by (simp add: hold_key_def Let_def)
  then have "kbd ?u = (kbd m)(i := ?k\<lparr>next_strobe := next_strobe (kbd m i)\<rparr>)"
    unfolding kbd_update by (simp only:)
  moreover have "\<exists>t. kbd (arm_auto_repeat i ?u) = (kbd m)(i := ?k\<lparr>next_strobe := t\<rparr>)"
    "\<exists>t. kbd (arm_rept i ?u) = (kbd m)(i := ?k\<lparr>next_strobe := t\<rparr>)"
    by (auto simp del: update_kbd_clock)
  ultimately show ?thesis by fastforce
qed

lemma low_code: "c \<le> 0x7F \<Longrightarrow> (c :: u8) AND 0x7F = c"
proof -
  assume "c \<le> 0x7F"
  then have "unat c < 2 ^ 7" by (simp add: word_le_nat_alt)
  then have "take_bit 7 c = c"
    by (simp add: word_unat_eq_iff unsigned_take_bit_eq take_bit_nat_eq_self)
  then show ?thesis by (simp add: take_bit_eq_mask mask_eq_exp_minus_1)
qed

lemma encoded_low: "c \<le> 0x7F \<Longrightarrow> encoded machine c \<le> 0x7F"
  by (auto simp: encoded_def word_le_nat_alt unat_sub unat_word_ariths)

subsection \<open>Latch and strobe\<close>



subsection \<open>Held keys\<close>

definition keys_ok :: "keyboard \<Rightarrow> bool" where
  "keys_ok k \<longleftrightarrow> distinct (held k) \<and> length (held k) \<le> held_key_capacity"

lemma hold_key_ok: "keys_ok k \<Longrightarrow> keys_ok (hold_key h k)"
  by (cases "held k") (auto simp: keys_ok_def hold_key_def Let_def)

lemma let_go_ok: "keys_ok k \<Longrightarrow> keys_ok (let_go_key h k)"
  by (auto simp: keys_ok_def let_go_key_def length_remove1)

lemma keys_ok_fields [simp]:
  "keys_ok (k\<lparr>next_strobe := t\<rparr>) = keys_ok k" "keys_ok (k\<lparr>strobe := s\<rparr>) = keys_ok k"
  "keys_ok (k\<lparr>current_latch := c\<rparr>) = keys_ok k" "keys_ok (k\<lparr>rept_down := r\<rparr>) = keys_ok k"
  "keys_ok (k\<lparr>held := []\<rparr>)"
  by (simp_all add: keys_ok_def)

subsection \<open>The deadline and the event\<close>

definition card_of :: "nat \<Rightarrow> 'a peripherals_scheme \<Rightarrow> active_peripheral option" where
  "card_of i m = find (\<lambda>ap. ap_instance ap = Some i) (concat (active_peripherals m))"

definition deadline :: "nat \<Rightarrow> 'a keyboards_scheme \<Rightarrow> u64" where
  "deadline i m = (if next_strobe (kbd m i) = 0 then no_event else next_strobe (kbd m i))"

definition agrees :: "nat \<Rightarrow> 'a keyboards_scheme \<Rightarrow> bool" where
  "agrees i m \<longleftrightarrow> map_option event_cycle (card_of i m) = Some (deadline i m)"

lemma find_update_first:
  "update_first P f xs = Some ys \<Longrightarrow> (\<And>x. P (f x) = P x) \<Longrightarrow> find P ys = map_option f (find P xs) \<and> find P xs \<noteq> None"
  by (induction xs arbitrary: ys) (auto split: if_splits)

lemma find_update_none: "update_first P f xs = None \<longleftrightarrow> find P xs = None"
  by (induction xs) auto

lemma find_append: "find P (xs @ ys) = (case find P xs of None \<Rightarrow> find P ys | Some x \<Rightarrow> Some x)"
  by (induction xs) auto

lemma find_update_slot:
  assumes "\<And>x. P (f x) = P x"
  shows "case update_first_slot P f xss of None \<Rightarrow> find P (concat xss) = None
    | Some yss \<Rightarrow> find P (concat yss) = map_option f (find P (concat xss)) \<and> find P (concat xss) \<noteq> None"
proof (induction xss)
  case (Cons xs xss)
  show ?case
  proof (cases "update_first P f xs")
    case None
    then have "find P xs = None" by (simp add: find_update_none)
    with None Cons.IH show ?thesis by (auto simp: find_append split: option.splits)
  next
    case (Some ys)
    with find_update_first [OF Some assms] show ?thesis by (auto simp: find_append)
  qed
qed simp

lemma card_of_schedule:
  "card_of i (host_schedule_event (Some i) t m) =
     map_option (event_cycle_update (\<lambda>_. if t = 0 then no_event else t)) (card_of i m)"
proof -
  define e where "e = (if t = 0 then no_event else t)"
  show ?thesis
    using find_update_slot [of "\<lambda>ap. ap_instance ap = Some i" "event_cycle_update (\<lambda>_. e)" "active_peripherals m"]
    unfolding host_schedule_event_def card_of_def Let_def e_def [symmetric]
    by (cases "update_first_slot (\<lambda>ap. ap_instance ap = Some i) (event_cycle_update (\<lambda>_. e)) (active_peripherals m)")
      simp_all
qed

lemma card_of_update_kbd [simp]: "card_of i (update_kbd j f m) = card_of i m"
  by (simp add: card_of_def update_kbd_def)

lemma find_map_same: "(\<And>x. P (f x) = P x) \<Longrightarrow> find P (map f xs) = map_option f (find P xs)"
  by (induction xs) auto

lemma card_of_clear_due:
  "card_of i (clear_due now m) =
     map_option (\<lambda>ap. if event_cycle ap \<le> now then ap\<lparr>event_cycle := no_event\<rparr> else ap) (card_of i m)"
  unfolding card_of_def clear_due_def map_cards_def
  by (simp add: map_concat [symmetric]) (rule find_map_same, simp)

lemma agrees_arm: "card_of i m \<noteq> None \<Longrightarrow> agrees i (arm i t m)"
  by (auto simp: agrees_def arm_def card_of_schedule deadline_def)

lemma agrees_disarm: "card_of i m \<noteq> None \<Longrightarrow> agrees i (disarm i m)"
  by (auto simp: agrees_def disarm_def card_of_schedule deadline_def)

lemma agrees_present: "agrees i m \<Longrightarrow> card_of i m \<noteq> None"
  by (auto simp: agrees_def)

lemma agrees_update: "agrees i m \<Longrightarrow> (\<And>k. next_strobe (f k) = next_strobe k) \<Longrightarrow> agrees i (update_kbd i f m)"
  by (cases "next_strobe (kbd m i) = 0") (simp_all add: agrees_def deadline_def)

lemma agrees_repeat:
  "card_of i m \<noteq> None \<Longrightarrow> agrees i (repeat_strobe i now period m)"
  by (auto simp: agrees_def repeat_strobe_def Let_def card_of_schedule deadline_def)

lemma agrees_press:
  assumes "agrees i m" shows "agrees i (press_key i h c m)"
proof -
  have "agrees i (update_kbd i (\<lambda>k. hold_key h (k\<lparr>current_latch := d, strobe := True\<rparr>)) m)" for d
    by (rule agrees_update [OF assms]) simp
  from this agrees_present [OF this] show ?thesis
    by (auto simp: press_key_def Let_def arm_auto_repeat_def arm_rept_def intro!: agrees_arm)
qed

lemma agrees_release:
  assumes "agrees i m" shows "agrees i (release_key i h m)"
  using agrees_present [OF assms] agrees_update [OF assms, of "let_go_key h"]
  by (auto simp: release_key_def Let_def intro!: agrees_disarm)

lemma agrees_rept:
  assumes "agrees i m" shows "agrees i (set_rept i d m)"
proof -
  have a: "agrees i (update_kbd i (rept_down_update (\<lambda>_. d)) m)" by (rule agrees_update [OF assms]) simp
  then have "agrees i (update_kbd i (strobe_update (\<lambda>_. True)) (update_kbd i (rept_down_update (\<lambda>_. d)) m))"
    by (rule agrees_update) simp
  with a agrees_present [OF a] show ?thesis
    by (auto simp: set_rept_def Let_def arm_rept_def intro!: agrees_arm agrees_disarm)
qed

text \<open>
  Every way the machine drives a keyboard: its commands, a reset, a saved state loaded, the
  accesses of the program, the service of the events due, and the call after each batch.
\<close>

inductive keyboard_use :: "nat \<Rightarrow> 'a kb_host \<Rightarrow> 'a kb_host \<Rightarrow> bool" for i where
  command: "keyboard_use i m (snd (keyboard_abi_command (Some i) cid bytes m))"
| reset: "keyboard_use i m (keyboard_abi_reset (Some i) m)"
| load: "keyboard_use i m (snd (keyboard_abi_load_state (Some i) ss m))"
| access: "keyboard_use i m (snd (keyboard_io h (Some i) pc a w d t m))"
| service: "keyboard_use i m (keyboard_abi_think (Some i) 0 (clear_due (cumulative_cycles m) m))"
| after_batch: "keyboard_use i m (keyboard_abi_think (Some i) n m)"

lemma think_kbd:
  "keys_ok (kbd m i) \<Longrightarrow> keys_ok (kbd (keyboard_abi_think (Some i) n m) i)"
  by (auto simp: keyboard_abi_think_def Let_def repeat_strobe_def)

lemma keyboard_io_kbd: "snd (keyboard_io h (Some i) pc a w d t m) \<in> {m, update_kbd i (strobe_update (\<lambda>_. False)) m}"
  by (simp add: keyboard_io_def keyboard_io_read_data_def keyboard_io_strobe_apple2e_def
      keyboard_io_strobe_apple2_def Let_def)

lemma think_not_due:
  "cumulative_cycles m < next_strobe (kbd m i) \<or> next_strobe (kbd m i) = 0 \<Longrightarrow> keyboard_abi_think (Some i) n m = m"
  by (auto simp: keyboard_abi_think_def Let_def host_get_cycles_def)

lemma think_due:
  assumes "\<not> cumulative_cycles m < next_strobe (kbd m i)" "next_strobe (kbd m i) \<noteq> 0" "card_of i m \<noteq> None"
  shows "agrees i (keyboard_abi_think (Some i) n m)"
  using assms by (auto simp: keyboard_abi_think_def Let_def host_get_cycles_def agrees_disarm agrees_repeat)

lemma agrees_think: "agrees i m \<Longrightarrow> agrees i (keyboard_abi_think (Some i) n m)"
  using think_due [of m i n] think_not_due [of m i n] agrees_present [of i m] by metis

lemma agrees_service:
  assumes "agrees i m"
  shows "agrees i (keyboard_abi_think (Some i) 0 (clear_due (cumulative_cycles m) m))"
proof (cases "cumulative_cycles m < next_strobe (kbd m i) \<or> next_strobe (kbd m i) = 0")
  case True
  then have "keyboard_abi_think (Some i) 0 (clear_due (cumulative_cycles m) m) = clear_due (cumulative_cycles m) m"
    by (intro think_not_due) simp
  moreover have "agrees i (clear_due (cumulative_cycles m) m)"
    using assms True not_le by (cases "card_of i m") (auto simp: agrees_def card_of_clear_due deadline_def)
  ultimately show ?thesis by simp
next
  case False
  then show ?thesis
    using agrees_present [OF assms] by (intro think_due) (auto simp: card_of_clear_due)
qed

lemma command_ok:
  assumes "keys_ok (kbd m i)" shows "keys_ok (kbd (snd (keyboard_abi_command (Some i) cid bytes m)) i)"
proof -
  have "keys_ok (kbd (press_key i h c m) i)" for h c
    using press_key_kbd [of i h c m] assms by (auto intro!: hold_key_ok)
  then show ?thesis
    using assms let_go_ok [OF assms]
    by (simp add: keyboard_abi_command_def Let_def release_key_def set_rept_def)
qed

lemma agrees_command:
  assumes "agrees i m" shows "agrees i (snd (keyboard_abi_command (Some i) cid bytes m))"
proof -
  have "agrees i (disarm i (update_kbd i (held_update (\<lambda>_. [])) m))"
    using agrees_present [OF assms] by (simp add: agrees_disarm)
  then show ?thesis
    using assms agrees_press [OF assms] agrees_release [OF assms] agrees_rept [OF assms]
    by (simp add: keyboard_abi_command_def Let_def)
qed

lemma keyboard_use_keeps:
  assumes "keyboard_use i m m'" "keys_ok (kbd m i)" "agrees i m"
  shows "keys_ok (kbd m' i) \<and> agrees i m'"
  using assms
proof (cases rule: keyboard_use.cases)
  case (command cid bytes)
  with assms show ?thesis by (simp add: command_ok agrees_command)
next
  case reset
  with assms agrees_present [OF assms(3)] show ?thesis
    by (simp add: keyboard_abi_reset_def keys_ok_def agrees_disarm)
next
  case (load ss)
  with assms agrees_present [OF assms(3)] show ?thesis
    by (auto simp: keyboard_abi_load_state_def keys_ok_def agrees_disarm split: option.split)
next
  case (access h pc a w d t)
  with assms keyboard_io_kbd [of h i pc a w d t m] agrees_update [OF assms(3), of "strobe_update (\<lambda>_. False)"]
  show ?thesis by auto
next
  case service
  with assms think_kbd [of "clear_due (cumulative_cycles m) m" i 0] agrees_service show ?thesis by simp
next
  case (after_batch n)
  with assms think_kbd agrees_think show ?thesis by blast
qed

text \<open>
  C20. The keyboard's invariant: at most sixteen keys are held, none twice, and the event the core
  holds for the keyboard's card is the keyboard's own deadline, none when it has none.  Every use
  of the keyboard keeps it, in any order: commands, resets, saved states, accesses, and the
  service of due events, which clears the event before it calls the keyboard.
\<close>

theorem keyboard_invariant:
  assumes "(keyboard_use i)\<^sup>*\<^sup>* m m'" "keys_ok (kbd m i)" "agrees i m"
  shows "keys_ok (kbd m' i) \<and> agrees i m'"
  using assms by (induction rule: rtranclp_induct) (auto dest: keyboard_use_keeps)

lemma keyboard_invariant_witness:
  "agrees 0 (keyboard_abi_think (Some 0) 0 (clear_due (cumulative_cycles
     (snd (keyboard_abi_command (Some 0) (subsystem_keyboard OR 9) [1, 0, 0, 0, 0x61, 1, 0, 0, 0, 0, 0, 0] blank_host)))
     (snd (keyboard_abi_command (Some 0) (subsystem_keyboard OR 9) [1, 0, 0, 0, 0x61, 1, 0, 0, 0, 0, 0, 0] blank_host))))"
proof -
  have "keys_ok (kbd blank_host 0)" "agrees 0 blank_host"
    by (simp_all add: keys_ok_def agrees_def card_of_def deadline_def blank_host_def new_keyboard_def
        new_peripheral_def)
  moreover have "(keyboard_use 0)\<^sup>*\<^sup>* blank_host (keyboard_abi_think (Some 0) 0 (clear_due (cumulative_cycles
     (snd (keyboard_abi_command (Some 0) (subsystem_keyboard OR 9) [1, 0, 0, 0, 0x61, 1, 0, 0, 0, 0, 0, 0] blank_host)))
     (snd (keyboard_abi_command (Some 0) (subsystem_keyboard OR 9) [1, 0, 0, 0, 0x61, 1, 0, 0, 0, 0, 0, 0] blank_host))))"
    by (rule rtranclp.rtrancl_into_rtrancl [OF rtranclp.rtrancl_into_rtrancl [OF rtranclp.rtrancl_refl]])
      (rule keyboard_use.command, rule keyboard_use.service)
  ultimately show ?thesis by (blast dest: keyboard_invariant)
qed

subsection \<open>Auto-repeat\<close>

lemma repeat_strobe_kbd:
  assumes "0 < unat period" "unat now + unat period < 2 ^ 64" "next_strobe (kbd m i) \<le> now"
  shows "\<exists>n k. kbd (repeat_strobe i now period m) i = (kbd m i)\<lparr>strobe := True, next_strobe := n\<rparr> \<and> now < n \<and>
    unat n = unat (next_strobe (kbd m i)) + Suc k * unat period \<and> unat n \<le> unat now + unat period"
proof -
  have "0 < period" using assms(1) by (simp add: word_less_nat_alt)
  from catch_up_result [OF this assms(2,3)] show ?thesis
    by (auto simp: repeat_strobe_def Let_def)
qed

text \<open>
  C21. The timing of the auto-repeat of the IIe.  The first repeat after a key press is due on a
  frame boundary whose number is a multiple of sixteen, 32 to 47 frames after the press.  Whenever
  the keyboard is then called at or after that deadline with the key still held, the strobe is set
  again and the next repeat is due a positive multiple of four frames after the previous deadline,
  in the future and at most four frames away: a call that comes late loses repeats but keeps the
  phase.
\<close>

theorem auto_repeat_timing:
  assumes "kb_machine (kbd m i) = peripheral_machine_apple2e" "unat (cumulative_cycles m) < 2 ^ 62"
    and "kbd m2 i = kbd (press_key i h c m) i" "frame_cycles m2 = frame_cycles m"
    and "next_strobe (kbd m2 i) \<le> cumulative_cycles m2" "unat (cumulative_cycles m2) < 2 ^ 62"
    and "m3 = keyboard_abi_think (Some i) n m2"
  shows "(\<exists>frame. unat (next_strobe (kbd m2 i)) = frame * unat (frame_cycles m) \<and> 16 dvd frame \<and>
           unat (cumulative_cycles m) div unat (frame_cycles m) + 32 \<le> frame \<and>
           frame < unat (cumulative_cycles m) div unat (frame_cycles m) + 48) \<and>
         strobe (kbd m3 i) \<and>
         (\<exists>k. unat (next_strobe (kbd m3 i)) =
            unat (next_strobe (kbd m2 i)) + Suc k * (4 * unat (frame_cycles m))) \<and>
         cumulative_cycles m2 < next_strobe (kbd m3 i) \<and>
         unat (next_strobe (kbd m3 i)) \<le> unat (cumulative_cycles m2) + 4 * unat (frame_cycles m)"
proof -
  let ?f = "frame_cycles m" and ?now = "cumulative_cycles m2"
  have next2: "next_strobe (kbd m2 i) = auto_repeat_cycle (cumulative_cycles m) ?f"
    and machine: "kb_machine (kbd m2 i) = peripheral_machine_apple2e" and held: "any_key_down (kbd m2 i)"
    using assms(1) by (simp_all add: assms(3) press_key_def Let_def)
  have "unat (cumulative_cycles m) < 2 ^ 63" using assms(2) by simp
  note first = auto_repeat_bounds [OF frame_cycles_range [of m] this]
  then obtain frame where frame: "unat (next_strobe (kbd m2 i)) = frame * unat ?f" "32 \<le> frame"
    unfolding next2 by (metis add_leD2)
  then have "unat (next_strobe (kbd m2 i)) \<noteq> 0" using frame_cycles_range(1) [of m] by simp
  then have pending: "next_strobe (kbd m2 i) \<noteq> 0" by auto
  have period: "unat (repeat_period_frames * ?f) = 4 * unat ?f"
    using frame_cycles_range [of m] by (subst unat_mult_64) simp_all
  then have ok: "0 < unat (repeat_period_frames * ?f)" "unat ?now + unat (repeat_period_frames * ?f) < 2 ^ 64"
    using frame_cycles_range [of m] assms(6) by simp_all
  have "m3 = repeat_strobe i ?now (repeat_period_frames * ?f) m2"
    using pending machine held assms(5)
    by (simp add: assms(4,7) keyboard_abi_think_def Let_def host_get_cycles_def not_less [symmetric] del: not_less)
  with repeat_strobe_kbd [OF ok assms(5)] first show ?thesis
    unfolding period next2 [symmetric] by (auto simp del: mult_Suc)
qed

text \<open>A key pressed in the first frame, first served in frame 40, eight frames late.\<close>

lemma auto_repeat_timing_witness:
  "\<exists>m3. m3 = keyboard_abi_think (Some 0) 0 ((press_key 0 1 0x41 blank_host)\<lparr>cumulative_cycles := 681200\<rparr>) \<and>
     strobe (kbd m3 0) \<and> unat (next_strobe (kbd m3 0)) \<le> 681200 + 4 * 17030"
proof -
  let ?m2 = "(press_key 0 1 0x41 blank_host)\<lparr>cumulative_cycles := 681200\<rparr>"
  have b: "kb_machine (kbd blank_host 0) = peripheral_machine_apple2e" "cumulative_cycles blank_host = 0"
    "frame_cycles blank_host = 17030"
    by (simp_all add: blank_host_def new_keyboard_def frame_cycles_def host_get_frame_cycles_def Let_def)
  have f: "clks_per_frame (press_key 0 1 0x41 blank_host) = clks_per_frame blank_host"
    using card_step_clock(6) [OF press_key_step] .
  have f2: "frame_cycles ?m2 = frame_cycles blank_host"
    using f by (simp add: frame_cycles_def host_get_frame_cycles_def)
  have "next_strobe (kbd ?m2 0) \<le> cumulative_cycles ?m2"
    by (simp add: press_key_def b Let_def auto_repeat_cycle_def)
  then show ?thesis
    using auto_repeat_timing [of blank_host 0 ?m2 1 "0x41" "keyboard_abi_think (Some 0) 0 ?m2" 0] f2 b by simp
qed

subsection \<open>The save state\<close>

text \<open>
  What a program reads from the keyboard survives saving and loading: the latch and the strobe
  come back, in a machine in any state, with no key held and nothing scheduled; a buffer of another
  version or size is refused and changes nothing.
\<close>

theorem keyboard_state_round_trip:
  "\<exists>m'. keyboard_abi_load_state (Some j) (Some (keyboard_abi_save_state i m)) m2 = (peripheral_ok, m') \<and>
     fst (keyboard_io_read_data j m') = fst (keyboard_io_read_data i m) \<and>
     held (kbd m' j) = [] \<and> next_strobe (kbd m' j) = 0 \<and> kb_machine (kbd m' j) = kb_machine (kbd m2 j)"
  by (simp add: keyboard_abi_load_state_def keyboard_abi_save_state_def keyboard_io_read_data_def
      latched_def Let_def and.assoc)

end
