(* ===== verification/Via_6522.thy ===== *)
theory Via_6522
  imports Prelude
begin

text \<open>
  The 6522 of \<open>src/apple2/chips/6522.cpp\<close>: its registers, its interrupt flags and its two timers.
  A chip is never a null pointer here.  The tick counts of the timers' loops are natural numbers:
  a span is at most 65537 and no step of the loops wraps in the 32 bits of the code.
\<close>

datatype via_timer_phase = timer_running | load_delay | reload_pending

record via6522 =
  orb :: u8
  ora :: u8
  ddrb :: u8
  ddra :: u8
  shift_register :: u8
  acr :: u8
  pcr :: u8
  ifr :: u8
  ier :: u8
  ora_no_handshake :: u8
  t1_counter :: u16
  t1_latch :: u16
  t2_counter :: u16
  t2_latch :: u16
  t1_phase :: via_timer_phase
  t2_phase :: via_timer_phase
  t1_fired :: bool
  t2_fired :: bool
  pb7 :: bool

definition new_via :: via6522 where
  "new_via =
     \<lparr>orb = 0, ora = 0, ddrb = 0, ddra = 0, shift_register = 0, acr = 0, pcr = 0, ifr = 0, ier = 0,
      ora_no_handshake = 0, t1_counter = 0, t1_latch = 0, t2_counter = 0, t2_latch = 0,
      t1_phase = timer_running, t2_phase = timer_running, t1_fired = True, t2_fired = True, pb7 = False\<rparr>"

abbreviation (input) "ifr_timer2 \<equiv> (0x20 :: u8)"
abbreviation (input) "ifr_timer1 \<equiv> (0x40 :: u8)"
abbreviation (input) "ifr_any \<equiv> (0x80 :: u8)"
abbreviation (input) "ifr_mask \<equiv> (0x7F :: u8)"
abbreviation (input) "acr_t2_pulse_count \<equiv> (0x20 :: u8)"
abbreviation (input) "acr_t1_free_run \<equiv> (0x40 :: u8)"
abbreviation (input) "acr_pb7_output \<equiv> (0x80 :: u8)"

definition lo :: "u16 \<Rightarrow> u8" where "lo w = ucast (w AND 0xFF)"
definition hi :: "u16 \<Rightarrow> u8" where "hi w = ucast (drop_bit 8 w)"
definition set_lo :: "u8 \<Rightarrow> u16 \<Rightarrow> u16" where "set_lo v w = (w AND 0xFF00) OR ucast v"
definition set_hi :: "u8 \<Rightarrow> u16 \<Rightarrow> u16" where "set_hi v w = (w AND 0x00FF) OR push_bit 8 (ucast v)"

subsection \<open>Timers\<close>

definition ticks_to_underflow :: "u16 \<Rightarrow> u16 \<Rightarrow> via_timer_phase \<Rightarrow> nat" where
  "ticks_to_underflow counter latch phase =
     (case phase of load_delay \<Rightarrow> unat counter + 2
      | reload_pending \<Rightarrow> unat latch + 2
      | timer_running \<Rightarrow> unat counter + 1)"

definition advance :: "u16 \<Rightarrow> u16 \<Rightarrow> via_timer_phase \<Rightarrow> nat \<Rightarrow> u16 \<times> via_timer_phase" where
  "advance counter latch phase ticks =
     (if ticks = 0 then (counter, phase)
      else case phase of
        reload_pending \<Rightarrow> (latch - of_nat (ticks - 1), timer_running)
      | load_delay \<Rightarrow> (counter - of_nat (ticks - 1), timer_running)
      | timer_running \<Rightarrow> (counter - of_nat ticks, timer_running))"

definition advance_t1 :: "nat \<Rightarrow> via6522 \<Rightarrow> via6522" where
  "advance_t1 ticks v =
     (case advance (t1_counter v) (t1_latch v) (t1_phase v) ticks of
        (c, p) \<Rightarrow> v\<lparr>t1_counter := c, t1_phase := p\<rparr>)"

definition advance_t2 :: "nat \<Rightarrow> via6522 \<Rightarrow> via6522" where
  "advance_t2 ticks v =
     (case advance (t2_counter v) (t2_latch v) (t2_phase v) ticks of
        (c, p) \<Rightarrow> v\<lparr>t2_counter := c, t2_phase := p\<rparr>)"

definition free_run :: "via6522 \<Rightarrow> bool" where "free_run v = (acr v AND acr_t1_free_run \<noteq> 0)"

text \<open>What an underflow does.\<close>

definition fire_t1 :: "via6522 \<Rightarrow> via6522" where
  "fire_t1 v =
     (let v = v\<lparr>ifr := ifr v OR ifr_timer1, t1_fired := True,
                t1_phase := (if free_run v then reload_pending else timer_running)\<rparr>
      in if acr v AND acr_pb7_output \<noteq> 0
         then v\<lparr>pb7 := (if free_run v then \<not> pb7 v else True)\<rparr> else v)"

definition fire_t2 :: "via6522 \<Rightarrow> via6522" where
  "fire_t2 v = v\<lparr>ifr := ifr v OR ifr_timer2, t2_fired := True, t2_phase := timer_running\<rparr>"

definition span_t1 :: "via6522 \<Rightarrow> nat" where
  "span_t1 v = ticks_to_underflow (t1_counter v) (t1_latch v) (t1_phase v)"

definition span_t2 :: "via6522 \<Rightarrow> nat" where
  "span_t2 v = ticks_to_underflow (t2_counter v) (t2_latch v) (t2_phase v)"

lemma span_pos: "0 < ticks_to_underflow c l p"
  by (cases p) (simp_all add: ticks_to_underflow_def)

function step_timer1 :: "nat \<Rightarrow> via6522 \<Rightarrow> via6522" where
  "step_timer1 remaining v =
     (if remaining = 0 then v
      else if \<not> free_run v \<and> t1_fired v then advance_t1 remaining v
      else if span_t1 v > remaining then advance_t1 remaining v
      else step_timer1 (remaining - span_t1 v) (fire_t1 (advance_t1 (span_t1 v) v)))"
  by auto
termination
  by (relation "measure fst") (use span_pos in \<open>auto simp: span_t1_def\<close>)

function timer2_loop :: "nat \<Rightarrow> via6522 \<Rightarrow> via6522" where
  "timer2_loop remaining v =
     (if remaining = 0 then v
      else if t2_fired v then advance_t2 remaining v
      else if span_t2 v > remaining then advance_t2 remaining v
      else timer2_loop (remaining - span_t2 v) (fire_t2 (advance_t2 (span_t2 v) v)))"
  by auto
termination
  by (relation "measure fst") (use span_pos in \<open>auto simp: span_t2_def\<close>)

declare step_timer1.simps [simp del] timer2_loop.simps [simp del]

definition step_timer2 :: "nat \<Rightarrow> via6522 \<Rightarrow> via6522" where
  "step_timer2 cycles v = (if acr v AND acr_t2_pulse_count \<noteq> 0 then v else timer2_loop cycles v)"

subsection \<open>Registers\<close>

definition via_irq :: "via6522 \<Rightarrow> bool" where
  "via_irq v = (ifr v AND ier v AND ifr_mask \<noteq> 0)"

definition via_reset :: "via6522 \<Rightarrow> via6522" where
  "via_reset v =
     v\<lparr>orb := 0, ora := 0, ddrb := 0, ddra := 0, acr := 0, pcr := 0, ifr := 0, ier := 0,
       ora_no_handshake := 0, t1_phase := timer_running, t2_phase := timer_running,
       t1_fired := True, t2_fired := True, pb7 := False\<rparr>"

definition via_write :: "u8 \<Rightarrow> u8 \<Rightarrow> via6522 \<Rightarrow> via6522" where
  "via_write reg val v =
     (let r = reg AND 0x0F in
      if r = 0x0 then v\<lparr>orb := val\<rparr>
      else if r = 0x1 then v\<lparr>ora := val\<rparr>
      else if r = 0x2 then v\<lparr>ddrb := val\<rparr>
      else if r = 0x3 then v\<lparr>ddra := val\<rparr>
      else if r = 0x4 \<or> r = 0x6 then v\<lparr>t1_latch := set_lo val (t1_latch v)\<rparr>
      else if r = 0x5
      then let v = v\<lparr>t1_latch := set_hi val (t1_latch v)\<rparr>;
               v = v\<lparr>t1_counter := t1_latch v, t1_phase := load_delay, t1_fired := False,
                     ifr := ifr v AND NOT ifr_timer1\<rparr>
           in if acr v AND acr_pb7_output \<noteq> 0 then v\<lparr>pb7 := False\<rparr> else v
      else if r = 0x7 then v\<lparr>t1_latch := set_hi val (t1_latch v), ifr := ifr v AND NOT ifr_timer1\<rparr>
      else if r = 0x8 then v\<lparr>t2_latch := set_lo val (t2_latch v)\<rparr>
      else if r = 0x9
      then v\<lparr>t2_counter := push_bit 8 (ucast val) OR ucast (lo (t2_latch v)), t2_phase := load_delay,
             t2_fired := False, ifr := ifr v AND NOT ifr_timer2\<rparr>
      else if r = 0xA then v\<lparr>shift_register := val\<rparr>
      else if r = 0xB then v\<lparr>acr := val\<rparr>
      else if r = 0xC then v\<lparr>pcr := val\<rparr>
      else if r = 0xD then v\<lparr>ifr := ifr v AND NOT (val AND ifr_mask)\<rparr>
      else if r = 0xE
      then if val AND ifr_any \<noteq> 0 then v\<lparr>ier := ier v OR (val AND ifr_mask)\<rparr>
           else v\<lparr>ier := ier v AND NOT (val AND ifr_mask)\<rparr>
      else v\<lparr>ora_no_handshake := val\<rparr>)"

definition via_read :: "u8 \<Rightarrow> via6522 \<Rightarrow> u8 \<times> via6522" where
  "via_read reg v =
     (let r = reg AND 0x0F in
      if r = 0x0
      then (if acr v AND acr_pb7_output \<noteq> 0 then (orb v AND 0x7F) OR (if pb7 v then 0x80 else 0) else orb v, v)
      else if r = 0x1 then (ora v, v)
      else if r = 0x2 then (ddrb v, v)
      else if r = 0x3 then (ddra v, v)
      else if r = 0x4 then (lo (t1_counter v), v\<lparr>ifr := ifr v AND NOT ifr_timer1\<rparr>)
      else if r = 0x5 then (hi (t1_counter v), v)
      else if r = 0x6 then (lo (t1_latch v), v)
      else if r = 0x7 then (hi (t1_latch v), v)
      else if r = 0x8 then (lo (t2_counter v), v\<lparr>ifr := ifr v AND NOT ifr_timer2\<rparr>)
      else if r = 0x9 then (hi (t2_counter v), v)
      else if r = 0xA then (shift_register v, v)
      else if r = 0xB then (acr v, v)
      else if r = 0xC then (pcr v, v)
      else if r = 0xD then (ifr v OR (if via_irq v then ifr_any else 0), v)
      else if r = 0xE then (ier v OR ifr_any, v)
      else (ora_no_handshake v, v))"

definition via_step :: "u32 \<Rightarrow> via6522 \<Rightarrow> bool \<times> via6522" where
  "via_step cycles v =
     (let was_asserted = via_irq v;
          v' = step_timer2 (unat cycles) (step_timer1 (unat cycles) v)
      in (via_irq v' \<noteq> was_asserted, v'))"

subsection \<open>One Phi2 tick\<close>

text \<open>
  The reference: a timer as the data sheet describes it, one tick at a time.  The span-skipping
  loops are this, iterated.
\<close>

definition tick_t1 :: "via6522 \<Rightarrow> via6522" where
  "tick_t1 v =
     (case t1_phase v of
        load_delay \<Rightarrow> v\<lparr>t1_phase := timer_running\<rparr>
      | reload_pending \<Rightarrow> v\<lparr>t1_counter := t1_latch v, t1_phase := timer_running\<rparr>
      | timer_running \<Rightarrow>
          let v' = v\<lparr>t1_counter := t1_counter v - 1\<rparr>
          in if t1_counter v = 0 \<and> (free_run v \<or> \<not> t1_fired v) then fire_t1 v' else v')"

definition tick_t2 :: "via6522 \<Rightarrow> via6522" where
  "tick_t2 v =
     (case t2_phase v of
        load_delay \<Rightarrow> v\<lparr>t2_phase := timer_running\<rparr>
      | reload_pending \<Rightarrow> v\<lparr>t2_counter := t2_latch v, t2_phase := timer_running\<rparr>
      | timer_running \<Rightarrow>
          let v' = v\<lparr>t2_counter := t2_counter v - 1\<rparr>
          in if t2_counter v = 0 \<and> \<not> t2_fired v then fire_t2 v' else v')"

definition via_tick :: "via6522 \<Rightarrow> via6522" where
  "via_tick v = (if acr v AND acr_t2_pulse_count \<noteq> 0 then tick_t1 v else tick_t2 (tick_t1 v))"

lemma advance_Suc:
  "advance c l p (Suc n) = (case advance c l p 1 of (c', p') \<Rightarrow> advance c' l p' n)"
  by (cases p) (simp_all add: advance_def)

lemma span_Suc:
  assumes "1 < ticks_to_underflow c l p"
  shows "(case advance c l p 1 of (c', p') \<Rightarrow> ticks_to_underflow c' l p') = ticks_to_underflow c l p - 1"
proof (cases p)
  case timer_running
  with assms have "c \<noteq> 0" by (auto simp: ticks_to_underflow_def)
  then have "unat (c - 1) = unat c - 1" by (simp add: unat_minus_one)
  with timer_running assms show ?thesis by (simp add: advance_def ticks_to_underflow_def)
qed (simp_all add: advance_def ticks_to_underflow_def)

lemma span_one: "ticks_to_underflow c l p = Suc 0 \<longleftrightarrow> p = timer_running \<and> c = 0"
  by (cases p) (auto simp: ticks_to_underflow_def unat_eq_zero)

text \<open>
  The two timers share the argument: a counter that is advanced \<open>put\<close>, that \<open>fire\<close>s at an
  underflow while it is \<open>active\<close>, and a loop \<open>step\<close> that skips from underflow to underflow.
\<close>

locale countdown =
  fixes span :: "'v \<Rightarrow> nat" and adv :: "nat \<Rightarrow> 'v \<Rightarrow> 'v"
    and active :: "'v \<Rightarrow> bool" and fire :: "'v \<Rightarrow> 'v" and step :: "nat \<Rightarrow> 'v \<Rightarrow> 'v" and tick :: "'v \<Rightarrow> 'v"
  assumes span_gt_0: "0 < span v"
    and adv_0: "adv 0 v = v"
    and adv_Suc: "adv (Suc n) v = adv n (adv 1 v)"
    and span_adv: "1 < span v \<Longrightarrow> span (adv 1 v) = span v - 1"
    and active_adv: "active (adv n v) = active v"
    and tick_eq: "tick v = (if active v \<and> span v = 1 then fire (adv 1 v) else adv 1 v)"
    and step_0: "step 0 v = v"
    and step_short: "\<not> active v \<or> n < span v \<Longrightarrow> 0 < n \<Longrightarrow> step n v = adv n v"
    and step_long: "active v \<Longrightarrow> span v \<le> n \<Longrightarrow> 0 < n \<Longrightarrow> step n v = step (n - span v) (fire (adv (span v) v))"
begin

lemma advance_ticks:
  "\<not> active v \<or> n < span v \<Longrightarrow> (tick ^^ n) v = adv n v"
proof (induction n arbitrary: v)
  case 0
  then show ?case by (simp add: adv_0)
next
  case (Suc n)
  have t: "tick v = adv 1 v" using Suc.prems by (auto simp: tick_eq)
  have "\<not> active (adv 1 v) \<or> n < span (adv 1 v)"
    using Suc.prems span_adv [of v] by (auto simp: active_adv)
  from Suc.IH [OF this] show ?case
    unfolding funpow_Suc_right comp_apply adv_Suc [of n] t .
qed

lemma underflow_ticks:
  "active v \<Longrightarrow> Suc n = span v \<Longrightarrow> (tick ^^ Suc n) v = fire (adv (Suc n) v)"
proof (induction n arbitrary: v)
  case 0
  then have "span v = 1" by simp
  with 0 show ?case by (simp add: tick_eq)
next
  case (Suc n)
  have t: "tick v = adv 1 v" using Suc.prems(2) [symmetric] by (simp add: tick_eq)
  have "Suc n = span (adv 1 v)" using span_adv [of v] Suc.prems(2) [symmetric] by simp
  from Suc.IH [OF _ this] Suc.prems(1) show ?case
    unfolding funpow_Suc_right [of "Suc n"] comp_apply adv_Suc [of "Suc n"] t by (simp add: active_adv)
qed

lemma step_is_ticks: "step n v = (tick ^^ n) v"
proof (induction n arbitrary: v rule: less_induct)
  case (less n)
  consider "n = 0" | "0 < n" "\<not> active v \<or> n < span v" | "0 < n" "active v" "span v \<le> n" by fastforce
  then show ?case
  proof cases
    case 1
    then show ?thesis by (simp add: step_0)
  next
    case 2
    then show ?thesis by (simp add: step_short advance_ticks)
  next
    case 3
    obtain k where k: "Suc k = span v" using span_gt_0 [of v] by (metis gr0_implies_Suc)
    let ?w = "fire (adv (span v) v)"
    have "step n v = step (n - span v) ?w" using 3 by (simp add: step_long)
    also have "\<dots> = (tick ^^ (n - span v)) ?w" using 3 span_gt_0 [of v] by (intro less.IH) simp
    also have "?w = (tick ^^ span v) v" using underflow_ticks [OF 3(2) k] k by simp
    also have "(tick ^^ (n - span v)) ((tick ^^ span v) v) = (tick ^^ n) v"
      using funpow_add [of "n - span v" "span v" tick] 3(3) by simp
    finally show ?thesis .
  qed
qed

end

lemma advance_t_Suc:
  "advance_t1 (Suc n) v = advance_t1 n (advance_t1 1 v)" "advance_t2 (Suc n) v = advance_t2 n (advance_t2 1 v)"
  unfolding advance_t1_def advance_t2_def by (subst advance_Suc; simp split: prod.split)+

lemma span_advance:
  "1 < span_t1 v \<Longrightarrow> span_t1 (advance_t1 1 v) = span_t1 v - 1"
  "1 < span_t2 v \<Longrightarrow> span_t2 (advance_t2 1 v) = span_t2 v - 1"
  using span_Suc [of "t1_counter v" "t1_latch v" "t1_phase v"] span_Suc [of "t2_counter v" "t2_latch v" "t2_phase v"]
  by (auto simp: advance_t1_def advance_t2_def span_t1_def span_t2_def split: prod.splits)

lemma advance_fields [simp]:
  "advance_t1 0 v = v" "advance_t2 0 v = v"
  "free_run (advance_t1 n v) = free_run v" "t1_fired (advance_t1 n v) = t1_fired v"
  "t2_fired (advance_t2 n v) = t2_fired v" "ifr (advance_t1 n v) = ifr v" "ifr (advance_t2 n v) = ifr v"
  "acr (advance_t1 n v) = acr v" "acr (advance_t2 n v) = acr v"
  by (simp_all add: advance_t1_def advance_t2_def advance_def free_run_def split: prod.split via_timer_phase.split)

lemma tick_t1_eq:
  "tick_t1 v = (if (free_run v \<or> \<not> t1_fired v) \<and> span_t1 v = 1 then fire_t1 (advance_t1 1 v) else advance_t1 1 v)"
proof (cases "t1_phase v")
  case timer_running
  then have "advance_t1 1 v = v\<lparr>t1_counter := t1_counter v - 1\<rparr>"
    by (cases v) (simp add: advance_t1_def advance_def)
  with timer_running show ?thesis by (auto simp: tick_t1_def span_t1_def span_one Let_def)
qed (simp_all add: tick_t1_def advance_t1_def advance_def span_t1_def span_one)

lemma tick_t2_eq:
  "tick_t2 v = (if \<not> t2_fired v \<and> span_t2 v = 1 then fire_t2 (advance_t2 1 v) else advance_t2 1 v)"
proof (cases "t2_phase v")
  case timer_running
  then have "advance_t2 1 v = v\<lparr>t2_counter := t2_counter v - 1\<rparr>"
    by (cases v) (simp add: advance_t2_def advance_def)
  with timer_running show ?thesis by (auto simp: tick_t2_def span_t2_def span_one Let_def)
qed (simp_all add: tick_t2_def advance_t2_def advance_def span_t2_def span_one)

interpretation t1: countdown span_t1 advance_t1 "\<lambda>v. free_run v \<or> \<not> t1_fired v" fire_t1 step_timer1 tick_t1
proof unfold_locales
  fix v n
  show "0 < span_t1 v" by (simp add: span_t1_def span_pos)
  show "advance_t1 0 v = v" "(free_run (advance_t1 n v) \<or> \<not> t1_fired (advance_t1 n v)) = (free_run v \<or> \<not> t1_fired v)"
    by simp_all
  show "step_timer1 0 v = v" by (simp add: step_timer1.simps)
  show "step_timer1 n v = advance_t1 n v"
    if "\<not> (free_run v \<or> \<not> t1_fired v) \<or> n < span_t1 v" "0 < n"
    using that by (subst step_timer1.simps) auto
  show "step_timer1 n v = step_timer1 (n - span_t1 v) (fire_t1 (advance_t1 (span_t1 v) v))"
    if "free_run v \<or> \<not> t1_fired v" "span_t1 v \<le> n" "0 < n"
    using that by (subst step_timer1.simps) auto
qed (fact advance_t_Suc span_advance tick_t1_eq)+

interpretation t2: countdown span_t2 advance_t2 "\<lambda>v. \<not> t2_fired v" fire_t2 timer2_loop tick_t2
proof unfold_locales
  fix v n
  show "0 < span_t2 v" by (simp add: span_t2_def span_pos)
  show "advance_t2 0 v = v" "(\<not> t2_fired (advance_t2 n v)) = (\<not> t2_fired v)" by simp_all
  show "timer2_loop 0 v = v" by (simp add: timer2_loop.simps)
  show "timer2_loop n v = advance_t2 n v" if "\<not> \<not> t2_fired v \<or> n < span_t2 v" "0 < n"
    using that by (subst timer2_loop.simps) auto
  show "timer2_loop n v = timer2_loop (n - span_t2 v) (fire_t2 (advance_t2 (span_t2 v) v))"
    if "\<not> t2_fired v" "span_t2 v \<le> n" "0 < n"
    using that by (subst timer2_loop.simps) auto
qed (fact advance_t_Suc span_advance tick_t2_eq)+

end
