(* ===== verification/Ay_8910.thy ===== *)
theory Ay_8910
  imports Prelude
begin

text \<open>
  The AY-3-8910 of \<open>src/apple2/chips/AY8910.cpp\<close>.  A voice's level is the numerator of the
  code's amplitude table, over the full scale 18776; the division into floating point is a
  change of unit.  The output buffers are the list of samples that is returned.
\<close>

record ay8910 =
  ay_regs :: "u8 list"
  count_a :: u16
  count_b :: u16
  count_c :: u16
  out_a :: u8
  out_b :: u8
  out_c :: u8
  count_n :: u32
  rng :: u32
  out_n :: u8
  count_e :: u32
  envelope_step :: u32
  envelope_vol :: u8
  env_holding :: bool
  env_attack :: bool

definition vol_table :: "nat list" where
  "vol_table = [0, 103, 150, 218, 316, 458, 665, 963, 1396, 2023, 2933, 4251, 6163, 8934, 12952, 18776]"

definition new_ay8910 :: ay8910 where
  "new_ay8910 =
     \<lparr>ay_regs = replicate 16 0, count_a = 0, count_b = 0, count_c = 0, out_a = 0, out_b = 0, out_c = 0,
      count_n = 0, rng = 1, out_n = 0, count_e = 0, envelope_step = 0, envelope_vol = 15,
      env_holding = False, env_attack = False\<rparr>"

definition tone_period :: "u8 \<Rightarrow> u8 \<Rightarrow> u16" where
  "tone_period fine coarse = w16 fine OR push_bit 8 (w16 (coarse AND 0x0F))"

definition step_tone :: "u16 \<Rightarrow> u16 \<times> u8 \<Rightarrow> u16 \<times> u8" where
  "step_tone period co =
     (case co of (count, out) \<Rightarrow>
        if period = 0 then (count, 1)
        else let count = count + 1 in if count \<ge> period then (0, out XOR 1) else (count, out))"

definition advance_noise :: "ay8910 \<Rightarrow> ay8910" where
  "advance_noise p =
     (let p = (if ((rng p + 1) AND 2) XOR (rng p AND 1) \<noteq> 0 then p\<lparr>out_n := out_n p XOR 1\<rparr> else p)
      in p\<lparr>rng := drop_bit 1 (rng p) OR push_bit 16 ((rng p AND 1) XOR (drop_bit 3 (rng p) AND 1))\<rparr>)"

definition refresh_envelope_vol :: "ay8910 \<Rightarrow> ay8910" where
  "refresh_envelope_vol p =
     p\<lparr>envelope_vol := ucast (if env_attack p then envelope_step p else 15 - envelope_step p)\<rparr>"

definition hold_at :: "u32 \<Rightarrow> ay8910 \<Rightarrow> ay8910" where
  "hold_at amplitude p =
     p\<lparr>env_holding := True, envelope_step := (if env_attack p then amplitude else 15 - amplitude)\<rparr>"

definition step_envelope :: "bool \<Rightarrow> bool \<Rightarrow> bool \<Rightarrow> ay8910 \<Rightarrow> ay8910" where
  "step_envelope cont alt hold p =
     (let p = p\<lparr>envelope_step := envelope_step p + 1\<rparr> in
      if envelope_step p \<le> 15 then refresh_envelope_vol p
      else
        let p = (if \<not> cont then hold_at 0 p
                 else if hold then hold_at (if env_attack p \<noteq> alt then 15 else 0) p
                 else p\<lparr>envelope_step := 0, env_attack := (if alt then \<not> env_attack p else env_attack p)\<rparr>)
        in refresh_envelope_vol p)"

definition voice_level :: "u8 \<Rightarrow> bool \<Rightarrow> bool \<Rightarrow> u8 \<Rightarrow> ay8910 \<Rightarrow> nat" where
  "voice_level tone_out tone_off noise_off amplitude p =
     (let tone = (if tone_off then 1 else tone_out);
          noise = (if noise_off then 1 else out_n p)
      in if tone AND noise = 0 then 0
         else let vol = (if amplitude AND 0x10 \<noteq> 0 then envelope_vol p else amplitude AND 0x0F)
              in vol_table ! unat (vol AND 0x0F))"

definition ay8910_reset :: "ay8910 \<Rightarrow> ay8910" where
  "ay8910_reset p = new_ay8910"

definition ay8910_write :: "u8 \<Rightarrow> u8 \<Rightarrow> ay8910 \<Rightarrow> ay8910" where
  "ay8910_write r val p =
     (if r \<ge> 16 then p
      else
        let i = unat r; p = p\<lparr>ay_regs := (ay_regs p)[i := val]\<rparr> in
        if r = 1 \<or> r = 3 \<or> r = 5 then p\<lparr>ay_regs := (ay_regs p)[i := val AND 0x0F]\<rparr>
        else if r = 6 \<or> r = 8 \<or> r = 9 \<or> r = 10 then p\<lparr>ay_regs := (ay_regs p)[i := val AND 0x1F]\<rparr>
        else if r = 13
        then refresh_envelope_vol
               (p\<lparr>ay_regs := (ay_regs p)[i := val AND 0x0F], count_e := 0, envelope_step := 0,
                  env_holding := False, env_attack := (val AND 0x04 \<noteq> 0)\<rparr>)
        else p)"

definition step_tones :: "ay8910 \<Rightarrow> ay8910" where
  "step_tones p =
     (let r = (\<lambda>i. ay_regs p ! i);
          a = step_tone (tone_period (r 0) (r 1)) (count_a p, out_a p);
          b = step_tone (tone_period (r 2) (r 3)) (count_b p, out_b p);
          c = step_tone (tone_period (r 4) (r 5)) (count_c p, out_c p)
      in p\<lparr>count_a := fst a, out_a := snd a, count_b := fst b, out_b := snd b,
           count_c := fst c, out_c := snd c\<rparr>)"

definition step_noise :: "ay8910 \<Rightarrow> ay8910" where
  "step_noise p =
     (let noise_reg = ucast (ay_regs p ! 6 AND 0x1F) :: u32;
          noise_div = 2 * (if noise_reg \<noteq> 0 then noise_reg else 1);
          p = p\<lparr>count_n := count_n p + 1\<rparr>
      in if count_n p \<ge> noise_div then advance_noise (p\<lparr>count_n := 0\<rparr>) else p)"

definition step_shape :: "ay8910 \<Rightarrow> ay8910" where
  "step_shape p =
     (let env_reg = ucast (ay_regs p ! 11) OR push_bit 8 (ucast (ay_regs p ! 12)) :: u32;
          env_div = 2 * (if env_reg \<noteq> 0 then env_reg else 1);
          shape = ay_regs p ! 13
      in if env_holding p then p
         else
           let p = p\<lparr>count_e := count_e p + 1\<rparr>
           in if count_e p \<ge> env_div
              then step_envelope (shape AND 0x08 \<noteq> 0) (shape AND 0x02 \<noteq> 0) (shape AND 0x01 \<noteq> 0)
                     (p\<lparr>count_e := 0\<rparr>)
              else p)"

definition ay_levels :: "ay8910 \<Rightarrow> nat \<times> nat \<times> nat" where
  "ay_levels p =
     (let enable = ay_regs p ! 7 in
      (voice_level (out_a p) (enable AND 0x01 \<noteq> 0) (enable AND 0x08 \<noteq> 0) (ay_regs p ! 8) p,
       voice_level (out_b p) (enable AND 0x02 \<noteq> 0) (enable AND 0x10 \<noteq> 0) (ay_regs p ! 9) p,
       voice_level (out_c p) (enable AND 0x04 \<noteq> 0) (enable AND 0x20 \<noteq> 0) (ay_regs p ! 10) p))"

definition ay_tick :: "ay8910 \<Rightarrow> ay8910" where
  "ay_tick p = step_shape (step_noise (step_tones p))"

fun ay_loop :: "nat \<Rightarrow> ay8910 \<Rightarrow> (nat \<times> nat \<times> nat) list \<times> ay8910" where
  "ay_loop 0 p = ([], p)"
| "ay_loop (Suc n) p =
     (let p = ay_tick p in case ay_loop n p of (samples, p') \<Rightarrow> (ay_levels p # samples, p'))"

definition ay8910_step :: "nat \<Rightarrow> nat \<Rightarrow> ay8910 \<Rightarrow> (nat \<times> nat \<times> nat) list \<times> ay8910" where
  "ay8910_step ticks capacity p = ay_loop (min ticks capacity) p"

subsection \<open>What always holds of a chip\<close>

text \<open>
  The registers are within their widths, the noise generator is alive, and the envelope's
  amplitude is the one its step and its direction imply.
\<close>

definition register_mask :: "nat \<Rightarrow> u8" where
  "register_mask i = (if i \<in> {1, 3, 5, 13} then 0x0F else if i \<in> {6, 8, 9, 10} then 0x1F else 0xFF)"

definition ay_ok :: "ay8910 \<Rightarrow> bool" where
  "ay_ok p \<longleftrightarrow> length (ay_regs p) = 16 \<and>
     (\<forall>i < 16. ay_regs p ! i AND register_mask i = ay_regs p ! i) \<and> rng p \<noteq> 0 \<and>
     envelope_step p \<le> 15 \<and>
     envelope_vol p = ucast (if env_attack p then envelope_step p else 15 - envelope_step p)"

lemma lfsr_alive: "(r :: u32) \<noteq> 0 \<Longrightarrow> drop_bit 1 r OR push_bit 16 ((r AND 1) XOR (drop_bit 3 r AND 1)) \<noteq> 0"
proof
  assume r: "r \<noteq> 0" and z: "drop_bit 1 r OR push_bit 16 ((r AND 1) XOR (drop_bit 3 r AND 1)) = 0"
  have no_bit: "\<not> bit (drop_bit 1 r) n \<and> \<not> bit (push_bit 16 ((r AND 1) XOR (drop_bit 3 r AND 1))) n" for n
  proof -
    have "\<not> bit (drop_bit 1 r OR push_bit 16 ((r AND 1) XOR (drop_bit 3 r AND 1))) n" unfolding z by simp
    then show ?thesis unfolding bit_or_iff by blast
  qed
  have high: "\<not> bit r (Suc n)" for n
    using no_bit [of n] by (simp add: bit_drop_bit_eq)
  have "bit (push_bit 16 ((r AND 1) XOR (drop_bit 3 r AND 1))) 16 = bit r 0"
    using high [of 2] by (simp add: bit_simps)
  with no_bit [of 16] have "\<not> bit r 0" by blast
  with high have "\<not> bit r n" for n by (cases n) simp_all
  then have "r = 0" by (intro bit_word_eqI) simp
  with r show False by simp
qed

lemma ay_ok_new: "ay_ok new_ay8910"
  by (simp add: ay_ok_def new_ay8910_def nth_Cons')

lemma step_tones_ok: "ay_ok p \<Longrightarrow> ay_ok (step_tones p)"
  by (simp add: ay_ok_def step_tones_def Let_def)

lemma step_noise_ok: "ay_ok p \<Longrightarrow> ay_ok (step_noise p)"
  using lfsr_alive [of "rng p"] by (simp add: ay_ok_def step_noise_def advance_noise_def Let_def)

lemma step_envelope_ok: "ay_ok p \<Longrightarrow> ay_ok (step_envelope c a h p)"
  by (simp add: ay_ok_def step_envelope_def hold_at_def refresh_envelope_vol_def Let_def)

lemma step_shape_ok:
  assumes "ay_ok p" shows "ay_ok (step_shape p)"
proof -
  have "ay_ok (p\<lparr>count_e := x\<rparr>)" for x using assms by (simp add: ay_ok_def)
  with assms show ?thesis by (simp add: step_shape_def Let_def step_envelope_ok)
qed

lemma ay_tick_ok: "ay_ok p \<Longrightarrow> ay_ok (ay_tick p)"
  unfolding ay_tick_def by (intro step_shape_ok step_noise_ok step_tones_ok)

lemma u8_unat_eqs:
  "unat (r :: u8) = 1 \<longleftrightarrow> r = 1" "unat r = 3 \<longleftrightarrow> r = 3" "unat r = 5 \<longleftrightarrow> r = 5" "unat r = 6 \<longleftrightarrow> r = 6"
  "unat r = 8 \<longleftrightarrow> r = 8" "unat r = 9 \<longleftrightarrow> r = 9" "unat r = 10 \<longleftrightarrow> r = 10" "unat r = 13 \<longleftrightarrow> r = 13"
  by (simp_all only: word_unat_eq_iff unat_1 unat_numeral) simp_all

lemma register_mask_word:
  "register_mask (unat (r :: u8)) =
     (if r = 1 \<or> r = 3 \<or> r = 5 \<or> r = 13 then 0x0F else if r = 6 \<or> r = 8 \<or> r = 9 \<or> r = 10 then 0x1F else 0xFF)"
  unfolding register_mask_def insert_iff empty_iff u8_unat_eqs by (simp only: simp_thms)

lemma ay_write_regs:
  assumes "r < 16"
  shows "ay_regs (ay8910_write r v p) = (ay_regs p)[unat r := v AND register_mask (unat r)]"
proof -
  have "v AND 0xFF = v" by (simp add: u8_eq_bits bit_simps)
  with assms show ?thesis
    unfolding register_mask_word
    by (auto simp: ay8910_write_def refresh_envelope_vol_def Let_def not_le [symmetric])
qed

lemma ay_write_ok:
  assumes "ay_ok p" shows "ay_ok (ay8910_write r v p)"
proof (cases "r < 16")
  case True
  have mask: "(v AND w) AND w = v AND w" for w :: u8 by (simp add: and.assoc)
  have "length (ay_regs (ay8910_write r v p)) = 16"
    using assms unfolding ay_write_regs [OF True] by (simp add: ay_ok_def)
  moreover have "ay_regs (ay8910_write r v p) ! i AND register_mask i = ay_regs (ay8910_write r v p) ! i"
    if "i < 16" for i
    using assms that unfolding ay_write_regs [OF True] by (cases "i = unat r") (simp_all add: ay_ok_def mask)
  moreover have "rng (ay8910_write r v p) = rng p" "envelope_step (ay8910_write r v p) \<le> 15"
    "envelope_vol (ay8910_write r v p) = ucast (if env_attack (ay8910_write r v p) then
       envelope_step (ay8910_write r v p) else 15 - envelope_step (ay8910_write r v p))"
    using assms by (auto simp: ay8910_write_def refresh_envelope_vol_def Let_def ay_ok_def)
  ultimately show ?thesis using assms by (auto simp: ay_ok_def)
qed (simp add: ay8910_write_def assms not_less)

lemma level_bound: "voice_level t toff noff a p \<le> 18776"
proof -
  have "unat (v AND 0x0F) < 16" for v :: u8
    by (rule order_le_less_trans [where y = "unat (0x0F :: u8)"])
      (simp_all only: word_le_nat_alt [symmetric] word_and_le1, simp)
  moreover have "list_all (\<lambda>x. x \<le> 18776) vol_table" "length vol_table = 16" by (simp_all add: vol_table_def)
  ultimately have "vol_table ! unat (v AND 0x0F :: u8) \<le> 18776" for v by (simp add: list_all_length)
  then show ?thesis by (simp add: voice_level_def Let_def)
qed

lemma ay_loop_add:
  "ay_loop (n + k) p = (case ay_loop n p of (s, p') \<Rightarrow> apfst ((@) s) (ay_loop k p'))"
proof (induction n arbitrary: p)
  case 0
  then show ?case by (cases "ay_loop k p") simp
next
  case (Suc n)
  obtain s p' where "ay_loop n (ay_tick p) = (s, p')" by fastforce
  moreover obtain s' p'' where "ay_loop k p' = (s', p'')" by fastforce
  ultimately show ?case using Suc [of "ay_tick p"] by (simp add: Let_def)
qed

lemma ay_loop_state: "snd (ay_loop n p) = (ay_tick ^^ n) p"
proof (induction n arbitrary: p)
  case (Suc n)
  have "snd (ay_loop (Suc n) p) = snd (ay_loop n (ay_tick p))"
    by (simp add: Let_def case_prod_beta)
  with Suc [of "ay_tick p"] show ?case by (simp only: funpow_Suc_right comp_apply)
qed simp

lemma ay_loop_ok: "ay_ok p \<Longrightarrow> ay_ok (snd (ay_loop n p))"
  unfolding ay_loop_state by (induction n) (simp_all add: ay_tick_ok)

end
