(* ===== verification/Mockingboard.thy ===== *)
theory Mockingboard
  imports Keyboard Via_6522 Ay_8910
begin

text \<open>
  The Mockingboard of \<open>src/apple2/peripherals/mockingboard/Mockingboard.cpp\<close>: two 6522s, each
  driving an AY-3-8910 over its port B, on one interrupt line.

  The arrays of two chips are functions of the address bit that selects the chip, \<open>False\<close> for
  VIA A.  \<open>rendered\<close> is what each AY has put out since the card was made: the samples on their
  way to the floating-point output filter, which is not modelled, nor is the description of the
  audio channels.  A save state's reserved bytes, written zero and never read, are left out.
\<close>

type_synonym level = "nat \<times> nat \<times> nat"

record mockingboard =
  via :: "bool \<Rightarrow> via6522"
  ay :: "bool \<Rightarrow> ay8910"
  ay_latched_register :: "bool \<Rightarrow> u8"
  rendered :: "bool \<Rightarrow> level list"
  synced :: u32
  psg_remainder :: u32
  irq_line :: bool
  mb_slot :: int

record mockingboards = keyboards +
  mbs :: "nat \<Rightarrow> mockingboard"

type_synonym 'a mb_host = "'a mockingboards_ext kb_host"

abbreviation (input) "cycles_per_ay_tick \<equiv> (8 :: nat)"
abbreviation (input) "scratch_ticks \<equiv> (1024 :: nat)"
abbreviation (input) "ay_bus_bc1 \<equiv> (0x01 :: u8)"
abbreviation (input) "ay_bus_bdir \<equiv> (0x02 :: u8)"
abbreviation (input) "ay_bus_reset_n \<equiv> (0x04 :: u8)"

definition update_mb :: "nat \<Rightarrow> (mockingboard \<Rightarrow> mockingboard) \<Rightarrow> 'a mockingboards_scheme \<Rightarrow> 'a mockingboards_scheme" where
  "update_mb i f m = m\<lparr>mbs := (mbs m)(i := f (mbs m i))\<rparr>"

definition new_mockingboard :: "int \<Rightarrow> mockingboard" where
  "new_mockingboard slot =
     \<lparr>via = (\<lambda>_. new_via), ay = (\<lambda>_. new_ay8910), ay_latched_register = (\<lambda>_. 0), rendered = (\<lambda>_. []),
      synced = 0, psg_remainder = 0, irq_line = False, mb_slot = slot\<rparr>"

subsection \<open>The interrupt line and the passing of time\<close>

definition irq_out :: "mockingboard \<Rightarrow> bool" where
  "irq_out mb \<longleftrightarrow> via_irq (via mb False) \<or> via_irq (via mb True)"

definition update_irq :: "nat \<Rightarrow> 'a mockingboards_scheme \<Rightarrow> 'a mockingboards_scheme" where
  "update_irq i m =
     (let line = irq_out (mbs m i) in
      if line = irq_line (mbs m i) then m
      else host_assert_irq (mb_slot (mbs m i)) line (update_mb i (irq_line_update (\<lambda>_. line)) m))"

definition render_chunk :: "nat \<Rightarrow> mockingboard \<Rightarrow> mockingboard" where
  "render_chunk ticks mb =
     mb\<lparr>ay := (\<lambda>c. snd (ay8910_step ticks scratch_ticks (ay mb c))),
        rendered := (\<lambda>c. rendered mb c @ fst (ay8910_step ticks scratch_ticks (ay mb c)))\<rparr>"

fun render_ticks :: "nat \<Rightarrow> mockingboard \<Rightarrow> mockingboard" where
  "render_ticks ticks mb =
     (if ticks = 0 then mb
      else let count = (if ticks < scratch_ticks then ticks else scratch_ticks)
           in render_ticks (ticks - count) (render_chunk count mb))"

declare render_ticks.simps [simp del]

definition mb_advance :: "nat \<Rightarrow> u32 \<Rightarrow> 'a mockingboards_scheme \<Rightarrow> 'a mockingboards_scheme" where
  "mb_advance i cycles m =
     (if cycles = 0 then m
      else
        let v = (\<lambda>c. via_step cycles (via (mbs m i) c));
            changed = fst (v False) \<or> fst (v True);
            m = update_mb i (via_update (\<lambda>_ c. snd (v c))) m;
            m = (if changed then update_irq i m else m);
            total = unat (psg_remainder (mbs m i)) + unat cycles
        in update_mb i (\<lambda>mb. render_ticks (total div cycles_per_ay_tick)
             (mb\<lparr>psg_remainder := of_nat (total mod cycles_per_ay_tick)\<rparr>)) m)"

definition sync_to :: "nat \<Rightarrow> u32 \<Rightarrow> 'a mockingboards_scheme \<Rightarrow> 'a mockingboards_scheme" where
  "sync_to i executed m =
     (if executed \<le> synced (mbs m i) then m
      else update_mb i (synced_update (\<lambda>_. executed)) (mb_advance i (executed - synced (mbs m i)) m))"

subsection \<open>Accesses\<close>

definition ay_bus_cycle :: "bool \<Rightarrow> u8 \<Rightarrow> mockingboard \<Rightarrow> mockingboard" where
  "ay_bus_cycle chip val mb =
     (if val AND ay_bus_reset_n = 0
      then mb\<lparr>ay := (ay mb)(chip := ay8910_reset (ay mb chip)),
              ay_latched_register := (ay_latched_register mb)(chip := 0)\<rparr>
      else
        let bdir = val AND ay_bus_bdir \<noteq> 0; bc1 = val AND ay_bus_bc1 \<noteq> 0;
            port_a = ora (via mb chip)
        in if bdir \<and> bc1
           then if port_a < 16 then mb\<lparr>ay_latched_register := (ay_latched_register mb)(chip := port_a)\<rparr> else mb
           else if bdir
           then mb\<lparr>ay := (ay mb)(chip := ay8910_write (ay_latched_register mb chip) port_a (ay mb chip))\<rparr>
           else if bc1
           then let driven = ddra (via mb chip);
                    value = ay_regs (ay mb chip) ! unat (ay_latched_register mb chip)
                in mb\<lparr>via := (via mb)(chip := (via mb chip)\<lparr>ora := (port_a AND driven) OR (value AND NOT driven)\<rparr>)\<rparr>
           else mb)"

definition cx_read :: "nat option \<Rightarrow> u16 \<Rightarrow> u32 \<Rightarrow> 'a mockingboards_scheme \<Rightarrow> u8 \<times> 'a mockingboards_scheme" where
  "cx_read inst addr executed m =
     (case inst of None \<Rightarrow> (0, m)
      | Some i \<Rightarrow>
          let m = sync_to i executed m; chip = addr AND 0x80 \<noteq> 0
          in case via_read (lo8 addr) (via (mbs m i) chip) of
               (value, v) \<Rightarrow> (value, update_irq i (update_mb i (\<lambda>mb. mb\<lparr>via := (via mb)(chip := v)\<rparr>) m)))"

definition cx_write ::
  "nat option \<Rightarrow> u16 \<Rightarrow> u8 \<Rightarrow> u32 \<Rightarrow> 'a mockingboards_scheme \<Rightarrow> u8 \<times> 'a mockingboards_scheme" where
  "cx_write inst addr val executed m =
     (case inst of None \<Rightarrow> (0, m)
      | Some i \<Rightarrow>
          let m = sync_to i executed m; chip = addr AND 0x80 \<noteq> 0; reg = lo8 addr AND 0x0F;
              m = update_mb i (\<lambda>mb. mb\<lparr>via := (via mb)(chip := via_write reg val (via mb chip))\<rparr>) m;
              m = (if reg = 0 then update_mb i (ay_bus_cycle chip val) m else m)
          in (0, update_irq i m))"

abbreviation (input) "mb_cx_read_fn \<equiv> (32 :: nat)"
abbreviation (input) "mb_cx_write_fn \<equiv> (33 :: nat)"

definition mockingboard_io ::
  "nat \<Rightarrow> nat option \<Rightarrow> u16 \<Rightarrow> u16 \<Rightarrow> u8 \<Rightarrow> u8 \<Rightarrow> u32 \<Rightarrow> 'a mb_host \<Rightarrow> u8 option \<times> 'a mb_host" where
  "mockingboard_io h inst pc addr w d t m =
     (if h = mb_cx_read_fn then apfst Some (cx_read inst addr t m)
      else if h = mb_cx_write_fn then apfst Some (cx_write inst addr d t m)
      else (None, m))"

subsection \<open>Entry points\<close>

definition mb_abi_init :: "descriptor \<Rightarrow> int \<Rightarrow> 'a mb_host \<Rightarrow> nat option \<times> 'a mb_host" where
  "mb_abi_init api slot m =
     (let i = fresh_instance m;
          m = update_mb i (\<lambda>_. new_mockingboard slot) (m\<lparr>fresh_instance := i + 1\<rparr>)
      in (Some i, host_register_io slot None None (Some mb_cx_read_fn) (Some mb_cx_write_fn) m))"

definition mb_abi_reset :: "nat option \<Rightarrow> 'a mockingboards_scheme \<Rightarrow> 'a mockingboards_scheme" where
  "mb_abi_reset inst m =
     (case inst of None \<Rightarrow> m
      | Some i \<Rightarrow>
          host_assert_irq (mb_slot (mbs m i)) False
            (update_mb i (\<lambda>mb. mb\<lparr>via := (\<lambda>c. via_reset (via mb c)), ay := (\<lambda>c. ay8910_reset (ay mb c)),
               ay_latched_register := (\<lambda>_. 0), synced := 0, psg_remainder := 0, irq_line := False\<rparr>) m))"

definition mb_abi_think :: "nat option \<Rightarrow> u32 \<Rightarrow> 'a mockingboards_scheme \<Rightarrow> 'a mockingboards_scheme" where
  "mb_abi_think inst cycles m =
     (case inst of None \<Rightarrow> m
      | Some i \<Rightarrow>
          let done = synced (mbs m i);
              m = (if cycles > done then mb_advance i (cycles - done) m else m)
          in update_mb i (synced_update (\<lambda>_. 0)) m)"

definition phase_code :: "via_timer_phase \<Rightarrow> u8" where
  "phase_code p = (case p of timer_running \<Rightarrow> 0 | load_delay \<Rightarrow> 1 | reload_pending \<Rightarrow> 2)"

definition pack_via_flags :: "via6522 \<Rightarrow> u8" where
  "pack_via_flags v =
     (let flags = 0;
          flags = (if t1_fired v then flags OR 0x01 else flags);
          flags = (if t2_fired v then flags OR 0x02 else flags);
          flags = (if pb7 v then flags OR 0x04 else flags);
          flags = flags OR push_bit 3 (phase_code (t1_phase v))
      in flags OR push_bit 5 (phase_code (t2_phase v)))"

definition unpack_phase :: "u8 \<Rightarrow> nat \<Rightarrow> via_timer_phase" where
  "unpack_phase flags shift =
     (let code = drop_bit shift flags AND 0x03
      in if code = 1 then load_delay else if code = 2 then reload_pending else timer_running)"

record mockingboard_chip_save_state =
  cs_orb :: u8
  cs_ora :: u8
  cs_ddrb :: u8
  cs_ddra :: u8
  cs_t1_counter :: u16
  cs_t1_latch :: u16
  cs_t2_counter :: u16
  cs_t2_latch :: u16
  cs_serial_shift :: u8
  cs_acr :: u8
  cs_pcr :: u8
  cs_ifr :: u8
  cs_ier :: u8
  cs_ora_no_hs :: u8
  cs_via_flags :: u8
  cs_ay_regs :: "u8 list"
  cs_count_a :: u16
  cs_count_b :: u16
  cs_count_c :: u16
  cs_out_a :: u8
  cs_out_b :: u8
  cs_out_c :: u8
  cs_out_n :: u8
  cs_count_n :: u32
  cs_rng :: u32
  cs_count_e :: u32
  cs_envelope_step :: u32
  cs_envelope_vol :: u8
  cs_env_holding :: u8
  cs_ay_current_register :: u16
  cs_env_attack :: u8

record mockingboard_save_state =
  ms_version :: u32
  ms_struct_size :: u32
  ms_chips :: "bool \<Rightarrow> mockingboard_chip_save_state"
  ms_psg_remainder :: u32

definition save_chip :: "via6522 \<Rightarrow> ay8910 \<Rightarrow> u8 \<Rightarrow> mockingboard_chip_save_state" where
  "save_chip v psg latched_register =
     \<lparr>cs_orb = orb v, cs_ora = ora v, cs_ddrb = ddrb v, cs_ddra = ddra v, cs_t1_counter = t1_counter v,
      cs_t1_latch = t1_latch v, cs_t2_counter = t2_counter v, cs_t2_latch = t2_latch v,
      cs_serial_shift = shift_register v, cs_acr = acr v, cs_pcr = pcr v, cs_ifr = ifr v, cs_ier = ier v,
      cs_ora_no_hs = ora_no_handshake v, cs_via_flags = pack_via_flags v,
      cs_ay_regs = map (\<lambda>r. ay_regs psg ! r) [0..<16],
      cs_count_a = count_a psg, cs_count_b = count_b psg, cs_count_c = count_c psg,
      cs_out_a = out_a psg, cs_out_b = out_b psg, cs_out_c = out_c psg, cs_out_n = out_n psg,
      cs_count_n = count_n psg, cs_rng = rng psg, cs_count_e = count_e psg,
      cs_envelope_step = envelope_step psg, cs_envelope_vol = envelope_vol psg,
      cs_env_holding = b2w (env_holding psg), cs_ay_current_register = w16 latched_register,
      cs_env_attack = b2w (env_attack psg)\<rparr>"

definition mb_abi_save_state :: "nat \<Rightarrow> 'a mockingboards_scheme \<Rightarrow> mockingboard_save_state" where
  "mb_abi_save_state i m =
     (let mb = mbs m i in
      \<lparr>ms_version = 1, ms_struct_size = 232,
       ms_chips = (\<lambda>c. save_chip (via mb c) (ay mb c) (ay_latched_register mb c)),
       ms_psg_remainder = psg_remainder mb\<rparr>)"

definition load_via :: "mockingboard_chip_save_state \<Rightarrow> via6522 \<Rightarrow> via6522" where
  "load_via src v =
     v\<lparr>orb := cs_orb src, ora := cs_ora src, ddrb := cs_ddrb src, ddra := cs_ddra src,
       t1_counter := cs_t1_counter src, t1_latch := cs_t1_latch src, t2_counter := cs_t2_counter src,
       t2_latch := cs_t2_latch src, shift_register := cs_serial_shift src, acr := cs_acr src,
       pcr := cs_pcr src, ifr := cs_ifr src AND ifr_mask, ier := cs_ier src AND ifr_mask,
       ora_no_handshake := cs_ora_no_hs src, t1_fired := (cs_via_flags src AND 0x01 \<noteq> 0),
       t2_fired := (cs_via_flags src AND 0x02 \<noteq> 0), pb7 := (cs_via_flags src AND 0x04 \<noteq> 0),
       t1_phase := unpack_phase (cs_via_flags src) 3, t2_phase := unpack_phase (cs_via_flags src) 5\<rparr>"

definition load_ay :: "mockingboard_chip_save_state \<Rightarrow> ay8910 \<Rightarrow> ay8910" where
  "load_ay src psg =
     (let psg = fold (\<lambda>r. ay8910_write (of_nat r) (cs_ay_regs src ! r)) [0..<16] psg;
          psg = psg\<lparr>count_a := cs_count_a src, count_b := cs_count_b src, count_c := cs_count_c src,
                    out_a := cs_out_a src, out_b := cs_out_b src, out_c := cs_out_c src, out_n := cs_out_n src,
                    count_n := cs_count_n src, rng := (if cs_rng src \<noteq> 0 then cs_rng src else 1),
                    count_e := cs_count_e src, envelope_step := cs_envelope_step src AND 0x0F,
                    env_holding := (cs_env_holding src \<noteq> 0), env_attack := (cs_env_attack src \<noteq> 0)\<rparr>
      in psg\<lparr>envelope_vol := ucast (if env_attack psg then envelope_step psg else 15 - envelope_step psg)\<rparr>)"

definition mb_abi_load_state ::
  "nat option \<Rightarrow> mockingboard_save_state option \<Rightarrow> 'a mockingboards_scheme \<Rightarrow>
   peripheral_status \<times> 'a mockingboards_scheme" where
  "mb_abi_load_state inst buffer m =
     (case (inst, buffer) of
        (Some i, Some ss) \<Rightarrow>
          if ms_version ss \<noteq> 1 \<or> ms_struct_size ss \<noteq> 232 then (peripheral_error, m)
          else (peripheral_ok,
                update_irq i (update_mb i (\<lambda>mb.
                  mb\<lparr>via := (\<lambda>c. load_via (ms_chips ss c) (via mb c)),
                     ay := (\<lambda>c. load_ay (ms_chips ss c) (ay mb c)),
                     ay_latched_register := (\<lambda>c. ucast (cs_ay_current_register (ms_chips ss c) AND 0x0F)),
                     psg_remainder := ms_psg_remainder ss mod 8, synced := 0\<rparr>) m))
      | _ \<Rightarrow> (peripheral_error, m))"

definition mockingboard_peripheral :: descriptor where
  "mockingboard_peripheral =
     \<lparr>api_id = ''linapple.mockingboard'', api_name = ''Mockingboard'', abi_version = 1,
      compatible_slots = 0xFE, default_slot = 4\<rparr>"

definition mockingboard_code :: "'a mb_host card_code" where
  "mockingboard_code =
     \<lparr>card_init = mb_abi_init, card_reset = (\<lambda>_. Some mb_abi_reset),
      card_shutdown = (\<lambda>_. Some (\<lambda>_ m. m)), card_think = (\<lambda>_. Some mb_abi_think),
      card_on_vblank = (\<lambda>_. None), card_command = (\<lambda>_. None),
      card_query = (\<lambda>_. Some (\<lambda>_ _ _. (peripheral_incompatible, []))),
      card_save_state = (\<lambda>_. None), card_load_state = (\<lambda>_. None),
      card_io = mockingboard_io, card_strobe = (\<lambda>_ _ m. m)\<rparr>"

end
