(* ===== verification/Via_Props.thy ===== *)
theory Via_Props
  imports Via_6522
begin

text \<open>
  The 6522's timers: skipping from underflow to underflow is ticking, however the cycles are
  sliced, and the timer 1 flag comes at the data sheet's times.
\<close>

text \<open>Each timer writes its own fields and one bit of the flags.\<close>

definition t1_next :: "bool \<Rightarrow> bool \<Rightarrow> u16 \<Rightarrow> u16 \<Rightarrow> via_timer_phase \<Rightarrow> bool \<Rightarrow> bool \<Rightarrow>
    u16 \<times> via_timer_phase \<times> bool \<times> bool \<times> u8" where
  "t1_next run pb c l p f b =
     (case p of load_delay \<Rightarrow> (c, timer_running, f, b, 0)
      | reload_pending \<Rightarrow> (l, timer_running, f, b, 0)
      | timer_running \<Rightarrow>
          if c = 0 \<and> (run \<or> \<not> f)
          then (c - 1, if run then reload_pending else timer_running, True,
                if pb then (if run then \<not> b else True) else b, ifr_timer1)
          else (c - 1, timer_running, f, b, 0))"

definition t2_next :: "u16 \<Rightarrow> u16 \<Rightarrow> via_timer_phase \<Rightarrow> bool \<Rightarrow> u16 \<times> via_timer_phase \<times> bool \<times> u8" where
  "t2_next c l p f =
     (case p of load_delay \<Rightarrow> (c, timer_running, f, 0)
      | reload_pending \<Rightarrow> (l, timer_running, f, 0)
      | timer_running \<Rightarrow> if c = 0 \<and> \<not> f then (c - 1, timer_running, True, ifr_timer2)
                          else (c - 1, timer_running, f, 0))"

lemma tick_t1_form:
  "tick_t1 v = (case t1_next (free_run v) (acr v AND acr_pb7_output \<noteq> 0) (t1_counter v) (t1_latch v)
       (t1_phase v) (t1_fired v) (pb7 v) of
     (c, p, f, b, i) \<Rightarrow> v\<lparr>t1_counter := c, t1_phase := p, t1_fired := f, pb7 := b, ifr := ifr v OR i\<rparr>)"
proof (cases "t1_phase v")
  case timer_running
  show ?thesis
  proof (cases "t1_counter v = 0 \<and> (free_run v \<or> \<not> t1_fired v)")
    case True
    with timer_running show ?thesis
      by (cases v) (simp add: tick_t1_def t1_next_def fire_t1_def Let_def free_run_def)
  next
    case False
    then have "tick_t1 v = v\<lparr>t1_counter := t1_counter v - 1\<rparr>"
      using timer_running by (auto simp: tick_t1_def Let_def)
    moreover have "t1_next (free_run v) x (t1_counter v) l (t1_phase v) (t1_fired v) y =
        (t1_counter v - 1, timer_running, t1_fired v, y, 0)" for x l y
      using False timer_running by (simp add: t1_next_def)
    ultimately show ?thesis using timer_running by (cases v) simp
  qed
qed (cases v; simp add: tick_t1_def t1_next_def)+

lemma tick_t2_form:
  "tick_t2 v = (case t2_next (t2_counter v) (t2_latch v) (t2_phase v) (t2_fired v) of
     (c, p, f, i) \<Rightarrow> v\<lparr>t2_counter := c, t2_phase := p, t2_fired := f, ifr := ifr v OR i\<rparr>)"
proof (cases "t2_phase v")
  case timer_running
  then show ?thesis
    by (cases v) (simp add: tick_t2_def t2_next_def fire_t2_def Let_def)
qed (cases v; simp add: tick_t2_def t2_next_def)+

lemma ticks_commute: "tick_t1 (tick_t2 v) = tick_t2 (tick_t1 v)"
  unfolding tick_t1_form tick_t2_form
  by (cases v) (simp add: free_run_def or.assoc or.commute or.left_commute split: prod.split)

lemma tick_acr [simp]: "acr (tick_t1 v) = acr v" "acr (tick_t2 v) = acr v"
  by (simp_all add: tick_t1_def tick_t2_def fire_t1_def fire_t2_def Let_def split: via_timer_phase.split)

lemma ticks_acr [simp]: "acr ((tick_t1 ^^ n) v) = acr v" "acr ((tick_t2 ^^ n) v) = acr v"
  by (induction n) simp_all

lemma funpow_commute: "(\<And>x. f (g x) = g (f x)) \<Longrightarrow> (f ^^ n) (g x) = g ((f ^^ n) x)"
  by (induction n) simp_all

lemma funpow_both:
  assumes "\<And>x. f (g x) = g (f x)"
  shows "(g ^^ n) ((f ^^ n) x) = ((g \<circ> f) ^^ n) x"
proof (induction n)
  case (Suc n)
  have "(g ^^ n) (f ((f ^^ n) x)) = f ((g ^^ n) ((f ^^ n) x))"
    using funpow_commute [of g f n "(f ^^ n) x"] assms by simp
  with Suc show ?case by (simp add: assms)
qed simp

lemma via_tick_acr [simp]: "acr (via_tick v) = acr v"
  by (simp add: via_tick_def)

lemma via_ticks:
  "(via_tick ^^ n) v = (if acr v AND acr_t2_pulse_count \<noteq> 0 then (tick_t1 ^^ n) v else ((tick_t2 \<circ> tick_t1) ^^ n) v)"
proof (induction n arbitrary: v)
  case (Suc n)
  show ?case
  proof (cases "acr v AND acr_t2_pulse_count \<noteq> 0")
    case True
    with Suc [of "tick_t1 v"] show ?thesis
      unfolding funpow_Suc_right comp_apply by (simp add: via_tick_def [of v])
  next
    case False
    with Suc [of "tick_t2 (tick_t1 v)"] show ?thesis
      unfolding funpow_Suc_right comp_apply by (simp add: via_tick_def [of v])
  qed
qed simp

lemma via_step_ticks:
  "snd (via_step n v) = (via_tick ^^ unat n) v" "fst (via_step n v) = (via_irq (snd (via_step n v)) \<noteq> via_irq v)"
proof -
  show "snd (via_step n v) = (via_tick ^^ unat n) v"
    unfolding via_step_def Let_def snd_conv step_timer2_def t1.step_is_ticks t2.step_is_ticks via_ticks
    using funpow_both [of tick_t1 tick_t2 "unat n" v] ticks_commute by simp
qed (simp add: via_step_def Let_def)

text \<open>
  C30. Stepping a 6522 by any number of cycles at once, which skips from underflow to underflow, is
  stepping it one Phi2 tick at a time as the data sheet describes its timers; so it does not
  matter how the cycles between two accesses are sliced, and the reported change is a change of
  the interrupt output over the whole span.
\<close>

theorem via_step_is_ticks:
  "snd (via_step n v) = (via_tick ^^ unat n) v \<and>
   fst (via_step n v) = (via_irq ((via_tick ^^ unat n) v) \<noteq> via_irq v) \<and>
   (unat a + unat b < 2 ^ 32 \<longrightarrow> snd (via_step b (snd (via_step a v))) = snd (via_step (a + b) v))"
proof -
  have "unat (a + b) = unat a + unat b" if "unat a + unat b < 2 ^ 32"
    using that by (simp add: unat_add_lem [THEN iffD1])
  then have "snd (via_step b (snd (via_step a v))) = snd (via_step (a + b) v)" if "unat a + unat b < 2 ^ 32"
    using that by (simp add: via_step_ticks(1) add.commute [of "unat a"] funpow_add)
  then show ?thesis by (simp add: via_step_ticks)
qed

text \<open>Two slices of a timer counting down from $012C.\<close>

lemma via_step_is_ticks_witness:
  "snd (via_step 700 (snd (via_step 300 (via_write 5 1 (via_write 4 44 new_via))))) =
   snd (via_step 1000 (via_write 5 1 (via_write 4 44 new_via)))"
  using via_step_is_ticks [of 0 "via_write 5 1 (via_write 4 44 new_via)" 300 700] by simp

subsection \<open>When the flag comes\<close>

abbreviation t1_flag :: "via6522 \<Rightarrow> bool" where
  "t1_flag v \<equiv> ifr v AND ifr_timer1 \<noteq> 0"

lemma t2_flag_bit: "(ifr (tick_t2 v) AND ifr_timer1 = 0) = (ifr v AND ifr_timer1 = 0)"
proof -
  have "(x OR ifr_timer2) AND ifr_timer1 = x AND ifr_timer1" for x :: u8
    by (simp add: u8_eq_bits bit_simps)
  then show ?thesis
    by (simp add: tick_t2_def fire_t2_def Let_def split: via_timer_phase.split)
qed

lemma t1_flag_stays: "t1_flag v \<Longrightarrow> t1_flag (tick_t1 v)"
proof -
  have "(x OR ifr_timer1) AND ifr_timer1 \<noteq> 0" for x :: u8
    by (simp add: u8_eq_bits bit_simps)
  then show "t1_flag v \<Longrightarrow> t1_flag (tick_t1 v)"
    by (simp add: tick_t1_def fire_t1_def Let_def split: via_timer_phase.split)
qed

lemma t1_flag_after:
  assumes "\<not> t1_flag v"
  shows "t1_flag ((tick_t1 ^^ n) v) = ((free_run v \<or> \<not> t1_fired v) \<and> span_t1 v \<le> n)"
proof (cases "\<not> (free_run v \<or> \<not> t1_fired v) \<or> n < span_t1 v")
  case True
  from t1.advance_ticks [OF this] show ?thesis using True assms by auto
next
  case False
  then obtain k where k: "Suc k = span_t1 v" using t1.span_gt_0 [of v] by (metis gr0_implies_Suc)
  have "t1_flag (fire_t1 w)" for w
    by (simp add: fire_t1_def Let_def u8_eq_bits bit_simps)
  then have "t1_flag ((tick_t1 ^^ span_t1 v) v)"
    using t1.underflow_ticks [of v k] False k by simp
  then have "t1_flag ((tick_t1 ^^ j) ((tick_t1 ^^ span_t1 v) v))" for j
    by (induction j) (simp_all add: t1_flag_stays)
  from this [of "n - span_t1 v"] show ?thesis
    using False by (auto simp flip: funpow_add [THEN fun_cong, unfolded comp_apply])
qed

lemma t1_flag_step: "t1_flag (snd (via_step n v)) = t1_flag ((tick_t1 ^^ unat n) v)"
proof -
  have "(ifr ((tick_t2 ^^ k) w) AND ifr_timer1 = 0) = (ifr w AND ifr_timer1 = 0)" for k w
    by (induction k) (simp_all add: t2_flag_bit)
  then show ?thesis
    by (simp add: via_step_def Let_def step_timer2_def t1.step_is_ticks t2.step_is_ticks)
qed

lemma unat_join: "unat (w16 l OR push_bit 8 (w16 h)) = unat l + 256 * unat h"
proof -
  have l: "unat (w16 l) = unat l" and h: "unat (w16 h) = unat h"
    by (simp_all add: unsigned_ucast_eq take_bit_nat_eq_self_iff order_less_trans [OF unsigned_less])
  have "unat l < 256" "unat h < 256" using unsigned_less [of l] unsigned_less [of h] by simp_all
  moreover have "w16 l OR push_bit 8 (w16 h) = w16 l + push_bit 8 (w16 h)"
    by (rule disjunctive_add [symmetric]) (auto simp: bit_simps)
  moreover have "unat (push_bit 8 (w16 h)) = 256 * unat h"
    using \<open>unat h < 256\<close> by (simp add: push_bit_eq_mult unat_mult_lem [THEN iffD1] h)
  moreover have "unat (w16 l) + unat (push_bit 8 (w16 h)) < 65536"
    using calculation unfolding l by linarith
  ultimately show ?thesis by (simp add: unat_add_lem [THEN iffD1] l)
qed

lemma latch_join: "set_hi h (set_lo l w) = w16 l OR push_bit 8 (w16 h)"
proof -
  have "((x AND 0xFF00) OR w16 l) AND 0xFF = w16 l" for x :: u16
    by (simp add: u16_eq_bits bit_simps)
  then show ?thesis by (simp add: set_hi_def set_lo_def)
qed

lemma latch_bytes: "unat (set_hi h (set_lo l w)) = unat l + 256 * unat h"
  by (simp add: latch_join unat_join)

lemma tick_t2_keeps [simp]:
  "t1_latch (tick_t2 v) = t1_latch v" "t1_phase (tick_t2 v) = t1_phase v" "t1_fired (tick_t2 v) = t1_fired v"
  by (simp_all add: tick_t2_form split: prod.split)

lemma step_timer2_keeps [simp]:
  "t1_latch (step_timer2 n v) = t1_latch v" "t1_phase (step_timer2 n v) = t1_phase v"
  "t1_fired (step_timer2 n v) = t1_fired v" "acr (step_timer2 n v) = acr v"
proof -
  have "t1_latch ((tick_t2 ^^ n) v) = t1_latch v \<and> t1_phase ((tick_t2 ^^ n) v) = t1_phase v \<and>
      t1_fired ((tick_t2 ^^ n) v) = t1_fired v" for n
    by (induction n) simp_all
  then show "t1_latch (step_timer2 n v) = t1_latch v" "t1_phase (step_timer2 n v) = t1_phase v"
    "t1_fired (step_timer2 n v) = t1_fired v" "acr (step_timer2 n v) = acr v"
    by (simp_all add: step_timer2_def t2.step_is_ticks)
qed

lemma fire_t1_fields:
  "t1_latch (fire_t1 (advance_t1 n v)) = t1_latch v"
  "t1_phase (fire_t1 v) = (if free_run v then reload_pending else timer_running)"
  "t1_fired (fire_t1 v)" "acr (fire_t1 v) = acr v"
  by (simp_all add: fire_t1_def advance_t1_def Let_def split: prod.split)

text \<open>
  C31. Timer 1 interrupts when the data sheet says.  After its latch is written with \<open>N\<close>, low
  byte then high byte, the flag is set exactly from the tick \<open>N + 2\<close> on.  Once the program has
  taken that interrupt by reading the counter, in free-running mode the next flag again comes after
  exactly \<open>N + 2\<close> ticks, and in one-shot mode it never comes again.
\<close>

theorem t1_interval:
  assumes "N = unat l + 256 * unat h" "v1 = via_write 5 h (via_write 4 l v)"
    and "v2 = snd (via_read 4 (snd (via_step (of_nat (N + 2)) v1)))"
  shows "t1_flag (snd (via_step n v1)) = (N + 2 \<le> unat n) \<and>
    t1_flag (snd (via_step n v2)) = (free_run v \<and> N + 2 \<le> unat n)"
proof -
  have clear: "(x AND NOT ifr_timer1) AND ifr_timer1 = 0" for x :: u8
    by (simp add: u8_eq_bits bit_simps)
  have v1: "\<not> t1_flag v1" "\<not> t1_fired v1" "span_t1 v1 = N + 2" "free_run v1 = free_run v"
    "unat (t1_latch v1) = N"
    using clear [of "ifr v"]
    by (simp_all add: assms(1,2) via_write_def Let_def span_t1_def ticks_to_underflow_def latch_bytes free_run_def)
  have "unat l < 256" "unat h < 256" using unsigned_less [of l] unsigned_less [of h] by simp_all
  then have "N < 65536" unfolding assms(1) by linarith
  define M where "M = N + 2"
  have "M < 4294967296" using \<open>N < 65536\<close> by (simp add: M_def)
  then have M: "unat (of_nat M :: u32) = M"
    by (simp only: unsigned_of_nat) (simp add: take_bit_nat_eq_self)
  have w: "(tick_t1 ^^ M) v1 = fire_t1 (advance_t1 M v1)"
    using t1.underflow_ticks [of v1 "N + 1"] v1 by (simp add: M_def del: funpow.simps)
  define x where "x = step_timer2 M (fire_t1 (advance_t1 M v1))"
  have "v2 = x\<lparr>ifr := ifr x AND NOT ifr_timer1\<rparr>"
    unfolding assms(3) M_def [symmetric]
    by (simp add: via_read_def via_step_def Let_def M t1.step_is_ticks w x_def)
  moreover have "t1_latch x = t1_latch v1" "t1_phase x = (if free_run v then reload_pending else timer_running)"
    "t1_fired x" "acr x = acr v1"
    using v1(4) by (simp_all add: x_def fire_t1_fields)
  ultimately have v2: "t1_latch v2 = t1_latch v1" "t1_phase v2 = (if free_run v then reload_pending else timer_running)"
    "t1_fired v2" "\<not> t1_flag v2" "free_run v2 = free_run v"
    using v1(4) clear by (simp_all add: free_run_def)
  have "span_t1 v2 = N + 2" if "free_run v"
    using that v2(1,2) v1(5) by (simp add: span_t1_def ticks_to_underflow_def)
  with t1_flag_after [OF v1(1)] t1_flag_after [OF v2(4)] v1 v2(3,5) show ?thesis
    by (auto simp: t1_flag_step)
qed

text \<open>Period 300 ($12C), free running.\<close>

lemma t1_interval_witness:
  "\<not> t1_flag (snd (via_step 301 (via_write 5 1 (via_write 4 44 new_via)))) \<and>
   t1_flag (snd (via_step 302 (via_write 5 1 (via_write 4 44 new_via))))"
  using t1_interval [OF _ refl refl, of 300 44 1 301 new_via] t1_interval [OF _ refl refl, of 300 44 1 302 new_via]
  by simp

end
