(* ===== verification/Mockingboard_Props.thy ===== *)
theory Mockingboard_Props
  imports Mockingboard Via_Props Keyboard_Props Cpu_Props
begin

text \<open>
  The Mockingboard meets the cards' contract; its interrupt line follows its two 6522s; and its
  time is the processor's, however the accesses slice it.
\<close>

subsection \<open>The interrupt line\<close>

definition slot_line :: "int \<Rightarrow> 'a machine_scheme \<Rightarrow> bool" where
  "slot_line slot m \<longleftrightarrow> bit (bm_irq m) (irq_src_code (slot_sources ! nat (slot - 1)))"

lemma assert_irq_twice [simp]: "host_assert_irq s a (host_assert_irq s b m) = host_assert_irq s a m"
proof -
  have "(x OR y) OR y = x OR y" "(x AND NOT y) OR y = x OR y" "(x OR y) AND NOT y = x AND NOT y"
    "(x AND NOT y) AND NOT y = x AND NOT y" for x y :: u32
    by (auto intro!: bit_word_eqI simp: bit_simps)
  then show ?thesis by (simp add: host_assert_irq_def cpu_irq_assert_def cpu_irq_deassert_def Let_def)
qed

lemma assert_irq_mbs [simp]:
  "mbs (host_assert_irq s a m) = mbs m"
  "host_assert_irq s a (update_mb i f m) = update_mb i f (host_assert_irq s a m)"
  by (simp_all add: host_assert_irq_def cpu_irq_assert_def cpu_irq_deassert_def update_mb_def Let_def)

lemma slot_line_assert: "1 \<le> s \<Longrightarrow> s \<le> 7 \<Longrightarrow> slot_line s (host_assert_irq s a m) = a"
  using irq_bit_bit
  by (simp add: slot_line_def host_assert_irq_def cpu_irq_assert_def cpu_irq_deassert_def Let_def bit_simps)

lemma assert_irq_same:
  assumes "1 \<le> s" "s \<le> 7" "slot_line s m = a" shows "host_assert_irq s a m = m"
proof -
  let ?d = "slot_sources ! nat (s - 1)"
  have "bm_irq m OR irq_bit ?d = bm_irq m" if "a"
    using that assms(3) by (auto intro!: bit_word_eqI simp: slot_line_def bit_simps dest: no_source_bits)
  moreover have "bm_irq m AND NOT (irq_bit ?d) = bm_irq m" if "\<not> a"
    using that assms(3) by (auto intro!: bit_word_eqI simp: slot_line_def bit_simps dest: no_source_bits)
  ultimately show ?thesis
    using assms(1,2) by (simp add: host_assert_irq_def cpu_irq_assert_def cpu_irq_deassert_def Let_def)
qed

lemma update_mb_simps [simp]:
  "mbs (update_mb i f m) i = f (mbs m i)" "update_mb i g (update_mb i f m) = update_mb i (\<lambda>x. g (f x)) m"
  "j \<noteq> i \<Longrightarrow> mbs (update_mb i f m) j = mbs m j"
  by (simp_all add: update_mb_def)

lemma update_mb_id: "f (mbs m i) = mbs m i \<Longrightarrow> update_mb i f m = m"
  by (simp add: update_mb_def)

lemma update_mb_cong: "f (mbs m i) = g (mbs m i) \<Longrightarrow> update_mb i f m = update_mb i g m"
  by (simp add: update_mb_def)

text \<open>Driving the line as the chips are, whether or not it changes: what the code's test saves.\<close>

definition drive :: "nat \<Rightarrow> 'a mockingboards_scheme \<Rightarrow> 'a mockingboards_scheme" where
  "drive i m = host_assert_irq (mb_slot (mbs m i)) (irq_out (mbs m i))
     (update_mb i (irq_line_update (\<lambda>_. irq_out (mbs m i))) m)"

definition line_set :: "nat \<Rightarrow> 'a mockingboards_scheme \<Rightarrow> bool" where
  "line_set i m \<longleftrightarrow> host_assert_irq (mb_slot (mbs m i)) (irq_line (mbs m i)) m = m"

lemma update_irq_drive: "line_set i m \<Longrightarrow> update_irq i m = drive i m"
proof (cases "irq_out (mbs m i) = irq_line (mbs m i)")
  case True
  moreover assume "line_set i m"
  moreover have "update_mb i (irq_line_update (\<lambda>_. irq_line (mbs m i))) m = m" by (rule update_mb_id) simp
  ultimately show ?thesis by (simp add: update_irq_def drive_def line_set_def Let_def)
qed (simp add: update_irq_def drive_def Let_def)

lemma line_set_update:
  assumes "line_set i m" "irq_line (f (mbs m i)) = irq_line (mbs m i)" "mb_slot (f (mbs m i)) = mb_slot (mbs m i)"
  shows "line_set i (update_mb i f m)"
  using assms by (simp add: line_set_def)

lemma irq_out_line [simp]: "irq_out (x\<lparr>irq_line := b\<rparr>) = irq_out x"
  by (simp add: irq_out_def)

lemma line_set_drive [simp]: "line_set i (drive i m)"
  by (simp add: line_set_def drive_def)

lemma drive_absorb:
  assumes "\<And>x b. f (x\<lparr>irq_line := b\<rparr>) = (f x)\<lparr>irq_line := b\<rparr>" "\<And>x. mb_slot (f x) = mb_slot x"
  shows "drive i (update_mb i f (drive i m)) = drive i (update_mb i f m)"
  by (simp add: drive_def assms del: assert_irq_mbs(2)) (simp add: assms)

subsection \<open>Time\<close>

text \<open>What \<open>n\<close> cycles are to the chips: \<open>n\<close> Phi2 ticks, and an AY tick for every eight.\<close>

definition sound_run :: "nat \<Rightarrow> mockingboard \<Rightarrow> mockingboard" where
  "sound_run n mb =
     (let total = unat (psg_remainder mb) + n; k = total div cycles_per_ay_tick in
      mb\<lparr>via := (\<lambda>c. (via_tick ^^ n) (via mb c)), ay := (\<lambda>c. snd (ay_loop k (ay mb c))),
         rendered := (\<lambda>c. rendered mb c @ fst (ay_loop k (ay mb c))),
         psg_remainder := of_nat (total mod cycles_per_ay_tick)\<rparr>)"

lemma ay_loop_append:
  "fst (ay_loop (n + k) p) = fst (ay_loop n p) @ fst (ay_loop k (snd (ay_loop n p)))"
  "snd (ay_loop (n + k) p) = snd (ay_loop k (snd (ay_loop n p)))"
  by (simp_all add: ay_loop_add case_prod_beta)

lemma render_ticks_run:
  "render_ticks n mb =
     mb\<lparr>ay := (\<lambda>c. snd (ay_loop n (ay mb c))), rendered := (\<lambda>c. rendered mb c @ fst (ay_loop n (ay mb c)))\<rparr>"
proof (induction n mb rule: render_ticks.induct)
  case (1 ticks mb)
  show ?case
  proof (cases "ticks = 0")
    case False
    define count where "count = (if ticks < scratch_ticks then ticks else scratch_ticks)"
    have c: "count \<le> scratch_ticks" "ticks = count + (ticks - count)" by (simp_all add: count_def)
    have "render_ticks ticks mb = render_ticks (ticks - count) (render_chunk count mb)"
      using False by (subst render_ticks.simps) (simp add: count_def Let_def)
    also have "\<dots> = (render_chunk count mb)\<lparr>ay := (\<lambda>d. snd (ay_loop (ticks - count) (ay (render_chunk count mb) d))),
        rendered := (\<lambda>d. rendered (render_chunk count mb) d @ fst (ay_loop (ticks - count) (ay (render_chunk count mb) d)))\<rparr>"
      using 1 [OF False count_def] .
    also have "\<dots> = mb\<lparr>ay := (\<lambda>d. snd (ay_loop (count + (ticks - count)) (ay mb d))),
        rendered := (\<lambda>d. rendered mb d @ fst (ay_loop (count + (ticks - count)) (ay mb d)))\<rparr>"
      using c(1) unfolding ay_loop_append by (simp add: render_chunk_def ay8910_step_def min_def)
    finally show ?thesis unfolding c(2) [symmetric] .
  qed (simp add: render_ticks.simps)
qed

lemma unat_of_mod_8 [simp]: "unat (of_nat (n mod 8) :: u32) = n mod 8"
proof -
  have "n mod 8 < 8" by simp
  then have "n mod 8 < 2 ^ 32" by (rule order_less_le_trans) simp
  then show ?thesis by (simp add: unsigned_of_nat take_bit_nat_eq_self_iff)
qed

lemma sound_run_add: "sound_run b (sound_run a mb) = sound_run (a + b) mb"
proof -
  define r where "r = unat (psg_remainder mb)"
  define q s where "q = (r + a) div 8" and "s = (r + a) mod 8"
  have t: "r + (a + b) = 8 * q + (s + b)" by (simp add: q_def s_def)
  have "(r + (a + b)) div 8 = q + (s + b) div 8" "(r + (a + b)) mod 8 = (s + b) mod 8"
    unfolding t by simp_all
  moreover have "unat (of_nat s :: u32) = s" by (simp add: s_def)
  ultimately show ?thesis
    by (simp add: sound_run_def Let_def r_def [symmetric] q_def [symmetric] s_def [symmetric]
        ay_loop_append funpow_add add.commute [of a])
qed

lemma sound_run_0: "unat (psg_remainder mb) < 8 \<Longrightarrow> sound_run 0 mb = mb"
  by (simp add: sound_run_def Let_def)

lemma sound_run_frame [simp]:
  "sound_run n (x\<lparr>irq_line := b\<rparr>) = (sound_run n x)\<lparr>irq_line := b\<rparr>"
  "sound_run n (x\<lparr>synced := w\<rparr>) = (sound_run n x)\<lparr>synced := w\<rparr>"
  "mb_slot (sound_run n x) = mb_slot x" "irq_line (sound_run n x) = irq_line x"
  "synced (sound_run n x) = synced x" "unat (psg_remainder (sound_run n x)) < 8"
  by (simp_all add: sound_run_def Let_def)

text \<open>The line is in step with the chips and with the processor.\<close>

definition in_step :: "nat \<Rightarrow> 'a mockingboards_scheme \<Rightarrow> bool" where
  "in_step i m \<longleftrightarrow> line_set i m \<and> irq_line (mbs m i) = irq_out (mbs m i)"

lemma in_step_drive: "in_step i m \<Longrightarrow> drive i m = m"
  using update_irq_drive [of i m] by (simp add: in_step_def update_irq_def)

lemma in_step_drive_self [simp]: "in_step i (drive i m)"
  by (simp add: in_step_def) (simp add: drive_def)

lemma drive_mbs [simp]:
  "mbs (drive i m) i = (mbs m i)\<lparr>irq_line := irq_out (mbs m i)\<rparr>"
  by (simp add: drive_def)

lemma mb_advance_run:
  assumes "in_step i m" "unat (psg_remainder (mbs m i)) < 8"
  shows "mb_advance i n m = drive i (update_mb i (sound_run (unat n)) m)"
proof (cases "n = 0")
  case True
  then show ?thesis
    using assms in_step_drive [OF assms(1)]
    by (simp add: mb_advance_def update_mb_id sound_run_0)
next
  case False
  let ?tick = "\<lambda>mb. mb\<lparr>via := (\<lambda>c. (via_tick ^^ unat n) (via mb c))\<rparr>"
  let ?v = "\<lambda>c. via_step n (via (mbs m i) c)"
  let ?m1 = "update_mb i ?tick m"
  have tick: "update_mb i (via_update (\<lambda>_ c. snd (?v c))) m = ?m1"
    by (rule update_mb_cong) (simp add: via_step_ticks)
  have ag: "line_set i ?m1" using assms(1) by (simp add: in_step_def line_set_update)
  have line: "irq_line (mbs ?m1 i) = irq_out (mbs m i)" using assms(1) by (simp add: in_step_def)
  have "(if fst (?v False) \<or> fst (?v True) then update_irq i ?m1 else ?m1) = drive i ?m1"
  proof (cases "fst (?v False) \<or> fst (?v True)")
    case True
    then show ?thesis using update_irq_drive [OF ag] by simp
  next
    case False
    then have "irq_out (mbs ?m1 i) = irq_out (mbs m i)"
      by (simp add: irq_out_def via_step_ticks)
    then have "in_step i ?m1" using ag line by (simp add: in_step_def)
    with False in_step_drive [of i ?m1] show ?thesis by simp
  qed
  then have "mb_advance i n m = update_mb i (\<lambda>mb. render_ticks
      ((unat (psg_remainder (mbs (drive i ?m1) i)) + unat n) div 8)
      (mb\<lparr>psg_remainder := of_nat ((unat (psg_remainder (mbs (drive i ?m1) i)) + unat n) mod 8)\<rparr>)) (drive i ?m1)"
    using False unfolding mb_advance_def Let_def tick by simp
  also have "\<dots> = drive i (update_mb i (sound_run (unat n)) m)"
    by (simp add: drive_def render_ticks_run sound_run_def Let_def irq_out_def)
      (rule update_mb_cong, simp)
  finally show ?thesis .
qed

subsection \<open>What always holds of a card\<close>

definition chips_ok :: "mockingboard \<Rightarrow> bool" where
  "chips_ok mb \<longleftrightarrow> (\<forall>c. ay_ok (ay mb c) \<and> ay_latched_register mb c < 16 \<and>
     ifr (via mb c) AND ifr_any = 0 \<and> ier (via mb c) AND ifr_any = 0) \<and> unat (psg_remainder mb) < 8"

definition mb_ok :: "nat \<Rightarrow> 'a mockingboards_scheme \<Rightarrow> bool" where
  "mb_ok i m \<longleftrightarrow> chips_ok (mbs m i) \<and> irq_line (mbs m i) = irq_out (mbs m i) \<and>
     (1 \<le> mb_slot (mbs m i) \<and> mb_slot (mbs m i) \<le> 7 \<longrightarrow> slot_line (mb_slot (mbs m i)) m = irq_out (mbs m i))"

lemma mb_ok_in_step:
  assumes "mb_ok i m" shows "in_step i m"
proof (cases "1 \<le> mb_slot (mbs m i) \<and> mb_slot (mbs m i) \<le> 7")
  case True
  with assms show ?thesis by (simp add: mb_ok_def in_step_def line_set_def assert_irq_same)
next
  case False
  with assms show ?thesis by (auto simp: mb_ok_def in_step_def line_set_def host_assert_irq_def)
qed

lemma chips_ok_line [simp]:
  "chips_ok (x\<lparr>irq_line := b\<rparr>) = chips_ok x" "chips_ok (x\<lparr>synced := t\<rparr>) = chips_ok x"
  by (simp_all add: chips_ok_def)

lemma slot_line_update [simp]: "slot_line s (update_mb i f m) = slot_line s m"
  by (simp add: slot_line_def update_mb_def)

lemma mb_ok_drive: "chips_ok (mbs m i) \<Longrightarrow> mb_ok i (drive i m)"
  by (simp add: mb_ok_def) (simp add: drive_def slot_line_assert)

lemma drive_update_ok: "chips_ok (f (mbs m i)) \<Longrightarrow> mb_ok i (drive i (update_mb i f m))"
  by (rule mb_ok_drive) simp

lemma high_bit_or: "(x OR y) AND ifr_any = 0 \<longleftrightarrow> x AND ifr_any = 0 \<and> y AND ifr_any = 0"
  by (auto simp: u8_eq_bits bit_simps)

lemma high_bit_and: "x AND ifr_any = 0 \<Longrightarrow> (x AND y) AND ifr_any = 0" "(y AND ifr_mask) AND ifr_any = 0"
  by (auto simp: u8_eq_bits bit_simps)

lemma via_tick_flags: "ifr v AND ifr_any = 0 \<Longrightarrow> ifr (via_tick v) AND ifr_any = 0" "ier (via_tick v) = ier v"
  by (simp_all add: via_tick_def tick_t1_def tick_t2_def fire_t1_def fire_t2_def Let_def high_bit_or
      split: via_timer_phase.split)

lemma sound_run_ok: "chips_ok mb \<Longrightarrow> chips_ok (sound_run n mb)"
proof -
  have "ifr v AND ifr_any = 0 \<Longrightarrow> ifr ((via_tick ^^ n) v) AND ifr_any = 0" "ier ((via_tick ^^ n) v) = ier v" for v
    by (induction n) (simp_all add: via_tick_flags)
  then show "chips_ok mb \<Longrightarrow> chips_ok (sound_run n mb)"
    by (simp add: chips_ok_def sound_run_def Let_def ay_loop_ok)
qed

lemma via_access_flags:
  "ifr v AND ifr_any = 0 \<Longrightarrow> ifr (via_write r x v) AND ifr_any = 0"
  "ier v AND ifr_any = 0 \<Longrightarrow> ier (via_write r x v) AND ifr_any = 0"
  "ifr v AND ifr_any = 0 \<Longrightarrow> ifr (snd (via_read r v)) AND ifr_any = 0" "ier (snd (via_read r v)) = ier v"
  by (simp_all add: via_write_def via_read_def Let_def high_bit_and high_bit_or)

lemma via_write_ok: "chips_ok mb \<Longrightarrow> chips_ok (mb\<lparr>via := (via mb)(c := via_write r x (via mb c))\<rparr>)"
  by (simp add: chips_ok_def via_access_flags)

lemma via_read_ok: "chips_ok mb \<Longrightarrow> chips_ok (mb\<lparr>via := (via mb)(c := snd (via_read r (via mb c)))\<rparr>)"
  by (simp add: chips_ok_def via_access_flags)

lemma bus_cycle_ok: "chips_ok mb \<Longrightarrow> chips_ok (ay_bus_cycle c x mb)"
  by (simp add: ay_bus_cycle_def Let_def chips_ok_def ay8910_reset_def ay_ok_new ay_write_ok)

lemma load_ay_ok: "ay_ok p \<Longrightarrow> ay_ok (load_ay src p)"
proof -
  assume "ay_ok p"
  then have "ay_ok (fold (\<lambda>r. ay8910_write (of_nat r) (xs ! r)) rs p)" for xs rs
    by (induction rs arbitrary: p) (simp_all add: ay_write_ok)
  then have w: "ay_ok (fold (\<lambda>r. ay8910_write (of_nat r) (cs_ay_regs src ! r)) [0..<16] p)" .
  have "x AND 0x0F \<le> (15 :: u32)" for x by (rule word_and_le1)
  with w show ?thesis by (simp add: load_ay_def Let_def ay_ok_def)
qed

lemma load_chips_ok:
  assumes "chips_ok mb"
  shows "chips_ok (mb\<lparr>via := (\<lambda>c. load_via (ss c) (via mb c)), ay := (\<lambda>c. load_ay (ss c) (ay mb c)),
    ay_latched_register := (\<lambda>c. ucast (cs_ay_current_register (ss c) AND 0x0F)),
    psg_remainder := r mod 8, synced := 0\<rparr>)"
proof -
  have "ucast (x AND 0x0F) < (16 :: u8)" for x :: u16
  proof -
    have "ucast (x AND 0x0F) = (ucast x AND 0x0F :: u8)" by (simp add: u8_eq_bits bit_simps)
    moreover have "(ucast x AND 0x0F :: u8) \<le> 0x0F" by (rule word_and_le1)
    ultimately show ?thesis by (simp add: word_le_nat_alt word_less_nat_alt)
  qed
  with assms show ?thesis
    by (simp add: chips_ok_def load_ay_ok load_via_def high_bit_and unat_mod_distrib)
qed

subsection \<open>Entry points as a change of the chips and a drive of the line\<close>

definition catch_up_to :: "u32 \<Rightarrow> mockingboard \<Rightarrow> mockingboard" where
  "catch_up_to t mb =
     (if t \<le> synced mb then mb else (sound_run (unat t - unat (synced mb)) mb)\<lparr>synced := t\<rparr>)"

definition access_write :: "bool \<Rightarrow> u8 \<Rightarrow> u8 \<Rightarrow> mockingboard \<Rightarrow> mockingboard" where
  "access_write chip reg val mb =
     (let mb = mb\<lparr>via := (via mb)(chip := via_write reg val (via mb chip))\<rparr>
      in if reg = 0 then ay_bus_cycle chip val mb else mb)"

definition access_read :: "bool \<Rightarrow> u8 \<Rightarrow> mockingboard \<Rightarrow> mockingboard" where
  "access_read chip reg mb = mb\<lparr>via := (via mb)(chip := snd (via_read reg (via mb chip)))\<rparr>"

lemma update_irq_update:
  assumes "in_step i m" "\<And>x b. f (x\<lparr>irq_line := b\<rparr>) = (f x)\<lparr>irq_line := b\<rparr>"
    "\<And>x. irq_line (f x) = irq_line x" "\<And>x. mb_slot (f x) = mb_slot x"
  shows "update_irq i (update_mb i f m) = drive i (update_mb i f m)"
  using assms(1) by (intro update_irq_drive line_set_update) (simp_all add: assms in_step_def)

lemma catch_up_frame [simp]:
  "catch_up_to t (x\<lparr>irq_line := b\<rparr>) = (catch_up_to t x)\<lparr>irq_line := b\<rparr>"
  "irq_line (catch_up_to t x) = irq_line x" "mb_slot (catch_up_to t x) = mb_slot x"
  by (simp_all add: catch_up_to_def)

lemma bus_cycle_frame [simp]:
  "ay_bus_cycle c v (x\<lparr>irq_line := b\<rparr>) = (ay_bus_cycle c v x)\<lparr>irq_line := b\<rparr>"
  "irq_line (ay_bus_cycle c v x) = irq_line x" "mb_slot (ay_bus_cycle c v x) = mb_slot x"
  by (simp_all add: ay_bus_cycle_def Let_def)

lemma access_frame [simp]:
  "access_write c r v (x\<lparr>irq_line := b\<rparr>) = (access_write c r v x)\<lparr>irq_line := b\<rparr>"
  "irq_line (access_write c r v x) = irq_line x" "mb_slot (access_write c r v x) = mb_slot x"
  "access_read c r (x\<lparr>irq_line := b\<rparr>) = (access_read c r x)\<lparr>irq_line := b\<rparr>"
  "irq_line (access_read c r x) = irq_line x" "mb_slot (access_read c r x) = mb_slot x"
  by (simp_all add: access_write_def access_read_def ay_bus_cycle_def Let_def)

lemma catch_up_ok: "chips_ok mb \<Longrightarrow> chips_ok (catch_up_to t mb)"
  by (simp add: catch_up_to_def sound_run_ok)

lemma access_ok:
  "chips_ok mb \<Longrightarrow> chips_ok (access_write c r v mb)" "chips_ok mb \<Longrightarrow> chips_ok (access_read c r mb)"
  by (simp_all add: access_write_def access_read_def Let_def via_write_ok via_read_ok bus_cycle_ok)

lemma unat_minus_32: "b \<le> a \<Longrightarrow> unat (a - b :: u32) = unat a - unat b"
  by (rule unat_sub)

lemma sync_to_form:
  assumes "in_step i m" "unat (psg_remainder (mbs m i)) < 8"
  shows "sync_to i t m = drive i (update_mb i (catch_up_to t) m)"
proof (cases "t \<le> synced (mbs m i)")
  case True
  with in_step_drive [OF assms(1)] show ?thesis
    by (simp add: sync_to_def catch_up_to_def update_mb_id)
next
  case False
  then have s: "unat (t - synced (mbs m i)) = unat t - unat (synced (mbs m i))"
    by (intro unat_minus_32) simp
  have "update_mb i (synced_update (\<lambda>_. t)) (drive i (update_mb i (sound_run n) m)) =
      drive i (update_mb i (\<lambda>x. (sound_run n x)\<lparr>synced := t\<rparr>) m)" for n
    by (simp add: drive_def irq_out_def) (rule update_mb_cong, simp)
  moreover have "update_mb i (\<lambda>x. (sound_run (unat t - unat (synced (mbs m i))) x)\<lparr>synced := t\<rparr>) m =
      update_mb i (catch_up_to t) m"
    by (rule update_mb_cong) (simp add: catch_up_to_def False)
  ultimately show ?thesis using False by (simp add: sync_to_def mb_advance_run [OF assms] s)
qed

lemma cx_write_form:
  assumes "mb_ok i m"
  shows "snd (cx_write (Some i) a v t m) =
    drive i (update_mb i (\<lambda>x. access_write (a AND 0x80 \<noteq> 0) (lo8 a AND 0x0F) v (catch_up_to t x)) m)"
proof -
  let ?w = "access_write (a AND 0x80 \<noteq> 0) (lo8 a AND 0x0F) v"
  have sync: "sync_to i t m = drive i (update_mb i (catch_up_to t) m)"
    using assms by (intro sync_to_form mb_ok_in_step) (simp_all add: mb_ok_def chips_ok_def)
  have "snd (cx_write (Some i) a v t m) = update_irq i (update_mb i ?w (sync_to i t m))"
    by (simp add: cx_write_def Let_def) (simp add: update_mb_def access_write_def Let_def)
  also have "\<dots> = drive i (update_mb i ?w (sync_to i t m))"
    unfolding sync by (intro update_irq_update) simp_all
  also have "\<dots> = drive i (update_mb i (\<lambda>x. ?w (catch_up_to t x)) m)"
    unfolding sync by (subst drive_absorb) simp_all
  finally show ?thesis .
qed

lemma cx_read_form:
  assumes "mb_ok i m"
  shows "snd (cx_read (Some i) a t m) =
      drive i (update_mb i (\<lambda>x. access_read (a AND 0x80 \<noteq> 0) (lo8 a) (catch_up_to t x)) m)"
    "fst (cx_read (Some i) a t m) = fst (via_read (lo8 a) (via (catch_up_to t (mbs m i)) (a AND 0x80 \<noteq> 0)))"
proof -
  let ?r = "access_read (a AND 0x80 \<noteq> 0) (lo8 a)"
  have sync: "sync_to i t m = drive i (update_mb i (catch_up_to t) m)"
    using assms by (intro sync_to_form mb_ok_in_step) (simp_all add: mb_ok_def chips_ok_def)
  have "snd (cx_read (Some i) a t m) = update_irq i (update_mb i ?r (sync_to i t m))"
    by (simp add: cx_read_def Let_def case_prod_beta) (simp add: update_mb_def access_read_def)
  also have "\<dots> = drive i (update_mb i ?r (sync_to i t m))"
    unfolding sync by (intro update_irq_update) simp_all
  also have "\<dots> = drive i (update_mb i (\<lambda>x. ?r (catch_up_to t x)) m)"
    unfolding sync by (subst drive_absorb) simp_all
  finally show "snd (cx_read (Some i) a t m) = drive i (update_mb i (\<lambda>x. ?r (catch_up_to t x)) m)" .
  show "fst (cx_read (Some i) a t m) = fst (via_read (lo8 a) (via (catch_up_to t (mbs m i)) (a AND 0x80 \<noteq> 0)))"
    by (simp add: cx_read_def Let_def case_prod_beta sync)
qed

lemma think_form:
  assumes "mb_ok i m"
  shows "mb_abi_think (Some i) n m = drive i (update_mb i (\<lambda>x. (catch_up_to n x)\<lparr>synced := 0\<rparr>) m)"
proof -
  have "mb_abi_think (Some i) n m = update_mb i (synced_update (\<lambda>_. 0)) (sync_to i n m)"
    by (simp add: mb_abi_think_def sync_to_def Let_def not_less)
  also have "sync_to i n m = drive i (update_mb i (catch_up_to n) m)"
    using assms by (intro sync_to_form mb_ok_in_step) (simp_all add: mb_ok_def chips_ok_def)
  also have "update_mb i (synced_update (\<lambda>_. 0)) (drive i (update_mb i (catch_up_to n) m)) =
      drive i (update_mb i (\<lambda>x. (catch_up_to n x)\<lparr>synced := 0\<rparr>) m)"
    by (simp add: drive_def irq_out_def) (rule update_mb_cong, simp)
  finally show ?thesis .
qed

end
