(* ===== verification/Mockingboard_Behaviour.thy ===== *)
theory Mockingboard_Behaviour
  imports Mockingboard_Props Keyboard_Behaviour
begin

text \<open>The properties of the Mockingboard, on the forms of its entry points.\<close>

subsection \<open>The contract\<close>

lemma update_mb_step [simp]: "card_step m (update_mb i f m)"
  by (rule card_step_same) (simp_all add: update_mb_def)

lemma assert_irq_step [simp]: "card_step m (host_assert_irq s a m)"
  by (rule card_step_same)
    (simp_all add: host_assert_irq_def cpu_irq_assert_def cpu_irq_deassert_def Let_def)

lemma update_mb_after: "card_step m m' \<Longrightarrow> card_step m (update_mb i f m')"
  by (rule card_step_trans [OF _ update_mb_step])

lemma update_irq_step [simp]: "card_step m (update_irq i m)"
  unfolding update_irq_def Let_def by (auto intro: update_mb_after)

lemma mb_advance_step [simp]: "card_step m (mb_advance i n m)"
  unfolding mb_advance_def Let_def
  by (auto intro: card_step_trans [OF card_step_trans [OF update_mb_step update_irq_step] update_mb_step]
      card_step_trans [OF update_mb_step update_mb_step])

lemma sync_to_step [simp]: "card_step m (sync_to i t m)"
  unfolding sync_to_def by (auto intro: update_mb_after)

lemma mb_io_step: "card_step m (snd (mockingboard_io h inst pc a w d t m))"
proof (cases inst)
  case (Some i)
  have "card_step m (update_irq i (update_mb i f (sync_to i t m)))"
    "card_step m (update_irq i (update_mb i f (update_mb i g (sync_to i t m))))" for f g
    by (auto intro: card_step_trans [OF card_step_trans [OF sync_to_step update_mb_step] update_irq_step])
  then show ?thesis
    by (simp add: mockingboard_io_def cx_read_def cx_write_def Some Let_def case_prod_beta)
qed (simp add: mockingboard_io_def cx_read_def cx_write_def)

lemma mb_think_step: "card_step m (mb_abi_think inst n m)"
  unfolding mb_abi_think_def Let_def
  by (auto split: option.split intro: update_mb_after)

interpretation mbc: slot_cards "mockingboard_code :: 'a mb_host card_code"
  by unfold_locales (auto simp: mockingboard_code_def mb_think_step mb_io_step)

subsection \<open>The invariant\<close>

datatype mb_call = MbRead u16 u32 | MbWrite u16 u8 u32 | MbThink u32 | MbReset
  | MbLoad mockingboard_save_state

fun mb_do :: "nat \<Rightarrow> mb_call \<Rightarrow> 'a mockingboards_scheme \<Rightarrow> 'a mockingboards_scheme" where
  "mb_do i (MbRead a t) m = snd (cx_read (Some i) a t m)"
| "mb_do i (MbWrite a v t) m = snd (cx_write (Some i) a v t m)"
| "mb_do i (MbThink n) m = mb_abi_think (Some i) n m"
| "mb_do i MbReset m = mb_abi_reset (Some i) m"
| "mb_do i (MbLoad ss) m = snd (mb_abi_load_state (Some i) (Some ss) m)"

lemma reset_ok: "chips_ok (mbs m i) \<Longrightarrow> mb_ok i (mb_abi_reset (Some i) m)"
  by (simp add: mb_ok_def mb_abi_reset_def chips_ok_def irq_out_def via_irq_def via_reset_def ay8910_reset_def
      ay_ok_new) (simp add: slot_line_assert)

lemma load_form:
  assumes "mb_ok i m" "ms_version ss = 1" "ms_struct_size ss = 232"
  shows "mb_abi_load_state (Some i) (Some ss) m = (peripheral_ok, drive i (update_mb i (\<lambda>mb.
     mb\<lparr>via := (\<lambda>c. load_via (ms_chips ss c) (via mb c)), ay := (\<lambda>c. load_ay (ms_chips ss c) (ay mb c)),
        ay_latched_register := (\<lambda>c. ucast (cs_ay_current_register (ms_chips ss c) AND 0x0F)),
        psg_remainder := ms_psg_remainder ss mod 8, synced := 0\<rparr>) m))"
  using mb_ok_in_step [OF assms(1)] by (simp add: mb_abi_load_state_def assms(2,3)) (subst update_irq_update; simp)

lemma mb_ok_chips: "mb_ok i m \<Longrightarrow> chips_ok (mbs m i)"
  by (simp add: mb_ok_def)

lemma mb_do_ok:
  assumes "mb_ok i m" shows "mb_ok i (mb_do i c m)"
proof -
  note c = mb_ok_chips [OF assms]
  show ?thesis
  proof (cases c)
    case (MbLoad ss)
    show ?thesis
    proof (cases "ms_version ss = 1 \<and> ms_struct_size ss = 232")
      case True
      then have "snd (mb_abi_load_state (Some i) (Some ss) m) = drive i (update_mb i (\<lambda>mb.
          mb\<lparr>via := (\<lambda>c. load_via (ms_chips ss c) (via mb c)), ay := (\<lambda>c. load_ay (ms_chips ss c) (ay mb c)),
             ay_latched_register := (\<lambda>c. ucast (cs_ay_current_register (ms_chips ss c) AND 0x0F)),
             psg_remainder := ms_psg_remainder ss mod 8, synced := 0\<rparr>) m)"
        by (simp only: load_form [OF assms] snd_conv)
      moreover have "mb_ok i \<dots>" by (rule drive_update_ok) (rule load_chips_ok [OF c])
      ultimately show ?thesis using MbLoad by simp
    next
      case False
      with MbLoad assms show ?thesis by (auto simp: mb_abi_load_state_def)
    qed
  next
    case MbReset
    with reset_ok [OF c] show ?thesis by simp
  qed (use c in \<open>simp_all add: cx_read_form [OF assms] cx_write_form [OF assms] think_form [OF assms]
         drive_update_ok access_ok catch_up_ok\<close>)
qed

lemma mb_do_slot:
  assumes "mb_ok i m" shows "mb_slot (mbs (mb_do i c m) i) = mb_slot (mbs m i)"
proof (cases c)
  case (MbLoad ss)
  then show ?thesis by (simp add: mb_abi_load_state_def update_irq_def Let_def)
qed (simp_all add: cx_read_form [OF assms] cx_write_form [OF assms] think_form [OF assms] mb_abi_reset_def)

lemma mb_calls_ok:
  "mb_ok i m \<Longrightarrow> mb_ok i (fold (mb_do i) calls m) \<and> mb_slot (mbs (fold (mb_do i) calls m) i) = mb_slot (mbs m i)"
proof (induction calls arbitrary: m)
  case (Cons c calls)
  with Cons.IH [OF mb_do_ok [OF Cons.prems, of c]] mb_do_slot [OF Cons.prems, of c] show ?case by simp
qed simp

text \<open>
  C27. Whatever a program and the host do with a Mockingboard - reads and writes of its registers at
  any cycle, batches, resets, save states from anywhere - the processor's interrupt line of its slot
  is asserted exactly while one of its two 6522s asserts its output, every AY register stays within
  its width with a living noise generator and an envelope amplitude that line_set with its step, and
  the latched AY register stays one of the sixteen.
\<close>

theorem mockingboard_invariant:
  assumes "mb_ok i m" "m' = fold (mb_do i) calls m"
  shows "mb_ok i m' \<and> mb_slot (mbs m' i) = mb_slot (mbs m i) \<and>
    (1 \<le> mb_slot (mbs m i) \<and> mb_slot (mbs m i) \<le> 7 \<longrightarrow>
       slot_line (mb_slot (mbs m i)) m' = (via_irq (via (mbs m' i) False) \<or> via_irq (via (mbs m' i) True)))"
  using mb_calls_ok [OF assms(1), of calls] unfolding assms(2) by (auto simp: mb_ok_def irq_out_def)

text \<open>A fresh card in slot 4; VIA A's timer 1 is armed with interrupts enabled, and runs out.\<close>

definition blank_sound :: mockingboards where
  "blank_sound = keyboards.extend blank_host (mockingboards.fields (\<lambda>_. new_mockingboard 4))"

lemma blank_sound_simps [simp]: "mbs blank_sound i = new_mockingboard 4" "bm_irq blank_sound = bm_irq blank_host"
  by (simp_all add: blank_sound_def keyboards.defs mockingboards.defs)

lemma blank_sound_ok: "mb_ok i blank_sound"
  by (simp add: mb_ok_def chips_ok_def new_mockingboard_def ay_ok_new new_via_def irq_out_def via_irq_def
      slot_line_def blank_host_def)

definition timer_calls :: "mb_call list" where
  "timer_calls = [MbWrite 0xC40E 0xC0 10, MbWrite 0xC404 1 20, MbWrite 0xC405 0 30, MbThink 17030]"

lemma mockingboard_invariant_witness:
  "mb_ok 0 (fold (mb_do 0) timer_calls blank_sound)"
  using mockingboard_invariant [OF blank_sound_ok refl] by simp

subsection \<open>Slicing\<close>

lemma catch_up_twice: "catch_up_to t2 (catch_up_to t1 mb) = catch_up_to (max t1 t2) mb"
proof -
  have "unat t1 - unat s + (unat t2 - unat t1) = unat t2 - unat s" if "s < t1" "t1 < t2" for s :: u32
    using that by (simp add: word_less_nat_alt)
  moreover have "sound_run b (sound_run a mb\<lparr>synced := w\<rparr>) = (sound_run (a + b) mb)\<lparr>synced := w\<rparr>" for a b w
    by (simp add: sound_run_add)
  ultimately show ?thesis
    by (auto simp: catch_up_to_def max_def not_le)
qed

lemma syncs_form:
  assumes "mb_ok i m"
  shows "\<exists>t. (ts = [] \<or> t \<in> set ts) \<and> mb_ok i (fold (sync_to i) ts m) \<and>
    (ts \<noteq> [] \<longrightarrow> fold (sync_to i) ts m = drive i (update_mb i (catch_up_to t) m))"
  using assms
proof (induction ts rule: rev_induct)
  case (snoc t2 ts)
  then obtain t1 where t1: "ts = [] \<or> t1 \<in> set ts" "mb_ok i (fold (sync_to i) ts m)"
    "ts \<noteq> [] \<longrightarrow> fold (sync_to i) ts m = drive i (update_mb i (catch_up_to t1) m)"
    by blast
  note ok = mb_ok_in_step [OF t1(2)] mb_ok_chips [OF t1(2)]
  have s: "fold (sync_to i) (ts @ [t2]) m = drive i (update_mb i (catch_up_to t2) (fold (sync_to i) ts m))"
    using sync_to_form [OF ok(1)] ok(2) by (simp add: chips_ok_def)
  have good: "mb_ok i (fold (sync_to i) (ts @ [t2]) m)"
    unfolding s by (rule drive_update_ok) (rule catch_up_ok [OF ok(2)])
  show ?case
  proof (cases "ts = []")
    case True
    with s good show ?thesis by auto
  next
    case False
    then have "fold (sync_to i) (ts @ [t2]) m = drive i (update_mb i (catch_up_to t2) (update_mb i (catch_up_to t1) m))"
      unfolding s using t1(3) drive_absorb [of "catch_up_to t2" i "update_mb i (catch_up_to t1) m"] by simp
    then have "fold (sync_to i) (ts @ [t2]) m = drive i (update_mb i (catch_up_to (max t1 t2)) m)"
      by (simp add: catch_up_twice)
    moreover have "max t1 t2 \<in> set (ts @ [t2])" using t1(1) False by (auto simp: max_def)
    ultimately show ?thesis using good by blast
  qed
qed auto

text \<open>
  C26. No cycle is counted twice and none is lost.  However often and in whatever order the card has
  been brought up to date at cycles of the batch, the end of the batch leaves the whole machine -
  timers, interrupt line, oscillators and every sample put out - as if the card had slept through
  it; and what is left over of an AY tick is carried into the next batch.
\<close>

theorem mockingboard_time:
  assumes "mb_ok i m" "\<forall>t \<in> set ts. t \<le> n" "synced (mbs m i) = 0"
  shows "mb_abi_think (Some i) n (fold (sync_to i) ts m) = mb_abi_think (Some i) n m \<and>
    via (mbs (mb_abi_think (Some i) n m) i) c = (via_tick ^^ unat n) (via (mbs m i) c) \<and>
    rendered (mbs (mb_abi_think (Some i) n m) i) c = rendered (mbs m i) c @
      fst (ay_loop ((unat (psg_remainder (mbs m i)) + unat n) div 8) (ay (mbs m i) c)) \<and>
    unat (psg_remainder (mbs (mb_abi_think (Some i) n m) i)) = (unat (psg_remainder (mbs m i)) + unat n) mod 8"
proof -
  let ?f = "\<lambda>x. (catch_up_to n x)\<lparr>synced := 0\<rparr>"
  have "mb_abi_think (Some i) n (fold (sync_to i) ts m) = mb_abi_think (Some i) n m"
  proof (cases "ts = []")
    case False
    then obtain t where t: "t \<in> set ts" "mb_ok i (fold (sync_to i) ts m)"
      "fold (sync_to i) ts m = drive i (update_mb i (catch_up_to t) m)"
      using syncs_form [OF assms(1), of ts] by blast
    have "mb_abi_think (Some i) n (fold (sync_to i) ts m) = drive i (update_mb i ?f (fold (sync_to i) ts m))"
      by (rule think_form [OF t(2)])
    also have "\<dots> = drive i (update_mb i ?f (update_mb i (catch_up_to t) m))"
      unfolding t(3) by (rule drive_absorb) simp_all
    also have "\<dots> = drive i (update_mb i ?f m)"
      using t(1) assms(2) by (simp add: catch_up_twice max_def)
    finally show ?thesis by (simp add: think_form [OF assms(1)])
  qed simp
  moreover have "(mbs m i)\<lparr>synced := 0\<rparr> = mbs m i" using assms(3) by (cases "mbs m i") simp
  then have "catch_up_to n (mbs m i) = (sound_run (unat n) (mbs m i))\<lparr>synced := n\<rparr>"
    using sound_run_0 [of "mbs m i"] mb_ok_chips [OF assms(1)] assms(3)
    by (auto simp: catch_up_to_def chips_ok_def word_le_nat_alt unat_eq_zero)
  ultimately show ?thesis
    by (simp add: think_form [OF assms(1)]) (simp add: sound_run_def Let_def)
qed

text \<open>Three accesses in a batch of one video frame.\<close>

lemma mockingboard_time_witness:
  "mb_abi_think (Some 0) 17030 (fold (sync_to 0) [1000, 1008, 500] blank_sound) = mb_abi_think (Some 0) 17030 blank_sound"
  using mockingboard_time [OF blank_sound_ok, of "[1000, 1008, 500]" 17030 0 False]
  by (simp add: new_mockingboard_def)

subsection \<open>The AY behind the port\<close>

lemma via_tick_ports [simp]: "ora (via_tick v) = ora v" "ddra (via_tick v) = ddra v"
  by (simp_all add: via_tick_def tick_t1_def tick_t2_def fire_t1_def fire_t2_def Let_def split: via_timer_phase.split)

lemma via_ticks_ports [simp]: "ora ((via_tick ^^ n) v) = ora v" "ddra ((via_tick ^^ n) v) = ddra v"
  by (induction n) simp_all

lemma ay_ticks_regs [simp]: "ay_regs (snd (ay_loop n p)) = ay_regs p"
proof -
  have "ay_regs (ay_tick p) = ay_regs p" for p
    by (simp add: ay_tick_def step_tones_def step_noise_def step_shape_def advance_noise_def step_envelope_def
        refresh_envelope_vol_def hold_at_def Let_def)
  then show ?thesis unfolding ay_loop_state by (induction n) simp_all
qed

text \<open>What time leaves alone: the port and the registers.\<close>

lemma catch_up_ports [simp]:
  "ora (via (catch_up_to t x) c) = ora (via x c)" "ddra (via (catch_up_to t x) c) = ddra (via x c)"
  "ay_regs (ay (catch_up_to t x) c) = ay_regs (ay x c)"
  "ay_latched_register (catch_up_to t x) = ay_latched_register x"
  by (simp_all add: catch_up_to_def sound_run_def Let_def)

abbreviation port_a_at :: "u16 \<Rightarrow> bool" where "port_a_at a \<equiv> lo8 a AND 0x0F = 1"
abbreviation port_b_at :: "u16 \<Rightarrow> bool" where "port_b_at a \<equiv> lo8 a AND 0x0F = 0"
abbreviation ddr_a_at :: "u16 \<Rightarrow> bool" where "ddr_a_at a \<equiv> lo8 a AND 0x0F = 3"
abbreviation chip_at :: "u16 \<Rightarrow> bool" where "chip_at a \<equiv> a AND 0x80 \<noteq> 0"

lemma port_a_written:
  assumes "mb_ok i m" "port_a_at a" "m1 = mb_do i (MbWrite a v t) m"
  shows "mb_ok i m1" "ora (via (mbs m1 i) (chip_at a)) = v" "ddra (via (mbs m1 i) c) = ddra (via (mbs m i) c)"
    "ay_regs (ay (mbs m1 i) c) = ay_regs (ay (mbs m i) c)"
    "ay_latched_register (mbs m1 i) c = ay_latched_register (mbs m i) c"
  using assms mb_do_ok [OF assms(1), of "MbWrite a v t"]
  by (simp_all del: mb_do.simps) (simp_all add: cx_write_form access_write_def via_write_def)

lemma ddr_a_written:
  assumes "mb_ok i m" "ddr_a_at a" "m1 = mb_do i (MbWrite a v t) m"
  shows "mb_ok i m1" "ddra (via (mbs m1 i) (chip_at a)) = v" "ay_regs (ay (mbs m1 i) c) = ay_regs (ay (mbs m i) c)"
    "ay_latched_register (mbs m1 i) c = ay_latched_register (mbs m i) c"
  using assms mb_do_ok [OF assms(1), of "MbWrite a v t"]
  by (simp_all del: mb_do.simps) (simp_all add: cx_write_form access_write_def via_write_def)

lemma port_b_written:
  assumes "mb_ok i m" "port_b_at a" "m1 = mb_do i (MbWrite a v t) m" "v \<in> {4, 5, 6, 7}"
  shows "mb_ok i m1"
    "ora (via (mbs m1 i) (chip_at a)) =
      (if v = 5 then (ora (via (mbs m i) (chip_at a)) AND ddra (via (mbs m i) (chip_at a))) OR
         (ay_regs (ay (mbs m i) (chip_at a)) ! unat (ay_latched_register (mbs m i) (chip_at a)) AND
          NOT (ddra (via (mbs m i) (chip_at a))))
       else ora (via (mbs m i) (chip_at a)))"
    "ay_regs (ay (mbs m1 i) c) =
      (if v = 6 \<and> c = chip_at a
       then (ay_regs (ay (mbs m i) c))[unat (ay_latched_register (mbs m i) c) :=
          ora (via (mbs m i) c) AND register_mask (unat (ay_latched_register (mbs m i) c))]
       else ay_regs (ay (mbs m i) c))"
    "ay_latched_register (mbs m1 i) (chip_at a) =
      (if v = 7 \<and> ora (via (mbs m i) (chip_at a)) < 16 then ora (via (mbs m i) (chip_at a))
       else ay_latched_register (mbs m i) (chip_at a))"
proof -
  have latched: "ay_latched_register (mbs m i) c < 16" for c using mb_ok_chips [OF assms(1)] by (simp add: chips_ok_def)
  show "mb_ok i m1" using mb_do_ok [OF assms(1), of "MbWrite a v t"] assms(3) by (simp only:)
  show "ora (via (mbs m1 i) (chip_at a)) =
      (if v = 5 then (ora (via (mbs m i) (chip_at a)) AND ddra (via (mbs m i) (chip_at a))) OR
         (ay_regs (ay (mbs m i) (chip_at a)) ! unat (ay_latched_register (mbs m i) (chip_at a)) AND
          NOT (ddra (via (mbs m i) (chip_at a))))
       else ora (via (mbs m i) (chip_at a)))"
    "ay_latched_register (mbs m1 i) (chip_at a) =
      (if v = 7 \<and> ora (via (mbs m i) (chip_at a)) < 16 then ora (via (mbs m i) (chip_at a))
       else ay_latched_register (mbs m i) (chip_at a))"
    "ay_regs (ay (mbs m1 i) c) =
      (if v = 6 \<and> c = chip_at a
       then (ay_regs (ay (mbs m i) c))[unat (ay_latched_register (mbs m i) c) :=
          ora (via (mbs m i) c) AND register_mask (unat (ay_latched_register (mbs m i) c))]
       else ay_regs (ay (mbs m i) c))"
    using assms latched
    by (auto simp: cx_write_form access_write_def via_write_def ay_bus_cycle_def Let_def ay_write_regs)
qed

text \<open>
  C28. The programming protocol of the sound chips.  Putting a register's number on port A and
  strobing port B with 7 and 4, then a value on port A and strobing with 6 and 4, writes that
  register of that AY - cut to the register's width - and no other register of either AY, whatever
  the cycles of the accesses.  With port A then turned into an input, strobing with 5 puts the value
  back on the port, where the program reads it.
\<close>

theorem ay_register_protocol:
  assumes "mb_ok i m" "port_a_at pa" "port_b_at pb" "ddr_a_at dd"
    and "chip_at pa = chip" "chip_at pb = chip" "chip_at dd = chip" "r < 16"
    and "m1 = fold (mb_do i) [MbWrite pa r t1, MbWrite pb 7 t2, MbWrite pb 4 t3,
                              MbWrite pa v t4, MbWrite pb 6 t5, MbWrite pb 4 t6] m"
    and "m2 = fold (mb_do i) [MbWrite dd 0 t7, MbWrite pb 5 t8] m1"
  shows "ay_regs (ay (mbs m1 i) c) =
      (if c = chip then (ay_regs (ay (mbs m i) c))[unat r := v AND register_mask (unat r)]
       else ay_regs (ay (mbs m i) c)) \<and>
    fst (cx_read (Some i) pa t9 m2) = v AND register_mask (unat r)"
proof -
  define n1 where "n1 = mb_do i (MbWrite pa r t1) m"
  define n2 where "n2 = mb_do i (MbWrite pb 7 t2) n1"
  define n3 where "n3 = mb_do i (MbWrite pb 4 t3) n2"
  define n4 where "n4 = mb_do i (MbWrite pa v t4) n3"
  define n5 where "n5 = mb_do i (MbWrite pb 6 t5) n4"
  define n7 where "n7 = mb_do i (MbWrite dd 0 t7) m1"
  note 1 = port_a_written [OF assms(1,2) n1_def]
  note 2 = port_b_written [OF 1(1) assms(3) n2_def]
  note 3 = port_b_written [OF 2(1) assms(3) n3_def]
  note 4 = port_a_written [OF 3(1) assms(2) n4_def]
  note 5 = port_b_written [OF 4(1) assms(3) n5_def]
  have m1: "m1 = mb_do i (MbWrite pb 4 t6) n5"
    by (simp add: assms(9) n1_def n2_def n3_def n4_def n5_def del: mb_do.simps)
  note 6 = port_b_written [OF 5(1) assms(3) m1]
  note 7 = ddr_a_written [OF 6(1) assms(4) n7_def]
  have m2: "m2 = mb_do i (MbWrite pb 5 t8) n7" by (simp add: assms(10) n7_def del: mb_do.simps)
  note 8 = port_b_written [OF 7(1) assms(3) m2]
  have l2: "ay_latched_register (mbs n2 i) chip = r" using 1 2(4) assms(5,6,8) by simp
  then have l4: "ay_latched_register (mbs n4 i) chip = r" using 3(4) 4 assms(6) by simp
  have regs: "ay_regs (ay (mbs m1 i) c) =
      (if c = chip then (ay_regs (ay (mbs m i) c))[unat r := v AND register_mask (unat r)]
       else ay_regs (ay (mbs m i) c))" for c
    using 6(3) 5(3) 4(2,4) 3(3) 2(3) 1(4) assms(5,6) l4 by simp
  have l7: "ay_latched_register (mbs n7 i) chip = r"
    using 7(4) 6(4) 5(4) l4 assms(6) by simp
  have "length (ay_regs (ay (mbs m i) chip)) = 16" using mb_ok_chips [OF assms(1)] by (simp add: chips_ok_def ay_ok_def)
  moreover have "unat r < 16" using assms(8) by (simp add: word_less_nat_alt)
  ultimately have "ora (via (mbs m2 i) chip) = v AND register_mask (unat r)"
    using 8(2) 7 regs [of chip] l7 assms(6,7) by simp
  moreover have "fst (via_read (lo8 pa) w) = ora w" for w using assms(2) by (simp add: via_read_def)
  ultimately show ?thesis
    using regs [of c] assms(5) 8(1) by (simp add: cx_read_form)
qed

text \<open>Register 8 (the amplitude of channel A) of AY B: five bits.\<close>

lemma ay_register_protocol_witness:
  "ay_regs (ay (mbs (fold (mb_do 0) [MbWrite 0xC481 8 1, MbWrite 0xC480 7 2, MbWrite 0xC480 4 3,
      MbWrite 0xC481 0xFF 4, MbWrite 0xC480 6 5, MbWrite 0xC480 4 6] blank_sound) 0) True) ! 8 = 0x1F"
  using ay_register_protocol [where pa = "0xC481" and pb = "0xC480" and dd = "0xC483" and chip = True and r = 8 and
      v = "0xFF" and c = True and ?t1.0 = 1 and ?t2.0 = 2 and ?t3.0 = 3 and ?t4.0 = 4 and ?t5.0 = 5 and ?t6.0 = 6,
      OF blank_sound_ok _ _ _ _ _ _ _ refl refl]
  by (simp add: new_mockingboard_def new_ay8910_def register_mask_def del: mb_do.simps fold_simps)

subsection \<open>The save state\<close>

lemma flags_round_trip:
  "(pack_via_flags v AND 0x01 \<noteq> 0) = t1_fired v" "(pack_via_flags v AND 0x02 \<noteq> 0) = t2_fired v"
  "(pack_via_flags v AND 0x04 \<noteq> 0) = pb7 v" "unpack_phase (pack_via_flags v) 3 = t1_phase v"
  "unpack_phase (pack_via_flags v) 5 = t2_phase v"
  by (cases "t1_phase v"; cases "t2_phase v"; cases "t1_fired v"; cases "t2_fired v"; cases "pb7 v";
      simp add: pack_via_flags_def unpack_phase_def phase_code_def Let_def)+

lemma masked_flags: "x AND ifr_any = 0 \<Longrightarrow> x AND ifr_mask = x"
  by (auto simp: u8_eq_bits bit_simps)

lemma via_round_trip:
  assumes "ifr v AND ifr_any = 0" "ier v AND ifr_any = 0"
  shows "load_via (save_chip v psg r) w = v"
  by (cases v; cases w) (use assms in \<open>simp add: load_via_def save_chip_def flags_round_trip masked_flags\<close>)

lemma ay_writes:
  assumes "length (ay_regs p) = 16" "k \<le> 16"
  shows "ay_regs (fold (\<lambda>r. ay8910_write (of_nat r) (xs ! r)) [0..<k] p) =
    map (\<lambda>r. xs ! r AND register_mask r) [0..<k] @ drop k (ay_regs p)"
  using assms(2)
proof (induction k)
  case (Suc k)
  then have k: "(of_nat k :: u8) < 16" "unat (of_nat k :: u8) = k"
    by (simp_all add: word_less_nat_alt unsigned_of_nat take_bit_nat_eq_self)
  have "drop k (ay_regs p) = ay_regs p ! k # drop (Suc k) (ay_regs p)"
    using Suc.prems assms(1) by (simp add: Cons_nth_drop_Suc)
  with Suc show ?case by (simp add: ay_write_regs [OF k(1)] k(2) list_update_append)
qed simp

lemma ay_round_trip:
  assumes "ay_ok p" "ay_ok q"
  shows "load_ay (save_chip v p r) q = p"
proof -
  have "map (\<lambda>i. ay_regs p ! i AND register_mask i) [0..<16] = ay_regs p"
    using assms(1) by (intro nth_equalityI) (simp_all add: ay_ok_def)
  moreover have "map (\<lambda>i. map ((!) (ay_regs p)) [0..<16] ! i AND register_mask i) [0..<16] =
      map (\<lambda>i. ay_regs p ! i AND register_mask i) [0..<16]"
    by (rule map_cong) simp_all
  ultimately have saved: "map (\<lambda>i. map ((!) (ay_regs p)) [0..<16] ! i AND register_mask i) [0..<16] = ay_regs p"
    by (simp only:)
  have regs: "ay_regs (fold (\<lambda>i. ay8910_write (of_nat i) (map ((!) (ay_regs p)) [0..<16] ! i)) [0..<16] q) = ay_regs p"
    using assms(2) ay_writes [of q 16 "map ((!) (ay_regs p)) [0..<16]"] by (simp add: ay_ok_def saved)
  have step: "envelope_step p AND 0x0F = envelope_step p"
  proof -
    have "unat (envelope_step p) < 16" using assms(1) by (simp add: ay_ok_def word_le_nat_alt)
    then have "take_bit 4 (envelope_step p) = envelope_step p"
      by (simp add: word_unat_eq_iff unsigned_take_bit_eq take_bit_nat_eq_self)
    then show ?thesis by (simp add: take_bit_eq_mask mask_eq_exp_minus_1)
  qed
  have over: "x\<lparr>count_a := count_a p, count_b := count_b p, count_c := count_c p, out_a := out_a p, out_b := out_b p,
      out_c := out_c p, out_n := out_n p, count_n := count_n p, rng := rng p, count_e := count_e p,
      envelope_step := envelope_step p, env_holding := env_holding p, env_attack := env_attack p,
      envelope_vol := envelope_vol p\<rparr> = p" if "ay_regs x = ay_regs p" for x
    using that by (cases x; cases p) simp
  from assms(1) have "rng p \<noteq> 0" "envelope_vol p = ucast (if env_attack p then envelope_step p else 15 - envelope_step p)"
    by (simp_all add: ay_ok_def)
  then show ?thesis
    using over [OF regs] by (cases "env_attack p") (simp_all add: load_ay_def save_chip_def step Let_def)
qed

text \<open>
  C29. A Mockingboard survives saving and loading: loaded into any card in working order, in any
  slot, the state restores both 6522s with their timers' phases, both AYs with every oscillator,
  the latched registers and the cycles left over, and the interrupt line follows; a state of
  another version or size is refused and changes nothing.
\<close>

theorem mockingboard_state_round_trip:
  assumes "mb_ok i m" "mb_ok j m2" "ss = mb_abi_save_state i m"
  shows "(\<exists>m'. mb_abi_load_state (Some j) (Some ss) m2 = (peripheral_ok, m') \<and> mb_ok j m' \<and>
      via (mbs m' j) = via (mbs m i) \<and> ay (mbs m' j) = ay (mbs m i) \<and>
      ay_latched_register (mbs m' j) = ay_latched_register (mbs m i) \<and>
      psg_remainder (mbs m' j) = psg_remainder (mbs m i) \<and> irq_line (mbs m' j) = irq_line (mbs m i) \<and>
      synced (mbs m' j) = 0 \<and> mb_slot (mbs m' j) = mb_slot (mbs m2 j)) \<and>
    (v = 1 \<and> n = 232 \<or>
     mb_abi_load_state (Some j) (Some (ss\<lparr>ms_version := v, ms_struct_size := n\<rparr>)) m2 = (peripheral_error, m2))"
proof -
  note ok = mb_ok_chips [OF assms(1)] mb_ok_chips [OF assms(2)]
  let ?m' = "snd (mb_abi_load_state (Some j) (Some ss) m2)"
  have v: "ms_version ss = 1" "ms_struct_size ss = 232" by (simp_all add: assms(3) mb_abi_save_state_def Let_def)
  have chip: "load_via (ms_chips ss c) w = via (mbs m i) c" "load_ay (ms_chips ss c) (ay (mbs m2 j) c) = ay (mbs m i) c"
    "ucast (cs_ay_current_register (ms_chips ss c) AND 0x0F) = ay_latched_register (mbs m i) c" for c w
  proof -
    show "load_via (ms_chips ss c) w = via (mbs m i) c" "load_ay (ms_chips ss c) (ay (mbs m2 j) c) = ay (mbs m i) c"
      using ok by (simp_all add: assms(3) mb_abi_save_state_def Let_def chips_ok_def via_round_trip ay_round_trip)
    have "unat (ay_latched_register (mbs m i) c) < 16"
      using ok(1) by (simp add: chips_ok_def word_less_nat_alt)
    then have "take_bit 4 (ay_latched_register (mbs m i) c) = ay_latched_register (mbs m i) c"
      by (simp add: word_unat_eq_iff unsigned_take_bit_eq take_bit_nat_eq_self)
    then have "ay_latched_register (mbs m i) c AND 0x0F = ay_latched_register (mbs m i) c"
      by (simp add: take_bit_eq_mask mask_eq_exp_minus_1)
    moreover have "ucast (w16 x AND 0x0F) = x AND 0x0F" for x :: u8 by (simp add: u8_eq_bits bit_simps)
    ultimately show "ucast (cs_ay_current_register (ms_chips ss c) AND 0x0F) = ay_latched_register (mbs m i) c"
      by (simp add: assms(3) mb_abi_save_state_def Let_def save_chip_def)
  qed
  have rem: "psg_remainder (mbs m i) mod 8 = psg_remainder (mbs m i)"
    using ok(1) by (simp add: chips_ok_def word_unat_eq_iff unat_mod_distrib)
  have "mb_ok j ?m'" using mb_do_ok [OF assms(2), of "MbLoad ss"] by simp
  moreover have "irq_line (mbs m i) = irq_out (mbs m i)" using assms(1) by (simp add: mb_ok_def)
  ultimately have "\<exists>m'. mb_abi_load_state (Some j) (Some ss) m2 = (peripheral_ok, m') \<and> mb_ok j m' \<and>
      via (mbs m' j) = via (mbs m i) \<and> ay (mbs m' j) = ay (mbs m i) \<and>
      ay_latched_register (mbs m' j) = ay_latched_register (mbs m i) \<and>
      psg_remainder (mbs m' j) = psg_remainder (mbs m i) \<and> irq_line (mbs m' j) = irq_line (mbs m i) \<and>
      synced (mbs m' j) = 0 \<and> mb_slot (mbs m' j) = mb_slot (mbs m2 j)"
    by (simp add: load_form [OF assms(2) v] chip irq_out_def)
      (simp add: assms(3) mb_abi_save_state_def Let_def rem)
  moreover have "v = 1 \<and> n = 232 \<or>
     mb_abi_load_state (Some j) (Some (ss\<lparr>ms_version := v, ms_struct_size := n\<rparr>)) m2 = (peripheral_error, m2)"
    by (auto simp: mb_abi_load_state_def)
  ultimately show ?thesis by blast
qed

text \<open>The armed timer, loaded into a fresh card.\<close>

lemma mockingboard_state_round_trip_witness:
  "via (mbs (snd (mb_abi_load_state (Some 0)
     (Some (mb_abi_save_state 0 (fold (mb_do 0) timer_calls blank_sound))) blank_sound)) 0) =
   via (mbs (fold (mb_do 0) timer_calls blank_sound) 0)"
proof -
  have "mb_ok 0 (fold (mb_do 0) timer_calls blank_sound)"
    using mb_calls_ok [OF blank_sound_ok] by blast
  from mockingboard_state_round_trip [where v = 1 and n = 232, OF this blank_sound_ok [of 0] refl] show ?thesis by auto
qed

end
