(* ===== verification/Ay_Props.thy ===== *)
theory Ay_Props
  imports Ay_8910
begin

text \<open>
  The AY-3-8910 against its data sheet: the tone generators are square waves of the programmed
  period, the envelope has the shapes of register 13, and no sequence of accesses leaves the
  chip's invariant.
\<close>

subsection \<open>Tone\<close>

definition tone_state :: "nat \<Rightarrow> ay8910 \<Rightarrow> u16 \<times> u8" where
  "tone_state voice p = [(count_a p, out_a p), (count_b p, out_b p), (count_c p, out_c p)] ! voice"

definition voice_period :: "nat \<Rightarrow> ay8910 \<Rightarrow> u16" where
  "voice_period voice p = tone_period (ay_regs p ! (2 * voice)) (ay_regs p ! (2 * voice + 1))"

lemma tick_regs [simp]: "ay_regs (ay_tick p) = ay_regs p"
  by (simp add: ay_tick_def step_tones_def step_noise_def step_shape_def advance_noise_def step_envelope_def
      refresh_envelope_vol_def hold_at_def Let_def)

lemma ticks_regs [simp]: "ay_regs ((ay_tick ^^ n) p) = ay_regs p"
  by (induction n) simp_all

lemma tick_tone:
  assumes "voice < 3"
  shows "tone_state voice (ay_tick p) = step_tone (voice_period voice p) (tone_state voice p)"
proof -
  have "tone_state voice (step_shape q) = tone_state voice q" "tone_state voice (step_noise q) = tone_state voice q" for q
    by (simp_all add: tone_state_def step_shape_def step_noise_def advance_noise_def step_envelope_def
        refresh_envelope_vol_def hold_at_def Let_def)
  moreover have "voice = 0 \<or> voice = 1 \<or> voice = 2" using assms by linarith
  then have "tone_state voice (step_tones p) = step_tone (voice_period voice p) (tone_state voice p)"
    by (elim disjE) (simp_all add: tone_state_def voice_period_def step_tones_def Let_def)
  ultimately show ?thesis by (simp add: ay_tick_def)
qed

lemma step_tone_counts:
  assumes "unat c < unat P"
  shows "step_tone P (c, out) =
    (if Suc (unat c) = unat P then (0, out XOR 1) else (of_nat (Suc (unat c)), out))"
proof -
  have "unat P < 65536" by simp
  then have "unat c + 1 < 65536" using assms by linarith
  then have s: "unat (c + 1) = Suc (unat c)"
    by (subst unat_add_lem [THEN iffD1]) simp_all
  then have "c + 1 = of_nat (Suc (unat c))" by (simp add: add.commute)
  moreover have "(P \<le> c + 1) = (Suc (unat c) = unat P)" using assms s by (auto simp: word_le_nat_alt)
  moreover have "P \<noteq> 0" using assms by auto
  ultimately show ?thesis by (simp add: step_tone_def Let_def)
qed

lemma mod_div_Suc:
  fixes n d :: nat
  assumes "0 < d"
  shows "Suc n mod d = (if Suc (n mod d) = d then 0 else Suc (n mod d))"
    "Suc n div d = (if Suc (n mod d) = d then Suc (n div d) else n div d)"
  using assms by (simp_all add: mod_Suc div_Suc)

text \<open>
  C33. Each tone generator is a square wave of the programmed period: after any number of ticks its
  counter is the ticks modulo the period and its output has toggled once for every period that is
  complete.
\<close>

theorem tone_square_wave:
  assumes "voice < 3" "tone_state voice p = (c, out)" "P = unat (voice_period voice p)" "unat c < P"
  shows "tone_state voice ((ay_tick ^^ n) p) =
    (of_nat ((unat c + n) mod P), if odd ((unat c + n) div P) then out XOR 1 else out)"
proof (induction n)
  case 0
  then show ?case using assms by simp
next
  case (Suc n)
  let ?k = "unat c + n"
  have P: "0 < P" "P < 65536" using assms(4) by (simp_all add: assms(3))
  then have "?k mod P < 2 ^ 16" using mod_less_divisor [OF P(1), of ?k] by simp
  then have u: "unat (of_nat (?k mod P) :: u16) = ?k mod P"
    by (simp add: unsigned_of_nat take_bit_nat_eq_self_iff)
  have toggle: "(out XOR 1) XOR 1 = out" by (simp add: xor.assoc)
  have "tone_state voice ((ay_tick ^^ Suc n) p) =
      step_tone (voice_period voice p) (of_nat (?k mod P), if odd (?k div P) then out XOR 1 else out)"
    using tick_tone [OF assms(1), of "(ay_tick ^^ n) p"] Suc by (simp add: voice_period_def)
  also have "\<dots> = (of_nat (Suc ?k mod P), if odd (Suc ?k div P) then out XOR 1 else out)"
    using u mod_less_divisor [OF P(1), of ?k] toggle
    by (subst step_tone_counts) (simp_all add: assms(3) [symmetric] mod_div_Suc [OF P(1)])
  finally show ?case by simp
qed

text \<open>Period 100 on channel A: low until tick 99, high from tick 100.\<close>

lemma tone_square_wave_witness:
  "out_a ((ay_tick ^^ 99) (ay8910_write 0 100 new_ay8910)) = 0 \<and>
   out_a ((ay_tick ^^ 100) (ay8910_write 0 100 new_ay8910)) = 1"
proof -
  let ?p = "ay8910_write 0 100 new_ay8910"
  have p: "tone_state 0 ?p = (0, 0)" "unat (voice_period 0 ?p) = 100"
    by (simp_all add: tone_state_def voice_period_def tone_period_def ay8910_write_def new_ay8910_def Let_def)
  have "tone_state 0 ((ay_tick ^^ n) ?p) = (of_nat (n mod 100), if odd (n div 100) then 1 else 0)" for n
    using tone_square_wave [OF _ p(1) refl, of n] p(2) by simp
  from this [of 99] this [of 100] show ?thesis by (simp add: tone_state_def)
qed

subsection \<open>Envelope\<close>

text \<open>
  The shapes of the data sheet: the level after \<open>k\<close> envelope steps.  Bit 3 of the shape is
  continue, bit 2 attack, bit 1 alternate and bit 0 hold.
\<close>

definition sweeps_up :: "u8 \<Rightarrow> nat \<Rightarrow> bool" where
  "sweeps_up shape c \<longleftrightarrow> bit shape 2 \<noteq> (bit shape 1 \<and> odd c)"

definition repeats :: "u8 \<Rightarrow> bool" where
  "repeats shape \<longleftrightarrow> bit shape 3 \<and> \<not> bit shape 0"

definition envelope_level :: "u8 \<Rightarrow> nat \<Rightarrow> nat" where
  "envelope_level shape k =
     (if k < 16 \<or> repeats shape
      then if sweeps_up shape (k div 16) then k mod 16 else 15 - k mod 16
      else if bit shape 3 \<and> bit shape 2 \<noteq> bit shape 1 then 15 else 0)"

definition envelope_ticks :: "ay8910 \<Rightarrow> nat" where
  "envelope_ticks p = 2 * max 1 (unat (ay_regs p ! 11) + 256 * unat (ay_regs p ! 12))"

definition env_pos :: "u8 \<Rightarrow> nat \<Rightarrow> ay8910 \<Rightarrow> bool" where
  "env_pos v k q \<longleftrightarrow> envelope_vol q = of_nat (envelope_level v k) \<and>
     (if env_holding q then 16 \<le> k \<and> \<not> repeats v
      else (k < 16 \<or> repeats v) \<and> envelope_step q = of_nat (k mod 16) \<and> env_attack q = sweeps_up v (k div 16))"

lemma env_pos_hold: "env_pos v k q \<Longrightarrow> env_holding q \<Longrightarrow> env_pos v (Suc k) q"
  by (simp add: env_pos_def envelope_level_def)

lemma small_steps:
  assumes "j < 16"
  shows "(of_nat j :: u32) + 1 = of_nat (Suc j)" "((of_nat j :: u32) + 1 \<le> 15) = (j < 15)"
    "ucast (of_nat j :: u32) = (of_nat j :: u8)" "ucast (15 - of_nat j :: u32) = (of_nat (15 - j) :: u8)"
proof -
  have "j \<in> {0, 1, 2, 3, 4, 5, 6, 7, 8, 9, 10, 11, 12, 13, 14, 15}"
    using assms by (simp add: numeral_eq_Suc less_Suc_eq)
  then show "(of_nat j :: u32) + 1 = of_nat (Suc j)" "((of_nat j :: u32) + 1 \<le> 15) = (j < 15)"
    "ucast (of_nat j :: u32) = (of_nat j :: u8)" "ucast (15 - of_nat j :: u32) = (of_nat (15 - j) :: u8)"
    by (elim insertE emptyE; simp)+
qed

lemma env_pos_step:
  assumes "env_pos v k q" "\<not> env_holding q"
  shows "env_pos v (Suc k) (step_envelope (bit v 3) (bit v 1) (bit v 0) q)"
proof -
  define j where "j = k mod 16"
  have j: "j < 16" by (simp add: j_def)
  have q: "k < 16 \<or> repeats v" "envelope_step q = of_nat j" "env_attack q = sweeps_up v (k div 16)"
    using assms by (simp_all add: env_pos_def j_def)
  note steps = small_steps [OF j]
  show ?thesis
  proof (cases "j < 15")
    case True
    then have d: "Suc k div 16 = k div 16" "Suc k mod 16 = Suc j" by (simp_all add: j_def div_Suc mod_Suc)
    have "k < 16 \<Longrightarrow> Suc k < 16" using True by (simp add: j_def)
    moreover have "step_envelope (bit v 3) (bit v 1) (bit v 0) q =
        refresh_envelope_vol (q\<lparr>envelope_step := of_nat (Suc j)\<rparr>)"
      unfolding step_envelope_def Let_def using True steps(1,2) q(2) by (simp add: add.commute)
    ultimately show ?thesis
      using True q assms(2) small_steps(3,4) [of "Suc j"] unfolding env_pos_def envelope_level_def d
      by (auto simp: refresh_envelope_vol_def)
  next
    case False
    then have "j = 15" using j by simp
    then have d: "Suc k div 16 = Suc (k div 16)" "Suc k mod 16 = 0" by (simp_all add: j_def div_Suc mod_Suc)
    have first: "k = 15 \<and> sweeps_up v (k div 16) = bit v 2" if "\<not> repeats v"
      using that q(1) \<open>j = 15\<close> by (simp add: j_def sweeps_up_def)
    show ?thesis
      using \<open>j = 15\<close> q assms(2) first
      unfolding env_pos_def envelope_level_def d step_envelope_def Let_def
      by (auto simp: hold_at_def refresh_envelope_vol_def repeats_def sweeps_up_def)
  qed
qed

lemma tick_envelope:
  "count_e (step_noise (step_tones p)) = count_e p"
  "env_holding (step_noise (step_tones p)) = env_holding p" "ay_regs (step_noise (step_tones p)) = ay_regs p"
  "env_pos v k (step_noise (step_tones p)) = env_pos v k p"
  by (simp_all add: ay_tick_def step_noise_def step_tones_def advance_noise_def env_pos_def Let_def)

lemma env_bits:
  "((v AND 0x0F) AND 0x08 \<noteq> 0) = bit (v :: u8) 3" "((v AND 0x0F) AND 0x02 \<noteq> 0) = bit v 1"
  "((v AND 0x0F) AND 0x01 \<noteq> 0) = bit v 0" "(v AND 0x04 \<noteq> 0) = bit v 2"
  by (simp_all add: u8_eq_bits bit_simps)

lemma env_div_word:
  fixes l h :: u8
  defines "e \<equiv> (ucast l OR push_bit 8 (ucast h) :: u32)"
  shows "unat (2 * (if e \<noteq> 0 then e else 1)) = 2 * max 1 (unat l + 256 * unat h)"
proof -
  have lh: "unat l < 256" "unat h < 256" using unsigned_less [of l] unsigned_less [of h] by simp_all
  then have small: "unat l + 256 * unat h < 65536" by linarith
  have l: "unat (ucast l :: u32) = unat l" and h: "unat (ucast h :: u32) = unat h"
    by (simp_all add: unsigned_ucast_eq take_bit_nat_eq_self_iff order_less_trans [OF unsigned_less])
  have "e = ucast l + push_bit 8 (ucast h)"
    unfolding e_def by (rule disjunctive_add [symmetric]) (auto simp: bit_simps)
  moreover have p: "unat (push_bit 8 (ucast h) :: u32) = 256 * unat h"
  proof -
    have "unat h * 256 < 65536" using lh(2) by linarith
    then have "unat (ucast h :: u32) * unat (256 :: u32) < 2 ^ 32"
      by (simp add: h order_less_trans [of _ 65536])
    then have "unat (ucast h * 256 :: u32) = unat h * 256" by (subst unat_mult_lem [THEN iffD1]) (simp_all add: h)
    then show ?thesis by (simp add: push_bit_eq_mult)
  qed
  moreover have "unat (ucast l :: u32) + unat (push_bit 8 (ucast h) :: u32) < 2 ^ 32"
    unfolding l p using small by simp
  ultimately have e: "unat e = unat l + 256 * unat h" by (simp add: unat_add_lem [THEN iffD1] l)
  show ?thesis
  proof (cases "e = 0")
    case True
    with e show ?thesis by simp
  next
    case False
    then have "0 < unat e" by (simp add: unat_gt_0)
    moreover have "unat (2 * e) = 2 * unat e"
      using e small by (subst unat_mult_lem [THEN iffD1]) simp_all
    moreover have "max 1 (unat l + 256 * unat h) = unat e"
      unfolding e [symmetric] using \<open>0 < unat e\<close> by simp
    ultimately show ?thesis using False by simp
  qed
qed

lemma shape_tick:
  assumes "env_pos v (n div d) q" "\<not> env_holding q \<Longrightarrow> unat (count_e q) = n mod d"
    and "ay_regs q ! 13 = v AND 0x0F" "d = envelope_ticks q"
  shows "env_pos v (Suc n div d) (step_shape q) \<and>
    (\<not> env_holding (step_shape q) \<longrightarrow> unat (count_e (step_shape q)) = Suc n mod d)"
proof -
  have d: "0 < d" "d < 2 ^ 32"
  proof -
    have "unat (ay_regs q ! 11) < 256" "unat (ay_regs q ! 12) < 256" by simp_all
    then have "unat (ay_regs q ! 11) + 256 * unat (ay_regs q ! 12) < 65536" by linarith
    then show "0 < d" "d < 2 ^ 32" by (simp_all add: assms(4) envelope_ticks_def)
  qed
  have m: "n mod d < d" using d(1) by simp
  show ?thesis
  proof (cases "env_holding q")
    case True
    with env_pos_hold [OF assms(1)] assms(1) show ?thesis
      by (simp add: step_shape_def Let_def mod_div_Suc [OF d(1)])
  next
    case False
    have s: "unat (count_e q + 1) = Suc (n mod d)"
      using assms(2) [OF False] m d(2) by (subst unat_add_lem [THEN iffD1]) simp_all
    define D where "D = 2 * (let e = ucast (ay_regs q ! 11) OR push_bit 8 (ucast (ay_regs q ! 12)) :: u32
       in if e \<noteq> 0 then e else 1)"
    have D: "unat D = d" unfolding D_def Let_def assms(4) envelope_ticks_def by (rule env_div_word)
    have ge: "(D \<le> count_e q + 1) = (Suc (n mod d) = d)"
      using s D m by (auto simp: word_le_nat_alt)
    have pos: "env_pos v k (x\<lparr>count_e := c\<rparr>) = env_pos v k x" for k c x by (simp add: env_pos_def)
    have hold: "env_holding (step_envelope c a h x) \<or> count_e (step_envelope c a h x) = count_e x" for c a h x
      by (simp add: step_envelope_def refresh_envelope_vol_def hold_at_def Let_def)
    have form: "step_shape q = (if Suc (n mod d) = d then step_envelope (bit v 3) (bit v 1) (bit v 0) (q\<lparr>count_e := 0\<rparr>)
        else q\<lparr>count_e := count_e q + 1\<rparr>)"
      unfolding ge [symmetric] using False
      by (simp add: step_shape_def Let_def D_def assms(3) env_bits)
    show ?thesis
    proof (cases "Suc (n mod d) = d")
      case True
      have "env_pos v (Suc (n div d)) (step_shape q)"
        using env_pos_step [of v "n div d" "q\<lparr>count_e := 0\<rparr>"] assms(1) False True by (simp add: form pos)
      with hold [of "bit v 3" "bit v 1" "bit v 0" "q\<lparr>count_e := 0\<rparr>"] True show ?thesis
        by (auto simp: mod_div_Suc [OF d(1)] form)
    next
      case False
      with assms(1) s show ?thesis by (simp add: form pos mod_div_Suc [OF d(1)])
    qed
  qed
qed

text \<open>
  C32. The envelope generator has the data sheet's shapes.  After register 13 is written, its
  amplitude at every tick is the shape's level after as many envelope steps as envelope periods are
  complete: the ramps up or down for the first sixteen steps, then silence, a held level, or the
  repeated or alternating ramp, as the four bits of the shape say.
\<close>

theorem envelope_waveform:
  assumes "ay_ok p" "d = envelope_ticks p"
  shows "envelope_vol ((ay_tick ^^ n) (ay8910_write 13 v p)) = of_nat (envelope_level v (n div d))"
proof -
  let ?p = "ay8910_write 13 v p"
  have regs: "ay_regs ?p = (ay_regs p)[13 := v AND 0x0F]"
    using ay_write_regs [of 13 v p] by (simp add: register_mask_def)
  have r: "ay_regs ?p ! 13 = v AND 0x0F" "envelope_ticks ?p = d"
    using assms by (simp_all add: regs ay_ok_def envelope_ticks_def)
  have d: "0 < d" by (simp add: assms(2) envelope_ticks_def)
  have "env_pos v (n div d) ((ay_tick ^^ n) ?p) \<and>
      (\<not> env_holding ((ay_tick ^^ n) ?p) \<longrightarrow> unat (count_e ((ay_tick ^^ n) ?p)) = n mod d)"
  proof (induction n)
    case 0
    have "unat (count_e ?p) = 0" "env_pos v 0 ?p"
      by (auto simp: ay8910_write_def Let_def refresh_envelope_vol_def env_pos_def envelope_level_def sweeps_up_def
          env_bits)
    then show ?case by simp
  next
    case (Suc n)
    let ?q = "step_noise (step_tones ((ay_tick ^^ n) ?p))"
    have "(ay_tick ^^ Suc n) ?p = step_shape ?q" by (simp add: ay_tick_def)
    moreover have "ay_regs ?q ! 13 = v AND 0x0F" "d = envelope_ticks ?q"
      using r by (simp_all add: tick_envelope envelope_ticks_def)
    ultimately show ?case
      using shape_tick [of v n d ?q] Suc by (simp add: tick_envelope)
  qed
  then show ?thesis by (simp add: env_pos_def)
qed

text \<open>Shape 14, the triangle, with the shortest period: down in 16 steps of two ticks, then up.\<close>

lemma envelope_waveform_witness:
  "envelope_vol ((ay_tick ^^ 6) (ay8910_write 13 14 new_ay8910)) = 3 \<and>
   envelope_vol ((ay_tick ^^ 38) (ay8910_write 13 14 new_ay8910)) = 12"
proof -
  have "envelope_ticks new_ay8910 = 2" by (simp add: envelope_ticks_def new_ay8910_def)
  then show ?thesis
    using envelope_waveform [OF ay_ok_new, of 2 6 14] envelope_waveform [OF ay_ok_new, of 2 38 14]
    by (simp add: envelope_level_def repeats_def sweeps_up_def)
qed

end
