(* ===== verification/Disk_Encoding.thy ===== *)
theory Disk_Encoding
  imports Prelude
begin

text \<open>
  The GCR codec of the floppy drive (\<open>src/apple2/peripherals/disk/DiskEncoding.cpp\<close>):
  6-and-2 coding of a sector, the fields of a track, and the cells on the medium.

  The C++ routines work in three areas of one scratch buffer that do not overlap (the sector
  data at 0x0000, the checksum chain at 0x0400, the decoded track at 0x0800); each area is a list
  here, and a pass over an area is a function from list to list.  A null pointer argument
  is the flag \<open>pointers_ok\<close>.
\<close>

datatype disk_error = disk_err_none | disk_err_file_not_found | disk_err_unsupported_format
  | disk_err_corrupt | disk_err_write_protected | disk_err_out_of_memory | disk_err_io
  | disk_err_invalid_argument | disk_err_unsupported

datatype disk_sector_order = disk_sector_order_dos | disk_sector_order_prodos

abbreviation "prologue_1 \<equiv> (0xD5 :: u8)"
abbreviation "prologue_2 \<equiv> (0xAA :: u8)"
abbreviation "addr_prologue_3 \<equiv> (0x96 :: u8)"
abbreviation "data_prologue_3 \<equiv> (0xAD :: u8)"
abbreviation "epilogue_1 \<equiv> (0xDE :: u8)"
abbreviation "epilogue_2 \<equiv> (0xAA :: u8)"
abbreviation "epilogue_3 \<equiv> (0xEB :: u8)"
abbreviation "sync_byte \<equiv> (0xFF :: u8)"
abbreviation "invalid_nibble \<equiv> (0xFF :: u8)"
abbreviation "mask_lowbits \<equiv> (0xFC :: u8)"
abbreviation "volume_default \<equiv> (0xFE :: u8)"

abbreviation "sectors_per_track \<equiv> (16 :: nat)"
abbreviation "tracks_per_disk \<equiv> (40 :: nat)"
abbreviation "sector_size \<equiv> (256 :: nat)"
abbreviation "sector_data_size \<equiv> (342 :: nat)"
abbreviation "sector_with_checksum_size \<equiv> (343 :: nat)"
abbreviation "gcr62_iterations \<equiv> (86 :: nat)"
abbreviation "gcr62_offset_init \<equiv> (0xAC :: u8)"
abbreviation "max_gcr_markers_per_track \<equiv> (48 :: nat)"

subsection \<open>The 6-and-2 alphabet\<close>

definition disk_encoding_table :: "u8 list" where
  "disk_encoding_table = [
     0x96, 0x97, 0x9A, 0x9B, 0x9D, 0x9E, 0x9F, 0xA6, 0xA7, 0xAB, 0xAC,
     0xAD, 0xAE, 0xAF, 0xB2, 0xB3, 0xB4, 0xB5, 0xB6, 0xB7, 0xB9, 0xBA,
     0xBB, 0xBC, 0xBD, 0xBE, 0xBF, 0xCB, 0xCD, 0xCE, 0xCF, 0xD3, 0xD6,
     0xD7, 0xD9, 0xDA, 0xDB, 0xDC, 0xDD, 0xDE, 0xDF, 0xE5, 0xE6, 0xE7,
     0xE9, 0xEA, 0xEB, 0xEC, 0xED, 0xEE, 0xEF, 0xF2, 0xF3, 0xF4, 0xF5,
     0xF6, 0xF7, 0xF9, 0xFA, 0xFB, 0xFC, 0xFD, 0xFE, 0xFF]"

definition interleave_table :: "nat list list" where
  "interleave_table = [
     [0x00, 0x08, 0x01, 0x09, 0x02, 0x0A, 0x03, 0x0B, 0x04, 0x0C, 0x05, 0x0D, 0x06, 0x0E, 0x07, 0x0F],
     [0x00, 0x07, 0x0E, 0x06, 0x0D, 0x05, 0x0C, 0x04, 0x0B, 0x03, 0x0A, 0x02, 0x09, 0x01, 0x08, 0x0F]]"

definition disk_encoding_sector_order :: "disk_sector_order \<Rightarrow> nat list" where
  "disk_encoding_sector_order order =
     interleave_table ! (if order = disk_sector_order_dos then 1 else 0)"

definition decode_table :: "u8 list" where
  "decode_table = fold (\<lambda>i t. t[unat (disk_encoding_table ! i - 0x80) := push_bit 2 (word_of_nat i)])
     [0..<length disk_encoding_table] (replicate 128 invalid_nibble)"

subsection \<open>One sector\<close>

definition encode_bits :: "u8 \<Rightarrow> u8 \<Rightarrow> u8" where
  "encode_bits value b = push_bit 2 value OR push_bit 1 (b AND 1) OR drop_bit 1 (b AND 2)"

fun encode_low :: "u8 list \<Rightarrow> nat \<Rightarrow> u8 \<Rightarrow> u8 list" where
  "encode_low sector 0 offset = []"
| "encode_low sector (Suc n) offset =
     (let value = encode_bits 0 (sector ! unat offset);
          offset = offset - 0x56;
          value = encode_bits value (sector ! unat offset);
          offset = offset - 0x56;
          value = encode_bits value (sector ! unat offset);
          offset = offset - 0x53
      in push_bit 2 value # encode_low sector n offset)"

fun xor_chain :: "u8 \<Rightarrow> u8 list \<Rightarrow> u8 list" where
  "xor_chain saved [] = [saved]"
| "xor_chain saved (b # bs) = (saved XOR b) # xor_chain b bs"

definition sector_data :: "u8 list \<Rightarrow> u8 list" where
  "sector_data sector =
     (let low = encode_low sector gcr62_iterations gcr62_offset_init;
          low = low[84 := low ! 84 AND 0x3F];
          low = low[85 := low ! 85 AND 0x3F]
      in low @ sector)"

definition encode_sector_62 :: "u8 list \<Rightarrow> nat \<Rightarrow> u8 list" where
  "encode_sector_62 sectors_in sector_index =
     (let sector = take sector_size (drop (sector_index * sector_size) sectors_in)
      in map (\<lambda>b. disk_encoding_table ! unat (drop_bit 2 b)) (xor_chain 0 (sector_data sector)))"

fun decode_nibbles :: "u8 list \<Rightarrow> u8 list option" where
  "decode_nibbles [] = Some []"
| "decode_nibbles (nibble # nibbles) =
     (if nibble AND 0x80 = 0 then None
      else let value = decode_table ! unat (nibble AND 0x7F)
           in if value = invalid_nibble then None
              else map_option (Cons value) (decode_nibbles nibbles))"

fun xor_unchain :: "u8 \<Rightarrow> nat \<Rightarrow> u8 list \<Rightarrow> u8 list \<times> u8" where
  "xor_unchain saved (Suc n) (b # bs) =
     (let r = saved XOR b; (rs, final) = xor_unchain r n bs in (r # rs, final))"
| "xor_unchain saved n bs = ([], saved)"

fun merge_low :: "u8 list \<Rightarrow> u8 list \<Rightarrow> u8 \<Rightarrow> u8 list \<Rightarrow> u8 list" where
  "merge_low base [] offset img = img"
| "merge_low base (low # lows) offset img =
     (let img = (if offset \<ge> gcr62_offset_init
                   then img[unat offset := (base ! unat offset AND mask_lowbits)
                          OR drop_bit 7 (low AND 0x80) OR drop_bit 5 (low AND 0x40)]
                   else img);
          offset = offset - 0x56;
          img = img[unat offset := (base ! unat offset AND mask_lowbits)
                     OR drop_bit 5 (low AND 0x20) OR drop_bit 3 (low AND 0x10)];
          offset = offset - 0x56;
          img = img[unat offset := (base ! unat offset AND mask_lowbits)
                     OR drop_bit 3 (low AND 0x08) OR drop_bit 1 (low AND 0x04)];
          offset = offset - 0x53
      in merge_low base lows offset img)"

text \<open>The sector of 343 nibbles decoded over \<open>image\<close>; \<open>None\<close> when it is refused.\<close>

definition decode_sector_62 :: "u8 list \<Rightarrow> u8 list \<Rightarrow> u8 list option" where
  "decode_sector_62 scratch img =
     (case decode_nibbles (take sector_with_checksum_size scratch) of
        None \<Rightarrow> None
      | Some values \<Rightarrow>
          let (data, saved) = xor_unchain 0 sector_data_size values
          in if values ! sector_data_size \<noteq> saved then None
             else Some (merge_low (drop gcr62_iterations data) (take gcr62_iterations data)
                         gcr62_offset_init img))"

subsection \<open>The tables\<close>

lemma decode_table_list:
  "decode_table = [
    0xFF, 0xFF, 0xFF, 0xFF, 0xFF, 0xFF, 0xFF, 0xFF, 0xFF, 0xFF, 0xFF, 0xFF, 0xFF, 0xFF,
    0xFF, 0xFF, 0xFF, 0xFF, 0xFF, 0xFF, 0xFF, 0xFF, 0x00, 0x04, 0xFF, 0xFF, 0x08, 0x0C,
    0xFF, 0x10, 0x14, 0x18, 0xFF, 0xFF, 0xFF, 0xFF, 0xFF, 0xFF, 0x1C, 0x20, 0xFF, 0xFF,
    0xFF, 0x24, 0x28, 0x2C, 0x30, 0x34, 0xFF, 0xFF, 0x38, 0x3C, 0x40, 0x44, 0x48, 0x4C,
    0xFF, 0x50, 0x54, 0x58, 0x5C, 0x60, 0x64, 0x68, 0xFF, 0xFF, 0xFF, 0xFF, 0xFF, 0xFF,
    0xFF, 0xFF, 0xFF, 0xFF, 0xFF, 0x6C, 0xFF, 0x70, 0x74, 0x78, 0xFF, 0xFF, 0xFF, 0x7C,
    0xFF, 0xFF, 0x80, 0x84, 0xFF, 0x88, 0x8C, 0x90, 0x94, 0x98, 0x9C, 0xA0, 0xFF, 0xFF,
    0xFF, 0xFF, 0xFF, 0xA4, 0xA8, 0xAC, 0xFF, 0xB0, 0xB4, 0xB8, 0xBC, 0xC0, 0xC4, 0xC8,
    0xFF, 0xFF, 0xCC, 0xD0, 0xD4, 0xD8, 0xDC, 0xE0, 0xFF, 0xE4, 0xE8, 0xEC, 0xF0, 0xF4,
    0xF8, 0xFC]"
  by code_simp

lemma encode_entries:
  "list_all (\<lambda>i. let b = disk_encoding_table ! i
     in b AND 0x80 \<noteq> 0 \<and> decode_table ! unat (b AND 0x7F) = push_bit 2 (word_of_nat i) \<and>
        b \<noteq> prologue_1 \<and> b \<noteq> prologue_2) [0..<64]"
  unfolding decode_table_list by code_simp

lemma decode_injective: "distinct (filter (\<lambda>v. v \<noteq> invalid_nibble) decode_table)"
  unfolding decode_table_list by code_simp

lemma decode_multiples: "list_all (\<lambda>v. v = invalid_nibble \<or> v AND mask_lowbits = v) decode_table"
  unfolding decode_table_list by code_simp

lemma length_decode_table: "length decode_table = 128"
  unfolding decode_table_list by simp

lemma six_bits: "unat (drop_bit 2 (b :: u8)) < 64"
proof -
  have "unat (drop_bit 2 b) = unat b div 4"
    by (simp only: unat_drop_bit_eq) (simp add: drop_bit_eq_div)
  then show ?thesis using unat_u8_less [of b] by (simp del: unat_u8_less)
qed

definition encode_nibble :: "u8 \<Rightarrow> u8" where
  "encode_nibble b = disk_encoding_table ! unat (drop_bit 2 b)"

lemma encode_nibble:
  "encode_nibble b AND 0x80 \<noteq> 0"
  "decode_table ! unat (encode_nibble b AND 0x7F) = b AND mask_lowbits"
  "encode_nibble b \<noteq> prologue_1" "encode_nibble b \<noteq> prologue_2"
proof -
  have "push_bit 2 (word_of_nat (unat (drop_bit 2 b))) = b AND mask_lowbits"
    by (simp add: u8_eq_bits word_bits)
  then show "encode_nibble b AND 0x80 \<noteq> 0"
      "decode_table ! unat (encode_nibble b AND 0x7F) = b AND mask_lowbits"
      "encode_nibble b \<noteq> prologue_1" "encode_nibble b \<noteq> prologue_2"
    using encode_entries six_bits [of b]
    by (auto simp: encode_nibble_def list_all_iff Let_def)
qed

lemma masked_valid: "b AND mask_lowbits \<noteq> invalid_nibble"
  by (simp add: u8_eq_bits word_bits)

lemma decode_encoded:
  "decode_nibbles (map encode_nibble bs) = Some (map (\<lambda>b. b AND mask_lowbits) bs)"
  by (induction bs) (simp_all add: encode_nibble masked_valid Let_def)

subsection \<open>The chain\<close>

lemma length_xor_chain [simp]: "length (xor_chain s bs) = length bs + 1"
  by (induction bs arbitrary: s) simp_all

lemma unchain_chain:
  "xor_unchain (s AND m) (length bs) (map (\<lambda>b. b AND m) (xor_chain s bs))
     = (map (\<lambda>b. b AND m) bs, last (s # bs) AND m)"
proof (induction bs arbitrary: s)
  case (Cons b bs)
  have "(s AND m) XOR ((s XOR b) AND m) = b AND m"
    by (simp add: u8_eq_bits word_bits) blast
  then show ?case using Cons [of b] by simp
qed simp

lemma xor_chain_last: "xor_chain s bs ! length bs = last (s # bs)"
  by (induction bs arbitrary: s) simp_all

subsection \<open>The low bits\<close>

definition low_byte :: "u8 \<Rightarrow> u8 \<Rightarrow> u8 \<Rightarrow> u8" where
  "low_byte b0 b1 b2 = push_bit 2 (encode_bits (encode_bits (encode_bits 0 b0) b1) b2)"

lemma length_encode_low [simp]: "length (encode_low sec n off) = n"
  by (induction n arbitrary: off) (simp_all add: Let_def)

lemma minus_FF: "x - (0xFF :: u8) = x + 1"
proof -
  have "(0xFF :: u8) = - 1" by simp
  then show ?thesis by (simp only: diff_minus_eq_add)
qed

lemma nth_encode_low:
  "i < n \<Longrightarrow> encode_low sec n off ! i = low_byte (sec ! unat (off + word_of_nat i))
     (sec ! unat (off + word_of_nat i - 0x56)) (sec ! unat (off + word_of_nat i - 0xAC))"
proof (induction n arbitrary: off i)
  case (Suc n)
  show ?case
  proof (cases i)
    case 0
    then show ?thesis by (simp add: Let_def low_byte_def)
  next
    case (Suc j)
    from Suc Suc.prems Suc.IH [of j "off + 1"] show ?thesis
      by (simp add: Let_def minus_FF) (simp add: algebra_simps)
  qed
qed simp

lemma bit_times_2: "bit (a * 2 :: u8) n \<longleftrightarrow> n \<noteq> 0 \<and> n < 8 \<and> bit a (n - 1)"
  using bit_double_iff [of a n] by (auto simp: mult.commute possible_bit_def)

lemma low_bits:
  "drop_bit 7 (low_byte a b c AND 0x80) = a AND 1" "drop_bit 5 (low_byte a b c AND 0x40) = a AND 2"
  "drop_bit 5 (low_byte a b c AND 0x20) = b AND 1" "drop_bit 3 (low_byte a b c AND 0x10) = b AND 2"
  "drop_bit 3 (low_byte a b c AND 0x08) = c AND 1" "drop_bit 1 (low_byte a b c AND 0x04) = c AND 2"
  by (simp_all add: low_byte_def encode_bits_def u8_eq_bits word_bits bit_times_2)

lemma join_low: "(b AND mask_lowbits) OR (b AND 1) OR (b AND 2) = b"
  by (simp add: u8_eq_bits word_bits)

lemma low_byte_masked: "low_byte a b c AND mask_lowbits = low_byte a b c"
  by (simp add: low_byte_def encode_bits_def u8_eq_bits word_bits)

subsection \<open>Merging the low bits back\<close>

definition merged :: "nat \<Rightarrow> nat set" where
  "merged i = {k. k < i \<or> (0x56 \<le> k \<and> k < 0x56 + i) \<or> (0xAC \<le> k \<and> k < 0xAC + i)}"

text \<open>The bits of the three bytes that the low byte \<open>j\<close> carries.\<close>

definition low_ok :: "u8 list \<Rightarrow> nat \<Rightarrow> u8 \<Rightarrow> bool" where
  "low_ok sec j v \<longleftrightarrow>
     (j < 84 \<longrightarrow> drop_bit 7 (v AND 0x80) = sec ! (0xAC + j) AND 1 \<and>
               drop_bit 5 (v AND 0x40) = sec ! (0xAC + j) AND 2) \<and>
     drop_bit 5 (v AND 0x20) = sec ! (0x56 + j) AND 1 \<and>
     drop_bit 3 (v AND 0x10) = sec ! (0x56 + j) AND 2 \<and>
     drop_bit 3 (v AND 0x08) = sec ! j AND 1 \<and> drop_bit 1 (v AND 0x04) = sec ! j AND 2"

lemma offsets:
  assumes "i < 86"
  shows "gcr62_offset_init \<le> gcr62_offset_init + word_of_nat i \<longleftrightarrow> i < 84"
    and "i < 84 \<Longrightarrow> unat (gcr62_offset_init + word_of_nat i) = 0xAC + i"
    and "unat (gcr62_offset_init + word_of_nat i - 0x56) = 0x56 + i"
    and "unat (gcr62_offset_init + word_of_nat i - 0x56 - 0x56) = i"
    and "gcr62_offset_init + word_of_nat i - 0x56 - 0x56 - 0x53 = gcr62_offset_init + word_of_nat (Suc i)"
proof -
  have i: "unat (word_of_nat i :: u8) = i" using assms by (simp add: unat_of_nat)
  then show "i < 84 \<Longrightarrow> unat (gcr62_offset_init + word_of_nat i) = 0xAC + i"
    by (simp add: unat_word_ariths)
  show "gcr62_offset_init \<le> gcr62_offset_init + word_of_nat i \<longleftrightarrow> i < 84"
    using assms by (auto simp: word_le_nat_alt unat_word_ariths i mod_if)
  have "gcr62_offset_init + word_of_nat i - 0x56 = 0x56 + word_of_nat i"
    "gcr62_offset_init + word_of_nat i - 0x56 - 0x56 = word_of_nat i" by simp_all
  then show "unat (gcr62_offset_init + word_of_nat i - 0x56) = 0x56 + i"
    "unat (gcr62_offset_init + word_of_nat i - 0x56 - 0x56) = i"
    using assms i by (simp_all add: unat_word_ariths)
  have "(- 0x53 :: u8) = 0xAD" by simp
  then show "gcr62_offset_init + word_of_nat i - 0x56 - 0x56 - 0x53 = gcr62_offset_init + word_of_nat (Suc i)"
    by (simp add: algebra_simps)
qed

lemma merged_0 [simp]: "merged 0 = {}"
  by (auto simp: merged_def)

lemma merge_low_correct:
  assumes "length sec = 256" and L: "length L = 86" "\<And>j. j < 86 \<Longrightarrow> low_ok sec j (L ! j)"
    and base: "\<And>k. k < 256 \<Longrightarrow> base ! k AND mask_lowbits = sec ! k AND mask_lowbits"
    and "i \<le> 86" "length img = 256" and sofar: "\<And>k. k \<in> merged i \<Longrightarrow> k < 256 \<Longrightarrow> img ! k = sec ! k"
  shows "merge_low base (drop i L) (gcr62_offset_init + word_of_nat i) img = sec"
  using assms(5-7)
proof (induction "86 - i" arbitrary: i img)
  case 0
  then have "i = 86" by simp
  moreover have "k \<in> merged 86" if "k < 256" for k
    using that by (auto simp: merged_def)
  ultimately have "img = sec"
    using 0 assms(1) by (intro nth_equalityI) auto
  with \<open>i = 86\<close> show ?case by (simp add: L(1))
next
  case (Suc n)
  then have i: "i < 86" by simp
  define img1 where "img1 = (if i < 84 then img[0xAC + i := sec ! (0xAC + i)] else img)"
  define img2 where "img2 = img1[0x56 + i := sec ! (0x56 + i)]"
  define img3 where "img3 = img2[i := sec ! i]"
  have ok: "low_ok sec i (L ! i)" by (rule L(2) [OF i])
  have ok2: "drop_bit 5 (L ! i AND 0x20) = sec ! (0x56 + i) AND 1"
    "drop_bit 3 (L ! i AND 0x10) = sec ! (0x56 + i) AND 2"
    "drop_bit 3 (L ! i AND 0x08) = sec ! i AND 1" "drop_bit 1 (L ! i AND 0x04) = sec ! i AND 2"
    and ok1: "i < 84 \<Longrightarrow> drop_bit 7 (L ! i AND 0x80) = sec ! (0xAC + i) AND 1 \<and>
       drop_bit 5 (L ! i AND 0x40) = sec ! (0xAC + i) AND 2"
    using ok by (simp_all only: low_ok_def)
  have b: "base ! i AND mask_lowbits = sec ! i AND mask_lowbits"
    "base ! (0x56 + i) AND mask_lowbits = sec ! (0x56 + i) AND mask_lowbits"
    "i < 84 \<Longrightarrow> base ! (0xAC + i) AND mask_lowbits = sec ! (0xAC + i) AND mask_lowbits"
    using i by (simp_all add: base)
  have d: "drop i L = L ! i # drop (Suc i) L" using i L(1) by (simp add: Cons_nth_drop_Suc)
  have "merge_low base (drop i L) (gcr62_offset_init + word_of_nat i) img =
    merge_low base (drop (Suc i) L) (gcr62_offset_init + word_of_nat (Suc i)) img3"
  proof (cases "i < 84")
    case True
    then show ?thesis
      unfolding d merge_low.simps(2) Let_def offsets(1,3-5) [OF i] offsets(2) [OF i True]
      by (simp only: if_True ok1 ok2 b join_low img1_def img2_def img3_def)
  next
    case False
    then show ?thesis
      unfolding d merge_low.simps(2) Let_def offsets(1,3-5) [OF i]
      by (simp only: if_False ok2 b(1,2) join_low img1_def img2_def img3_def)
  qed
  also have "\<dots> = sec"
  proof (rule Suc.hyps(1))
    show "n = 86 - Suc i" "Suc i \<le> 86" using Suc.hyps(2) i by simp_all
    show "length img3 = 256" by (simp add: img1_def img2_def img3_def Suc.prems(2))
    show "img3 ! k = sec ! k" if "k \<in> merged (Suc i)" "k < 256" for k
    proof -
      have "k \<in> merged i \<or> k = i \<or> k = 0x56 + i \<or> (k = 0xAC + i \<and> i < 84)"
        using that i by (auto simp: merged_def)
      then show ?thesis
        using Suc.prems that(2) by (auto simp: img1_def img2_def img3_def nth_list_update)
    qed
  qed
  finally show ?case .
qed

subsection \<open>Sector round trip\<close>

lemma length_sector_data: "length sec = 256 \<Longrightarrow> length (sector_data sec) = 342"
  by (simp add: sector_data_def Let_def)

lemma sector_data_split:
  assumes "length sec = 256"
  shows "drop 86 (sector_data sec) = sec"
    and "length (take 86 (sector_data sec)) = 86"
    and "j < 86 \<Longrightarrow> low_ok sec j (take 86 (sector_data sec) ! j AND mask_lowbits)"
proof -
  show "drop 86 (sector_data sec) = sec" "length (take 86 (sector_data sec)) = 86"
    using assms by (simp_all add: sector_data_def Let_def)
  assume j: "j < 86"
  note o = offsets [OF j]
  have e: "encode_low sec 86 gcr62_offset_init ! j = low_byte (sec ! unat (gcr62_offset_init + word_of_nat j))
      (sec ! (0x56 + j)) (sec ! j)"
  proof -
    have "gcr62_offset_init + word_of_nat j - gcr62_offset_init = gcr62_offset_init + word_of_nat j - 0x56 - 0x56"
      by simp
    then show ?thesis
      by (simp only: nth_encode_low [OF j] o(3) o(4))
  qed
  show "low_ok sec j (take 86 (sector_data sec) ! j AND mask_lowbits)"
  proof (cases "j < 84")
    case True
    then have "take 86 (sector_data sec) ! j = low_byte (sec ! (0xAC + j)) (sec ! (0x56 + j)) (sec ! j)"
      using e o(2) by (simp add: sector_data_def Let_def)
    then show ?thesis
      by (simp only: low_byte_masked low_ok_def low_bits simp_thms)
  next
    case False
    then have "take 86 (sector_data sec) ! j = encode_low sec 86 gcr62_offset_init ! j AND 0x3F"
    proof -
      have "j = 84 \<or> j = 85" using False j by auto
      then show ?thesis by (auto simp: sector_data_def Let_def)
    qed
    then have t: "take 86 (sector_data sec) ! j AND mask_lowbits =
        low_byte (sec ! unat (gcr62_offset_init + word_of_nat j)) (sec ! (0x56 + j)) (sec ! j) AND 0x3F"
      by (simp only: e) (simp add: low_byte_def encode_bits_def u8_eq_bits word_bits)
    have "(v AND 0x3F) AND 0x20 = v AND 0x20" "(v AND 0x3F) AND 0x10 = v AND 0x10"
      "(v AND 0x3F) AND 0x08 = v AND 0x08" "(v AND 0x3F) AND 0x04 = v AND 0x04" for v :: u8
      by (simp_all add: and.assoc)
    then show ?thesis using False by (simp only: t low_ok_def low_bits simp_thms)
  qed
qed

lemma decode_encode_sector:
  assumes "length sec = 256" "length img = 256"
  shows "decode_sector_62 (map encode_nibble (xor_chain 0 (sector_data sec))) img = Some sec"
proof -
  let ?d = "sector_data sec" and ?m = "map (\<lambda>b. b AND mask_lowbits)"
  note len = length_sector_data [OF assms(1)]
  have dec: "decode_nibbles (take 343 (map encode_nibble (xor_chain 0 ?d))) = Some (?m (xor_chain 0 ?d))"
    using len by (simp add: decode_encoded)
  have un: "xor_unchain 0 342 (?m (xor_chain 0 ?d)) = (?m ?d, last (0 # ?d) AND mask_lowbits)"
    using unchain_chain [of 0 mask_lowbits ?d] len by simp
  have chk: "?m (xor_chain 0 ?d) ! 342 = last (0 # ?d) AND mask_lowbits"
    using xor_chain_last [of 0 ?d] len by simp
  have "decode_sector_62 (map encode_nibble (xor_chain 0 ?d)) img =
      Some (merge_low (?m sec) (?m (take 86 ?d)) gcr62_offset_init img)"
    unfolding decode_sector_62_def dec option.case Let_def un prod.case chk
    by (simp add: drop_map take_map sector_data_split [OF assms(1)])
  also have "merge_low (?m sec) (?m (take 86 ?d)) gcr62_offset_init img = sec"
    using merge_low_correct [of sec "?m (take 86 ?d)" "?m sec" 0 img] assms
      sector_data_split(3) [OF assms(1)] len
    by simp
  finally show ?thesis .
qed

subsection \<open>Damage to a sector\<close>

lemma distinct_filter_nth:
  "distinct (filter P xs) \<Longrightarrow> m < length xs \<Longrightarrow> n < length xs \<Longrightarrow> xs ! m = xs ! n \<Longrightarrow> P (xs ! m) \<Longrightarrow> m = n"
proof (induction xs arbitrary: m n)
  case (Cons x xs)
  then show ?case by (cases m; cases n) (auto split: if_splits)
qed simp

lemma decode_nibbles_Some:
  "decode_nibbles xs = Some vs \<longleftrightarrow> length vs = length xs \<and>
     (\<forall>i < length xs. xs ! i AND 0x80 \<noteq> 0 \<and> vs ! i = decode_table ! unat (xs ! i AND 0x7F) \<and>
        vs ! i \<noteq> invalid_nibble)"
proof (induction xs arbitrary: vs)
  case (Cons x xs)
  show ?case
    using Cons.IH by (cases vs) (auto simp: Let_def All_less_Suc2)
qed auto

lemma nibble_injective:
  assumes "(a :: u8) AND 0x80 \<noteq> 0" "(b :: u8) AND 0x80 \<noteq> 0"
    and "decode_table ! unat (a AND 0x7F) = decode_table ! unat (b AND 0x7F)"
    and "decode_table ! unat (a AND 0x7F) \<noteq> invalid_nibble"
  shows "a = b"
proof -
  have l: "unat (x AND 0x7F) < 128" for x :: u8
  proof -
    have "x AND 0x7F \<le> 0x7F" by (rule word_and_le1)
    then show ?thesis by (simp add: word_le_nat_alt)
  qed
  have "unat (a AND 0x7F) = unat (b AND 0x7F)"
    by (rule distinct_filter_nth [OF decode_injective _ _ assms(3,4)])
      (unfold length_decode_table, rule l, rule l)
  then have "a AND 0x7F = b AND 0x7F" by (simp add: word_unat_eq_iff)
  moreover have "a AND 0x80 = 0x80" "b AND 0x80 = 0x80"
    using assms(1,2) by (auto simp: u8_eq_bits word_bits)
  ultimately show ?thesis by (simp add: u8_eq_bits word_bits)
qed

definition xor_sum :: "u8 list \<Rightarrow> u8" where
  "xor_sum vs = foldr (XOR) vs 0"

lemma snd_xor_unchain: "n \<le> length vs \<Longrightarrow> snd (xor_unchain s n vs) = s XOR xor_sum (take n vs)"
proof (induction s n vs rule: xor_unchain.induct)
  case (1 saved n b bs)
  then show ?case by (simp add: Let_def split_def xor_sum_def xor.assoc)
qed (simp_all add: xor_sum_def)

lemma xor_sum_snoc: "xor_sum (vs @ [v]) = xor_sum vs XOR v"
  by (induction vs) (simp_all add: xor_sum_def xor.assoc)

lemma xor_sum_update:
  "i < length vs \<Longrightarrow> xor_sum (vs[i := v]) = xor_sum vs XOR (vs ! i) XOR v"
proof (induction vs arbitrary: i)
  case (Cons w vs)
  have "v XOR s = (w XOR s) XOR (w XOR v)" for s
    by (simp add: u8_eq_bits word_bits) blast
  then show ?case
    using Cons by (cases i) (simp_all add: xor_sum_def xor.assoc)
qed simp

text \<open>
  6-and-2 coding loses nothing: decoding the 343 nibbles of an encoded sector, over any
  previous contents of the image, accepts them and gives back the 256 bytes of the sector.
\<close>

theorem sector_round_trip:
  assumes "sector_index * 256 + 256 \<le> length sectors_in" "length img = 256"
  shows "decode_sector_62 (encode_sector_62 sectors_in sector_index) img =
    Some (take 256 (drop (sector_index * 256) sectors_in))"
  using assms decode_encode_sector [of "take 256 (drop (sector_index * 256) sectors_in)" img]
  by (simp add: encode_sector_62_def Let_def encode_nibble_def [abs_def])

lemma sector_round_trip_witness:
  "decode_sector_62 (encode_sector_62 (replicate 256 0xA5 @ replicate 256 0x3C) 1) (replicate 256 0) =
    Some (replicate 256 0x3C)"
  using sector_round_trip [of 1 "replicate 256 0xA5 @ replicate 256 0x3C" "replicate 256 0"] by simp

lemma decode_needs_zero_sum:
  assumes "length ns = 343" "decode_sector_62 ns img = Some out"
  obtains vs where "decode_nibbles ns = Some vs" "length vs = 343" "xor_sum vs = 0"
proof -
  obtain vs where vs: "decode_nibbles ns = Some vs"
    and eq: "vs ! 342 = snd (xor_unchain 0 342 vs)"
    using assms by (auto simp: decode_sector_62_def Let_def split_def split: option.splits if_splits)
  have l: "length vs = 343" using vs assms(1) by (simp add: decode_nibbles_Some)
  have "take 343 vs = take 342 vs @ [vs ! 342]"
    using l by (simp add: take_Suc_conv_app_nth [symmetric])
  then have "xor_sum vs = xor_sum (take 342 vs) XOR vs ! 342"
    using l xor_sum_snoc [of "take 342 vs" "vs ! 342"] by simp
  then have "xor_sum vs = 0" using eq l by (simp add: snd_xor_unchain)
  with that vs l show ?thesis by blast
qed

text \<open>
  C25. Damage to one nibble is always caught.  If any single one of the 343 nibbles of an encoded
  sector, checksum included, is changed to any other byte, the decoder refuses the sector.
\<close>

theorem sector_damage_detected:
  assumes "sector_index * 256 + 256 \<le> length sectors_in" "length img = 256"
    and "i < 343" "b \<noteq> encode_sector_62 sectors_in sector_index ! i"
  shows "decode_sector_62 ((encode_sector_62 sectors_in sector_index)[i := b]) img = None"
proof (rule ccontr)
  let ?ns = "encode_sector_62 sectors_in sector_index"
  have len: "length ?ns = 343"
    using assms(1) by (simp add: encode_sector_62_def Let_def length_sector_data)
  have "decode_sector_62 ?ns img \<noteq> None"
    using assms(1,2) decode_encode_sector [of "take 256 (drop (sector_index * 256) sectors_in)" img]
    by (simp add: encode_sector_62_def Let_def encode_nibble_def [abs_def])
  then obtain vs where vs: "decode_nibbles ?ns = Some vs" "length vs = 343" "xor_sum vs = 0"
    using decode_needs_zero_sum [OF len] by blast
  assume "decode_sector_62 (?ns[i := b]) img \<noteq> None"
  then obtain ws where ws: "decode_nibbles (?ns[i := b]) = Some ws" "length ws = 343" "xor_sum ws = 0"
    using decode_needs_zero_sum [of "?ns[i := b]"] len by auto
  have "ws = vs[i := ws ! i]"
    using vs ws len assms(3) by (intro nth_equalityI) (auto simp: decode_nibbles_Some nth_list_update)
  then have "0 = 0 XOR (vs ! i XOR ws ! i)"
    using xor_sum_update [of i vs "ws ! i"] vs ws assms(3) by simp
  then have "vs ! i = ws ! i"
    by (simp add: u8_eq_bits word_bits)
  then have "?ns ! i = b"
    using vs(1) ws(1) len assms(3) nibble_injective [of "?ns ! i" b]
    by (auto simp: decode_nibbles_Some)
  with assms(4) show False by simp
qed

lemma encode_sector_high_bit:
  assumes "sector_index * 256 + 256 \<le> length sectors_in" "i < 343"
  shows "encode_sector_62 sectors_in sector_index ! i AND 0x80 \<noteq> 0"
  using assms by (simp add: encode_sector_62_def Let_def length_sector_data
      encode_nibble_def [symmetric] encode_nibble(1))

lemma sector_damage_detected_witness:
  "decode_sector_62 ((encode_sector_62 (replicate 256 0xA5) 0)[342 := 0x7F]) (replicate 256 0) = None"
proof -
  have "encode_sector_62 (replicate 256 0xA5) 0 ! 342 AND 0x80 \<noteq> 0"
    by (rule encode_sector_high_bit) simp_all
  then have "0x7F \<noteq> encode_sector_62 (replicate 256 0xA5) 0 ! 342" by auto
  then show ?thesis
    using sector_damage_detected [of 0 "replicate 256 0xA5" "replicate 256 0" 342 "0x7F"] by simp
qed

end
