(* ===== verification/Disk_Track.thy ===== *)
theory Disk_Track
  imports Disk_Encoding
begin

text \<open>
  The fields of a track: \<open>disk_encoding_nibblize_track\<close> writes gap 1 and sixteen address and
  data fields, \<open>disk_encoding_denibblize_track\<close> finds them again on the circular track.
  A nibble is written together with its sync mark.
\<close>

subsection \<open>Writing a track\<close>

definition encode_4and4_high :: "u8 \<Rightarrow> u8" where
  "encode_4and4_high a = (drop_bit 1 a AND 0x55) OR 0xAA"

definition encode_4and4_low :: "u8 \<Rightarrow> u8" where
  "encode_4and4_low a = (a AND 0x55) OR 0xAA"

definition put_data :: "u8 list \<Rightarrow> (u8 \<times> bool) list" where
  "put_data vs = map (\<lambda>v. (v, False)) vs"

definition put_gap :: "nat \<Rightarrow> (u8 \<times> bool) list" where
  "put_gap n = replicate n (sync_byte, True)"

definition address_field :: "nat \<Rightarrow> nat \<Rightarrow> u8 list" where
  "address_field track sector_idx =
     (let t = word_of_nat track; s = word_of_nat sector_idx; checksum = volume_default XOR t XOR s
      in [prologue_1, prologue_2, addr_prologue_3,
          encode_4and4_high volume_default, encode_4and4_low volume_default,
          encode_4and4_high t, encode_4and4_low t, encode_4and4_high s, encode_4and4_low s,
          encode_4and4_high checksum, encode_4and4_low checksum,
          epilogue_1, epilogue_2, epilogue_3])"

definition data_field :: "u8 list \<Rightarrow> u8 list" where
  "data_field encoded =
     [prologue_1, prologue_2, data_prologue_3] @ encoded @ [epilogue_1, epilogue_2, epilogue_3]"

definition sector_fields :: "nat list \<Rightarrow> nat \<Rightarrow> u8 list \<Rightarrow> nat \<Rightarrow> (u8 \<times> bool) list" where
  "sector_fields sector_order track sectors_in sector_idx =
     put_data (address_field track sector_idx) @ put_gap 6
     @ put_data (data_field (encode_sector_62 sectors_in (sector_order ! sector_idx))) @ put_gap 16"

definition disk_encoding_nibblize_track ::
  "bool \<Rightarrow> nat list \<Rightarrow> nat \<Rightarrow> u8 list \<Rightarrow> disk_error + (u8 \<times> bool) list" where
  "disk_encoding_nibblize_track pointers_ok sector_order track sectors_in =
     (if \<not> pointers_ok then Inl disk_err_invalid_argument
      else if track \<ge> tracks_per_disk then Inl disk_err_invalid_argument
      else Inr (put_gap 48
        @ concat (map (sector_fields sector_order track sectors_in) [0..<sectors_per_track])))"

subsection \<open>Reading a track\<close>

definition fetch_byte :: "u8 list \<Rightarrow> nat \<Rightarrow> u8 \<times> nat" where
  "fetch_byte nibbles offset =
     (nibbles ! offset, if offset + 1 \<ge> length nibbles then 0 else offset + 1)"

definition fetch_4and4 :: "u8 list \<Rightarrow> nat \<Rightarrow> u8 \<times> nat" where
  "fetch_4and4 nibbles offset =
     (let (high, offset) = fetch_byte nibbles offset; (low, offset) = fetch_byte nibbles offset
      in ((push_bit 1 high OR 1) AND low, offset))"

definition epilogue_follows :: "u8 list \<Rightarrow> nat \<Rightarrow> bool \<times> nat" where
  "epilogue_follows nibbles offset =
     (let (a, offset) = fetch_byte nibbles offset;
          (b, offset) = fetch_byte nibbles offset;
          (c, offset) = fetch_byte nibbles offset
      in (a = epilogue_1 \<and> b = epilogue_2 \<and> c = epilogue_3, offset))"

fun fetch_bytes :: "u8 list \<Rightarrow> nat \<Rightarrow> nat \<Rightarrow> u8 list \<times> nat" where
  "fetch_bytes nibbles 0 offset = ([], offset)"
| "fetch_bytes nibbles (Suc n) offset =
     (let (b, offset) = fetch_byte nibbles offset; (bs, offset) = fetch_bytes nibbles n offset
      in (b # bs, offset))"

fun find_next_marker :: "u8 list \<Rightarrow> nat \<Rightarrow> nat \<Rightarrow> bool \<times> nat" where
  "find_next_marker nibbles 0 offset = (False, offset)"
| "find_next_marker nibbles (Suc n) offset =
     (let (b, offset) = fetch_byte nibbles offset
      in if b = prologue_1 \<and> nibbles ! offset = prologue_2
         then (True, snd (fetch_byte nibbles offset))
         else find_next_marker nibbles n offset)"

record denibblizer =
  current_offset :: nat
  markers_found :: nat
  current_sector :: "nat option"
  decoded_sectors_mask :: u16
  field_refused :: bool
  staging :: "u8 list"

definition read_address_field :: "nat \<Rightarrow> u8 list \<Rightarrow> denibblizer \<Rightarrow> denibblizer" where
  "read_address_field track nibbles st =
     (let (volume, off) = fetch_4and4 nibbles (current_offset st);
          (address_track, off) = fetch_4and4 nibbles off;
          (sector, off) = fetch_4and4 nibbles off;
          (checksum, off) = fetch_4and4 nibbles off;
          (ends, off) = epilogue_follows nibbles off;
          address_holds = (ends \<and> checksum = (volume XOR address_track XOR sector) \<and>
            address_track = word_of_nat track \<and> unat sector < sectors_per_track)
      in st\<lparr>current_offset := off,
            current_sector := (if address_holds then Some (unat sector) else None),
            field_refused := field_refused st \<or> \<not> address_holds\<rparr>)"

definition read_data_field :: "nat list \<Rightarrow> u8 list \<Rightarrow> denibblizer \<Rightarrow> denibblizer" where
  "read_data_field sector_order nibbles st =
     (let (scratch, off) = fetch_bytes nibbles sector_with_checksum_size (current_offset st);
          (data_holds, off) = epilogue_follows nibbles off;
          st = st\<lparr>current_offset := off\<rparr>;
          st = (case current_sector st of
                  None \<Rightarrow> st
                | Some sector \<Rightarrow>
                    let file_sector = sector_order ! sector;
                        start = file_sector * sector_size
                    in if \<not> data_holds \<or> file_sector \<ge> sectors_per_track then st\<lparr>field_refused := True\<rparr>
                       else case decode_sector_62 scratch (take sector_size (drop start (staging st))) of
                              None \<Rightarrow> st\<lparr>field_refused := True\<rparr>
                            | Some out \<Rightarrow>
                                st\<lparr>staging := take start (staging st) @ out @ drop (start + sector_size) (staging st),
                                   decoded_sectors_mask := decoded_sectors_mask st OR push_bit file_sector 1\<rparr>)
      in st\<lparr>current_sector := None\<rparr>)"

definition read_field :: "nat list \<Rightarrow> nat \<Rightarrow> u8 list \<Rightarrow> denibblizer \<Rightarrow> denibblizer" where
  "read_field sector_order track nibbles st =
     (let (marker_type, off) = fetch_byte nibbles (current_offset st);
          st = st\<lparr>current_offset := off, markers_found := markers_found st + 1\<rparr>
      in if marker_type = addr_prologue_3 then read_address_field track nibbles st
         else if marker_type = data_prologue_3 then read_data_field sector_order nibbles st
         else st)"

lemma markers_read_field [simp]: "markers_found (read_field ord t nibs st) = markers_found st + 1"
  by (simp add: read_field_def read_address_field_def read_data_field_def Let_def split_def
      split: option.splits)

function denibblize_loop :: "nat list \<Rightarrow> nat \<Rightarrow> u8 list \<Rightarrow> denibblizer \<Rightarrow> denibblizer" where
  "denibblize_loop sector_order track nibbles st =
     (if decoded_sectors_mask st \<noteq> 0xFFFF \<and> markers_found st < max_gcr_markers_per_track
      then (let (found, off) = find_next_marker nibbles (length nibbles) (current_offset st);
                st = st\<lparr>current_offset := off\<rparr>
            in if found then denibblize_loop sector_order track nibbles (read_field sector_order track nibbles st)
               else st)
      else st)"
  by pat_completeness auto
termination
  by (relation "measure (\<lambda>(_, _, _, st). max_gcr_markers_per_track - markers_found st)") auto

declare denibblize_loop.simps [simp del]

definition disk_encoding_denibblize_track ::
  "bool \<Rightarrow> nat list \<Rightarrow> nat \<Rightarrow> u8 list \<Rightarrow> disk_error + u8 list" where
  "disk_encoding_denibblize_track pointers_ok sector_order track nibbles =
     (if \<not> pointers_ok \<or> nibbles = [] then Inl disk_err_invalid_argument
      else let st = denibblize_loop sector_order track nibbles
             \<lparr>current_offset = 0, markers_found = 0, current_sector = None, decoded_sectors_mask = 0,
              field_refused = False, staging = replicate (sectors_per_track * sector_size) 0\<rparr>
           in if field_refused st \<or> decoded_sectors_mask st \<noteq> 0xFFFF then Inl disk_err_corrupt
              else Inr (staging st))"

end
