(* ===== verification/Disk_Bits.thy ===== *)
theory Disk_Bits
  imports Disk_Encoding
begin

text \<open>
  The cells on the medium: \<open>disk_encoding_nibbles_to_bits\<close> lays nibbles down as
  eight cells each, ten for a self-sync nibble, packed into bytes;
  \<open>disk_encoding_bits_to_nibbles\<close> reads them back as the shift register of the drive does.
\<close>

abbreviation "cells_per_nibble \<equiv> (8 :: nat)"
abbreviation "cells_per_self_sync \<equiv> (10 :: nat)"

text \<open>The sequence of calls \<open>emit(nibble, self_sync)\<close> that \<open>walk_sync_runs\<close> makes.\<close>

function walk_unmarked :: "u8 list \<Rightarrow> nat \<Rightarrow> (u8 \<times> bool) list" where
  "walk_unmarked nibbles index =
     (if index \<ge> length nibbles then []
      else if nibbles ! index \<noteq> sync_byte then (nibbles ! index, False) # walk_unmarked nibbles (index + 1)
      else let run_end = index + length (takeWhile (\<lambda>b. b = sync_byte) (drop index nibbles));
               self_sync = (nibbles ! (run_end mod length nibbles) = prologue_1)
           in replicate (run_end - index) (sync_byte, self_sync) @ walk_unmarked nibbles run_end)"
  by pat_completeness auto
termination
proof (relation "measure (\<lambda>(nibbles, index). length nibbles - index)")
  fix nibbles :: "u8 list" and index run_end self_sync
  assume "\<not> length nibbles \<le> index" "\<not> nibbles ! index \<noteq> sync_byte"
    "run_end = index + length (takeWhile (\<lambda>b. b = sync_byte) (drop index nibbles))"
  then show "((nibbles, run_end), (nibbles, index)) \<in> measure (\<lambda>(nibbles, index). length nibbles - index)"
    by (simp add: Cons_nth_drop_Suc [symmetric])
qed auto

declare walk_unmarked.simps [simp del]

definition walk_sync_runs :: "u8 list \<Rightarrow> u8 list option \<Rightarrow> (u8 \<times> bool) list" where
  "walk_sync_runs nibbles sync_mask =
     (case sync_mask of
        Some marks \<Rightarrow> map (\<lambda>i. (nibbles ! i, marks ! i \<noteq> 0)) [0..<length nibbles]
      | None \<Rightarrow> walk_unmarked nibbles 0)"

definition put_cell :: "bool \<Rightarrow> u8 list \<times> nat \<Rightarrow> u8 list \<times> nat" where
  "put_cell pulse s =
     (let (bits, cell) = s
      in (if pulse then bits[cell div 8 := bits ! (cell div 8) OR drop_bit (cell mod 8) 0x80] else bits,
          cell + 1))"

definition emit_nibble :: "u8 \<times> bool \<Rightarrow> u8 list \<times> nat \<Rightarrow> u8 list \<times> nat" where
  "emit_nibble e s =
     (let (value, self_sync) = e;
          (bits, cell) = fold (\<lambda>i. put_cell (bit value (7 - i))) [0..<8] s
      in (bits, if self_sync then cell + (cells_per_self_sync - cells_per_nibble) else cell))"

definition total_cells :: "(u8 \<times> bool) list \<Rightarrow> nat" where
  "total_cells es = sum_list (map (\<lambda>(_, self_sync). if self_sync then cells_per_self_sync else cells_per_nibble) es)"

definition disk_encoding_nibbles_to_bits ::
  "bool \<Rightarrow> u8 list \<Rightarrow> u8 list option \<Rightarrow> nat \<Rightarrow> disk_error + u8 list \<times> nat" where
  "disk_encoding_nibbles_to_bits pointers_ok nibbles sync_mask max_bits =
     (if \<not> pointers_ok then Inl disk_err_invalid_argument
      else if length nibbles > max_bits div cells_per_nibble then Inl disk_err_unsupported
      else let es = walk_sync_runs nibbles sync_mask; total_bits = total_cells es
           in if total_bits > max_bits then Inl disk_err_unsupported
              else Inr (fst (fold emit_nibble es (replicate ((total_bits + 7) div 8) 0, 0)), total_bits))"

definition cell_at :: "u8 list \<Rightarrow> nat \<Rightarrow> bool" where
  "cell_at bits index = bit (bits ! (index div 8)) (7 - index mod 8)"

function skip_blank :: "u8 list \<Rightarrow> nat \<Rightarrow> nat \<Rightarrow> nat" where
  "skip_blank bits bit_count cell =
     (if cell < bit_count \<and> \<not> cell_at bits cell then skip_blank bits bit_count (cell + 1) else cell)"
  by pat_completeness auto
termination by (relation "measure (\<lambda>(_, bit_count, cell). bit_count - cell)") auto

declare skip_blank.simps [simp del]

definition read_nibble :: "u8 list \<Rightarrow> nat \<Rightarrow> u8" where
  "read_nibble bits cell =
     fold (\<lambda>i value. push_bit 1 value OR b2w (cell_at bits (cell + i))) [0..<cells_per_nibble] 0"

lemma skip_blank_mono: "cell \<le> skip_blank bits n cell"
proof (induction bits n cell rule: skip_blank.induct)
  case (1 bits n cell)
  then show ?case by (subst skip_blank.simps) auto
qed

text \<open>The nibbles read, oldest first, and whether the buffer overflowed.\<close>

function bits_loop :: "u8 list \<Rightarrow> nat \<Rightarrow> nat \<Rightarrow> nat \<Rightarrow> u8 list \<Rightarrow> u8 list \<times> bool" where
  "bits_loop bits bit_count max_nibbles cell written =
     (let cell = skip_blank bits bit_count cell
      in if bit_count < cells_per_nibble \<or> cell > bit_count - cells_per_nibble then (written, False)
         else if length written = max_nibbles then (written, True)
         else bits_loop bits bit_count max_nibbles (cell + cells_per_nibble) (written @ [read_nibble bits cell]))"
  by pat_completeness auto
termination
proof (relation "measure (\<lambda>(_, bit_count, _, cell, _). bit_count - cell)")
  fix bits :: "u8 list" and bit_count max_nibbles cell x :: nat and written :: "u8 list"
  assume "x = skip_blank bits bit_count cell"
    "\<not> (bit_count < cells_per_nibble \<or> bit_count - cells_per_nibble < x)"
  then show "((bits, bit_count, max_nibbles, x + cells_per_nibble, written @ [read_nibble bits x]),
      (bits, bit_count, max_nibbles, cell, written)) \<in> measure (\<lambda>(_, bit_count, _, cell, _). bit_count - cell)"
    using skip_blank_mono [of cell bits bit_count] by auto
qed auto

declare bits_loop.simps [simp del]

text \<open>On overflow the source reports the nibbles decoded so far together with the error.\<close>

definition disk_encoding_bits_to_nibbles ::
  "bool \<Rightarrow> u8 list \<Rightarrow> nat \<Rightarrow> nat \<Rightarrow> disk_error \<times> u8 list" where
  "disk_encoding_bits_to_nibbles pointers_ok bits bit_count max_nibbles =
     (if \<not> pointers_ok then (disk_err_invalid_argument, [])
      else case bits_loop bits bit_count max_nibbles 0 [] of
             (written, overflow) \<Rightarrow> (if overflow then disk_err_unsupported else disk_err_none, written))"

subsection \<open>The cells a sequence of nibbles stands for\<close>

definition nibble_cells :: "u8 \<times> bool \<Rightarrow> bool list" where
  "nibble_cells e = map (\<lambda>i. bit (fst e) (7 - i)) [0..<8] @ (if snd e then [False, False] else [])"

definition track_cells :: "(u8 \<times> bool) list \<Rightarrow> bool list" where
  "track_cells es = concat (map nibble_cells es)"

lemma length_nibble_cells: "length (nibble_cells e) = (if snd e then 10 else 8)"
  by (simp add: nibble_cells_def)

lemma total_cells: "total_cells es = length (track_cells es)"
  by (induction es) (auto simp: total_cells_def track_cells_def length_nibble_cells)

definition holds_cells :: "nat \<Rightarrow> bool list \<Rightarrow> u8 list \<times> nat \<Rightarrow> bool" where
  "holds_cells n cs s \<longleftrightarrow> length (fst s) = n \<and> snd s = length cs \<and>
     (\<forall>i < 8 * n. cell_at (fst s) i \<longleftrightarrow> i < length cs \<and> cs ! i)"

lemma bit_80: "bit (0x80 :: u8) k \<longleftrightarrow> k = 7"
proof -
  have "(0x80 :: u8) = push_bit 7 1" by simp
  then show ?thesis by (auto simp only: bit_push_bit_iff bit_1_iff) simp_all
qed

lemma bit_pulse: "bit (drop_bit r (0x80 :: u8)) k \<longleftrightarrow> r + k = 7"
  by (simp only: bit_drop_bit_eq o_apply bit_80)

lemma cell_at_update:
  assumes "cell < 8 * length bits" "i < 8 * length bits"
  shows "cell_at (bits[cell div 8 := bits ! (cell div 8) OR drop_bit (cell mod 8) 0x80]) i
    \<longleftrightarrow> cell_at bits i \<or> i = cell"
proof (cases "i div 8 = cell div 8")
  case True
  define pulse where "pulse = drop_bit (cell mod 8) (0x80 :: u8)"
  have p: "bit pulse k \<longleftrightarrow> cell mod 8 + k = 7" for k
    unfolding pulse_def by (rule bit_pulse)
  have "cell div 8 < length bits" using assms(1) by auto
  moreover have "cell mod 8 + (7 - i mod 8) = 7 \<longleftrightarrow> i mod 8 = cell mod 8"
  proof -
    have "i mod 8 < 8" "cell mod 8 < 8" by simp_all
    then show ?thesis by linarith
  qed
  moreover have "i mod 8 = cell mod 8 \<longleftrightarrow> i = cell"
    using True by (metis div_mult_mod_eq)
  ultimately show ?thesis
    unfolding pulse_def [symmetric] using True by (simp add: cell_at_def bit_or_iff p)
next
  case False
  then show ?thesis by (auto simp: cell_at_def)
qed

lemma holds_put_cell:
  assumes "holds_cells n cs s" "length cs < 8 * n"
  shows "holds_cells n (cs @ [b]) (put_cell b s)"
proof -
  obtain bits cell where s: "s = (bits, cell)" by force
  have a: "length bits = n" "cell = length cs"
    "\<And>i. i < 8 * n \<Longrightarrow> cell_at bits i \<longleftrightarrow> i < length cs \<and> cs ! i"
    using assms(1) by (auto simp: holds_cells_def s)
  show ?thesis
  proof (cases b)
    case True
    then show ?thesis
      using a assms(2) cell_at_update [of cell bits]
      by (auto simp: holds_cells_def s put_cell_def nth_append)
  next
    case False
    then show ?thesis
      using a by (auto simp: holds_cells_def s put_cell_def nth_append)
  qed
qed

lemma holds_put_cells:
  "holds_cells n cs s \<Longrightarrow> length cs + k \<le> 8 * n \<Longrightarrow>
     holds_cells n (cs @ map f [0..<k]) (fold (\<lambda>i. put_cell (f i)) [0..<k] s)"
proof (induction k)
  case (Suc k)
  then have "holds_cells n (cs @ map f [0..<k]) (fold (\<lambda>i. put_cell (f i)) [0..<k] s)" by simp
  from holds_put_cell [OF this, of "f k"] Suc.prems(2) show ?case by simp
qed simp

lemma holds_emit:
  assumes "holds_cells n cs s" "length cs + length (nibble_cells e) \<le> 8 * n"
  shows "holds_cells n (cs @ nibble_cells e) (emit_nibble e s)"
proof -
  obtain v sync where e: "e = (v, sync)" by force
  let ?f = "\<lambda>i. bit v (7 - i)"
  obtain bits cell where r: "fold (\<lambda>i. put_cell (?f i)) [0..<8] s = (bits, cell)" by force
  have "holds_cells n (cs @ map ?f [0..<8]) (bits, cell)"
    using holds_put_cells [OF assms(1), of 8 ?f] assms(2) r
    by (cases "snd e") (simp_all add: length_nibble_cells)
  then have "holds_cells n (cs @ map ?f [0..<8] @ (if sync then [False, False] else []))
      (bits, if sync then cell + 2 else cell)"
    by (auto simp: holds_cells_def nth_append nth_Cons split: nat.splits)
  then show ?thesis by (cases sync) (simp_all add: e r emit_nibble_def nibble_cells_def)
qed

lemma holds_track:
  "holds_cells n cs s \<Longrightarrow> length cs + length (track_cells es) \<le> 8 * n \<Longrightarrow>
     holds_cells n (cs @ track_cells es) (fold emit_nibble es s)"
proof (induction es arbitrary: cs s)
  case (Cons e es)
  then have "holds_cells n (cs @ nibble_cells e) (emit_nibble e s)"
    by (intro holds_emit) (simp_all add: track_cells_def)
  from Cons.IH [OF this] Cons.prems(2) show ?case by (simp add: track_cells_def)
qed (simp add: track_cells_def)

subsection \<open>Reading the cells back\<close>

lemma bit_shift1:
  "bit (push_bit 1 (w :: u8) OR b2w P) j \<longleftrightarrow> (if j = 0 then P else j < 8 \<and> bit w (j - 1))"
proof -
  have "bit (b2w P :: u8) j \<longleftrightarrow> P \<and> j = 0"
    by (cases P) (simp_all add: bit_1_iff)
  moreover have "bit (push_bit 1 w) j \<longleftrightarrow> j \<noteq> 0 \<and> j < 8 \<and> bit w (j - 1)"
    using bit_times_2 [of w j] by simp
  ultimately show ?thesis by (auto simp only: bit_or_iff split: if_splits)
qed

lemma bit_shift_in:
  "bit (fold (\<lambda>i value. push_bit 1 value OR b2w (f i)) [0..<k] (0 :: u8)) j \<longleftrightarrow> j < 8 \<and> j < k \<and> f (k - 1 - j)"
proof (induction k arbitrary: j)
  case (Suc k)
  let ?F = "fold (\<lambda>i value. push_bit 1 value OR b2w (f i)) [0..<k] (0 :: u8)"
  have "bit (push_bit 1 ?F OR b2w (f k)) j \<longleftrightarrow> (if j = 0 then f k else j < 8 \<and> bit ?F (j - 1))"
    by (rule bit_shift1)
  also have "\<dots> \<longleftrightarrow> j < 8 \<and> j < Suc k \<and> f (Suc k - 1 - j)"
    unfolding Suc.IH by (cases j) auto
  finally show ?case
    unfolding upt_Suc_append [OF le0] fold_append fold_Cons fold_Nil o_apply id_apply .
qed simp

lemma read_nibble_eq:
  assumes "\<And>i. i < 8 \<Longrightarrow> cell_at bits (p + i) \<longleftrightarrow> bit v (7 - i)"
  shows "read_nibble bits p = v"
proof (rule bit_word_eqI)
  fix j assume "j < LENGTH(8)"
  then have j: "j < 8" by simp
  then have "bit (read_nibble bits p) j \<longleftrightarrow> cell_at bits (p + (7 - j))"
    unfolding read_nibble_def bit_shift_in by simp
  then show "bit (read_nibble bits p) j \<longleftrightarrow> bit v j"
    using assms [of "7 - j"] j by simp
qed

lemma skip_blank_blank:
  "p < n \<Longrightarrow> \<not> cell_at bits p \<Longrightarrow> bits_loop bits n m p ws = bits_loop bits n m (p + 1) ws"
  by (subst (1 2) bits_loop.simps, subst skip_blank.simps) simp

lemma skip_blank_pulse: "cell_at bits p \<or> n \<le> p \<Longrightarrow> skip_blank bits n p = p"
  by (subst skip_blank.simps) auto

lemma nth_at: "i < length ys \<Longrightarrow> (xs @ ys @ zs) ! (length xs + i) = ys ! i"
  by (simp add: nth_append)

lemma loop_reads:
  assumes "\<And>i. i < n \<Longrightarrow> cell_at bits i \<longleftrightarrow> cs ! i" "length cs = n"
  shows "cs = pre @ track_cells es \<Longrightarrow> \<forall>e \<in> set es. bit (fst e) 7 \<Longrightarrow> length ws + length es \<le> m \<Longrightarrow>
    bits_loop bits n m (length pre) ws = (ws @ map fst es, False)"
proof (induction es arbitrary: pre ws)
  case Nil
  then have "length pre = n" using assms(2) by (simp add: track_cells_def)
  then show ?case by (subst bits_loop.simps) (auto simp: Let_def skip_blank_pulse)
next
  case (Cons e es)
  obtain v sync where e: "e = (v, sync)" by force
  let ?bs = "map (\<lambda>i. bit v (7 - i)) [0..<8]" and ?gap = "if sync then [False, False] else []"
  let ?p = "length pre"
  have cs: "cs = pre @ (?bs @ ?gap) @ track_cells es"
    using Cons.prems(1) by (simp add: e track_cells_def nibble_cells_def)
  have n: "n = ?p + 8 + length ?gap + length (track_cells es)"
    using assms(2) by (simp add: cs)
  have cell: "cell_at bits (?p + i) \<longleftrightarrow> bit v (7 - i)" if "i < 8" for i
  proof -
    have "cs ! (?p + i) = (?bs @ ?gap) ! i" unfolding cs by (rule nth_at) (use that in simp)
    then show ?thesis using assms(1) [of "?p + i"] that n by (simp add: nth_append)
  qed
  have "bit v 7" using Cons.prems(2) by (simp add: e)
  then have "skip_blank bits n ?p = ?p" using cell [of 0] by (intro skip_blank_pulse) simp
  then have "bits_loop bits n m ?p ws = bits_loop bits n m (?p + 8) (ws @ [v])"
    using Cons.prems(3) n read_nibble_eq [of bits ?p v, OF cell]
    by (subst bits_loop.simps) (simp add: Let_def)
  also have "\<dots> = bits_loop bits n m (?p + 8 + length ?gap) (ws @ [v])"
  proof (cases sync)
    case True
    have "\<not> cell_at bits (?p + 8 + j)" if "j < 2" for j
    proof -
      have "cs ! (?p + (8 + j)) = (?bs @ ?gap) ! (8 + j)" unfolding cs by (rule nth_at) (use that True in simp)
      then show ?thesis using assms(1) [of "?p + (8 + j)"] that n True
        by (simp add: nth_append less_2_cases_iff add.assoc) auto
    qed
    from this [of 0] this [of 1] show ?thesis
      using skip_blank_blank [of "?p + 8" n bits m] skip_blank_blank [of "?p + 8 + 1" n bits m] n True
      by simp
  qed simp
  also have "\<dots> = bits_loop bits n m (length (pre @ ?bs @ ?gap)) (ws @ [v])"
    by (simp add: add.assoc)
  also have "\<dots> = ((ws @ [v]) @ map fst es, False)"
    using Cons.prems cs by (intro Cons.IH) simp_all
  finally show ?case by (simp add: e)
qed

subsection \<open>Round trip\<close>

lemma takeWhile_run: "takeWhile (\<lambda>b. b = x) xs = replicate (length (takeWhile (\<lambda>b. b = x) xs)) x"
  by (induction xs) auto

lemma walk_unmarked_nibbles: "map fst (walk_unmarked nibbles i) = drop i nibbles"
proof (induction nibbles i rule: walk_unmarked.induct)
  case (1 nibbles i)
  consider "length nibbles \<le> i" | "i < length nibbles" "nibbles ! i \<noteq> sync_byte"
    | "i < length nibbles" "nibbles ! i = sync_byte" by linarith
  then show ?case
  proof cases
    case 1
    then show ?thesis by (subst walk_unmarked.simps) simp
  next
    case 2
    then show ?thesis
      using "1.IH"(1) by (subst walk_unmarked.simps) (simp add: Cons_nth_drop_Suc)
  next
    case 3
    let ?run = "takeWhile (\<lambda>b. b = sync_byte) (drop i nibbles)"
    have "drop (i + length ?run) nibbles = dropWhile (\<lambda>b. b = sync_byte) (drop i nibbles)"
      by (simp add: dropWhile_eq_drop add.commute)
    then have "?run @ drop (i + length ?run) nibbles = drop i nibbles"
      by (simp only: takeWhile_dropWhile_id)
    then have "replicate (length ?run) sync_byte @ drop (i + length ?run) nibbles = drop i nibbles"
      by (simp only: takeWhile_run [symmetric])
    moreover have "map fst (walk_unmarked nibbles (i + length ?run)) = drop (i + length ?run) nibbles"
      using 3 by (intro "1.IH"(2)) auto
    moreover have "walk_unmarked nibbles i = replicate (length ?run) (sync_byte,
        nibbles ! ((i + length ?run) mod length nibbles) = prologue_1) @ walk_unmarked nibbles (i + length ?run)"
      using 3 by (subst walk_unmarked.simps) (simp only: Let_def not_le if_False if_not_P simp_thms diff_add_inverse)
    ultimately show ?thesis by (simp only: map_append map_replicate fst_conv)
  qed
qed

lemma walk_sync_nibbles: "map fst (walk_sync_runs nibbles marks) = nibbles"
  by (cases marks) (simp_all add: walk_sync_runs_def walk_unmarked_nibbles comp_def map_nth)

text \<open>What accepted nibbles leave in the buffer: as many bytes as the cells need, and the cells.\<close>

lemma length_emit: "length (fst (emit_nibble e s)) = length (fst s)"
proof -
  have "length (fst (fold (\<lambda>i. put_cell (f i)) is s)) = length (fst s)" for f "is" and s :: "u8 list \<times> nat"
    by (induction "is" arbitrary: s) (simp_all add: put_cell_def split: prod.splits)
  then show ?thesis by (simp add: emit_nibble_def case_prod_beta Let_def)
qed

lemma length_emits: "length (fst (fold emit_nibble es s)) = length (fst s)"
  by (induction es arbitrary: s) (simp_all add: length_emit)

lemma cells_held:
  assumes "disk_encoding_nibbles_to_bits True nibbles marks max_bits = Inr (bits, n)"
  shows "n = total_cells (walk_sync_runs nibbles marks)" "n \<le> max_bits" "length bits = (n + 7) div 8"
    "i < n \<Longrightarrow> cell_at bits i \<longleftrightarrow> track_cells (walk_sync_runs nibbles marks) ! i"
proof -
  let ?es = "walk_sync_runs nibbles marks" and ?N = "(n + 7) div 8"
  show n: "n = total_cells ?es" and "n \<le> max_bits" and len: "length bits = ?N"
    using assms by (auto simp: disk_encoding_nibbles_to_bits_def Let_def length_emits split: if_splits)
  have b: "bits = fst (fold emit_nibble ?es (replicate ?N 0, 0))"
    using assms by (auto simp: disk_encoding_nibbles_to_bits_def Let_def split: if_splits)
  have "n \<le> 8 * ?N" by simp
  moreover have "holds_cells ?N [] (replicate ?N 0, 0)"
    by (auto simp: holds_cells_def cell_at_def)
  ultimately have "holds_cells ?N (track_cells ?es) (fold emit_nibble ?es (replicate ?N 0, 0))"
    using holds_track [of ?N "[]"] n by (simp add: total_cells)
  then show "i < n \<Longrightarrow> cell_at bits i \<longleftrightarrow> track_cells ?es ! i"
    using b n \<open>n \<le> 8 * ?N\<close> by (auto simp: holds_cells_def total_cells)
qed

text \<open>
  The shift register reads the nibbles back, whatever follows the cells in the buffer.
\<close>

lemma cells_read_back:
  assumes "disk_encoding_nibbles_to_bits True nibbles marks max_bits = Inr (bits, n)"
    and "\<forall>v \<in> set nibbles. bit v 7" and "length nibbles \<le> max_nibbles"
  shows "disk_encoding_bits_to_nibbles True (bits @ rest) n max_nibbles = (disk_err_none, nibbles)"
proof -
  let ?es = "walk_sync_runs nibbles marks"
  note held = cells_held [OF assms(1)]
  have c: "cell_at (bits @ rest) i \<longleftrightarrow> track_cells ?es ! i" if "i < n" for i
  proof -
    have "i div 8 < length bits" using that held(3) by linarith
    then show ?thesis using held(4) [OF that] by (simp add: cell_at_def nth_append)
  qed
  have "\<forall>e \<in> set ?es. bit (fst e) 7"
    using assms(2) walk_sync_nibbles [of nibbles marks] by (metis imageI list.set_map)
  moreover have "length ?es \<le> max_nibbles"
    using assms(3) walk_sync_nibbles [of nibbles marks] by (metis length_map)
  moreover have "length (track_cells ?es) = n" by (simp only: held(1) total_cells)
  ultimately have "bits_loop (bits @ rest) n max_nibbles 0 [] = (nibbles, False)"
    using loop_reads [of n "bits @ rest" "track_cells ?es" "[]" ?es "[]" max_nibbles] c
    by (simp only: walk_sync_nibbles append_Nil list.size add_0 simp_thms)
  then show ?thesis by (simp add: disk_encoding_bits_to_nibbles_def)
qed

text \<open>
  The cells hold the nibbles.  Whenever \<open>disk_encoding_nibbles_to_bits\<close> accepts
  nibbles with their high bit set, with or without sync marks, the shift register reads exactly
  those nibbles back from the cells, in order and with no error, if the buffer is long enough:
  the blank cells behind a self-sync nibble put no reader out of step.
\<close>

theorem cells_round_trip:
  assumes "disk_encoding_nibbles_to_bits True nibbles marks max_bits = Inr (bits, n)"
    and "\<forall>v \<in> set nibbles. bit v 7" and "length nibbles \<le> max_nibbles"
  shows "disk_encoding_bits_to_nibbles True bits n max_nibbles = (disk_err_none, nibbles)"
  using cells_read_back [OF assms, of "[]"] by simp

lemma cells_round_trip_witness:
  "(case disk_encoding_nibbles_to_bits True [0xFF, 0xFF, 0xD5, 0xAA, 0x96] None 100 of
      Inl _ \<Rightarrow> False
    | Inr (bits, n) \<Rightarrow> n = 44 \<and>
        disk_encoding_bits_to_nibbles True bits n 5 = (disk_err_none, [0xFF, 0xFF, 0xD5, 0xAA, 0x96]))"
proof -
  let ?ns = "[0xFF, 0xFF, 0xD5, 0xAA, 0x96] :: u8 list"
  have w: "walk_sync_runs ?ns None = [(0xFF, True), (0xFF, True), (0xD5, False), (0xAA, False), (0x96, False)]"
    by (simp add: walk_sync_runs_def walk_unmarked.simps Let_def)
  obtain bits where b: "disk_encoding_nibbles_to_bits True ?ns None 100 = Inr (bits, 44)"
    by (simp add: disk_encoding_nibbles_to_bits_def w total_cells_def Let_def)
  have "disk_encoding_bits_to_nibbles True bits 44 5 = (disk_err_none, ?ns)"
    by (rule cells_round_trip [OF b]) (simp_all add: bit_80)
  with b show ?thesis by simp
qed

end
