(* ===== verification/Disk_Track_Props.thy ===== *)
theory Disk_Track_Props
  imports Disk_Track Disk_Bits
begin

text \<open>
  A track written by the nibblizer reads back as the sectors it was made from.  The reader's
  position is described by the nibbles still ahead of it (\<open>ahead\<close>), so that each fetch
  is a step along a list and the wrap at the end of the track never happens before the last
  sector is in.
\<close>

definition ahead :: "u8 list \<Rightarrow> nat \<Rightarrow> u8 list \<Rightarrow> bool" where
  "ahead nibs off rest \<longleftrightarrow> off + length rest = length nibs \<and> drop off nibs = rest"

lemma fetch_ahead:
  assumes "ahead nibs off (b # rest)" "rest \<noteq> []"
  shows "fetch_byte nibs off = (b, off + 1)" "ahead nibs (off + 1) rest" "nibs ! off = b"
proof -
  have l: "off + 1 + length rest = length nibs" and d: "drop off nibs = b # rest"
    using assms(1) by (simp_all add: ahead_def)
  then have "off < length nibs" by simp
  then show n: "nibs ! off = b" using d by (simp add: hd_drop_conv_nth [symmetric])
  show "ahead nibs (off + 1) rest"
    using l d drop_Suc_Cons by (simp add: ahead_def) (metis drop_drop drop0 drop_Suc_Cons plus_1_eq_Suc add.commute)
  show "fetch_byte nibs off = (b, off + 1)"
    using n l assms(2) by (cases rest) (simp_all add: fetch_byte_def)
qed

lemma fetch_bytes_ahead:
  "ahead nibs off (bs @ rest) \<Longrightarrow> rest \<noteq> [] \<Longrightarrow>
     fetch_bytes nibs (length bs) off = (bs, off + length bs) \<and> ahead nibs (off + length bs) rest"
proof (induction bs arbitrary: off)
  case (Cons b bs)
  then have "fetch_byte nibs off = (b, off + 1)" "ahead nibs (off + 1) (bs @ rest)"
    using fetch_ahead [of nibs off b "bs @ rest"] by auto
  with Cons.IH [of "off + 1"] Cons.prems(2) show ?case by simp
qed simp

lemma find_marker_ahead:
  assumes "ahead nibs off (replicate g sync_byte @ prologue_1 # prologue_2 # rest)" "rest \<noteq> []" "g < n"
  shows "find_next_marker nibs n off = (True, off + g + 2) \<and> ahead nibs (off + g + 2) rest"
  using assms
proof (induction g arbitrary: off n)
  case 0
  then obtain m where "n = Suc m" by (cases n) auto
  moreover have "fetch_byte nibs off = (prologue_1, off + 1)" "ahead nibs (off + 1) (prologue_2 # rest)"
    using fetch_ahead [of nibs off prologue_1] 0 by simp_all
  ultimately show ?case
    using fetch_ahead [of nibs "off + 1" prologue_2 rest] 0(2) by simp
next
  case (Suc g)
  then obtain m where "n = Suc m" by (cases n) auto
  moreover have "fetch_byte nibs off = (sync_byte, off + 1)"
    "ahead nibs (off + 1) (replicate g sync_byte @ prologue_1 # prologue_2 # rest)"
    using fetch_ahead [of nibs off sync_byte] Suc.prems(1) by simp_all
  ultimately show ?case
    using Suc.IH [of "off + 1" m] Suc.prems by simp
qed

lemma four_and_four: "(push_bit 1 (encode_4and4_high a) OR 1) AND encode_4and4_low a = a"
  by (simp add: encode_4and4_high_def encode_4and4_low_def u8_eq_bits word_bits bit_times_2 numeral_3_eq_3)

lemma fetch_4and4_ahead:
  assumes "ahead nibs off (encode_4and4_high a # encode_4and4_low a # rest)" "rest \<noteq> []"
  shows "fetch_4and4 nibs off = (a, off + 2)" "ahead nibs (off + 2) rest"
proof -
  note 1 = fetch_ahead [OF assms(1) list.distinct(2)]
  note 2 = fetch_ahead [OF 1(2) assms(2)]
  show "fetch_4and4 nibs off = (a, off + 2)"
    by (simp only: fetch_4and4_def Let_def 1(1) 2(1) prod.case four_and_four) simp
  show "ahead nibs (off + 2) rest"
    using 2 by simp
qed

lemma epilogue_ahead:
  assumes "ahead nibs off (epilogue_1 # epilogue_2 # epilogue_3 # rest)" "rest \<noteq> []"
  shows "epilogue_follows nibs off = (True, off + 3)" "ahead nibs (off + 3) rest"
proof -
  note 1 = fetch_ahead [OF assms(1) list.distinct(2)]
  note 2 = fetch_ahead [OF 1(2) list.distinct(2)]
  note 3 = fetch_ahead [OF 2(2) assms(2)]
  show "epilogue_follows nibs off = (True, off + 3)" "ahead nibs (off + 3) rest"
    using 1 2 3 by (simp_all add: epilogue_follows_def Let_def numeral_3_eq_3)
qed

subsection \<open>One address and one data field\<close>

lemma read_address_ahead:
  assumes "ahead nibs (current_offset st) (drop 2 (address_field track k) @ rest)" "rest \<noteq> []" "k < 16"
  shows "\<exists>off. read_field ord track nibs st =
      st\<lparr>current_offset := off, markers_found := markers_found st + 1, current_sector := Some k\<rparr> \<and>
    ahead nibs off rest"
proof -
  let ?o = "current_offset st" and ?t = "word_of_nat track :: u8" and ?s = "word_of_nat k :: u8"
  have f: "drop 2 (address_field track k) @ rest = addr_prologue_3 #
      encode_4and4_high volume_default # encode_4and4_low volume_default #
      encode_4and4_high ?t # encode_4and4_low ?t # encode_4and4_high ?s # encode_4and4_low ?s #
      encode_4and4_high (volume_default XOR ?t XOR ?s) # encode_4and4_low (volume_default XOR ?t XOR ?s) #
      epilogue_1 # epilogue_2 # epilogue_3 # rest"
    by (simp add: address_field_def Let_def)
  obtain o1 where a: "fetch_byte nibs ?o = (addr_prologue_3, o1)"
      "ahead nibs o1 (encode_4and4_high volume_default # encode_4and4_low volume_default #
      encode_4and4_high ?t # encode_4and4_low ?t # encode_4and4_high ?s # encode_4and4_low ?s #
      encode_4and4_high (volume_default XOR ?t XOR ?s) # encode_4and4_low (volume_default XOR ?t XOR ?s) #
      epilogue_1 # epilogue_2 # epilogue_3 # rest)"
    using fetch_ahead [OF assms(1) [unfolded f] list.distinct(2)] by blast
  obtain o2 where b: "fetch_4and4 nibs o1 = (volume_default, o2)" "ahead nibs o2 (encode_4and4_high ?t #
      encode_4and4_low ?t # encode_4and4_high ?s # encode_4and4_low ?s #
      encode_4and4_high (volume_default XOR ?t XOR ?s) # encode_4and4_low (volume_default XOR ?t XOR ?s) #
      epilogue_1 # epilogue_2 # epilogue_3 # rest)"
    using fetch_4and4_ahead [OF a(2) list.distinct(2)] by blast
  obtain o3 where c: "fetch_4and4 nibs o2 = (?t, o3)" "ahead nibs o3 (encode_4and4_high ?s #
      encode_4and4_low ?s # encode_4and4_high (volume_default XOR ?t XOR ?s) #
      encode_4and4_low (volume_default XOR ?t XOR ?s) # epilogue_1 # epilogue_2 # epilogue_3 # rest)"
    using fetch_4and4_ahead [OF b(2) list.distinct(2)] by blast
  obtain o4 where d: "fetch_4and4 nibs o3 = (?s, o4)" "ahead nibs o4 (encode_4and4_high
      (volume_default XOR ?t XOR ?s) # encode_4and4_low (volume_default XOR ?t XOR ?s) #
      epilogue_1 # epilogue_2 # epilogue_3 # rest)"
    using fetch_4and4_ahead [OF c(2) list.distinct(2)] by blast
  obtain o5 where e: "fetch_4and4 nibs o4 = (volume_default XOR ?t XOR ?s, o5)"
      "ahead nibs o5 (epilogue_1 # epilogue_2 # epilogue_3 # rest)"
    using fetch_4and4_ahead [OF d(2) list.distinct(2)] by blast
  obtain o6 where g: "epilogue_follows nibs o5 = (True, o6)" "ahead nibs o6 rest"
    using epilogue_ahead [OF e(2) assms(2)] by blast
  have k: "unat ?s = k" using assms(3) by (simp add: unat_of_nat)
  have "read_field ord track nibs st = st\<lparr>current_offset := o6,
      markers_found := markers_found st + 1, current_sector := Some k\<rparr>"
    using assms(3) by (simp add: read_field_def a(1) Let_def read_address_field_def b(1) c(1) d(1) e(1) g(1) k)
  with g(2) show ?thesis by blast
qed

lemma read_data_ahead:
  assumes "ahead nibs (current_offset st) (drop 2 (data_field enc) @ rest)" "rest \<noteq> []" "length enc = 343"
    and "current_sector st = Some k" "ord ! k < 16"
    and "decode_sector_62 enc (take 256 (drop (ord ! k * 256) (staging st))) = Some out"
  shows "\<exists>off. read_field ord track nibs st =
      st\<lparr>current_offset := off, markers_found := markers_found st + 1, current_sector := None,
         staging := take (ord ! k * 256) (staging st) @ out @ drop (ord ! k * 256 + 256) (staging st),
         decoded_sectors_mask := decoded_sectors_mask st OR push_bit (ord ! k) 1\<rparr> \<and>
    ahead nibs off rest"
proof -
  let ?e = "epilogue_1 # epilogue_2 # epilogue_3 # rest"
  have f: "drop 2 (data_field enc) @ rest = data_prologue_3 # enc @ ?e"
    by (simp add: data_field_def)
  obtain o1 where a: "fetch_byte nibs (current_offset st) = (data_prologue_3, o1)" "ahead nibs o1 (enc @ ?e)"
    using fetch_ahead [OF assms(1) [unfolded f]] by auto
  obtain o2 where b: "fetch_bytes nibs 343 o1 = (enc, o2)" "ahead nibs o2 ?e"
    using fetch_bytes_ahead [OF a(2) list.distinct(2)] assms(3) by auto
  obtain o3 where c: "epilogue_follows nibs o2 = (True, o3)" "ahead nibs o3 rest"
    using epilogue_ahead [OF b(2) assms(2)] by blast
  have "read_field ord track nibs st =
      st\<lparr>current_offset := o3, markers_found := markers_found st + 1, current_sector := None,
         staging := take (ord ! k * 256) (staging st) @ out @ drop (ord ! k * 256 + 256) (staging st),
         decoded_sectors_mask := decoded_sectors_mask st OR push_bit (ord ! k) 1\<rparr>"
    using assms(4-6) by (simp add: read_field_def a(1) Let_def read_data_field_def b(1) c(1))
  with c(2) show ?thesis by blast
qed

subsection \<open>The whole track\<close>

definition slice :: "nat \<Rightarrow> u8 list \<Rightarrow> u8 list" where
  "slice f xs = take 256 (drop (f * 256) xs)"

definition splice :: "nat \<Rightarrow> u8 list \<Rightarrow> u8 list \<Rightarrow> u8 list" where
  "splice f out xs = take (f * 256) xs @ out @ drop (f * 256 + 256) xs"

lemma slice_bound: "f < 16 \<Longrightarrow> f * 256 + 256 \<le> (4096 :: nat)" by simp

lemma length_slice: "length xs = 4096 \<Longrightarrow> f < 16 \<Longrightarrow> length (slice f xs) = 256"
  using slice_bound [of f] by (simp add: slice_def)

lemma length_splice: "length xs = 4096 \<Longrightarrow> f < 16 \<Longrightarrow> length out = 256 \<Longrightarrow> length (splice f out xs) = 4096"
  using slice_bound [of f] by (simp add: splice_def)

lemma nth_splice:
  assumes "length xs = 4096" "f < 16" "length out = 256" "j < 4096"
  shows "splice f out xs ! j = (if f * 256 \<le> j \<and> j < f * 256 + 256 then out ! (j - f * 256) else xs ! j)"
proof -
  have l: "length (take (f * 256) xs) = f * 256" using assms(1) slice_bound [OF assms(2)] by simp
  show ?thesis
    unfolding splice_def nth_append l using assms slice_bound [OF assms(2)] by auto
qed

lemma nth_slice: "length xs = 4096 \<Longrightarrow> f < 16 \<Longrightarrow> i < 256 \<Longrightarrow> slice f xs ! i = xs ! (f * 256 + i)"
  using slice_bound [of f] by (simp add: slice_def)

lemma slice_splice:
  assumes "length xs = 4096" "f < 16" "g < 16" "length out = 256"
  shows "slice g (splice f out xs) = (if g = f then out else slice g xs)"
proof (rule nth_equalityI)
  show "length (slice g (splice f out xs)) = length (if g = f then out else slice g xs)"
    using assms by (simp add: length_slice length_splice)
  fix i assume "i < length (slice g (splice f out xs))"
  then have i: "i < 256" using assms by (simp add: length_slice length_splice)
  have j: "g * 256 + i < 4096" using slice_bound [OF assms(3)] i by linarith
  have "f * 256 \<le> g * 256 + i \<and> g * 256 + i < f * 256 + 256 \<longleftrightarrow> g = f"
    using i by auto
  then show "slice g (splice f out xs) ! i = (if g = f then out else slice g xs) ! i"
    using assms i by (simp add: nth_slice length_splice nth_splice [OF assms(1,2,4) j])
qed

lemma slices_determine:
  assumes "length xs = 4096" "length ys = 4096" "\<And>f. f < 16 \<Longrightarrow> slice f xs = slice f ys"
  shows "xs = ys"
proof (rule nth_equalityI)
  fix i assume "i < length xs"
  then have i: "i < 4096" "i div 256 < 16" "i mod 256 < 256" using assms(1) by auto
  have e: "i = i div 256 * 256 + i mod 256" by simp
  have "slice (i div 256) zs ! (i mod 256) = zs ! i" if "length zs = 4096" for zs :: "u8 list"
    using that i e by (simp add: slice_def)
  then show "xs ! i = ys ! i" using assms i(2) by metis
qed (simp add: assms)

lemma loop_step:
  assumes "decoded_sectors_mask st \<noteq> 0xFFFF" "markers_found st < 48"
    and "find_next_marker nibs (length nibs) (current_offset st) = (True, off)"
  shows "denibblize_loop ord track nibs st =
    denibblize_loop ord track nibs (read_field ord track nibs (st\<lparr>current_offset := off\<rparr>))"
  using assms by (subst denibblize_loop.simps) (simp add: Let_def)

definition progress :: "nat list \<Rightarrow> u8 list \<Rightarrow> nat \<Rightarrow> denibblizer \<Rightarrow> bool" where
  "progress ord sectors k st \<longleftrightarrow>
     current_sector st = None \<and> \<not> field_refused st \<and> markers_found st = 2 * k \<and>
     length (staging st) = 4096 \<and>
     (\<forall>f < 16. bit (decoded_sectors_mask st) f \<longleftrightarrow> f \<in> set (take k ord)) \<and>
     (\<forall>f \<in> set (take k ord). slice f (staging st) = slice f sectors)"

definition field_nibbles :: "nat list \<Rightarrow> nat \<Rightarrow> u8 list \<Rightarrow> nat \<Rightarrow> u8 list" where
  "field_nibbles ord track sectors k = address_field track k @ replicate 6 sync_byte
     @ data_field (encode_sector_62 sectors (ord ! k)) @ replicate 16 sync_byte"

lemma field_prologues:
  "address_field track k = prologue_1 # prologue_2 # drop 2 (address_field track k)"
  "data_field enc = prologue_1 # prologue_2 # drop 2 (data_field enc)"
  by (simp_all add: address_field_def data_field_def Let_def)

lemma mask_full: "(w :: u16) = 0xFFFF \<longleftrightarrow> (\<forall>f < 16. bit w f)"
  by (simp add: u16_eq_bits word_bits numeral_eq_Suc All_less_Suc2)

definition sector_permutation :: "nat list \<Rightarrow> bool" where
  "sector_permutation ord \<longleftrightarrow> length ord = 16 \<and> distinct ord \<and> set ord = {0..<16}"

lemma permutation_nth: "sector_permutation ord \<Longrightarrow> k < 16 \<Longrightarrow> ord ! k < 16"
  by (metis atLeastLessThan_iff nth_mem sector_permutation_def)

lemma permutation_take:
  assumes "sector_permutation ord" "k < 16"
  shows "ord ! k \<notin> set (take k ord)" "set (take (Suc k) ord) = insert (ord ! k) (set (take k ord))"
  using assms by (auto simp: sector_permutation_def take_Suc_conv_app_nth in_set_conv_nth nth_eq_iff_index_eq)

lemma sector_step:
  assumes ord: "sector_permutation ord" and k: "k < 16" and sectors: "length sectors = 4096"
    and st: "progress ord sectors k st"
    and ah: "ahead nibs (current_offset st) (replicate g sync_byte @ field_nibbles ord track sectors k @ rest)"
    and g: "g < length nibs" "6 < length nibs"
  shows "\<exists>st'. denibblize_loop ord track nibs st = denibblize_loop ord track nibs st' \<and>
    progress ord sectors (Suc k) st' \<and> ahead nibs (current_offset st') (replicate 16 sync_byte @ rest)"
proof -
  let ?f = "ord ! k" and ?enc = "encode_sector_62 sectors (ord ! k)"
  let ?r2 = "replicate 16 sync_byte @ rest"
  let ?r1 = "replicate 6 sync_byte @ prologue_1 # prologue_2 # drop 2 (data_field ?enc) @ ?r2"
  have f: "?f < 16" by (rule permutation_nth [OF ord k])
  have len: "length ?enc = 343"
    using sectors slice_bound [OF f] by (simp add: encode_sector_62_def Let_def length_sector_data)
  have mask: "decoded_sectors_mask st \<noteq> 0xFFFF"
    using st f permutation_take(1) [OF ord k] by (auto simp: mask_full progress_def)
  have "ahead nibs (current_offset st) (replicate g sync_byte @ prologue_1 # prologue_2 #
      drop 2 (address_field track k) @ ?r1)"
    using ah field_prologues(1) [of track k] field_prologues(2) [of ?enc]
    by (simp add: field_nibbles_def) (metis append_Cons)
  then obtain o1 where 1: "find_next_marker nibs (length nibs) (current_offset st) = (True, o1)"
      "ahead nibs o1 (drop 2 (address_field track k) @ ?r1)"
    using find_marker_ahead [OF _ _ g(1)] by blast
  obtain o2 where 2: "read_field ord track nibs (st\<lparr>current_offset := o1\<rparr>) =
      st\<lparr>current_offset := o2, markers_found := markers_found st + 1, current_sector := Some k\<rparr>" (is "_ = ?st1")
      "ahead nibs o2 ?r1"
    using read_address_ahead [of nibs "st\<lparr>current_offset := o1\<rparr>" track k ?r1 ord] 1(2) k by auto
  obtain o3 where 3: "find_next_marker nibs (length nibs) o2 = (True, o3)"
      "ahead nibs o3 (drop 2 (data_field ?enc) @ ?r2)"
    using find_marker_ahead [OF 2(2) _ g(2)] by auto
  have dec: "decode_sector_62 ?enc (slice ?f (staging st)) = Some (slice ?f sectors)"
    using st sectors f sector_round_trip [of ?f sectors "slice ?f (staging st)"] slice_bound [OF f]
    by (simp add: slice_def progress_def)
  let ?st2 = "\<lambda>o'. st\<lparr>current_offset := o', markers_found := markers_found st + 2, current_sector := None,
     staging := splice ?f (slice ?f sectors) (staging st),
     decoded_sectors_mask := decoded_sectors_mask st OR push_bit ?f 1\<rparr>"
  obtain o4 where 4: "read_field ord track nibs (?st1\<lparr>current_offset := o3\<rparr>) = ?st2 o4"
      "ahead nibs o4 ?r2"
    using read_data_ahead [of nibs "?st1\<lparr>current_offset := o3\<rparr>" ?enc ?r2 k ord "slice ?f sectors" track]
      3(2) len f dec by (auto simp: slice_def splice_def)
  have "denibblize_loop ord track nibs st = denibblize_loop ord track nibs (?st2 o4)"
    using loop_step [OF mask _ 1(1), of ord track] loop_step [of ?st1 nibs o3 ord track] mask k st 2(1) 3(1) 4(1)
    by (simp add: progress_def)
  moreover have "progress ord sectors (Suc k) (?st2 o4)"
  proof -
    have b: "bit (decoded_sectors_mask st OR push_bit ?f 1) h \<longleftrightarrow> bit (decoded_sectors_mask st) h \<or> h = ?f"
      if "h < 16" for h
      using that by (auto simp: bit_or_iff bit_exp_iff)
    have s: "length (slice ?f sectors) = 256" "length (staging st) = 4096"
      using st by (simp_all add: length_slice sectors f progress_def)
    have "h < 16" if "h \<in> set (take k ord)" for h
      using that ord by (metis atLeastLessThan_iff in_set_takeD sector_permutation_def)
    then show ?thesis
      using st b by (auto simp: progress_def permutation_take [OF ord k] length_splice f s slice_splice)
  qed
  ultimately show ?thesis using 4(2) by (intro exI [of _ "?st2 o4"]) simp
qed

lemma track_run:
  assumes ord: "sector_permutation ord" and sectors: "length sectors = 4096"
  shows "k \<le> 16 \<Longrightarrow> progress ord sectors k st \<Longrightarrow> g < length nibs \<Longrightarrow> 16 < length nibs \<Longrightarrow>
    ahead nibs (current_offset st) (replicate g sync_byte @ concat (map (field_nibbles ord track sectors) [k..<16])) \<Longrightarrow>
    \<not> field_refused (denibblize_loop ord track nibs st) \<and>
    decoded_sectors_mask (denibblize_loop ord track nibs st) = 0xFFFF \<and>
    staging (denibblize_loop ord track nibs st) = sectors"
proof (induction "16 - k" arbitrary: k st g)
  case 0
  then have k: "k = 16" by simp
  then have t: "take k ord = ord" using ord by (simp add: sector_permutation_def)
  then have m: "decoded_sectors_mask st = 0xFFFF"
    using 0(3) ord by (simp add: mask_full progress_def sector_permutation_def)
  then have "denibblize_loop ord track nibs st = st"
    by (subst denibblize_loop.simps) simp
  moreover have "staging st = sectors"
  proof (rule slices_determine)
    show "length (staging st) = 4096" using 0(3) unfolding progress_def by blast
    have "f \<in> set (take k ord)" if "f < 16" for f
      using that ord unfolding t sector_permutation_def by simp
    then show "slice f (staging st) = slice f sectors" if "f < 16" for f
      using that 0(3) unfolding progress_def by blast
  qed (rule sectors)
  moreover have "\<not> field_refused st" using 0(3) unfolding progress_def by blast
  ultimately show ?case using m by (simp only: simp_thms)
next
  case (Suc n)
  then have k: "k < 16" by simp
  have "[k..<16] = k # [Suc k..<16]" using k by (rule upt_conv_Cons)
  then have ah: "ahead nibs (current_offset st) (replicate g sync_byte @ field_nibbles ord track sectors k
      @ concat (map (field_nibbles ord track sectors) [Suc k..<16]))"
    using Suc.prems(5) by simp
  have six: "6 < length nibs" using Suc.prems(4) by simp
  obtain st' where s: "denibblize_loop ord track nibs st = denibblize_loop ord track nibs st'"
    "progress ord sectors (Suc k) st'"
    "ahead nibs (current_offset st') (replicate 16 sync_byte @ concat (map (field_nibbles ord track sectors) [Suc k..<16]))"
    using sector_step [OF ord k sectors Suc.prems(2) ah Suc.prems(3) six] by blast
  have "n = 16 - Suc k" using Suc.hyps(2) by simp
  from Suc.hyps(1) [OF this _ s(2) Suc.prems(4) Suc.prems(4) s(3)] k show ?case by (simp add: s(1))
qed

lemma track_decodes:
  assumes "sector_permutation ord" "length sectors = 4096" "track < 40"
  shows "\<exists>nibbles. disk_encoding_nibblize_track True ord track sectors = Inr nibbles \<and>
    disk_encoding_denibblize_track True ord track (map fst nibbles) = Inr sectors"
proof -
  define nibbles where "nibbles = put_gap 48 @ concat (map (sector_fields ord track sectors) [0..<16])"
  let ?nibs = "map fst nibbles"
  have fst: "map fst (sector_fields ord track sectors k) = field_nibbles ord track sectors k" for k
    by (simp add: sector_fields_def field_nibbles_def put_data_def put_gap_def comp_def)
  have n: "?nibs = replicate 48 sync_byte @ concat (map (field_nibbles ord track sectors) [0..<16])"
    by (simp add: nibbles_def put_gap_def map_concat comp_def fst)
  have l: "48 < length ?nibs"
    unfolding n by (subst upt_conv_Cons) (simp_all add: field_nibbles_def address_field_def Let_def)
  let ?st = "\<lparr>current_offset = 0, markers_found = 0, current_sector = None, decoded_sectors_mask = 0,
      field_refused = False, staging = replicate (16 * 256) 0\<rparr>"
  have "progress ord sectors 0 ?st" by (simp add: progress_def)
  then have r: "\<not> field_refused (denibblize_loop ord track ?nibs ?st) \<and>
      decoded_sectors_mask (denibblize_loop ord track ?nibs ?st) = 0xFFFF \<and>
      staging (denibblize_loop ord track ?nibs ?st) = sectors"
    using l by (intro track_run [OF assms(1,2), where g = 48]) (simp_all add: ahead_def n)
  have "nibbles \<noteq> []" using l by auto
  then have "disk_encoding_denibblize_track True ord track ?nibs = Inr sectors"
    using r by (simp add: disk_encoding_denibblize_track_def Let_def)
  moreover have "disk_encoding_nibblize_track True ord track sectors = Inr nibbles"
    using assms(3) by (simp add: disk_encoding_nibblize_track_def nibbles_def)
  ultimately show ?thesis by blast
qed


lemma sector_orders: "sector_permutation (disk_encoding_sector_order order)"
proof (cases order)
  case disk_sector_order_dos
  have "sector_permutation (disk_encoding_sector_order disk_sector_order_dos)" by code_simp
  then show ?thesis by (simp add: disk_sector_order_dos)
next
  case disk_sector_order_prodos
  have "sector_permutation (disk_encoding_sector_order disk_sector_order_prodos)" by code_simp
  then show ?thesis by (simp add: disk_sector_order_prodos)
qed


subsection \<open>The track on the medium\<close>

lemma total_cells_append: "total_cells (xs @ ys) = total_cells xs + total_cells ys"
  by (simp add: total_cells_def)

lemma total_cells_data: "total_cells (put_data vs) = 8 * length vs"
  by (induction vs) (simp_all add: total_cells_def put_data_def)

lemma total_cells_gap: "total_cells (put_gap k) = 10 * k"
  by (induction k) (simp_all add: total_cells_def put_gap_def)

lemma length_address_field: "length (address_field track k) = 14"
  by (simp add: address_field_def Let_def)

lemma sector_fields_size:
  assumes "length (encode_sector_62 sectors (ord ! k)) = 343"
  shows "length (sector_fields ord track sectors k) = 385"
    and "total_cells (sector_fields ord track sectors k) = 3124"
proof -
  show "length (sector_fields ord track sectors k) = 385"
    using assms by (simp add: sector_fields_def put_data_def put_gap_def data_field_def length_address_field)
  show "total_cells (sector_fields ord track sectors k) = 3124"
    using assms by (simp add: sector_fields_def total_cells_append total_cells_data total_cells_gap
        data_field_def length_address_field)
qed

lemma sum_list_const: "(\<And>x. x \<in> set xs \<Longrightarrow> f x = c) \<Longrightarrow> sum_list (map f xs) = length xs * (c :: nat)"
  by (induction xs) simp_all

lemma total_cells_concat: "total_cells (concat xss) = sum_list (map total_cells xss)"
  by (induction xss) (simp_all add: total_cells_append, simp add: total_cells_def)

lemma high_bit_7: "(v :: u8) AND 0x80 \<noteq> 0 \<Longrightarrow> bit v 7"
  by (rule ccontr) (simp add: u8_eq_bits word_bits)

lemma field_high_bits:
  assumes "length sectors = 4096" "f < 16"
  shows "\<forall>v \<in> set (encode_sector_62 sectors f). bit v 7"
    and "\<forall>v \<in> set (address_field track k). bit v 7"
proof -
  have f: "f * 256 + 256 \<le> length sectors" using assms slice_bound by simp
  have l: "length (encode_sector_62 sectors f) = 343"
    using f by (simp add: encode_sector_62_def Let_def length_sector_data)
  show "\<forall>v \<in> set (encode_sector_62 sectors f). bit v 7"
  proof
    fix v assume "v \<in> set (encode_sector_62 sectors f)"
    then obtain i where "i < 343" "v = encode_sector_62 sectors f ! i"
      using l by (metis in_set_conv_nth)
    then show "bit v 7" using high_bit_7 [OF encode_sector_high_bit [OF f]] by blast
  qed
  have "bit (encode_4and4_high a) 7" "bit (encode_4and4_low a) 7" for a
    by (simp_all add: encode_4and4_high_def encode_4and4_low_def bit_or_iff)
  then show "\<forall>v \<in> set (address_field track k). bit v 7"
    by (simp add: address_field_def Let_def)
qed

lemma nibblized_size:
  assumes "sector_permutation ord" "length sectors = 4096"
    "nibbles = put_gap 48 @ concat (map (sector_fields ord track sectors) [0..<16])"
  shows "length nibbles = 6208" and "total_cells nibbles = 50464"
proof -
  have enc: "length (encode_sector_62 sectors (ord ! k)) = 343" if "k < 16" for k
    using assms(2) slice_bound [OF permutation_nth [OF assms(1) that]]
    by (simp add: encode_sector_62_def Let_def length_sector_data)
  show "length nibbles = 6208"
  proof -
    have "sum_list (map (\<lambda>k. length (sector_fields ord track sectors k)) [0..<16]) = length [0..<16] * 385"
      by (rule sum_list_const) (simp add: enc sector_fields_size)
    then show ?thesis by (simp add: assms(3) put_gap_def length_concat comp_def)
  qed
  show "total_cells nibbles = 50464"
  proof -
    have "sum_list (map (\<lambda>k. total_cells (sector_fields ord track sectors k)) [0..<16]) = length [0..<16] * 3124"
      by (rule sum_list_const) (simp add: enc sector_fields_size)
    then show ?thesis
      by (simp add: assms(3) total_cells_append total_cells_gap total_cells_concat comp_def)
  qed
qed

lemma nibblized_high_bits:
  assumes "sector_permutation ord" "length sectors = 4096"
    "nibbles = put_gap 48 @ concat (map (sector_fields ord track sectors) [0..<16])"
  shows "\<forall>v \<in> set (map fst nibbles). bit v 7"
proof -
  have "bit v 7" if "v \<in> fst ` set (sector_fields ord track sectors k)" "k < 16" for v k
    using that field_high_bits(1) [OF assms(2) permutation_nth [OF assms(1) that(2)]]
      field_high_bits(2) [OF assms(2), of 0 track k]
    by (auto simp: sector_fields_def put_data_def put_gap_def data_field_def)
  then show ?thesis by (fastforce simp: assms(3) put_gap_def)
qed

lemma walk_marked: "walk_sync_runs (map fst es) (Some (map (\<lambda>e. b2w (snd e)) es)) = es"
  by (rule nth_equalityI) (simp_all add: walk_sync_runs_def)

lemma track_lies:
  assumes "sector_permutation ord" "length sectors = 4096" "track < 40"
  shows "\<exists>nibbles bits. disk_encoding_nibblize_track True ord track sectors = Inr nibbles \<and>
    length nibbles = 6208 \<and>
    disk_encoding_nibbles_to_bits True (map fst nibbles) (Some (map (\<lambda>e. b2w (snd e)) nibbles)) 50464
      = Inr (bits, 50464) \<and>
    disk_encoding_bits_to_nibbles True bits 50464 6208 = (disk_err_none, map fst nibbles)"
proof -
  define nibbles where "nibbles = put_gap 48 @ concat (map (sector_fields ord track sectors) [0..<16])"
  note len = nibblized_size(1) [OF assms(1,2) nibbles_def] and cells = nibblized_size(2) [OF assms(1,2) nibbles_def]
  obtain bits where b: "disk_encoding_nibbles_to_bits True (map fst nibbles)
      (Some (map (\<lambda>e. b2w (snd e)) nibbles)) 50464 = Inr (bits, 50464)"
    by (simp add: disk_encoding_nibbles_to_bits_def walk_marked len cells)
  have "\<forall>v \<in> set (map fst nibbles). bit v 7" by (rule nibblized_high_bits [OF assms(1,2) nibbles_def])
  from cells_round_trip [OF b this, of 6208] b len assms(3) show ?thesis
    by (intro exI [of _ nibbles] exI [of _ bits])
      (simp add: disk_encoding_nibblize_track_def nibbles_def)
qed

text \<open>
  A formatted track fits one revolution.  Every nibblized track has 6208 nibbles and lies on
  50464 cells, the number the source derives for 197.8 ms; laid down with its sync marks and read
  back by the shift register it gives the same 6208 nibbles.
\<close>

theorem track_on_medium:
  assumes "sector_permutation ord" "length sectors = 4096" "track < 40"
  shows "\<exists>nibbles bits. disk_encoding_nibblize_track True ord track sectors = Inr nibbles \<and>
    length nibbles = 6208 \<and>
    disk_encoding_nibbles_to_bits True (map fst nibbles) (Some (map (\<lambda>e. b2w (snd e)) nibbles)) 50464
      = Inr (bits, 50464) \<and>
    disk_encoding_bits_to_nibbles True bits 50464 6208 = (disk_err_none, map fst nibbles)"
  by (rule track_lies [OF assms])

lemma track_on_medium_witness:
  "\<exists>nibbles bits. disk_encoding_nibblize_track True (disk_encoding_sector_order disk_sector_order_prodos) 39
      (replicate 4096 0x42) = Inr nibbles \<and> length nibbles = 6208 \<and>
    disk_encoding_bits_to_nibbles True bits 50464 6208 = (disk_err_none, map fst nibbles)"
proof -
  have "length (replicate 4096 (0x42 :: u8)) = 4096" "(39 :: nat) < 40" by simp_all
  from track_on_medium [OF sector_orders this, of disk_sector_order_prodos] show ?thesis by blast
qed

end
