(* ===== verification/Disk_Drive.thy ===== *)
theory Disk_Drive
  imports Mockingboard Disk_Bits "HOL-Library.Signed_Division"
begin

text \<open>
  The drives of the Disk II card (\<open>src/apple2/peripherals/disk/Disk.cpp\<close>): the medium under the
  head, the format driver behind it, and the stepper that moves the head.

  A format driver is a table of functions and an instance; both together are a number that only
  the format interface \<open>format_api\<close> understands, and everything behind that interface (open files,
  track buffers) is the state \<open>media\<close>.  \<open>disk_loader_open\<close>, which picks a driver for a path, and
  \<open>disk_loader_create\<close> are the interface's \<open>fa_open\<close> and \<open>fa_create\<close>.  The position of the cell
  under the head in units of 125 ns is an integer: it stays within one byte of zero.  Status
  notifications only redraw the front panel and are left out.
\<close>

abbreviation (input) "motor_off_delay_cycles \<equiv> (1159235 :: u32)"
abbreviation (input) "write_light_hold_cycles \<equiv> (1020484 :: u32)"
abbreviation (input) "max_track_bits \<equiv> (69632 :: u32)"
abbreviation (input) "track_bit_bytes \<equiv> (8704 :: nat)"
abbreviation (input) "disk_default_bit_timing \<equiv> (32 :: u8)"
abbreviation (input) "quarter_tracks_per_disk \<equiv> (160 :: nat)"
abbreviation (input) "nibbles_per_track \<equiv> (6656 :: nat)"

record 'g format_api =
  fa_open :: "string \<Rightarrow> 'g \<Rightarrow> (disk_error + nat) \<times> 'g"
  fa_close :: "nat \<Rightarrow> 'g \<Rightarrow> 'g"
  fa_can_write :: "nat \<Rightarrow> bool"
  fa_is_write_protected :: "nat \<Rightarrow> 'g \<Rightarrow> bool"
  fa_read_track_bits :: "nat \<Rightarrow> u32 \<Rightarrow> u8 list \<Rightarrow> u32 \<Rightarrow> 'g \<Rightarrow> disk_error \<times> u8 list \<times> u32 \<times> u8 \<times> 'g"
  fa_write_track_bits :: "nat \<Rightarrow> (u32 \<Rightarrow> u8 list \<Rightarrow> u32 \<Rightarrow> 'g \<Rightarrow> disk_error \<times> 'g) option"
  fa_create :: "string \<Rightarrow> string \<Rightarrow> 'g \<Rightarrow> disk_error \<times> 'g"

record disk =
  full_path :: string
  quarter_track :: u32
  bit_position :: u32
  cell_remaining :: int
  zero_cell_run :: u8
  bit_count :: u32
  bit_timing :: u8
  is_user_write_protected :: bool
  is_data_loaded :: bool
  is_dirty :: bool
  motor_enable_cycles :: u32
  write_light_cycles :: u32
  track_bits :: "u8 list"
  driver :: "nat option"
  last_error :: disk_error

definition new_disk :: disk where
  "new_disk =
     \<lparr>full_path = [], quarter_track = 0, bit_position = 0, cell_remaining = 0, zero_cell_run = 0,
      bit_count = 0, bit_timing = disk_default_bit_timing, is_user_write_protected = False,
      is_data_loaded = False, is_dirty = False, motor_enable_cycles = 0, write_light_cycles = 0,
      track_bits = [], driver = None, last_error = disk_err_none\<rparr>"

record disk_sequencer =
  q6 :: bool
  q7 :: bool
  write_line_active :: bool
  write_pulse_pending :: bool
  seq_state :: u8

definition new_sequencer :: disk_sequencer where
  "new_sequencer = \<lparr>q6 = False, q7 = False, write_line_active = False, write_pulse_pending = False, seq_state = 0\<rparr>"

text \<open>\<open>card_cycles\<close> is the card's own \<open>cumulative_cycles\<close>, \<open>disk_synced\<close> its \<open>synced\<close>.\<close>

record disk_card =
  drives :: "nat \<Rightarrow> disk"
  active_drive_index :: u16
  io_latch :: u8
  last_bus_write :: u8
  stepper_phase_mask :: u16
  is_motor_on :: bool
  sequencer :: disk_sequencer
  disk_synced :: u32
  noise_seed :: u32
  card_cycles :: u32
  magnet_release_cycle :: u32
  quarter_track_before_release :: u32
  magnet_released :: bool
  dc_slot :: int

definition active_index :: "disk_card \<Rightarrow> nat" where
  "active_index dp = (if active_drive_index dp < 2 then unat (active_drive_index dp) else 0)"

definition active_drive :: "disk_card \<Rightarrow> disk" where
  "active_drive dp = drives dp (active_index dp)"

definition put_drive :: "nat \<Rightarrow> disk \<Rightarrow> disk_card \<Rightarrow> disk_card" where
  "put_drive k d dp = dp\<lparr>drives := (drives dp)(k := d)\<rparr>"

definition put_active :: "disk \<Rightarrow> disk_card \<Rightarrow> disk_card" where
  "put_active d dp = put_drive (active_index dp) d dp"

definition energised_magnets :: "disk_card \<Rightarrow> u16" where
  "energised_magnets dp = (if motor_enable_cycles (active_drive dp) > 0 then stepper_phase_mask dp else 0)"

definition is_disk_write_protected :: "'g format_api \<Rightarrow> 'g \<Rightarrow> disk \<Rightarrow> bool" where
  "is_disk_write_protected fa g d =
     (if is_user_write_protected d then True
      else case driver d of None \<Rightarrow> False
           | Some h \<Rightarrow> if \<not> fa_can_write fa h then True else fa_is_write_protected fa h g)"

subsection \<open>The medium\<close>

definition medium_cell :: "disk \<Rightarrow> u32 \<Rightarrow> bool" where
  "medium_cell d index = cell_at (track_bits d) (unat index)"

definition advance_medium :: "u32 \<Rightarrow> disk \<Rightarrow> disk" where
  "advance_medium cells d =
     (if bit_count d = 0 then d else d\<lparr>bit_position := (bit_position d + cells) mod bit_count d\<rparr>)"

definition set_cell :: "bool \<Rightarrow> nat \<Rightarrow> u8 list \<Rightarrow> u8 list" where
  "set_cell pulse index bits =
     (let cell = drop_bit (index mod 8) 0x80; b = bits ! (index div 8)
      in bits[index div 8 := (if pulse then b OR cell else b AND NOT cell)])"

definition write_medium_byte :: "u8 \<Rightarrow> disk \<Rightarrow> disk" where
  "write_medium_byte value =
     fold (\<lambda>i d. advance_medium 1 (d\<lparr>track_bits := set_cell (bit value (7 - i)) (unat (bit_position d)) (track_bits d)\<rparr>))
       [0..<8]"

fun decode_loop :: "u8 list \<Rightarrow> nat \<Rightarrow> nat \<Rightarrow> nat \<Rightarrow> u8 list" where
  "decode_loop bits count room cell =
     (if room = 0 \<or> cell > count - 8 then []
      else let cell = skip_blank bits count cell
           in if cell > count - 8 then [] else read_nibble bits cell # decode_loop bits count (room - 1) (cell + 8))"

declare decode_loop.simps [simp del]

definition decode_medium_bytes :: "disk \<Rightarrow> nat \<Rightarrow> u8 list" where
  "decode_medium_bytes d max_count =
     (if bit_count d < 8 then [] else decode_loop (track_bits d) (unat (bit_count d)) max_count 0)"

definition encode_medium_bytes :: "u8 list \<Rightarrow> disk \<Rightarrow> disk" where
  "encode_medium_bytes bytes d =
     (let d = d\<lparr>bit_position := 0, bit_count := of_nat (length bytes) * 8\<rparr>;
          d = fold write_medium_byte bytes d
      in d\<lparr>bit_position := 0, cell_remaining := 0\<rparr>)"

subsection \<open>The format driver\<close>

definition write_track_to_driver :: "'g format_api \<Rightarrow> nat \<Rightarrow> disk_card \<times> 'g \<Rightarrow> disk_card \<times> 'g" where
  "write_track_to_driver fa k = (\<lambda>(dp, g).
     let d = drives dp k in
     if unat (quarter_track d) \<ge> quarter_tracks_per_disk then (dp, g)
     else if is_disk_write_protected fa g d then (dp, g)
     else case driver d of None \<Rightarrow> (dp, g)
          | Some h \<Rightarrow>
              (case fa_write_track_bits fa h of None \<Rightarrow> (dp, g)
               | Some write_bits \<Rightarrow>
                   if bit_count d = 0 then (dp, g)
                   else case write_bits (quarter_track d) (track_bits d) (bit_count d) g of
                          (error, g) \<Rightarrow> (put_drive k (d\<lparr>is_dirty := (error \<noteq> disk_err_none)\<rparr>) dp, g)))"

definition rescale_head_angle :: "u32 \<Rightarrow> u32 \<Rightarrow> disk \<Rightarrow> disk" where
  "rescale_head_angle previous_position previous_count d =
     (if bit_count d = 0 then d\<lparr>bit_position := 0\<rparr>
      else if previous_count = 0 then d
      else let scaled = (ucast previous_position * ucast (bit_count d) :: u64) div ucast previous_count
           in d\<lparr>bit_position := ucast ((scaled + 7) mod ucast (bit_count d))\<rparr>)"

definition read_track_from_driver :: "'g format_api \<Rightarrow> nat \<Rightarrow> disk_card \<times> 'g \<Rightarrow> disk_card \<times> 'g" where
  "read_track_from_driver fa k = (\<lambda>(dp, g).
     let d0 = drives dp k;
         d = d0\<lparr>bit_position := 0, cell_remaining := 0, zero_cell_run := 0, bit_count := 0,
                bit_timing := disk_default_bit_timing\<rparr> in
     if unat (quarter_track d) \<ge> quarter_tracks_per_disk
     then (put_drive k (d\<lparr>is_data_loaded := False\<rparr>) dp, g)
     else
       let bits = track_bits d @ replicate (track_bit_bytes - length (track_bits d)) 0;
           d = d\<lparr>track_bits := bits\<rparr>;
           (d, g) = (case driver d of None \<Rightarrow> (d, g)
                     | Some h \<Rightarrow>
                         (case fa_read_track_bits fa h (quarter_track d) bits max_track_bits g of
                            (error, bits, loaded_bits, loaded_timing, g) \<Rightarrow>
                              let count = (if error = disk_err_none then loaded_bits else 0)
                              in (d\<lparr>track_bits := bits, bit_count := count, bit_timing := loaded_timing,
                                    is_data_loaded := (count \<noteq> 0)\<rparr>, g)))
       in (put_drive k (rescale_head_angle (bit_position d0) (bit_count d0) d) dp, g))"

definition close_format_driver :: "'g format_api \<Rightarrow> nat \<Rightarrow> disk_card \<times> 'g \<Rightarrow> disk_card \<times> 'g" where
  "close_format_driver fa k = (\<lambda>(dp, g).
     case driver (drives dp k) of None \<Rightarrow> (dp, g)
     | Some h \<Rightarrow> (put_drive k ((drives dp k)\<lparr>driver := None\<rparr>) dp, fa_close fa h g))"

definition eject_disk_from_drive :: "'g format_api \<Rightarrow> nat \<Rightarrow> disk_card \<times> 'g \<Rightarrow> disk_card \<times> 'g" where
  "eject_disk_from_drive fa k = (\<lambda>(dp, g).
     if driver (drives dp k) = None then (put_drive k new_disk dp, g)
     else
       let (dp, g) = (if is_dirty (drives dp k) then write_track_to_driver fa k (dp, g) else (dp, g));
           (dp, g) = close_format_driver fa k (dp, g)
       in (put_drive k new_disk dp, g))"

definition insert_disk_into_drive ::
  "'g format_api \<Rightarrow> nat \<Rightarrow> string \<Rightarrow> bool \<Rightarrow> disk_card \<times> 'g \<Rightarrow> disk_error \<times> disk_card \<times> 'g" where
  "insert_disk_into_drive fa k image_path write_protected = (\<lambda>(dp, g).
     let (dp, g) = (if driver (drives dp k) \<noteq> None then eject_disk_from_drive fa k (dp, g) else (dp, g));
         d = new_disk\<lparr>is_user_write_protected := write_protected\<rparr>
     in case fa_open fa image_path g of
          (Inl error, g) \<Rightarrow> (error, put_drive k (d\<lparr>last_error := error\<rparr>) dp, g)
        | (Inr h, g) \<Rightarrow>
            (disk_err_none,
             put_drive k (d\<lparr>driver := Some h, last_error := disk_err_none, full_path := image_path\<rparr>) dp, g))"

subsection \<open>The stepper\<close>

definition move_head_to :: "'g format_api \<Rightarrow> u32 \<Rightarrow> disk_card \<times> 'g \<Rightarrow> disk_card \<times> 'g" where
  "move_head_to fa target = (\<lambda>(dp, g).
     if target = quarter_track (active_drive dp) then (dp, g)
     else
       let (dp, g) = (if is_dirty (active_drive dp)
                      then write_track_to_driver fa (unat (active_drive_index dp)) (dp, g) else (dp, g))
       in (put_active ((active_drive dp)\<lparr>quarter_track := target, is_data_loaded := False\<rparr>) dp, g))"

text \<open>The pull of the live magnets: the sum of where they draw the cog, and how many pull.\<close>

definition magnet_pull :: "u16 \<Rightarrow> u32 \<Rightarrow> int \<times> int" where
  "magnet_pull live here =
     (let half_track = int (unat here) - int (unat here) mod 2; cog_phase = (unat here div 2) mod 4 in
      fold (\<lambda>magnet (pulled, magnets).
          let offset = (magnet + 4 - cog_phase) mod 4 in
          if \<not> bit live magnet then (pulled, magnets)
          else if offset = 2 then (pulled, magnets)
          else (pulled + half_track + (if offset = 1 then 2 else 0) - (if offset = 3 then 2 else 0), magnets + 1))
        [0..<4] (0, 0))"

definition settle_head :: "'g format_api \<Rightarrow> disk_card \<times> 'g \<Rightarrow> disk_card \<times> 'g" where
  "settle_head fa = (\<lambda>(dp, g).
     case magnet_pull (energised_magnets dp) (quarter_track (active_drive dp)) of
       (pulled, magnets) \<Rightarrow>
         if magnets = 0 then (dp, g)
         else
           let settled = max 0 (min (int quarter_tracks_per_disk - 1) (pulled sdiv magnets))
           in move_head_to fa (word_of_int settled) (dp, g))"

end
