(* ===== verification/Disk_Controller.thy ===== *)
theory Disk_Controller
  imports Disk_Drive
begin

text \<open>
  The Disk II card (\<open>src/apple2/peripherals/disk/Disk.cpp\<close>): the state sequencer that clocks
  cells into the data register and out of it, the sixteen switches, the motor's monostable, the
  commands and the save state.

  \<open>p6_rom\<close> is the sequencer's program, the file \<open>res/roms/DISK2-P6.rom\<close> of the repository.  The
  boot ROM and the configured image paths are the card's environment.  A function that reaches
  the format driver maps a card and the media to a card and the media.
\<close>

record 'g disks = mockingboards +
  dcards :: "nat \<Rightarrow> disk_card"
  media :: 'g

type_synonym ('g, 'a) disk_host = "('g, 'a) disks_ext mb_host"

definition on_card ::
  "nat \<Rightarrow> (disk_card \<times> 'g \<Rightarrow> disk_card \<times> 'g) \<Rightarrow> ('g, 'a) disks_scheme \<Rightarrow> ('g, 'a) disks_scheme" where
  "on_card i f m =
     (case f (dcards m i, media m) of (dp, g) \<Rightarrow> m\<lparr>dcards := (dcards m)(i := dp), media := g\<rparr>)"

definition notify_activity_changed :: "nat \<Rightarrow> bool \<Rightarrow> ('g, 'a) disks_scheme \<Rightarrow> ('g, 'a) disks_scheme" where
  "notify_activity_changed i active m = host_notify_activity_changed (dc_slot (dcards m i)) active m"

definition read_floating_bus :: "nat option \<Rightarrow> u32 \<Rightarrow> ('g, 'a) disks_scheme \<Rightarrow> u8" where
  "read_floating_bus inst executed m = (case inst of None \<Rightarrow> 0xFF | Some i \<Rightarrow> mem_read_floating_bus executed m)"

subsection \<open>The sequencer\<close>

definition p6_rom :: "u8 list" where
  "p6_rom = [
     0x18, 0xD8, 0x18, 0x08, 0x0A, 0x0A, 0x0A, 0x0A, 0x18, 0x39, 0x18, 0x39, 0x18, 0x3B, 0x18, 0x3B,
     0x18, 0x38, 0x18, 0x28, 0x0A, 0x0A, 0x0A, 0x0A, 0x18, 0x39, 0x18, 0x39, 0x18, 0x3B, 0x18, 0x3B,
     0x2D, 0xD8, 0x38, 0x48, 0x0A, 0x0A, 0x0A, 0x0A, 0x28, 0x48, 0x28, 0x48, 0x28, 0x48, 0x28, 0x48,
     0x2D, 0x48, 0x38, 0x48, 0x0A, 0x0A, 0x0A, 0x0A, 0x28, 0x48, 0x28, 0x48, 0x28, 0x48, 0x28, 0x48,
     0xD8, 0xD8, 0xD8, 0xD8, 0x0A, 0x0A, 0x0A, 0x0A, 0x58, 0x78, 0x58, 0x78, 0x58, 0x78, 0x58, 0x78,
     0x58, 0x78, 0x58, 0x78, 0x0A, 0x0A, 0x0A, 0x0A, 0x58, 0x78, 0x58, 0x78, 0x58, 0x78, 0x58, 0x78,
     0xD8, 0xD8, 0xD8, 0xD8, 0x0A, 0x0A, 0x0A, 0x0A, 0x68, 0x08, 0x68, 0x88, 0x68, 0x08, 0x68, 0x88,
     0x68, 0x88, 0x68, 0x88, 0x0A, 0x0A, 0x0A, 0x0A, 0x68, 0x08, 0x68, 0x88, 0x68, 0x08, 0x68, 0x88,
     0xD8, 0xCD, 0xD8, 0xD8, 0x0A, 0x0A, 0x0A, 0x0A, 0x98, 0xB9, 0x98, 0xB9, 0x98, 0xBB, 0x98, 0xBB,
     0x98, 0xBD, 0x98, 0xB8, 0x0A, 0x0A, 0x0A, 0x0A, 0x98, 0xB9, 0x98, 0xB9, 0x98, 0xBB, 0x98, 0xBB,
     0xD8, 0xD9, 0xD8, 0xD8, 0x0A, 0x0A, 0x0A, 0x0A, 0xA8, 0xC8, 0xA8, 0xC8, 0xA8, 0xC8, 0xA8, 0xC8,
     0x29, 0x59, 0xA8, 0xC8, 0x0A, 0x0A, 0x0A, 0x0A, 0xA8, 0xC8, 0xA8, 0xC8, 0xA8, 0xC8, 0xA8, 0xC8,
     0xD9, 0xFD, 0xD8, 0xF8, 0x0A, 0x0A, 0x0A, 0x0A, 0xD8, 0xF8, 0xD8, 0xF8, 0xD8, 0xF8, 0xD8, 0xF8,
     0xD9, 0xFD, 0xA0, 0xF8, 0x0A, 0x0A, 0x0A, 0x0A, 0xD8, 0xF8, 0xD8, 0xF8, 0xD8, 0xF8, 0xD8, 0xF8,
     0xD8, 0xDD, 0xE8, 0xE0, 0x0A, 0x0A, 0x0A, 0x0A, 0xE8, 0x88, 0xE8, 0x08, 0xE8, 0x88, 0xE8, 0x08,
     0x08, 0x4D, 0xE8, 0xE0, 0x0A, 0x0A, 0x0A, 0x0A, 0xE8, 0x88, 0xE8, 0x08, 0xE8, 0x88, 0xE8, 0x08]"

definition p6_opcode :: "u8 \<Rightarrow> u8" where
  "p6_opcode address = p6_rom ! unat address"

definition noise_pulse :: "disk_card \<Rightarrow> bool \<times> disk_card" where
  "noise_pulse dp =
     (let seed = noise_seed dp * 1103515245 + 12345
      in (drop_bit 16 seed AND 0xFF < 77, dp\<lparr>noise_seed := seed\<rparr>))"

text \<open>The drive under the head is held beside its card while the sequencer runs.\<close>

type_synonym running = "disk_card \<times> disk"

definition put_sequencer :: "(disk_sequencer \<Rightarrow> disk_sequencer) \<Rightarrow> disk_card \<Rightarrow> disk_card" where
  "put_sequencer f dp = dp\<lparr>sequencer := f (sequencer dp)\<rparr>"

definition commit_write_cell :: "running \<Rightarrow> running" where
  "commit_write_cell = (\<lambda>(dp, d).
     let index = (bit_position d + bit_count d - 1) mod bit_count d;
         d = d\<lparr>track_bits := set_cell (write_pulse_pending (sequencer dp)) (unat index) (track_bits d), is_dirty := True\<rparr>
     in (put_sequencer (\<lambda>s. s\<lparr>write_pulse_pending := False\<rparr>) dp, d))"

text \<open>One turn of the loop: a cell passes under the head.\<close>

definition pass_cell :: "bool \<Rightarrow> bool \<times> running \<Rightarrow> bool \<times> running" where
  "pass_cell may_write = (\<lambda>(pulse, dp, d).
     let (dp, d) = (if may_write then commit_write_cell (dp, d) else (dp, d));
         (pulse, dp, d) =
           (if medium_cell d (bit_position d) then (True, dp, d\<lparr>zero_cell_run := 0\<rparr>)
            else if zero_cell_run d < 3 then (pulse, dp, d\<lparr>zero_cell_run := zero_cell_run d + 1\<rparr>)
            else case noise_pulse dp of (noise, dp) \<Rightarrow> (pulse \<or> noise, dp, d))
     in (pulse, dp, d\<lparr>bit_position := (bit_position d + 1) mod bit_count d,
                      cell_remaining := cell_remaining d + int (unat (bit_timing d))\<rparr>))"

definition pass_cells :: "bool \<Rightarrow> running \<Rightarrow> (bool \<times> running) option" where
  "pass_cells may_write r = while_option (\<lambda>(_, _, d). cell_remaining d < 0) (pass_cell may_write) (False, r)"

definition advance_medium_one_step :: "bool \<Rightarrow> running \<Rightarrow> bool \<times> running" where
  "advance_medium_one_step may_write = (\<lambda>(dp, d).
     if bit_count d = 0 then (case noise_pulse dp of (pulse, dp) \<Rightarrow> (pulse, dp, d))
     else the (pass_cells may_write (dp, d\<lparr>cell_remaining := cell_remaining d - 4\<rparr>)))"

definition p6_address :: "bool \<Rightarrow> disk_card \<Rightarrow> u8" where
  "p6_address pulse dp =
     (let s = sequencer dp; state = seq_state s in
      push_bit 4 (state AND 0x0E) OR (if pulse then 0x00 else 0x10) OR (if q7 s then 0x08 else 0x00) OR
      (if q6 s then 0x04 else 0x00) OR drop_bit 6 (io_latch dp AND 0x80) OR (state AND 0x01))"

definition follow_write_line :: "disk_sequencer \<Rightarrow> disk_sequencer" where
  "follow_write_line s =
     (let state_drives_high = (seq_state s AND 0x08 \<noteq> 0) in
      if q7 s \<and> state_drives_high \<noteq> write_line_active s
      then s\<lparr>write_line_active := state_drives_high, write_pulse_pending := True\<rparr> else s)"

definition next_state :: "u8 \<Rightarrow> u8" where
  "next_state opcode =
     drop_bit 4 (opcode AND 0xC0) OR drop_bit 3 (opcode AND 0x10) OR drop_bit 5 (opcode AND 0x20)"

definition next_latch :: "u8 \<Rightarrow> bool \<Rightarrow> u8 \<Rightarrow> u8 \<Rightarrow> u8" where
  "next_latch opcode is_protected bus_write latch =
     (let command = opcode AND 0x0F in
      if command = 0x8 \<or> command = 0xC then latch
      else if command = 0x9 then push_bit 1 latch
      else if command = 0xA \<or> command = 0xE then drop_bit 1 latch OR (if is_protected then 0x80 else 0x00)
      else if command = 0xB \<or> command = 0xF then bus_write
      else if command = 0xD then push_bit 1 latch OR 1
      else 0)"

definition sequencer_step :: "bool \<Rightarrow> bool \<Rightarrow> running \<Rightarrow> running" where
  "sequencer_step is_protected may_write = (\<lambda>r.
     case advance_medium_one_step may_write r of
       (pulse, dp, d) \<Rightarrow>
         let opcode = p6_opcode (p6_address pulse dp);
             dp = put_sequencer (\<lambda>s. (follow_write_line s)\<lparr>seq_state := next_state opcode\<rparr>) dp
         in (dp\<lparr>io_latch := next_latch opcode is_protected (last_bus_write dp) (io_latch dp)\<rparr>, d))"

definition run_sequencer_cycles :: "'g format_api \<Rightarrow> u32 \<Rightarrow> disk_card \<times> 'g \<Rightarrow> disk_card \<times> 'g" where
  "run_sequencer_cycles fa cycles = (\<lambda>(dp, g).
     if cycles = 0 then (dp, g)
     else if motor_enable_cycles (active_drive dp) = 0 then (dp, g)
     else
       let (dp, g) = (if \<not> is_data_loaded (active_drive dp) \<and> driver (active_drive dp) \<noteq> None
                      then read_track_from_driver fa (unat (active_drive_index dp)) (dp, g) else (dp, g));
           is_protected = is_disk_write_protected fa g (active_drive dp);
           may_write = (q7 (sequencer dp) \<and> \<not> is_protected);
           steps = unat (cycles * 2);
           (dp, d) = (sequencer_step is_protected may_write ^^ steps) (dp, active_drive dp)
       in (put_active d dp, g))"

definition sync_sequencer_to_cycle :: "'g format_api \<Rightarrow> u32 \<Rightarrow> disk_card \<times> 'g \<Rightarrow> disk_card \<times> 'g" where
  "sync_sequencer_to_cycle fa executed = (\<lambda>(dp, g).
     if executed \<le> disk_synced dp then (dp, g)
     else
       let elapsed = executed - disk_synced dp
       in run_sequencer_cycles fa elapsed
            (dp\<lparr>disk_synced := executed, card_cycles := card_cycles dp + elapsed\<rparr>, g))"

subsection \<open>The switches\<close>

definition sync_drive_motor_state ::
  "'g format_api \<Rightarrow> nat \<Rightarrow> ('g, 'a) disks_scheme \<Rightarrow> ('g, 'a) disks_scheme" where
  "sync_drive_motor_state fa i m =
     (let was_spinning = (motor_enable_cycles (active_drive (dcards m i)) > 0);
          m = (if is_motor_on (dcards m i)
               then on_card i (\<lambda>(dp, g). (put_active ((active_drive dp)\<lparr>motor_enable_cycles := motor_off_delay_cycles\<rparr>) dp, g)) m
               else m);
          now_spinning = (motor_enable_cycles (active_drive (dcards m i)) > 0);
          m = (if \<not> was_spinning \<and> now_spinning then on_card i (settle_head fa) m else m)
      in if was_spinning \<noteq> now_spinning then notify_activity_changed i now_spinning m else m)"

definition disk_io_control_motor ::
  "'g format_api \<Rightarrow> nat \<Rightarrow> u16 \<Rightarrow> ('g, 'a) disks_scheme \<Rightarrow> ('g, 'a) disks_scheme" where
  "disk_io_control_motor fa i addr m =
     sync_drive_motor_state fa i (on_card i (\<lambda>(dp, g). (dp\<lparr>is_motor_on := (addr AND 0x01 \<noteq> 0)\<rparr>, g)) m)"

definition disk_io_control_stepper :: "'g format_api \<Rightarrow> u16 \<Rightarrow> disk_card \<times> 'g \<Rightarrow> disk_card \<times> 'g" where
  "disk_io_control_stepper fa addr = (\<lambda>(dp, g).
     let strobe_phase = unat (drop_bit 1 addr AND 0x03);
         strobe_bit = push_bit strobe_phase 1;
         magnet_is_on = (addr AND 0x01 \<noteq> 0);
         mask = (if magnet_is_on then stepper_phase_mask dp OR strobe_bit
                 else stepper_phase_mask dp AND NOT strobe_bit);
         dp = dp\<lparr>stepper_phase_mask := mask\<rparr> in
     if motor_enable_cycles (active_drive dp) = 0 then (dp, g)
     else
       let before_settling = quarter_track (active_drive dp);
           (dp, g) = settle_head fa (dp, g) in
       if magnet_is_on then (dp, g)
       else if stepper_phase_mask dp = 0 \<and> magnet_released dp \<and> card_cycles dp - magnet_release_cycle dp \<le> 10
       then case move_head_to fa (quarter_track_before_release dp) (dp, g) of
              (dp, g) \<Rightarrow> (dp\<lparr>magnet_released := False\<rparr>, g)
       else (dp\<lparr>quarter_track_before_release := before_settling, magnet_released := True,
                magnet_release_cycle := card_cycles dp\<rparr>, g))"

definition disk_io_enable_drive ::
  "'g format_api \<Rightarrow> nat \<Rightarrow> u16 \<Rightarrow> ('g, 'a) disks_scheme \<Rightarrow> ('g, 'a) disks_scheme" where
  "disk_io_enable_drive fa i addr m =
     (let new_drive_index = addr AND 0x01;
          m = (if new_drive_index \<noteq> active_drive_index (dcards m i)
               then on_card i (\<lambda>(dp, g).
                 let (dp, g) = (if is_dirty (active_drive dp)
                                then write_track_to_driver fa (unat (active_drive_index dp)) (dp, g) else (dp, g));
                     dp = put_active ((active_drive dp)\<lparr>motor_enable_cycles := 0, write_light_cycles := 0\<rparr>) dp
                 in (dp\<lparr>active_drive_index := new_drive_index\<rparr>, g)) m
               else m)
      in sync_drive_motor_state fa i m)"

definition disk_io_mode_switch :: "u16 \<Rightarrow> u8 option \<Rightarrow> disk_card \<Rightarrow> disk_card" where
  "disk_io_mode_switch addr written dp =
     (let dp = (case written of Some v \<Rightarrow> dp\<lparr>last_bus_write := v\<rparr> | None \<Rightarrow> dp);
          offset = addr AND 0x0F;
          switch_is_set = (offset AND 0x01 \<noteq> 0) in
      if offset AND 0x02 = 0 then put_sequencer (\<lambda>s. s\<lparr>q6 := switch_is_set\<rparr>) dp
      else
        let dp = put_sequencer (\<lambda>s. s\<lparr>q7 := switch_is_set\<rparr>) dp
        in if switch_is_set then put_active ((active_drive dp)\<lparr>write_light_cycles := write_light_hold_cycles\<rparr>) dp
           else dp)"

text \<open>The table of handlers: what an access to offset \<open>addr mod 16\<close> does.\<close>

definition disk_io_handler ::
  "'g format_api \<Rightarrow> nat \<Rightarrow> u16 \<Rightarrow> u8 option \<Rightarrow> ('g, 'a) disks_scheme \<Rightarrow> ('g, 'a) disks_scheme" where
  "disk_io_handler fa i addr written m =
     (let index = addr AND 0x0F in
      if index < 0x8 then on_card i (disk_io_control_stepper fa addr) m
      else if index < 0xA then disk_io_control_motor fa i addr m
      else if index < 0xC then disk_io_enable_drive fa i addr m
      else on_card i (\<lambda>(dp, g). (disk_io_mode_switch addr written dp, g)) m)"

definition disk_io_read ::
  "'g format_api \<Rightarrow> nat option \<Rightarrow> u16 \<Rightarrow> u8 \<Rightarrow> u32 \<Rightarrow> ('g, 'a) disks_scheme \<Rightarrow> u8 \<times> ('g, 'a) disks_scheme" where
  "disk_io_read fa inst memory_address is_write executed m =
     (case inst of None \<Rightarrow> (read_floating_bus inst executed m, m)
      | Some i \<Rightarrow>
          if is_write \<noteq> 0 then (read_floating_bus inst executed m, m)
          else
            let m = on_card i (sync_sequencer_to_cycle fa executed) m;
                addr = memory_address AND 0xFF;
                m = disk_io_handler fa i addr None m
            in (if addr AND 1 \<noteq> 0 then read_floating_bus inst executed m else io_latch (dcards m i), m))"

definition disk_io_write ::
  "'g format_api \<Rightarrow> nat option \<Rightarrow> u16 \<Rightarrow> u8 \<Rightarrow> u8 \<Rightarrow> u32 \<Rightarrow> ('g, 'a) disks_scheme \<Rightarrow> u8 \<times> ('g, 'a) disks_scheme" where
  "disk_io_write fa inst memory_address is_write data executed m =
     (case inst of None \<Rightarrow> (0, m)
      | Some i \<Rightarrow>
          if is_write = 0 then (0, m)
          else
            let m = on_card i (sync_sequencer_to_cycle fa executed) m;
                addr = memory_address AND 0xFF;
                m = disk_io_handler fa i addr (Some data) m
            in (if addr AND 0x0F \<ge> 0xC then io_latch (dcards m i) else read_floating_bus inst executed m, m))"

subsection \<open>Batches\<close>

definition update_motor ::
  "'g format_api \<Rightarrow> nat \<Rightarrow> u32 \<Rightarrow> nat \<Rightarrow> ('g, 'a) disks_scheme \<Rightarrow> ('g, 'a) disks_scheme" where
  "update_motor fa i elapsed k m =
     (let dp = dcards m i; d = drives dp k in
      if motor_enable_cycles d > 0 \<and> \<not> is_motor_on dp
      then if elapsed \<ge> motor_enable_cycles d
           then notify_activity_changed i False (on_card i (\<lambda>(dp, g).
                  let dp = put_drive k (d\<lparr>motor_enable_cycles := 0\<rparr>) dp;
                      dp = (if active_index dp = k then dp\<lparr>magnet_released := False\<rparr> else dp)
                  in if is_dirty d then write_track_to_driver fa k (dp, g) else (dp, g)) m)
           else on_card i (\<lambda>(dp, g). (put_drive k (d\<lparr>motor_enable_cycles := motor_enable_cycles d - elapsed\<rparr>) dp, g)) m
      else m)"

definition update_write_light :: "u32 \<Rightarrow> nat \<Rightarrow> disk_card \<Rightarrow> disk_card" where
  "update_write_light elapsed k dp =
     (let d = drives dp k in
      if q7 (sequencer dp) \<and> active_index dp = k \<and> motor_enable_cycles d > 0
      then put_drive k (d\<lparr>write_light_cycles := write_light_hold_cycles\<rparr>) dp
      else if write_light_cycles d > 0
      then put_drive k (d\<lparr>write_light_cycles :=
             (if elapsed \<ge> write_light_cycles d then 0 else write_light_cycles d - elapsed)\<rparr>) dp
      else dp)"

definition update_drive_physics ::
  "'g format_api \<Rightarrow> nat \<Rightarrow> u32 \<Rightarrow> nat \<Rightarrow> ('g, 'a) disks_scheme \<Rightarrow> ('g, 'a) disks_scheme" where
  "update_drive_physics fa i elapsed k m =
     on_card i (\<lambda>(dp, g). (update_write_light elapsed k dp, g)) (update_motor fa i elapsed k m)"

definition update_physical_disk_state ::
  "'g format_api \<Rightarrow> nat \<Rightarrow> u32 \<Rightarrow> ('g, 'a) disks_scheme \<Rightarrow> ('g, 'a) disks_scheme" where
  "update_physical_disk_state fa i elapsed m =
     update_drive_physics fa i elapsed 1 (update_drive_physics fa i elapsed 0 m)"

definition disk_abi_think ::
  "'g format_api \<Rightarrow> nat option \<Rightarrow> u32 \<Rightarrow> ('g, 'a) disks_scheme \<Rightarrow> ('g, 'a) disks_scheme" where
  "disk_abi_think fa inst elapsed m =
     (case inst of None \<Rightarrow> m
      | Some i \<Rightarrow>
          if elapsed = 0 then m
          else update_physical_disk_state fa i elapsed
                 (on_card i (\<lambda>x. case sync_sequencer_to_cycle fa elapsed x of (dp, g) \<Rightarrow> (dp\<lparr>disk_synced := 0\<rparr>, g)) m))"

definition swap_drives :: "disk_card \<Rightarrow> bool \<times> disk_card" where
  "swap_drives dp =
     (if motor_enable_cycles (drives dp 0) > 0 \<or> motor_enable_cycles (drives dp 1) > 0 then (False, dp)
      else (True, dp\<lparr>drives := (drives dp)(0 := drives dp 1, 1 := drives dp 0)\<rparr>))"

definition flush_drive :: "'g format_api \<Rightarrow> nat \<Rightarrow> disk_card \<times> 'g \<Rightarrow> disk_card \<times> 'g" where
  "flush_drive fa k = (\<lambda>(dp, g). if is_dirty (drives dp k) then write_track_to_driver fa k (dp, g) else (dp, g))"

definition initialize_peripheral :: "'g format_api \<Rightarrow> disk_card \<times> 'g \<Rightarrow> disk_card \<times> 'g" where
  "initialize_peripheral fa x =
     (case flush_drive fa 1 (flush_drive fa 0 x) of (dp, g) \<Rightarrow>
        (dp\<lparr>active_drive_index := 0, io_latch := 0, last_bus_write := 0, stepper_phase_mask := 0,
            is_motor_on := False, sequencer := new_sequencer, disk_synced := 0, noise_seed := 0x5D1A3B7F,
            magnet_released := False,
            drives := (\<lambda>k. (drives dp k)\<lparr>motor_enable_cycles := 0, write_light_cycles := 0,
                                          last_error := disk_err_none\<rparr>)\<rparr>, g))"

subsection \<open>Status and commands\<close>

record drive_status =
  st_last_error :: disk_error
  st_loaded :: bool
  st_spinning :: bool
  st_writing :: bool
  st_write_protected :: bool
  st_name :: string
  st_full_path :: string

definition path_basename :: "string \<Rightarrow> string" where
  "path_basename path = rev (takeWhile (\<lambda>c. c \<noteq> CHR 0x2F \<and> c \<noteq> CHR 0x5C) (rev path))"

definition get_peripheral_status :: "'g format_api \<Rightarrow> nat \<Rightarrow> disk_card \<times> 'g \<Rightarrow> drive_status" where
  "get_peripheral_status fa k = (\<lambda>(dp, g).
     let d = drives dp k in
     \<lparr>st_last_error = last_error d, st_loaded = (driver d \<noteq> None), st_spinning = (motor_enable_cycles d > 0),
      st_writing = (write_light_cycles d > 0), st_write_protected = is_disk_write_protected fa g d,
      st_name = take 31 (path_basename (full_path d)), st_full_path = take 503 (full_path d)\<rparr>)"

abbreviation (input) "subsystem_disk \<equiv> (0x00040000 :: u32)"

text \<open>A C string in a fixed field: up to its first zero byte, if there is one.\<close>

definition field_string :: "u8 list \<Rightarrow> string option" where
  "field_string field =
     (if 0 \<in> set field then Some (map (\<lambda>b. char_of (unat b)) (takeWhile (\<lambda>b. b \<noteq> 0) field)) else None)"

definition cmd_handle_insert ::
  "'g format_api \<Rightarrow> u8 list \<Rightarrow> disk_card \<times> 'g \<Rightarrow> peripheral_status \<times> disk_card \<times> 'g" where
  "cmd_handle_insert fa data x =
     (if length data \<noteq> 512 then (peripheral_error, x)
      else if unat (data ! 504) \<ge> 2 then (peripheral_error, x)
      else case field_string (take 504 data) of
             None \<Rightarrow> (peripheral_error, x)
           | Some path \<Rightarrow>
               (case insert_disk_into_drive fa (unat (data ! 504)) path (data ! 505 \<noteq> 0) x of
                  (error, x) \<Rightarrow> (if error = disk_err_none then peripheral_ok else peripheral_error, x)))"

definition cmd_handle_eject ::
  "'g format_api \<Rightarrow> u8 list \<Rightarrow> disk_card \<times> 'g \<Rightarrow> peripheral_status \<times> disk_card \<times> 'g" where
  "cmd_handle_eject fa data x =
     (if length data \<noteq> 1 then (peripheral_error, x)
      else if unat (data ! 0) \<ge> 2 then (peripheral_error, x)
      else (peripheral_ok, eject_disk_from_drive fa (unat (data ! 0)) x))"

definition cmd_handle_set_protect :: "u8 list \<Rightarrow> disk_card \<times> 'g \<Rightarrow> peripheral_status \<times> disk_card \<times> 'g" where
  "cmd_handle_set_protect data = (\<lambda>(dp, g).
     if length data \<noteq> 2 then (peripheral_error, dp, g)
     else if unat (data ! 0) \<ge> 2 then (peripheral_error, dp, g)
     else let k = unat (data ! 0)
          in (peripheral_ok, put_drive k ((drives dp k)\<lparr>is_user_write_protected := (data ! 1 \<noteq> 0)\<rparr>) dp, g))"

definition cmd_handle_create_image ::
  "'g format_api \<Rightarrow> u8 list \<Rightarrow> disk_card \<times> 'g \<Rightarrow> peripheral_status \<times> disk_card \<times> 'g" where
  "cmd_handle_create_image fa data = (\<lambda>(dp, g).
     if length data \<noteq> 512 then (peripheral_error, dp, g)
     else case (field_string (take 448 data), field_string (drop 448 data)) of
            (Some path, Some format_name) \<Rightarrow>
              (case fa_create fa path format_name g of
                 (error, g) \<Rightarrow> (if error = disk_err_none then peripheral_ok else peripheral_error, dp, g))
          | _ \<Rightarrow> (peripheral_error, dp, g))"

definition disk_command ::
  "'g format_api \<Rightarrow> u32 \<Rightarrow> u8 list \<Rightarrow> disk_card \<times> 'g \<Rightarrow> peripheral_status \<times> disk_card \<times> 'g" where
  "disk_command fa cmd data = (\<lambda>(dp, g).
     if \<not> cmd_is_mine cmd subsystem_disk then (peripheral_incompatible, dp, g)
     else if cmd = subsystem_disk OR 0x0001 then cmd_handle_insert fa data (dp, g)
     else if cmd = subsystem_disk OR 0x0002 then cmd_handle_eject fa data (dp, g)
     else if cmd = subsystem_disk OR 0x0003
     then (case swap_drives dp of (ok, dp) \<Rightarrow> (if ok then peripheral_ok else peripheral_error, dp, g))
     else if cmd = subsystem_disk OR 0x0004 then cmd_handle_set_protect data (dp, g)
     else if cmd = subsystem_disk OR 0x0007 then cmd_handle_create_image fa data (dp, g)
     else (peripheral_incompatible, dp, g))"

definition disk_abi_command ::
  "'g format_api \<Rightarrow> nat option \<Rightarrow> u32 \<Rightarrow> u8 list \<Rightarrow> ('g, 'a) disks_scheme \<Rightarrow>
   peripheral_status \<times> ('g, 'a) disks_scheme" where
  "disk_abi_command fa inst cmd data m =
     (case inst of None \<Rightarrow> (peripheral_error, m)
      | Some i \<Rightarrow> (fst (disk_command fa cmd data (dcards m i, media m)),
                   on_card i (\<lambda>x. snd (disk_command fa cmd data x)) m))"

subsection \<open>The save state of version 1\<close>

record disk_drive_state =
  ds_full_path :: string
  ds_track :: int
  ds_phase :: int
  ds_current_byte_pos :: int
  ds_user_write_protected :: u8
  ds_is_data_loaded :: u8
  ds_is_dirty :: u8
  ds_spinning_ticks :: u32
  ds_write_light_ticks :: u32
  ds_nibble_count :: int
  ds_track_buffer :: "u8 list"

record disk_saved_state =
  dss_version :: u32
  dss_size :: u32
  dss_drives :: "nat \<Rightarrow> disk_drive_state"
  dss_stepper_phase_mask :: u16
  dss_active_drive_index :: u16
  dss_io_latch :: u8
  dss_is_motor_on :: u8
  dss_is_write_mode :: u8

definition save_drive :: "disk \<Rightarrow> disk_drive_state" where
  "save_drive d =
     (let bytes = (if is_dirty d then decode_medium_bytes d nibbles_per_track else []) in
      \<lparr>ds_full_path = take 255 (full_path d), ds_track = int (unat (quarter_track d div 4)),
       ds_phase = int (unat (quarter_track d div 2)),
       ds_current_byte_pos = int (unat (bit_position d div 8)),
       ds_user_write_protected = b2w (is_user_write_protected d),
       ds_is_data_loaded = b2w (is_dirty d), ds_is_dirty = b2w (is_dirty d),
       ds_spinning_ticks = motor_enable_cycles d, ds_write_light_ticks = write_light_cycles d,
       ds_nibble_count = int (length bytes),
       ds_track_buffer = bytes @ replicate (nibbles_per_track - length bytes) 0\<rparr>)"

definition disk_state_v1_write :: "disk_card \<Rightarrow> disk_saved_state" where
  "disk_state_v1_write dp =
     \<lparr>dss_version = 1, dss_size = 13897, dss_drives = (\<lambda>k. save_drive (drives dp k)),
      dss_stepper_phase_mask = stepper_phase_mask dp, dss_active_drive_index = active_drive_index dp,
      dss_io_latch = io_latch dp, dss_is_motor_on = b2w (is_motor_on dp),
      dss_is_write_mode = b2w (q7 (sequencer dp))\<rparr>"

definition drive_state_out_of_bounds :: "disk_drive_state \<Rightarrow> bool" where
  "drive_state_out_of_bounds ds \<longleftrightarrow>
     ds_track ds < 0 \<or> ds_track ds \<ge> int tracks_per_disk \<or> ds_phase ds < 0 \<or> ds_phase ds \<ge> 80 \<or>
     ds_nibble_count ds < 0 \<or> ds_nibble_count ds > int nibbles_per_track \<or>
     ds_current_byte_pos ds < 0 \<or> ds_current_byte_pos ds > int nibbles_per_track"

definition load_medium :: "bool \<Rightarrow> disk_drive_state \<Rightarrow> disk \<Rightarrow> disk" where
  "load_medium out_of_bounds ds d =
     (let d = d\<lparr>is_dirty := (ds_is_dirty ds \<noteq> 0 \<and> \<not> out_of_bounds)\<rparr>;
          d = (if is_dirty d
               then let d = encode_medium_bytes (take (nat (ds_nibble_count ds)) (ds_track_buffer ds)) d
                    in d\<lparr>is_data_loaded := (bit_count d \<noteq> 0)\<rparr>
               else d);
          byte_pos = (if out_of_bounds then 0 else word_of_int (ds_current_byte_pos ds))
      in d\<lparr>bit_position := (if bit_count d = 0 then 0 else min (byte_pos * 8) (bit_count d - 1)),
           cell_remaining := 0\<rparr>)"

definition load_drive ::
  "'g format_api \<Rightarrow> disk_drive_state \<Rightarrow> nat \<Rightarrow> disk_card \<times> 'g \<Rightarrow> disk_card \<times> 'g" where
  "load_drive fa ds k x =
     (case insert_disk_into_drive fa k (ds_full_path ds) (ds_user_write_protected ds \<noteq> 0)
             (eject_disk_from_drive fa k x) of
        (error, dp, g) \<Rightarrow>
          if error \<noteq> disk_err_none then (dp, g)
          else
            let out_of_bounds = drive_state_out_of_bounds ds;
                safe_phase = (if ds_phase ds \<ge> 0 \<and> ds_phase ds < 80 then ds_phase ds else 0);
                d = (drives dp k)\<lparr>quarter_track := word_of_int safe_phase * 2,
                       motor_enable_cycles := ds_spinning_ticks ds, write_light_cycles := ds_write_light_ticks ds\<rparr>
            in case read_track_from_driver fa k (put_drive k d dp, g) of
                 (dp, g) \<Rightarrow> (put_drive k (load_medium out_of_bounds ds (drives dp k)) dp, g))"

definition disk_state_v1_read ::
  "'g format_api \<Rightarrow> disk_saved_state option \<Rightarrow> disk_card \<times> 'g \<Rightarrow> peripheral_status \<times> disk_card \<times> 'g" where
  "disk_state_v1_read fa buffer = (\<lambda>(dp, g).
     case buffer of None \<Rightarrow> (peripheral_error, dp, g)
     | Some s \<Rightarrow>
         if dss_version s \<noteq> 1 \<or> dss_size s \<noteq> 13897 then (peripheral_error, dp, g)
         else
           let dp = dp\<lparr>stepper_phase_mask := dss_stepper_phase_mask s AND 0x0F,
                       active_drive_index := (if dss_active_drive_index s < 2 then dss_active_drive_index s else 0),
                       io_latch := dss_io_latch s, is_motor_on := (dss_is_motor_on s \<noteq> 0),
                       sequencer := new_sequencer\<lparr>q7 := (dss_is_write_mode s \<noteq> 0)\<rparr>, disk_synced := 0\<rparr>
           in (peripheral_ok, load_drive fa (dss_drives s 1) 1 (load_drive fa (dss_drives s 0) 0 (dp, g))))"

subsection \<open>Entry points\<close>

definition new_disk_card :: "int \<Rightarrow> disk_card" where
  "new_disk_card slot =
     \<lparr>drives = (\<lambda>_. new_disk), active_drive_index = 0, io_latch = 0, last_bus_write = 0,
      stepper_phase_mask = 0, is_motor_on = False, sequencer = new_sequencer, disk_synced = 0,
      noise_seed = 0, card_cycles = 0, magnet_release_cycle = 0, quarter_track_before_release = 0,
      magnet_released = False, dc_slot = slot\<rparr>"

abbreviation (input) "disk_io_read_fn \<equiv> (48 :: nat)"
abbreviation (input) "disk_io_write_fn \<equiv> (49 :: nat)"

definition disk_abi_init ::
  "'g format_api \<Rightarrow> (nat \<Rightarrow> u8) \<Rightarrow> string \<times> string \<Rightarrow> descriptor \<Rightarrow> int \<Rightarrow> ('g, 'a) disk_host \<Rightarrow>
   nat option \<times> ('g, 'a) disk_host" where
  "disk_abi_init fa rom_disk2 config api slot m =
     (let i = fresh_instance m;
          insert = (\<lambda>k path x. if path = [] then x else snd (insert_disk_into_drive fa k path False x));
          m = on_card i (\<lambda>(dp, g). insert 1 (snd config) (insert 0 (fst config)
                (initialize_peripheral fa (new_disk_card slot, g)))) (m\<lparr>fresh_instance := i + 1\<rparr>);
          m = host_register_cx_rom slot (Some rom_disk2) m
      in (Some i, host_register_io slot (Some disk_io_read_fn) (Some disk_io_write_fn) None None m))"

definition disk_abi_reset :: "'g format_api \<Rightarrow> nat option \<Rightarrow> ('g, 'a) disks_scheme \<Rightarrow> ('g, 'a) disks_scheme" where
  "disk_abi_reset fa inst m = (case inst of None \<Rightarrow> m | Some i \<Rightarrow> on_card i (initialize_peripheral fa) m)"

definition disk_abi_shutdown :: "'g format_api \<Rightarrow> nat option \<Rightarrow> ('g, 'a) disks_scheme \<Rightarrow> ('g, 'a) disks_scheme" where
  "disk_abi_shutdown fa inst m =
     (case inst of None \<Rightarrow> m
      | Some i \<Rightarrow> on_card i (\<lambda>x. eject_disk_from_drive fa 1 (eject_disk_from_drive fa 0 x)) m)"

definition disk_abi_load_state ::
  "'g format_api \<Rightarrow> nat option \<Rightarrow> disk_saved_state option \<Rightarrow> ('g, 'a) disks_scheme \<Rightarrow>
   peripheral_status \<times> ('g, 'a) disks_scheme" where
  "disk_abi_load_state fa inst buffer m =
     (case inst of None \<Rightarrow> (peripheral_error, m)
      | Some i \<Rightarrow> (fst (disk_state_v1_read fa buffer (dcards m i, media m)),
                   on_card i (\<lambda>x. snd (disk_state_v1_read fa buffer x)) m))"

definition disk_io ::
  "'g format_api \<Rightarrow> nat \<Rightarrow> nat option \<Rightarrow> u16 \<Rightarrow> u16 \<Rightarrow> u8 \<Rightarrow> u8 \<Rightarrow> u32 \<Rightarrow> ('g, 'a) disk_host \<Rightarrow>
   u8 option \<times> ('g, 'a) disk_host" where
  "disk_io fa h inst pc addr w d t m =
     (if h = disk_io_read_fn then apfst Some (disk_io_read fa inst addr w t m)
      else if h = disk_io_write_fn then apfst Some (disk_io_write fa inst addr w d t m)
      else (None, m))"

definition disk_peripheral :: descriptor where
  "disk_peripheral =
     \<lparr>api_id = ''linapple.disk_II'', api_name = ''Disk II'', abi_version = 1,
      compatible_slots = 0xFE, default_slot = 6\<rparr>"

text \<open>As for the keyboard, the byte-level save-state and query entries are left out of the table.\<close>

definition disk_code ::
  "'g format_api \<Rightarrow> (nat \<Rightarrow> u8) \<Rightarrow> string \<times> string \<Rightarrow> ('g, 'a) disk_host card_code" where
  "disk_code fa rom_disk2 config =
     \<lparr>card_init = disk_abi_init fa rom_disk2 config, card_reset = (\<lambda>_. Some (disk_abi_reset fa)),
      card_shutdown = (\<lambda>_. Some (disk_abi_shutdown fa)), card_think = (\<lambda>_. Some (disk_abi_think fa)),
      card_on_vblank = (\<lambda>_. None),
      card_command = (\<lambda>_. Some (\<lambda>inst cid data m. snd (disk_abi_command fa inst cid data m))),
      card_query = (\<lambda>_. None), card_save_state = (\<lambda>_. None), card_load_state = (\<lambda>_. None),
      card_io = disk_io fa, card_strobe = (\<lambda>_ _ m. m)\<rparr>"

end
