(* ===== verification/Disk_Sequencer.thy ===== *)
theory Disk_Sequencer
  imports Disk_Controller
begin

text \<open>
  What the state sequencer does while a program reads: with Q6 and Q7 low it shifts the cells that
  pass under the head into the data register, holds a whole nibble there until the second cell of
  the next one, and skips the blank cells behind a self-sync nibble.  The program of the sequencer
  is followed on its state and latch alone, a cell (eight steps) at a time, and then carried over
  to the card and its drive.
\<close>

subsection \<open>One step of the program in read mode\<close>

text \<open>The opcode at the address formed from a pulse, a state and the latch's high bit.\<close>

definition read_op :: "bool \<Rightarrow> u8 \<Rightarrow> bool \<Rightarrow> u8" where
  "read_op pulse state high =
     p6_opcode (push_bit 4 (state AND 0x0E) OR (if pulse then 0x00 else 0x10) OR (if high then 0x02 else 0x00)
                OR (state AND 0x01))"

definition read_step :: "bool \<Rightarrow> u8 \<times> u8 \<Rightarrow> u8 \<times> u8" where
  "read_step pulse = (\<lambda>(state, latch).
     let opcode = read_op pulse state (bit latch 7)
     in (next_state opcode, next_latch opcode False 0 latch))"

text \<open>A cell: the pulse, if there is one, in its first step.\<close>

definition read_cell :: "bool \<Rightarrow> u8 \<times> u8 \<Rightarrow> u8 \<times> u8" where
  "read_cell pulse = (read_step False ^^ 7) \<circ> read_step pulse"

definition shift_in :: "bool \<Rightarrow> u8 \<Rightarrow> u8" where
  "shift_in pulse latch = push_bit 1 latch OR b2w pulse"

lemma read_ops:
    "read_op False 0 False = 0x18" "read_op False 0 True = 0x18" "read_op True 0 False = 0x18"
    "read_op False 1 False = 0x38" "read_op False 1 True = 0x28" "read_op True 1 True = 0x08"
    "read_op False 2 False = 0x2D" "read_op False 2 True = 0x38" "read_op False 3 False = 0x48"
    "read_op False 3 True = 0x48" "read_op False 4 False = 0x58" "read_op False 4 True = 0x58"
    "read_op False 5 False = 0x78" "read_op False 5 True = 0x78" "read_op True 5 False = 0xD8"
    "read_op False 6 False = 0x68" "read_op False 6 True = 0x68" "read_op False 7 False = 0x88"
    "read_op False 7 True = 0x88" "read_op False 8 False = 0x98" "read_op False 8 True = 0x98"
    "read_op True 8 False = 0xD8" "read_op True 8 True = 0xD8" "read_op False 9 False = 0xBD"
    "read_op False 9 True = 0xB8" "read_op False 10 False = 0x29" "read_op False 10 True = 0xA8"
    "read_op False 11 False = 0x59" "read_op False 11 True = 0xC8" "read_op False 12 True = 0xA0"
    "read_op False 13 False = 0xFD" "read_op False 13 True = 0xF8" "read_op False 14 False = 0x08"
    "read_op False 14 True = 0xE8" "read_op False 15 False = 0x4D" "read_op False 15 True = 0xE0"
  by (simp_all add: read_op_def p6_opcode_def p6_rom_def)

lemma read_steps_high:
  assumes "bit l 7"
  shows
    "read_step False (0, l) = (2, l)" "read_step False (1, l) = (1, l)" "read_step True (1, l) = (0, l)"
    "read_step False (2, l) = (3, l)" "read_step False (3, l) = (4, l)" "read_step False (4, l) = (6, l)"
    "read_step False (5, l) = (7, l)" "read_step False (6, l) = (5, l)" "read_step False (7, l) = (8, l)"
    "read_step False (8, l) = (10, l)" "read_step True (8, l) = (14, l)" "read_step False (9, l) = (11, l)"
    "read_step False (10, l) = (9, l)" "read_step False (11, l) = (12, l)" "read_step False (12, l) = (9, 0)"
    "read_step False (13, l) = (15, l)" "read_step False (14, l) = (13, l)" "read_step False (15, l) = (13, 0)"
  using assms by (simp_all add: read_step_def read_ops next_state_def next_latch_def)

lemma read_steps_low:
  assumes "\<not> bit l 7"
  shows
    "read_step False (0, l) = (2, l)" "read_step True (0, l) = (2, l)" "read_step False (1, l) = (3, l)"
    "read_step False (2, l) = (1, shift_in True l)" "read_step False (3, l) = (4, l)"
    "read_step False (4, l) = (6, l)" "read_step False (5, l) = (7, l)" "read_step True (5, l) = (14, l)"
    "read_step False (6, l) = (5, l)" "read_step False (7, l) = (8, l)" "read_step False (8, l) = (10, l)"
    "read_step True (8, l) = (14, l)" "read_step False (9, l) = (11, shift_in True l)"
    "read_step False (10, l) = (1, shift_in False l)" "read_step False (11, l) = (6, shift_in False l)"
    "read_step False (13, l) = (15, shift_in True l)" "read_step False (14, l) = (0, l)"
    "read_step False (15, l) = (4, shift_in True l)"
  using assms by (simp_all add: read_step_def read_ops next_state_def next_latch_def shift_in_def)

lemma read_cell_steps:
  "read_cell pulse x = read_step False (read_step False (read_step False (read_step False (read_step False
     (read_step False (read_step False (read_step pulse x)))))))"
  by (simp add: read_cell_def eval_nat_numeral)

lemma bit_shift: "bit (shift_in pulse l) j \<longleftrightarrow> (if j = 0 then pulse else j < 8 \<and> bit l (j - 1))"
  unfolding shift_in_def by (rule bit_shift1)

lemma shift_in_0 [simp]: "shift_in pulse 0 = b2w pulse"
  by (simp add: shift_in_def)

lemma read_cell_waiting:
  assumes "bit l 7"
  shows "read_cell False (1, l) = (1, l)" and "read_cell True (1, l) = (8, l)"
  using assms by (simp_all add: read_cell_steps read_steps_high)

lemma read_cell_first:
  assumes "bit l 7"
  shows "read_cell pulse (8, l) = (5, shift_in pulse 1)"
  using assms by (cases pulse) (simp_all add: read_cell_steps bit_shift read_steps_high read_steps_low)

lemma read_cell_shift:
  assumes "\<not> bit l 7" "s = 5 \<or> s = 8"
  shows "read_cell pulse (s, l) =
    (if bit l 6 then 1 else if s = 8 \<and> \<not> pulse then 8 else 5, shift_in pulse l)"
proof -
  note steps = read_cell_steps bit_shift read_steps_high read_steps_low
  from assms(2) show ?thesis
    using assms(1) by (elim disjE; cases pulse; cases "bit l 6") (simp_all add: steps)
qed

lemma read_cell_reset: "read_cell pulse (0, 0) = (8, 1)"
  by (cases pulse) (simp_all add: read_cell_steps read_steps_low)


subsection \<open>The cells still due\<close>

text \<open>
  Between two cells the program waits for the leading pulse of a nibble (nothing is due), has seen
  it and needs \<open>n\<close> more cells, or has just been reset.
\<close>

definition cells_due :: "nat \<Rightarrow> u8 \<times> u8 \<Rightarrow> bool" where
  "cells_due n = (\<lambda>(state, latch).
     if n = 0 then state = 1 \<and> bit latch 7 \<or> (state = 5 \<or> state = 8) \<and> latch = 0
     else if n = 8 then state = 0 \<and> latch = 0
     else n < 8 \<and>
       (n = 7 \<and> state = 8 \<and> bit latch 7 \<or>
        (state = 5 \<or> state = 8) \<and> 2 ^ (7 - n) \<le> unat latch \<and> unat latch < 2 ^ (8 - n)))"

definition due_next :: "bool \<Rightarrow> nat \<Rightarrow> nat" where
  "due_next pulse n = (if n = 0 then (if pulse then 7 else 0) else n - 1)"

lemma bit7: "bit (l :: u8) 7 \<longleftrightarrow> 128 \<le> unat l"
proof -
  have "unat l < 2 ^ LENGTH(8)" by (rule unsigned_less)
  then have "unat l div 128 < 2" by (intro less_mult_imp_div_less) simp
  moreover have "bit l 7 \<longleftrightarrow> bit (unat l) 7" by (simp add: bit_unsigned_iff)
  then have "bit l 7 \<longleftrightarrow> odd (unat l div 128)" by (simp add: bit_iff_odd)
  ultimately show ?thesis by (auto simp: less_2_cases_iff div_eq_0_iff)
qed

lemma unat_shift_in: "unat l < 128 \<Longrightarrow> unat (shift_in pulse l) = 2 * unat l + of_bool pulse"
proof -
  assume l: "unat l < 128"
  have "push_bit 1 l + b2w pulse = push_bit 1 l OR b2w pulse"
    by (rule disjunctive_add) (auto simp only: bit_push_bit_iff bit_1_iff b2w_def bit_0_eq bot_apply bot_bool_def split: if_splits)
  then have "shift_in pulse l = 2 * l + b2w pulse"
    by (simp only: shift_in_def push_bit_eq_mult power_one_right mult.commute [of l])
  moreover have "unat (2 * l + b2w pulse) = 2 * unat l + of_bool pulse"
    using l by (cases pulse) (simp_all add: unat_word_ariths unat_arith_simps)
  ultimately show ?thesis by simp
qed

lemma bit6_low: "unat l < 128 \<Longrightarrow> bit (l :: u8) 6 \<longleftrightarrow> 64 \<le> unat l"
  using bit7 [of "shift_in False l"] unat_shift_in [of l False] bit_shift [of False l 7] by simp

lemma due_shift:
  assumes "s = 5 \<or> s = 8" "unat (l :: u8) < 128" "1 \<le> n" "n < 8" "2 ^ (7 - n) \<le> unat l" "unat l < 2 ^ (8 - n)"
  shows "read_cell pulse (s, l) =
      (if n = 1 then 1 else if s = 8 \<and> \<not> pulse then 8 else 5, shift_in pulse l)"
    and "cells_due (n - 1) (read_cell pulse (s, l))"
proof -
  have low: "\<not> bit l 7" and six: "bit l 6 \<longleftrightarrow> n = 1"
  proof -
    show "\<not> bit l 7" using assms(2) by (simp add: bit7)
    have "(2 :: nat) ^ (8 - n) \<le> 2 ^ 6" if "n \<noteq> 1" using assms(3) that by (intro power_increasing) auto
    then show "bit l 6 \<longleftrightarrow> n = 1" using assms by (cases "n = 1") (auto simp: bit6_low)
  qed
  show c: "read_cell pulse (s, l) =
      (if n = 1 then 1 else if s = 8 \<and> \<not> pulse then 8 else 5, shift_in pulse l)"
    by (simp only: read_cell_shift [OF low assms(1)] six)
  show "cells_due (n - 1) (read_cell pulse (s, l))"
  proof (cases "n = 1")
    case True
    then show ?thesis using six by (simp add: c cells_due_def bit_shift)
  next
    case False
    then have "7 - (n - 1) = Suc (7 - n)" "8 - (n - 1) = Suc (8 - n)" using assms by auto
    then show ?thesis using False assms unat_shift_in [OF assms(2), of pulse]
      by (auto simp: c cells_due_def)
  qed
qed

lemma due_cell: "cells_due n x \<Longrightarrow> cells_due (due_next pulse n) (read_cell pulse x)"
proof -
  assume d: "cells_due n x"
  obtain s l where x: "x = (s, l)" by force
  consider "n = 0" "s = 1" "bit l 7" | "n = 0" "s = 5 \<or> s = 8" "l = 0" | "n = 8" "s = 0" "l = 0"
    | "n = 7" "s = 8" "bit l 7"
    | "1 \<le> n" "n < 8" "s = 5 \<or> s = 8" "2 ^ (7 - n) \<le> unat l" "unat l < 2 ^ (8 - n)"
    using d by (auto simp: cells_due_def x split: if_splits)
  then show ?thesis
  proof cases
    case 1
    then show ?thesis by (cases pulse) (simp_all add: x due_next_def cells_due_def read_cell_waiting)
  next
    case 2
    then show ?thesis by (cases pulse) (auto simp: x due_next_def cells_due_def read_cell_shift)
  next
    case 3
    then show ?thesis by (simp add: x due_next_def cells_due_def read_cell_reset)
  next
    case 4
    then show ?thesis by (cases pulse) (simp_all add: x due_next_def cells_due_def read_cell_first unat_shift_in)
  next
    case 5
    then have "(2 :: nat) ^ (8 - n) \<le> 2 ^ 7" by (intro power_increasing) auto
    then have "unat l < 128" using 5 by simp
    then show ?thesis using due_shift(2) [of s l n pulse] 5 by (simp add: x due_next_def)
  qed
qed

lemma due_cells: "cells_due n x \<Longrightarrow> cells_due (fold due_next cs n) (fold read_cell cs x)"
  by (induction cs arbitrary: n x) (simp_all add: due_cell)


subsection \<open>Reading nibbles\<close>

lemma shift_bits:
  assumes "s = 5 \<or> s = 8" "unat l < 128" "length cs = n" "1 \<le> n" "n < 8"
    "2 ^ (7 - n) \<le> unat l" "unat l < 2 ^ (8 - n)"
  shows "fold read_cell cs (s, l) = (1, fold shift_in cs l)"
  using assms
proof (induction cs arbitrary: s l n)
  case (Cons c cs)
  show ?case
  proof (cases "n = 1")
    case True
    then show ?thesis using Cons.prems due_shift(1) [of s l 1 c] by simp
  next
    case False
    then have e: "7 - (n - 1) = Suc (7 - n)" "8 - (n - 1) = Suc (8 - n)" using Cons.prems by auto
    have "(2 :: nat) ^ (8 - n) \<le> 2 ^ 6" using Cons.prems False by (intro power_increasing) auto
    then have l: "unat l < 64" using Cons.prems by simp
    let ?s = "if s = 8 \<and> \<not> c then 8 else 5 :: u8"
    have "read_cell c (s, l) = (?s, shift_in c l)"
      using due_shift(1) [of s l n c] Cons.prems False by simp
    moreover have "fold read_cell cs (?s, shift_in c l) = (1, fold shift_in cs (shift_in c l))"
      using Cons.prems False l e unat_shift_in [of l c] by (intro Cons.IH [of ?s "shift_in c l" "n - 1"]) auto
    ultimately show ?thesis by simp
  qed
qed simp

lemma shift_in_bits: "fold shift_in (map (\<lambda>i. bit v (7 - i)) [0..<8]) 0 = (v :: u8)"
proof -
  have "fold (\<lambda>i value. push_bit 1 value OR b2w (bit v (7 - i))) [0..<8] 0 = v"
    by (rule bit_word_eqI) (simp only: bit_shift_in, simp)
  then show ?thesis by (simp only: fold_map o_def shift_in_def [abs_def])
qed

lemma read_nibble_cells:
  assumes "cells_due 0 x" "bit (fst e) 7"
  shows "fold read_cell (nibble_cells e) x = (1, fst e)"
proof -
  obtain s l v sync where x: "x = (s, l)" and e: "e = (v, sync)" by (metis surj_pair)
  define cs where "cs = map (\<lambda>i. bit v (6 - i)) [0..<7]"
  have bits: "map (\<lambda>i. bit v (7 - i)) [0..<8] = True # cs"
    using assms(2) by (simp add: cs_def e upt_rec)
  then have v: "fold shift_in cs 1 = v" using shift_in_bits [of v] by simp
  have len: "length cs = 7" by (simp add: cs_def)
  then obtain c ds where cs: "cs = c # ds" "length ds = 6" by (cases cs) auto
  have "fold read_cell (True # cs) (s, l) = (1, v)"
  proof (cases "s = 1")
    case True
    then have "bit l 7" using assms(1) by (simp add: x cells_due_def)
    then have "fold read_cell (True # cs) (s, l) = fold read_cell ds (5, shift_in c 1)"
      using True by (simp add: cs read_cell_waiting read_cell_first)
    also have "\<dots> = (1, fold shift_in ds (shift_in c 1))"
      using cs unat_shift_in [of 1 c] by (intro shift_bits [of _ _ _ 6]) auto
    finally show ?thesis using v by (simp add: cs)
  next
    case False
    then have s: "s = 5 \<or> s = 8" and l: "l = 0" using assms(1) by (auto simp: x cells_due_def)
    have "fold read_cell (True # cs) (s, l) = fold read_cell cs (5, 1)"
      using s by (simp add: l read_cell_shift)
    then show ?thesis using v len by (simp add: shift_bits [of _ _ _ 7])
  qed
  then show ?thesis using assms(2) by (simp add: x e nibble_cells_def bits read_cell_waiting)
qed

lemma due_ready: "bit v 7 \<Longrightarrow> cells_due 0 (1, v)"
  by (simp add: cells_due_def)

lemma read_track_cells:
  assumes "cells_due 0 x" "\<And>e. e \<in> set es \<Longrightarrow> bit (fst e) 7" "es \<noteq> []"
  shows "fold read_cell (track_cells es) x = (1, fst (List.last es))"
  using assms
proof (induction es arbitrary: x)
  case (Cons e es)
  have r: "fold read_cell (nibble_cells e) x = (1, fst e)" using Cons.prems by (intro read_nibble_cells) auto
  show ?case
  proof (cases "es = []")
    case True
    then show ?thesis using r by (simp add: track_cells_def)
  next
    case False
    then have "fold read_cell (track_cells es) (1, fst e) = (1, fst (List.last es))"
      using Cons.prems by (intro Cons.IH due_ready) auto
    then show ?thesis using r False by (simp add: track_cells_def)
  qed
qed simp

text \<open>Four self-sync nibbles bring the reader into step, whatever it was in the middle of.\<close>

lemma sync_count:
  assumes "n \<le> 8"
  shows "fold due_next (nibble_cells (0xFF, True)) n = (if n = 8 then 0 else n - 2)"
proof -
  have c: "nibble_cells (0xFF, True) = [True, True, True, True, True, True, True, True, False, False]"
    by (simp add: nibble_cells_def upt_rec)
  consider "n = 0" | "n = 1" | "n = 2" | "n = 3" | "n = 4" | "n = 5" | "n = 6" | "n = 7" | "n = 8"
    using assms by linarith
  then show ?thesis unfolding c by cases (simp_all add: due_next_def)
qed

lemma sync_nibbles:
  assumes "cells_due n x" "n \<le> 8"
  shows "cells_due 0 (fold read_cell (track_cells (replicate 4 (0xFF, True))) x)"
proof -
  let ?f = "fold due_next (nibble_cells (0xFF, True))"
  have "?f (?f (?f (?f n))) = 0" using assms(2) by (simp add: sync_count split: if_splits)
  then have "fold due_next (track_cells (replicate 4 (0xFF, True))) n = 0"
    by (simp add: track_cells_def numeral_eq_Suc)
  then show ?thesis using due_cells [OF assms(1)] by metis
qed

lemma due_bound: "cells_due n x \<Longrightarrow> n \<le> 8"
  by (auto simp: cells_due_def split: if_splits prod.splits)

text \<open>The key to it: synchronized by four nibbles, the reader has every nibble behind them.\<close>

lemma read_after_sync:
  assumes "cells_due n x" "es \<noteq> []" "\<And>e. e \<in> set es \<Longrightarrow> bit (fst e) 7"
  shows "fold read_cell (track_cells (replicate 4 (0xFF, True) @ es)) x = (1, fst (List.last es))"
proof -
  have "track_cells (replicate 4 (0xFF, True) @ es) = track_cells (replicate 4 (0xFF, True)) @ track_cells es"
    by (simp add: track_cells_def)
  then show ?thesis
    using read_track_cells [OF sync_nibbles [OF assms(1) due_bound [OF assms(1)]] assms(3) assms(2)] by simp
qed

subsection \<open>The cells that pass under the head\<close>

text \<open>
  A drive at a cell boundary of a track with standard timing; the cells ahead, and that the read
  amplifier finds no run of blank cells among them long enough to pick up noise.
\<close>

definition at_boundary :: "disk \<Rightarrow> bool" where
  "at_boundary d \<longleftrightarrow> bit_count d \<noteq> 0 \<and> bit_position d < bit_count d \<and> cell_remaining d = 0 \<and> bit_timing d = 32"

definition cells_ahead :: "disk \<Rightarrow> nat \<Rightarrow> bool list" where
  "cells_ahead d n = map (\<lambda>i. cell_at (track_bits d) ((unat (bit_position d) + i) mod unat (bit_count d))) [0..<n]"

fun clear_signal :: "nat \<Rightarrow> bool list \<Rightarrow> bool" where
  "clear_signal z [] \<longleftrightarrow> True"
| "clear_signal z (c # cs) \<longleftrightarrow> (if c then clear_signal 0 cs else z < 3 \<and> clear_signal (z + 1) cs)"

fun blank_run :: "nat \<Rightarrow> bool list \<Rightarrow> nat" where
  "blank_run z [] = z"
| "blank_run z (c # cs) = blank_run (if c then 0 else z + 1) cs"

definition reading :: "disk_card \<Rightarrow> bool" where
  "reading dp \<longleftrightarrow> \<not> q6 (sequencer dp) \<and> \<not> q7 (sequencer dp)"

definition p6_of :: "disk_card \<Rightarrow> u8 \<times> u8" where
  "p6_of dp = (seq_state (sequencer dp), io_latch dp)"

definition put_p6 :: "u8 \<times> u8 \<Rightarrow> disk_card \<Rightarrow> disk_card" where
  "put_p6 x dp = (put_sequencer (\<lambda>s. s\<lparr>seq_state := fst x\<rparr>) dp)\<lparr>io_latch := snd x\<rparr>"

lemma put_p6_simps [simp]:
  "p6_of (put_p6 x dp) = x" "reading (put_p6 x dp) = reading dp" "put_p6 x (put_p6 y dp) = put_p6 x dp"
  by (simp_all add: p6_of_def put_p6_def put_sequencer_def reading_def)

text \<open>With Q6 low no opcode senses the write protection or loads the bus.\<close>

lemma read_ops_plain:
  "\<forall>state \<in> set (map word_of_nat [0..<16]). \<forall>pulse \<in> {False, True}. \<forall>high \<in> {False, True}.
     read_op pulse state high AND 0x0F \<in> {0x0, 0x8, 0x9, 0xD}"
  by code_simp


lemma read_op_plain: "read_op pulse state high AND 0x0F \<in> {0x0, 0x8, 0x9, 0xD}"
proof -
  define n where "n = unat (state AND 0x0F)"
  have "state AND 0x0F \<le> 0x0F" by (rule word_and_le1)
  then have "n < 16" by (simp add: n_def word_le_nat_alt)
  then have "n \<in> set [0..<16]" by (simp only: set_upt atLeastLessThan_iff le0 simp_thms)
  moreover have "state AND 0x0F = word_of_nat n" by (simp add: n_def)
  ultimately have "state AND 0x0F \<in> set (map word_of_nat [0..<16])" by (simp only: set_map) blast
  moreover have "pulse \<in> {False, True}" "high \<in> {False, True}" by auto
  ultimately have "read_op pulse (state AND 0x0F) high AND 0x0F \<in> {0x0, 0x8, 0x9, 0xD}"
    using read_ops_plain by blast
  moreover have "read_op pulse (state AND 0x0F) high = read_op pulse state high"
    by (simp add: read_op_def and.assoc)
  ultimately show ?thesis by metis
qed

lemma next_latch_plain:
  "opcode AND 0x0F \<in> {0x0, 0x8, 0x9, 0xD} \<Longrightarrow> next_latch opcode is_protected bus_write latch = next_latch opcode False 0 latch"
  by (auto simp: next_latch_def Let_def)

lemma high_column: "drop_bit 6 latch AND 0x02 = (if bit (latch :: u8) 7 then 0x02 else 0x00)"
proof (rule bit_word_eqI)
  fix n
  assume "n < LENGTH(8)"
  then have two: "bit (0x02 :: u8) n \<longleftrightarrow> n = 1"
    using bit_shift [of False 1 n] by (cases n) (auto simp: shift_in_def bit_1_iff)
  then show "bit (drop_bit 6 latch AND 0x02) n \<longleftrightarrow> bit (if bit latch 7 then 0x02 else 0x00 :: u8) n"
    by (auto simp only: bit_and_iff bit_drop_bit_eq o_apply two bit_0_eq bot_apply bot_bool_def split: if_splits)
      (simp_all add: two)
qed

lemma read_address:
  "reading dp \<Longrightarrow> p6_opcode (p6_address pulse dp) = read_op pulse (seq_state (sequencer dp)) (bit (io_latch dp) 7)"
  by (simp add: reading_def p6_address_def read_op_def Let_def high_column)

lemma step_while_reading:
  assumes "reading dp" "advance_medium_one_step False (dp, d) = (pulse, dp, d')"
  shows "sequencer_step is_protected False (dp, d) = (put_p6 (read_step pulse (p6_of dp)) dp, d')"
proof -
  have "follow_write_line (sequencer dp) = sequencer dp"
    using assms(1) by (simp add: follow_write_line_def reading_def)
  then show ?thesis
    using assms(1) next_latch_plain [OF read_op_plain, of _ _ _ is_protected "last_bus_write dp"]
    by (simp add: sequencer_step_def assms(2) Let_def read_address put_p6_def read_step_def p6_of_def
        put_sequencer_def)
qed

definition next_cell :: "bool \<Rightarrow> disk \<Rightarrow> disk" where
  "next_cell c d = d\<lparr>bit_position := (bit_position d + 1) mod bit_count d,
                     zero_cell_run := (if c then 0 else zero_cell_run d + 1)\<rparr>"

lemma advance_in_cell:
  assumes "bit_count d \<noteq> 0" "cell_remaining d \<ge> 4"
  shows "advance_medium_one_step w (dp, d) = (False, dp, d\<lparr>cell_remaining := cell_remaining d - 4\<rparr>)"
  using assms by (simp add: advance_medium_one_step_def pass_cells_def while_option_unfold)

lemma advance_to_cell:
  assumes "at_boundary d" "medium_cell d (bit_position d) = c" "c \<or> zero_cell_run d < 3"
  shows "advance_medium_one_step False (dp, d) = (c, dp, (next_cell c d)\<lparr>cell_remaining := 28\<rparr>)"
proof -
  have b: "bit_count d \<noteq> 0" "cell_remaining d = 0" "bit_timing d = 32" using assms(1) by (auto simp: at_boundary_def)
  have m: "medium_cell (d\<lparr>cell_remaining := x\<rparr>) = medium_cell d" for x by (rule ext) (simp add: medium_cell_def)
  show ?thesis
    using b assms(2,3)
    by (cases c) (simp_all add: advance_medium_one_step_def pass_cells_def while_option_unfold pass_cell_def m
        next_cell_def)
qed

lemma cell_of_steps:
  assumes "reading dp" "at_boundary d" "medium_cell d (bit_position d) = c" "c \<or> zero_cell_run d < 3"
  shows "(sequencer_step p False ^^ 8) (dp, d) = (put_p6 (read_cell c (p6_of dp)) dp, next_cell c d)"
proof -
  have b: "bit_count d \<noteq> 0" "cell_remaining d = 0" using assms(2) by (auto simp: at_boundary_def)
  have quiet: "(sequencer_step p False ^^ k) (dp', d'\<lparr>cell_remaining := 28\<rparr>) =
      (put_p6 ((read_step False ^^ k) (p6_of dp')) dp', d'\<lparr>cell_remaining := 28 - 4 * int k\<rparr>)"
    if "k \<le> 7" "reading dp'" "bit_count d' \<noteq> 0" for k dp' d'
    using that(1)
  proof (induction k)
    case 0
    have "put_p6 (p6_of dp') dp' = dp'" by (simp add: put_p6_def p6_of_def put_sequencer_def)
    then show ?case by simp
  next
    case (Suc k)
    then show ?case using that(2,3)
      by (simp add: step_while_reading [OF _ advance_in_cell] algebra_simps)
  qed
  have "(sequencer_step p False ^^ 8) (dp, d) = (sequencer_step p False ^^ 7) (sequencer_step p False (dp, d))"
    using funpow_swap1 [of "sequencer_step p False" 7] by (simp add: eval_nat_numeral)
  also have "sequencer_step p False (dp, d) =
      (put_p6 (read_step c (p6_of dp)) dp, (next_cell c d)\<lparr>cell_remaining := 28\<rparr>)"
    using step_while_reading [OF assms(1) advance_to_cell [OF assms(2-4)]] .
  also have "(sequencer_step p False ^^ 7) \<dots> = (put_p6 (read_cell c (p6_of dp)) dp, (next_cell c d)\<lparr>cell_remaining := 0\<rparr>)"
    using quiet [of 7 "put_p6 (read_step c (p6_of dp)) dp" "next_cell c d"] assms(1) b
    by (simp add: read_cell_def next_cell_def)
  also have "(next_cell c d)\<lparr>cell_remaining := 0\<rparr> = next_cell c d"
    using b by (cases d) (simp add: next_cell_def)
  finally show ?thesis .
qed


text \<open>Any number of cells.\<close>

definition pass_by :: "nat \<Rightarrow> disk \<Rightarrow> disk" where
  "pass_by n d = d\<lparr>bit_position := word_of_nat ((unat (bit_position d) + n) mod unat (bit_count d)),
                   zero_cell_run := word_of_nat (blank_run (unat (zero_cell_run d)) (cells_ahead d n))\<rparr>"

lemma next_position:
  fixes p c :: u32
  assumes "p < c" "c \<le> 0x80000000"
  shows "unat ((p + 1) mod c) = (unat p + 1) mod unat c"
proof -
  have "unat p + 1 < 2 ^ LENGTH(32)" using assms by (simp add: word_less_nat_alt word_le_nat_alt)
  then have "unat (p + 1) = unat p + 1" by (simp add: unat_add_lem [THEN iffD1])
  then show ?thesis by (simp add: unat_mod_distrib)
qed

lemma next_cell_simps [simp]:
  "bit_count (next_cell c d) = bit_count d" "track_bits (next_cell c d) = track_bits d"
  by (simp_all add: next_cell_def)

lemma next_cell_position:
  assumes "at_boundary d" "bit_count d \<le> 0x80000000"
  shows "unat (bit_position (next_cell c d)) = (unat (bit_position d) + 1) mod unat (bit_count d)"
  using next_position [of "bit_position d" "bit_count d"] assms by (simp add: next_cell_def at_boundary_def)

lemma next_cell_run:
  "c \<or> zero_cell_run d < 3 \<Longrightarrow>
     unat (zero_cell_run (next_cell c d)) = (if c then 0 else unat (zero_cell_run d) + 1)"
  by (auto simp: next_cell_def word_less_nat_alt unat_word_ariths)

lemma cells_ahead_Suc:
  assumes "at_boundary d" "bit_count d \<le> 0x80000000"
  shows "cells_ahead d (Suc n) = medium_cell d (bit_position d) # cells_ahead (next_cell c d) n"
proof -
  have "unat (bit_position d) < unat (bit_count d)"
    using assms(1) by (simp add: at_boundary_def word_less_nat_alt)
  then show ?thesis
    by (simp add: cells_ahead_def medium_cell_def next_cell_position [OF assms] mod_simps map_upt_Suc del: upt_Suc)
qed

lemma next_cell_boundary: "at_boundary d \<Longrightarrow> at_boundary (next_cell c d)"
  by (simp add: at_boundary_def) (simp add: next_cell_def word_gt_0 word_mod_less_divisor)

lemma cells_of_steps:
  assumes "reading dp" "at_boundary d" "bit_count d \<le> 0x80000000" "unat (zero_cell_run d) \<le> 3"
    "clear_signal (unat (zero_cell_run d)) (cells_ahead d n)"
  shows "(sequencer_step p False ^^ (8 * n)) (dp, d) = (put_p6 (fold read_cell (cells_ahead d n) (p6_of dp)) dp, pass_by n d)"
  using assms
proof (induction n arbitrary: dp d)
  case 0
  have "put_p6 (p6_of dp) dp = dp" by (simp add: put_p6_def p6_of_def put_sequencer_def)
  moreover have "pass_by 0 d = d"
    using 0(2) by (cases d) (simp add: pass_by_def cells_ahead_def at_boundary_def word_less_nat_alt)
  ultimately show ?case by (simp add: cells_ahead_def)
next
  case (Suc n)
  define c where "c = medium_cell d (bit_position d)"
  let ?d = "next_cell c d"
  have ahead: "cells_ahead d (Suc n) = c # cells_ahead ?d n"
    unfolding c_def using Suc.prems by (intro cells_ahead_Suc)
  have z: "c \<or> zero_cell_run d < 3" using Suc.prems(5) by (auto simp: ahead word_less_nat_alt split: if_splits)
  note run = next_cell_run [OF z]
  have s: "(sequencer_step p False ^^ 8) (dp, d) = (put_p6 (read_cell c (p6_of dp)) dp, ?d)"
    using Suc.prems(1,2) z by (intro cell_of_steps) (simp_all add: c_def)
  have "(sequencer_step p False ^^ (8 * Suc n)) (dp, d) =
      (sequencer_step p False ^^ (8 * n)) ((sequencer_step p False ^^ 8) (dp, d))"
    by (simp add: funpow_add [symmetric, THEN fun_cong, unfolded o_def] add.commute)
  also have "\<dots> = (put_p6 (fold read_cell (cells_ahead ?d n) (read_cell c (p6_of dp))) dp, pass_by n ?d)"
    unfolding s using Suc.prems next_cell_boundary [OF Suc.prems(2), of c] z
    by (subst Suc.IH) (auto simp: ahead run word_less_nat_alt split: if_splits)
  also have "pass_by n ?d = pass_by (Suc n) d"
    by (simp add: pass_by_def ahead run next_cell_position [OF Suc.prems(2,3)] mod_simps)
      (simp add: next_cell_def)
  finally show ?case by (simp add: ahead)
qed


lemma put_p6_drive [simp]: "active_drive (put_p6 x dp) = active_drive dp" "active_index (put_p6 x dp) = active_index dp"
  by (simp_all add: active_drive_def active_index_def put_p6_def put_sequencer_def)

text \<open>The drive is spinning over a track that needs no loading.\<close>

definition track_running :: "disk_card \<Rightarrow> bool" where
  "track_running dp \<longleftrightarrow> motor_enable_cycles (active_drive dp) \<noteq> 0 \<and>
     (is_data_loaded (active_drive dp) \<or> driver (active_drive dp) = None)"

lemma run_cells:
  assumes "reading dp" "track_running dp" "at_boundary (active_drive dp)" "bit_count (active_drive dp) \<le> 0x80000000"
    "unat (zero_cell_run (active_drive dp)) \<le> 3"
    "clear_signal (unat (zero_cell_run (active_drive dp))) (cells_ahead (active_drive dp) n)" "n < 2 ^ 28"
  shows "run_sequencer_cycles fa (word_of_nat (4 * n)) (dp, g) =
    (put_active (pass_by n (active_drive dp)) (put_p6 (fold read_cell (cells_ahead (active_drive dp) n) (p6_of dp)) dp), g)"
proof (cases "n = 0")
  case True
  have "pass_by 0 d = d" if "at_boundary d" for d
    using that by (cases d) (simp add: pass_by_def cells_ahead_def at_boundary_def word_less_nat_alt)
  moreover have "put_p6 (p6_of dp) dp = dp" by (simp add: put_p6_def p6_of_def put_sequencer_def)
  moreover have "put_active (active_drive dp) dp = dp"
    by (simp add: put_active_def put_drive_def active_drive_def)
  ultimately show ?thesis using assms(3) True by (simp add: run_sequencer_cycles_def cells_ahead_def)
next
  case False
  have steps: "unat (word_of_nat (4 * n) * 2 :: u32) = 8 * n"
    using assms(7) by (simp add: unat_word_ariths unat_of_nat)
  then have steps': "unat (8 * word_of_nat n :: u32) = 8 * n" by simp
  from steps have "(word_of_nat (4 * n) :: u32) \<noteq> 0" using False by (metis mult_eq_0_iff mult_zero_left unsigned_0 zero_neq_numeral)
  moreover have "\<not> (q7 (sequencer dp) \<and> p)" for p using assms(1) by (simp add: reading_def)
  ultimately show ?thesis
    using assms(2) cells_of_steps [OF assms(1,3,4,5,6), of "is_disk_write_protected fa g (active_drive dp)"] assms(1)
    by (auto simp: run_sequencer_cycles_def track_running_def reading_def steps' put_active_def Let_def)
qed

end
