(* ===== verification/Disk_Reading.thy ===== *)
theory Disk_Reading
  imports Disk_Sequencer Disk_Track_Props
begin

text \<open>
  Reading a track: the sequencer shows the program each nibble that lies on the medium, whatever
  the reader was in the middle of when the head came to the first self-sync nibbles; and a whole
  formatted track, polled nibble by nibble, gives its sectors back.
\<close>

subsection \<open>Tracks the read amplifier can follow\<close>

definition legible :: "u8 \<times> bool \<Rightarrow> bool" where
  "legible e \<longleftrightarrow> bit (fst e) 7 \<and> clear_signal 0 (nibble_cells e)"

definition track_under_head :: "disk \<Rightarrow> (u8 \<times> bool) list \<Rightarrow> bool" where
  "track_under_head d es \<longleftrightarrow> unat (bit_count d) = total_cells es \<and>
     (\<forall>i < total_cells es. cell_at (track_bits d) i \<longleftrightarrow> track_cells es ! i)"

lemma nibble_cells_Cons: "bit (fst e) 7 \<Longrightarrow> \<exists>cs. nibble_cells e = True # cs"
  by (simp add: nibble_cells_def upt_rec)

lemma clear_append:
  "clear_signal z cs \<Longrightarrow> (ds = [] \<or> hd ds) \<Longrightarrow> clear_signal 0 ds \<Longrightarrow> clear_signal z (cs @ ds)"
proof (induction cs arbitrary: z)
  case Nil
  then show ?case by (cases ds) auto
qed auto

lemma clear_tracks: "\<forall>e \<in> set es. legible e \<Longrightarrow> clear_signal 0 (track_cells es)"
proof (induction es)
  case (Cons e es)
  have "track_cells es = [] \<or> hd (track_cells es)"
  proof (cases es)
    case (Cons f fs)
    then have "bit (fst f) 7" using Cons.prems by (simp add: legible_def)
    from nibble_cells_Cons [OF this] show ?thesis by (auto simp: Cons track_cells_def)
  qed (simp add: track_cells_def)
  then show ?case using Cons by (auto simp: track_cells_def legible_def intro: clear_append)
qed (simp add: track_cells_def)

lemma clear_weaken: "clear_signal z cs \<Longrightarrow> y \<le> z \<Longrightarrow> clear_signal y cs"
  by (induction cs arbitrary: y z) (auto split: if_splits)

lemma clear_drop: "clear_signal z cs \<Longrightarrow> clear_signal 0 (drop k cs)"
proof (induction cs arbitrary: z k)
  case (Cons c cs)
  then show ?case
    by (cases k) (auto split: if_splits intro: clear_weaken)
qed simp

lemma clear_take: "clear_signal z cs \<Longrightarrow> clear_signal z (take k cs)"
  by (induction cs arbitrary: z k) (auto simp: take_Cons split: nat.splits)

subsection \<open>Revolutions\<close>

abbreviation "turns m es \<equiv> concat (replicate m es)"

lemma track_cells_turns: "track_cells (turns m es) = turns m (track_cells es)"
  by (induction m) (simp_all add: track_cells_def)

lemma nth_turns: "i < m * length cs \<Longrightarrow> turns m cs ! i = cs ! (i mod length cs)"
proof (induction m arbitrary: i)
  case (Suc m)
  then show ?case by (cases "i < length cs") (simp_all add: nth_append le_mod_geq)
qed simp

lemma ahead_on_track:
  assumes "track_under_head d es" "unat (bit_position d) < total_cells es"
    "unat (bit_position d) + n \<le> m * total_cells es"
  shows "cells_ahead d n = take n (drop (unat (bit_position d)) (track_cells (turns m es)))"
proof (rule nth_equalityI)
  let ?p = "unat (bit_position d)"
  have len: "length (track_cells (turns m es)) = m * total_cells es"
    by (simp add: track_cells_turns total_cells length_concat sum_list_replicate)
  then show "length (cells_ahead d n) = length (take n (drop ?p (track_cells (turns m es))))"
    using assms(3) by (simp add: cells_ahead_def)
  fix i assume "i < length (cells_ahead d n)"
  then have i: "i < n" by (simp add: cells_ahead_def)
  then have "track_cells (turns m es) ! (?p + i) = track_cells es ! ((?p + i) mod total_cells es)"
    using assms(3) unfolding track_cells_turns by (subst nth_turns) (simp_all add: total_cells)
  moreover have "(?p + i) mod total_cells es < total_cells es" using assms(2) by auto
  ultimately show "cells_ahead d n ! i = take n (drop ?p (track_cells (turns m es))) ! i"
    using i assms len by (simp add: cells_ahead_def track_under_head_def)
qed


lemma track_cells_append: "track_cells (xs @ ys) = track_cells xs @ track_cells ys"
  by (simp add: track_cells_def)

lemma take_track_cells: "take (total_cells (take k es)) (track_cells es) = track_cells (take k es)"
proof -
  have "track_cells es = track_cells (take k es) @ track_cells (drop k es)"
    by (simp flip: track_cells_append)
  then show ?thesis by (simp add: total_cells)
qed

lemma total_cells_mono: "i \<le> j \<Longrightarrow> total_cells (take i es) \<le> total_cells (take j es)"
proof -
  assume "i \<le> j"
  then have "take j es = take i es @ take (j - i) (drop i es)" by (metis le_add_diff_inverse take_add)
  then show ?thesis by (simp add: total_cells track_cells_append)
qed

text \<open>After four self-sync nibbles, the last cell of a nibble puts it into the register.\<close>

lemma nibble_ahead:
  assumes "cells_due w x" "take 4 (drop k es) = replicate 4 (0xFF, True)" "k + 4 \<le> j" "j < length es"
    "p \<le> total_cells (take k es)" "\<And>e. e \<in> set es \<Longrightarrow> bit (fst e) 7"
  shows "fold read_cell (drop p (track_cells (take (Suc j) es))) x = (1, fst (es ! j))"
proof -
  define ns where "ns = drop (k + 4) (take (Suc j) es)"
  define ys where "ys = take (Suc j) es"
  have "take k ys = take k es" "take 4 (drop k ys) = take 4 (drop k es)"
    using assms(3) by (simp_all add: ys_def drop_take)
  moreover have "ys = take k ys @ take 4 (drop k ys) @ drop (k + 4) ys"
    by (metis append_take_drop_id drop_drop add.commute)
  ultimately have e: "take (Suc j) es = take k es @ (replicate 4 (0xFF, True) @ ns)"
    using assms(2) by (simp add: ns_def flip: ys_def)
  have ns: "ns \<noteq> []" "List.last ns = es ! j"
    using assms(3,4) by (simp_all add: ns_def last_conv_nth)
  have high: "bit (fst e) 7" if "e \<in> set ns" for e
    using assms(6) [OF in_set_takeD [OF in_set_dropD [OF that [unfolded ns_def]]]] .
  have "drop p (track_cells (take (Suc j) es)) =
      drop p (track_cells (take k es)) @ track_cells (replicate 4 (0xFF, True) @ ns)"
    unfolding e by (subst track_cells_append) (use assms(5) in \<open>simp add: total_cells\<close>)
  then show ?thesis
    using read_after_sync [OF due_cells [OF assms(1)] ns(1) high] by (simp add: ns(2))
qed

definition in_read_step :: "disk_card \<Rightarrow> bool" where
  "in_read_step dp \<longleftrightarrow> reading dp \<and> track_running dp \<and> at_boundary (active_drive dp) \<and>
     zero_cell_run (active_drive dp) = 0 \<and> (\<exists>w. cells_due w (p6_of dp))"

definition latch_after :: "'g format_api \<Rightarrow> disk_card \<Rightarrow> 'g \<Rightarrow> nat \<Rightarrow> u8" where
  "latch_after fa dp g cycles = io_latch (fst (run_sequencer_cycles fa (word_of_nat cycles) (dp, g)))"

lemma latch_on_track:
  assumes "in_read_step dp" "track_under_head (active_drive dp) es" "\<forall>e \<in> set es. legible e"
    "total_cells es \<le> 0x80000000"
    "take 4 (drop k (turns m es)) = replicate 4 (0xFF, True)" "k + 4 \<le> j" "j < length (turns m es)"
    "unat (bit_position (active_drive dp)) \<le> total_cells (take k (turns m es))"
    "n = total_cells (take (Suc j) (turns m es)) - unat (bit_position (active_drive dp))" "n < 2 ^ 28"
  shows "latch_after fa dp g (4 * n) = fst (turns m es ! j)"
proof -
  let ?d = "active_drive dp" and ?r = "turns m es"
  let ?p = "unat (bit_position ?d)" and ?q = "total_cells (take (Suc j) (turns m es))"
  obtain w where w: "cells_due w (p6_of dp)" using assms(1) by (auto simp: in_read_step_def)
  have count: "unat (bit_count ?d) = total_cells es" using assms(2) by (simp add: track_under_head_def)
  have b: "at_boundary ?d" using assms(1) by (simp add: in_read_step_def)
  then have p: "?p < total_cells es" using count by (simp add: at_boundary_def word_less_nat_alt)
  have low: "total_cells (take k ?r) \<le> ?q"
    using assms(6) by (intro total_cells_mono) simp
  have high: "bit (fst e) 7" if "e \<in> set ?r" for e
    using that assms(3) by (auto simp: legible_def)
  have "?q \<le> total_cells ?r"
    using total_cells_mono [of "Suc j" "length ?r" ?r] assms(7) by simp
  also have "\<dots> = m * total_cells es"
    by (simp add: total_cells track_cells_turns length_concat sum_list_replicate)
  finally have q: "?q \<le> m * total_cells es" .
  have ahead: "cells_ahead ?d n = drop ?p (track_cells (take (Suc j) ?r))"
    using ahead_on_track [OF assms(2) p, of n m] assms(8,9) low q
    by (simp flip: take_track_cells add: take_drop)
  have "clear_signal 0 (track_cells ?r)" using assms(3) by (intro clear_tracks) auto
  then have "clear_signal 0 (cells_ahead ?d n)"
    using clear_drop [OF clear_take] by (simp only: ahead flip: take_track_cells)
  moreover have "bit_count ?d \<le> 0x80000000" using assms(4) count by (simp add: word_le_nat_alt)
  ultimately show ?thesis
    using assms(1,10) run_cells [of dp n fa g] nibble_ahead [OF w assms(5-8) high]
    by (simp add: latch_after_def in_read_step_def ahead put_active_def put_drive_def put_p6_def)
qed


subsection \<open>Formatted tracks\<close>

lemma legible_table: "list_all (\<lambda>v. bit v 7 \<and> clear_signal 0 (map (\<lambda>i. bit v (7 - i)) [0..<8])) disk_encoding_table"
  by code_simp

lemma legible_marks:
  "list_all legible [(prologue_1, False), (prologue_2, False), (addr_prologue_3, False), (data_prologue_3, False),
     (epilogue_1, False), (epilogue_2, False), (epilogue_3, False), (sync_byte, True)]"
  by code_simp

lemma legible_4and4: "legible (encode_4and4_high a, False)" "legible (encode_4and4_low a, False)"
  by (simp_all add: legible_def nibble_cells_def encode_4and4_high_def encode_4and4_low_def bit_or_iff bit_and_iff upt_rec)

lemma legible_sector: "v \<in> set (encode_sector_62 sectors k) \<Longrightarrow> legible (v, False)"
proof -
  assume "v \<in> set (encode_sector_62 sectors k)"
  then obtain b where "v = disk_encoding_table ! unat (drop_bit 2 (b :: u8))"
    by (auto simp: encode_sector_62_def Let_def)
  moreover have "length disk_encoding_table = 64" by (simp add: disk_encoding_table_def)
  ultimately have "v \<in> set disk_encoding_table" using six_bits [of b] by simp
  then show ?thesis using legible_table by (simp add: list_all_iff legible_def nibble_cells_def)
qed

lemma legible_track:
  assumes "disk_encoding_nibblize_track True ord track sectors = Inr es"
  shows "\<forall>e \<in> set es. legible e" and "take 4 es = replicate 4 (0xFF, True)"
proof -
  have es: "es = put_gap 48 @ concat (map (sector_fields ord track sectors) [0..<16])"
    using assms by (auto simp: disk_encoding_nibblize_track_def split: if_splits)
  have "legible e" if "e \<in> set (sector_fields ord track sectors k)" for e k
    using that legible_marks legible_4and4 legible_sector
    by (auto simp: sector_fields_def put_data_def put_gap_def data_field_def address_field_def Let_def)
  then show "\<forall>e \<in> set es. legible e"
    using legible_marks by (auto simp: es put_gap_def)
  have "take 4 es = take 4 (put_gap 48)" by (simp add: es put_gap_def)
  then show "take 4 es = replicate 4 (0xFF, True)" by (simp add: put_gap_def)
qed

lemma medium_holds:
  assumes "disk_encoding_nibbles_to_bits True (map fst es) (Some (map (\<lambda>e. b2w (snd e)) es)) max_bits = Inr (bits, n)"
    "track_bits d = bits @ rest" "unat (bit_count d) = n"
  shows "track_under_head d es"
proof -
  let ?N = "(n + 7) div 8"
  have walk: "walk_sync_runs (map fst es) (Some (map (\<lambda>e. b2w (snd e)) es)) = es"
    by (rule nth_equalityI) (simp_all add: walk_sync_runs_def)
  have n: "n = total_cells es" and b: "bits = fst (fold emit_nibble es (replicate ?N 0, 0))"
    using assms(1) by (auto simp: disk_encoding_nibbles_to_bits_def Let_def walk split: if_splits)
  have le: "n \<le> 8 * ?N" by simp
  have "holds_cells ?N [] (replicate ?N 0, 0)" by (auto simp: holds_cells_def cell_at_def)
  then have h: "holds_cells ?N (track_cells es) (fold emit_nibble es (replicate ?N 0, 0))"
    using Disk_Bits.holds_track [of ?N "[]"] n le by (simp add: total_cells)
  have at: "cell_at bits i \<longleftrightarrow> track_cells es ! i" if "i < n" for i
    using h that le n [unfolded total_cells] by (simp only: holds_cells_def b) simp
  have len: "length bits = ?N" using h by (simp only: holds_cells_def b)
  have "cell_at (bits @ rest) i \<longleftrightarrow> track_cells es ! i" if "i < n" for i
  proof -
    have "i div 8 < length bits" using that le len by (simp add: less_mult_imp_div_less mult.commute)
    then show ?thesis using at [OF that] by (simp add: cell_at_def nth_append)
  qed
  then show ?thesis using n assms(2,3) by (simp add: track_under_head_def)
qed



text \<open>For examples: a host without a single format driver.\<close>

definition no_formats :: "unit format_api" where
  "no_formats =
     \<lparr>fa_open = (\<lambda>_ g. (Inl disk_err_unsupported, g)), fa_close = (\<lambda>_ g. g), fa_can_write = (\<lambda>_. False),
      fa_is_write_protected = (\<lambda>_ _. True),
      fa_read_track_bits = (\<lambda>_ _ bits _ g. (disk_err_invalid_argument, bits, 0, disk_default_bit_timing, g)),
      fa_write_track_bits = (\<lambda>_. None), fa_create = (\<lambda>_ _ g. (disk_err_unsupported, g))\<rparr>"

text \<open>A card just reset whose first drive spins over the given cells.\<close>

definition card_over :: "u8 list \<Rightarrow> u32 \<Rightarrow> disk_card" where
  "card_over bits count = put_drive 0
     (new_disk\<lparr>motor_enable_cycles := motor_off_delay_cycles, is_data_loaded := True,
               track_bits := bits, bit_count := count, bit_position := 1234\<rparr>) (new_disk_card 6)"


end
