(* ===== verification/Host_Files.thy ===== *)
theory Host_Files
  imports Disk_Bits Disk_Track
begin

text \<open>
  The host's files as the C standard library shows them to the image drivers.

  A path names a file; an open stream keeps its file when the path is unlinked, so a stream is the
  number of the file itself.  Every access of the drivers is a seek followed by one transfer, and is
  one operation here.  A file on a faulty device fails every seek and transfer; a write that fails
  leaves the file as it was.
\<close>

record file_system =
  fs_names :: "string \<Rightarrow> nat option"
  fs_data :: "nat \<Rightarrow> u8 list"
  fs_read_only :: "nat \<Rightarrow> bool"
  fs_unreadable :: "nat \<Rightarrow> bool"
  fs_faulty :: "nat \<Rightarrow> bool"
  fs_unwritable_dir :: "string \<Rightarrow> bool"
  fs_next :: nat

datatype errno = ENOENT | EACCES

definition fopen :: "string \<Rightarrow> bool \<Rightarrow> 'f file_system_scheme \<Rightarrow> errno + nat" where
  "fopen path update fs =
     (case fs_names fs path of
        None \<Rightarrow> Inl ENOENT
      | Some n \<Rightarrow> if fs_unreadable fs n \<or> update \<and> fs_read_only fs n then Inl EACCES else Inr n)"

definition stream_size :: "nat \<Rightarrow> 'f file_system_scheme \<Rightarrow> int" where
  "stream_size n fs = (if fs_faulty fs n then -1 else int (length (fs_data fs n)))"

definition fread_at :: "nat \<Rightarrow> nat \<Rightarrow> nat \<Rightarrow> 'f file_system_scheme \<Rightarrow> u8 list option" where
  "fread_at n offset count fs =
     (if fs_faulty fs n then None else Some (take count (drop offset (fs_data fs n))))"

definition overwrite :: "nat \<Rightarrow> u8 list \<Rightarrow> u8 list \<Rightarrow> u8 list" where
  "overwrite offset bytes file =
     take offset file @ replicate (offset - length file) 0 @ bytes @ drop (offset + length bytes) file"

definition fwrite_at :: "nat \<Rightarrow> nat \<Rightarrow> u8 list \<Rightarrow> 'f file_system_scheme \<Rightarrow> bool \<times> 'f file_system_scheme" where
  "fwrite_at n offset bytes fs =
     (if fs_faulty fs n then (False, fs)
      else (True, fs\<lparr>fs_data := (fs_data fs)(n := overwrite offset bytes (fs_data fs n))\<rparr>))"

definition unlink :: "string \<Rightarrow> 'f file_system_scheme \<Rightarrow> 'f file_system_scheme" where
  "unlink path fs = fs\<lparr>fs_names := (fs_names fs)(path := None)\<rparr>"

text \<open>\<open>open\<close> with \<open>O_CREAT | O_EXCL\<close>, then the whole contents written: all of it or an error.\<close>

definition create_exclusive :: "string \<Rightarrow> u8 list \<Rightarrow> 'f file_system_scheme \<Rightarrow> bool \<times> 'f file_system_scheme" where
  "create_exclusive path bytes fs =
     (if fs_names fs path \<noteq> None \<or> fs_unwritable_dir fs path then (False, fs)
      else let n = fs_next fs; fs = fs\<lparr>fs_names := (fs_names fs)(path := Some n), fs_next := n + 1\<rparr>
           in if fs_faulty fs n then (False, unlink path fs)
              else (True, fs\<lparr>fs_data := (fs_data fs)(n := bytes),
                    fs_read_only := (fs_read_only fs)(n := False), fs_unreadable := (fs_unreadable fs)(n := False)\<rparr>))"

text \<open>
  How the drivers open an image: for update if the loader allows it, else for reading, which makes
  the disk write protected.
\<close>

definition open_image :: "string \<Rightarrow> bool \<Rightarrow> 'f file_system_scheme \<Rightarrow> disk_error + nat \<times> bool" where
  "open_image path read_only fs =
     (case (if read_only then Inl EACCES else fopen path True fs) of
        Inr n \<Rightarrow> Inr (n, False)
      | Inl _ \<Rightarrow>
          (case fopen path False fs of
             Inr n \<Rightarrow> Inr (n, True)
           | Inl e \<Rightarrow> Inl (if e = ENOENT then disk_err_file_not_found else disk_err_io)))"

subsection \<open>Bytes\<close>

definition le16 :: "u8 list \<Rightarrow> u16" where
  "le16 p = ucast (p ! 0) OR push_bit 8 (ucast (p ! 1))"

definition le32 :: "u8 list \<Rightarrow> u32" where
  "le32 p =
     ucast (p ! 0) OR push_bit 8 (ucast (p ! 1)) OR push_bit 16 (ucast (p ! 2)) OR push_bit 24 (ucast (p ! 3))"

definition put_bits :: "u8 list \<Rightarrow> u8 list \<Rightarrow> u8 list" where
  "put_bits bytes buffer = bytes @ drop (length bytes) buffer"

text \<open>What a driver answers for a track: the error, the cells in the caller's buffer, their number.\<close>

definition cells_answer :: "disk_error + u8 list \<times> nat \<Rightarrow> u8 list \<Rightarrow> disk_error \<times> u8 list \<times> u32" where
  "cells_answer r bits =
     (case r of Inl e \<Rightarrow> (e, bits, 0) | Inr (cells, n) \<Rightarrow> (disk_err_none, put_bits cells bits, word_of_nat n))"

datatype disk_probe = disk_probe_no | disk_probe_possible | disk_probe_definite

subsection \<open>Lemmas\<close>

lemma overwrite_same: "length bytes = n \<Longrightarrow> take n (drop offset (overwrite offset bytes file)) = bytes"
  by (auto simp: overwrite_def min_def)

lemma length_overwrite: "length (overwrite offset bytes file) = max (length file) (offset + length bytes)"
  by (auto simp: overwrite_def)

lemma nth_overwrite:
  assumes "i < length file" "i < offset \<or> offset + length bytes \<le> i"
  shows "overwrite offset bytes file ! i = file ! i"
  using assms by (auto simp: overwrite_def nth_append min_def)

lemma read_write:
  assumes "fwrite_at n offset bytes fs = (True, fs')"
  shows "fread_at n offset (length bytes) fs' = Some bytes" "fs_names fs' = fs_names fs"
  using assms by (auto simp: fwrite_at_def fread_at_def overwrite_same split: if_splits)

end
