(* ===== verification/Sector_Image.thy ===== *)
theory Sector_Image
  imports Host_Files
begin

text \<open>
  Sector images (\<open>formats/SectorDiskImage.cpp\<close>, \<open>DoDriver.cpp\<close>, \<open>PoDriver.cpp\<close>):
  a file of 35 tracks of sixteen 256-byte sectors in DOS or ProDOS order.  Reading a track formats
  it on the fly; writing one back decodes the cells and replaces the track only if all sixteen
  sectors came back.
\<close>

abbreviation (input) "sector_image_track_bytes \<equiv> (4096 :: nat)"
abbreviation (input) "tracks_140k \<equiv> (35 :: u32)"
abbreviation (input) "sector_image_max_bytes \<equiv> (143488 :: nat)"
abbreviation (input) "nibble_buffer \<equiv> (6656 :: nat)"

record sector_disk_image =
  si_file :: nat
  si_data_offset :: u32
  si_track_count :: u32
  si_host_read_only :: bool
  si_order :: disk_sector_order

definition is_140k_image_size :: "nat \<Rightarrow> bool" where
  "is_140k_image_size n \<longleftrightarrow> 143105 \<le> n \<and> n \<le> 143364 \<or> n = 143403 \<or> n = sector_image_max_bytes"

definition quarter_track_to_cylinder :: "u32 \<Rightarrow> u32" where
  "quarter_track_to_cylinder quarter_track = quarter_track div 4"

definition sector_disk_image_open ::
  "string \<Rightarrow> u32 \<Rightarrow> bool \<Rightarrow> bool \<Rightarrow> 'f file_system_scheme \<Rightarrow> disk_error + sector_disk_image" where
  "sector_disk_image_open path file_offset is_dos_order read_only fs =
     (case open_image path read_only fs of
        Inl e \<Rightarrow> Inl e
      | Inr (file, host_read_only) \<Rightarrow>
          let total = stream_size file fs in
          if total < 0 then Inl disk_err_io
          else if total < int (unat file_offset) then Inl disk_err_corrupt
          else let effective = nat total - unat file_offset in
            if effective > sector_image_max_bytes then Inl disk_err_unsupported
            else if \<not> is_140k_image_size effective then Inl disk_err_corrupt
            else Inr \<lparr>si_file = file, si_data_offset = file_offset, si_track_count = tracks_140k,
                      si_host_read_only = host_read_only,
                      si_order = (if is_dos_order then disk_sector_order_dos else disk_sector_order_prodos)\<rparr>)"

definition track_offset :: "sector_disk_image \<Rightarrow> u32 \<Rightarrow> nat" where
  "track_offset img track = unat (si_data_offset img) + unat track * sector_image_track_bytes"

definition sector_disk_image_read_track_bits ::
  "sector_disk_image \<Rightarrow> u32 \<Rightarrow> u8 list \<Rightarrow> u32 \<Rightarrow> 'f file_system_scheme \<Rightarrow> disk_error \<times> u8 list \<times> u32" where
  "sector_disk_image_read_track_bits img quarter_track bits max_bits fs =
     (let track = quarter_track_to_cylinder quarter_track in
      if track \<ge> si_track_count img then (disk_err_none, bits, 0)
      else case fread_at (si_file img) (track_offset img track) sector_image_track_bytes fs of
             None \<Rightarrow> (disk_err_io, bits, 0)
           | Some bytes \<Rightarrow>
               let sectors = bytes @ replicate (sector_image_track_bytes - length bytes) 0 in
               (case disk_encoding_nibblize_track True (disk_encoding_sector_order (si_order img))
                       (unat track) sectors of
                  Inl e \<Rightarrow> (e, bits, 0)
                | Inr nibbles \<Rightarrow>
                    cells_answer (disk_encoding_nibbles_to_bits True (map fst nibbles)
                      (Some (map (\<lambda>e. b2w (snd e)) nibbles)) (unat max_bits)) bits))"

definition sector_disk_image_write_track_bits ::
  "sector_disk_image \<Rightarrow> u32 \<Rightarrow> u8 list \<Rightarrow> u32 \<Rightarrow> 'f file_system_scheme \<Rightarrow> disk_error \<times> 'f file_system_scheme" where
  "sector_disk_image_write_track_bits img quarter_track bits bit_count fs =
     (let track = quarter_track_to_cylinder quarter_track in
      if si_host_read_only img then (disk_err_write_protected, fs)
      else if track \<ge> si_track_count img then (disk_err_none, fs)
      else case disk_encoding_bits_to_nibbles True bits (unat bit_count) nibble_buffer of
             (decoded, nibbles) \<Rightarrow>
               if decoded \<noteq> disk_err_none then (decoded, fs)
               else case disk_encoding_denibblize_track True (disk_encoding_sector_order (si_order img))
                           (unat track) nibbles of
                      Inl e \<Rightarrow> (e, fs)
                    | Inr sectors \<Rightarrow>
                        (case fwrite_at (si_file img) (track_offset img track) sectors fs of
                           (ok, fs) \<Rightarrow> (if ok then disk_err_none else disk_err_io, fs)))"

definition sector_disk_image_create :: "string \<Rightarrow> 'f file_system_scheme \<Rightarrow> disk_error \<times> 'f file_system_scheme" where
  "sector_disk_image_create path fs =
     (case create_exclusive path (replicate 143360 0) fs of (ok, fs) \<Rightarrow> (if ok then disk_err_none else disk_err_io, fs))"

subsection \<open>Recognizing an image\<close>

definition dos_sector_offset :: "bool \<Rightarrow> nat \<Rightarrow> nat \<Rightarrow> nat" where
  "dos_sector_offset is_dos_order track sector =
     (let file_sector = (if is_dos_order \<or> sector = 0 \<or> sector = 15 then sector else 15 - sector)
      in track * sector_image_track_bytes + file_sector * 256)"

definition prodos_block_offset :: "bool \<Rightarrow> nat \<Rightarrow> nat" where
  "prodos_block_offset is_dos_order block =
     (if \<not> is_dos_order then block * 512
      else let track = block div 8; block_in_track = block mod 8;
               sector = (if block_in_track = 0 then 0 else 15 - 2 * block_in_track)
           in track * sector_image_track_bytes + sector * 256)"

definition has_dos_catalog :: "u8 list \<Rightarrow> bool \<Rightarrow> bool" where
  "has_dos_catalog header is_dos_order =
     list_all (\<lambda>sector. let offset = dos_sector_offset is_dos_order 17 sector + 2
                        in offset < length header \<and> header ! offset = word_of_nat (sector - 1)) [1..<16]"

text \<open>The walk along the volume directory, with the number of blocks still allowed.\<close>

fun directory_chain :: "nat \<Rightarrow> u8 list \<Rightarrow> bool \<Rightarrow> u16 \<Rightarrow> u16 \<Rightarrow> bool" where
  "directory_chain 0 header is_dos_order previous block = False"
| "directory_chain (Suc n) header is_dos_order previous block =
     (let offset = prodos_block_offset is_dos_order (unat block) in
      if offset + 4 > length header then False
      else let prev = le16 (drop offset header); nxt = le16 (drop (offset + 2) header) in
        if prev \<noteq> previous then False
        else if nxt = 0 then block \<noteq> 2
        else if nxt \<ge> 280 then False
        else directory_chain n header is_dos_order block nxt)"

definition has_prodos_directory :: "u8 list \<Rightarrow> bool \<Rightarrow> bool" where
  "has_prodos_directory header is_dos_order = directory_chain 280 header is_dos_order 0 2"

definition sector_disk_image_probe_signature :: "u8 list \<Rightarrow> nat \<Rightarrow> bool \<Rightarrow> disk_probe" where
  "sector_disk_image_probe_signature header file_size is_dos_order =
     (if \<not> is_140k_image_size file_size then disk_probe_no
      else if has_dos_catalog header is_dos_order \<or> has_prodos_directory header is_dos_order
      then disk_probe_definite else disk_probe_possible)"

definition do_probe :: "u8 list \<Rightarrow> nat \<Rightarrow> string \<Rightarrow> disk_probe" where
  "do_probe header file_size ext_hint =
     (let sig_probe = sector_disk_image_probe_signature header file_size True in
      if sig_probe = disk_probe_definite then disk_probe_definite
      else if ext_hint = ''.do'' \<or> ext_hint = ''.dsk''
      then (if sig_probe \<noteq> disk_probe_no then disk_probe_possible else disk_probe_no)
      else if ext_hint = ''.po'' then disk_probe_no
      else sig_probe)"

definition po_probe :: "u8 list \<Rightarrow> nat \<Rightarrow> string \<Rightarrow> disk_probe" where
  "po_probe header file_size ext_hint =
     (let sig_probe = sector_disk_image_probe_signature header file_size False in
      if sig_probe = disk_probe_definite then disk_probe_definite
      else if ext_hint = ''.po''
      then (if sig_probe \<noteq> disk_probe_no then disk_probe_possible else disk_probe_no)
      else if ext_hint = ''.do'' \<or> ext_hint = ''.dsk'' then disk_probe_no
      else sig_probe)"

end
