(* ===== verification/Nibble_Image.thy ===== *)
theory Nibble_Image
  imports Sector_Image
begin

text \<open>
  Nibble images (\<open>formats/NibbleDiskImage.cpp\<close>, \<open>NibDriver.cpp\<close>, \<open>Nb2Driver.cpp\<close>) and
  SimSystem images (\<open>formats/IieDriver.cpp\<close>).
\<close>

abbreviation (input) "nibble_image_tracks \<equiv> (35 :: nat)"
abbreviation (input) "nibble_image_max_bytes \<equiv> (232960 :: nat)"
abbreviation (input) "nb2_track_size \<equiv> (6384 :: u32)"
abbreviation (input) "nib_track_size \<equiv> (6656 :: u32)"

record nibble_disk_image =
  ni_file :: nat
  ni_data_offset :: u32
  ni_track_size :: u32
  ni_track_count :: u32
  ni_host_read_only :: bool

definition string_bytes :: "string \<Rightarrow> u8 list" where
  "string_bytes s = map (\<lambda>c. word_of_nat (of_char c)) s"

definition has_woz_magic :: "u8 list \<Rightarrow> bool" where
  "has_woz_magic header \<longleftrightarrow>
     length header \<ge> 4 \<and> (take 4 header = string_bytes ''WOZ1'' \<or> take 4 header = string_bytes ''WOZ2'')"

definition nibble_disk_image_probe :: "u8 list \<Rightarrow> nat \<Rightarrow> string \<Rightarrow> nat \<Rightarrow> string \<Rightarrow> disk_probe" where
  "nibble_disk_image_probe header file_size ext_hint image_bytes ext =
     (if has_woz_magic header then disk_probe_no
      else if file_size \<noteq> image_bytes then disk_probe_no
      else if ext_hint = ext then disk_probe_definite
      else disk_probe_possible)"

definition nibble_disk_image_open ::
  "string \<Rightarrow> u32 \<Rightarrow> u32 \<Rightarrow> bool \<Rightarrow> 'f file_system_scheme \<Rightarrow> disk_error + nibble_disk_image" where
  "nibble_disk_image_open path file_offset track_nibbles read_only fs =
     (if track_nibbles = 0 \<or> track_nibbles > nib_track_size then Inl disk_err_invalid_argument
      else case open_image path read_only fs of
             Inl e \<Rightarrow> Inl e
           | Inr (file, host_read_only) \<Rightarrow>
               let total = stream_size file fs in
               if total < 0 then Inl disk_err_io
               else if total < int (unat file_offset) then Inl disk_err_corrupt
               else let recorded = nat total - unat file_offset in
                 if recorded > nibble_image_max_bytes then Inl disk_err_unsupported
                 else if recorded = 0 then Inl disk_err_corrupt
                 else Inr \<lparr>ni_file = file, ni_data_offset = file_offset, ni_track_size = track_nibbles,
                           ni_track_count = word_of_nat ((recorded + unat track_nibbles - 1) div unat track_nibbles),
                           ni_host_read_only = host_read_only\<rparr>)"

definition slot_offset :: "nibble_disk_image \<Rightarrow> u32 \<Rightarrow> nat" where
  "slot_offset img track = unat (ni_data_offset img) + unat track * unat (ni_track_size img)"

definition nibble_disk_image_read_track_bits ::
  "nibble_disk_image \<Rightarrow> u32 \<Rightarrow> u8 list \<Rightarrow> u32 \<Rightarrow> 'f file_system_scheme \<Rightarrow> disk_error \<times> u8 list \<times> u32" where
  "nibble_disk_image_read_track_bits img quarter_track bits max_bits fs =
     (let track = quarter_track_to_cylinder quarter_track in
      if track \<ge> ni_track_count img then (disk_err_none, bits, 0)
      else case fread_at (ni_file img) (slot_offset img track) (unat (ni_track_size img)) fs of
             None \<Rightarrow> (disk_err_io, bits, 0)
           | Some nibbles \<Rightarrow>
               cells_answer (disk_encoding_nibbles_to_bits True nibbles None (unat max_bits)) bits)"

definition nibble_disk_image_write_track_bits ::
  "nibble_disk_image \<Rightarrow> u32 \<Rightarrow> u8 list \<Rightarrow> u32 \<Rightarrow> 'f file_system_scheme \<Rightarrow> disk_error \<times> 'f file_system_scheme" where
  "nibble_disk_image_write_track_bits img quarter_track bits bit_count fs =
     (let track = quarter_track_to_cylinder quarter_track; slot = unat (ni_track_size img) in
      if ni_host_read_only img then (disk_err_write_protected, fs)
      else if track \<ge> ni_track_count img then (disk_err_none, fs)
      else case disk_encoding_bits_to_nibbles True bits (unat bit_count) (slot + 1) of
             (decoded, nibbles) \<Rightarrow>
               if decoded \<noteq> disk_err_none then (decoded, fs)
               else if length nibbles > slot then (disk_err_unsupported, fs)
               else let bytes = nibbles @ replicate (slot - length nibbles) sync_byte in
                 (case fwrite_at (ni_file img) (slot_offset img track) bytes fs of
                    (ok, fs) \<Rightarrow> (if ok then disk_err_none else disk_err_io, fs)))"

text \<open>The slots of a blank: tracks of sixteen zero sectors, padded with sync bytes.\<close>

definition blank_slot :: "nat \<Rightarrow> nat \<Rightarrow> disk_error + u8 list" where
  "blank_slot track_nibbles track =
     (case disk_encoding_nibblize_track True (disk_encoding_sector_order disk_sector_order_dos) track
             (replicate 4096 0) of
        Inl e \<Rightarrow> Inl e
      | Inr nibbles \<Rightarrow>
          if length nibbles > track_nibbles then Inl disk_err_unsupported
          else Inr (map fst nibbles @ replicate (track_nibbles - length nibbles) sync_byte))"

fun blank_slots :: "nat \<Rightarrow> nat list \<Rightarrow> disk_error + u8 list" where
  "blank_slots track_nibbles [] = Inr []"
| "blank_slots track_nibbles (track # tracks) =
     (case blank_slot track_nibbles track of
        Inl e \<Rightarrow> Inl e
      | Inr slot \<Rightarrow> (case blank_slots track_nibbles tracks of Inl e \<Rightarrow> Inl e | Inr slots \<Rightarrow> Inr (slot @ slots)))"

definition nibble_disk_image_create ::
  "string \<Rightarrow> u32 \<Rightarrow> 'f file_system_scheme \<Rightarrow> disk_error \<times> 'f file_system_scheme" where
  "nibble_disk_image_create path track_nibbles fs =
     (if track_nibbles = 0 \<or> track_nibbles > nib_track_size then (disk_err_invalid_argument, fs)
      else case blank_slots (unat track_nibbles) [0..<nibble_image_tracks] of
             Inl e \<Rightarrow> (if fs_names fs path \<noteq> None \<or> fs_unwritable_dir fs path then disk_err_io else e, fs)
           | Inr bytes \<Rightarrow> (case create_exclusive path bytes fs of
                            (ok, fs) \<Rightarrow> (if ok then disk_err_none else disk_err_io, fs)))"

definition nib_probe :: "u8 list \<Rightarrow> nat \<Rightarrow> string \<Rightarrow> disk_probe" where
  "nib_probe header file_size ext_hint =
     nibble_disk_image_probe header file_size ext_hint nibble_image_max_bytes ''.nib''"

definition nb2_probe :: "u8 list \<Rightarrow> nat \<Rightarrow> string \<Rightarrow> disk_probe" where
  "nb2_probe header file_size ext_hint =
     nibble_disk_image_probe header file_size ext_hint (nibble_image_tracks * unat nb2_track_size) ''.nb2''"

subsection \<open>SimSystem images\<close>

record iie_instance =
  ii_file :: nat
  ii_legacy :: bool
  ii_sector_order :: "nat list"
  ii_track_offsets :: "nat list"
  ii_track_nibble_counts :: "u16 list"
  ii_host_read_only :: bool

definition iie_signature :: "u8 list" where
  "iie_signature = string_bytes ''SIMSYSTEM_IIE''"

definition iie_convert_sector_order :: "u8 list \<Rightarrow> nat list" where
  "iie_convert_sector_order source_order =
     map (\<lambda>target. case find (\<lambda>i. source_order ! i = word_of_nat target) [0..<16] of
                     None \<Rightarrow> 0 | Some i \<Rightarrow> i) [0..<16]"

definition iie_probe :: "u8 list \<Rightarrow> nat \<Rightarrow> string \<Rightarrow> disk_probe" where
  "iie_probe header file_size ext_hint =
     (if length header \<le> 13 then disk_probe_no
      else if take 13 header = iie_signature \<and> header ! 13 \<le> 3 then disk_probe_definite
      else disk_probe_no)"

text \<open>
  The offsets and lengths of the tracks of the nibble layout, each track behind the one before it;
  \<open>uint32_t\<close> offsets wrap, as the source's do.
\<close>

fun nibble_tracks :: "u8 list \<Rightarrow> int \<Rightarrow> u32 \<Rightarrow> nat list \<Rightarrow> (nat \<times> u16) list option" where
  "nibble_tracks header whole running [] = Some []"
| "nibble_tracks header whole running (t # ts) =
     (let count = le16 (drop (14 + 2 * t) header) in
      if unat count > nibble_buffer then None
      else if int (unat running) + int (unat count) > whole then None
      else case nibble_tracks header whole (running + ucast count) ts of
             None \<Rightarrow> None | Some rest \<Rightarrow> Some ((unat running, count) # rest))"

definition legacy_track_offset :: "u32 \<Rightarrow> nat \<Rightarrow> u32" where
  "legacy_track_offset file_offset t = file_offset + word_of_nat (t * sector_image_track_bytes + 30)"

definition iie_open ::
  "string \<Rightarrow> u32 \<Rightarrow> bool \<Rightarrow> 'f file_system_scheme \<Rightarrow> disk_error + iie_instance" where
  "iie_open path file_offset read_only fs =
     (case open_image path read_only fs of
        Inl e \<Rightarrow> Inl e
      | Inr (file, host_read_only) \<Rightarrow>
          let total = stream_size file fs in
          if total < int (unat file_offset) + 88 then Inl disk_err_corrupt
          else case fread_at file (unat file_offset) 88 fs of
                 None \<Rightarrow> Inl disk_err_io
               | Some header \<Rightarrow>
                   if length header \<noteq> 88 then Inl disk_err_io
                   else if header ! 13 > 3 then Inl disk_err_unsupported_format
                   else if header ! 13 \<le> 2
                   then if list_all (\<lambda>t. int (unat (legacy_track_offset file_offset t)) + 4096 \<le> total) [0..<35]
                        then Inr \<lparr>ii_file = file, ii_legacy = True,
                                  ii_sector_order = iie_convert_sector_order (drop 14 header),
                                  ii_track_offsets = map (\<lambda>t. unat (legacy_track_offset file_offset t)) [0..<35],
                                  ii_track_nibble_counts = replicate 35 6656,
                                  ii_host_read_only = host_read_only\<rparr>
                        else Inl disk_err_corrupt
                   else case nibble_tracks header total (file_offset + 88) [0..<35] of
                          None \<Rightarrow> Inl disk_err_corrupt
                        | Some tracks \<Rightarrow>
                            Inr \<lparr>ii_file = file, ii_legacy = False, ii_sector_order = replicate 16 0,
                                 ii_track_offsets = map fst tracks, ii_track_nibble_counts = map snd tracks,
                                 ii_host_read_only = host_read_only\<rparr>)"

definition iie_read_track_bits ::
  "iie_instance \<Rightarrow> u32 \<Rightarrow> u8 list \<Rightarrow> u32 \<Rightarrow> 'f file_system_scheme \<Rightarrow> disk_error \<times> u8 list \<times> u32" where
  "iie_read_track_bits img quarter_track bits max_bits fs =
     (let track = unat (quarter_track_to_cylinder quarter_track) in
      if track \<ge> 35 then (disk_err_none, bits, 0)
      else let offset = ii_track_offsets img ! track; count = unat (ii_track_nibble_counts img ! track) in
        if ii_legacy img
        then case fread_at (ii_file img) offset sector_image_track_bytes fs of
               None \<Rightarrow> (disk_err_io, bits, 0)
             | Some sectors \<Rightarrow>
                 if length sectors \<noteq> sector_image_track_bytes then (disk_err_io, bits, 0)
                 else (case disk_encoding_nibblize_track True (ii_sector_order img) track sectors of
                         Inl e \<Rightarrow> (e, bits, 0)
                       | Inr nibbles \<Rightarrow>
                           cells_answer (disk_encoding_nibbles_to_bits True (map fst nibbles)
                             (Some (map (\<lambda>e. b2w (snd e)) nibbles)) (unat max_bits)) bits)
        else let nibbles = (case fread_at (ii_file img) offset count fs of None \<Rightarrow> [] | Some bytes \<Rightarrow> bytes)
             in cells_answer (disk_encoding_nibbles_to_bits True nibbles None (unat max_bits)) bits)"

end
