(* ===== verification/Woz_Image.thy ===== *)
theory Woz_Image
  imports Nibble_Image
begin

text \<open>
  WOZ images (\<open>formats/WozChunk.h\<close>, \<open>Woz1Driver.cpp\<close>, \<open>Woz2Driver.cpp\<close>,
  \<open>core/Util_Crc32.h\<close>): a chunk file that records the cells of every track.  A chunk that is not
  found is \<open>None\<close> where the source returns offset 0.  Only reading is implemented by the program.
\<close>

subsection \<open>CRC-32\<close>

abbreviation (input) "reflected_polynomial \<equiv> (0xEDB88320 :: u32)"

definition crc32_shift :: "u32 \<Rightarrow> u32" where
  "crc32_shift crc = (if crc AND 1 \<noteq> 0 then drop_bit 1 crc XOR reflected_polynomial else drop_bit 1 crc)"

definition crc32_table :: "u32 list" where
  "crc32_table = map (\<lambda>i. (crc32_shift ^^ 8) (word_of_nat i)) [0..<256]"

definition crc32_init :: u32 where
  "crc32_init = 0xFFFFFFFF"

definition crc32_update :: "u32 \<Rightarrow> u8 list \<Rightarrow> u32" where
  "crc32_update state bytes =
     fold (\<lambda>b state. crc32_table ! unat ((state XOR ucast b) AND 0xFF) XOR drop_bit 8 state) bytes state"

definition crc32_final :: "u32 \<Rightarrow> u32" where
  "crc32_final state = state XOR 0xFFFFFFFF"

subsection \<open>Chunks\<close>

definition woz_header_at :: "u8 list \<Rightarrow> nat \<Rightarrow> nat \<Rightarrow> u8 list option" where
  "woz_header_at header offset len = (if offset + len > length header then None else Some (drop offset header))"

text \<open>The offset of a chunk's data and its declared size.\<close>

function woz_find_chunk :: "u8 list \<Rightarrow> u8 list \<Rightarrow> nat \<Rightarrow> (nat \<times> u32) option" where
  "woz_find_chunk header ident i =
     (case woz_header_at header i 8 of
        None \<Rightarrow> None
      | Some chunk_hdr \<Rightarrow>
          let chunk_size = le32 (drop 4 chunk_hdr) in
          if take 4 chunk_hdr = ident then Some (i + 8, chunk_size)
          else let next_i = i + 8 + unat chunk_size in
            if woz_header_at header next_i 0 = None then None else woz_find_chunk header ident next_i)"
  by pat_completeness auto
termination
  by (relation "measure (\<lambda>(header, _, i). length header - i)") (auto simp: woz_header_at_def split: if_splits)

declare woz_find_chunk.simps [simp del]

definition woz_is_chunk_id :: "u8 list \<Rightarrow> bool" where
  "woz_is_chunk_id chunk_hdr = list_all (\<lambda>b. 0x20 \<le> b \<and> b \<le> 0x7E) (take 4 chunk_hdr)"

function woz_chunks_end :: "u8 list \<Rightarrow> nat \<Rightarrow> nat \<Rightarrow> nat" where
  "woz_chunks_end file base_offset position =
     (let hdr_pos = base_offset + position; chunk_hdr = take 8 (drop hdr_pos file) in
      if hdr_pos + 8 > length file \<or> \<not> woz_is_chunk_id chunk_hdr then position
      else let nxt = position + 8 + unat (le32 (drop 4 chunk_hdr)) in
        if base_offset + nxt > length file then position else woz_chunks_end file base_offset nxt)"
  by pat_completeness auto
termination
  by (relation "measure (\<lambda>(file, base_offset, position). length file - (base_offset + position))") auto

declare woz_chunks_end.simps [simp del]

definition woz_verify_crc32 :: "nat \<Rightarrow> u32 \<Rightarrow> u32 \<Rightarrow> 'f file_system_scheme \<Rightarrow> disk_error" where
  "woz_verify_crc32 file base_offset stored_crc fs =
     (if stored_crc = 0 then disk_err_none
      else if stream_size file fs < 0 then disk_err_io
      else let base = unat base_offset; stop = woz_chunks_end (fs_data fs file) base 12 in
        case fread_at file (base + 12) (stop - 12) fs of
          None \<Rightarrow> disk_err_io
        | Some bytes \<Rightarrow>
            if length bytes \<noteq> stop - 12 then disk_err_io
            else if crc32_final (crc32_update crc32_init bytes) = stored_crc then disk_err_none
            else disk_err_corrupt)"

text \<open>The signature of a WOZ file: its magic, 0xFF, and line ends a text transfer would damage.\<close>

definition woz_signature :: "string \<Rightarrow> u8 list" where
  "woz_signature magic = string_bytes magic @ [0xFF, 0x0A, 0x0D, 0x0A]"

definition read_cells ::
  "nat \<Rightarrow> nat \<Rightarrow> nat \<Rightarrow> u8 list \<Rightarrow> 'f file_system_scheme \<Rightarrow> disk_error \<times> u8 list \<times> u32" where
  "read_cells file offset bit_count bits fs =
     (let cell_bytes = (bit_count + 7) div 8 in
      case fread_at file offset cell_bytes fs of
        None \<Rightarrow> (disk_err_io, bits, 0)
      | Some bytes \<Rightarrow>
          if length bytes \<noteq> cell_bytes then (disk_err_io, put_bits bytes bits, 0)
          else (disk_err_none, put_bits bytes bits, word_of_nat bit_count))"

subsection \<open>WOZ 1\<close>

record woz1_instance =
  w1_file :: nat
  w1_header :: "u8 list"
  w1_tmap_offset :: nat
  w1_trks_offset :: nat
  w1_trks_record_count :: nat
  w1_base_offset :: u32
  w1_format_write_protected :: bool
  w1_host_read_only :: bool

definition woz1_probe :: "u8 list \<Rightarrow> nat \<Rightarrow> string \<Rightarrow> disk_probe" where
  "woz1_probe header file_size ext_hint =
     (if length header < 8 \<or> file_size < 256 then disk_probe_no
      else if take 8 header = woz_signature ''WOZ1'' then disk_probe_definite else disk_probe_no)"

definition woz1_open :: "string \<Rightarrow> u32 \<Rightarrow> bool \<Rightarrow> 'f file_system_scheme \<Rightarrow> disk_error + woz1_instance" where
  "woz1_open path file_offset read_only fs =
     (case fopen path False fs of
        Inl e \<Rightarrow> Inl (if e = ENOENT then disk_err_file_not_found else disk_err_io)
      | Inr file \<Rightarrow>
          (case fread_at file (unat file_offset) 256 fs of
             None \<Rightarrow> Inl disk_err_io
           | Some header \<Rightarrow>
               if length header \<noteq> 256 then Inl disk_err_io
               else case (woz_find_chunk header (string_bytes ''INFO'') 12,
                          woz_find_chunk header (string_bytes ''TMAP'') 12,
                          woz_find_chunk header (string_bytes ''TRKS'') 12) of
                 (Some (info, _), Some (tmap, _), Some (trks, trks_size)) \<Rightarrow>
                   (case (woz_header_at header info 3, woz_header_at header tmap 160) of
                      (Some info_data, Some _) \<Rightarrow>
                        if info_data ! 0 \<noteq> 1 \<or> info_data ! 1 \<noteq> 1 then Inl disk_err_unsupported_format
                        else let crc_err = woz_verify_crc32 file file_offset (le32 (drop 8 header)) fs in
                          if crc_err \<noteq> disk_err_none then Inl crc_err
                          else Inr \<lparr>w1_file = file, w1_header = header, w1_tmap_offset = tmap,
                                    w1_trks_offset = trks, w1_trks_record_count = unat trks_size div 6656,
                                    w1_base_offset = file_offset,
                                    w1_format_write_protected = (info_data ! 2 \<noteq> 0),
                                    w1_host_read_only = read_only\<rparr>
                    | _ \<Rightarrow> Inl disk_err_corrupt)
               | _ \<Rightarrow> Inl disk_err_corrupt))"

definition woz1_is_write_protected :: "woz1_instance \<Rightarrow> bool" where
  "woz1_is_write_protected w \<longleftrightarrow> w1_host_read_only w \<or> w1_format_write_protected w"

definition woz1_read_track_bits ::
  "woz1_instance \<Rightarrow> u32 \<Rightarrow> u8 list \<Rightarrow> u32 \<Rightarrow> 'f file_system_scheme \<Rightarrow> disk_error \<times> u8 list \<times> u32" where
  "woz1_read_track_bits w quarter_track bits max_bits fs =
     (if quarter_track \<ge> 160 then (disk_err_invalid_argument, bits, 0)
      else case woz_header_at (w1_header w) (w1_tmap_offset w + unat quarter_track) 1 of
             None \<Rightarrow> (disk_err_corrupt, bits, 0)
           | Some tmap_entry \<Rightarrow>
               let trks_index = tmap_entry ! 0 in
               if trks_index = 0xFF then (disk_err_none, bits, 0)
               else if unat trks_index \<ge> w1_trks_record_count w then (disk_err_corrupt, bits, 0)
               else let record_offset = unat (w1_base_offset w) + w1_trks_offset w + unat trks_index * 6656 in
                 if stream_size (w1_file w) fs \<ge> 0 \<and> int (record_offset + 6656) > stream_size (w1_file w) fs
                 then (disk_err_corrupt, bits, 0)
                 else case fread_at (w1_file w) (record_offset + 6648) 2 fs of
                        None \<Rightarrow> (disk_err_io, bits, 0)
                      | Some count_bytes \<Rightarrow>
                          if length count_bytes \<noteq> 2 then (disk_err_io, bits, 0)
                          else let bit_count = unat (le16 count_bytes) in
                            if bit_count = 0 \<or> bit_count > 6646 * 8 then (disk_err_corrupt, bits, 0)
                            else if bit_count > unat max_bits then (disk_err_unsupported, bits, 0)
                            else read_cells (w1_file w) record_offset bit_count bits fs)"

subsection \<open>WOZ 2\<close>

record woz2_instance =
  w2_file :: nat
  w2_header :: "u8 list"
  w2_tmap_offset :: nat
  w2_trks_offset :: nat
  w2_base_offset :: u32
  w2_optimal_bit_timing :: u8
  w2_format_write_protected :: bool
  w2_host_read_only :: bool

definition woz2_probe :: "u8 list \<Rightarrow> nat \<Rightarrow> string \<Rightarrow> disk_probe" where
  "woz2_probe header file_size ext_hint =
     (if length header < 8 \<or> file_size < 1536 then disk_probe_no
      else if take 8 header = woz_signature ''WOZ2'' then disk_probe_definite else disk_probe_no)"

definition woz2_open :: "string \<Rightarrow> u32 \<Rightarrow> bool \<Rightarrow> 'f file_system_scheme \<Rightarrow> disk_error + woz2_instance" where
  "woz2_open path file_offset read_only fs =
     (case open_image path read_only fs of
        Inl e \<Rightarrow> Inl e
      | Inr (file, host_read_only) \<Rightarrow>
          (case fread_at file (unat file_offset) 1536 fs of
             None \<Rightarrow> Inl disk_err_io
           | Some header \<Rightarrow>
               if length header \<noteq> 1536 then Inl disk_err_io
               else case (woz_find_chunk header (string_bytes ''INFO'') 12,
                          woz_find_chunk header (string_bytes ''TMAP'') 12,
                          woz_find_chunk header (string_bytes ''TRKS'') 12) of
                 (Some (info, _), Some (tmap, _), Some (trks, _)) \<Rightarrow>
                   (case (woz_header_at header info 3, woz_header_at header tmap 160, woz_header_at header trks 8) of
                      (Some info_data, Some _, Some _) \<Rightarrow>
                        if info_data ! 0 \<noteq> 2 \<and> info_data ! 0 \<noteq> 3 then Inl disk_err_unsupported_format
                        else if info_data ! 1 \<noteq> 1 then Inl disk_err_unsupported_format
                        else let timing = (case woz_header_at header (info + 39) 1 of
                                             Some t \<Rightarrow> if t ! 0 \<noteq> 0 then t ! 0 else 32
                                           | None \<Rightarrow> 32);
                                 crc_err = woz_verify_crc32 file file_offset (le32 (drop 8 header)) fs in
                          if crc_err \<noteq> disk_err_none then Inl crc_err
                          else Inr \<lparr>w2_file = file, w2_header = header, w2_tmap_offset = tmap,
                                    w2_trks_offset = trks, w2_base_offset = file_offset,
                                    w2_optimal_bit_timing = timing,
                                    w2_format_write_protected = (info_data ! 2 \<noteq> 0),
                                    w2_host_read_only = host_read_only\<rparr>
                    | _ \<Rightarrow> Inl disk_err_corrupt)
               | _ \<Rightarrow> Inl disk_err_corrupt))"

definition woz2_is_write_protected :: "woz2_instance \<Rightarrow> bool" where
  "woz2_is_write_protected w \<longleftrightarrow> w2_host_read_only w \<or> w2_format_write_protected w"

definition woz2_read_track_bits ::
  "woz2_instance \<Rightarrow> u32 \<Rightarrow> u8 list \<Rightarrow> u32 \<Rightarrow> 'f file_system_scheme \<Rightarrow> disk_error \<times> u8 list \<times> u32" where
  "woz2_read_track_bits w quarter_track bits max_bits fs =
     (if quarter_track \<ge> 160 then (disk_err_invalid_argument, bits, 0)
      else case woz_header_at (w2_header w) (w2_tmap_offset w + unat quarter_track) 1 of
             None \<Rightarrow> (disk_err_corrupt, bits, 0)
           | Some tmap_entry \<Rightarrow>
               let trks_index = tmap_entry ! 0 in
               if trks_index = 0xFF then (disk_err_none, bits, 0)
               else if trks_index \<ge> 160 then (disk_err_corrupt, bits, 0)
               else case woz_header_at (w2_header w) (w2_trks_offset w + unat trks_index * 8) 8 of
                      None \<Rightarrow> (disk_err_corrupt, bits, 0)
                    | Some trk \<Rightarrow>
                        let starting_block = le16 trk; block_count = le16 (drop 2 trk);
                            bit_count = unat (le32 (drop 4 trk)); byte_count = unat block_count * 512;
                            record_offset = unat (w2_base_offset w) + unat starting_block * 512 in
                        if block_count = 0 \<or> starting_block < 3 then (disk_err_corrupt, bits, 0)
                        else if block_count > 17 then (disk_err_unsupported, bits, 0)
                        else if bit_count = 0 \<or> bit_count > byte_count * 8 then (disk_err_corrupt, bits, 0)
                        else if bit_count > unat max_bits then (disk_err_unsupported, bits, 0)
                        else if stream_size (w2_file w) fs \<ge> 0 \<and>
                                int (record_offset + byte_count) > stream_size (w2_file w) fs
                        then (disk_err_corrupt, bits, 0)
                        else read_cells (w2_file w) record_offset bit_count bits fs)"

end
