(* ===== verification/Disk_Loader.thy ===== *)
theory Disk_Loader
  imports Woz_Image Disk_Drive
begin

text \<open>
  The loader of disk images (\<open>src/apple2/peripherals/disk/DiskLoader.cpp\<close>) and the part of
  \<open>src/apple2/media/image_container/ImageContainer.cpp\<close> that is not zlib or libzip: extensions, the
  MacBinary header, the payload name, the bound on decompressed output.

  The libraries are the parameter \<open>archive_library\<close>: what a compressed file unpacks to, as the
  chunks the library hands out and the status it ends with.  A driver is a record of functions;
  the address of its descriptor is \<open>fd_ident\<close>.  An opened image is a value, since only its file
  changes; a handle (driver and instance pointer together) is a number.
\<close>

subsection \<open>Containers\<close>

datatype image_container_error = image_container_ok | image_container_invalid_argument
  | image_container_not_found | image_container_corrupt | image_container_too_large | image_container_io

datatype zlib_status = Z_OK | Z_ERRNO | Z_OTHER

datatype zip_code = ZIP_ER_NOENT | ZIP_ER_OPEN | ZIP_ER_READ | ZIP_ER_SEEK | ZIP_ER_TMPOPEN | ZIP_ER_MEMORY | ZIP_ER_OTHER

text \<open>
  What the libraries and the host answer about an archive's bytes.  A gzip stream is the chunks that
  reading it yields, each with the status after it, whether the last read ended the stream cleanly,
  and the final status; a zip archive is its entries: the name, the compressed size if it is known,
  and what reading the entry yields, with the code it ended with, if it failed.
\<close>

record zip_entry =
  ze_name :: "string option"
  ze_comp_size :: "nat option"
  ze_read :: "zip_code + u8 list list \<times> zip_code option"

record archive_library =
  al_gunzip :: "u8 list \<Rightarrow> (u8 list \<times> zlib_status) list \<times> bool \<times> zlib_status"
  al_zip_entries :: "u8 list \<Rightarrow> zip_code + zip_entry list"
  al_temp_dir :: string
  al_mkstemp :: "string \<Rightarrow> file_system \<Rightarrow> string option"

abbreviation (input) "image_container_ratio_limit \<equiv> (100 :: nat)"
abbreviation (input) "disk_path_max \<equiv> (504 :: nat)"

definition crc16_shift :: "u16 \<Rightarrow> u16" where
  "crc16_shift crc = (if crc AND 0x8000 \<noteq> 0 then push_bit 1 crc XOR 0x1021 else push_bit 1 crc)"

definition crc16_xmodem :: "u8 list \<Rightarrow> u16" where
  "crc16_xmodem bytes = fold (\<lambda>b crc. (crc16_shift ^^ 8) (crc XOR push_bit 8 (ucast b))) bytes 0"

definition image_container_detect_macbinary :: "u8 list \<Rightarrow> nat \<Rightarrow> u32" where
  "image_container_detect_macbinary header file_size =
     (if length header < 128 \<or> file_size \<le> 128 then 0
      else if header ! 0 \<noteq> 0 then 0
      else if header ! 1 = 0 \<or> header ! 1 > 63 then 0
      else if header ! 74 \<noteq> 0 \<or> header ! 82 \<noteq> 0 then 0
      else if header ! 122 \<noteq> 0x81 \<and> header ! 122 \<noteq> 0x82 then 0
      else if header ! 123 \<noteq> 0x81 then 0
      else if crc16_xmodem (take 124 header) \<noteq> push_bit 8 (ucast (header ! 124)) OR ucast (header ! 125) then 0
      else 128)"

definition to_lower :: "char \<Rightarrow> char" where
  "to_lower c = (let n = of_char c :: nat in if 65 \<le> n \<and> n \<le> 90 then char_of (n + 32) else c)"

definition has_extension :: "string \<Rightarrow> string \<Rightarrow> bool" where
  "has_extension path extension =
     (let suffix_len = length extension + 1; dot = length path - suffix_len in
      length path > suffix_len \<and> path ! dot = CHR ''.'' \<and>
      map to_lower (drop (dot + 1) path) = map to_lower extension)"

text \<open>What follows the last separator, if there is one (\<open>strrchr\<close>).\<close>

definition after_last :: "char \<Rightarrow> string \<Rightarrow> string option" where
  "after_last c s = (if c \<in> set s then Some (rev (takeWhile (\<lambda>d. d \<noteq> c) (rev s))) else None)"

definition file_part :: "string \<Rightarrow> string" where
  "file_part path = (case after_last CHR ''/'' path of None \<Rightarrow> path | Some b \<Rightarrow> b)"

definition copy_whole :: "string \<Rightarrow> nat \<Rightarrow> image_container_error + string" where
  "copy_whole src room = (if length src \<ge> room then Inl image_container_invalid_argument else Inr src)"

definition output_exceeds_bound :: "nat \<Rightarrow> nat \<Rightarrow> nat \<Rightarrow> bool" where
  "output_exceeds_bound total_written compressed_size threshold \<longleftrightarrow>
     total_written > threshold \<and>
     (compressed_size = 0 \<or> total_written > compressed_size * image_container_ratio_limit)"

definition map_zip_error_code :: "zip_code \<Rightarrow> image_container_error" where
  "map_zip_error_code code =
     (case code of ZIP_ER_NOENT \<Rightarrow> image_container_not_found
      | ZIP_ER_OTHER \<Rightarrow> image_container_corrupt
      | _ \<Rightarrow> image_container_io)"

text \<open>The decompression loops: chunk by chunk, until the bound, a failed write or the library's end.\<close>

fun gunzip_loop ::
  "bool \<Rightarrow> nat \<Rightarrow> nat \<Rightarrow> (u8 list \<times> zlib_status) list \<Rightarrow> bool \<Rightarrow> zlib_status \<Rightarrow> u8 list \<Rightarrow>
   image_container_error \<times> u8 list" where
  "gunzip_loop writable size_in threshold [] ended final written =
     (if ended \<and> final = Z_OK then image_container_ok
      else if final = Z_ERRNO then image_container_io else image_container_corrupt, written)"
| "gunzip_loop writable size_in threshold ((chunk, status) # chunks) ended final written =
     (if output_exceeds_bound (length written + length chunk) size_in threshold
      then (image_container_too_large, written)
      else if \<not> writable then (image_container_io, written)
      else if status \<noteq> Z_OK
      then (if status = Z_ERRNO then image_container_io else image_container_corrupt, written @ chunk)
      else gunzip_loop writable size_in threshold chunks ended final (written @ chunk))"

definition decompress_gzip ::
  "archive_library \<Rightarrow> bool \<Rightarrow> u8 list \<Rightarrow> nat \<Rightarrow> image_container_error \<times> u8 list" where
  "decompress_gzip al writable archive threshold =
     (case al_gunzip al archive of
        (chunks, ended, final) \<Rightarrow> gunzip_loop writable (length archive) threshold chunks ended final [])"

text \<open>The first entry that is a file and no resource fork of a Macintosh.\<close>

definition is_payload_entry :: "zip_entry \<Rightarrow> bool" where
  "is_payload_entry e \<longleftrightarrow>
     (case ze_name e of None \<Rightarrow> False
      | Some n \<Rightarrow> n \<noteq> [] \<and> List.last n \<noteq> CHR ''/'' \<and> take 9 n \<noteq> ''__MACOSX/'' \<and> take 2 (file_part n) \<noteq> ''._'')"

definition first_payload_entry :: "zip_entry list \<Rightarrow> zip_entry option" where
  "first_payload_entry es = find is_payload_entry es"

fun unzip_loop ::
  "bool \<Rightarrow> nat \<Rightarrow> nat \<Rightarrow> u8 list list \<Rightarrow> zip_code option \<Rightarrow> u8 list \<Rightarrow> image_container_error \<times> u8 list" where
  "unzip_loop writable size_in threshold [] failed written =
     (case failed of None \<Rightarrow> image_container_ok | Some code \<Rightarrow> map_zip_error_code code, written)"
| "unzip_loop writable size_in threshold (chunk # chunks) failed written =
     (if output_exceeds_bound (length written + length chunk) size_in threshold
      then (image_container_too_large, written)
      else if \<not> writable then (image_container_io, written)
      else unzip_loop writable size_in threshold chunks failed (written @ chunk))"

definition entry_size :: "zip_entry \<Rightarrow> u8 list \<Rightarrow> nat" where
  "entry_size e archive =
     (case ze_comp_size e of None \<Rightarrow> length archive | Some n \<Rightarrow> if n > 0 then n else length archive)"

definition decompress_zip ::
  "archive_library \<Rightarrow> bool \<Rightarrow> u8 list \<Rightarrow> nat \<Rightarrow> image_container_error \<times> u8 list" where
  "decompress_zip al writable archive threshold =
     (case al_zip_entries al archive of
        Inl code \<Rightarrow> (map_zip_error_code code, [])
      | Inr es \<Rightarrow>
          (case first_payload_entry es of
             None \<Rightarrow> (image_container_corrupt, [])
           | Some e \<Rightarrow>
               (case ze_read e of
                  Inl code \<Rightarrow> (map_zip_error_code code, [])
                | Inr (chunks, failed) \<Rightarrow>
                    unzip_loop writable (entry_size e archive) threshold chunks failed [])))"

definition decompress ::
  "archive_library \<Rightarrow> bool \<Rightarrow> bool \<Rightarrow> u8 list \<Rightarrow> nat \<Rightarrow> image_container_error \<times> u8 list" where
  "decompress al is_gz writable archive threshold =
     (if is_gz then decompress_gzip al writable archive threshold else decompress_zip al writable archive threshold)"

text \<open>The path to load from, and whether it is a temporary file made here.\<close>

definition image_container_prepare_compressed_path ::
  "archive_library \<Rightarrow> string \<Rightarrow> nat \<Rightarrow> nat \<Rightarrow> file_system \<Rightarrow>
   (image_container_error + string \<times> bool) \<times> file_system" where
  "image_container_prepare_compressed_path al image_path max_path_len threshold fs =
     (if max_path_len = 0 then (Inl image_container_invalid_argument, fs)
      else
        let is_gz = has_extension image_path ''gz''; is_zip = has_extension image_path ''zip'' in
        if \<not> is_gz \<and> \<not> is_zip
        then (case copy_whole image_path max_path_len of Inl e \<Rightarrow> Inl e | Inr p \<Rightarrow> Inr (p, False), fs)
        else
          let tmp_dir = (if al_temp_dir al = [] then ''/tmp'' else al_temp_dir al);
              temp_template = tmp_dir @ ''/linapple_XXXXXX'' in
          if length temp_template \<ge> max_path_len then (Inl image_container_invalid_argument, fs)
          else case al_mkstemp al temp_template fs of
                 None \<Rightarrow> (Inl image_container_io, fs)
               | Some temp \<Rightarrow>
                   (case fopen image_path False fs of
                      Inl e \<Rightarrow> (Inl (if e = ENOENT then image_container_not_found else image_container_io), fs)
                    | Inr n \<Rightarrow>
                        (case decompress al is_gz (\<not> fs_faulty fs (fs_next fs)) (fs_data fs n) threshold of
                           (result, bytes) \<Rightarrow>
                             if result \<noteq> image_container_ok then (Inl result, fs)
                             else case create_exclusive temp bytes fs of
                                    (ok, fs) \<Rightarrow> (if ok then Inr (temp, True) else Inl image_container_io, fs))))"

definition image_container_payload_name ::
  "archive_library \<Rightarrow> string \<Rightarrow> nat \<Rightarrow> file_system \<Rightarrow> image_container_error + string" where
  "image_container_payload_name al image_path max_name_len fs =
     (if max_name_len = 0 then Inl image_container_invalid_argument
      else if has_extension image_path ''zip''
      then case fopen image_path False fs of
             Inl e \<Rightarrow> Inl (if e = ENOENT then image_container_not_found else image_container_io)
           | Inr n \<Rightarrow>
               (case al_zip_entries al (fs_data fs n) of
                  Inl code \<Rightarrow> Inl (map_zip_error_code code)
                | Inr es \<Rightarrow>
                    (case first_payload_entry es of
                       None \<Rightarrow> Inl image_container_corrupt
                     | Some e \<Rightarrow>
                         (case ze_name e of None \<Rightarrow> Inl image_container_corrupt
                          | Some entry \<Rightarrow> copy_whole (file_part entry) max_name_len)))
      else if has_extension image_path ''gz''
      then let base = file_part image_path; stripped = take (length base - 3) base in
           if length stripped \<ge> max_name_len then Inl image_container_invalid_argument else Inr stripped
      else copy_whole (file_part image_path) max_name_len)"

definition container_error_to_disk_error :: "image_container_error \<Rightarrow> disk_error" where
  "container_error_to_disk_error e =
     (case e of image_container_ok \<Rightarrow> disk_err_none
      | image_container_invalid_argument \<Rightarrow> disk_err_invalid_argument
      | image_container_not_found \<Rightarrow> disk_err_file_not_found
      | image_container_corrupt \<Rightarrow> disk_err_corrupt
      | image_container_too_large \<Rightarrow> disk_err_unsupported
      | image_container_io \<Rightarrow> disk_err_io)"


subsection \<open>Drivers\<close>

datatype disk_image = SectorDisk sector_disk_image | NibbleDisk nibble_disk_image | IieDisk iie_instance
  | Woz1Disk woz1_instance | Woz2Disk woz2_instance

record format_driver =
  fd_ident :: nat
  fd_abi_version :: int
  fd_capabilities :: u32
  fd_name :: "string option"
  fd_supported_exts :: "string list"
  fd_probe :: "(u8 list \<Rightarrow> nat \<Rightarrow> string \<Rightarrow> disk_probe) option"
  fd_open :: "(string \<Rightarrow> u32 \<Rightarrow> bool \<Rightarrow> file_system \<Rightarrow> disk_error + disk_image) option"
  fd_has_close :: bool
  fd_is_write_protected :: "(disk_image \<Rightarrow> bool) option"
  fd_read_track_bits ::
    "(disk_image \<Rightarrow> u32 \<Rightarrow> u8 list \<Rightarrow> u32 \<Rightarrow> file_system \<Rightarrow> (disk_error \<times> u8 list \<times> u32) \<times> u8) option"
  fd_write_track_bits :: "(disk_image \<Rightarrow> u32 \<Rightarrow> u8 list \<Rightarrow> u32 \<Rightarrow> file_system \<Rightarrow> disk_error \<times> file_system) option"
  fd_create :: "(string \<Rightarrow> file_system \<Rightarrow> disk_error \<times> file_system) option"

text \<open>An entry point of one driver meets only that driver's own images; on others it would be undefined.\<close>

definition map_image :: "('x \<Rightarrow> disk_image) \<Rightarrow> disk_error + 'x \<Rightarrow> disk_error + disk_image" where
  "map_image f r = (case r of Inl e \<Rightarrow> Inl e | Inr x \<Rightarrow> Inr (f x))"

definition image_is_write_protected :: "disk_image \<Rightarrow> bool" where
  "image_is_write_protected img =
     (case img of SectorDisk i \<Rightarrow> si_host_read_only i | NibbleDisk i \<Rightarrow> ni_host_read_only i
      | IieDisk i \<Rightarrow> ii_host_read_only i | Woz1Disk i \<Rightarrow> woz1_is_write_protected i
      | Woz2Disk i \<Rightarrow> woz2_is_write_protected i)"

definition image_read_track_bits ::
  "disk_image \<Rightarrow> u32 \<Rightarrow> u8 list \<Rightarrow> u32 \<Rightarrow> file_system \<Rightarrow> (disk_error \<times> u8 list \<times> u32) \<times> u8" where
  "image_read_track_bits img q bits max_bits fs =
     (case img of
        SectorDisk i \<Rightarrow> (sector_disk_image_read_track_bits i q bits max_bits fs, disk_default_bit_timing)
      | NibbleDisk i \<Rightarrow> (nibble_disk_image_read_track_bits i q bits max_bits fs, disk_default_bit_timing)
      | IieDisk i \<Rightarrow> (iie_read_track_bits i q bits max_bits fs, disk_default_bit_timing)
      | Woz1Disk i \<Rightarrow> (woz1_read_track_bits i q bits max_bits fs, disk_default_bit_timing)
      | Woz2Disk i \<Rightarrow> (woz2_read_track_bits i q bits max_bits fs, w2_optimal_bit_timing i))"

definition image_write_track_bits ::
  "disk_image \<Rightarrow> u32 \<Rightarrow> u8 list \<Rightarrow> u32 \<Rightarrow> file_system \<Rightarrow> disk_error \<times> file_system" where
  "image_write_track_bits img q bits cells fs =
     (case img of SectorDisk i \<Rightarrow> sector_disk_image_write_track_bits i q bits cells fs
      | NibbleDisk i \<Rightarrow> nibble_disk_image_write_track_bits i q bits cells fs
      | _ \<Rightarrow> (disk_err_invalid_argument, fs))"

definition writable_driver ::
  "nat \<Rightarrow> string \<Rightarrow> string list \<Rightarrow> (u8 list \<Rightarrow> nat \<Rightarrow> string \<Rightarrow> disk_probe) \<Rightarrow>
   (string \<Rightarrow> u32 \<Rightarrow> bool \<Rightarrow> file_system \<Rightarrow> disk_error + disk_image) \<Rightarrow>
   (string \<Rightarrow> file_system \<Rightarrow> disk_error \<times> file_system) \<Rightarrow> format_driver" where
  "writable_driver ident name exts probe open_fn create =
     \<lparr>fd_ident = ident, fd_abi_version = 0, fd_capabilities = 3, fd_name = Some name, fd_supported_exts = exts,
      fd_probe = Some probe, fd_open = Some open_fn, fd_has_close = True,
      fd_is_write_protected = Some image_is_write_protected, fd_read_track_bits = Some image_read_track_bits,
      fd_write_track_bits = Some image_write_track_bits, fd_create = Some create\<rparr>"

definition read_only_driver ::
  "nat \<Rightarrow> string \<Rightarrow> string list \<Rightarrow> (u8 list \<Rightarrow> nat \<Rightarrow> string \<Rightarrow> disk_probe) \<Rightarrow>
   (string \<Rightarrow> u32 \<Rightarrow> bool \<Rightarrow> file_system \<Rightarrow> disk_error + disk_image) \<Rightarrow> format_driver" where
  "read_only_driver ident name exts probe open_fn =
     (writable_driver ident name exts probe open_fn (\<lambda>_ fs. (disk_err_unsupported, fs)))
       \<lparr>fd_capabilities := 0, fd_write_track_bits := None, fd_create := None\<rparr>"

definition do_driver :: format_driver where
  "do_driver = writable_driver 0 ''DOS Order'' [''do'', ''dsk''] do_probe
     (\<lambda>path off ro fs. map_image SectorDisk (sector_disk_image_open path off True ro fs)) sector_disk_image_create"

definition po_driver :: format_driver where
  "po_driver = writable_driver 1 ''ProDOS Order'' [''po''] po_probe
     (\<lambda>path off ro fs. map_image SectorDisk (sector_disk_image_open path off False ro fs)) sector_disk_image_create"

definition nib_driver :: format_driver where
  "nib_driver = writable_driver 2 ''NIB (6656-nibble)'' [''nib''] nib_probe
     (\<lambda>path off ro fs. map_image NibbleDisk (nibble_disk_image_open path off nib_track_size ro fs))
     (\<lambda>path. nibble_disk_image_create path nib_track_size)"

definition nb2_driver :: format_driver where
  "nb2_driver = writable_driver 3 ''NB2 (6384-nibble)'' [''nb2''] nb2_probe
     (\<lambda>path off ro fs. map_image NibbleDisk (nibble_disk_image_open path off nb2_track_size ro fs))
     (\<lambda>path. nibble_disk_image_create path nb2_track_size)"

definition iie_driver :: format_driver where
  "iie_driver = read_only_driver 4 ''IIE'' [''iie''] iie_probe (\<lambda>path off ro fs. map_image IieDisk (iie_open path off ro fs))"

definition woz1_driver :: format_driver where
  "woz1_driver = read_only_driver 5 ''WOZ 1'' [''woz''] woz1_probe (\<lambda>path off ro fs. map_image Woz1Disk (woz1_open path off ro fs))"

definition woz2_driver :: format_driver where
  "woz2_driver = read_only_driver 6 ''WOZ 2'' [''woz''] woz2_probe (\<lambda>path off ro fs. map_image Woz2Disk (woz2_open path off ro fs))"

subsection \<open>The registry\<close>

record loader =
  registry :: "format_driver list"
  permanent_registry :: "format_driver list"
  rejections :: "(string \<times> string) list"

definition empty_loader :: loader where
  "empty_loader = \<lparr>registry = [], permanent_registry = [], rejections = []\<rparr>"

definition driver_label :: "format_driver option \<Rightarrow> string" where
  "driver_label d = (case d of None \<Rightarrow> ''<unnamed>'' | Some d \<Rightarrow> (case fd_name d of None \<Rightarrow> ''<unnamed>'' | Some n \<Rightarrow> n))"

text \<open>Why a descriptor is unusable, if it is.\<close>

definition unusable_reason :: "format_driver option \<Rightarrow> string option" where
  "unusable_reason desc =
     (case desc of None \<Rightarrow> Some ''null driver''
      | Some d \<Rightarrow>
          if fd_abi_version d \<noteq> 0 then Some ''driver ABI version does not match the loader's''
          else if fd_probe d = None \<or> fd_open d = None \<or> \<not> fd_has_close d
          then Some ''probe, open or close missing''
          else if fd_read_track_bits d = None \<or> fd_is_write_protected d = None
          then Some ''read_track_bits or is_write_protected missing''
          else if (fd_capabilities d AND 1 \<noteq> 0) \<noteq> (fd_write_track_bits d \<noteq> None)
          then Some ''write capability disagrees with write_track_bits''
          else if (fd_capabilities d AND 2 \<noteq> 0) \<noteq> (fd_create d \<noteq> None)
          then Some ''create capability disagrees with create''
          else None)"

definition refuse :: "format_driver option \<Rightarrow> string \<Rightarrow> loader \<Rightarrow> loader" where
  "refuse desc reason ld = ld\<lparr>rejections := rejections ld @ [(driver_label desc, reason)]\<rparr>"

definition already_registered :: "format_driver \<Rightarrow> loader \<Rightarrow> bool" where
  "already_registered d ld \<longleftrightarrow> fd_ident d \<in> fd_ident ` set (registry ld)"

definition name_is_taken :: "format_driver \<Rightarrow> loader \<Rightarrow> bool" where
  "name_is_taken d ld \<longleftrightarrow> driver_label (Some d) \<in> (\<lambda>r. driver_label (Some r)) ` set (registry ld)"

definition admit :: "format_driver option \<Rightarrow> loader \<Rightarrow> format_driver option \<times> loader" where
  "admit desc ld =
     (case unusable_reason desc of
        Some reason \<Rightarrow> (None, refuse desc reason ld)
      | None \<Rightarrow>
          (case desc of None \<Rightarrow> (None, ld)
           | Some d \<Rightarrow>
               if already_registered d ld then (None, ld)
               else if name_is_taken d ld then (None, refuse desc ''a driver with this name is already registered'' ld)
               else (Some d, ld)))"

fun strcmp_less :: "string \<Rightarrow> string \<Rightarrow> bool" where
  "strcmp_less [] ys \<longleftrightarrow> ys \<noteq> []"
| "strcmp_less (x # xs) [] \<longleftrightarrow> False"
| "strcmp_less (x # xs) (y # ys) \<longleftrightarrow> of_char x < (of_char y :: nat) \<or> x = y \<and> strcmp_less xs ys"

fun insert_by_name :: "format_driver \<Rightarrow> format_driver list \<Rightarrow> format_driver list" where
  "insert_by_name d [] = [d]"
| "insert_by_name d (e # es) =
     (if strcmp_less (driver_label (Some d)) (driver_label (Some e)) then d # e # es else e # insert_by_name d es)"

definition disk_loader_register :: "format_driver option \<Rightarrow> loader \<Rightarrow> loader" where
  "disk_loader_register desc ld =
     (case admit desc ld of (None, ld) \<Rightarrow> ld | (Some d, ld) \<Rightarrow> ld\<lparr>registry := insert_by_name d (registry ld)\<rparr>)"

definition disk_loader_register_permanent :: "format_driver option \<Rightarrow> loader \<Rightarrow> loader" where
  "disk_loader_register_permanent desc ld =
     (case admit desc ld of (None, ld) \<Rightarrow> ld
      | (Some d, ld) \<Rightarrow> ld\<lparr>permanent_registry := insert_by_name d (permanent_registry ld),
                          registry := insert_by_name d (registry ld)\<rparr>)"

definition disk_loader_reset :: "loader \<Rightarrow> loader" where
  "disk_loader_reset ld = ld\<lparr>registry := permanent_registry ld, rejections := []\<rparr>"

definition disk_loader_drain_rejections :: "loader \<Rightarrow> (string \<times> string) list \<times> loader" where
  "disk_loader_drain_rejections ld = (rejections ld, ld\<lparr>rejections := []\<rparr>)"

text \<open>What the static initializers of the seven format units leave, in any order of them.\<close>

definition registered :: "format_driver list \<Rightarrow> loader" where
  "registered ds = fold (\<lambda>d. disk_loader_register_permanent (Some d)) ds empty_loader"

definition built_in_drivers :: "format_driver list" where
  "built_in_drivers = [do_driver, po_driver, nib_driver, nb2_driver, iie_driver, woz1_driver, woz2_driver]"

subsection \<open>Opening and creating\<close>

definition extension_hint :: "string \<Rightarrow> string" where
  "extension_hint name =
     (case after_last CHR ''.'' name of None \<Rightarrow> [] | Some ext \<Rightarrow> map to_lower (take 15 (CHR ''.'' # ext)))"

fun best_driver ::
  "format_driver list \<Rightarrow> u8 list \<Rightarrow> nat \<Rightarrow> string \<Rightarrow> format_driver option \<Rightarrow> format_driver option" where
  "best_driver [] header file_bytes hint possible = possible"
| "best_driver (d # ds) header file_bytes hint possible =
     (case fd_probe d of None \<Rightarrow> best_driver ds header file_bytes hint possible
      | Some probe \<Rightarrow>
          (case probe header file_bytes hint of
             disk_probe_definite \<Rightarrow> Some d
           | disk_probe_possible \<Rightarrow> best_driver ds header file_bytes hint (if possible = None then Some d else possible)
           | disk_probe_no \<Rightarrow> best_driver ds header file_bytes hint possible))"

definition find_best_driver :: "format_driver list \<Rightarrow> u8 list \<Rightarrow> nat \<Rightarrow> string \<Rightarrow> format_driver option" where
  "find_best_driver ds header file_size payload_name =
     best_driver ds header file_size (extension_hint payload_name) None"

abbreviation (input) "probe_header_size \<equiv> (81920 :: nat)"
abbreviation (input) "floppy_decompression_threshold \<equiv> (4194304 :: nat)"

definition has_container_extension :: "string \<Rightarrow> bool" where
  "has_container_extension path =
     (case after_last CHR ''.'' (file_part path) of None \<Rightarrow> False
      | Some ext \<Rightarrow> map to_lower ext = ''gz'' \<or> map to_lower ext = ''zip'')"

text \<open>What is done with the path to load once it is known: look, probe, open.\<close>

definition open_prepared ::
  "archive_library \<Rightarrow> loader \<Rightarrow> string \<Rightarrow> string \<Rightarrow> bool \<Rightarrow> file_system \<Rightarrow>
   disk_error + format_driver \<times> disk_image" where
  "open_prepared al ld image_path load_path is_temporary fs =
     (case fopen load_path False fs of
        Inl _ \<Rightarrow> Inl disk_err_file_not_found
      | Inr n \<Rightarrow>
          let raw = stream_size n fs in
          if raw < 0 then Inl disk_err_io
          else if raw > 4294967295 then Inl disk_err_unsupported
          else let size = nat raw;
                   header = (case fread_at n 0 probe_header_size fs of None \<Rightarrow> [] | Some h \<Rightarrow> h);
                   file_offset = image_container_detect_macbinary header size in
            if unat file_offset > size then Inl disk_err_corrupt
            else let payload = (case image_container_payload_name al image_path disk_path_max fs of Inl _ \<Rightarrow> [] | Inr p \<Rightarrow> p) in
              (case find_best_driver (registry ld) (drop (unat file_offset) header) (size - unat file_offset) payload of
                 None \<Rightarrow> Inl disk_err_unsupported_format
               | Some d \<Rightarrow>
                   (case fd_open d of None \<Rightarrow> Inl disk_err_unsupported
                    | Some open_fn \<Rightarrow> (case open_fn load_path file_offset is_temporary fs of
                                        Inl e \<Rightarrow> Inl e | Inr img \<Rightarrow> Inr (d, img)))))"

definition disk_loader_open ::
  "archive_library \<Rightarrow> loader \<Rightarrow> string \<Rightarrow> file_system \<Rightarrow> (disk_error + format_driver \<times> disk_image) \<times> file_system" where
  "disk_loader_open al ld image_path fs =
     (case image_container_prepare_compressed_path al image_path disk_path_max floppy_decompression_threshold fs of
        (Inl e, fs) \<Rightarrow> (Inl (container_error_to_disk_error e), fs)
      | (Inr (load_path, is_temporary), fs) \<Rightarrow>
          (open_prepared al ld image_path load_path is_temporary fs,
           if is_temporary then unlink load_path fs else fs))"

definition disk_loader_create :: "loader \<Rightarrow> string \<Rightarrow> string \<Rightarrow> file_system \<Rightarrow> disk_error \<times> file_system" where
  "disk_loader_create ld path driver_name fs =
     (if path = [] then (disk_err_invalid_argument, fs)
      else if has_container_extension path then (disk_err_invalid_argument, fs)
      else if fs_names fs path \<noteq> None then (disk_err_io, fs)
      else case find (\<lambda>d. fd_name d = Some driver_name) (registry ld) of
             None \<Rightarrow> (disk_err_unsupported_format, fs)
           | Some d \<Rightarrow>
               (case fd_create d of None \<Rightarrow> (disk_err_unsupported, fs)
                | Some create \<Rightarrow> (case create path fs of
                                   (e, fs) \<Rightarrow> (e, if e \<noteq> disk_err_none then unlink path fs else fs))))"

definition disk_loader_get_supported_extensions :: "loader \<Rightarrow> string list" where
  "disk_loader_get_supported_extensions ld =
     rev (remdups (rev (concat (map fd_supported_exts (registry ld)) @ [''gz'', ''zip''])))"

subsection \<open>The interface the card uses\<close>

record disk_media =
  md_files :: file_system
  md_images :: "nat \<Rightarrow> disk_image"
  md_next :: nat

definition handle_driver :: "loader \<Rightarrow> nat \<Rightarrow> format_driver option" where
  "handle_driver ld h = find (\<lambda>d. fd_ident d = h mod 8) (registry ld)"

definition media_open :: "archive_library \<Rightarrow> loader \<Rightarrow> string \<Rightarrow> disk_media \<Rightarrow> (disk_error + nat) \<times> disk_media" where
  "media_open al ld path g =
     (case disk_loader_open al ld path (md_files g) of
        (Inl e, fs) \<Rightarrow> (Inl e, g\<lparr>md_files := fs\<rparr>)
      | (Inr (d, img), fs) \<Rightarrow>
          (Inr (8 * md_next g + fd_ident d),
           g\<lparr>md_files := fs, md_images := (md_images g)(md_next g := img), md_next := md_next g + 1\<rparr>))"

definition media_read :: "nat \<Rightarrow> u32 \<Rightarrow> u8 list \<Rightarrow> u32 \<Rightarrow> disk_media \<Rightarrow> disk_error \<times> u8 list \<times> u32 \<times> u8 \<times> disk_media" where
  "media_read h q bits max_bits g =
     (case image_read_track_bits (md_images g (h div 8)) q bits max_bits (md_files g) of
        ((e, bits, n), timing) \<Rightarrow> (e, bits, n, timing, g))"

definition media_write :: "nat \<Rightarrow> u32 \<Rightarrow> u8 list \<Rightarrow> u32 \<Rightarrow> disk_media \<Rightarrow> disk_error \<times> disk_media" where
  "media_write h q bits cells g =
     (case image_write_track_bits (md_images g (h div 8)) q bits cells (md_files g) of
        (e, fs) \<Rightarrow> (e, g\<lparr>md_files := fs\<rparr>))"

definition media_api :: "archive_library \<Rightarrow> loader \<Rightarrow> disk_media format_api" where
  "media_api al ld =
     \<lparr>fa_open = media_open al ld, fa_close = (\<lambda>_ g. g),
      fa_can_write = (\<lambda>h. case handle_driver ld h of None \<Rightarrow> False | Some d \<Rightarrow> fd_capabilities d AND 1 \<noteq> 0),
      fa_is_write_protected = (\<lambda>h g. image_is_write_protected (md_images g (h div 8))),
      fa_read_track_bits = media_read,
      fa_write_track_bits = (\<lambda>h. case handle_driver ld h of None \<Rightarrow> None
                             | Some d \<Rightarrow> if fd_write_track_bits d = None then None else Some (media_write h)),
      fa_create = (\<lambda>path name g. case disk_loader_create ld path name (md_files g) of
                     (e, fs) \<Rightarrow> (e, g\<lparr>md_files := fs\<rparr>))\<rparr>"

end
