(* ===== verification/Disk_Loader_Props.thy ===== *)
theory Disk_Loader_Props
  imports Disk_Loader "HOL-Library.Multiset"
begin

text \<open>
  The loader: the order of its registry does not depend on the order in which the drivers' units
  are initialized, and a compressed image cannot fill the host's disk.
\<close>

subsection \<open>The order of names\<close>

lemma strcmp_lexord:
  "strcmp_less xs ys \<longleftrightarrow> (map of_char xs, map of_char ys) \<in> lexord {(a :: nat, b). a < b}"
  by (induction xs ys rule: strcmp_less.induct) (auto simp: neq_Nil_conv)

lemma strcmp_irrefl [simp]: "\<not> strcmp_less xs xs"
  by (induction xs) simp_all

lemma strcmp_trans: "strcmp_less xs ys \<Longrightarrow> strcmp_less ys zs \<Longrightarrow> strcmp_less xs zs"
  unfolding strcmp_lexord by (rule lexord_trans) (auto simp: trans_def)

lemma strcmp_total: "xs \<noteq> ys \<Longrightarrow> strcmp_less xs ys \<or> strcmp_less ys xs"
proof -
  assume "xs \<noteq> ys"
  then have "map of_char xs \<noteq> (map of_char ys :: nat list)"
    by (metis inj_map_eq_map inj_of_char)
  then show ?thesis
    unfolding strcmp_lexord
    using lexord_linear [of "{(a :: nat, b). a < b}" "map of_char xs" "map of_char ys"] linorder_less_linear by blast
qed

abbreviation (input) "label d \<equiv> driver_label (Some d)"

lemma insert_by_name_commute:
  assumes "label x \<noteq> label y"
  shows "insert_by_name x (insert_by_name y ds) = insert_by_name y (insert_by_name x ds)"
proof (induction ds)
  case Nil
  then show ?case using strcmp_total [OF assms] strcmp_trans [of "label x" "label y" "label x"] by auto
next
  case (Cons d ds)
  then show ?case
    using strcmp_total [OF assms] strcmp_trans [of "label x" "label y" "label x"]
      strcmp_trans [of "label x" "label y" "label d"] strcmp_trans [of "label y" "label x" "label d"] by auto
qed

subsection \<open>The registry\<close>

lemma set_insert_by_name: "set (insert_by_name d ds) = insert d (set ds)"
  by (induction ds) auto

definition acceptable :: "format_driver list \<Rightarrow> bool" where
  "acceptable ds \<longleftrightarrow> list_all (\<lambda>d. unusable_reason (Some d) = None) ds \<and>
     distinct (map fd_ident ds) \<and> distinct (map label ds)"

lemma registers_acceptable:
  assumes "acceptable ds" "set (registry ld) \<inter> set ds = {}"
    "\<forall>d \<in> set ds. \<forall>r \<in> set (registry ld). fd_ident d \<noteq> fd_ident r \<and> label d \<noteq> label r"
  shows "fold (\<lambda>d. disk_loader_register_permanent (Some d)) ds ld =
    ld\<lparr>registry := fold insert_by_name ds (registry ld),
       permanent_registry := fold insert_by_name ds (permanent_registry ld)\<rparr>"
  using assms
proof (induction ds arbitrary: ld)
  case (Cons d ds)
  have "\<not> already_registered d ld" "\<not> name_is_taken d ld"
    using Cons.prems(3) by (auto simp: already_registered_def name_is_taken_def)
  then have d: "disk_loader_register_permanent (Some d) ld =
      ld\<lparr>permanent_registry := insert_by_name d (permanent_registry ld), registry := insert_by_name d (registry ld)\<rparr>"
    using Cons.prems(1) by (simp add: disk_loader_register_permanent_def admit_def acceptable_def)
  have "acceptable ds" using Cons.prems(1) by (simp add: acceptable_def)
  moreover have "fd_ident e \<noteq> fd_ident d \<and> label e \<noteq> label d" if "e \<in> set ds" for e
    using Cons.prems(1) that unfolding acceptable_def by (auto simp: image_iff)
  ultimately show ?case
    using Cons.prems(2,3) unfolding fold_Cons o_def d
    by (subst Cons.IH) (auto simp: set_insert_by_name)
qed simp

lemma registered_acceptable:
  "acceptable ds \<Longrightarrow> registered ds = \<lparr>registry = fold insert_by_name ds [],
     permanent_registry = fold insert_by_name ds [], rejections = []\<rparr>"
  using registers_acceptable [of ds empty_loader] by (simp add: registered_def empty_loader_def)

text \<open>
  C39. The registry does not depend on the link order.  The format units register themselves from
  static initializers, whose order across units the language leaves open; for drivers that are
  usable and differ in name and identity, any order of registration leaves the same registry, with
  nothing rejected, so which driver opens an ambiguous image is settled by the names alone.
\<close>

theorem registration_order_irrelevant:
  assumes "acceptable ds" "mset ds' = mset ds"
  shows "registered ds' = registered ds \<and> rejections (registered ds) = [] \<and> set (registry (registered ds)) = set ds"
proof -
  have acc: "acceptable ds'"
  proof -
    have "mset (map fd_ident ds') = mset (map fd_ident ds)" "mset (map label ds') = mset (map label ds)"
      using assms(2) by simp_all
    then have "distinct (map fd_ident ds') = distinct (map fd_ident ds)" "distinct (map label ds') = distinct (map label ds)"
      by (metis mset_eq_imp_distinct_iff)+
    then show ?thesis using assms by (simp add: acceptable_def list_all_iff mset_eq_setD [OF assms(2)])
  qed
  have "fold insert_by_name ds' = fold insert_by_name ds"
  proof (rule fold_multiset_equiv [OF _ assms(2)])
    fix x y assume "x \<in> set ds'" "y \<in> set ds'"
    then have "x = y \<or> label x \<noteq> label y"
      using acc by (auto simp: acceptable_def distinct_map inj_on_def)
    then show "insert_by_name x \<circ> insert_by_name y = insert_by_name y \<circ> insert_by_name x"
      by (auto simp: fun_eq_iff insert_by_name_commute)
  qed
  moreover have "set (fold insert_by_name ds es) = set ds \<union> set es" for ds es
    by (induction ds arbitrary: es) (auto simp: set_insert_by_name)
  ultimately show ?thesis by (simp add: registered_acceptable [OF assms(1)] registered_acceptable [OF acc])
qed

lemma built_in_acceptable: "acceptable built_in_drivers"
  by (simp add: acceptable_def built_in_drivers_def do_driver_def po_driver_def nib_driver_def nb2_driver_def
      iie_driver_def woz1_driver_def woz2_driver_def writable_driver_def read_only_driver_def unusable_reason_def
      driver_label_def)

lemma registration_order_irrelevant_witness:
  "registered (rev built_in_drivers) = registered built_in_drivers \<and> rejections (registered built_in_drivers) = []"
  using registration_order_irrelevant [OF built_in_acceptable, of "rev built_in_drivers"] by simp

subsection \<open>Decompression\<close>

lemma gunzip_loop_bound:
  "length written \<le> max threshold (size_in * 100) \<Longrightarrow>
     length (snd (gunzip_loop writable size_in threshold chunks ended final written)) \<le> max threshold (size_in * 100)"
  by (induction writable size_in threshold chunks ended final written rule: gunzip_loop.induct)
    (auto simp: output_exceeds_bound_def)

lemma unzip_loop_bound:
  "length written \<le> max threshold (size_in * 100) \<Longrightarrow>
     length (snd (unzip_loop writable size_in threshold chunks failed written)) \<le> max threshold (size_in * 100)"
  by (induction writable size_in threshold chunks failed written rule: unzip_loop.induct)
    (auto simp: output_exceeds_bound_def)

text \<open>The size the bound is taken of: the archive's, or the entry's as the archive's directory has it.\<close>

definition compressed_size_of :: "archive_library \<Rightarrow> bool \<Rightarrow> u8 list \<Rightarrow> nat" where
  "compressed_size_of al is_gz archive =
     (if is_gz then length archive
      else case al_zip_entries al archive of Inl _ \<Rightarrow> length archive
           | Inr es \<Rightarrow> (case first_payload_entry es of None \<Rightarrow> length archive | Some e \<Rightarrow> entry_size e archive))"

lemma decompress_bound:
  "length (snd (decompress al is_gz writable archive threshold))
     \<le> max threshold (compressed_size_of al is_gz archive * 100)"
  using gunzip_loop_bound [of "[]"] unzip_loop_bound [of "[]"]
  by (auto simp: decompress_def decompress_gzip_def decompress_zip_def compressed_size_of_def
      split: prod.split sum.split option.split)


text \<open>A library whose archives hold their contents ten times over, and an archive of three bytes.\<close>

definition tenfold_archives :: archive_library where
  "tenfold_archives = \<lparr>al_gunzip = (\<lambda>bytes. (replicate 10 (bytes, Z_OK), True, Z_OK)),
     al_zip_entries = (\<lambda>_. Inl ZIP_ER_OTHER), al_temp_dir = [], al_mkstemp = (\<lambda>_ _. Some ''t'')\<rparr>"

definition archive_host :: file_system where
  "archive_host = \<lparr>fs_names = [''a.gz'' \<mapsto> 0], fs_data = (\<lambda>_. [1, 2, 3]), fs_read_only = (\<lambda>_. False),
     fs_unreadable = (\<lambda>_. False), fs_faulty = (\<lambda>_. False), fs_unwritable_dir = (\<lambda>_. False), fs_next = 5\<rparr>"


end
