(* ===== verification/Disk_Invariant.thy ===== *)
theory Disk_Invariant
  imports Disk_Controller
begin

text \<open>
  The invariant of the Disk II card, against the interface of the format drivers.

  The locale \<open>format_drivers\<close> states what the card relies on: a driver keeps the caller's buffer,
  never reports more cells than asked for, and always names a cell time.  Under it every entry point
  keeps both drives well formed - the head on the disk, the cell under it inside the track and the
  buffer, the fraction of a cell within its byte - and the loop that passes cells ends.
\<close>

locale format_drivers =
  fixes fa :: "'g format_api" and media_ok :: "'g \<Rightarrow> bool"
  assumes open_keeps: "media_ok g \<Longrightarrow> media_ok (snd (fa_open fa path g))"
    and close_keeps: "media_ok g \<Longrightarrow> media_ok (fa_close fa h g)"
    and create_keeps: "media_ok g \<Longrightarrow> media_ok (snd (fa_create fa path name g))"
    and write_keeps: "media_ok g \<Longrightarrow> fa_write_track_bits fa h = Some w \<Longrightarrow> media_ok (snd (w q bits n g))"
    and read_answer: "media_ok g \<Longrightarrow> fa_read_track_bits fa h q bits room g = (e, bits', n, t, g') \<Longrightarrow>
      unat room \<le> 8 * length bits \<Longrightarrow>
      media_ok g' \<and> length bits' = length bits \<and> t \<noteq> 0 \<and> (e = disk_err_none \<longrightarrow> n \<le> room)"

subsection \<open>Well-formed drives\<close>

definition drive_ok :: "disk \<Rightarrow> bool" where
  "drive_ok d \<longleftrightarrow> bit_timing d \<noteq> 0 \<and> unat (quarter_track d) < quarter_tracks_per_disk \<and> zero_cell_run d \<le> 3 \<and>
     0 \<le> cell_remaining d \<and> cell_remaining d < 256 \<and>
     (if bit_count d = 0 then bit_position d = 0
      else bit_position d < bit_count d \<and> bit_count d \<le> max_track_bits \<and> track_bit_bytes \<le> length (track_bits d))"

definition card_ok :: "disk_card \<Rightarrow> bool" where
  "card_ok dp \<longleftrightarrow> active_drive_index dp < 2 \<and> unat (quarter_track_before_release dp) < quarter_tracks_per_disk \<and>
     (\<forall>k. drive_ok (drives dp k))"

lemma drive_ok_new [simp]: "drive_ok new_disk"
  by (simp add: drive_ok_def new_disk_def)

lemma card_ok_new [simp]: "card_ok (new_disk_card slot)"
  by (simp add: card_ok_def new_disk_card_def)

lemma card_ok_drive: "card_ok dp \<Longrightarrow> drive_ok (drives dp k)"
  by (simp add: card_ok_def)

lemma card_ok_active: "card_ok dp \<Longrightarrow> drive_ok (active_drive dp)"
  by (simp add: card_ok_def active_drive_def)

lemma put_drive_ok: "card_ok dp \<Longrightarrow> drive_ok d \<Longrightarrow> card_ok (put_drive k d dp)"
  by (simp add: card_ok_def put_drive_def)

lemma put_active_ok: "card_ok dp \<Longrightarrow> drive_ok d \<Longrightarrow> card_ok (put_active d dp)"
  by (simp add: put_active_def put_drive_ok)

lemma active_index_eq: "card_ok dp \<Longrightarrow> active_index dp = unat (active_drive_index dp)"
  by (simp add: card_ok_def active_index_def)

text \<open>Fields the invariant does not speak of.\<close>

lemma drive_ok_frame [simp]:
  "drive_ok (d\<lparr>is_dirty := b\<rparr>) = drive_ok d" "drive_ok (d\<lparr>driver := h\<rparr>) = drive_ok d"
  "drive_ok (d\<lparr>is_data_loaded := b\<rparr>) = drive_ok d" "drive_ok (d\<lparr>motor_enable_cycles := u\<rparr>) = drive_ok d"
  "drive_ok (d\<lparr>write_light_cycles := u\<rparr>) = drive_ok d" "drive_ok (d\<lparr>last_error := e\<rparr>) = drive_ok d"
  "drive_ok (d\<lparr>is_user_write_protected := b\<rparr>) = drive_ok d" "drive_ok (d\<lparr>full_path := s\<rparr>) = drive_ok d"
  by (simp_all add: drive_ok_def)

lemma card_ok_frame [simp]:
  "card_ok (dp\<lparr>io_latch := a\<rparr>) = card_ok dp" "card_ok (dp\<lparr>last_bus_write := a\<rparr>) = card_ok dp"
  "card_ok (dp\<lparr>stepper_phase_mask := w\<rparr>) = card_ok dp" "card_ok (dp\<lparr>is_motor_on := b\<rparr>) = card_ok dp"
  "card_ok (dp\<lparr>sequencer := s\<rparr>) = card_ok dp" "card_ok (dp\<lparr>disk_synced := u\<rparr>) = card_ok dp"
  "card_ok (dp\<lparr>noise_seed := u\<rparr>) = card_ok dp" "card_ok (dp\<lparr>card_cycles := u\<rparr>) = card_ok dp"
  "card_ok (dp\<lparr>magnet_release_cycle := u\<rparr>) = card_ok dp" "card_ok (dp\<lparr>magnet_released := b\<rparr>) = card_ok dp"
  by (simp_all add: card_ok_def)

lemma put_sequencer_ok [simp]: "card_ok (put_sequencer f dp) = card_ok dp"
  by (simp add: put_sequencer_def)

subsection \<open>The sequencer\<close>

lemma set_cell_length [simp]: "length (set_cell pulse i bits) = length bits"
  by (simp add: set_cell_def Let_def)

lemma noise_pulse_ok: "noise_pulse dp = (b, dp') \<Longrightarrow> card_ok dp' = card_ok dp"
  by (auto simp: noise_pulse_def Let_def)

definition running_ok :: "running \<Rightarrow> bool" where
  "running_ok = (\<lambda>(dp, d). card_ok dp \<and> drive_ok d)"

text \<open>The invariant while cells pass: the fraction of a cell may be below zero.\<close>

definition passing_ok :: "disk \<Rightarrow> bool" where
  "passing_ok d \<longleftrightarrow> drive_ok (d\<lparr>cell_remaining := 0\<rparr>) \<and> bit_count d \<noteq> 0 \<and> cell_remaining d < 256"

lemma commit_ok:
  "card_ok dp \<Longrightarrow> passing_ok d \<Longrightarrow> commit_write_cell (dp, d) = (dp', d') \<Longrightarrow>
     card_ok dp' \<and> passing_ok d' \<and> cell_remaining d' = cell_remaining d"
  by (auto simp: commit_write_cell_def Let_def passing_ok_def drive_ok_def)

lemma zero_run_step: "(z :: u8) < 3 \<Longrightarrow> z + 1 \<le> 3"
  by (simp add: word_less_nat_alt word_le_nat_alt unat_word_ariths)

lemma pass_cell_ok:
  assumes "card_ok dp" "passing_ok d" "cell_remaining d < 0" "pass_cell w (p, dp, d) = (p', dp', d')"
  shows "card_ok dp' \<and> passing_ok d' \<and> cell_remaining d < cell_remaining d'"
proof -
  obtain dp1 d1 where c: "(if w then commit_write_cell (dp, d) else (dp, d)) = (dp1, d1)" by force
  have ok: "card_ok dp1" "passing_ok d1" "cell_remaining d1 = cell_remaining d"
    using assms(1,2) c commit_ok [of dp d dp1 d1] by (auto split: if_splits)
  have "bit_timing d1 \<noteq> 0" using ok(2) by (simp add: passing_ok_def drive_ok_def)
  then have t: "0 < uint (bit_timing d1)" using uint_ge_0 [of "bit_timing d1"] by (metis less_le uint_0_iff)
  obtain b dp2 where n: "noise_pulse dp1 = (b, dp2)" by force
  have small: "uint (bit_timing d1) < 2 ^ LENGTH(8)" by (rule unsigned_less)
  have pos: "(bit_position d1 + 1) mod bit_count d1 < bit_count d1"
    using ok(2) by (intro word_mod_less_divisor) (simp add: passing_ok_def word_gt_0)
  have "card_ok dp2" using noise_pulse_ok [OF n] ok(1) by simp
  then show ?thesis
    using assms(3,4) ok t small pos zero_run_step [of "zero_cell_run d1"]
    by (auto simp: pass_cell_def c n passing_ok_def drive_ok_def not_less split: if_splits)
qed

lemma pass_cells_ok:
  assumes "card_ok dp" "passing_ok d"
  shows "\<exists>p' dp' d'. pass_cells w (dp, d) = Some (p', dp', d') \<and> card_ok dp' \<and> passing_ok d' \<and> 0 \<le> cell_remaining d'"
proof -
  let ?P = "\<lambda>(p, dp, d). card_ok dp \<and> passing_ok d"
  let ?b = "\<lambda>(_ :: bool, _ :: disk_card, d). cell_remaining d < 0"
  let ?f = "\<lambda>(_ :: bool, _ :: disk_card, d). nat (- cell_remaining d)"
  have step: "?P (pass_cell w s) \<and> ?f (pass_cell w s) < ?f s" if s: "?P s" "?b s" for s
  proof -
    obtain p dp d where e: "s = (p, dp, d)" by (metis surj_pair)
    obtain p' dp' d' where r: "pass_cell w (p, dp, d) = (p', dp', d')" by (metis surj_pair)
    show ?thesis using s pass_cell_ok [OF _ _ _ r] by (auto simp: e r)
  qed
  have init: "?P (False, dp, d)" using assms by simp
  have "\<exists>t. while_option ?b (pass_cell w) (False, dp, d) = Some t"
    by (rule measure_while_option_Some [where P = ?P and f = ?f and b = ?b, OF step init])
  then obtain t where t: "while_option ?b (pass_cell w) (False, dp, d) = Some t" by blast
  have "?P t" by (rule while_option_rule [where P = ?P and b = ?b, OF conjunct1 [OF step] t init])
  moreover have "\<not> ?b t" by (rule while_option_stop [OF t])
  ultimately show ?thesis
    using t unfolding pass_cells_def by (cases t) (simp add: not_less)
qed

lemma advance_ok:
  assumes "running_ok r" "advance_medium_one_step w r = (p, r')"
  shows "running_ok r'"
proof -
  obtain dp d where r: "r = (dp, d)" by force
  have ok: "card_ok dp" "drive_ok d" using assms(1) by (auto simp: r running_ok_def)
  show ?thesis
  proof (cases "bit_count d = 0")
    case True
    then show ?thesis
      using assms(2) ok noise_pulse_ok by (auto simp: r advance_medium_one_step_def running_ok_def split: prod.splits)
  next
    case False
    let ?d = "d\<lparr>cell_remaining := cell_remaining d - 4\<rparr>"
    have "passing_ok ?d" using ok(2) False by (simp add: passing_ok_def drive_ok_def)
    from pass_cells_ok [OF ok(1) this, of w] show ?thesis
      using assms(2) False by (auto simp: r advance_medium_one_step_def running_ok_def passing_ok_def drive_ok_def)
  qed
qed

lemma sequencer_step_ok: "running_ok r \<Longrightarrow> running_ok (sequencer_step prot w r)"
  using advance_ok [of r w] by (auto simp: sequencer_step_def Let_def running_ok_def split: prod.splits)

lemma sequencer_steps_ok: "running_ok r \<Longrightarrow> running_ok ((sequencer_step prot w ^^ n) r)"
  by (induction n) (simp_all add: sequencer_step_ok)


subsection \<open>The medium and the stepper\<close>

lemma rescale_ok:
  "drive_ok (d\<lparr>bit_position := 0\<rparr>) \<Longrightarrow> drive_ok (rescale_head_angle p c d) \<or> c = 0 \<and> bit_count d \<noteq> 0"
proof -
  assume ok: "drive_ok (d\<lparr>bit_position := 0\<rparr>)"
  let ?m = "((ucast p * ucast (bit_count d) :: u64) div ucast c + 7) mod ucast (bit_count d)"
  have "ucast ?m < bit_count d" if n: "bit_count d \<noteq> 0"
  proof -
    have u: "unat (ucast (bit_count d) :: u64) = unat (bit_count d)"
      by (simp add: unsigned_ucast_eq take_bit_nat_eq_self_iff order_less_trans [OF unsigned_less])
    then have "unat ?m < unat (bit_count d)" using n by (simp add: unat_mod_distrib unat_gt_0)
    moreover have "unat (ucast ?m :: u32) \<le> unat ?m" by (simp add: unsigned_ucast_eq take_bit_nat_less_eq_self)
    ultimately show ?thesis by (simp add: word_less_nat_alt)
  qed
  then show ?thesis using ok by (auto simp: rescale_head_angle_def drive_ok_def Let_def)
qed

lemma fold_invariant: "P x \<Longrightarrow> (\<And>a x. a \<in> set as \<Longrightarrow> P x \<Longrightarrow> P (f a x)) \<Longrightarrow> P (fold f as x)"
  by (induction as arbitrary: x) auto

definition room_for :: "nat \<Rightarrow> disk \<Rightarrow> bool" where
  "room_for n d \<longleftrightarrow> drive_ok d \<and> unat (bit_count d) = n \<and> track_bit_bytes \<le> length (track_bits d)"

lemma write_medium_byte_room: "room_for n d \<Longrightarrow> room_for n (write_medium_byte v d)"
proof -
  assume "room_for n d"
  then show ?thesis
    unfolding write_medium_byte_def
  proof (rule fold_invariant)
    fix i d assume r: "room_for n d"
    have "(bit_position d + 1) mod bit_count d < bit_count d" if "bit_count d \<noteq> 0"
      using that by (intro word_mod_less_divisor) (simp add: word_gt_0)
    with r show "room_for n (advance_medium 1 (d\<lparr>track_bits :=
        set_cell (bit v (7 - i)) (unat (bit_position d)) (track_bits d)\<rparr>))"
      by (auto simp: room_for_def advance_medium_def drive_ok_def)
  qed
qed

lemma encode_ok:
  assumes "drive_ok d" "track_bit_bytes \<le> length (track_bits d)" "length bytes \<le> nibbles_per_track"
  shows "drive_ok (encode_medium_bytes bytes d)"
proof -
  let ?d = "d\<lparr>bit_position := 0, bit_count := of_nat (length bytes) * 8\<rparr>"
  have n: "unat (of_nat (length bytes) * 8 :: u32) = length bytes * 8"
    using assms(3) by (simp add: unat_word_ariths unat_of_nat)
  then have "room_for (length bytes * 8) ?d"
    using assms by (auto simp: room_for_def drive_ok_def word_le_nat_alt word_less_nat_alt)
  then have "room_for (length bytes * 8) (fold write_medium_byte bytes ?d)"
    by (rule fold_invariant) (rule write_medium_byte_room)
  then show ?thesis
    by (auto simp: encode_medium_bytes_def Let_def room_for_def drive_ok_def word_gt_0)
qed

lemma settled_track: "unat (word_of_int (max 0 (min 159 x)) :: u32) < quarter_tracks_per_disk"
proof -
  have "0 \<le> max 0 (min 159 x)" "max 0 (min 159 x) < 160" by auto
  then show ?thesis by (simp add: unsigned_of_int take_bit_int_eq_self nat_less_iff)
qed

definition system_ok :: "('g \<Rightarrow> bool) \<Rightarrow> disk_card \<times> 'g \<Rightarrow> bool" where
  "system_ok media_ok = (\<lambda>(dp, g). card_ok dp \<and> media_ok g)"

lemma system_ok_pair [simp]: "system_ok media_ok (dp, g) \<longleftrightarrow> card_ok dp \<and> media_ok g"
  by (simp add: system_ok_def)

subsection \<open>Calls of the card\<close>

text \<open>What the machine and the frontend ask of a card that is plugged in.\<close>

datatype disk_call = DiskRead u16 u32 | DiskWrite u16 u8 u32 | DiskThink u32 | DiskReset | DiskShutdown
  | DiskCommand u32 "u8 list" | DiskLoad "disk_saved_state option"

primrec disk_do :: "'g format_api \<Rightarrow> nat \<Rightarrow> disk_call \<Rightarrow> ('g, 'a) disks_scheme \<Rightarrow> ('g, 'a) disks_scheme" where
  "disk_do fa i (DiskRead addr t) m = snd (disk_io_read fa (Some i) addr 0 t m)"
| "disk_do fa i (DiskWrite addr v t) m = snd (disk_io_write fa (Some i) addr 1 v t m)"
| "disk_do fa i (DiskThink t) m = disk_abi_think fa (Some i) t m"
| "disk_do fa i DiskReset m = disk_abi_reset fa (Some i) m"
| "disk_do fa i DiskShutdown m = disk_abi_shutdown fa (Some i) m"
| "disk_do fa i (DiskCommand cmd data) m = snd (disk_abi_command fa (Some i) cmd data m)"
| "disk_do fa i (DiskLoad state) m = snd (disk_abi_load_state fa (Some i) state m)"

definition host_ok :: "('g \<Rightarrow> bool) \<Rightarrow> nat \<Rightarrow> ('g, 'a) disks_scheme \<Rightarrow> bool" where
  "host_ok media_ok i m \<longleftrightarrow> system_ok media_ok (dcards m i, media m)"

lemma on_card_ok: "host_ok P i m \<Longrightarrow> (\<And>x. system_ok P x \<Longrightarrow> system_ok P (f x)) \<Longrightarrow> host_ok P i (on_card i f m)"
  by (simp add: host_ok_def on_card_def del: system_ok_pair split: prod.split) (metis fun_upd_same)

lemma on_card_pair:
  "host_ok P i m \<Longrightarrow> (\<And>dp g. system_ok P (dp, g) \<Longrightarrow> system_ok P (f (dp, g))) \<Longrightarrow> host_ok P i (on_card i f m)"
  by (rule on_card_ok) auto

lemma on_card_only: "host_ok P i m \<Longrightarrow> (\<And>dp. card_ok dp \<Longrightarrow> card_ok (f dp)) \<Longrightarrow>
    host_ok P i (on_card i (\<lambda>(dp, g). (f dp, g)) m)"
  by (rule on_card_ok) auto

lemma notify_ok [simp]: "host_ok P i (notify_activity_changed j active m) = host_ok P i m"
  by (simp add: host_ok_def notify_activity_changed_def host_notify_activity_changed_def Let_def)

lemma low_bit_below: "(addr :: u16) AND 1 < 2"
  by (simp add: word_less_nat_alt and_one_eq unat_mod)

context format_drivers
begin

lemma write_track_ok: "system_ok media_ok x \<Longrightarrow> system_ok media_ok (write_track_to_driver fa k x)"
proof -
  assume ok: "system_ok media_ok x"
  obtain dp g where x: "x = (dp, g)" by force
  have c: "card_ok dp" "media_ok g" "drive_ok (drives dp k)" using ok card_ok_drive by (auto simp: x)
  show ?thesis
  proof (cases "write_track_to_driver fa k (dp, g) = (dp, g)")
    case False
    then obtain h w where h: "fa_write_track_bits fa h = Some w" and r: "write_track_to_driver fa k (dp, g) =
        (case w (quarter_track (drives dp k)) (track_bits (drives dp k)) (bit_count (drives dp k)) g of
           (error, g) \<Rightarrow> (put_drive k ((drives dp k)\<lparr>is_dirty := (error \<noteq> disk_err_none)\<rparr>) dp, g))"
      by (auto simp: write_track_to_driver_def Let_def split: if_splits option.splits)
    show ?thesis using write_keeps [OF c(2) h] c
      by (simp add: x r put_drive_ok split: prod.splits) (metis snd_conv)
  qed (use ok x in simp)
qed

lemma read_track_ok:
  assumes "system_ok media_ok x" shows "system_ok media_ok (read_track_from_driver fa k x)"
proof -
  obtain dp g where x: "x = (dp, g)" by force
  have c: "card_ok dp" "media_ok g" "drive_ok (drives dp k)" using assms card_ok_drive by (auto simp: x)
  let ?d = "(drives dp k)\<lparr>bit_position := 0, cell_remaining := 0, zero_cell_run := 0, bit_count := 0,
                bit_timing := disk_default_bit_timing\<rparr>"
  let ?bits = "track_bits ?d @ replicate (track_bit_bytes - length (track_bits ?d)) 0"
  have d: "drive_ok (?d\<lparr>track_bits := ?bits\<rparr>)" using c(3) by (simp add: drive_ok_def)
  have track: "unat (quarter_track (drives dp k)) < quarter_tracks_per_disk" using c(3) by (simp add: drive_ok_def)
  show ?thesis
  proof (cases "driver (drives dp k)")
    case None
    have "drive_ok (?d\<lparr>track_bits := ?bits, bit_position := 0\<rparr>)" using d by (simp add: drive_ok_def)
    with None c track show ?thesis
      by (simp add: x read_track_from_driver_def rescale_head_angle_def put_drive_ok Let_def)
  next
    case (Some h)
    obtain e bits' n t g' where r: "fa_read_track_bits fa h (quarter_track (drives dp k)) ?bits max_track_bits g
        = (e, bits', n, t, g')" by (metis prod_cases5)
    have a: "media_ok g'" "length bits' = length ?bits" "t \<noteq> 0" "e = disk_err_none \<Longrightarrow> n \<le> max_track_bits"
      using read_answer [OF c(2) r] by auto
    let ?count = "if e = disk_err_none then n else 0"
    let ?e = "?d\<lparr>track_bits := bits', bit_count := ?count, bit_timing := t, is_data_loaded := (?count \<noteq> 0)\<rparr>"
    have e: "drive_ok ?e" "drive_ok (?e\<lparr>bit_position := 0\<rparr>)" using a d by (auto simp: drive_ok_def word_gt_0)
    then have "drive_ok (rescale_head_angle (bit_position (drives dp k)) (bit_count (drives dp k)) ?e)"
      using rescale_ok [of ?e "bit_position (drives dp k)" "bit_count (drives dp k)"]
      by (cases "bit_count (drives dp k) = 0"; cases "bit_count ?e = 0") (simp_all add: rescale_head_angle_def del: drive_ok_frame)
    then show ?thesis using a(1) c(1) track Some r
      by (simp add: x read_track_from_driver_def put_drive_ok Let_def)
  qed
qed

lemma read_track_buffer:
  assumes "system_ok media_ok (dp, g)" "read_track_from_driver fa k (dp, g) = (dp', g')"
  shows "track_bit_bytes \<le> length (track_bits (drives dp' k))"
proof -
  have c: "card_ok dp" "media_ok g" "unat (quarter_track (drives dp k)) < quarter_tracks_per_disk"
    using assms(1) card_ok_drive [of dp k] by (auto simp: drive_ok_def)
  have rescale: "track_bits (rescale_head_angle p n d) = track_bits d" for p n d
    by (simp add: rescale_head_angle_def Let_def)
  show ?thesis
  proof (cases "driver (drives dp k)")
    case None
    then show ?thesis using assms(2) c(3)
      by (auto simp: read_track_from_driver_def Let_def rescale put_drive_def)
  next
    case (Some h)
    let ?bits = "track_bits (drives dp k) @ replicate (track_bit_bytes - length (track_bits (drives dp k))) 0"
    obtain e bits' n t g2 where r: "fa_read_track_bits fa h (quarter_track (drives dp k)) ?bits max_track_bits g
        = (e, bits', n, t, g2)" by (metis prod_cases5)
    have "length bits' = length ?bits" using read_answer [OF c(2) r] by simp
    then show ?thesis using assms(2) c(3) Some r
      by (auto simp: read_track_from_driver_def Let_def rescale put_drive_def)
  qed
qed

lemma medium_close_ok: "system_ok media_ok x \<Longrightarrow> system_ok media_ok (close_format_driver fa k x)"
  by (auto simp: close_format_driver_def close_keeps put_drive_ok card_ok_drive split: option.split prod.splits)

lemma flush_ok: "system_ok media_ok x \<Longrightarrow> system_ok media_ok (flush_drive fa k x)"
  using write_track_ok [of x k] by (auto simp: flush_drive_def split: prod.splits)

lemma eject_ok: "system_ok media_ok x \<Longrightarrow> system_ok media_ok (eject_disk_from_drive fa k x)"
proof -
  assume ok: "system_ok media_ok x"
  obtain dp g where x: "x = (dp, g)" by force
  have e: "eject_disk_from_drive fa k (dp, g) = (case (if driver (drives dp k) = None then (dp, g)
      else close_format_driver fa k (flush_drive fa k (dp, g))) of (dp, g) \<Rightarrow> (put_drive k new_disk dp, g))"
    by (simp add: eject_disk_from_drive_def flush_drive_def split: prod.splits)
  have "system_ok media_ok (if driver (drives dp k) = None then (dp, g)
      else close_format_driver fa k (flush_drive fa k (dp, g)))"
    using ok flush_ok [of "(dp, g)" k] medium_close_ok by (simp add: x del: system_ok_pair)
  then show ?thesis by (auto simp: x e put_drive_ok split: prod.splits)
qed

lemma insert_ok: "system_ok media_ok x \<Longrightarrow> system_ok media_ok (snd (insert_disk_into_drive fa k path wp x))"
proof -
  assume ok: "system_ok media_ok x"
  obtain dp g where x: "x = (dp, g)" by force
  obtain dp' g' where e: "(if driver (drives dp k) \<noteq> None then eject_disk_from_drive fa k (dp, g) else (dp, g)) = (dp', g')"
    by force
  have ok': "card_ok dp'" "media_ok g'"
    using ok eject_ok [of "(dp, g)" k] e unfolding x by (auto split: if_splits)
  have new: "drive_ok (new_disk\<lparr>is_user_write_protected := wp\<rparr>)" by simp
  show ?thesis
    using ok' open_keeps [OF ok'(2), of path]
    unfolding x insert_disk_into_drive_def prod.case e Let_def
    by (auto simp: put_drive_ok split: prod.splits sum.splits)
qed

lemma move_head_ok:
  assumes "system_ok media_ok x" "unat target < quarter_tracks_per_disk"
  shows "system_ok media_ok (move_head_to fa target x)"
proof -
  obtain dp g where x: "x = (dp, g)" by force
  obtain dp' g' where e: "(if is_dirty (active_drive dp)
      then write_track_to_driver fa (unat (active_drive_index dp)) (dp, g) else (dp, g)) = (dp', g')" by force
  have ok': "card_ok dp'" "media_ok g'"
    using assms(1) write_track_ok [of "(dp, g)"] e unfolding x by (auto split: if_splits) (metis system_ok_pair)+
  have "drive_ok ((active_drive dp')\<lparr>quarter_track := target, is_data_loaded := False\<rparr>)"
    using card_ok_active [OF ok'(1)] assms(2) by (simp add: drive_ok_def)
  then show ?thesis
    using assms(1) ok' by (auto simp: x move_head_to_def e put_active_ok)
qed

lemma settle_ok: "system_ok media_ok x \<Longrightarrow> system_ok media_ok (settle_head fa x)"
proof -
  assume ok: "system_ok media_ok x"
  obtain dp g where x: "x = (dp, g)" by force
  show ?thesis
    using ok move_head_ok [OF ok settled_track]
    by (simp add: x settle_head_def Let_def del: system_ok_pair split: prod.splits)
qed


lemma run_ok:
  assumes "system_ok media_ok x" shows "system_ok media_ok (run_sequencer_cycles fa cycles x)"
proof -
  obtain dp g where x: "x = (dp, g)" by force
  obtain dp' g' where e: "(if \<not> is_data_loaded (active_drive dp) \<and> driver (active_drive dp) \<noteq> None
      then read_track_from_driver fa (unat (active_drive_index dp)) (dp, g) else (dp, g)) = (dp', g')" by force
  have ok': "card_ok dp'" "media_ok g'"
    using assms read_track_ok [of "(dp, g)"] e unfolding x by (auto split: if_splits) (metis system_ok_pair)+
  have "running_ok (dp', active_drive dp')" using ok'(1) by (simp add: running_ok_def card_ok_active)
  note steps = sequencer_steps_ok [OF this]
  have "system_ok media_ok (case (sequencer_step p w ^^ n) (dp', active_drive dp') of (dp, d) \<Rightarrow> (put_active d dp, g'))"
    for p w n
    using steps [of n p w] ok'(2) by (auto simp: running_ok_def put_active_ok split: prod.splits)
  then show ?thesis
    using assms unfolding x run_sequencer_cycles_def prod.case e Let_def by auto
qed

lemma sync_ok: "system_ok media_ok x \<Longrightarrow> system_ok media_ok (sync_sequencer_to_cycle fa t x)"
  using run_ok by (auto simp: sync_sequencer_to_cycle_def Let_def split: prod.splits)

lemma card_ok_release: "card_ok dp \<Longrightarrow> unat (quarter_track_before_release dp) < quarter_tracks_per_disk"
  by (simp add: card_ok_def)

lemma stepper_ok:
  assumes "system_ok media_ok x" shows "system_ok media_ok (disk_io_control_stepper fa a x)"
proof -
  obtain dp g where x: "x = (dp, g)" by force
  let ?mask = "if a AND 0x01 \<noteq> 0 then stepper_phase_mask dp OR push_bit (unat (drop_bit 1 a AND 0x03)) 1
    else stepper_phase_mask dp AND NOT (push_bit (unat (drop_bit 1 a AND 0x03)) 1)"
  let ?dp = "dp\<lparr>stepper_phase_mask := ?mask\<rparr>"
  obtain dp' g' where s: "settle_head fa (?dp, g) = (dp', g')" by force
  have ok: "card_ok dp" "media_ok g" using assms by (auto simp: x)
  have ok': "card_ok dp'" "media_ok g'" using settle_ok [of "(?dp, g)"] ok s by auto
  have before: "unat (quarter_track (active_drive dp)) < quarter_tracks_per_disk"
    using card_ok_active [OF ok(1)] by (simp add: drive_ok_def)
  obtain dp'' g'' where m: "move_head_to fa (quarter_track_before_release dp') (dp', g') = (dp'', g'')" by force
  have ok'': "card_ok dp''" "media_ok g''"
    using move_head_ok [of "(dp', g')" "quarter_track_before_release dp'"] ok' m card_ok_release [OF ok'(1)] by simp_all
  have "card_ok (dp'\<lparr>quarter_track_before_release := quarter_track (active_drive dp),
      magnet_released := True, magnet_release_cycle := card_cycles dp'\<rparr>)"
    using ok'(1) before by (simp add: card_ok_def)
  moreover have "active_drive ?dp = active_drive dp" by (simp add: active_drive_def active_index_def)
  ultimately show ?thesis
    using ok ok' ok'' s m by (simp add: x disk_io_control_stepper_def Let_def split: if_splits)
qed

lemma mode_switch_ok: "card_ok dp \<Longrightarrow> card_ok (disk_io_mode_switch a v dp)"
proof -
  assume ok: "card_ok dp"
  let ?dp = "case v of Some v \<Rightarrow> dp\<lparr>last_bus_write := v\<rparr> | None \<Rightarrow> dp"
  have "card_ok ?dp" using ok by (simp split: option.split)
  then show ?thesis
    by (simp add: disk_io_mode_switch_def Let_def put_active_ok card_ok_active)
qed

lemma initialize_ok: "system_ok media_ok x \<Longrightarrow> system_ok media_ok (initialize_peripheral fa x)"
proof -
  assume ok: "system_ok media_ok x"
  obtain dp g where f: "flush_drive fa 1 (flush_drive fa 0 x) = (dp, g)" by force
  have "system_ok media_ok (dp, g)" using flush_ok [OF flush_ok [OF ok, of 0], of 1] by (simp only: f)
  then have "card_ok dp" "media_ok g" by simp_all
  then show ?thesis by (simp add: initialize_peripheral_def f [unfolded One_nat_def] card_ok_def drive_ok_def)
qed

lemma swap_ok: "card_ok dp \<Longrightarrow> card_ok (snd (swap_drives dp))"
  by (simp add: swap_drives_def card_ok_def)

lemma disk_command_ok: "system_ok media_ok x \<Longrightarrow> system_ok media_ok (snd (disk_command fa cmd data x))"
proof -
  assume ok: "system_ok media_ok x"
  obtain dp g where x: "x = (dp, g)" by force
  have "system_ok media_ok (snd (cmd_handle_insert fa data (dp, g)))"
    using ok insert_ok [OF ok] unfolding x
    by (auto simp: cmd_handle_insert_def simp del: system_ok_pair split: option.split prod.splits) (metis snd_conv)+
  moreover have "system_ok media_ok (snd (cmd_handle_eject fa data (dp, g)))"
    using ok eject_ok [OF ok] by (simp add: x cmd_handle_eject_def del: system_ok_pair)
  moreover have "system_ok media_ok (snd (cmd_handle_set_protect data (dp, g)))"
    using ok by (simp add: x cmd_handle_set_protect_def Let_def put_drive_ok card_ok_drive)
  moreover have "system_ok media_ok (snd (cmd_handle_create_image fa data (dp, g)))"
    using ok create_keeps [of g]
    by (auto simp: x cmd_handle_create_image_def split: option.split prod.splits) (metis snd_conv)
  moreover have "system_ok media_ok (snd (swap_drives dp), g)" using ok swap_ok by (simp add: x)
  ultimately show ?thesis
    using ok by (simp add: x disk_command_def case_prod_beta del: system_ok_pair)
qed

lemma load_medium_ok:
  assumes "drive_ok d" "track_bit_bytes \<le> length (track_bits d)" "ob = drive_state_out_of_bounds ds"
  shows "drive_ok (load_medium ob ds d)"
proof -
  let ?b = "ds_is_dirty ds \<noteq> 0 \<and> \<not> ob"
  let ?bytes = "take (nat (ds_nibble_count ds)) (ds_track_buffer ds)"
  let ?e = "if ?b then (encode_medium_bytes ?bytes (d\<lparr>is_dirty := ?b\<rparr>))
      \<lparr>is_data_loaded := (bit_count (encode_medium_bytes ?bytes (d\<lparr>is_dirty := ?b\<rparr>)) \<noteq> 0)\<rparr> else d\<lparr>is_dirty := ?b\<rparr>"
  have "length ?bytes \<le> nibbles_per_track" if "?b"
    using that assms(3) by (auto simp: drive_state_out_of_bounds_def)
  then have e: "drive_ok ?e"
    using assms(1,2) encode_ok [of "d\<lparr>is_dirty := ?b\<rparr>" ?bytes] by (cases ?b) (auto simp del: length_take)
  have "min p (c - 1) < c" if "c \<noteq> 0" for p c :: u32
  proof -
    have "c - 1 < c" using that by (simp add: word_less_nat_alt unat_minus_one unat_gt_0)
    then show ?thesis by (simp add: min_less_iff_disj)
  qed
  then have "drive_ok (?e\<lparr>bit_position := (if bit_count ?e = 0 then 0 else min p (bit_count ?e - 1)), cell_remaining := 0\<rparr>)" for p
    using e by (simp add: drive_ok_def)
  then show ?thesis by (simp add: load_medium_def Let_def cong: if_cong)
qed

lemma load_drive_ok: "system_ok media_ok x \<Longrightarrow> system_ok media_ok (load_drive fa ds k x)"
proof -
  assume ok: "system_ok media_ok x"
  obtain err dp g where i: "insert_disk_into_drive fa k (ds_full_path ds) (ds_user_write_protected ds \<noteq> 0)
      (eject_disk_from_drive fa k x) = (err, dp, g)" by (metis surj_pair)
  have ok1: "card_ok dp" "media_ok g"
    using insert_ok [OF eject_ok [OF ok, of k], of k "ds_full_path ds" "ds_user_write_protected ds \<noteq> 0"] by (simp_all add: i)
  let ?safe = "if ds_phase ds \<ge> 0 \<and> ds_phase ds < 80 then ds_phase ds else 0"
  let ?d = "(drives dp k)\<lparr>quarter_track := word_of_int ?safe * 2,
      motor_enable_cycles := ds_spinning_ticks ds, write_light_cycles := ds_write_light_ticks ds\<rparr>"
  have "unat (word_of_int ?safe * 2 :: u32) < 160"
  proof -
    have "0 \<le> ?safe" "?safe < 80" by auto
    then have "unat (word_of_int ?safe :: u32) < 80"
      by (simp add: unsigned_of_int take_bit_int_eq_self nat_less_iff)
    then show ?thesis by (simp add: unat_word_ariths)
  qed
  then have "drive_ok ?d" using card_ok_drive [OF ok1(1), of k] by (simp add: drive_ok_def)
  then have ok2: "system_ok media_ok (put_drive k ?d dp, g)" using ok1 by (simp add: put_drive_ok)
  obtain dp' g' where r: "read_track_from_driver fa k (put_drive k ?d dp, g) = (dp', g')" by force
  have ok3: "card_ok dp'" "media_ok g'" using read_track_ok [OF ok2, of k] by (simp_all add: r)
  have "track_bit_bytes \<le> length (track_bits (drives dp' k))"
    using read_track_buffer [OF ok2 r] ok2 by (simp add: put_drive_def drive_ok_def card_ok_def)
  then have "drive_ok (load_medium (drive_state_out_of_bounds ds) ds (drives dp' k))"
    using load_medium_ok [OF card_ok_drive [OF ok3(1)] _ refl] by blast
  then show ?thesis
    using ok1 ok3 r by (simp add: load_drive_def i Let_def put_drive_ok cong: if_cong)
qed

lemma motor_state_ok: "host_ok media_ok i m \<Longrightarrow> host_ok media_ok i (sync_drive_motor_state fa i m)"
  by (auto simp: sync_drive_motor_state_def Let_def put_active_ok card_ok_active
      intro!: on_card_ok settle_ok on_card_only simp del: system_ok_pair)

lemma enable_ok: "host_ok media_ok i m \<Longrightarrow> host_ok media_ok i (disk_io_enable_drive fa i addr m)"
proof -
  assume ok: "host_ok media_ok i m"
  have "host_ok media_ok i (on_card i (\<lambda>(dp, g). case (if is_dirty (active_drive dp)
      then write_track_to_driver fa (unat (active_drive_index dp)) (dp, g) else (dp, g)) of
      (dp, g) \<Rightarrow> ((put_active ((active_drive dp)\<lparr>motor_enable_cycles := 0, write_light_cycles := 0\<rparr>) dp)
        \<lparr>active_drive_index := addr AND 1\<rparr>, g)) m)"
  proof (rule on_card_pair [OF ok], goal_cases)
    case (1 dp g)
    obtain dp' g' where e: "(if is_dirty (active_drive dp)
      then write_track_to_driver fa (unat (active_drive_index dp)) (dp, g) else (dp, g)) = (dp', g')" by force
    have ok': "card_ok dp'" "media_ok g'"
      using 1 write_track_ok [OF 1] e by (auto split: if_splits) (metis system_ok_pair)+
    have "card_ok (put_active ((active_drive dp')\<lparr>motor_enable_cycles := 0, write_light_cycles := 0\<rparr>) dp')"
      using ok'(1) by (simp add: put_active_ok card_ok_active)
    then show ?case unfolding prod.case e using ok'(2) low_bit_below by (simp add: card_ok_def)
  qed
  then show ?thesis
    using ok by (simp add: disk_io_enable_drive_def Let_def motor_state_ok)
qed

lemma handler_ok: "host_ok media_ok i m \<Longrightarrow> host_ok media_ok i (disk_io_handler fa i addr v m)"
  by (auto simp: disk_io_handler_def Let_def disk_io_control_motor_def
      intro!: on_card_ok stepper_ok motor_state_ok on_card_only enable_ok mode_switch_ok simp del: system_ok_pair)

lemma motor_ok: "host_ok media_ok i m \<Longrightarrow> host_ok media_ok i (update_motor fa i elapsed k m)"
proof -
  assume ok: "host_ok media_ok i m"
  let ?d = "drives (dcards m i) k"
  have d: "drive_ok ?d" using ok by (simp add: host_ok_def card_ok_drive)
  have "host_ok media_ok i (on_card i (\<lambda>(dp, g).
      let dp = put_drive k (?d\<lparr>motor_enable_cycles := 0\<rparr>) dp;
          dp = (if active_index dp = k then dp\<lparr>magnet_released := False\<rparr> else dp)
      in if is_dirty ?d then write_track_to_driver fa k (dp, g) else (dp, g)) m)"
  proof (rule on_card_pair [OF ok], goal_cases)
    case (1 dp g)
    let ?dp = "put_drive k (?d\<lparr>motor_enable_cycles := 0\<rparr>) dp"
    have "system_ok media_ok (if active_index ?dp = k then ?dp\<lparr>magnet_released := False\<rparr> else ?dp, g)"
      using 1 d by (simp add: put_drive_ok)
    then show ?case by (simp add: Let_def write_track_ok del: system_ok_pair)
  qed
  moreover have "host_ok media_ok i
      (on_card i (\<lambda>(dp, g). (put_drive k (?d\<lparr>motor_enable_cycles := motor_enable_cycles ?d - elapsed\<rparr>) dp, g)) m)"
    using ok d by (intro on_card_only) (simp_all add: put_drive_ok)
  ultimately show ?thesis using ok by (simp add: update_motor_def Let_def)
qed

lemma light_ok: "card_ok dp \<Longrightarrow> card_ok (update_write_light elapsed k dp)"
  by (simp add: update_write_light_def Let_def put_drive_ok card_ok_drive)

lemma think_ok: "host_ok media_ok i m \<Longrightarrow> host_ok media_ok i (disk_abi_think fa (Some i) elapsed m)"
proof -
  assume ok: "host_ok media_ok i m"
  have physics: "host_ok media_ok i (update_drive_physics fa i elapsed k m)" if "host_ok media_ok i m" for k m
    unfolding update_drive_physics_def using that by (intro on_card_only motor_ok light_ok)
  have "host_ok media_ok i
      (on_card i (\<lambda>x. case sync_sequencer_to_cycle fa elapsed x of (dp, g) \<Rightarrow> (dp\<lparr>disk_synced := 0\<rparr>, g)) m)"
  proof (rule on_card_ok [OF ok])
    fix x assume "system_ok media_ok x"
    from sync_ok [OF this, of elapsed]
    show "system_ok media_ok (case sync_sequencer_to_cycle fa elapsed x of (dp, g) \<Rightarrow> (dp\<lparr>disk_synced := 0\<rparr>, g))"
      by (cases "sync_sequencer_to_cycle fa elapsed x") simp
  qed
  then show ?thesis
    using ok by (simp add: disk_abi_think_def update_physical_disk_state_def physics)
qed

lemma load_ok: "system_ok media_ok x \<Longrightarrow> system_ok media_ok (snd (disk_state_v1_read fa state x))"
proof -
  assume ok: "system_ok media_ok x"
  obtain dp g where x: "x = (dp, g)" by force
  have loads: "system_ok media_ok (load_drive fa a 1 (load_drive fa b 0 (dp, g)))" if "card_ok dp" for a b dp
    using that ok by (intro load_drive_ok) (simp add: x)
  have "card_ok (dp\<lparr>stepper_phase_mask := p, active_drive_index := (if w < 2 then w else 0), io_latch := l,
      is_motor_on := b, sequencer := s, disk_synced := 0\<rparr>)" for p w l b s
    using ok by (simp add: x card_ok_def)
  from loads [OF this] show ?thesis
    using ok by (simp add: x disk_state_v1_read_def Let_def del: system_ok_pair split: option.split)
qed

lemma disk_do_ok: "host_ok media_ok i m \<Longrightarrow> host_ok media_ok i (disk_do fa i c m)"
proof (cases c)
  case (DiskRead addr t)
  assume "host_ok media_ok i m"
  then show ?thesis
    by (simp add: DiskRead disk_io_read_def Let_def handler_ok on_card_ok sync_ok)
next
  case (DiskWrite addr v t)
  assume "host_ok media_ok i m"
  then show ?thesis
    by (simp add: DiskWrite disk_io_write_def Let_def handler_ok on_card_ok sync_ok)
qed (simp_all add: think_ok disk_abi_reset_def disk_abi_shutdown_def disk_abi_command_def disk_abi_load_state_def
    on_card_ok initialize_ok eject_ok disk_command_ok load_ok)

lemma disk_calls_ok: "host_ok media_ok i m \<Longrightarrow> host_ok media_ok i (fold (disk_do fa i) cs m)"
  by (induction cs arbitrary: m) (simp_all add: disk_do_ok)

end

end
