(* ===== verification/Disk_Media.thy ===== *)
theory Disk_Media
  imports Disk_Loader_Props Disk_Invariant
begin

text \<open>
  The format drivers behind the card: what the interface of the card demands of them, and the card
  with the loader and the seven built-in drivers plugged in.  Whatever the host's files hold and
  whatever the program and the frontend do, both drives stay well formed.
\<close>

subsection \<open>Answers of the drivers\<close>

definition honest_answer :: "u8 list \<Rightarrow> u32 \<Rightarrow> disk_error \<times> u8 list \<times> u32 \<Rightarrow> bool" where
  "honest_answer bits room = (\<lambda>(e, bits', n). length bits' = length bits \<and> (e = disk_err_none \<longrightarrow> n \<le> room))"

lemma honest_error [simp]: "honest_answer bits room (e, bits, 0)"
  by (simp add: honest_answer_def)

lemma length_put_bits: "length bytes \<le> length buffer \<Longrightarrow> length (put_bits bytes buffer) = length buffer"
  by (simp add: put_bits_def)

lemma word_of_nat_below: "n \<le> unat room \<Longrightarrow> word_of_nat n \<le> (room :: u32)"
  by (simp add: word_le_nat_alt unsigned_of_nat order_trans [OF take_bit_nat_less_eq_self])

lemma honest_cells:
  assumes "unat room \<le> 8 * length bits"
  shows "honest_answer bits room (cells_answer (disk_encoding_nibbles_to_bits ok nibbles marks (unat room)) bits)"
proof (cases "disk_encoding_nibbles_to_bits ok nibbles marks (unat room)")
  case (Inr r)
  obtain cells n where r: "r = (cells, n)" by force
  have n: "n \<le> unat room" "length cells = (n + 7) div 8"
    using Inr by (auto simp: r disk_encoding_nibbles_to_bits_def Let_def length_emits split: if_splits)
  then have "length cells \<le> length bits" using assms by linarith
  moreover have "(word_of_nat n :: u32) \<le> room"
    by (rule word_of_nat_below [OF n(1)])
  ultimately show ?thesis by (simp add: Inr r cells_answer_def honest_answer_def length_put_bits)
qed (simp add: cells_answer_def)

lemma honest_read_cells:
  assumes "unat room \<le> 8 * length bits" "cells \<le> unat room"
  shows "honest_answer bits room (read_cells file offset cells bits fs)"
proof -
  have "(word_of_nat cells :: u32) \<le> room"
    by (rule word_of_nat_below [OF assms(2)])
  moreover have "length (put_bits bytes bits) = length bits" if "fread_at file offset ((cells + 7) div 8) fs = Some bytes" for bytes
    using that assms by (intro length_put_bits) (auto simp: fread_at_def split: if_splits)
  ultimately show ?thesis by (auto simp: read_cells_def Let_def honest_answer_def split: option.split)
qed

lemma images_answer:
  assumes "unat room \<le> 8 * length bits"
  shows "honest_answer bits room (fst (image_read_track_bits img q bits room fs))"
proof (cases img)
  case (SectorDisk i)
  then show ?thesis
    by (auto simp: image_read_track_bits_def sector_disk_image_read_track_bits_def Let_def honest_cells [OF assms]
        split: option.split sum.split)
next
  case (NibbleDisk i)
  then show ?thesis
    by (auto simp: image_read_track_bits_def nibble_disk_image_read_track_bits_def Let_def honest_cells [OF assms]
        split: option.split)
next
  case (IieDisk i)
  then show ?thesis
    by (auto simp: image_read_track_bits_def iie_read_track_bits_def Let_def honest_cells [OF assms]
        split: option.split sum.split)
next
  case (Woz1Disk i)
  then show ?thesis
    by (auto simp: image_read_track_bits_def woz1_read_track_bits_def Let_def honest_read_cells [OF assms]
        split: option.split)
next
  case (Woz2Disk i)
  then show ?thesis
    by (auto simp: image_read_track_bits_def woz2_read_track_bits_def Let_def honest_read_cells [OF assms]
        split: option.split)
qed

subsection \<open>Cell times\<close>

definition image_timed :: "disk_image \<Rightarrow> bool" where
  "image_timed img \<longleftrightarrow> (case img of Woz2Disk i \<Rightarrow> w2_optimal_bit_timing i \<noteq> 0 | _ \<Rightarrow> True)"

definition images_timed :: "disk_media \<Rightarrow> bool" where
  "images_timed g \<longleftrightarrow> (\<forall>n. image_timed (md_images g n))"

lemma woz2_timed: "woz2_open path off ro fs = Inr w \<Longrightarrow> w2_optimal_bit_timing w \<noteq> 0"
  by (auto simp: woz2_open_def Let_def split: sum.splits option.splits prod.splits if_splits)

definition opens_timed :: "format_driver \<Rightarrow> bool" where
  "opens_timed d \<longleftrightarrow> (\<forall>open_fn path off ro fs img. fd_open d = Some open_fn \<longrightarrow>
     open_fn path off ro fs = Inr img \<longrightarrow> image_timed img)"

lemma map_image_Inr: "map_image f r = Inr img \<longleftrightarrow> (\<exists>x. r = Inr x \<and> img = f x)"
  by (auto simp: map_image_def split: sum.splits)

lemma built_ins_timed: "d \<in> set built_in_drivers \<Longrightarrow> opens_timed d"
  by (auto simp: built_in_drivers_def opens_timed_def do_driver_def po_driver_def nib_driver_def nb2_driver_def
      iie_driver_def woz1_driver_def woz2_driver_def writable_driver_def read_only_driver_def map_image_Inr
      image_timed_def woz2_timed)

lemma register_permanent_subset:
  "set (registry (disk_loader_register_permanent (Some d) ld)) \<subseteq> insert d (set (registry ld))"
  by (auto simp: disk_loader_register_permanent_def admit_def refuse_def set_insert_by_name split: option.splits)

lemma registered_subset: "set (registry (registered ds)) \<subseteq> set ds"
proof -
  have "set (registry (fold (\<lambda>d. disk_loader_register_permanent (Some d)) ds ld)) \<subseteq> set (registry ld) \<union> set ds" for ld
  proof (induction ds arbitrary: ld)
    case (Cons d ds)
    then show ?case using register_permanent_subset [of d ld] by fastforce
  qed simp
  from this [of empty_loader] show ?thesis by (simp add: registered_def empty_loader_def)
qed

lemma best_driver_member:
  "best_driver ds header n hint possible = Some d \<Longrightarrow> possible = None \<or> the possible \<in> D \<Longrightarrow> set ds \<subseteq> D \<Longrightarrow> d \<in> D"
proof (induction ds header n hint possible rule: best_driver.induct)
  case (2 e ds header n hint possible)
  then show ?case by (auto split: option.splits disk_probe.splits if_splits)
qed auto

lemma open_prepared_timed:
  assumes "\<forall>d \<in> set (registry ld). opens_timed d" "open_prepared al ld p load_path temporary fs = Inr (d, img)"
  shows "image_timed img"
proof -
  have member: "d \<in> set (registry ld)" if "find_best_driver (registry ld) header n name = Some d" for header n name
    using that best_driver_member [of "registry ld"] by (auto simp: find_best_driver_def)
  obtain open_fn off where "d \<in> set (registry ld)" "fd_open d = Some open_fn" "open_fn load_path off temporary fs = Inr img"
    using assms(2) member by (auto simp: open_prepared_def Let_def split: sum.splits option.splits if_splits)
  then show ?thesis using assms(1) by (auto simp: opens_timed_def)
qed

lemma media_open_timed:
  assumes "\<forall>d \<in> set (registry ld). opens_timed d" "images_timed g"
  shows "images_timed (snd (media_open al ld path g))"
  using assms(2) open_prepared_timed [OF assms(1)]
  by (auto simp: media_open_def disk_loader_open_def images_timed_def split: sum.splits prod.splits)

lemma built_in_registry_timed: "\<forall>d \<in> set (registry (registered built_in_drivers)). opens_timed d"
  using registered_subset built_ins_timed by blast

interpretation built_in: format_drivers "media_api al (registered built_in_drivers)" images_timed for al
proof (unfold_locales, goal_cases)
  case (1 g path)
  then show ?case
    using media_open_timed [OF built_in_registry_timed 1] by (simp add: media_api_def)
next
  case (5 g h q bits room e bits' n t g')
  have "honest_answer bits room (e, bits', n)"
    using images_answer [OF 5(3), of "md_images g (h div 8)" q "md_files g"] 5(2)
    by (auto simp: media_api_def media_read_def split: prod.splits)
  moreover have "g' = g" "t \<noteq> 0"
    using 5(1,2) by (auto simp: media_api_def media_read_def image_read_track_bits_def images_timed_def image_timed_def
        split: prod.splits disk_image.splits)
  ultimately show ?case using 5(1) by (auto simp: honest_answer_def)
qed (auto simp: media_api_def media_write_def images_timed_def split: prod.splits option.splits if_splits)

end
