(* ===== verification/Disk_Card.thy ===== *)
theory Disk_Card
  imports Disk_Media Mockingboard_Behaviour
begin

text \<open>The properties of the Disk II card with its drivers, and the card in a slot of the machine.\<close>

subsection \<open>The contract\<close>

lemma on_card_step [simp]: "card_step m (on_card i f m)"
  by (rule card_step_same) (simp_all add: on_card_def split: prod.split)

lemma notify_step [simp]: "card_step m (notify_activity_changed i active m)"
  by (rule card_step_same) (simp_all add: notify_activity_changed_def host_notify_activity_changed_def Let_def)

lemma on_card_after: "card_step m m' \<Longrightarrow> card_step m (on_card i f m')"
  by (rule card_step_trans [OF _ on_card_step])

lemma motor_state_step: "card_step m (sync_drive_motor_state fa i m)"
  unfolding sync_drive_motor_state_def Let_def
  by (auto intro!: on_card_after intro: card_step_trans [OF _ notify_step])

lemma handler_step: "card_step m (disk_io_handler fa i addr v m)"
  unfolding disk_io_handler_def disk_io_control_motor_def disk_io_enable_drive_def Let_def
  by (auto intro: card_step_trans [OF on_card_step motor_state_step] motor_state_step)

lemma disk_io_step: "card_step m (snd (disk_io fa h inst pc a w d t m))"
  by (auto simp: disk_io_def disk_io_read_def disk_io_write_def Let_def split: option.split
      intro: card_step_trans [OF on_card_step handler_step])

lemma update_motor_step: "card_step m (update_motor fa i elapsed k m)"
  unfolding update_motor_def Let_def by (auto intro: card_step_trans [OF on_card_step notify_step])

lemma disk_think_step: "card_step m (disk_abi_think fa inst elapsed m)"
  unfolding disk_abi_think_def update_physical_disk_state_def update_drive_physics_def
  by (auto split: option.split
      intro: on_card_after card_step_trans [OF on_card_after [OF card_step_trans [OF on_card_step update_motor_step]] update_motor_step])

interpretation dk: slot_cards "disk_code fa rom_disk2 config :: ('g, 'a) disk_host card_code"
  for fa :: "'g format_api" and rom_disk2 config
  by unfold_locales
    (auto simp: disk_code_def disk_think_step disk_io_step disk_abi_command_def split: option.split)

subsection \<open>The drives stay well formed\<close>

lemma on_card_new: "system_ok P (f (dcards m i, media m)) \<Longrightarrow> host_ok P i (on_card i f m)"
  by (cases "f (dcards m i, media m)") (simp add: host_ok_def on_card_def del: system_ok_pair)

lemma register_frame [simp]:
  "dcards (host_register_cx_rom slot rom m) = dcards m" "media (host_register_cx_rom slot rom m) = media m"
  "dcards (host_register_io slot a b c d m) = dcards m" "media (host_register_io slot a b c d m) = media m"
  by (simp_all add: host_register_cx_rom_def host_register_io_def mem_put_def mem_refresh_cx_page_def
      mem_copy_def register_bridges_def register_io_handler_def set_slot_def Let_def split: option.split)

lemma register_ok:
  "host_ok P i (host_register_io slot a b c d m) = host_ok P i m"
  "host_ok P i (host_register_cx_rom slot rom m) = host_ok P i m"
  by (simp_all add: host_ok_def)

lemma init_ok:
  assumes "images_timed (media m)"
  shows "host_ok images_timed (fresh_instance m)
    (snd (disk_abi_init (media_api al (registered built_in_drivers)) rom_disk2 config api slot m))"
proof -
  let ?fa = "media_api al (registered built_in_drivers)"
  have start: "system_ok images_timed (initialize_peripheral ?fa (new_disk_card slot, media m))"
    using assms by (intro built_in.initialize_ok) simp
  have insert: "system_ok images_timed (if path = [] then x else snd (insert_disk_into_drive ?fa k path False x))"
    if "system_ok images_timed x" for k path x
    using that built_in.insert_ok [OF that] by simp
  show ?thesis
    unfolding disk_abi_init_def Let_def snd_conv register_ok
    by (rule on_card_new) (simp add: insert start del: system_ok_pair One_nat_def)
qed

text \<open>
  C36. Whatever disk images the host's files hold - damaged, truncated, of any format and any size -
  and whatever the program and the frontend ask of the card from the moment it is plugged in, both
  drives stay well formed: the head is over one of the 160 quarter tracks, the cell under it lies
  inside the track, the track inside its buffer, the fraction of a cell inside its byte, and a cell
  always takes time.  So the loop that passes cells under the head always ends.
\<close>

theorem drives_stay_well_formed:
  assumes "images_timed (media m)" "fa = media_api al (registered built_in_drivers)" "i = fresh_instance m"
    "dp = dcards (fold (disk_do fa i) cs (snd (disk_abi_init fa rom_disk2 config api slot m))) i"
  shows "card_ok dp \<and> (\<forall>k w c. bit_count (drives dp k) \<noteq> 0 \<and> c < 256 \<longrightarrow>
           pass_cells w (dp, (drives dp k)\<lparr>cell_remaining := c\<rparr>) \<noteq> None)"
proof -
  have "host_ok images_timed i (fold (disk_do fa i) cs (snd (disk_abi_init fa rom_disk2 config api slot m)))"
    unfolding assms(2,3) by (intro built_in.disk_calls_ok init_ok assms(1))
  then have ok: "card_ok dp" by (simp add: assms(4) host_ok_def)
  have "pass_cells w (dp, (drives dp k)\<lparr>cell_remaining := c\<rparr>) \<noteq> None"
    if "bit_count (drives dp k) \<noteq> 0" "c < 256" for k w c
  proof -
    have "passing_ok ((drives dp k)\<lparr>cell_remaining := c\<rparr>)"
      using that card_ok_drive [OF ok, of k] by (simp add: passing_ok_def drive_ok_def)
    from pass_cells_ok [OF ok this, of w] show ?thesis by auto
  qed
  with ok show ?thesis by blast
qed

text \<open>A machine with the card in slot 6, and a host without files.\<close>

definition no_files :: file_system where
  "no_files = \<lparr>fs_names = (\<lambda>_. None), fs_data = (\<lambda>_. []), fs_read_only = (\<lambda>_. False),
     fs_unreadable = (\<lambda>_. False), fs_faulty = (\<lambda>_. False), fs_unwritable_dir = (\<lambda>_. False), fs_next = 0\<rparr>"

definition no_archives :: archive_library where
  "no_archives = \<lparr>al_gunzip = (\<lambda>_. ([], False, Z_OTHER)), al_zip_entries = (\<lambda>_. Inl ZIP_ER_OTHER),
     al_temp_dir = [], al_mkstemp = (\<lambda>_ _. None)\<rparr>"

definition no_media :: disk_media where
  "no_media = \<lparr>md_files = no_files, md_images = (\<lambda>_. IieDisk \<lparr>ii_file = 0, ii_legacy = True, ii_sector_order = [],
     ii_track_offsets = [], ii_track_nibble_counts = [], ii_host_read_only = True\<rparr>), md_next = 0\<rparr>"

definition disk_host0 :: "disk_media disks" where
  "disk_host0 = mockingboards.extend blank_sound (disks.fields (\<lambda>_. new_disk_card 6) no_media)"

lemma disk_host0_simps [simp]: "media disk_host0 = no_media" "dcards disk_host0 i = new_disk_card 6"
  by (simp_all add: disk_host0_def mockingboards.defs disks.defs)

lemma no_media_timed [simp]: "images_timed no_media"
  by (simp add: images_timed_def image_timed_def no_media_def)

lemma drives_stay_well_formed_witness:
  "card_ok (dcards (fold (disk_do (media_api no_archives (registered built_in_drivers)) (fresh_instance disk_host0))
     [DiskRead 0xC0E9 100, DiskRead 0xC0E1 120, DiskRead 0xC0EC 4000, DiskThink 17030, DiskReset]
     (snd (disk_abi_init (media_api no_archives (registered built_in_drivers)) (\<lambda>_. 0)
        (''a.woz'', []) disk_peripheral 6 disk_host0))) (fresh_instance disk_host0))"
  using drives_stay_well_formed [OF _ refl refl refl, of disk_host0 no_archives
    "[DiskRead 0xC0E9 100, DiskRead 0xC0E1 120, DiskRead 0xC0EC 4000, DiskThink 17030, DiskReset]"
    "\<lambda>_. 0" "(''a.woz'', [])" disk_peripheral 6] by simp

end
