(* ===== verification/Disk_Protection.thy ===== *)
theory Disk_Protection
  imports Disk_Card
begin

text \<open>Protected disks: no access of the program reaches the host's files through one.\<close>

subsection \<open>Sealed drives\<close>

text \<open>What protects a drive and does not depend on the host: the frontend's tab, or a read-only format.\<close>

definition sealed :: "'g format_api \<Rightarrow> nat option \<times> bool \<Rightarrow> bool" where
  "sealed fa = (\<lambda>(h, tab). tab \<or> (\<exists>n. h = Some n \<and> \<not> fa_can_write fa n))"

definition tag :: "disk \<Rightarrow> nat option \<times> bool" where
  "tag d = (driver d, is_user_write_protected d)"

lemma sealed_protected: "sealed fa (tag d) \<Longrightarrow> is_disk_write_protected fa g d"
  by (auto simp: sealed_def tag_def is_disk_write_protected_def)

definition tags :: "disk_card \<Rightarrow> nat \<Rightarrow> nat option \<times> bool" where
  "tags dp k = tag (drives dp k)"

text \<open>The card's drives carry the tags \<open>T\<close>, and the media are \<open>G\<close>.\<close>

definition untouched :: "(nat \<Rightarrow> nat option \<times> bool) \<Rightarrow> 'g \<Rightarrow> disk_card \<times> 'g \<Rightarrow> bool" where
  "untouched T G = (\<lambda>(dp, g). g = G \<and> tags dp = T)"

lemma untouched_pair [simp]: "untouched T G (dp, g) \<longleftrightarrow> g = G \<and> tags dp = T"
  by (simp add: untouched_def)

lemma tags_put:
  "tag d = tag (drives dp k) \<Longrightarrow> tags (put_drive k d dp) = tags dp"
  "tag d = tag (active_drive dp) \<Longrightarrow> tags (put_active d dp) = tags dp"
  by (auto simp: tags_def put_drive_def put_active_def active_drive_def)

lemma tags_frame [simp]:
  "tags (dp\<lparr>io_latch := a\<rparr>) = tags dp" "tags (dp\<lparr>last_bus_write := a\<rparr>) = tags dp"
  "tags (dp\<lparr>stepper_phase_mask := w\<rparr>) = tags dp" "tags (dp\<lparr>is_motor_on := b\<rparr>) = tags dp"
  "tags (dp\<lparr>sequencer := s\<rparr>) = tags dp" "tags (dp\<lparr>disk_synced := u\<rparr>) = tags dp"
  "tags (dp\<lparr>card_cycles := u\<rparr>) = tags dp" "tags (dp\<lparr>active_drive_index := w\<rparr>) = tags dp"
  "tags (dp\<lparr>magnet_release_cycle := u\<rparr>) = tags dp" "tags (dp\<lparr>magnet_released := b\<rparr>) = tags dp"
  "tags (dp\<lparr>quarter_track_before_release := u\<rparr>) = tags dp" "tags (put_sequencer f dp) = tags dp"
  by (simp_all add: tags_def put_sequencer_def fun_eq_iff)

lemma tag_frame [simp]:
  "tag (d\<lparr>quarter_track := q\<rparr>) = tag d" "tag (d\<lparr>is_data_loaded := b\<rparr>) = tag d"
  "tag (d\<lparr>motor_enable_cycles := u\<rparr>) = tag d" "tag (d\<lparr>write_light_cycles := u\<rparr>) = tag d"
  "tag (d\<lparr>track_bits := bs\<rparr>) = tag d" "tag (d\<lparr>bit_count := u\<rparr>) = tag d" "tag (d\<lparr>bit_timing := t\<rparr>) = tag d"
  "tag (d\<lparr>bit_position := u\<rparr>) = tag d" "tag (d\<lparr>last_error := e\<rparr>) = tag d"
  "tag (d\<lparr>cell_remaining := i\<rparr>) = tag d" "tag (d\<lparr>zero_cell_run := z\<rparr>) = tag d"
  by (simp_all add: tag_def)

lemma write_blocked: "sealed fa (tag (drives dp k)) \<Longrightarrow> write_track_to_driver fa k (dp, g) = (dp, g)"
  by (simp add: write_track_to_driver_def Let_def sealed_protected)

lemma flush_blocked:
  "\<forall>k. sealed fa (tags dp k) \<Longrightarrow> (if b then write_track_to_driver fa k (dp, g) else (dp, g)) = (dp, g)"
  by (simp add: write_blocked tags_def)

subsection \<open>The sequencer\<close>

text \<open>What the sequencer leaves alone in the card.\<close>

definition frame :: "disk_card \<Rightarrow> (nat \<Rightarrow> disk) \<times> u16" where
  "frame dp = (drives dp, active_drive_index dp)"

lemma pass_cell_tag:
  "pass_cell w (p, dp, d) = (p', dp', d') \<Longrightarrow> tag d' = tag d \<and> frame dp' = frame dp"
  by (auto simp: pass_cell_def commit_write_cell_def noise_pulse_def put_sequencer_def tag_def frame_def Let_def
      split: prod.splits if_splits)

lemma pass_cells_tag:
  assumes "pass_cells w (dp, d) = Some (p', dp', d')"
  shows "tag d' = tag d \<and> frame dp' = frame dp"
proof -
  let ?P = "\<lambda>(_ :: bool, dp' :: disk_card, d' :: disk). tag d' = tag d \<and> frame dp' = frame dp"
  have "?P (p', dp', d')"
  proof (rule while_option_rule [where P = ?P and s = "(False, dp, d)", OF _ assms [unfolded pass_cells_def]])
    fix s :: "bool \<times> running" assume "?P s"
    then show "?P (pass_cell w s)"
      using pass_cell_tag by (cases s) (auto split: prod.splits; metis)
  qed simp
  then show ?thesis by simp
qed

lemma sequencer_step_tag:
  assumes "running_ok (dp, d)" "sequencer_step p w (dp, d) = (dp', d')"
  shows "tag d' = tag d \<and> frame dp' = frame dp"
proof -
  obtain b dp1 d1 where a: "advance_medium_one_step w (dp, d) = (b, dp1, d1)" by (metis surj_pair)
  have "tag d1 = tag d \<and> frame dp1 = frame dp"
  proof (cases "bit_count d = 0")
    case True
    with a show ?thesis by (auto simp: advance_medium_one_step_def noise_pulse_def frame_def Let_def)
  next
    case False
    let ?d = "d\<lparr>cell_remaining := cell_remaining d - 4\<rparr>"
    have "passing_ok ?d" "card_ok dp"
      using assms(1) False by (simp_all add: running_ok_def passing_ok_def drive_ok_def)
    from pass_cells_ok [OF this(2,1), of w] obtain r where r: "pass_cells w (dp, ?d) = Some r" by auto
    then show ?thesis
      using a False pass_cells_tag [of w dp ?d b dp1 d1]
      by (simp add: advance_medium_one_step_def tag_def)
  qed
  then show ?thesis
    using assms(2) by (auto simp: sequencer_step_def a Let_def frame_def put_sequencer_def)
qed

lemma sequencer_steps_tag:
  assumes "running_ok r" "(sequencer_step p w ^^ n) r = r'"
  shows "tag (snd r') = tag (snd r) \<and> frame (fst r') = frame (fst r)"
  using assms(2)
proof (induction n arbitrary: r')
  case (Suc n)
  let ?s = "(sequencer_step p w ^^ n) r"
  have "running_ok ?s" using sequencer_steps_ok [OF assms(1)] by blast
  with Suc sequencer_step_tag [of "fst ?s" "snd ?s" p w "fst r'" "snd r'"] show ?case by simp
qed simp

subsection \<open>The card\<close>

text \<open>Drivers that read a track without a trace, as those of the repository do.\<close>

locale quiet_drivers = format_drivers +
  assumes reads_quiet: "fa_read_track_bits fa h q bits room g = (e, bits', n, t, g') \<Longrightarrow> g' = g"

definition kept :: "('g \<Rightarrow> bool) \<Rightarrow> (nat \<Rightarrow> nat option \<times> bool) \<Rightarrow> 'g \<Rightarrow> disk_card \<times> 'g \<Rightarrow> bool" where
  "kept P T G x \<longleftrightarrow> system_ok P x \<and> untouched T G x"

definition host_kept :: "(nat \<Rightarrow> nat option \<times> bool) \<Rightarrow> 'g \<Rightarrow> nat \<Rightarrow> ('g, 'a) disks_scheme \<Rightarrow> bool" where
  "host_kept T G i m \<longleftrightarrow> untouched T G (dcards m i, media m)"

lemma on_card_kept:
  "host_kept T G i m \<Longrightarrow> (\<And>dp g. untouched T G (dp, g) \<Longrightarrow> untouched T G (f (dp, g))) \<Longrightarrow> host_kept T G i (on_card i f m)"
  by (cases "f (dcards m i, media m)") (fastforce simp: host_kept_def on_card_def)

lemma notify_kept [simp]: "host_kept T G i (notify_activity_changed j active m) = host_kept T G i m"
  by (simp add: host_kept_def notify_activity_changed_def host_notify_activity_changed_def Let_def)

text \<open>What the program can do; the rest is for the frontend.\<close>

fun program_call :: "disk_call \<Rightarrow> bool" where
  "program_call (DiskCommand _ _) = False"
| "program_call (DiskLoad _) = False"
| "program_call DiskShutdown = False"
| "program_call _ = True"

context quiet_drivers
begin

lemma read_track_kept: "untouched T G x \<Longrightarrow> untouched T G (read_track_from_driver fa k x)"
proof -
  assume u: "untouched T G x"
  obtain dp g where x: "x = (dp, g)" by force
  have rescale: "tag (rescale_head_angle p c d) = tag d" for p c d
    by (simp add: rescale_head_angle_def Let_def)
  show ?thesis
    using u reads_quiet unfolding x
    by (auto simp: read_track_from_driver_def Let_def rescale intro!: trans [OF tags_put(1)]
        split: option.splits prod.splits)
qed

lemma move_head_kept:
  assumes "\<forall>k. sealed fa (T k)" "untouched T G x"
  shows "untouched T G (move_head_to fa target x)"
proof -
  obtain dp g where x: "x = (dp, g)" by force
  have "\<forall>k. sealed fa (tags dp k)" using assms by (simp add: x)
  note blocked = flush_blocked [OF this]
  show ?thesis using assms(2) by (simp add: x move_head_to_def blocked tags_put)
qed

lemma settle_kept:
  assumes "\<forall>k. sealed fa (T k)" "untouched T G x"
  shows "untouched T G (settle_head fa x)"
proof -
  obtain dp g where x: "x = (dp, g)" by force
  show ?thesis
    using assms(2) move_head_kept [OF assms]
    by (auto simp: x settle_head_def Let_def simp del: untouched_pair split: prod.splits)
qed

lemma stepper_kept:
  assumes "\<forall>k. sealed fa (T k)" "untouched T G x"
  shows "untouched T G (disk_io_control_stepper fa a x)"
proof -
  obtain dp g where x: "x = (dp, g)" by force
  let ?mask = "if a AND 0x01 \<noteq> 0 then stepper_phase_mask dp OR push_bit (unat (drop_bit 1 a AND 0x03)) 1
    else stepper_phase_mask dp AND NOT (push_bit (unat (drop_bit 1 a AND 0x03)) 1)"
  obtain dp' g' where s: "settle_head fa (dp\<lparr>stepper_phase_mask := ?mask\<rparr>, g) = (dp', g')" by force
  have s': "untouched T G (dp', g')"
    unfolding s [symmetric] using assms(2) by (intro settle_kept [OF assms(1)]) (simp add: x)
  obtain dp'' g'' where m: "move_head_to fa (quarter_track_before_release dp') (dp', g') = (dp'', g'')" by force
  have "untouched T G (dp'', g'')" using move_head_kept [OF assms(1) s'] m by metis
  then show ?thesis
    using assms(2) s s' m by (simp add: x disk_io_control_stepper_def Let_def split: if_splits)
qed

lemma run_kept:
  assumes "kept media_ok T G x" shows "untouched T G (run_sequencer_cycles fa cycles x)"
proof -
  obtain dp g where x: "x = (dp, g)" by force
  obtain dp' g' where e: "(if \<not> is_data_loaded (active_drive dp) \<and> driver (active_drive dp) \<noteq> None
      then read_track_from_driver fa (unat (active_drive_index dp)) (dp, g) else (dp, g)) = (dp', g')" by force
  have now: "kept media_ok T G (dp', g')"
    using assms read_track_ok [of "(dp, g)"] read_track_kept [of T G "(dp, g)"] e
    unfolding kept_def x by (metis (full_types))
  then have run: "running_ok (dp', active_drive dp')" by (simp add: kept_def running_ok_def card_ok_active)
  have "untouched T G (case (sequencer_step p w ^^ n) (dp', active_drive dp') of (dp, d) \<Rightarrow> (put_active d dp, g'))" for p w n
  proof -
    obtain dp2 d2 where r: "(sequencer_step p w ^^ n) (dp', active_drive dp') = (dp2, d2)" by force
    from sequencer_steps_tag [OF run r]
    have "tag d2 = tag (active_drive dp2)" "tags dp2 = tags dp'"
      by (simp_all add: active_drive_def active_index_def frame_def tags_def fun_eq_iff)
    then show ?thesis using now by (simp add: kept_def r tags_put)
  qed
  then show ?thesis
    using assms unfolding x run_sequencer_cycles_def prod.case e Let_def by (auto simp: kept_def)
qed

lemma sync_kept: "kept media_ok T G x \<Longrightarrow> untouched T G (sync_sequencer_to_cycle fa t x)"
proof -
  assume k: "kept media_ok T G x"
  obtain dp g where x: "x = (dp, g)" by force
  have "kept media_ok T G (dp\<lparr>disk_synced := t, card_cycles := u\<rparr>, g)" for u
    using k by (auto simp: x kept_def)
  from run_kept [OF this] show ?thesis
    using k by (simp add: x sync_sequencer_to_cycle_def Let_def kept_def del: untouched_pair)
qed

lemma initialize_kept:
  assumes "\<forall>k. sealed fa (T k)" "untouched T G x"
  shows "untouched T G (initialize_peripheral fa x)"
proof -
  obtain dp g where x: "x = (dp, g)" by force
  have "\<forall>k. sealed fa (tags dp k)" using assms by (simp add: x)
  note blocked = flush_blocked [OF this]
  show ?thesis using assms(2) by (simp add: x initialize_peripheral_def flush_drive_def blocked tags_def fun_eq_iff)
qed

lemma motor_state_kept:
  assumes "\<forall>k. sealed fa (T k)" "host_kept T G i m"
  shows "host_kept T G i (sync_drive_motor_state fa i m)"
  using assms(2) unfolding sync_drive_motor_state_def Let_def
  by (auto intro!: on_card_kept settle_kept [OF assms(1)] simp: tags_put)

lemma enable_kept:
  assumes "\<forall>k. sealed fa (T k)" "host_kept T G i m"
  shows "host_kept T G i (disk_io_enable_drive fa i addr m)"
proof -
  have "host_kept T G i (on_card i (\<lambda>(dp, g). case (if is_dirty (active_drive dp)
      then write_track_to_driver fa (unat (active_drive_index dp)) (dp, g) else (dp, g)) of
      (dp, g) \<Rightarrow> ((put_active ((active_drive dp)\<lparr>motor_enable_cycles := 0, write_light_cycles := 0\<rparr>) dp)
        \<lparr>active_drive_index := addr AND 1\<rparr>, g)) m)"
  proof (rule on_card_kept [OF assms(2)], goal_cases)
    case (1 dp g)
    then have "\<forall>k. sealed fa (tags dp k)" using assms(1) by simp
    with 1 show ?case by (simp add: flush_blocked tags_put)
  qed
  then show ?thesis
    using assms by (simp add: disk_io_enable_drive_def Let_def motor_state_kept)
qed

lemma mode_switch_kept [simp]: "tags (disk_io_mode_switch addr v dp) = tags dp"
  by (simp add: disk_io_mode_switch_def Let_def tags_put split: option.split)

lemma handler_kept:
  assumes "\<forall>k. sealed fa (T k)" "host_kept T G i m"
  shows "host_kept T G i (disk_io_handler fa i addr v m)"
  using assms(2) unfolding disk_io_handler_def disk_io_control_motor_def Let_def
  by (auto intro!: on_card_kept stepper_kept [OF assms(1)] motor_state_kept [OF assms(1)] enable_kept [OF assms(1)])

lemma motor_kept:
  assumes "\<forall>k. sealed fa (T k)" "host_kept T G i m"
  shows "host_kept T G i (update_motor fa i elapsed k m)"
proof -
  let ?d = "drives (dcards m i) k"
  have t: "tag ?d = T k" using assms(2) by (simp add: host_kept_def tags_def fun_eq_iff)
  have "host_kept T G i (on_card i (\<lambda>(dp, g).
      let dp = put_drive k (?d\<lparr>motor_enable_cycles := 0\<rparr>) dp;
          dp = (if active_index dp = k then dp\<lparr>magnet_released := False\<rparr> else dp)
      in if is_dirty ?d then write_track_to_driver fa k (dp, g) else (dp, g)) m)"
  proof (rule on_card_kept [OF assms(2)], goal_cases)
    case (1 dp g)
    then have d: "tag ?d = tag (drives dp k)" using t by (simp add: tags_def fun_eq_iff)
    let ?dp = "put_drive k (?d\<lparr>motor_enable_cycles := 0\<rparr>) dp"
    let ?dp' = "if active_index ?dp = k then ?dp\<lparr>magnet_released := False\<rparr> else ?dp"
    have "tags ?dp' = T" using 1 d by (simp add: tags_put)
    then show ?case using 1 assms(1) by (simp add: Let_def flush_blocked)
  qed
  moreover have "host_kept T G i
      (on_card i (\<lambda>(dp, g). (put_drive k (?d\<lparr>motor_enable_cycles := motor_enable_cycles ?d - elapsed\<rparr>) dp, g)) m)"
  proof (rule on_card_kept [OF assms(2)], goal_cases)
    case (1 dp g)
    then have "tag ?d = tag (drives dp k)" using t by (simp add: tags_def fun_eq_iff)
    with 1 show ?case by (simp add: tags_put)
  qed
  ultimately show ?thesis using assms(2) by (simp add: update_motor_def Let_def)
qed

lemma think_kept:
  assumes "\<forall>k. sealed fa (T k)" "host_kept T G i m" "host_ok media_ok i m"
  shows "host_kept T G i (disk_abi_think fa (Some i) elapsed m)"
proof -
  have light: "tags (update_write_light elapsed k dp) = tags dp" for k dp
    by (simp add: update_write_light_def Let_def tags_put)
  have physics: "host_kept T G i (update_drive_physics fa i elapsed k m)" if "host_kept T G i m" for k m
    unfolding update_drive_physics_def
    by (rule on_card_kept [OF motor_kept [OF assms(1) that]]) (simp add: light)
  have "kept media_ok T G (dcards m i, media m)"
    using assms(2,3) by (simp add: kept_def host_kept_def host_ok_def)
  from sync_kept [OF this, of elapsed]
  have "host_kept T G i
      (on_card i (\<lambda>x. case sync_sequencer_to_cycle fa elapsed x of (dp, g) \<Rightarrow> (dp\<lparr>disk_synced := 0\<rparr>, g)) m)"
    by (cases "sync_sequencer_to_cycle fa elapsed (dcards m i, media m)") (simp add: host_kept_def on_card_def)
  then show ?thesis
    using assms(2) by (simp add: disk_abi_think_def update_physical_disk_state_def physics)
qed

lemma access_kept:
  assumes "\<forall>k. sealed fa (T k)" "host_kept T G i m" "host_ok media_ok i m" "program_call c"
  shows "host_kept T G i (disk_do fa i c m)"
proof -
  have k: "kept media_ok T G (dcards m i, media m)"
    using assms(2,3) by (simp add: kept_def host_kept_def host_ok_def)
  have sync: "host_kept T G i (on_card i (sync_sequencer_to_cycle fa t) m)" for t
    using sync_kept [OF k, of t]
    by (cases "sync_sequencer_to_cycle fa t (dcards m i, media m)") (simp add: host_kept_def on_card_def)
  show ?thesis
    using assms(2,4) handler_kept [OF assms(1) sync] think_kept [OF assms(1,2,3)] initialize_kept [OF assms(1)]
    by (cases c) (simp_all add: disk_io_read_def disk_io_write_def disk_abi_reset_def Let_def on_card_kept
        del: untouched_pair)
qed

lemma accesses_kept:
  assumes "\<forall>k. sealed fa (T k)" "host_kept T G i m" "host_ok media_ok i m" "list_all program_call cs"
  shows "host_kept T G i (fold (disk_do fa i) cs m)"
  using assms(2-)
proof (induction cs arbitrary: m)
  case (Cons c cs)
  with access_kept [OF assms(1) Cons.prems(1,2)] disk_do_ok [OF Cons.prems(2)] show ?case by simp
qed simp

end

interpretation quiet: quiet_drivers "media_api al (registered built_in_drivers)" images_timed for al
  by unfold_locales (auto simp: media_api_def media_read_def split: prod.splits)


text \<open>Two tabs set; the program turns the motor on, selects writing and writes.\<close>

definition protected_host :: "disk_media disks" where
  "protected_host = disk_host0\<lparr>dcards := (\<lambda>_. (new_disk_card 6)\<lparr>drives := (\<lambda>_. new_disk\<lparr>is_user_write_protected := True\<rparr>)\<rparr>)\<rparr>"

definition writing_calls :: "disk_call list" where
  "writing_calls = [DiskRead 0xC0E9 100, DiskWrite 0xC0ED 0xD5 200, DiskWrite 0xC0EF 0xAA 232, DiskThink 17030, DiskRead 0xC0E8 50]"


end
