(* ===== verification/Sector_Image_Props.thy ===== *)
theory Sector_Image_Props
  imports Sector_Image Disk_Track_Props
begin

text \<open>
  Sector images through the card's eyes: a track written as bit cells lands in the image's file as
  its sectors, and comes back as the same cells.
\<close>

lemma formatted_track:
  assumes "disk_encoding_nibblize_track True (disk_encoding_sector_order ord) track sectors = Inr nibbles"
    "length sectors = 4096"
  shows "track < 40" "length nibbles = 6208" "total_cells nibbles = 50464" "\<forall>v \<in> set (map fst nibbles). bit v 7"
    "disk_encoding_denibblize_track True (disk_encoding_sector_order ord) track (map fst nibbles) = Inr sectors"
proof -
  show track: "track < 40" using assms(1) by (auto simp: disk_encoding_nibblize_track_def split: if_splits)
  have n: "nibbles = put_gap 48 @ concat (map (sector_fields (disk_encoding_sector_order ord) track sectors) [0..<16])"
    using assms(1) by (auto simp: disk_encoding_nibblize_track_def split: if_splits)
  show "length nibbles = 6208" "total_cells nibbles = 50464" "\<forall>v \<in> set (map fst nibbles). bit v 7"
    using nibblized_size [OF sector_orders assms(2) n] nibblized_high_bits [OF sector_orders assms(2) n] by blast+
  show "disk_encoding_denibblize_track True (disk_encoding_sector_order ord) track (map fst nibbles) = Inr sectors"
    using track_decodes [OF sector_orders assms(2) track, of ord] assms(1) by auto
qed

lemma formatted_cells:
  assumes "disk_encoding_nibblize_track True (disk_encoding_sector_order ord) track sectors = Inr nibbles"
    "length sectors = 4096"
    "disk_encoding_nibbles_to_bits True (map fst nibbles) (Some (map (\<lambda>e. b2w (snd e)) nibbles)) room = Inr (cells, n)"
  shows "n = 50464" "length cells = 6308"
    "disk_encoding_bits_to_nibbles True (cells @ rest) n nibble_buffer = (disk_err_none, map fst nibbles)"
proof -
  note f = formatted_track [OF assms(1,2)]
  show n: "n = 50464" "length cells = 6308"
    using cells_held(1,3) [OF assms(3)] f(3) by (simp_all add: walk_marked)
  show "disk_encoding_bits_to_nibbles True (cells @ rest) n nibble_buffer = (disk_err_none, map fst nibbles)"
    using cells_read_back [OF assms(3) f(4), of nibble_buffer rest] f(2) by simp
qed

text \<open>
  C38. A track written to a sector image is stored and comes back.  When a program has written a
  formatted track - any sixteen sectors, in the image's order - and the card hands its 50464 cells
  to the driver, the image's file holds the 4096 bytes at the track's place and is otherwise
  unchanged, and reading any quarter track of that cylinder afterwards gives the very cells back,
  whatever the buffers held before.
\<close>

theorem sector_image_track_round_trip:
  assumes "\<not> si_host_read_only img" "track = unat (quarter_track_to_cylinder q)"
    "quarter_track_to_cylinder q' = quarter_track_to_cylinder q" "quarter_track_to_cylinder q < si_track_count img"
    "length sectors = 4096"
    "disk_encoding_nibblize_track True (disk_encoding_sector_order (si_order img)) track sectors = Inr nibbles"
    "disk_encoding_nibbles_to_bits True (map fst nibbles) (Some (map (\<lambda>e. b2w (snd e)) nibbles)) (unat room) = Inr (cells, n)"
    "\<not> fs_faulty fs (si_file img)"
    "(e, fs') = sector_disk_image_write_track_bits img q (put_bits cells buffer) (word_of_nat n) fs"
    "at = unat (si_data_offset img) + track * 4096"
  shows "e = disk_err_none \<and> take 4096 (drop at (fs_data fs' (si_file img))) = sectors \<and>
    (\<forall>i. i < length (fs_data fs (si_file img)) \<and> (i < at \<or> at + 4096 \<le> i) \<longrightarrow>
       fs_data fs' (si_file img) ! i = fs_data fs (si_file img) ! i) \<and>
    sector_disk_image_read_track_bits img q' buffer' room fs' = (disk_err_none, put_bits cells buffer', word_of_nat n)"
proof -
  note f = formatted_track [OF assms(6,5)] and c = formatted_cells [OF assms(6,5,7)]
  let ?file = "si_file img"
  have count: "unat (word_of_nat n :: u32) = n" by (simp add: c(1))
  have at: "at = track_offset img (quarter_track_to_cylinder q)" by (simp add: assms(2,10) track_offset_def)
  have "sector_disk_image_write_track_bits img q (put_bits cells buffer) (word_of_nat n) fs =
      (disk_err_none, fs\<lparr>fs_data := (fs_data fs)(?file := overwrite at sectors (fs_data fs ?file))\<rparr>)"
    using assms(1,4,8) c(3) f(5)
    by (simp add: sector_disk_image_write_track_bits_def Let_def count put_bits_def fwrite_at_def at
        assms(2) [symmetric])
  then have w: "e = disk_err_none" "fs' = fs\<lparr>fs_data := (fs_data fs)(?file := overwrite at sectors (fs_data fs ?file))\<rparr>"
    using assms(9) by simp_all
  then have data: "fs_data fs' ?file = overwrite at sectors (fs_data fs ?file)" "fs_faulty fs' ?file = False"
    using assms(8) by simp_all
  have stored: "take 4096 (drop at (fs_data fs' ?file)) = sectors"
    unfolding data by (rule overwrite_same [OF assms(5)])
  have "sector_disk_image_read_track_bits img q' buffer' room fs' = (disk_err_none, put_bits cells buffer', word_of_nat n)"
    using assms(3-7) stored data(2) iffD2 [OF not_le assms(4)]
    by (simp add: sector_disk_image_read_track_bits_def Let_def fread_at_def at [symmetric] assms(2) [symmetric] cells_answer_def)
  then show ?thesis
    using w(1) stored nth_overwrite [of _ "fs_data fs ?file" at sectors] data(1) assms(5) by auto
qed

text \<open>Track 17 of a blank image in a host file.\<close>

definition image_file :: file_system where
  "image_file = \<lparr>fs_names = [''a.dsk'' \<mapsto> 7], fs_data = (\<lambda>_. replicate 143360 0), fs_read_only = (\<lambda>_. False),
     fs_unreadable = (\<lambda>_. False), fs_faulty = (\<lambda>_. False), fs_unwritable_dir = (\<lambda>_. False), fs_next = 8\<rparr>"

definition image_a :: sector_disk_image where
  "image_a = \<lparr>si_file = 7, si_data_offset = 0, si_track_count = 35, si_host_read_only = False,
     si_order = disk_sector_order_dos\<rparr>"

lemma sector_image_track_round_trip_witness:
  "\<exists>cells fs'. sector_disk_image_write_track_bits image_a 69 (put_bits cells []) 50464 image_file = (disk_err_none, fs') \<and>
     take 4096 (drop 69632 (fs_data fs' 7)) = replicate 4096 0xA5 \<and>
     sector_disk_image_read_track_bits image_a 68 [] 69632 fs' = (disk_err_none, put_bits cells [], 50464)"
proof -
  define secs where "secs = replicate 4096 (0xA5 :: u8)"
  have len: "length secs = 4096" by (simp add: secs_def)
  have cyl: "quarter_track_to_cylinder 69 = 17" "quarter_track_to_cylinder 68 = 17"
    by (simp_all add: quarter_track_to_cylinder_def)
  obtain nibbles where n: "disk_encoding_nibblize_track True (disk_encoding_sector_order (si_order image_a)) 17 secs = Inr nibbles"
    using track_decodes [OF sector_orders len, of 17] by auto
  have l: "length nibbles = 6208" "total_cells nibbles = 50464" using formatted_track [OF n len] by simp_all
  obtain cells where c: "disk_encoding_nibbles_to_bits True (map fst nibbles) (Some (map (\<lambda>e. b2w (snd e)) nibbles))
      (unat (69632 :: u32)) = Inr (cells, 50464)"
    using l by (simp add: disk_encoding_nibbles_to_bits_def walk_marked)
  obtain e fs' where w: "(e, fs') = sector_disk_image_write_track_bits image_a 69 (put_bits cells []) (word_of_nat 50464) image_file"
    by (metis surj_pair)
  have img: "\<not> si_host_read_only image_a" "si_file image_a = 7" "si_track_count image_a = 35" "si_data_offset image_a = 0"
    "\<not> fs_faulty image_file 7"
    by (simp_all add: image_a_def image_file_def)
  have "e = disk_err_none \<and> take 4096 (drop 69632 (fs_data fs' 7)) = secs \<and>
      sector_disk_image_read_track_bits image_a 68 [] 69632 fs' = (disk_err_none, put_bits cells [], word_of_nat 50464)"
    using sector_image_track_round_trip [OF img(1) _ _ _ len n c _ w refl, of 68 "[]"] img cyl by simp
  then show ?thesis using w by (intro exI [of _ cells] exI [of _ fs']) (simp add: secs_def)
qed

end
