(* ===== verification/Block_Image.thy ===== *)
theory Block_Image
  imports Nibble_Image
begin

text \<open>
  Block images (\<open>formats/BlockDiskImage.cpp\<close>, \<open>PoBlockDriver.cpp\<close>, \<open>DoBlockDriver.cpp\<close>,
  \<open>TwoImgDriver.cpp\<close>, \<open>NibbleRefusalDriver.cpp\<close>): a file of 512-byte blocks, in ProDOS order
  one run each, in DOS order two sectors each, behind a wrapper or a 2IMG header.

  The caller's buffer is returned with what was read into it, also when the read fails half way.
\<close>

datatype harddisk_error = harddisk_err_none | harddisk_err_io | harddisk_err_not_found
  | harddisk_err_read_only | harddisk_err_invalid_format | harddisk_err_not_block_image

datatype harddisk_probe = harddisk_probe_no | harddisk_probe_possible | harddisk_probe_definite

datatype block_disk_order = block_disk_order_prodos | block_disk_order_dos

record block_disk_image =
  bi_file :: nat
  bi_path :: string
  bi_data_offset :: u32
  bi_total_blocks :: u32
  bi_host_read_only :: bool
  bi_order :: block_disk_order

abbreviation (input) "block_bytes \<equiv> (512 :: nat)"
abbreviation (input) "block_track_bytes \<equiv> (4096 :: nat)"
abbreviation (input) "block_disk_image_dos_size \<equiv> (143360 :: nat)"
abbreviation (input) "block_disk_image_dos_blocks \<equiv> (280 :: nat)"

subsection \<open>Where a block lies\<close>

definition dos_sectors_of_block :: "(nat \<times> nat) list" where
  "dos_sectors_of_block =
     [(0x0, 0xE), (0xD, 0xC), (0xB, 0xA), (0x9, 0x8), (0x7, 0x6), (0x5, 0x4), (0x3, 0x2), (0x1, 0xF)]"

definition dos_sector_of :: "nat \<Rightarrow> nat \<Rightarrow> nat" where
  "dos_sector_of k half = (if half = 0 then fst (dos_sectors_of_block ! k) else snd (dos_sectors_of_block ! k))"

definition dos_block_half_offset :: "nat \<Rightarrow> nat \<Rightarrow> nat" where
  "dos_block_half_offset block half =
     (let track = block div 8; sector = dos_sector_of (block mod 8) half
      in track * block_track_bytes + sector * 256)"

definition image_sector_offset :: "block_disk_order \<Rightarrow> nat \<Rightarrow> nat \<Rightarrow> nat" where
  "image_sector_offset ord track sector =
     (if ord = block_disk_order_dos then track * block_track_bytes + sector * 256
      else case find (\<lambda>(k, half). dos_sector_of k half = sector) (List.product [0..<8] [0..<2]) of
             None \<Rightarrow> 0
           | Some (k, half) \<Rightarrow> track * block_track_bytes + k * block_bytes + half * 256)"

definition block_offset :: "block_disk_order \<Rightarrow> nat \<Rightarrow> nat \<Rightarrow> nat" where
  "block_offset ord block half =
     (if ord = block_disk_order_dos then dos_block_half_offset block half else block * block_bytes + half * 256)"

subsection \<open>Recognizing a file system\<close>

definition reads_dos_catalog :: "u8 list \<Rightarrow> block_disk_order \<Rightarrow> bool" where
  "reads_dos_catalog header ord =
     list_all (\<lambda>sector. let offset = image_sector_offset ord 17 sector + 2
                        in offset < length header \<and> header ! offset = word_of_nat (sector - 1)) [1..<16]"

fun directory_walk :: "nat \<Rightarrow> u8 list \<Rightarrow> block_disk_order \<Rightarrow> nat \<Rightarrow> nat \<Rightarrow> bool" where
  "directory_walk 0 header ord previous block = False"
| "directory_walk (Suc n) header ord previous block =
     (let offset = block_offset ord block 0 in
      if offset + 4 > length header then False
      else let prev = unat (le16 (drop offset header)); nxt = unat (le16 (drop (offset + 2) header)) in
        if prev \<noteq> previous then False
        else if nxt = 0 then block \<noteq> 2
        else if nxt \<ge> block_disk_image_dos_blocks then False
        else directory_walk n header ord block nxt)"

definition reads_prodos_directory :: "u8 list \<Rightarrow> block_disk_order \<Rightarrow> bool" where
  "reads_prodos_directory header ord = directory_walk block_disk_image_dos_blocks header ord 0 2"

definition block_disk_image_probe_signature :: "u8 list \<Rightarrow> nat \<Rightarrow> block_disk_order \<Rightarrow> harddisk_probe" where
  "block_disk_image_probe_signature header file_bytes ord =
     (if file_bytes \<noteq> block_disk_image_dos_size then harddisk_probe_no
      else if reads_dos_catalog header ord \<or> reads_prodos_directory header ord then harddisk_probe_definite
      else harddisk_probe_possible)"

subsection \<open>The image\<close>

definition block_disk_image_open ::
  "string \<Rightarrow> u32 \<Rightarrow> block_disk_order \<Rightarrow> u32 \<Rightarrow> bool \<Rightarrow> 'f file_system_scheme \<Rightarrow> harddisk_error + block_disk_image" where
  "block_disk_image_open path file_offset ord block_count read_only fs =
     (case (case (if read_only then Inl EACCES else fopen path True fs) of
              Inr n \<Rightarrow> Inr (n, False)
            | Inl _ \<Rightarrow> (case fopen path False fs of Inr n \<Rightarrow> Inr (n, True) | Inl e \<Rightarrow> Inl e)) of
        Inl e \<Rightarrow> Inl (if e = ENOENT then harddisk_err_not_found else harddisk_err_io)
      | Inr (file, host_read_only) \<Rightarrow>
          let whole = stream_size file fs in
          if whole < 0 then Inl harddisk_err_io
          else if whole < int (unat file_offset) then Inl harddisk_err_invalid_format
          else
            let available = nat whole - unat file_offset; whole_blocks = available div block_bytes in
            if block_count = 0 \<and> (whole_blocks = 0 \<or> whole_blocks > 4294967295)
            then Inl harddisk_err_invalid_format
            else if block_count \<noteq> 0 \<and> unat block_count * block_bytes > available
            then Inl harddisk_err_invalid_format
            else let count = (if block_count = 0 then word_of_nat whole_blocks else block_count) in
              if ord = block_disk_order_dos \<and> unat count \<noteq> block_disk_image_dos_blocks
              then Inl harddisk_err_invalid_format
              else Inr \<lparr>bi_file = file, bi_path = path, bi_data_offset = file_offset, bi_total_blocks = count,
                        bi_host_read_only = host_read_only, bi_order = ord\<rparr>)"

text \<open>The pieces of a block: where each lies in the file, where in the buffer, and how long it is.\<close>

definition block_pieces :: "block_disk_image \<Rightarrow> u32 \<Rightarrow> (nat \<times> nat \<times> nat) list" where
  "block_pieces img block_num =
     (let pieces = (if bi_order img = block_disk_order_dos then 2 else 1); piece_size = block_bytes div pieces
      in map (\<lambda>half. (unat (bi_data_offset img) + block_offset (bi_order img) (unat block_num) half,
                      half * piece_size, piece_size)) [0..<pieces])"

definition put_at :: "nat \<Rightarrow> u8 list \<Rightarrow> u8 list \<Rightarrow> u8 list" where
  "put_at pos bytes buffer = take pos buffer @ bytes @ drop (pos + length bytes) buffer"

fun read_pieces ::
  "nat \<Rightarrow> (nat \<times> nat \<times> nat) list \<Rightarrow> u8 list \<Rightarrow> 'f file_system_scheme \<Rightarrow> harddisk_error \<times> u8 list" where
  "read_pieces file [] buffer fs = (harddisk_err_none, buffer)"
| "read_pieces file ((offset, pos, len) # rest) buffer fs =
     (case fread_at file offset len fs of
        None \<Rightarrow> (harddisk_err_io, buffer)
      | Some bytes \<Rightarrow>
          if length bytes \<noteq> len then (harddisk_err_io, put_at pos bytes buffer)
          else read_pieces file rest (put_at pos bytes buffer) fs)"

fun write_pieces ::
  "nat \<Rightarrow> (nat \<times> nat \<times> nat) list \<Rightarrow> u8 list \<Rightarrow> 'f file_system_scheme \<Rightarrow> harddisk_error \<times> 'f file_system_scheme" where
  "write_pieces file [] buffer fs = (harddisk_err_none, fs)"
| "write_pieces file ((offset, pos, len) # rest) buffer fs =
     (case fwrite_at file offset (take len (drop pos buffer)) fs of
        (ok, fs) \<Rightarrow> if ok then write_pieces file rest buffer fs else (harddisk_err_io, fs))"

definition block_disk_image_read_block ::
  "block_disk_image \<Rightarrow> u32 \<Rightarrow> u8 list \<Rightarrow> 'f file_system_scheme \<Rightarrow> harddisk_error \<times> u8 list" where
  "block_disk_image_read_block img block_num buffer fs =
     (if block_num \<ge> bi_total_blocks img then (harddisk_err_io, buffer)
      else read_pieces (bi_file img) (block_pieces img block_num) buffer fs)"

definition block_disk_image_write_block ::
  "block_disk_image \<Rightarrow> u32 \<Rightarrow> u8 list \<Rightarrow> 'f file_system_scheme \<Rightarrow> harddisk_error \<times> 'f file_system_scheme" where
  "block_disk_image_write_block img block_num buffer fs =
     (if bi_host_read_only img then (harddisk_err_read_only, fs)
      else if block_num \<ge> bi_total_blocks img then (harddisk_err_io, fs)
      else write_pieces (bi_file img) (block_pieces img block_num) buffer fs)"

subsection \<open>The drivers' probes\<close>

definition is_dos_order_name :: "string \<Rightarrow> bool" where
  "is_dos_order_name ext_hint \<longleftrightarrow> ext_hint = ''.do'' \<or> ext_hint = ''.dsk''"

definition is_prodos_order_name :: "string \<Rightarrow> bool" where
  "is_prodos_order_name ext_hint \<longleftrightarrow> ext_hint = ''.po'' \<or> ext_hint = ''.hdv'' \<or> ext_hint = ''.img''"

definition is_two_img_name :: "string \<Rightarrow> bool" where
  "is_two_img_name ext_hint \<longleftrightarrow> ext_hint = ''.2mg'' \<or> ext_hint = ''.2img'' \<or> ext_hint = ''.2meg''"

definition po_block_probe :: "u8 list \<Rightarrow> nat \<Rightarrow> string \<Rightarrow> harddisk_probe" where
  "po_block_probe header file_bytes ext_hint =
     (let sig_probe = block_disk_image_probe_signature header file_bytes block_disk_order_prodos in
      if sig_probe = harddisk_probe_definite then harddisk_probe_definite
      else if file_bytes = 0 \<or> file_bytes mod block_bytes \<noteq> 0 then harddisk_probe_no
      else if is_dos_order_name ext_hint \<or> is_two_img_name ext_hint then harddisk_probe_no
      else harddisk_probe_possible)"

definition do_block_probe :: "u8 list \<Rightarrow> nat \<Rightarrow> string \<Rightarrow> harddisk_probe" where
  "do_block_probe header file_bytes ext_hint =
     (let sig_probe = block_disk_image_probe_signature header file_bytes block_disk_order_dos in
      if sig_probe = harddisk_probe_definite then harddisk_probe_definite
      else if ext_hint = ''.do'' \<or> ext_hint = ''.dsk''
      then (if sig_probe \<noteq> harddisk_probe_no then harddisk_probe_possible else harddisk_probe_no)
      else if is_prodos_order_name ext_hint \<or> is_two_img_name ext_hint then harddisk_probe_no
      else sig_probe)"

definition nibble_refusal_probe :: "u8 list \<Rightarrow> nat \<Rightarrow> string \<Rightarrow> harddisk_probe" where
  "nibble_refusal_probe header file_bytes ext_hint =
     (if ext_hint = ''.nib'' \<or> ext_hint = ''.nb2'' \<or> ext_hint = ''.woz'' then harddisk_probe_definite
      else if length header \<ge> 4 \<and> (take 4 header = string_bytes ''WOZ1'' \<or> take 4 header = string_bytes ''WOZ2'')
      then harddisk_probe_definite
      else harddisk_probe_no)"

subsection \<open>The 2IMG header\<close>

record two_img_header =
  th_image_format :: u32
  th_data_offset :: u32
  th_data_length :: u32
  th_block_count :: u32
  th_locked :: bool

definition chunk_is_placed :: "nat \<Rightarrow> nat \<Rightarrow> u32 \<Rightarrow> u32 \<Rightarrow> bool" where
  "chunk_is_placed data_end file_bytes offset len \<longleftrightarrow>
     len = 0 \<or> unat offset \<ge> data_end \<and> unat offset + unat len \<le> file_bytes"

text \<open>The payload's length in bytes: from the field that names it, else the block count, else the file.\<close>

definition payload_length :: "u32 \<Rightarrow> u32 \<Rightarrow> u32 \<Rightarrow> u32 \<Rightarrow> nat \<Rightarrow> nat" where
  "payload_length image_format block_count data_length data_offset file_bytes =
     (let len = unat data_length;
          len = (if len = 0 \<and> image_format = 1 then unat block_count * block_bytes else len)
      in if len = 0 then file_bytes - unat data_offset else len)"

definition two_img_parse :: "u8 list \<Rightarrow> nat \<Rightarrow> harddisk_error + two_img_header" where
  "two_img_parse header file_bytes =
     (if take 4 header \<noteq> string_bytes ''2IMG'' then Inl harddisk_err_invalid_format
      else
        let header_size = le16 (drop 0x08 header) in
        if unat header_size < 64 \<or> unat header_size > file_bytes then Inl harddisk_err_invalid_format
        else
          let image_format = le32 (drop 0x0C header); flags = le32 (drop 0x10 header);
              block_count = le32 (drop 0x14 header); named_offset = le32 (drop 0x18 header);
              data_length = le32 (drop 0x1C header);
              data_offset = (if named_offset = 0 then ucast header_size else named_offset) in
          if data_offset < ucast header_size \<or> unat data_offset > file_bytes then Inl harddisk_err_invalid_format
          else
            let len = payload_length image_format block_count data_length data_offset file_bytes;
                data_end = unat data_offset + len in
            if image_format = 1 \<and> block_count \<noteq> 0 \<and> data_length \<noteq> 0 \<and>
               unat block_count * block_bytes \<noteq> unat data_length
            then Inl harddisk_err_invalid_format
            else if len = 0 \<or> len mod block_bytes \<noteq> 0 \<or> len > 4294967295 \<or> data_end > file_bytes
            then Inl harddisk_err_invalid_format
            else if image_format = 2 then Inl harddisk_err_not_block_image
            else if image_format \<noteq> 1 \<and> \<not> (image_format = 0 \<and> len = block_disk_image_dos_size)
            then Inl harddisk_err_invalid_format
            else if \<not> chunk_is_placed data_end file_bytes (le32 (drop 0x20 header)) (le32 (drop 0x24 header)) \<or>
                    \<not> chunk_is_placed data_end file_bytes (le32 (drop 0x28 header)) (le32 (drop 0x2C header))
            then Inl harddisk_err_invalid_format
            else Inr \<lparr>th_image_format = image_format, th_data_offset = data_offset,
                      th_data_length = word_of_nat len, th_block_count = word_of_nat (len div block_bytes),
                      th_locked = (flags AND 0x80000000 \<noteq> 0)\<rparr>)"

definition two_img_probe :: "u8 list \<Rightarrow> nat \<Rightarrow> string \<Rightarrow> harddisk_probe" where
  "two_img_probe header file_bytes ext_hint =
     (if length header < 4 then harddisk_probe_no
      else if take 4 header = string_bytes ''2IMG'' then harddisk_probe_definite else harddisk_probe_no)"

definition two_img_open ::
  "string \<Rightarrow> u32 \<Rightarrow> bool \<Rightarrow> 'f file_system_scheme \<Rightarrow> harddisk_error + block_disk_image" where
  "two_img_open path file_offset read_only fs =
     (case fopen path False fs of
        Inl _ \<Rightarrow> Inl harddisk_err_not_found
      | Inr file \<Rightarrow>
          let whole = stream_size file fs in
          if whole < 0 then Inl harddisk_err_io
          else if whole < int (unat file_offset) + 64 then Inl harddisk_err_invalid_format
          else case fread_at file (unat file_offset) 64 fs of
                 None \<Rightarrow> Inl harddisk_err_invalid_format
               | Some header \<Rightarrow>
                   if length header \<noteq> 64 then Inl harddisk_err_invalid_format
                   else case two_img_parse header (nat whole - unat file_offset) of
                          Inl e \<Rightarrow> Inl e
                        | Inr parsed \<Rightarrow>
                            block_disk_image_open path (file_offset + th_data_offset parsed)
                              (if th_image_format parsed = 0 then block_disk_order_dos else block_disk_order_prodos)
                              (th_block_count parsed) (read_only \<or> th_locked parsed) fs)"

end
