(* ===== verification/Harddisk_Loader.thy ===== *)
theory Harddisk_Loader
  imports Block_Image Disk_Loader
begin

text \<open>
  The hard disk's loader (\<open>HarddiskLoader.cpp\<close>): the registry of block format drivers, the notes
  that wait for a host, and the opening of an image.  Archives and wrappers are those of
  \<open>Disk_Loader\<close>.
\<close>

subsection \<open>Drivers\<close>

text \<open>\<open>hf_ident\<close> stands for the descriptor's address; an instance is the image it opened.\<close>

record harddisk_format_driver =
  hf_ident :: nat
  hf_abi_version :: int
  hf_capabilities :: u32
  hf_name :: "string option"
  hf_supported_exts :: "string list"
  hf_probe :: "(u8 list \<Rightarrow> nat \<Rightarrow> string \<Rightarrow> harddisk_probe) option"
  hf_open :: "(string \<Rightarrow> u32 \<Rightarrow> bool \<Rightarrow> file_system \<Rightarrow> harddisk_error + block_disk_image) option"
  hf_has_close :: bool
  hf_is_write_protected :: "(block_disk_image \<Rightarrow> bool) option"
  hf_read_block :: "(block_disk_image \<Rightarrow> u32 \<Rightarrow> u8 list \<Rightarrow> file_system \<Rightarrow> harddisk_error \<times> u8 list) option"
  hf_write_block :: "(block_disk_image \<Rightarrow> u32 \<Rightarrow> u8 list \<Rightarrow> file_system \<Rightarrow> harddisk_error \<times> file_system) option"
  hf_get_total_blocks :: "(block_disk_image \<Rightarrow> u32) option"

definition block_driver ::
  "nat \<Rightarrow> string \<Rightarrow> string list \<Rightarrow> (u8 list \<Rightarrow> nat \<Rightarrow> string \<Rightarrow> harddisk_probe) \<Rightarrow>
   (string \<Rightarrow> u32 \<Rightarrow> bool \<Rightarrow> file_system \<Rightarrow> harddisk_error + block_disk_image) \<Rightarrow> harddisk_format_driver" where
  "block_driver ident name exts probe open_fn =
     \<lparr>hf_ident = ident, hf_abi_version = 0, hf_capabilities = 1, hf_name = Some name, hf_supported_exts = exts,
      hf_probe = Some probe, hf_open = Some open_fn, hf_has_close = True,
      hf_is_write_protected = Some bi_host_read_only, hf_read_block = Some block_disk_image_read_block,
      hf_write_block = Some block_disk_image_write_block, hf_get_total_blocks = Some bi_total_blocks\<rparr>"

definition po_block_driver :: harddisk_format_driver where
  "po_block_driver = block_driver 0 ''ProDOS Order'' [''po'', ''hdv'', ''img''] po_block_probe
     (\<lambda>path off ro. block_disk_image_open path off block_disk_order_prodos 0 ro)"

definition do_block_driver :: harddisk_format_driver where
  "do_block_driver = block_driver 1 ''DOS Order'' [''do'', ''dsk''] do_block_probe
     (\<lambda>path off ro. block_disk_image_open path off block_disk_order_dos 280 ro)"

definition two_img_driver :: harddisk_format_driver where
  "two_img_driver = block_driver 2 ''2MG'' [''2mg'', ''2img'', ''2meg''] two_img_probe two_img_open"

text \<open>The driver that claims nibble and flux images to refuse them; it never has an instance.\<close>

definition nibble_refusal_driver :: harddisk_format_driver where
  "nibble_refusal_driver =
     (block_driver 3 ''Nibble image'' [''nib'', ''nb2'', ''woz''] nibble_refusal_probe
       (\<lambda>path off ro fs. Inl harddisk_err_not_block_image))
       \<lparr>hf_is_write_protected := Some (\<lambda>_. True),
        hf_read_block := Some (\<lambda>_ _ buffer _. (harddisk_err_not_block_image, buffer)),
        hf_write_block := Some (\<lambda>_ _ _ fs. (harddisk_err_not_block_image, fs)),
        hf_get_total_blocks := Some (\<lambda>_. 0)\<rparr>"

definition built_in_block_drivers :: "harddisk_format_driver list" where
  "built_in_block_drivers = [po_block_driver, do_block_driver, two_img_driver, nibble_refusal_driver]"

subsection \<open>The registry\<close>

record harddisk_loader =
  hl_registry :: "harddisk_format_driver list"
  hl_permanent :: "harddisk_format_driver list"
  hl_notes :: "(string \<times> string) list"

definition empty_harddisk_loader :: harddisk_loader where
  "empty_harddisk_loader = \<lparr>hl_registry = [], hl_permanent = [], hl_notes = []\<rparr>"

definition harddisk_driver_label :: "harddisk_format_driver option \<Rightarrow> string" where
  "harddisk_driver_label d =
     (case d of None \<Rightarrow> ''<unnamed>'' | Some d \<Rightarrow> (case hf_name d of None \<Rightarrow> ''<unnamed>'' | Some n \<Rightarrow> n))"

definition unusable_block_driver :: "harddisk_format_driver option \<Rightarrow> string option" where
  "unusable_block_driver desc =
     (case desc of None \<Rightarrow> Some ''null driver''
      | Some d \<Rightarrow>
          if hf_abi_version d \<noteq> 0 then Some ''driver ABI version does not match the loader's''
          else if hf_probe d = None \<or> hf_open d = None \<or> \<not> hf_has_close d
          then Some ''probe, open or close missing''
          else if hf_read_block d = None \<or> hf_is_write_protected d = None \<or> hf_get_total_blocks d = None
          then Some ''read_block, is_write_protected or get_total_blocks missing''
          else if (hf_capabilities d AND 1 \<noteq> 0) \<noteq> (hf_write_block d \<noteq> None)
          then Some ''write capability disagrees with write_block''
          else None)"

definition harddisk_loader_note :: "string \<Rightarrow> string \<Rightarrow> harddisk_loader \<Rightarrow> harddisk_loader" where
  "harddisk_loader_note subject note ld = ld\<lparr>hl_notes := hl_notes ld @ [(subject, note)]\<rparr>"

definition admit_block_driver ::
  "harddisk_format_driver option \<Rightarrow> harddisk_loader \<Rightarrow> harddisk_format_driver option \<times> harddisk_loader" where
  "admit_block_driver desc ld =
     (case unusable_block_driver desc of
        Some reason \<Rightarrow> (None, harddisk_loader_note (harddisk_driver_label desc) reason ld)
      | None \<Rightarrow>
          (case desc of None \<Rightarrow> (None, ld)
           | Some d \<Rightarrow>
               if hf_ident d \<in> hf_ident ` set (hl_registry ld) then (None, ld)
               else if harddisk_driver_label (Some d) \<in> (\<lambda>r. harddisk_driver_label (Some r)) ` set (hl_registry ld)
               then (None, harddisk_loader_note (harddisk_driver_label (Some d))
                             ''a driver with this name is already registered'' ld)
               else (Some d, ld)))"

fun insert_block_driver :: "harddisk_format_driver \<Rightarrow> harddisk_format_driver list \<Rightarrow> harddisk_format_driver list" where
  "insert_block_driver d [] = [d]"
| "insert_block_driver d (e # es) =
     (if strcmp_less (harddisk_driver_label (Some d)) (harddisk_driver_label (Some e)) then d # e # es
      else e # insert_block_driver d es)"

definition harddisk_loader_register :: "harddisk_format_driver option \<Rightarrow> harddisk_loader \<Rightarrow> harddisk_loader" where
  "harddisk_loader_register desc ld =
     (case admit_block_driver desc ld of (None, ld) \<Rightarrow> ld
      | (Some d, ld) \<Rightarrow> ld\<lparr>hl_registry := insert_block_driver d (hl_registry ld)\<rparr>)"

definition harddisk_loader_register_permanent ::
  "harddisk_format_driver option \<Rightarrow> harddisk_loader \<Rightarrow> harddisk_loader" where
  "harddisk_loader_register_permanent desc ld =
     (case admit_block_driver desc ld of (None, ld) \<Rightarrow> ld
      | (Some d, ld) \<Rightarrow> ld\<lparr>hl_permanent := insert_block_driver d (hl_permanent ld),
                          hl_registry := insert_block_driver d (hl_registry ld)\<rparr>)"

definition harddisk_loader_reset :: "harddisk_loader \<Rightarrow> harddisk_loader" where
  "harddisk_loader_reset ld = ld\<lparr>hl_registry := hl_permanent ld, hl_notes := []\<rparr>"

definition harddisk_loader_drain_rejections :: "harddisk_loader \<Rightarrow> (string \<times> string) list \<times> harddisk_loader" where
  "harddisk_loader_drain_rejections ld = (hl_notes ld, ld\<lparr>hl_notes := []\<rparr>)"

definition harddisk_registered :: "harddisk_format_driver list \<Rightarrow> harddisk_loader" where
  "harddisk_registered ds = fold (\<lambda>d. harddisk_loader_register_permanent (Some d)) ds empty_harddisk_loader"

subsection \<open>Opening\<close>

fun best_block_driver ::
  "harddisk_format_driver list \<Rightarrow> u8 list \<Rightarrow> nat \<Rightarrow> string \<Rightarrow> harddisk_format_driver option \<Rightarrow>
   harddisk_format_driver option" where
  "best_block_driver [] header file_bytes hint possible = possible"
| "best_block_driver (d # ds) header file_bytes hint possible =
     (case hf_probe d of None \<Rightarrow> best_block_driver ds header file_bytes hint possible
      | Some probe \<Rightarrow>
          (case probe header file_bytes hint of
             harddisk_probe_definite \<Rightarrow> Some d
           | harddisk_probe_possible \<Rightarrow>
               best_block_driver ds header file_bytes hint (if possible = None then Some d else possible)
           | harddisk_probe_no \<Rightarrow> best_block_driver ds header file_bytes hint possible))"

definition driver_lists_extension :: "harddisk_format_driver \<Rightarrow> string \<Rightarrow> bool" where
  "driver_lists_extension d ext_hint \<longleftrightarrow>
     ext_hint \<noteq> [] \<and> hd ext_hint = CHR ''.'' \<and> tl ext_hint \<in> set (hf_supported_exts d)"

text \<open>A file served in another order than its name says is remarked on.\<close>

definition note_name_overridden ::
  "harddisk_format_driver \<Rightarrow> string \<Rightarrow> string \<Rightarrow> harddisk_loader \<Rightarrow> harddisk_loader" where
  "note_name_overridden chosen payload_name ext_hint ld =
     (if ext_hint = [] \<or> driver_lists_extension chosen ext_hint then ld
      else if \<not> list_ex (\<lambda>d. hf_ident d \<noteq> hf_ident chosen \<and> driver_lists_extension d ext_hint) (hl_registry ld)
              \<or> hf_supported_exts chosen = [] then ld
      else let base = file_part payload_name; stem = take (length base - length ext_hint) base in
        harddisk_loader_note (harddisk_driver_label (Some chosen))
          (''serves '' @ [CHR 0x27] @ base @ [CHR 0x27] @ '' as '' @ harddisk_driver_label (Some chosen) @
           '', the order its contents read in; '' @ [CHR 0x27] @ stem @ ''.'' @ hd (hf_supported_exts chosen) @
           [CHR 0x27] @ '' would name it truly'') ld)"

definition container_error_to_harddisk_error :: "image_container_error \<Rightarrow> harddisk_error" where
  "container_error_to_harddisk_error e =
     (case e of image_container_ok \<Rightarrow> harddisk_err_none
      | image_container_not_found \<Rightarrow> harddisk_err_not_found
      | image_container_corrupt \<Rightarrow> harddisk_err_invalid_format
      | _ \<Rightarrow> harddisk_err_io)"

text \<open>What is done with the path to load once it is known.\<close>

definition open_prepared_block ::
  "archive_library \<Rightarrow> harddisk_loader \<Rightarrow> string \<Rightarrow> string \<Rightarrow> bool \<Rightarrow> file_system \<Rightarrow>
   (harddisk_error + harddisk_format_driver \<times> block_disk_image) \<times> harddisk_loader" where
  "open_prepared_block al ld image_path load_path is_temporary fs =
     (case fopen load_path False fs of
        Inl _ \<Rightarrow> (Inl harddisk_err_not_found, ld)
      | Inr n \<Rightarrow>
          let raw = stream_size n fs in
          if raw < 0 then (Inl harddisk_err_io, ld)
          else let file_bytes = nat raw;
                   header = (case fread_at n 0 probe_header_size fs of None \<Rightarrow> [] | Some h \<Rightarrow> h);
                   file_offset = image_container_detect_macbinary header (min file_bytes 4294967295) in
            if unat file_offset > file_bytes then (Inl harddisk_err_invalid_format, ld)
            else let payload = (case image_container_payload_name al image_path 512 fs of Inl _ \<Rightarrow> [] | Inr p \<Rightarrow> p);
                     ext_hint = extension_hint payload in
              (case best_block_driver (hl_registry ld) (drop (unat file_offset) header)
                      (file_bytes - unat file_offset) ext_hint None of
                 None \<Rightarrow> (Inl harddisk_err_invalid_format, ld)
               | Some d \<Rightarrow>
                   (case hf_open d of None \<Rightarrow> (Inl harddisk_err_io, ld)
                    | Some open_fn \<Rightarrow>
                        (case open_fn load_path file_offset is_temporary fs of
                           Inl e \<Rightarrow> (Inl e, ld)
                         | Inr img \<Rightarrow> (Inr (d, img), note_name_overridden d payload ext_hint ld)))))"

definition harddisk_loader_open ::
  "archive_library \<Rightarrow> harddisk_loader \<Rightarrow> string \<Rightarrow> file_system \<Rightarrow>
   (harddisk_error + harddisk_format_driver \<times> block_disk_image) \<times> harddisk_loader \<times> file_system" where
  "harddisk_loader_open al ld image_path fs =
     (case image_container_prepare_compressed_path al image_path 512 33554432 fs of
        (Inl e, fs) \<Rightarrow> (Inl (container_error_to_harddisk_error e), ld, fs)
      | (Inr (load_path, is_temporary), fs) \<Rightarrow>
          (case open_prepared_block al ld image_path load_path is_temporary fs of
             (r, ld) \<Rightarrow> (r, ld, if is_temporary then unlink load_path fs else fs)))"

definition harddisk_loader_get_supported_extensions :: "harddisk_loader \<Rightarrow> string list" where
  "harddisk_loader_get_supported_extensions ld =
     rev (remdups (rev (concat (map hf_supported_exts (hl_registry ld)) @ [''gz'', ''zip''])))"

end
