(* ===== verification/Harddisk.thy ===== *)
theory Harddisk
  imports Harddisk_Loader Disk_Controller
begin

text \<open>
  The hard disk controller (\<open>src/apple2/peripherals/harddisk/Harddisk.cpp\<close>): one register set for
  two drives, the commands of a ProDOS block device, the block buffer behind the data port, the
  frontend's commands and the save state.

  The format drivers behind the hc are a table of functions on the host's media, \<open>block_api\<close>;
  a drive holds the handle of its image.  Log messages, and the frontend's redraw on
  \<open>NotifyStatusChanged\<close>, leave no trace in the machine.
\<close>

subsection \<open>State\<close>

record 'h block_api =
  ba_open :: "string \<Rightarrow> 'h \<Rightarrow> (harddisk_error + nat) \<times> 'h"
  ba_close :: "nat \<Rightarrow> 'h \<Rightarrow> 'h"
  ba_is_write_protected :: "nat \<Rightarrow> 'h \<Rightarrow> bool"
  ba_read_block :: "nat \<Rightarrow> u32 \<Rightarrow> u8 list \<Rightarrow> 'h \<Rightarrow> harddisk_error \<times> u8 list"
  ba_has_write_block :: "nat \<Rightarrow> 'h \<Rightarrow> bool"
  ba_write_block :: "nat \<Rightarrow> u32 \<Rightarrow> u8 list \<Rightarrow> 'h \<Rightarrow> harddisk_error \<times> 'h"
  ba_total_blocks :: "nat \<Rightarrow> 'h \<Rightarrow> u32"

record harddisk =
  hd_full_path :: string
  hd_display_name :: string
  hd_is_loaded :: bool
  hd_driver :: "nat option"
  hd_user_write_protected :: bool
  hd_last_error :: harddisk_error

definition new_harddisk :: harddisk where
  "new_harddisk = \<lparr>hd_full_path = [], hd_display_name = [], hd_is_loaded = False, hd_driver = None,
     hd_user_write_protected = False, hd_last_error = harddisk_err_none\<rparr>"

datatype harddisk_data_phase = harddisk_phase_idle | harddisk_phase_read_out | harddisk_phase_write_in

record harddisk_card =
  hd_drives :: "nat \<Rightarrow> harddisk"
  hd_buffer :: "u8 list"
  hd_block :: u16
  hd_data_index :: u16
  hd_block_count :: u16
  hd_unit :: u8
  hd_command :: u8
  hd_result :: u8
  hd_data_phase :: harddisk_data_phase
  hd_buffer_poisoned :: bool
  hd_slot :: int

definition new_harddisk_card :: "int \<Rightarrow> harddisk_card" where
  "new_harddisk_card slot =
     \<lparr>hd_drives = (\<lambda>_. new_harddisk), hd_buffer = replicate 512 0, hd_block = 0, hd_data_index = 0,
      hd_block_count = 0, hd_unit = 0, hd_command = 0, hd_result = 0, hd_data_phase = harddisk_phase_idle,
      hd_buffer_poisoned = False, hd_slot = slot\<rparr>"

record ('g, 'h) harddisks = "'g disks" +
  hdcards :: "nat \<Rightarrow> harddisk_card"
  hdmedia :: 'h

type_synonym ('g, 'h, 'a) hd_host = "('g, ('h, 'a) harddisks_ext) disk_host"

definition update_hd :: "nat \<Rightarrow> (harddisk_card \<Rightarrow> harddisk_card) \<Rightarrow> ('g, 'h, 'a) harddisks_scheme \<Rightarrow> ('g, 'h, 'a) harddisks_scheme" where
  "update_hd i f m = m\<lparr>hdcards := (hdcards m)(i := f (hdcards m i))\<rparr>"

abbreviation (input) "harddisk_prodos_ok \<equiv> (0x00 :: u8)"
abbreviation (input) "harddisk_prodos_io_error \<equiv> (0x27 :: u8)"
abbreviation (input) "harddisk_prodos_no_device \<equiv> (0x28 :: u8)"
abbreviation (input) "harddisk_prodos_write_protected \<equiv> (0x2B :: u8)"

definition unit_drive :: "u8 \<Rightarrow> nat" where
  "unit_drive u = (if u AND 0x80 \<noteq> 0 then 1 else 0)"

definition selected_drive :: "harddisk_card \<Rightarrow> harddisk" where
  "selected_drive hc = hd_drives hc (unit_drive (hd_unit hc))"

definition hd_notify_activity :: "nat \<Rightarrow> bool \<Rightarrow> ('g, 'h, 'a) harddisks_scheme \<Rightarrow> ('g, 'h, 'a) harddisks_scheme" where
  "hd_notify_activity i active m = host_notify_activity_changed (hd_slot (hdcards m i)) active m"

definition is_write_protected :: "'h block_api \<Rightarrow> 'h \<Rightarrow> harddisk \<Rightarrow> bool" where
  "is_write_protected ba g drive =
     (if hd_user_write_protected drive then True
      else case hd_driver drive of None \<Rightarrow> False | Some h \<Rightarrow> ba_is_write_protected ba h g)"

definition total_blocks :: "'h block_api \<Rightarrow> 'h \<Rightarrow> harddisk \<Rightarrow> u32" where
  "total_blocks ba g drive = (case hd_driver drive of None \<Rightarrow> 0 | Some h \<Rightarrow> ba_total_blocks ba h g)"

definition end_data_phase :: "nat \<Rightarrow> ('g, 'h, 'a) harddisks_scheme \<Rightarrow> ('g, 'h, 'a) harddisks_scheme" where
  "end_data_phase i m =
     (let m = (if hd_data_phase (hdcards m i) = harddisk_phase_read_out then hd_notify_activity i False m else m)
      in update_hd i (\<lambda>hc. hc\<lparr>hd_data_phase := harddisk_phase_idle\<rparr>) m)"

subsection \<open>Images in the drives\<close>

definition put_harddisk :: "nat \<Rightarrow> harddisk \<Rightarrow> harddisk_card \<Rightarrow> harddisk_card" where
  "put_harddisk k d hc = hc\<lparr>hd_drives := (hd_drives hc)(k := d)\<rparr>"

definition update_image_metadata :: "string \<Rightarrow> harddisk \<Rightarrow> harddisk" where
  "update_image_metadata path d = d\<lparr>hd_full_path := path, hd_display_name := take 32 (file_part path)\<rparr>"

definition eject_harddisk_from_drive ::
  "'h block_api \<Rightarrow> nat \<Rightarrow> nat \<Rightarrow> ('g, 'h, 'a) harddisks_scheme \<Rightarrow> ('g, 'h, 'a) harddisks_scheme" where
  "eject_harddisk_from_drive ba i k m =
     (let m = (case hd_driver (hd_drives (hdcards m i) k) of None \<Rightarrow> m
               | Some h \<Rightarrow> m\<lparr>hdmedia := ba_close ba h (hdmedia m)\<rparr>)
      in update_hd i (put_harddisk k new_harddisk) m)"

definition insert_harddisk_into_drive ::
  "'h block_api \<Rightarrow> nat \<Rightarrow> nat \<Rightarrow> string \<Rightarrow> bool \<Rightarrow> ('g, 'h, 'a) harddisks_scheme \<Rightarrow>
   harddisk_error \<times> ('g, 'h, 'a) harddisks_scheme" where
  "insert_harddisk_into_drive ba i k path write_protected m =
     (let m = (if hd_is_loaded (hd_drives (hdcards m i) k) then eject_harddisk_from_drive ba i k m else m);
          d = (hd_drives (hdcards m i) k)\<lparr>hd_user_write_protected := write_protected\<rparr> in
      case ba_open ba path (hdmedia m) of
        (Inl e, g) \<Rightarrow>
          (e, update_hd i (put_harddisk k (d\<lparr>hd_driver := None, hd_last_error := e\<rparr>)) (m\<lparr>hdmedia := g\<rparr>))
      | (Inr h, g) \<Rightarrow>
          (harddisk_err_none,
           update_hd i (put_harddisk k (update_image_metadata path
               (d\<lparr>hd_driver := Some h, hd_last_error := harddisk_err_none, hd_is_loaded := True\<rparr>)))
             (m\<lparr>hdmedia := g\<rparr>)))"

subsection \<open>Commands of a block device\<close>

definition prodos_read :: "'h block_api \<Rightarrow> nat \<Rightarrow> nat \<Rightarrow> ('g, 'h, 'a) harddisks_scheme \<Rightarrow> u8 \<times> ('g, 'h, 'a) harddisks_scheme" where
  "prodos_read ba i h m =
     (let hc = hdcards m i in
      case ba_read_block ba h (ucast (hd_block hc)) (hd_buffer hc) (hdmedia m) of
        (e, buffer) \<Rightarrow>
          let m = update_hd i (\<lambda>hc. hc\<lparr>hd_buffer := buffer\<rparr>) m in
          if e \<noteq> harddisk_err_none then (harddisk_prodos_io_error, m)
          else (harddisk_prodos_ok,
                hd_notify_activity i True (update_hd i
                  (\<lambda>hc. hc\<lparr>hd_data_index := 0, hd_data_phase := harddisk_phase_read_out\<rparr>) m)))"

definition prodos_write :: "'h block_api \<Rightarrow> nat \<Rightarrow> nat \<Rightarrow> ('g, 'h, 'a) harddisks_scheme \<Rightarrow> u8 \<times> ('g, 'h, 'a) harddisks_scheme" where
  "prodos_write ba i h m =
     (let hc = hdcards m i in
      if hd_buffer_poisoned hc
      then (harddisk_prodos_io_error, update_hd i (\<lambda>hc. hc\<lparr>hd_buffer_poisoned := False\<rparr>) m)
      else if \<not> ba_has_write_block ba h (hdmedia m) then (harddisk_prodos_io_error, m)
      else case ba_write_block ba h (ucast (hd_block hc)) (hd_buffer hc) (hdmedia m) of
             (e, g) \<Rightarrow>
               let m = m\<lparr>hdmedia := g\<rparr> in
               if e \<noteq> harddisk_err_none then (harddisk_prodos_io_error, m)
               else (harddisk_prodos_ok,
                     hd_notify_activity i False (hd_notify_activity i True (update_hd i
                       (\<lambda>hc. hc\<lparr>hd_data_index := 0, hd_data_phase := harddisk_phase_idle\<rparr>) m))))"

definition execute_command :: "'h block_api \<Rightarrow> nat \<Rightarrow> ('g, 'h, 'a) harddisks_scheme \<Rightarrow> u8 \<times> ('g, 'h, 'a) harddisks_scheme" where
  "execute_command ba i m =
     (let hc = hdcards m i; drive = selected_drive hc; cmd = hd_command hc in
      if cmd > 3 then (harddisk_prodos_io_error, m)
      else if \<not> hd_is_loaded drive then (harddisk_prodos_no_device, m)
      else if (cmd = 2 \<or> cmd = 3) \<and> is_write_protected ba (hdmedia m) drive
      then (harddisk_prodos_write_protected, m)
      else
        let blocks = total_blocks ba (hdmedia m) drive in
        if (cmd = 1 \<or> cmd = 2) \<and> ucast (hd_block hc) \<ge> blocks then (harddisk_prodos_io_error, m)
        else if cmd = 0
        then (harddisk_prodos_ok, update_hd i (\<lambda>hc. hc\<lparr>hd_block_count := ucast (min blocks 0xFFFF)\<rparr>) m)
        else if cmd = 3 then (harddisk_prodos_ok, m)
        else case hd_driver drive of None \<Rightarrow> (harddisk_prodos_io_error, m)
             | Some h \<Rightarrow> if cmd = 1 then prodos_read ba i h m else prodos_write ba i h m)"

subsection \<open>Registers\<close>

definition harddisk_io_command ::
  "'h block_api \<Rightarrow> nat \<Rightarrow> u8 option \<Rightarrow> ('g, 'h, 'a) harddisks_scheme \<Rightarrow> u8 \<times> ('g, 'h, 'a) harddisks_scheme" where
  "harddisk_io_command ba i v m =
     (case v of None \<Rightarrow> (hd_result (hdcards m i), m)
      | Some v \<Rightarrow>
          (case execute_command ba i (update_hd i (\<lambda>hc. hc\<lparr>hd_command := v\<rparr>) m) of
             (result, m) \<Rightarrow> (0, update_hd i (\<lambda>hc. hc\<lparr>hd_result := result\<rparr>) m)))"

definition harddisk_io_unit :: "nat \<Rightarrow> u8 option \<Rightarrow> ('g, 'h, 'a) harddisks_scheme \<Rightarrow> u8 \<times> ('g, 'h, 'a) harddisks_scheme" where
  "harddisk_io_unit i v m =
     (case v of None \<Rightarrow> (hd_unit (hdcards m i), m)
      | Some v \<Rightarrow> (0, end_data_phase i (update_hd i (\<lambda>hc. hc\<lparr>hd_unit := v, hd_data_index := 0\<rparr>) m)))"

definition harddisk_io_block_low :: "nat \<Rightarrow> u8 option \<Rightarrow> ('g, 'h, 'a) harddisks_scheme \<Rightarrow> u8 \<times> ('g, 'h, 'a) harddisks_scheme" where
  "harddisk_io_block_low i v m =
     (case v of None \<Rightarrow> (ucast (hd_block (hdcards m i) AND 0xFF), m)
      | Some v \<Rightarrow> (0, update_hd i (\<lambda>hc. hc\<lparr>hd_block := (hd_block hc AND 0xFF00) OR ucast v\<rparr>) m))"

definition harddisk_io_block_high :: "nat \<Rightarrow> u8 option \<Rightarrow> ('g, 'h, 'a) harddisks_scheme \<Rightarrow> u8 \<times> ('g, 'h, 'a) harddisks_scheme" where
  "harddisk_io_block_high i v m =
     (case v of None \<Rightarrow> (ucast (drop_bit 8 (hd_block (hdcards m i))), m)
      | Some v \<Rightarrow> (0, update_hd i (\<lambda>hc. hc\<lparr>hd_block := (hd_block hc AND 0x00FF) OR push_bit 8 (ucast v)\<rparr>) m))"

definition harddisk_io_data :: "nat \<Rightarrow> u8 option \<Rightarrow> ('g, 'h, 'a) harddisks_scheme \<Rightarrow> u8 \<times> ('g, 'h, 'a) harddisks_scheme" where
  "harddisk_io_data i v m =
     (let index = hd_data_index (hdcards m i);
          m = update_hd i (\<lambda>hc. hc\<lparr>hd_data_index := (index + 1) mod 512\<rparr>) m in
      case v of
        Some v \<Rightarrow>
          let m = (if hd_data_phase (hdcards m i) \<noteq> harddisk_phase_write_in
                   then update_hd i (\<lambda>hc. hc\<lparr>hd_data_phase := harddisk_phase_write_in\<rparr>) (end_data_phase i m)
                   else m)
          in (0, update_hd i (\<lambda>hc. hc\<lparr>hd_buffer := (hd_buffer hc)[unat index := v]\<rparr>) m)
      | None \<Rightarrow>
          (hd_buffer (hdcards m i) ! unat index,
           if hd_data_phase (hdcards m i) = harddisk_phase_read_out \<and> hd_data_index (hdcards m i) = 0
           then end_data_phase i m else m))"

definition harddisk_io_count_low :: "nat \<Rightarrow> u8 option \<Rightarrow> ('g, 'h, 'a) harddisks_scheme \<Rightarrow> u8 \<times> ('g, 'h, 'a) harddisks_scheme" where
  "harddisk_io_count_low i v m = (if v \<noteq> None then 0 else ucast (hd_block_count (hdcards m i) AND 0xFF), m)"

definition harddisk_io_count_high :: "nat \<Rightarrow> u8 option \<Rightarrow> ('g, 'h, 'a) harddisks_scheme \<Rightarrow> u8 \<times> ('g, 'h, 'a) harddisks_scheme" where
  "harddisk_io_count_high i v m = (if v \<noteq> None then 0 else ucast (drop_bit 8 (hd_block_count (hdcards m i))), m)"

definition harddisk_io_floating :: "u8 option \<Rightarrow> u32 \<Rightarrow> ('g, 'h, 'a) harddisks_scheme \<Rightarrow> u8 \<times> ('g, 'h, 'a) harddisks_scheme" where
  "harddisk_io_floating v executed m = (if v \<noteq> None then 0 else mem_read_floating_bus executed m, m)"

text \<open>The table of handlers: what an access to register \<open>r\<close> does.\<close>

definition harddisk_io_handler ::
  "'h block_api \<Rightarrow> nat \<Rightarrow> u16 \<Rightarrow> u8 option \<Rightarrow> u32 \<Rightarrow> ('g, 'h, 'a) harddisks_scheme \<Rightarrow> u8 \<times> ('g, 'h, 'a) harddisks_scheme" where
  "harddisk_io_handler ba i r v executed m =
     (if r = 0 then harddisk_io_command ba i v m else if r = 1 then harddisk_io_unit i v m
      else if r = 2 then harddisk_io_block_low i v m else if r = 3 then harddisk_io_block_high i v m
      else if r = 4 then harddisk_io_data i v m else if r = 5 then harddisk_io_count_low i v m
      else if r = 6 then harddisk_io_count_high i v m else harddisk_io_floating v executed m)"

definition harddisk_io_read ::
  "'h block_api \<Rightarrow> nat option \<Rightarrow> u16 \<Rightarrow> u8 \<Rightarrow> u32 \<Rightarrow> ('g, 'h, 'a) harddisks_scheme \<Rightarrow> u8 \<times> ('g, 'h, 'a) harddisks_scheme" where
  "harddisk_io_read ba inst addr is_write executed m =
     (case inst of None \<Rightarrow> (0xFF, m)
      | Some i \<Rightarrow>
          if is_write \<noteq> 0 then (mem_read_floating_bus executed m, m)
          else harddisk_io_handler ba i (addr AND 0x0F) None executed m)"

definition harddisk_io_write ::
  "'h block_api \<Rightarrow> nat option \<Rightarrow> u16 \<Rightarrow> u8 \<Rightarrow> u8 \<Rightarrow> u32 \<Rightarrow> ('g, 'h, 'a) harddisks_scheme \<Rightarrow> u8 \<times> ('g, 'h, 'a) harddisks_scheme" where
  "harddisk_io_write ba inst addr is_write data executed m =
     (case inst of None \<Rightarrow> (0, m)
      | Some i \<Rightarrow>
          if is_write = 0 then (0, m)
          else harddisk_io_handler ba i (addr AND 0x0F) (Some data) executed m)"

subsection \<open>Commands and status\<close>

abbreviation (input) "subsystem_harddisk \<equiv> (0x00050000 :: u32)"

definition hd_handle_insert ::
  "'h block_api \<Rightarrow> nat \<Rightarrow> u8 list \<Rightarrow> ('g, 'h, 'a) harddisks_scheme \<Rightarrow> peripheral_status \<times> ('g, 'h, 'a) harddisks_scheme" where
  "hd_handle_insert ba i data m =
     (if length data \<noteq> 512 \<or> unat (data ! 504) \<ge> 2 then (peripheral_error, m)
      else case field_string (take 504 data) of
             None \<Rightarrow> (peripheral_error, m)
           | Some path \<Rightarrow>
               (case insert_harddisk_into_drive ba i (unat (data ! 504)) path (data ! 505 \<noteq> 0) m of
                  (e, m) \<Rightarrow> (if e \<noteq> harddisk_err_none then peripheral_error else peripheral_ok, m)))"

definition hd_handle_eject ::
  "'h block_api \<Rightarrow> nat \<Rightarrow> u8 list \<Rightarrow> ('g, 'h, 'a) harddisks_scheme \<Rightarrow> peripheral_status \<times> ('g, 'h, 'a) harddisks_scheme" where
  "hd_handle_eject ba i data m =
     (if length data \<noteq> 1 \<or> unat (data ! 0) \<ge> 2 then (peripheral_error, m)
      else (peripheral_ok, eject_harddisk_from_drive ba i (unat (data ! 0)) m))"

definition hd_handle_set_protect ::
  "nat \<Rightarrow> u8 list \<Rightarrow> ('g, 'h, 'a) harddisks_scheme \<Rightarrow> peripheral_status \<times> ('g, 'h, 'a) harddisks_scheme" where
  "hd_handle_set_protect i data m =
     (if length data \<noteq> 2 \<or> unat (data ! 0) \<ge> 2 then (peripheral_error, m)
      else (peripheral_ok, update_hd i (\<lambda>hc. put_harddisk (unat (data ! 0))
              ((hd_drives hc (unat (data ! 0)))\<lparr>hd_user_write_protected := (data ! 1 \<noteq> 0)\<rparr>) hc) m))"

definition harddisk_abi_command ::
  "'h block_api \<Rightarrow> nat option \<Rightarrow> u32 \<Rightarrow> u8 list \<Rightarrow> ('g, 'h, 'a) harddisks_scheme \<Rightarrow>
   peripheral_status \<times> ('g, 'h, 'a) harddisks_scheme" where
  "harddisk_abi_command ba inst cmd data m =
     (case inst of None \<Rightarrow> (peripheral_error, m)
      | Some i \<Rightarrow>
          if \<not> cmd_is_mine cmd subsystem_harddisk then (peripheral_incompatible, m)
          else if cmd = subsystem_harddisk OR 0x0001 then hd_handle_insert ba i data m
          else if cmd = subsystem_harddisk OR 0x0002 then hd_handle_eject ba i data m
          else if cmd = subsystem_harddisk OR 0x0004 then hd_handle_set_protect i data m
          else (peripheral_incompatible, m))"

record harddisk_drive_status =
  hs_last_error :: harddisk_error
  hs_loaded :: bool
  hs_write_protected :: bool
  hs_name :: string
  hs_full_path :: string

definition harddisk_status :: "'h block_api \<Rightarrow> nat \<Rightarrow> harddisk_card \<Rightarrow> 'h \<Rightarrow> harddisk_drive_status" where
  "harddisk_status ba k hc g =
     (let d = hd_drives hc k in
      \<lparr>hs_last_error = hd_last_error d, hs_loaded = hd_is_loaded d, hs_write_protected = is_write_protected ba g d,
       hs_name = take 31 (hd_display_name d), hs_full_path = take 511 (hd_full_path d)\<rparr>)"

definition activity_status :: "harddisk_card \<Rightarrow> u8" where
  "activity_status hc =
     (case hd_data_phase hc of harddisk_phase_read_out \<Rightarrow> 1 | harddisk_phase_write_in \<Rightarrow> 2 | _ \<Rightarrow> 0)"

subsection \<open>Save state\<close>

record harddisk_save_state =
  hss_version :: u32
  hss_struct_size :: u32
  hss_unit :: u8
  hss_command :: u8
  hss_result :: u8
  hss_data_phase :: u8
  hss_block :: u16
  hss_data_index :: u16
  hss_block_count :: u16

definition data_phase_code :: "harddisk_data_phase \<Rightarrow> u8" where
  "data_phase_code p = (case p of harddisk_phase_idle \<Rightarrow> 0 | harddisk_phase_read_out \<Rightarrow> 1 | harddisk_phase_write_in \<Rightarrow> 2)"

definition data_phase_of_code :: "u8 \<Rightarrow> harddisk_data_phase" where
  "data_phase_of_code c = (if c = 1 then harddisk_phase_read_out else if c = 2 then harddisk_phase_write_in else harddisk_phase_idle)"

definition harddisk_abi_save_state ::
  "nat option \<Rightarrow> ('g, 'h, 'a) harddisks_scheme \<Rightarrow> harddisk_save_state option" where
  "harddisk_abi_save_state inst m =
     (case inst of None \<Rightarrow> None
      | Some i \<Rightarrow> let hc = hdcards m i in
          Some \<lparr>hss_version = 1, hss_struct_size = 20, hss_unit = hd_unit hc, hss_command = hd_command hc,
                hss_result = hd_result hc, hss_data_phase = data_phase_code (hd_data_phase hc),
                hss_block = hd_block hc, hss_data_index = hd_data_index hc,
                hss_block_count = hd_block_count hc\<rparr>)"

definition harddisk_abi_load_state ::
  "'h block_api \<Rightarrow> nat option \<Rightarrow> harddisk_save_state option \<Rightarrow> ('g, 'h, 'a) harddisks_scheme \<Rightarrow>
   peripheral_status \<times> ('g, 'h, 'a) harddisks_scheme" where
  "harddisk_abi_load_state ba inst buffer m =
     (case (inst, buffer) of
        (Some i, Some frame) \<Rightarrow>
          if hss_version frame \<noteq> 1 \<or> hss_struct_size frame \<noteq> 20 \<or> hss_data_phase frame > 2
          then (peripheral_error, m)
          else
            let m = update_hd i (\<lambda>hc. hc\<lparr>hd_unit := hss_unit frame, hd_command := hss_command frame,
                      hd_result := hss_result frame, hd_block := hss_block frame,
                      hd_data_index := hss_data_index frame mod 512, hd_block_count := hss_block_count frame,
                      hd_data_phase := data_phase_of_code (hss_data_phase frame), hd_buffer_poisoned := False,
                      hd_buffer := replicate 512 0\<rparr>) m;
                hc = hdcards m i in
            if hd_data_phase hc = harddisk_phase_read_out
            then
              let drive = selected_drive hc in
              (peripheral_ok,
               if \<not> hd_is_loaded drive then m
               else case hd_driver drive of None \<Rightarrow> m
                    | Some h \<Rightarrow>
                        (case ba_read_block ba h (ucast (hd_block hc)) (hd_buffer hc) (hdmedia m) of
                           (e, bytes) \<Rightarrow> update_hd i (\<lambda>hc. hc\<lparr>hd_buffer :=
                             (if e \<noteq> harddisk_err_none then replicate 512 0 else bytes)\<rparr>) m))
            else if hd_data_phase hc = harddisk_phase_write_in
            then (peripheral_ok, update_hd i (\<lambda>hc. hc\<lparr>hd_buffer_poisoned := True\<rparr>) m)
            else (peripheral_ok, m)
      | _ \<Rightarrow> (peripheral_error, m))"

subsection \<open>Entry points\<close>

text \<open>The firmware page; the operand at offset 9 is patched to the card's slot.\<close>

definition harddisk_rom :: "u8 list" where
  "harddisk_rom = [
     0xA9, 0x20, 0xA9, 0x00, 0xA9, 0x03, 0xA9, 0x3C, 0xA9, 0xC0, 0x85, 0x47, 0x0A, 0x0A, 0x0A, 0x0A,
     0x85, 0x43, 0xA5, 0x47, 0x48, 0xA9, 0x1D, 0x48, 0xA9, 0x00, 0x85, 0x42, 0xF0, 0x28, 0xB0, 0x1F,
     0xA5, 0x47, 0x48, 0xA9, 0x37, 0x48, 0xA9, 0x00, 0x85, 0x44, 0x85, 0x46, 0x85, 0x47, 0xA9, 0x08,
     0x85, 0x45, 0xA9, 0x01, 0x85, 0x42, 0xD0, 0x0E, 0xB0, 0x05, 0xA6, 0x43, 0x4C, 0x01, 0x08, 0xB0,
     0x6E, 0x00, 0x00, 0x00, 0x00, 0x00, 0xA5, 0x43, 0x29, 0x70, 0xAA, 0xA5, 0x43, 0x9D, 0x81, 0xC0,
     0xA5, 0x46, 0x9D, 0x82, 0xC0, 0xA5, 0x47, 0x9D, 0x83, 0xC0, 0xA5, 0x42, 0xC9, 0x02, 0xD0, 0x18,
     0xA0, 0x00, 0xB1, 0x44, 0x9D, 0x84, 0xC0, 0xC8, 0xD0, 0xF8, 0xE6, 0x45, 0xB1, 0x44, 0x9D, 0x84,
     0xC0, 0xC8, 0xD0, 0xF8, 0xC6, 0x45, 0xA5, 0x42, 0x9D, 0x80, 0xC0, 0xBD, 0x80, 0xC0, 0xD0, 0x2D,
     0xA5, 0x42, 0xF0, 0x1E, 0xC9, 0x01, 0xD0, 0x16, 0xA0, 0x00, 0xBD, 0x84, 0xC0, 0x91, 0x44, 0xC8,
     0xD0, 0xF8, 0xE6, 0x45, 0xBD, 0x84, 0xC0, 0x91, 0x44, 0xC8, 0xD0, 0xF8, 0xC6, 0x45, 0xA9, 0x00,
     0x18, 0x60, 0xBC, 0x86, 0xC0, 0xBD, 0x85, 0xC0, 0xAA, 0xA9, 0x00, 0x18, 0x60, 0x38, 0x60, 0xAD,
     0xB3, 0xFB, 0xC9, 0x38, 0xF0, 0x11, 0xA5, 0x43, 0x4A, 0x4A, 0x4A, 0x4A, 0x09, 0xC0, 0x85, 0x01,
     0xA9, 0x00, 0x85, 0x00, 0x4C, 0xBA, 0xFA, 0x4C, 0x59, 0xFF, 0x00, 0x00, 0x00, 0x00, 0x00, 0x00,
     0x00, 0x00, 0x00, 0x00, 0x00, 0x00, 0x00, 0x00, 0x00, 0x00, 0x00, 0x00, 0x00, 0x00, 0x00, 0x00,
     0x00, 0x00, 0x00, 0x00, 0x00, 0x00, 0x00, 0x00, 0x00, 0x00, 0x00, 0x00, 0x00, 0x00, 0x00, 0x00,
     0x00, 0x00, 0x00, 0x00, 0x00, 0x00, 0x00, 0x00, 0x00, 0x00, 0x00, 0x00, 0x00, 0x00, 0xDF, 0x46]"

definition harddisk_rom_page :: "int \<Rightarrow> nat \<Rightarrow> u8" where
  "harddisk_rom_page slot k = (if k = 0x09 then 0xC0 OR (word_of_int slot AND 0x0F) else harddisk_rom ! k)"

definition power_on :: "harddisk_card \<Rightarrow> harddisk_card" where
  "power_on hc = hc\<lparr>hd_unit := 0, hd_command := 0, hd_result := harddisk_prodos_ok, hd_block := 0,
     hd_data_index := 0, hd_block_count := 0, hd_data_phase := harddisk_phase_idle, hd_buffer_poisoned := False\<rparr>"

abbreviation (input) "harddisk_io_read_fn \<equiv> (64 :: nat)"
abbreviation (input) "harddisk_io_write_fn \<equiv> (65 :: nat)"

definition harddisk_abi_init :: "descriptor \<Rightarrow> int \<Rightarrow> ('g, 'h, 'a) hd_host \<Rightarrow> nat option \<times> ('g, 'h, 'a) hd_host" where
  "harddisk_abi_init api slot m =
     (let i = fresh_instance m;
          m = update_hd i (\<lambda>_. new_harddisk_card slot) (m\<lparr>fresh_instance := i + 1\<rparr>);
          m = host_register_cx_rom slot (Some (harddisk_rom_page slot)) m
      in (Some i, host_register_io slot (Some harddisk_io_read_fn) (Some harddisk_io_write_fn) None None m))"

definition harddisk_abi_reset :: "nat option \<Rightarrow> ('g, 'h, 'a) harddisks_scheme \<Rightarrow> ('g, 'h, 'a) harddisks_scheme" where
  "harddisk_abi_reset inst m = (case inst of None \<Rightarrow> m | Some i \<Rightarrow> update_hd i power_on m)"

definition harddisk_abi_shutdown ::
  "'h block_api \<Rightarrow> nat option \<Rightarrow> ('g, 'h, 'a) harddisks_scheme \<Rightarrow> ('g, 'h, 'a) harddisks_scheme" where
  "harddisk_abi_shutdown ba inst m =
     (case inst of None \<Rightarrow> m
      | Some i \<Rightarrow> eject_harddisk_from_drive ba i 1 (eject_harddisk_from_drive ba i 0 m))"

definition harddisk_io ::
  "'h block_api \<Rightarrow> nat \<Rightarrow> nat option \<Rightarrow> u16 \<Rightarrow> u16 \<Rightarrow> u8 \<Rightarrow> u8 \<Rightarrow> u32 \<Rightarrow> ('g, 'h, 'a) hd_host \<Rightarrow>
   u8 option \<times> ('g, 'h, 'a) hd_host" where
  "harddisk_io ba h inst pc addr w d t m =
     (if h = harddisk_io_read_fn then apfst Some (harddisk_io_read ba inst addr w t m)
      else if h = harddisk_io_write_fn then apfst Some (harddisk_io_write ba inst addr w d t m)
      else (None, m))"

definition harddisk_peripheral :: descriptor where
  "harddisk_peripheral =
     \<lparr>api_id = ''linapple.harddisk'', api_name = ''Harddisk'', abi_version = 1,
      compatible_slots = 0xFE, default_slot = 7\<rparr>"

definition harddisk_code :: "'h block_api \<Rightarrow> ('g, 'h, 'a) hd_host card_code" where
  "harddisk_code ba =
     \<lparr>card_init = harddisk_abi_init, card_reset = (\<lambda>_. Some harddisk_abi_reset),
      card_shutdown = (\<lambda>_. Some (harddisk_abi_shutdown ba)), card_think = (\<lambda>_. None),
      card_on_vblank = (\<lambda>_. None),
      card_command = (\<lambda>_. Some (\<lambda>inst cid data m. snd (harddisk_abi_command ba inst cid data m))),
      card_query = (\<lambda>_. None), card_save_state = (\<lambda>_. None), card_load_state = (\<lambda>_. None),
      card_io = harddisk_io ba, card_strobe = (\<lambda>_ _ m. m)\<rparr>"

end
