(* ===== verification/Harddisk_Props.thy ===== *)
theory Harddisk_Props
  imports Harddisk
begin

text \<open>
  The hard disk against what ProDOS expects of a block device: the calls the card's firmware makes
  on its registers, the abstract store of blocks they implement, and the interface of the format
  drivers under which they do, the locale \<open>block_store\<close>.
\<close>

subsection \<open>Frames\<close>

lemma update_hd_simps [simp]:
  "hdcards (update_hd i f m) i = f (hdcards m i)" "hdmedia (update_hd i f m) = hdmedia m"
  "hdcards (m\<lparr>hdmedia := g\<rparr>) = hdcards m" "hdmedia (m\<lparr>hdmedia := g\<rparr>) = g"
  by (simp_all add: update_hd_def)

lemma hd_notify_simps [simp]:
  "hdcards (hd_notify_activity i b m) = hdcards m" "hdmedia (hd_notify_activity i b m) = hdmedia m"
  by (simp_all add: hd_notify_activity_def host_notify_activity_changed_def Let_def)

lemma end_data_phase_simps [simp]:
  "hdcards (end_data_phase i m) i = (hdcards m i)\<lparr>hd_data_phase := harddisk_phase_idle\<rparr>"
  "hdmedia (end_data_phase i m) = hdmedia m"
  by (simp_all add: end_data_phase_def Let_def)

subsection \<open>The firmware's calls\<close>

text \<open>An access to register \<open>r\<close>, as a load and as a store of the program.\<close>

definition hd_load :: "'h block_api \<Rightarrow> nat \<Rightarrow> u16 \<Rightarrow> ('g, 'h, 'a) harddisks_scheme \<Rightarrow> u8 \<times> ('g, 'h, 'a) harddisks_scheme" where
  "hd_load ba i r m = harddisk_io_read ba (Some i) r 0 0 m"

definition hd_store :: "'h block_api \<Rightarrow> nat \<Rightarrow> u16 \<Rightarrow> u8 \<Rightarrow> ('g, 'h, 'a) harddisks_scheme \<Rightarrow> ('g, 'h, 'a) harddisks_scheme" where
  "hd_store ba i r v m = snd (harddisk_io_write ba (Some i) r 1 v 0 m)"

definition driver_set_up :: "'h block_api \<Rightarrow> nat \<Rightarrow> u8 \<Rightarrow> u16 \<Rightarrow> ('g, 'h, 'a) harddisks_scheme \<Rightarrow> ('g, 'h, 'a) harddisks_scheme" where
  "driver_set_up ba i u b m =
     hd_store ba i 3 (ucast (drop_bit 8 b)) (hd_store ba i 2 (ucast b) (hd_store ba i 1 u m))"

fun pull_bytes :: "'h block_api \<Rightarrow> nat \<Rightarrow> nat \<Rightarrow> ('g, 'h, 'a) harddisks_scheme \<Rightarrow> u8 list \<times> ('g, 'h, 'a) harddisks_scheme" where
  "pull_bytes ba i 0 m = ([], m)"
| "pull_bytes ba i (Suc n) m =
     (case hd_load ba i 4 m of (v, m) \<Rightarrow> (case pull_bytes ba i n m of (vs, m) \<Rightarrow> (v # vs, m)))"

datatype block_call = BlockStatus | BlockRead u16 | BlockWrite u16 "u8 list" | BlockFormat

text \<open>The firmware writes whole blocks.\<close>

fun whole_call :: "block_call \<Rightarrow> bool" where
  "whole_call (BlockWrite b bytes) = (length bytes = 512)"
| "whole_call _ = True"

text \<open>What a call answers: the code in A, and the data or the block count.\<close>

type_synonym block_answer = "u8 \<times> u8 list \<times> u16"

fun driver_call ::
  "'h block_api \<Rightarrow> nat \<Rightarrow> u8 \<Rightarrow> block_call \<Rightarrow> ('g, 'h, 'a) harddisks_scheme \<Rightarrow> block_answer \<times> ('g, 'h, 'a) harddisks_scheme" where
  "driver_call ba i u BlockStatus m =
     (case hd_load ba i 0 (hd_store ba i 0 0 (driver_set_up ba i u 0 m)) of
        (code, m) \<Rightarrow>
          if code \<noteq> 0 then ((code, [], 0), m)
          else case hd_load ba i 6 m of
                 (high, m) \<Rightarrow> (case hd_load ba i 5 m of
                   (low, m) \<Rightarrow> ((code, [], push_bit 8 (ucast high) OR ucast low), m)))"
| "driver_call ba i u (BlockRead b) m =
     (case hd_load ba i 0 (hd_store ba i 0 1 (driver_set_up ba i u b m)) of
        (code, m) \<Rightarrow>
          if code \<noteq> 0 then ((code, [], 0), m)
          else case pull_bytes ba i 512 m of (bytes, m) \<Rightarrow> ((code, bytes, 0), m))"
| "driver_call ba i u (BlockWrite b bytes) m =
     (case hd_load ba i 0 (hd_store ba i 0 2 (fold (hd_store ba i 4) bytes (driver_set_up ba i u b m))) of
        (code, m) \<Rightarrow> ((code, [], 0), m))"
| "driver_call ba i u BlockFormat m =
     (case hd_load ba i 0 (hd_store ba i 0 3 (driver_set_up ba i u 0 m)) of (code, m) \<Rightarrow> ((code, [], 0), m))"

fun driver_calls ::
  "'h block_api \<Rightarrow> nat \<Rightarrow> u8 \<Rightarrow> block_call list \<Rightarrow> ('g, 'h, 'a) harddisks_scheme \<Rightarrow>
   block_answer list \<times> ('g, 'h, 'a) harddisks_scheme" where
  "driver_calls ba i u [] m = ([], m)"
| "driver_calls ba i u (c # cs) m =
     (case driver_call ba i u c m of (a, m) \<Rightarrow> (case driver_calls ba i u cs m of (as, m) \<Rightarrow> (a # as, m)))"

subsection \<open>The abstract store\<close>

text \<open>A volume: how many blocks it has, whether it may be written, and what they hold.\<close>

record volume =
  vol_blocks :: nat
  vol_protected :: bool
  vol_block :: "nat \<Rightarrow> u8 list"

fun volume_call :: "block_call \<Rightarrow> volume \<Rightarrow> block_answer \<times> volume" where
  "volume_call BlockStatus v = ((0, [], word_of_nat (min (vol_blocks v) 0xFFFF)), v)"
| "volume_call (BlockRead b) v =
     (if unat b < vol_blocks v then ((0, vol_block v (unat b), 0), v) else ((0x27, [], 0), v))"
| "volume_call (BlockWrite b bytes) v =
     (if vol_protected v then ((0x2B, [], 0), v)
      else if unat b < vol_blocks v then ((0, [], 0), v\<lparr>vol_block := (vol_block v)(unat b := bytes)\<rparr>)
      else ((0x27, [], 0), v))"
| "volume_call BlockFormat v = ((if vol_protected v then 0x2B else 0, [], 0), v)"

fun volume_calls :: "block_call list \<Rightarrow> volume \<Rightarrow> block_answer list \<times> volume" where
  "volume_calls [] v = ([], v)"
| "volume_calls (c # cs) v =
     (case volume_call c v of (a, v) \<Rightarrow> (case volume_calls cs v of (as, v) \<Rightarrow> (a # as, v)))"

lemma volume_call_shape:
  "vol_blocks (snd (volume_call c v)) = vol_blocks v \<and> vol_protected (snd (volume_call c v)) = vol_protected v"
  by (cases c) auto

lemma volume_calls_shape:
  "vol_blocks (snd (volume_calls cs v)) = vol_blocks v \<and> vol_protected (snd (volume_calls cs v)) = vol_protected v"
  using volume_call_shape by (induction cs arbitrary: v) (simp_all add: split_beta)

subsection \<open>The registers\<close>

lemma hd_store_regs:
  "hd_store ba i 0 v m = snd (harddisk_io_command ba i (Some v) m)"
  "hd_store ba i 1 v m = snd (harddisk_io_unit i (Some v) m)"
  "hd_store ba i 2 v m = snd (harddisk_io_block_low i (Some v) m)"
  "hd_store ba i 3 v m = snd (harddisk_io_block_high i (Some v) m)"
  "hd_store ba i 4 v m = snd (harddisk_io_data i (Some v) m)"
  by (simp_all add: hd_store_def harddisk_io_write_def harddisk_io_handler_def)

lemma hd_load_regs:
  "hd_load ba i 0 m = harddisk_io_command ba i None m"
  "hd_load ba i 4 m = harddisk_io_data i None m"
  "hd_load ba i 5 m = harddisk_io_count_low i None m"
  "hd_load ba i 6 m = harddisk_io_count_high i None m"
  by (simp_all add: hd_load_def harddisk_io_read_def harddisk_io_handler_def)

lemma byte_masks: "(0xFF00 :: u16) = push_bit 8 (mask 8)" "(0x00FF :: u16) = mask 8"
  by (simp_all add: mask_eq_exp_minus_1 push_bit_eq_mult)

lemma block_bytes_join:
  "((w AND 0xFF00) OR ucast (ucast (b :: u16) :: u8)) AND 0xFF OR push_bit 8 (ucast (ucast (drop_bit 8 b) :: u8)) = b"
  unfolding byte_masks by (rule bit_word_eqI) (auto simp: bit_simps)

lemma set_up_simps [simp]:
  "hdcards (driver_set_up ba i u b m) i = (hdcards m i)\<lparr>hd_unit := u, hd_data_index := 0,
     hd_data_phase := harddisk_phase_idle, hd_block := b\<rparr>"
  "hdmedia (driver_set_up ba i u b m) = hdmedia m"
  by (simp_all add: driver_set_up_def hd_store_regs harddisk_io_unit_def harddisk_io_block_low_def
      harddisk_io_block_high_def block_bytes_join)

lemma index_next: "unat (ix :: u16) < 512 \<Longrightarrow> unat ((ix + 1) mod 512) = (unat ix + 1) mod 512"
  by (simp add: unat_mod unat_word_ariths)

lemma push_simps:
  "hdcards (hd_store ba i 4 v m) i = (hdcards m i)\<lparr>hd_data_index := (hd_data_index (hdcards m i) + 1) mod 512,
     hd_data_phase := harddisk_phase_write_in,
     hd_buffer := (hd_buffer (hdcards m i))[unat (hd_data_index (hdcards m i)) := v]\<rparr>"
  "hdmedia (hd_store ba i 4 v m) = hdmedia m"
  by (simp_all add: hd_store_regs harddisk_io_data_def Let_def)

text \<open>The bytes stored to the data port lie in the buffer from the index on.\<close>

lemma push_bytes:
  assumes "unat (hd_data_index (hdcards m i)) = k" "k + length bytes \<le> 512" "length (hd_buffer (hdcards m i)) = 512"
  shows "(\<exists>ix ph. hdcards (fold (hd_store ba i 4) bytes m) i = (hdcards m i)\<lparr>hd_data_index := ix, hd_data_phase := ph,
      hd_buffer := take k (hd_buffer (hdcards m i)) @ bytes @ drop (k + length bytes) (hd_buffer (hdcards m i))\<rparr>) \<and>
    hdmedia (fold (hd_store ba i 4) bytes m) = hdmedia m"
  using assms
proof (induction bytes arbitrary: m k)
  case Nil
  have "\<exists>ix ph. hdcards m i = (hdcards m i)\<lparr>hd_data_index := ix, hd_data_phase := ph\<rparr>"
    by (intro exI [of _ "hd_data_index (hdcards m i)"] exI [of _ "hd_data_phase (hdcards m i)"]) simp
  then show ?case by simp
next
  case (Cons v bytes)
  note prems = Cons.prems and IH = Cons.IH
  let ?m = "hd_store ba i 4 v m" and ?buf = "hd_buffer (hdcards m i)"
  have below: "k < length ?buf" using Cons.prems by simp
  have c: "hdcards ?m i = (hdcards m i)\<lparr>hd_data_index := (hd_data_index (hdcards m i) + 1) mod 512,
     hd_data_phase := harddisk_phase_write_in, hd_buffer := take k ?buf @ v # drop (Suc k) ?buf\<rparr>"
    using Cons.prems(1) upd_conv_take_nth_drop [OF below, of v] by (simp add: push_simps)
  show ?case
  proof (cases bytes)
    case Nil
    have "\<exists>ix ph. hdcards ?m i = (hdcards m i)\<lparr>hd_data_index := ix, hd_data_phase := ph,
        hd_buffer := take k ?buf @ v # drop (Suc k) ?buf\<rparr>" using c by blast
    then show ?thesis by (simp add: Nil push_simps(2))
  next
    case (Cons w ws)
    have k: "unat (hd_data_index (hdcards ?m i)) = Suc k" "Suc k + length bytes \<le> 512"
      "length (hd_buffer (hdcards ?m i)) = 512"
      using prems c below Cons by (simp_all add: index_next)
    have "take (Suc k) (hd_buffer (hdcards ?m i)) = take k ?buf @ [v]"
      "drop (Suc k + length bytes) (hd_buffer (hdcards ?m i)) = drop (k + length (v # bytes)) ?buf"
      using c below by (simp_all add: min_def add.commute)
    with IH [OF k] c show ?thesis by (auto simp: push_simps(2))
  qed
qed

lemma pull_simps:
  "fst (hd_load ba i 4 m) = hd_buffer (hdcards m i) ! unat (hd_data_index (hdcards m i))"
  "\<exists>ph. hdcards (snd (hd_load ba i 4 m)) i =
     (hdcards m i)\<lparr>hd_data_index := (hd_data_index (hdcards m i) + 1) mod 512, hd_data_phase := ph\<rparr>"
  "hdmedia (snd (hd_load ba i 4 m)) = hdmedia m"
proof -
  show "fst (hd_load ba i 4 m) = hd_buffer (hdcards m i) ! unat (hd_data_index (hdcards m i))"
    "hdmedia (snd (hd_load ba i 4 m)) = hdmedia m"
    by (simp_all add: hd_load_regs harddisk_io_data_def Let_def)
  show "\<exists>ph. hdcards (snd (hd_load ba i 4 m)) i =
     (hdcards m i)\<lparr>hd_data_index := (hd_data_index (hdcards m i) + 1) mod 512, hd_data_phase := ph\<rparr>"
    by (intro exI [of _ "if hd_data_phase (hdcards m i) = harddisk_phase_read_out \<and>
          (hd_data_index (hdcards m i) + 1) mod 512 = 0 then harddisk_phase_idle else hd_data_phase (hdcards m i)"])
      (simp add: hd_load_regs harddisk_io_data_def Let_def)
qed

text \<open>What the data port delivers from the index on.\<close>

lemma pull_bytes:
  assumes "unat (hd_data_index (hdcards m i)) = k" "k + n \<le> 512" "length (hd_buffer (hdcards m i)) = 512"
  shows "fst (pull_bytes ba i n m) = take n (drop k (hd_buffer (hdcards m i)))"
    "\<exists>ix ph. hdcards (snd (pull_bytes ba i n m)) i = (hdcards m i)\<lparr>hd_data_index := ix, hd_data_phase := ph\<rparr>"
    "hdmedia (snd (pull_bytes ba i n m)) = hdmedia m"
proof -
  have "fst (pull_bytes ba i n m) = take n (drop k (hd_buffer (hdcards m i))) \<and>
    (\<exists>ix ph. hdcards (snd (pull_bytes ba i n m)) i = (hdcards m i)\<lparr>hd_data_index := ix, hd_data_phase := ph\<rparr>) \<and>
    hdmedia (snd (pull_bytes ba i n m)) = hdmedia m"
    using assms
  proof (induction n arbitrary: m k)
    case 0
    have "\<exists>ix ph. hdcards m i = (hdcards m i)\<lparr>hd_data_index := ix, hd_data_phase := ph\<rparr>"
      by (intro exI [of _ "hd_data_index (hdcards m i)"] exI [of _ "hd_data_phase (hdcards m i)"]) simp
    then show ?case by simp
  next
    case (Suc n)
    obtain v m' where l: "hd_load ba i 4 m = (v, m')" by fastforce
    note step = pull_simps [of ba i m, unfolded l fst_conv snd_conv]
    from step(2) obtain ph where c: "hdcards m' i =
      (hdcards m i)\<lparr>hd_data_index := (hd_data_index (hdcards m i) + 1) mod 512, hd_data_phase := ph\<rparr>" by blast
    have v: "take (Suc n) (drop k (hd_buffer (hdcards m i))) = v # take n (drop (Suc k) (hd_buffer (hdcards m i)))"
      using Suc.prems step(1) by (simp flip: Cons_nth_drop_Suc)
    show ?case
    proof (cases n)
      case 0
      have "\<exists>ix ph. hdcards m' i = (hdcards m i)\<lparr>hd_data_index := ix, hd_data_phase := ph\<rparr>" using c by blast
      then show ?thesis using v step(3) by (simp add: 0 l)
    next
      case (Suc n')
      have "unat (hd_data_index (hdcards m' i)) = Suc k" "Suc k + n \<le> 512" "length (hd_buffer (hdcards m' i)) = 512"
        using Suc.prems c Suc by (simp_all add: index_next)
      from Suc.IH [OF this] v step(3) c show ?thesis by (auto simp: l split_beta)
    qed
  qed
  then show "fst (pull_bytes ba i n m) = take n (drop k (hd_buffer (hdcards m i)))"
    "\<exists>ix ph. hdcards (snd (pull_bytes ba i n m)) i = (hdcards m i)\<lparr>hd_data_index := ix, hd_data_phase := ph\<rparr>"
    "hdmedia (snd (pull_bytes ba i n m)) = hdmedia m" by blast+
qed

lemma unat_block: "unat (ucast (b :: u16) :: u32) = unat b"
  by (simp add: unsigned_ucast_eq take_bit_nat_eq_self_iff order.strict_trans [OF unsigned_less])

lemma block_below: "(ucast (b :: u16) :: u32) < n \<longleftrightarrow> unat b < unat n"
  by (simp add: word_less_nat_alt unat_block)

lemma block_above: "n \<le> (ucast (b :: u16) :: u32) \<longleftrightarrow> unat n \<le> unat b"
  by (simp add: word_le_nat_alt unat_block)

lemma commanded:
  "hd_load ba i 0 (hd_store ba i 0 c m) =
     (case execute_command ba i (update_hd i (\<lambda>hc. hc\<lparr>hd_command := c\<rparr>) m) of
        (r, m) \<Rightarrow> (r, update_hd i (\<lambda>hc. hc\<lparr>hd_result := r\<rparr>) m))"
  by (simp add: hd_store_regs hd_load_regs harddisk_io_command_def split_beta)

lemma count_bytes: "push_bit 8 (ucast (ucast (drop_bit 8 (n :: u16)) :: u8)) OR ucast (ucast n :: u8) = n"
  using u16_split_bytes [of n] by (simp add: or.commute)

lemma counted: "(ucast (min n 0xFFFF :: u32) :: u16) = word_of_nat (min (unat n) 0xFFFF)"
  by (simp add: min_def word_le_nat_alt of_nat_unat)

subsection \<open>The contract of a format driver\<close>

text \<open>
  What the card relies on: on a sound image, reads deliver the content of the block and writes,
  where the image may be written, change the content of that block only.
\<close>

locale block_store =
  fixes ba :: "'h block_api"
    and sound :: "nat \<Rightarrow> 'h \<Rightarrow> bool"
    and content :: "nat \<Rightarrow> 'h \<Rightarrow> nat \<Rightarrow> u8 list"
  assumes block_length: "sound h g \<Longrightarrow> n < unat (ba_total_blocks ba h g) \<Longrightarrow> length (content h g n) = 512"
    and reads: "sound h g \<Longrightarrow> b < ba_total_blocks ba h g \<Longrightarrow> length buffer = 512 \<Longrightarrow>
      ba_read_block ba h b buffer g = (harddisk_err_none, content h g (unat b))"
    and writes: "sound h g \<Longrightarrow> \<not> ba_is_write_protected ba h g \<Longrightarrow> b < ba_total_blocks ba h g \<Longrightarrow> length buffer = 512 \<Longrightarrow>
      ba_has_write_block ba h g \<and> (\<exists>g'. ba_write_block ba h b buffer g = (harddisk_err_none, g') \<and> sound h g' \<and>
        ba_total_blocks ba h g' = ba_total_blocks ba h g \<and> ba_is_write_protected ba h g' = ba_is_write_protected ba h g \<and>
        (\<forall>a < unat (ba_total_blocks ba h g). content h g' a = (if a = unat b then buffer else content h g a)))"
begin

text \<open>The card of instance \<open>i\<close> with the image \<open>h\<close> in the drive that unit \<open>u\<close> selects, standing for a volume.\<close>

definition stands_for :: "nat \<Rightarrow> u8 \<Rightarrow> nat \<Rightarrow> volume \<Rightarrow> ('g, 'h, 'a) harddisks_scheme \<Rightarrow> bool" where
  "stands_for i u h v m \<longleftrightarrow>
     (let hc = hdcards m i; d = hd_drives hc (unit_drive u); g = hdmedia m in
      hd_is_loaded d \<and> hd_driver d = Some h \<and> sound h g \<and> length (hd_buffer hc) = 512 \<and> \<not> hd_buffer_poisoned hc \<and>
      vol_blocks v = unat (ba_total_blocks ba h g) \<and> vol_protected v = is_write_protected ba g d \<and>
      (\<forall>a < vol_blocks v. vol_block v a = content h g a))"

lemma status_call:
  assumes "stands_for i u h v m"
  shows "fst (driver_call ba i u BlockStatus m) = fst (volume_call BlockStatus v) \<and>
    stands_for i u h v (snd (driver_call ba i u BlockStatus m))"
  using assms
  by (simp add: stands_for_def commanded Let_def execute_command_def selected_drive_def total_blocks_def
      hd_load_regs(3,4) harddisk_io_count_low_def harddisk_io_count_high_def count_bytes counted)

lemma format_call:
  assumes "stands_for i u h v m"
  shows "fst (driver_call ba i u BlockFormat m) = fst (volume_call BlockFormat v) \<and>
    stands_for i u h v (snd (driver_call ba i u BlockFormat m))"
  using assms by (simp add: stands_for_def commanded Let_def execute_command_def selected_drive_def)

lemma read_call:
  assumes held: "stands_for i u h v m"
  shows "fst (driver_call ba i u (BlockRead b) m) = fst (volume_call (BlockRead b) v) \<and>
    stands_for i u h v (snd (driver_call ba i u (BlockRead b) m))"
proof (cases "unat b < vol_blocks v")
  case False
  then show ?thesis using held
    by (simp add: stands_for_def commanded Let_def execute_command_def selected_drive_def total_blocks_def
        block_above not_less)
next
  case True
  let ?g = "hdmedia m" and ?c = "content h (hdmedia m) (unat b)"
  have below: "(ucast b :: u32) < ba_total_blocks ba h ?g" and sound: "sound h ?g" "length (hd_buffer (hdcards m i)) = 512"
    using True held by (simp_all add: stands_for_def Let_def block_below)
  have above: "(ba_total_blocks ba h ?g \<le> ucast b) = False" using below by (simp add: not_le)
  obtain r m' where call: "hd_load ba i 0 (hd_store ba i 0 1 (driver_set_up ba i u b m)) = (r, m')" by fastforce
  have facts: "r = 0 \<and> hdmedia m' = ?g \<and> hdcards m' i = (hdcards m i)\<lparr>hd_unit := u, hd_block := b, hd_command := 1,
      hd_buffer := ?c, hd_data_index := 0, hd_data_phase := harddisk_phase_read_out, hd_result := 0\<rparr>"
    using call held below above reads [OF sound(1) below sound(2)]
    by (auto simp: stands_for_def commanded Let_def execute_command_def selected_drive_def total_blocks_def
        prodos_read_def unat_block)
  have full: "length ?c = 512" using block_length [OF sound(1)] True held by (simp add: stands_for_def Let_def)
  with facts have "unat (hd_data_index (hdcards m' i)) = 0" "0 + 512 \<le> (512 :: nat)" "length (hd_buffer (hdcards m' i)) = 512"
    by simp_all
  note out = pull_bytes [OF this, of ba]
  obtain bytes m'' where pulled: "pull_bytes ba i 512 m' = (bytes, m'')" by fastforce
  from out(2) obtain ix ph where "hdcards m'' i = (hdcards m' i)\<lparr>hd_data_index := ix, hd_data_phase := ph\<rparr>"
    unfolding pulled by auto
  then show ?thesis using out(1,3) facts full held True by (simp add: call pulled stands_for_def Let_def)
qed

lemma write_call:
  assumes held: "stands_for i u h v m" and full: "length bytes = 512"
  shows "fst (driver_call ba i u (BlockWrite b bytes) m) = fst (volume_call (BlockWrite b bytes) v) \<and>
    stands_for i u h (snd (volume_call (BlockWrite b bytes) v)) (snd (driver_call ba i u (BlockWrite b bytes) m))"
proof -
  let ?g = "hdmedia m" and ?d = "hd_drives (hdcards m i) (unit_drive u)"
  define m1 where "m1 = fold (hd_store ba i 4) bytes (driver_set_up ba i u b m)"
  have pushed: "(\<exists>ix ph. hdcards m1 i = (hdcards m i)\<lparr>hd_unit := u, hd_block := b, hd_data_index := ix,
      hd_data_phase := ph, hd_buffer := bytes\<rparr>) \<and> hdmedia m1 = ?g"
    using push_bytes [of "driver_set_up ba i u b m" i 0 bytes ba] held full
    by (auto simp: m1_def stands_for_def Let_def)
  then obtain ix ph where card: "hdcards m1 i = (hdcards m i)\<lparr>hd_unit := u, hd_block := b, hd_data_index := ix,
      hd_data_phase := ph, hd_buffer := bytes\<rparr>" and media: "hdmedia m1 = ?g" by blast
  show ?thesis
  proof (cases "\<not> vol_protected v \<and> unat b < vol_blocks v")
    case False
    then show ?thesis using held card media full
      by (auto simp: stands_for_def commanded Let_def execute_command_def selected_drive_def total_blocks_def
          block_above not_less simp flip: m1_def)
  next
    case True
    have facts: "(ucast b :: u32) < ba_total_blocks ba h ?g" "sound h ?g" "\<not> ba_is_write_protected ba h ?g"
      "\<not> hd_user_write_protected ?d"
      using True held
      by (auto simp: stands_for_def Let_def block_below is_write_protected_def split: if_splits option.splits)
    obtain g' where w: "ba_write_block ba h (ucast b) bytes ?g = (harddisk_err_none, g')" "sound h g'"
      "ba_total_blocks ba h g' = ba_total_blocks ba h ?g" "ba_is_write_protected ba h g' = ba_is_write_protected ba h ?g"
      "\<forall>a < unat (ba_total_blocks ba h ?g). content h g' a = (if a = unat b then bytes else content h ?g a)"
      and has: "ba_has_write_block ba h ?g"
      using writes [OF facts(2,3,1) full] by (auto simp: unat_block)
    show ?thesis using held card media full True facts w has
      by (simp add: stands_for_def commanded Let_def execute_command_def selected_drive_def total_blocks_def
          prodos_write_def not_le is_write_protected_def flip: m1_def)
  qed
qed

lemma stands_for_call:
  assumes "stands_for i u h v m" "whole_call c"
  shows "fst (driver_call ba i u c m) = fst (volume_call c v) \<and>
    stands_for i u h (snd (volume_call c v)) (snd (driver_call ba i u c m))"
  using assms status_call [OF assms(1)] format_call [OF assms(1)] read_call [OF assms(1)] write_call [OF assms(1)]
  by (cases c) (simp_all del: driver_call.simps)

lemma stands_for_calls:
  assumes "stands_for i u h v m" "list_all whole_call cs"
  shows "fst (driver_calls ba i u cs m) = fst (volume_calls cs v) \<and>
    stands_for i u h (snd (volume_calls cs v)) (snd (driver_calls ba i u cs m))"
  using assms
proof (induction cs arbitrary: v m)
  case (Cons c cs)
  have "fst (driver_call ba i u c m) = fst (volume_call c v) \<and>
      stands_for i u h (snd (volume_call c v)) (snd (driver_call ba i u c m))"
    using Cons.prems by (intro stands_for_call) auto
  moreover from this have "fst (driver_calls ba i u cs (snd (driver_call ba i u c m))) =
        fst (volume_calls cs (snd (volume_call c v))) \<and>
      stands_for i u h (snd (volume_calls cs (snd (volume_call c v))))
        (snd (driver_calls ba i u cs (snd (driver_call ba i u c m))))"
    using Cons.prems(2) by (intro Cons.IH) auto
  ultimately show ?case by (simp add: split_beta)
qed simp

end

end
