(* ===== verification/Block_Image_Props.thy ===== *)
theory Block_Image_Props
  imports Block_Image
begin

text \<open>
  Block images as stores of blocks: whichever the order of the file, the blocks tile it, so a write
  is read back from its block and from no other.
\<close>

subsection \<open>Reading and writing pieces\<close>

lemma length_put_at: "pos + length bytes \<le> length buffer \<Longrightarrow> length (put_at pos bytes buffer) = length buffer"
  by (simp add: put_at_def)

text \<open>The sixteen sectors of a track, as the table deals them out to half blocks.\<close>

definition dealt :: "nat list" where
  "dealt = [0x0, 0xE, 0xD, 0xC, 0xB, 0xA, 0x9, 0x8, 0x7, 0x6, 0x5, 0x4, 0x3, 0x2, 0x1, 0xF]"

lemma dealt: "distinct dealt" "length dealt = 16" "s \<in> set dealt \<Longrightarrow> s < 16"
  by (auto simp: dealt_def)

lemma dealt_list: "dealt = concat (map (\<lambda>(a, b). [a, b]) dos_sectors_of_block)"
  by (simp add: dealt_def dos_sectors_of_block_def)

lemma dos_sector_dealt:
  assumes "k < 8" "half < 2" shows "dos_sector_of k half = dealt ! (2 * k + half)"
proof -
  have "k = 0 \<or> k = 1 \<or> k = 2 \<or> k = 3 \<or> k = 4 \<or> k = 5 \<or> k = 6 \<or> k = 7" "half = 0 \<or> half = 1" using assms by linarith+
  then show ?thesis by (elim disjE) (simp_all add: dos_sector_of_def dos_sectors_of_block_def dealt_def)
qed

lemma dos_sector_below: "k < 8 \<Longrightarrow> half < 2 \<Longrightarrow> dos_sector_of k half < 16"
  using dealt(3) [OF nth_mem, of "2 * k + half"] by (simp add: dos_sector_dealt dealt)

lemma dos_sector_inject:
  assumes "k < 8" "half < 2" "k' < 8" "half' < 2" "dos_sector_of k half = dos_sector_of k' half'"
  shows "k = k' \<and> half = half'"
proof -
  have "dealt ! (2 * k + half) = dealt ! (2 * k' + half')" using assms by (simp add: dos_sector_dealt)
  then have "2 * k + half = 2 * k' + half'" using assms by (simp add: nth_eq_iff_index_eq dealt)
  moreover from this have "k = k'" using assms(2,4) by linarith
  ultimately show ?thesis by simp
qed

lemma slots_apart: "a \<noteq> b \<Longrightarrow> 256 * a + 256 \<le> 256 * b \<or> 256 * b + 256 \<le> 256 * (a :: nat)"
  by linarith

text \<open>Half blocks: where half \<open>j\<close> of the 256-byte halves lies in either order.\<close>

definition half_offset :: "block_disk_order \<Rightarrow> nat \<Rightarrow> nat" where
  "half_offset ord j = block_offset ord (j div 2) (j mod 2)"

definition half_slot :: "block_disk_order \<Rightarrow> nat \<Rightarrow> nat" where
  "half_slot ord j =
     (if ord = block_disk_order_dos then 16 * (j div 16) + dos_sector_of ((j div 2) mod 8) (j mod 2) else j)"

lemma half_offset_slot: "half_offset ord j = 256 * half_slot ord j"
proof -
  have "2 * (j div 2) + j mod 2 = j" by (rule mult_div_mod_eq)
  then have "j div 2 * 512 + j mod 2 * 256 = 256 * j" by linarith
  moreover have "j div 2 div 8 = j div 16" by (simp flip: div_mult2_eq)
  ultimately show ?thesis by (simp add: half_slot_def half_offset_def block_offset_def dos_block_half_offset_def Let_def)
qed

lemma half_slot_track: "half_slot block_disk_order_dos j div 16 = j div 16"
proof -
  have "dos_sector_of ((j div 2) mod 8) (j mod 2) < 16" by (simp add: dos_sector_below)
  then show ?thesis by (simp add: half_slot_def)
qed

lemma half_split: "j = 16 * (j div 16) + 2 * ((j div 2) mod 8) + (j :: nat) mod 2"
proof -
  have "j div 2 div 8 = j div (2 * 8)" by (rule div_mult2_eq [symmetric])
  then have "j div 2 = 8 * (j div 16) + (j div 2) mod 8" using mult_div_mod_eq [of 8 "j div 2"] by simp
  then have "2 * (j div 2) = 16 * (j div 16) + 2 * ((j div 2) mod 8)" by linarith
  with mult_div_mod_eq [of 2 j] show ?thesis by linarith
qed

lemma half_slot_inject: "half_slot ord j = half_slot ord j' \<Longrightarrow> j = j'"
proof (cases "ord = block_disk_order_dos")
  case True
  assume eq: "half_slot ord j = half_slot ord j'"
  have q: "j div 16 = j' div 16"
    using arg_cong [OF eq, of "\<lambda>x. x div 16"] unfolding True half_slot_track .
  have "dos_sector_of ((j div 2) mod 8) (j mod 2) = dos_sector_of ((j' div 2) mod 8) (j' mod 2)"
    using eq by (simp add: half_slot_def True q)
  from dos_sector_inject [OF _ _ _ _ this]
  have "(j div 2) mod 8 = (j' div 2) mod 8" "j mod 2 = j' mod 2" by simp_all
  then show "j = j'" using half_split [of j] half_split [of j'] q by metis
qed (simp add: half_slot_def)

lemma half_offset_apart:
  assumes "j \<noteq> j'"
  shows "half_offset ord j + 256 \<le> half_offset ord j' \<or> half_offset ord j' + 256 \<le> half_offset ord j"
  unfolding half_offset_slot using half_slot_inject assms by (intro slots_apart) blast

text \<open>The image's blocks lie inside its file.\<close>

lemma half_offset_inside:
  assumes "j < 2 * n" "ord = block_disk_order_dos \<longrightarrow> n = 280"
  shows "half_offset ord j + 256 \<le> 512 * n"
proof -
  have "half_slot ord j < 2 * n"
  proof (cases "ord = block_disk_order_dos")
    case True
    have "j div 16 < 35" using assms True by auto
    then have "half_slot ord j div 16 < 35" by (simp add: True half_slot_track)
    then show ?thesis using assms True by simp
  qed (use assms in \<open>simp add: half_slot_def\<close>)
  then show ?thesis by (simp add: half_offset_slot)
qed

subsection \<open>Slices of a file\<close>

definition file_slice :: "nat \<Rightarrow> nat \<Rightarrow> u8 list \<Rightarrow> u8 list" where
  "file_slice off n data = take n (drop off data)"

lemma slice_overwrite_same: "length bytes = n \<Longrightarrow> file_slice off n (overwrite off bytes data) = bytes"
  by (simp add: file_slice_def overwrite_same)

lemma slice_overwrite_apart:
  assumes "off' + n \<le> off \<or> off + length bytes \<le> off'" "off' + n \<le> length data"
  shows "file_slice off' n (overwrite off bytes data) = file_slice off' n data"
  using assms by (intro nth_equalityI) (auto simp: file_slice_def length_overwrite nth_overwrite)

lemma overwrite_inside:
  "off \<le> length data \<Longrightarrow> overwrite off bytes data = take off data @ bytes @ drop (off + length bytes) data"
  by (simp add: overwrite_def)

lemma overwrite_append:
  assumes "off + length xs + length ys \<le> length data"
  shows "overwrite off (xs @ ys) data = overwrite (off + length xs) ys (overwrite off xs data)"
proof -
  have "overwrite off xs data = take off data @ xs @ drop (off + length xs) data"
    using assms by (intro overwrite_inside) simp
  moreover have "off + length xs \<le> length \<dots>" using assms by simp
  ultimately have "overwrite (off + length xs) ys (overwrite off xs data) =
      take off data @ xs @ ys @ drop (off + length xs + length ys) data"
    using assms by (simp add: overwrite_inside add.commute add.left_commute)
  moreover have "overwrite off (xs @ ys) data = take off data @ (xs @ ys) @ drop (off + length (xs @ ys)) data"
    using assms by (intro overwrite_inside) simp
  ultimately show ?thesis by (simp add: add.assoc)
qed

lemma slice_append: "file_slice off (a + b) data = file_slice off a data @ file_slice (off + a) b data"
  by (simp add: file_slice_def take_add add.commute)

subsection \<open>The store\<close>

text \<open>An image whose file holds all its blocks, on a host that does not fail.\<close>

definition image_sound :: "block_disk_image \<Rightarrow> 'f file_system_scheme \<Rightarrow> bool" where
  "image_sound img fs \<longleftrightarrow> \<not> fs_faulty fs (bi_file img) \<and>
     unat (bi_data_offset img) + 512 * unat (bi_total_blocks img) \<le> length (fs_data fs (bi_file img)) \<and>
     (bi_order img = block_disk_order_dos \<longrightarrow> unat (bi_total_blocks img) = 280)"

definition half_at :: "block_disk_image \<Rightarrow> 'f file_system_scheme \<Rightarrow> nat \<Rightarrow> u8 list" where
  "half_at img fs j =
     file_slice (unat (bi_data_offset img) + half_offset (bi_order img) j) 256 (fs_data fs (bi_file img))"

definition block_content :: "block_disk_image \<Rightarrow> 'f file_system_scheme \<Rightarrow> nat \<Rightarrow> u8 list" where
  "block_content img fs b = half_at img fs (2 * b) @ half_at img fs (2 * b + 1)"

lemma half_inside:
  assumes "image_sound img fs" "j < 2 * unat (bi_total_blocks img)"
  shows "unat (bi_data_offset img) + half_offset (bi_order img) j + 256 \<le> length (fs_data fs (bi_file img))"
  using assms half_offset_inside [of j "unat (bi_total_blocks img)" "bi_order img"] by (simp add: image_sound_def)

lemma length_half_at:
  "image_sound img fs \<Longrightarrow> j < 2 * unat (bi_total_blocks img) \<Longrightarrow> length (half_at img fs j) = 256"
  using half_inside [of img fs j] by (simp add: half_at_def file_slice_def)

lemma half_offset_halves:
  "half_offset ord (2 * b) = block_offset ord b 0" "half_offset ord (2 * b + 1) = block_offset ord b 1"
  "half_offset ord (Suc (2 * b)) = block_offset ord b (Suc 0)"
  by (simp_all add: half_offset_def)

lemma halves_adjacent: "ord \<noteq> block_disk_order_dos \<Longrightarrow> half_offset ord (2 * b + 1) = half_offset ord (2 * b) + 256"
  "ord \<noteq> block_disk_order_dos \<Longrightarrow> half_offset ord (Suc (2 * b)) = half_offset ord (2 * b) + 256"
  by (simp_all add: half_offset_slot half_slot_def)

lemma read_block_sound:
  assumes "image_sound img fs" "b < bi_total_blocks img" "length buffer = 512"
  shows "block_disk_image_read_block img b buffer fs = (harddisk_err_none, block_content img fs (unat b))"
proof -
  let ?o = "unat (bi_data_offset img)" and ?b = "unat b"
  have b: "?b < unat (bi_total_blocks img)" using assms(2) by (simp add: word_less_nat_alt)
  have l: "length (half_at img fs (2 * ?b)) = 256" "length (half_at img fs (2 * ?b + 1)) = 256"
    using b by (simp_all add: length_half_at [OF assms(1)])
  have ok: "\<not> fs_faulty fs (bi_file img)" using assms(1) by (simp add: image_sound_def)
  show ?thesis
  proof (cases "bi_order img = block_disk_order_dos")
    case True
    then show ?thesis
      using assms(2,3) l ok
      by (simp add: block_disk_image_read_block_def not_le block_pieces_def Let_def fread_at_def upt_rec
          half_at_def file_slice_def half_offset_halves put_at_def block_content_def)
  next
    case False
    have "block_content img fs ?b = file_slice (?o + half_offset (bi_order img) (2 * ?b)) 512 (fs_data fs (bi_file img))"
      using slice_append [of _ 256 256] by (simp add: block_content_def half_at_def halves_adjacent [OF False] add.assoc)
    moreover have "length (block_content img fs ?b) = 512" using l by (simp add: block_content_def)
    ultimately show ?thesis
      using False assms(2,3) ok
      by (simp add: block_disk_image_read_block_def not_le block_pieces_def Let_def fread_at_def
          file_slice_def half_offset_halves put_at_def)
  qed
qed

text \<open>A write of a block is a write of its two halves.\<close>

definition store_halves :: "block_disk_image \<Rightarrow> nat \<Rightarrow> u8 list \<Rightarrow> 'f file_system_scheme \<Rightarrow> 'f file_system_scheme" where
  "store_halves img b buffer fs =
     (let at = \<lambda>j. unat (bi_data_offset img) + half_offset (bi_order img) j in
      fs\<lparr>fs_data := (fs_data fs)(bi_file img := overwrite (at (2 * b + 1)) (drop 256 buffer)
         (overwrite (at (2 * b)) (take 256 buffer) (fs_data fs (bi_file img))))\<rparr>)"

lemma write_block_stores:
  assumes "image_sound img fs" "\<not> bi_host_read_only img" "b < bi_total_blocks img" "length buffer = 512"
  shows "block_disk_image_write_block img b buffer fs = (harddisk_err_none, store_halves img (unat b) buffer fs)"
proof -
  let ?o = "unat (bi_data_offset img)" and ?b = "unat b"
  have b: "2 * ?b + 1 < 2 * unat (bi_total_blocks img)" using assms(3) by (simp add: word_less_nat_alt)
  have ok: "\<not> fs_faulty fs (bi_file img)" using assms(1) by (simp add: image_sound_def)
  show ?thesis
  proof (cases "bi_order img = block_disk_order_dos")
    case True
    then show ?thesis
      using assms(2-4) ok
      by (simp add: block_disk_image_write_block_def not_le block_pieces_def Let_def fwrite_at_def upt_rec
          store_halves_def half_offset_halves)
  next
    case False
    let ?at = "?o + half_offset (bi_order img) (2 * ?b)" and ?data = "fs_data fs (bi_file img)"
    have at: "?o + half_offset (bi_order img) (2 * ?b + 1) = ?at + length (take 256 buffer)"
      using assms(4) by (simp add: halves_adjacent [OF False])
    have "?at + length (take 256 buffer) + length (drop 256 buffer) \<le> length ?data"
      using half_inside [OF assms(1) b] assms(4) by (simp add: halves_adjacent [OF False])
    from overwrite_append [OF this]
    have "overwrite ?at buffer ?data = overwrite (?o + half_offset (bi_order img) (2 * ?b + 1)) (drop 256 buffer)
        (overwrite ?at (take 256 buffer) ?data)"
      by (simp only: append_take_drop_id at)
    moreover have "block_disk_image_write_block img b buffer fs =
        (harddisk_err_none, fs\<lparr>fs_data := (fs_data fs)(bi_file img := overwrite ?at buffer ?data)\<rparr>)"
      using False assms(2-4) ok
      by (simp add: block_disk_image_write_block_def not_le block_pieces_def Let_def fwrite_at_def half_offset_halves)
    ultimately show ?thesis unfolding store_halves_def Let_def by (simp only:)
  qed
qed

lemma store_halves_sound:
  assumes "image_sound img fs" shows "image_sound img (store_halves img b buffer fs)"
  using assms by (auto simp: image_sound_def store_halves_def Let_def length_overwrite)

lemma half_after_store:
  assumes "image_sound img fs" "length buffer = 512" "j < 2 * unat (bi_total_blocks img)"
    "2 * b + 1 < 2 * unat (bi_total_blocks img)"
  shows "half_at img (store_halves img b buffer fs) j =
    (if j = 2 * b then take 256 buffer else if j = 2 * b + 1 then drop 256 buffer else half_at img fs j)"
proof -
  let ?at = "\<lambda>j. unat (bi_data_offset img) + half_offset (bi_order img) j" and ?data = "fs_data fs (bi_file img)"
  have apart: "?at j + 256 \<le> ?at k \<or> ?at k + 256 \<le> ?at j" if "j \<noteq> k" for j k
    using half_offset_apart [OF that, of "bi_order img"] by auto
  let ?one = "overwrite (?at (2 * b)) (take 256 buffer) ?data"
  have len: "length ?data \<le> length ?one" by (simp add: length_overwrite)
  have "half_at img (store_halves img b buffer fs) j = file_slice (?at j) 256 (overwrite (?at (2 * b + 1)) (drop 256 buffer) ?one)"
    by (simp add: half_at_def store_halves_def Let_def)
  moreover have "\<dots> = file_slice (?at j) 256 ?one" if "j \<noteq> 2 * b + 1"
    using apart [OF that] assms(2) half_inside [OF assms(1,3)] len by (intro slice_overwrite_apart) auto
  moreover have "file_slice (?at j) 256 ?one = half_at img fs j" if "j \<noteq> 2 * b"
    unfolding half_at_def using apart [OF that] assms(2) half_inside [OF assms(1,3)] by (intro slice_overwrite_apart) auto
  ultimately show ?thesis using assms(2) by (auto simp: slice_overwrite_same)
qed

lemma content_after_store:
  assumes "image_sound img fs" "length buffer = 512" "a < unat (bi_total_blocks img)" "b < unat (bi_total_blocks img)"
  shows "block_content img (store_halves img b buffer fs) a = (if a = b then buffer else block_content img fs a)"
  using assms half_after_store [OF assms(1,2), of _ b] by (auto simp: block_content_def)

end
