(* ===== verification/Harddisk_Media.thy ===== *)
theory Harddisk_Media
  imports Harddisk_Props Block_Image_Props Mockingboard_Behaviour
begin

text \<open>
  The hard disk with its loader and the built-in format drivers plugged in: an image that the loader
  opens holds all its blocks, the drivers keep the contract of \<open>block_store\<close>, and so a drive with an
  image in it is the volume that the file holds.
\<close>

subsection \<open>Images the drivers open\<close>

lemma if_Inl: "(if P then Inl e else Q) = Inr x \<longleftrightarrow> \<not> P \<and> Q = Inr x"
  by simp

lemma opened_image_sound:
  assumes "block_disk_image_open path off ord n ro fs = Inr img"
  shows "image_sound img fs \<and> bi_path img = path"
proof -
  define r where "r = (case (if ro then Inl EACCES else fopen path True fs) of Inr n \<Rightarrow> Inr (n, False)
    | Inl _ \<Rightarrow> (case fopen path False fs of Inr n \<Rightarrow> Inr (n, True) | Inl e \<Rightarrow> Inl e))"
  have "\<exists>n' host. r = Inr (n', host)"
    using assms by (cases r) (auto simp: block_disk_image_open_def simp flip: r_def)
  then obtain n' host where r: "r = Inr (n', host)" by blast
  let ?room = "nat (stream_size n' fs) - unat off"
  note opened = assms [unfolded block_disk_image_open_def, folded r_def,
      unfolded r Let_def sum.case prod.case if_Inl]
  then have whole: "\<not> stream_size n' fs < 0" and inside: "\<not> stream_size n' fs < int (unat off)"
    and all: "\<not> (n = 0 \<and> (?room div 512 = 0 \<or> ?room div 512 > 4294967295))"
    and some: "\<not> (n \<noteq> 0 \<and> unat n * 512 > ?room)"
    and dos: "\<not> (ord = block_disk_order_dos \<and> unat (if n = 0 then word_of_nat (?room div 512) else n) \<noteq> 280)"
    by blast+
  have img: "bi_file img = n'" "bi_path img = path" "bi_data_offset img = off" "bi_order img = ord"
    "bi_total_blocks img = (if n = 0 then word_of_nat (?room div 512) else n)"
    using opened by auto
  have ok: "\<not> fs_faulty fs n'" "nat (stream_size n' fs) = length (fs_data fs n')"
    using whole by (auto simp: stream_size_def split: if_splits)
  have "unat (bi_total_blocks img) * 512 \<le> ?room"
  proof (cases "n = 0")
    case True
    then have "unat (bi_total_blocks img) = ?room div 512"
      using all by (simp add: img unsigned_of_nat take_bit_nat_eq_self)
    then show ?thesis by simp
  qed (use some in \<open>simp add: img\<close>)
  moreover have "unat off \<le> length (fs_data fs n')" using inside whole unfolding ok(2) [symmetric] by linarith
  ultimately show ?thesis using dos ok by (simp add: image_sound_def img)
qed

lemma two_img_sound: "two_img_open path off ro fs = Inr img \<Longrightarrow> image_sound img fs \<and> bi_path img = path"
  by (auto simp: two_img_open_def Let_def opened_image_sound split: sum.splits option.splits if_splits)

text \<open>Drivers whose instances are block images.\<close>

definition opens_blocks :: "harddisk_format_driver \<Rightarrow> bool" where
  "opens_blocks d \<longleftrightarrow> (\<forall>open_fn path off ro fs img. hf_open d = Some open_fn \<longrightarrow> open_fn path off ro fs = Inr img \<longrightarrow>
     image_sound img fs \<and> hf_is_write_protected d = Some bi_host_read_only \<and>
     hf_read_block d = Some block_disk_image_read_block \<and> hf_write_block d = Some block_disk_image_write_block \<and>
     hf_get_total_blocks d = Some bi_total_blocks)"

lemma built_ins_open_blocks: "d \<in> set built_in_block_drivers \<Longrightarrow> opens_blocks d"
  by (auto simp: built_in_block_drivers_def opens_blocks_def po_block_driver_def do_block_driver_def
      two_img_driver_def nibble_refusal_driver_def block_driver_def dest: opened_image_sound two_img_sound)

lemma set_insert_block_driver: "set (insert_block_driver d ds) = insert d (set ds)"
  by (induction ds) auto

lemma register_block_subset:
  "set (hl_registry (harddisk_loader_register_permanent (Some d) ld)) \<subseteq> insert d (set (hl_registry ld))"
  by (auto simp: harddisk_loader_register_permanent_def admit_block_driver_def harddisk_loader_note_def
      set_insert_block_driver split: option.splits if_splits prod.splits)

lemma harddisk_registered_subset: "set (hl_registry (harddisk_registered ds)) \<subseteq> set ds"
proof -
  have "set (hl_registry (fold (\<lambda>d. harddisk_loader_register_permanent (Some d)) ds ld)) \<subseteq> set (hl_registry ld) \<union> set ds" for ld
  proof (induction ds arbitrary: ld)
    case (Cons d ds)
    then show ?case using register_block_subset [of d ld] by fastforce
  qed simp
  from this [of empty_harddisk_loader] show ?thesis by (simp add: harddisk_registered_def empty_harddisk_loader_def)
qed

lemma best_block_member:
  "best_block_driver ds header n hint possible = Some d \<Longrightarrow> possible = None \<or> the possible \<in> D \<Longrightarrow> set ds \<subseteq> D \<Longrightarrow> d \<in> D"
proof (induction ds header n hint possible rule: best_block_driver.induct)
  case (2 e ds header n hint possible)
  then show ?case by (auto split: option.splits harddisk_probe.splits if_splits)
qed auto

lemma sound_after_unlink: "image_sound img (unlink p fs) = image_sound img fs"
  by (simp add: image_sound_def unlink_def)

definition block_ops :: "harddisk_format_driver \<Rightarrow> bool" where
  "block_ops d \<longleftrightarrow> hf_is_write_protected d = Some bi_host_read_only \<and>
     hf_read_block d = Some block_disk_image_read_block \<and> hf_write_block d = Some block_disk_image_write_block \<and>
     hf_get_total_blocks d = Some bi_total_blocks"

lemma prepared_block_sound:
  assumes "\<forall>d \<in> set (hl_registry ld). opens_blocks d" "open_prepared_block al ld p load_path temporary fs = (Inr (d, img), ld')"
  shows "image_sound img fs \<and> block_ops d"
proof -
  have member: "e \<in> set (hl_registry ld)" if "best_block_driver (hl_registry ld) header n name None = Some e" for e header n name
    using that best_block_member [of "hl_registry ld"] by auto
  obtain open_fn off where "d \<in> set (hl_registry ld)" "hf_open d = Some open_fn" "open_fn load_path off temporary fs = Inr img"
    using assms(2) member
    by (auto simp: open_prepared_block_def Let_def split: sum.splits option.splits if_splits)
  then show ?thesis using assms(1) unfolding opens_blocks_def block_ops_def by blast
qed

lemma loader_open_sound:
  assumes "\<forall>d \<in> set (hl_registry ld). opens_blocks d" "harddisk_loader_open al ld path fs = (Inr (d, img), ld', fs')"
  shows "image_sound img fs' \<and> block_ops d"
  using assms(2) prepared_block_sound [OF assms(1)]
  by (auto simp: harddisk_loader_open_def sound_after_unlink split: sum.splits prod.splits if_splits)

subsection \<open>The host's block media\<close>

text \<open>The files, the loader with its notes, and what each open handle of a drive stands for.\<close>

record block_media =
  bm_files :: file_system
  bm_loader :: harddisk_loader
  bm_images :: "nat \<Rightarrow> (harddisk_format_driver \<times> block_disk_image) option"
  bm_next :: nat

definition block_open :: "archive_library \<Rightarrow> string \<Rightarrow> block_media \<Rightarrow> (harddisk_error + nat) \<times> block_media" where
  "block_open al path g =
     (case harddisk_loader_open al (bm_loader g) path (bm_files g) of
        (Inl e, ld, fs) \<Rightarrow> (Inl e, g\<lparr>bm_files := fs, bm_loader := ld\<rparr>)
      | (Inr (d, img), ld, fs) \<Rightarrow>
          (Inr (bm_next g), g\<lparr>bm_files := fs, bm_loader := ld,
             bm_images := (bm_images g)(bm_next g \<mapsto> (d, img)), bm_next := bm_next g + 1\<rparr>))"

definition block_method :: "(harddisk_format_driver \<Rightarrow> 'm option) \<Rightarrow> nat \<Rightarrow> block_media \<Rightarrow> ('m \<times> block_disk_image) option" where
  "block_method sel h g =
     (case bm_images g h of None \<Rightarrow> None
      | Some (d, img) \<Rightarrow> map_option (\<lambda>f. (f, img)) (sel d))"

definition block_media_api :: "archive_library \<Rightarrow> block_media block_api" where
  "block_media_api al =
     \<lparr>ba_open = block_open al, ba_close = (\<lambda>h g. g\<lparr>bm_images := (bm_images g)(h := None)\<rparr>),
      ba_is_write_protected = (\<lambda>h g. case block_method hf_is_write_protected h g of
        None \<Rightarrow> False | Some (f, img) \<Rightarrow> f img),
      ba_read_block = (\<lambda>h b buffer g. case block_method hf_read_block h g of
        None \<Rightarrow> (harddisk_err_io, buffer) | Some (f, img) \<Rightarrow> f img b buffer (bm_files g)),
      ba_has_write_block = (\<lambda>h g. block_method hf_write_block h g \<noteq> None),
      ba_write_block = (\<lambda>h b buffer g. case block_method hf_write_block h g of
        None \<Rightarrow> (harddisk_err_io, g)
      | Some (f, img) \<Rightarrow> (case f img b buffer (bm_files g) of (e, fs) \<Rightarrow> (e, g\<lparr>bm_files := fs\<rparr>))),
      ba_total_blocks = (\<lambda>h g. case block_method hf_get_total_blocks h g of None \<Rightarrow> 0 | Some (f, img) \<Rightarrow> f img)\<rparr>"

definition handle_sound :: "nat \<Rightarrow> block_media \<Rightarrow> bool" where
  "handle_sound h g \<longleftrightarrow>
     (case bm_images g h of None \<Rightarrow> False | Some (d, img) \<Rightarrow> block_ops d \<and> image_sound img (bm_files g))"

definition handle_content :: "nat \<Rightarrow> block_media \<Rightarrow> nat \<Rightarrow> u8 list" where
  "handle_content h g b = (case bm_images g h of None \<Rightarrow> [] | Some (d, img) \<Rightarrow> block_content img (bm_files g) b)"

lemma store_halves_of_sound:
  assumes "image_sound img fs" "b < bi_total_blocks img" "length buffer = 512"
  shows "image_sound img (store_halves img (unat b) buffer fs) \<and>
    (\<forall>a < unat (bi_total_blocks img). block_content img (store_halves img (unat b) buffer fs) a =
       (if a = unat b then buffer else block_content img fs a))"
  using assms store_halves_sound [OF assms(1)] content_after_store [OF assms(1,3), of _ "unat b"]
  by (auto simp: word_less_nat_alt)

lemma block_methods:
  assumes "bm_images g h = Some (d, img)" "block_ops d"
  shows "ba_is_write_protected (block_media_api al) h g = bi_host_read_only img"
    "ba_total_blocks (block_media_api al) h g = bi_total_blocks img"
    "ba_read_block (block_media_api al) h b buffer g = block_disk_image_read_block img b buffer (bm_files g)"
    "ba_has_write_block (block_media_api al) h g"
    "ba_write_block (block_media_api al) h b buffer g =
       (case block_disk_image_write_block img b buffer (bm_files g) of (e, fs) \<Rightarrow> (e, g\<lparr>bm_files := fs\<rparr>))"
  using assms by (simp_all add: block_media_api_def block_method_def block_ops_def)

lemma handle_soundE:
  assumes "handle_sound h g"
  obtains d img where "bm_images g h = Some (d, img)" "block_ops d" "image_sound img (bm_files g)"
    "handle_content h g = block_content img (bm_files g)"
  using assms by (auto simp: handle_sound_def handle_content_def fun_eq_iff split: option.splits prod.splits)

interpretation bs: block_store "block_media_api al" handle_sound handle_content for al
proof (unfold_locales, goal_cases)
  case (1 h g n)
  from 1(1) obtain d img where i: "bm_images g h = Some (d, img)" "block_ops d" "image_sound img (bm_files g)"
    "handle_content h g = block_content img (bm_files g)" by (rule handle_soundE)
  then show ?case using 1(2) by (simp add: block_methods(2) [OF i(1,2)] block_content_def length_half_at)
next
  case (2 h g b buffer)
  from 2(1) obtain d img where i: "bm_images g h = Some (d, img)" "block_ops d" "image_sound img (bm_files g)"
    "handle_content h g = block_content img (bm_files g)" by (rule handle_soundE)
  then show ?case using 2(2,3) read_block_sound [OF i(3)] by (simp add: block_methods [OF i(1,2)])
next
  case (3 h g b buffer)
  from 3(1) obtain d img where i: "bm_images g h = Some (d, img)" "block_ops d" "image_sound img (bm_files g)"
    "handle_content h g = block_content img (bm_files g)" by (rule handle_soundE)
  have b: "b < bi_total_blocks img" "\<not> bi_host_read_only img" using 3(2,3) by (simp_all add: block_methods [OF i(1,2)])
  let ?fs = "store_halves img (unat b) buffer (bm_files g)" and ?g = "g\<lparr>bm_files := store_halves img (unat b) buffer (bm_files g)\<rparr>"
  have i': "bm_images ?g h = Some (d, img)" using i(1) by simp
  have "ba_write_block (block_media_api al) h b buffer g = (harddisk_err_none, ?g)"
    using write_block_stores [OF i(3) b(2) b(1) 3(4)] by (simp add: block_methods [OF i(1,2)])
  moreover have "handle_sound h ?g" "handle_content h ?g = block_content img ?fs"
    using store_halves_of_sound [OF i(3) b(1) 3(4)] i' i(2) by (simp_all add: handle_sound_def handle_content_def fun_eq_iff)
  ultimately show ?case
    using store_halves_of_sound [OF i(3) b(1) 3(4)] i(4)
    by (simp add: block_methods [OF i(1,2)] block_methods [OF i' i(2)])
qed

lemma block_open_sound:
  assumes "set (hl_registry (bm_loader g)) \<subseteq> set built_in_block_drivers" "block_open al path g = (Inr h, g')"
  shows "handle_sound h g'"
proof -
  have all: "\<forall>d \<in> set (hl_registry (bm_loader g)). opens_blocks d" using assms(1) built_ins_open_blocks by blast
  show ?thesis using assms(2) loader_open_sound [OF all]
    by (auto simp: block_open_def handle_sound_def split: sum.splits prod.splits)
qed

subsection \<open>A drive with an image in it\<close>

text \<open>The volume that drive \<open>k\<close> of card \<open>i\<close> holds.\<close>

definition volume_in ::
  "archive_library \<Rightarrow> nat \<Rightarrow> nat \<Rightarrow> ('g, block_media, 'a) harddisks_scheme \<Rightarrow> volume" where
  "volume_in al i k m =
     (let d = hd_drives (hdcards m i) k; h = the (hd_driver d); g = hdmedia m in
      \<lparr>vol_blocks = unat (total_blocks (block_media_api al) g d),
       vol_protected = is_write_protected (block_media_api al) g d, vol_block = handle_content h g\<rparr>)"

lemma put_harddisk_simps [simp]:
  "hd_drives (put_harddisk k d hc) = (hd_drives hc)(k := d)" "hd_buffer (put_harddisk k d hc) = hd_buffer hc"
  "hd_buffer_poisoned (put_harddisk k d hc) = hd_buffer_poisoned hc"
  by (simp_all add: put_harddisk_def)

lemma ejected_simps:
  "hd_buffer (hdcards (eject_harddisk_from_drive ba i k m) i) = hd_buffer (hdcards m i)"
  "hd_buffer_poisoned (hdcards (eject_harddisk_from_drive ba i k m) i) = hd_buffer_poisoned (hdcards m i)"
  by (simp_all add: eject_harddisk_from_drive_def Let_def split: option.split)

lemma ejected_loader:
  "bm_loader (hdmedia (eject_harddisk_from_drive (block_media_api al) i k m)) = bm_loader (hdmedia m)"
  by (simp add: eject_harddisk_from_drive_def Let_def block_media_api_def split: option.split)

lemma inserted_stands_for:
  assumes "set (hl_registry (bm_loader (hdmedia m))) \<subseteq> set built_in_block_drivers"
    "length (hd_buffer (hdcards m i)) = 512" "\<not> hd_buffer_poisoned (hdcards m i)"
    "m' = snd (insert_harddisk_into_drive (block_media_api al) i (unit_drive u) path protect m)"
    "hd_is_loaded (hd_drives (hdcards m' i) (unit_drive u))"
  shows "\<exists>h. bs.stands_for al i u h (volume_in al i (unit_drive u) m') m'"
proof -
  let ?k = "unit_drive u"
  define m0 where "m0 = (if hd_is_loaded (hd_drives (hdcards m i) ?k)
    then eject_harddisk_from_drive (block_media_api al) i ?k m else m)"
  have m0: "set (hl_registry (bm_loader (hdmedia m0))) \<subseteq> set built_in_block_drivers"
    "length (hd_buffer (hdcards m0 i)) = 512" "\<not> hd_buffer_poisoned (hdcards m0 i)"
    "\<not> hd_is_loaded (hd_drives (hdcards m0 i) ?k)"
    using assms(1-3)
    by (simp_all add: m0_def ejected_simps ejected_loader)
      (simp add: eject_harddisk_from_drive_def new_harddisk_def Let_def)
  note ins = assms(4) [unfolded insert_harddisk_into_drive_def, folded m0_def]
  obtain r g' where opened: "block_open al path (hdmedia m0) = (r, g')" by fastforce
  obtain h where r: "r = Inr h"
    using assms(5) ins opened m0(4) by (cases r) (simp_all add: Let_def block_media_api_def)
  have "handle_sound h g'" using block_open_sound [OF m0(1)] opened r by blast
  moreover have "hdmedia m' = g'" "hd_buffer (hdcards m' i) = hd_buffer (hdcards m0 i)"
    "hd_buffer_poisoned (hdcards m' i) = hd_buffer_poisoned (hdcards m0 i)"
    "hd_driver (hd_drives (hdcards m' i) ?k) = Some h"
    using ins opened r by (simp_all add: Let_def block_media_api_def update_image_metadata_def)
  ultimately have "bs.stands_for al i u h (volume_in al i ?k m') m'"
    using m0 assms(5) by (simp add: bs.stands_for_def volume_in_def Let_def total_blocks_def)
  then show ?thesis ..
qed

text \<open>
  C35. A drive that the frontend has put an image into is the volume its file holds.
  Whatever sequence of status, read, write and format calls the firmware then makes on the card's
  registers, the answers are those of the abstract volume, and afterwards the file holds what the
  volume holds.
\<close>

theorem inserted_image_is_a_volume:
  assumes "set (hl_registry (bm_loader (hdmedia m))) \<subseteq> set built_in_block_drivers"
    "length (hd_buffer (hdcards m i)) = 512" "\<not> hd_buffer_poisoned (hdcards m i)"
    "m' = snd (insert_harddisk_into_drive (block_media_api al) i (unit_drive u) path protect m)"
    "hd_is_loaded (hd_drives (hdcards m' i) (unit_drive u))"
    "list_all whole_call cs"
    "v = volume_in al i (unit_drive u) m'"
    "v' = volume_in al i (unit_drive u) (snd (driver_calls (block_media_api al) i u cs m'))"
  shows "fst (driver_calls (block_media_api al) i u cs m') = fst (volume_calls cs v) \<and>
    vol_blocks v' = vol_blocks v \<and> vol_protected v' = vol_protected v \<and>
    (\<forall>a < vol_blocks v. vol_block v' a = vol_block (snd (volume_calls cs v)) a)"
proof -
  obtain h where h: "bs.stands_for al i u h v m'" using inserted_stands_for [OF assms(1-5)] assms(7) by blast
  from bs.stands_for_calls [OF h assms(6)]
  have calls: "fst (driver_calls (block_media_api al) i u cs m') = fst (volume_calls cs v)"
    "bs.stands_for al i u h (snd (volume_calls cs v)) (snd (driver_calls (block_media_api al) i u cs m'))" by blast+
  have "vol_blocks (snd (volume_calls cs v)) = vol_blocks v \<and> vol_protected (snd (volume_calls cs v)) = vol_protected v"
    by (rule volume_calls_shape)
  with calls show ?thesis by (simp add: assms(8) volume_in_def bs.stands_for_def Let_def total_blocks_def)
qed

text \<open>A host with one file of two blocks, and a card without an image.\<close>

definition two_block_media :: block_media where
  "two_block_media =
     \<lparr>bm_files = \<lparr>fs_names = [''a.po'' \<mapsto> 0], fs_data = (\<lambda>_. replicate 1024 0), fs_read_only = (\<lambda>_. False),
        fs_unreadable = (\<lambda>_. False), fs_faulty = (\<lambda>_. False), fs_unwritable_dir = (\<lambda>_. False), fs_next = 1\<rparr>,
      bm_loader = harddisk_registered built_in_block_drivers, bm_images = (\<lambda>_. None), bm_next = 0\<rparr>"

definition plain_files :: archive_library where
  "plain_files = \<lparr>al_gunzip = (\<lambda>_. ([], False, Z_OTHER)), al_zip_entries = (\<lambda>_. Inl ZIP_ER_OTHER),
     al_temp_dir = [], al_mkstemp = (\<lambda>_ _. None)\<rparr>"

definition block_host :: "(unit, block_media) harddisks" where
  "block_host = disks.extend (mockingboards.extend blank_sound (disks.fields (\<lambda>_. new_disk_card 6) ()))
     (harddisks.fields (\<lambda>_. new_harddisk_card 7) two_block_media)"

definition block_host_inserted :: "(unit, block_media) harddisks" where
  "block_host_inserted = snd (insert_harddisk_into_drive (block_media_api plain_files) 0 0 ''a.po'' False block_host)"

lemma built_in_block_registry:
  "hl_registry (harddisk_registered built_in_block_drivers) =
     [two_img_driver, do_block_driver, nibble_refusal_driver, po_block_driver]"
  by (simp add: harddisk_registered_def built_in_block_drivers_def harddisk_loader_register_permanent_def
      admit_block_driver_def unusable_block_driver_def empty_harddisk_loader_def harddisk_driver_label_def
      two_img_driver_def do_block_driver_def nibble_refusal_driver_def po_block_driver_def block_driver_def)

definition two_block_image :: block_disk_image where
  "two_block_image = \<lparr>bi_file = 0, bi_path = ''a.po'', bi_data_offset = 0, bi_total_blocks = 2,
     bi_host_read_only = False, bi_order = block_disk_order_prodos\<rparr>"

lemma two_block_name:
  "\<not> has_extension ''a.po'' ''gz''" "\<not> has_extension ''a.po'' ''zip''" "extension_hint ''a.po'' = ''.po''"
  by code_simp+

lemma two_block_path:
  "image_container_prepare_compressed_path al ''a.po'' 512 33554432 fs = (Inr (''a.po'', False), fs)"
  "image_container_payload_name al ''a.po'' 512 fs = Inr ''a.po''"
  by (simp_all add: image_container_prepare_compressed_path_def image_container_payload_name_def two_block_name
      copy_whole_def file_part_def after_last_def)

lemma two_block_header: "image_container_detect_macbinary (replicate 1024 0) 1024 = 0"
  by code_simp

lemma two_block_driver:
  "best_block_driver [two_img_driver, do_block_driver, nibble_refusal_driver, po_block_driver]
     (replicate 1024 0) 1024 ''.po'' None = Some po_block_driver"
proof -
  have magics: "replicate 4 0 \<noteq> string_bytes ''2IMG''" "replicate 4 0 \<noteq> string_bytes ''WOZ1''"
    "replicate 4 0 \<noteq> string_bytes ''WOZ2''" by code_simp+
  have "two_img_probe (replicate 1024 0) 1024 ''.po'' = harddisk_probe_no"
    "do_block_probe (replicate 1024 0) 1024 ''.po'' = harddisk_probe_no"
    "nibble_refusal_probe (replicate 1024 0) 1024 ''.po'' = harddisk_probe_no"
    "po_block_probe (replicate 1024 0) 1024 ''.po'' = harddisk_probe_possible"
    by (simp_all add: two_img_probe_def do_block_probe_def nibble_refusal_probe_def po_block_probe_def
        block_disk_image_probe_signature_def magics is_dos_order_name_def is_two_img_name_def
        is_prodos_order_name_def)
  then show ?thesis
    by (simp add: two_img_driver_def do_block_driver_def nibble_refusal_driver_def po_block_driver_def block_driver_def)
qed

lemma two_block_open:
  "block_disk_image_open ''a.po'' 0 block_disk_order_prodos 0 False (bm_files two_block_media) = Inr two_block_image"
  by (simp add: block_disk_image_open_def two_block_media_def two_block_image_def fopen_def stream_size_def)

lemma two_block_loaded:
  "block_open al ''a.po'' two_block_media =
     (Inr 0, two_block_media\<lparr>bm_images := [0 \<mapsto> (po_block_driver, two_block_image)], bm_next := 1\<rparr>)"
proof -
  have opens: "fopen ''a.po'' False (bm_files two_block_media) = Inr 0"
    "stream_size 0 (bm_files two_block_media) = 1024"
    "fread_at 0 0 probe_header_size (bm_files two_block_media) = Some (replicate 1024 0)"
    by (simp_all add: two_block_media_def fopen_def stream_size_def fread_at_def)
  have "hf_open po_block_driver = Some (\<lambda>path off ro. block_disk_image_open path off block_disk_order_prodos 0 ro)"
    "driver_lists_extension po_block_driver ''.po''"
    by (simp_all add: po_block_driver_def block_driver_def driver_lists_extension_def)
  then have "open_prepared_block al (bm_loader two_block_media) ''a.po'' ''a.po'' False (bm_files two_block_media) =
      (Inr (po_block_driver, two_block_image), bm_loader two_block_media)"
    by (simp add: open_prepared_block_def opens two_block_header two_block_path two_block_name two_block_open
        note_name_overridden_def two_block_driver built_in_block_registry
        two_block_media_def [THEN arg_cong, of bm_loader, simplified] Let_def del: best_block_driver.simps)
  then show ?thesis
    by (simp add: block_open_def harddisk_loader_open_def two_block_path) (simp add: two_block_media_def)
qed

lemma block_host_simps [simp]:
  "hdmedia block_host = two_block_media" "hdcards block_host i = new_harddisk_card 7"
  by (simp_all add: block_host_def harddisks.defs disks.defs mockingboards.defs)

lemma block_host_opens:
  "hd_is_loaded (hd_drives (hdcards block_host_inserted 0) 0)"
  "vol_blocks (volume_in plain_files 0 0 block_host_inserted) = 2"
  "\<not> vol_protected (volume_in plain_files 0 0 block_host_inserted)"
  by (simp_all add: block_host_inserted_def insert_harddisk_into_drive_def new_harddisk_card_def new_harddisk_def
      Let_def block_media_api_def two_block_loaded update_image_metadata_def volume_in_def total_blocks_def
      is_write_protected_def block_method_def po_block_driver_def block_driver_def two_block_image_def)

definition sevens :: "u8 list" where
  "sevens = replicate 512 7"

lemma length_sevens: "length sevens = 512"
  by (simp add: sevens_def)

lemma inserted_image_is_a_volume_witness:
  "fst (driver_calls (block_media_api plain_files) 0 0
     [BlockWrite 1 sevens, BlockRead 1, BlockRead 2, BlockStatus] block_host_inserted) =
   [(0, [], 0), (0, sevens, 0), (0x27, [], 0), (0, [], 2)]"
proof -
  let ?cs = "[BlockWrite 1 sevens, BlockRead 1, BlockRead 2, BlockStatus]"
  have registry: "set (hl_registry (bm_loader (hdmedia block_host))) \<subseteq> set built_in_block_drivers"
    using harddisk_registered_subset by (simp add: two_block_media_def)
  have card: "length (hd_buffer (hdcards block_host 0)) = 512" "\<not> hd_buffer_poisoned (hdcards block_host 0)"
    by (simp_all add: new_harddisk_card_def)
  have u: "unit_drive 0 = 0" by (simp add: unit_drive_def)
  have full: "list_all whole_call ?cs" by (simp add: length_sevens)
  have "fst (driver_calls (block_media_api plain_files) 0 0 ?cs block_host_inserted) =
      fst (volume_calls ?cs (volume_in plain_files 0 0 block_host_inserted))"
    using inserted_image_is_a_volume [OF registry card, of block_host_inserted plain_files 0 "''a.po''" False ?cs,
        unfolded u, OF block_host_inserted_def block_host_opens(1) full refl refl] by blast
  also have "\<dots> = [(0, [], 0), (0, sevens, 0), (0x27, [], 0), (0, [], 2)]"
    using block_host_opens(2,3) by simp
  finally show ?thesis .
qed

end
