(* ===== verification/Spec2Isabelle.thy ===== *)
theory Spec2Isabelle
  imports Cpu_Props Cpu_Alu Cpu_Tables Peripheral_Props Keyboard_Behaviour Mockingboard_Behaviour Ay_Props Disk_Track_Props
    Disk_Reading Disk_Protection Sector_Image_Props Harddisk_Media
begin

text \<open>
  \<^bold>\<open>A verification library for the LinApple emulator core.\<close>

  LinApple emulates an Apple II.  The program (everything under \<open>src/src\<close>) is a core
  library and several front ends.  The core is a 6502 or 65C02 processor
  (\<open>apple2/CPU.cpp\<close>), a memory unit that maps 256 pages onto banks and dispatches the I/O
  page (\<open>apple2/Memory.cpp\<close>), the video scanner, a registry of peripherals with the chips
  and cards plugged into it, and media formats.  The processor calls the memory unit's
  handlers for addresses in \<open>C000-CFFF\<close>; handlers call cards; cards assert interrupt lines and
  may end the running slice.

  \<^bold>\<open>The theories.\<close>
  \<^item> \<open>Prelude\<close>: words of the program's widths, bit extensionality, the collections
    \<open>frame\<close> and \<open>pres\<close>.
  \<^item> \<open>Machine\<close>: the globals the processor works on as one extensible record; the program's
    buffers are regions of a store, because the page tables alias them.
  \<^item> \<open>Cpu_Context\<close>, \<open>Cpu_Ops\<close>, \<open>Cpu_Arith\<close>: \<open>CpuLoopContext\<close> of \<open>CPU.cpp\<close>, one
    definition per member function; \<open>Cpu_Nmos\<close>, \<open>Cpu_Cmos\<close>: the two opcode tables, one
    definition per row of sixteen entries.
  \<^item> \<open>Cpu_Exec\<close>: the execution loop (a partial function, since a frame whose instructions take
    no cycle would not end), frames, slices, interrupt lines, reset, contexts, snapshots and
    the benchmark program.
  \<^item> \<open>Cpu_Bus\<close>, \<open>Cpu_Invariant\<close>, \<open>Cpu_Loop\<close>, \<open>Cpu_Api\<close>: the contract \<open>io_bus\<close>
    of the handlers as a locale; under it every one of the 512 table entries keeps the stack in
    page one and adds between 1 and 24 cycles, hence the loop ends and its accounts balance.
  \<^item> \<open>Cpu_Flow\<close>, \<open>Cpu_Alu\<close>, \<open>Cpu_Tables\<close>, \<open>Cpu_Props\<close>: the properties of the processor:
    calls and interrupts return, binary and decimal arithmetic, regularity of the tables,
    totality and accounting, interrupts, snapshots, context switches.
  \<^item> \<open>Memory_State\<close>, \<open>Memory_Unit\<close>, \<open>Memory_Io\<close>: the memory unit of \<open>Memory.cpp\<close> (page tables,
    soft switches, slot and expansion ROM, the dispatcher, reset, snapshot) and the switch inputs;
    \<open>Memory_Map\<close>, \<open>Memory_Model\<close>, \<open>Memory_Refine\<close>: the abstract memory map (a function of the
    mode flags from addresses to banks) and the simulation; \<open>Memory_Bus\<close>: the locale
    \<open>motherboard\<close>, by which the dispatcher is a lawful bus if the cards are; \<open>Memory_Props\<close>.
  \<^item> \<open>Video_Circuits\<close>, \<open>Video_Props\<close>: what a program observes of \<open>Video.cpp\<close>: switches, the
    scanner's address, blanking, flash, the frame counter.
  \<^item> \<open>Peripheral_State\<close>, \<open>Peripheral_Host\<close>, \<open>Peripheral_Manager\<close>: \<open>Peripheral.cpp\<close> with the
    entry points of the cards as a parameter (\<open>card_code\<close>); \<open>Core_Session\<close>: the run loop of
    \<open>LinAppleCore.cpp\<close>; \<open>Card_Contract\<close>: the locale \<open>slot_cards\<close>, what the core relies on from
    every card, and the punctuality of events under it; \<open>Session_Props\<close>,
    \<open>Peripheral_Props\<close>: frames return, events on time, commands, manifest, byte sinks.
  \<^item> \<open>Keyboard\<close>, \<open>Keyboard_Props\<close>, \<open>Keyboard_Behaviour\<close>: \<open>Keyboard.cpp\<close>, its place under the
    contract, and what the registers and the auto-repeat do.
  \<^item> \<open>Via_6522\<close>, \<open>Via_Props\<close>: the 6522 of \<open>chips/6522.cpp\<close>, whose timers skip from underflow
    to underflow (locale \<open>countdown\<close>, interpreted for both timers: skipping is ticking);
    \<open>Ay_8910\<close>, \<open>Ay_Props\<close>: the AY-3-8910 of \<open>chips/AY8910.cpp\<close> against its data sheet;
    \<open>Mockingboard\<close>, \<open>Mockingboard_Props\<close>, \<open>Mockingboard_Behaviour\<close>: \<open>Mockingboard.cpp\<close>, two
    of each on one interrupt line: every entry point is a change of the chips and a drive of the
    line, hence its invariant, the independence of slicing, its bus protocol and its save state.
  \<^item> \<open>Disk_Encoding\<close>, \<open>Disk_Track\<close>, \<open>Disk_Bits\<close>, \<open>Disk_Track_Props\<close>: the 6-and-2 code
    of \<open>DiskEncoding.cpp\<close>, tracks of nibbles, tracks of bit cells, and their round trips.
  \<^item> \<open>Disk_Drive\<close>, \<open>Disk_Controller\<close>: the Disk II card of \<open>Disk.cpp\<close>, the drives and the
    stepper, the state sequencer with its P6 program, the switches, commands and save state; format
    drivers are a table of functions (\<open>format_api\<close>).  \<open>Disk_Sequencer\<close>, \<open>Disk_Reading\<close>: what the
    sequencer does while a program reads, cell by cell, up to whole formatted tracks.
  \<^item> \<open>Host_Files\<close>: the host's files as the C library shows them; \<open>Sector_Image\<close>,
    \<open>Nibble_Image\<close>, \<open>Woz_Image\<close>: the image formats DO, PO, NIB, NB2, IIE, WOZ 1 and WOZ 2;
    \<open>Sector_Image_Props\<close>: tracks through a sector image.  \<open>Disk_Loader\<close>,
    \<open>Disk_Loader_Props\<close>: archives, the registry of drivers, opening and creating images
    (\<open>DiskLoader.cpp\<close>, \<open>ImageContainer.cpp\<close>).
  \<^item> \<open>Disk_Invariant\<close>: the card against the locale \<open>format_drivers\<close> of what it relies on;
    \<open>Disk_Media\<close> interprets it on the built-in drivers behind the loader, \<open>Disk_Card\<close> the
    slot contract on the card; \<open>Disk_Protection\<close>: write protection.

  \<^item> \<open>Block_Image\<close>, \<open>Harddisk_Loader\<close>, \<open>Harddisk\<close>: block images, the registry of block
    drivers and the hard disk card (\<open>BlockDiskImage.cpp\<close>, \<open>TwoImgDriver.cpp\<close>,
    \<open>HarddiskLoader.cpp\<close>, \<open>Harddisk.cpp\<close>).  \<open>Block_Image_Props\<close>: images as stores of blocks;
    \<open>Harddisk_Props\<close>: the firmware's calls, the abstract volume and the locale \<open>block_store\<close> of
    what the card relies on; \<open>Harddisk_Media\<close> interprets it on the built-in drivers.

  \<^bold>\<open>Conventions.\<close>  A buffer handed over by pointer and filled is a list that is returned; a
  null pointer is a \<open>None\<close> or a \<open>False\<close> flag; an error code is the left of a sum.  Machine
  integers are words of their width.  Atomics and the interrupt mutex are sequential.

  \<^bold>\<open>Bounds.\<close>  The execution loop has no fuel: its totality is proved for frames shorter
  than \<open>2 ^ 32 - 24\<close> cycles, beyond which the 32-bit cycle count may wrap.  Statements about
  the 64-bit clock assume it below \<open>2 ^ 62\<close>, over a hundred thousand years.

  \<^bold>\<open>Not modelled.\<close>  Pixel rendering, host I/O (files, sockets, windows, audio devices), plugins
  loaded from shared objects, the frontend's callbacks and the BASIC live sync in the frame loop,
  the debugger's text interface and the front ends.  Of the cards and chips, the Super Serial
  Card with its 6551, the mouse card with its 6821, the clock, printer and joystick cards and the
  speaker are left out, as are the configuration registry, the program loader and the FTP
  listing parser.  A card's handler does not add or remove cards.
\<close>

end
